(* ===== verification/Mult_Prelude.thy ===== *)
theory Mult_Prelude
  imports Main "HOL-Library.Word" "HOL-Library.Product_Lexorder"
begin

text \<open>
  What every theory of the development shares: the names of Rust's machine types, the
  arithmetic of the standard library that the code relies on (\<open>checked_add\<close>,
  \<open>saturating_add\<close>), the sum type of fallible operations with its sequencing, and the list
  lemmas several components need. The collections \<open>frame\<close> (what an operation leaves
  unchanged) and \<open>sums\<close> (sequencing of fallible operations) are filled here and by the
  components.
\<close>

named_theorems frame
named_theorems sums

section \<open>Machine types\<close>

type_synonym u8 = "8 word"
type_synonym u16 = "16 word"
type_synonym u32 = "32 word"
type_synonym u64 = "64 word"

text \<open>
  Byte strings are lists of \<open>u8\<close>. A length, a count or an index (\<open>usize\<close>) is a
  natural number; where the code adds two of them with an explicit overflow rule, the rule is
  written out against \<open>usize_max\<close>, the largest value on a 64-bit target. An opaque
  16-byte identity (\<open>[u8; 16]\<close>) is read as one big-endian 128-bit number: equality, the
  lexicographic order of the array and the test against all-zero are those of the number.
\<close>

type_synonym bytes = "u8 list"
type_synonym bytes16 = "128 word"

definition usize_max :: nat where
  "usize_max = 18446744073709551615"

definition sat_add :: "nat \<Rightarrow> nat \<Rightarrow> nat" where
  "sat_add a b = min (a + b) usize_max"

definition u64_checked_add :: "u64 \<Rightarrow> u64 \<Rightarrow> u64 option" where
  "u64_checked_add a b = (if unat a + unat b < 2 ^ 64 then Some (a + b) else None)"

lemma sat_add_le: "sat_add a b \<le> c \<Longrightarrow> c < usize_max \<Longrightarrow> a + b \<le> c"
  by (auto simp: sat_add_def min_def split: if_splits)

lemma unat_add_no_overflow:
  "unat (a::u64) + unat b < 2 ^ 64 \<Longrightarrow> unat (a + b) = unat a + unat b"
  by (simp add: unat_word_ariths)

lemma unat_u64_less: "unat (a::u64) < 18446744073709551616"
  using unsigned_less [of a] by simp

lemma u64_checked_add_Some_iff:
  "u64_checked_add a b = Some c \<longleftrightarrow> unat c = unat a + unat b"
proof
  assume "u64_checked_add a b = Some c"
  then show "unat c = unat a + unat b"
    by (auto simp: u64_checked_add_def unat_add_no_overflow split: if_splits)
next
  assume c: "unat c = unat a + unat b"
  then have "unat a + unat b < 2 ^ 64"
    using unat_u64_less [of c] by simp
  then show "u64_checked_add a b = Some c"
    using c by (simp add: u64_checked_add_def unat_add_no_overflow word_unat_eq_iff)
qed

lemma u64_checked_add_None_iff:
  "u64_checked_add a b = None \<longleftrightarrow> 2 ^ 64 \<le> unat a + unat b"
  by (auto simp: u64_checked_add_def)

section \<open>Fallible operations\<close>

fun bind_sum :: "'e + 'a \<Rightarrow> ('a \<Rightarrow> 'e + 'b) \<Rightarrow> 'e + 'b" where
  "bind_sum (Inl e) f = Inl e"
| "bind_sum (Inr x) f = f x"

fun map_err :: "('e \<Rightarrow> 'f) \<Rightarrow> 'e + 'a \<Rightarrow> 'f + 'a" where
  "map_err g (Inl e) = Inl (g e)"
| "map_err g (Inr x) = Inr x"

lemma bind_sum_Inr_iff [sums]: "bind_sum r f = Inr y \<longleftrightarrow> (\<exists>x. r = Inr x \<and> f x = Inr y)"
  by (cases r) auto

lemma bind_sum_Inl_iff [sums]:
  "bind_sum r f = Inl e \<longleftrightarrow> r = Inl e \<or> (\<exists>x. r = Inr x \<and> f x = Inl e)"
  by (cases r) auto

lemma map_err_Inr_iff [sums]: "map_err g r = Inr y \<longleftrightarrow> r = Inr y"
  by (cases r) auto

section \<open>Lists\<close>

lemma concat_snoc [simp]: "concat (xss @ [xs]) = concat xss @ xs"
  by simp

lemma length_concat_bound:
  "(\<And>xs. xs \<in> set xss \<Longrightarrow> length xs \<le> n) \<Longrightarrow> length (concat xss) \<le> n * length xss"
proof (induction xss)
  case Nil
  then show ?case by simp
next
  case (Cons xs xss)
  have "length xs \<le> n" and "length (concat xss) \<le> n * length xss"
    using Cons by auto
  then show ?case by (simp add: algebra_simps)
qed

lemma drop_append_drop:
  "n \<le> length xs \<Longrightarrow> drop n (xs @ ys) = drop n xs @ ys"
  by simp

end
