(* ===== verification/Ordered_Map.thy ===== *)
theory Ordered_Map
  imports Mult_Prelude
begin

text \<open>
  The ordered maps of the standard library (\<open>BTreeMap\<close>, \<open>BTreeSet\<close>) that the daemon's state
  is made of. The interface \<open>ordered_map\<close> states the laws the daemon relies on: lookup after
  insert and remove, iteration in key order, each key once. What the clients of the interface
  need (counting the values with a property, the least key with a property) is proved once,
  inside the interface. The type \<open>btmap\<close> provides it: lists of entries with strictly
  increasing keys, so that two maps with the same entries are equal, as in Rust.
\<close>

section \<open>The interface\<close>

locale ordered_map =
  fixes get :: "'m \<Rightarrow> 'k::linorder \<Rightarrow> 'v option"
    and ins :: "'k \<Rightarrow> 'v \<Rightarrow> 'm \<Rightarrow> 'm"
    and del :: "'k \<Rightarrow> 'm \<Rightarrow> 'm"
    and entries :: "'m \<Rightarrow> ('k \<times> 'v) list"
  assumes get_ins: "get (ins k v m) j = (if j = k then Some v else get m j)"
    and get_del: "get (del k m) j = (if j = k then None else get m j)"
    and keys_increasing: "sorted_wrt (<) (map fst (entries m))"
    and map_of_entries: "map_of (entries m) = get m"
begin

lemma keys_distinct: "distinct (map fst (entries m))"
  using keys_increasing [of m] by (simp add: strict_sorted_iff)

lemma entries_iff: "(k, v) \<in> set (entries m) \<longleftrightarrow> get m k = Some v"
  using map_of_eq_Some_iff [OF keys_distinct] by (simp add: map_of_entries)

lemma entries_set: "set (entries m) = {(k, v). get m k = Some v}"
  by (auto simp: entries_iff)

lemma entries_distinct: "distinct (entries m)"
  using keys_distinct [of m] by (simp add: distinct_map)

text \<open>Counting entries with a property is counting the finite set of such entries.\<close>

lemma count_as_card:
  "length (filter P (entries m)) = card {(k, v). get m k = Some v \<and> P (k, v)}"
proof -
  have "length (filter P (entries m)) = card (set (filter P (entries m)))"
    using entries_distinct by (simp add: distinct_card distinct_filter del: set_filter)
  also have "set (filter P (entries m)) = {(k, v). get m k = Some v \<and> P (k, v)}"
    by (auto simp: entries_set)
  finally show ?thesis .
qed

lemma finite_entries: "finite {(k, v). get m k = Some v \<and> P (k, v)}"
proof -
  have "{(k, v). get m k = Some v \<and> P (k, v)} \<subseteq> set (entries m)"
    by (auto simp: entries_set)
  then show ?thesis by (rule finite_subset) simp
qed

lemma count_del:
  "length (filter P (entries (del k m))) =
     length (filter P (entries m)) -
     (case get m k of None \<Rightarrow> 0 | Some v \<Rightarrow> if P (k, v) then 1 else 0)"
proof -
  let ?S = "\<lambda>m. {(k, v). get m k = Some v \<and> P (k, v)}"
  have eq: "?S (del k m) = ?S m - {(k, v) |v. get m k = Some v \<and> P (k, v)}"
    by (auto simp: get_del split: if_splits)
  show ?thesis
  proof (cases "\<exists>v. get m k = Some v \<and> P (k, v)")
    case True
    then obtain v where v: "get m k = Some v" "P (k, v)" by blast
    then have "?S (del k m) = ?S m - {(k, v)}" using eq by auto
    then have "card (?S (del k m)) = card (?S m) - 1"
      using v by (simp add: card_Diff_singleton)
    then show ?thesis using v by (simp add: count_as_card)
  next
    case False
    then have "?S (del k m) = ?S m" using eq by auto
    then show ?thesis using False by (auto simp: count_as_card split: option.splits)
  qed
qed

lemma count_ins:
  "length (filter P (entries (ins k v m))) =
     length (filter P (entries m)) -
     (case get m k of None \<Rightarrow> 0 | Some w \<Rightarrow> if P (k, w) then 1 else 0) +
     (if P (k, v) then 1 else 0)"
proof -
  let ?S = "\<lambda>m. {(k, v). get m k = Some v \<and> P (k, v)}"
  have fin: "finite (?S (del k m))" by (rule finite_entries)
  have "?S (ins k v m) = ?S (del k m) \<union> (if P (k, v) then {(k, v)} else {})"
    by (auto simp: get_del get_ins split: if_splits)
  moreover have "(k, v) \<notin> ?S (del k m)"
    by (simp add: get_del)
  ultimately have "card (?S (ins k v m)) = card (?S (del k m)) + (if P (k, v) then 1 else 0)"
    using fin by (simp del: mem_Collect_eq)
  then show ?thesis by (simp add: count_as_card [symmetric] count_del)
qed

text \<open>Deleting an entry with the property that is there lowers the count by one.\<close>

lemma count_del_less:
  assumes "get m k = Some v" and "P (k, v)"
  shows "length (filter P (entries (del k m))) < length (filter P (entries m))"
proof -
  have "(k, v) \<in> set (filter P (entries m))"
    using assms by (simp add: entries_iff)
  then have "0 < length (filter P (entries m))"
    by (simp only: length_pos_if_in_set)
  then show ?thesis using assms by (simp add: count_del)
qed

text \<open>The first entry with a property in iteration order has the least such key.\<close>

lemma find_entry_least:
  assumes "find P (entries m) = Some (k, v)"
  shows "get m k = Some v \<and> P (k, v) \<and> (\<forall>j w. get m j = Some w \<and> P (j, w) \<longrightarrow> k \<le> j)"
proof -
  from assms obtain i where i: "i < length (entries m)" "entries m ! i = (k, v)" "P (k, v)"
    and before: "\<forall>j<i. \<not> P (entries m ! j)"
    by (auto simp: find_Some_iff)
  have "k \<le> j" if "get m j = Some w" "P (j, w)" for j w
  proof -
    from that(1) obtain n where n: "n < length (entries m)" "entries m ! n = (j, w)"
      by (metis entries_iff in_set_conv_nth)
    with before that(2) have "i \<le> n" by (metis not_less)
    then show ?thesis
      using sorted_wrt_nth_less [OF keys_increasing, of i n m] i n
      by (cases "i = n") auto
  qed
  moreover have "get m k = Some v"
    using i by (metis entries_iff nth_mem)
  ultimately show ?thesis using i by blast
qed

lemma find_entry_None: "find P (entries m) = None \<longleftrightarrow> (\<forall>k v. get m k = Some v \<longrightarrow> \<not> P (k, v))"
  by (auto simp: find_None_iff entries_iff)

end

section \<open>The type of ordered maps\<close>

typedef (overloaded) ('k::linorder, 'v) btmap =
  "{es :: ('k \<times> 'v) list. sorted_wrt (<) (map fst es)}"
  morphisms btm_entries Btmap
proof
  show "[] \<in> {es :: ('k \<times> 'v) list. sorted_wrt (<) (map fst es)}" by simp
qed

setup_lifting type_definition_btmap

fun alist_insert :: "'k::linorder \<Rightarrow> 'v \<Rightarrow> ('k \<times> 'v) list \<Rightarrow> ('k \<times> 'v) list" where
  "alist_insert k v [] = [(k, v)]"
| "alist_insert k v ((j, w) # es) =
     (if k < j then (k, v) # (j, w) # es
      else if k = j then (k, v) # es
      else (j, w) # alist_insert k v es)"

lemma set_alist_insert: "fst ` set (alist_insert k v es) = insert k (fst ` set es)"
  by (induction k v es rule: alist_insert.induct) auto

lemma sorted_alist_insert:
  "sorted_wrt (<) (map fst es) \<Longrightarrow> sorted_wrt (<) (map fst (alist_insert k v es))"
proof (induction k v es rule: alist_insert.induct)
  case (1 k v)
  then show ?case by simp
next
  case (2 k v j w es)
  have keys: "fst p = k \<or> fst p \<in> fst ` set es" if "p \<in> set (alist_insert k v es)" for p
    using that set_alist_insert [of k v es] by blast
  show ?case using 2 by (fastforce dest: keys)
qed

lemma map_of_alist_insert:
  "sorted_wrt (<) (map fst es) \<Longrightarrow> map_of (alist_insert k v es) = (map_of es)(k \<mapsto> v)"
  by (induction k v es rule: alist_insert.induct) (auto simp: fun_eq_iff)

lemma sorted_filter_keys:
  "sorted_wrt (<) (map fst es) \<Longrightarrow> sorted_wrt (<) (map fst (filter P es))"
  by (induction es) auto

lift_definition btm_empty :: "('k::linorder, 'v) btmap" is "[]"
  by simp

lift_definition btm_insert :: "'k::linorder \<Rightarrow> 'v \<Rightarrow> ('k, 'v) btmap \<Rightarrow> ('k, 'v) btmap"
  is alist_insert
  by (rule sorted_alist_insert)

lift_definition btm_filter ::
    "('k::linorder \<times> 'v \<Rightarrow> bool) \<Rightarrow> ('k, 'v) btmap \<Rightarrow> ('k, 'v) btmap"
  is filter
  by (rule sorted_filter_keys)

lift_definition btm_map_values :: "('v \<Rightarrow> 'w) \<Rightarrow> ('k::linorder, 'v) btmap \<Rightarrow> ('k, 'w) btmap"
  is "\<lambda>f. map (\<lambda>(k, v). (k, f v))"
  by (simp add: comp_def case_prod_unfold)

definition btm_get :: "('k::linorder, 'v) btmap \<Rightarrow> 'k \<Rightarrow> 'v option" where
  "btm_get m k = map_of (btm_entries m) k"

definition btm_remove :: "'k::linorder \<Rightarrow> ('k, 'v) btmap \<Rightarrow> ('k, 'v) btmap" where
  "btm_remove k m = btm_filter (\<lambda>(j, v). j \<noteq> k) m"

definition btm_values :: "('k::linorder, 'v) btmap \<Rightarrow> 'v list" where
  "btm_values m = map snd (btm_entries m)"

definition btm_contains :: "('k::linorder, 'v) btmap \<Rightarrow> 'k \<Rightarrow> bool" where
  "btm_contains m k \<longleftrightarrow> btm_get m k \<noteq> None"

definition btm_is_empty :: "('k::linorder, 'v) btmap \<Rightarrow> bool" where
  "btm_is_empty m \<longleftrightarrow> btm_entries m = []"

lemma btm_sorted: "sorted_wrt (<) (map fst (btm_entries m))"
  by transfer

instantiation btmap :: (linorder, equal) equal
begin

definition equal_btmap :: "('a, 'b) btmap \<Rightarrow> ('a, 'b) btmap \<Rightarrow> bool" where
  "equal_btmap m n \<longleftrightarrow> btm_entries m = btm_entries n"

instance
  by standard (simp add: equal_btmap_def btm_entries_inject)

end

lemma map_of_filter_keys:
  fixes es :: "('k::linorder \<times> 'v) list"
  shows "sorted_wrt (<) (map fst es) \<Longrightarrow>
   map_of (filter P es) k = (case map_of es k of None \<Rightarrow> None | Some v \<Rightarrow> if P (k, v) then Some v else None)"
proof -
  assume "sorted_wrt (<) (map fst es)"
  then have d: "distinct (map fst es)" and df: "distinct (map fst (filter P es))"
    using sorted_filter_keys [of es P] by (simp_all only: strict_sorted_iff)
  show ?thesis
  proof (cases "map_of (filter P es) k")
    case None
    then show ?thesis
      by (auto simp: map_of_eq_None_iff image_iff split: option.split dest: map_of_SomeD)
  next
    case (Some v)
    then have "(k, v) \<in> set es" "P (k, v)" by (auto dest: map_of_SomeD)
    with d Some show ?thesis by (simp add: map_of_eq_Some_iff)
  qed
qed

lemma btm_get_filter:
  "btm_get (btm_filter P m) k =
     (case btm_get m k of None \<Rightarrow> None | Some v \<Rightarrow> if P (k, v) then Some v else None)"
  unfolding btm_get_def by transfer (rule map_of_filter_keys)

text \<open>The type provides the interface.\<close>

interpretation btm: ordered_map btm_get btm_insert btm_remove btm_entries
proof unfold_locales
  fix m :: "('k::linorder, 'v) btmap" and k j :: 'k and v :: 'v
  show "btm_get (btm_insert k v m) j = (if j = k then Some v else btm_get m j)"
    unfolding btm_get_def by transfer (simp add: map_of_alist_insert)
  show "btm_get (btm_remove k m) j = (if j = k then None else btm_get m j)"
    by (simp add: btm_remove_def btm_get_filter split: option.splits)
  show "sorted_wrt (<) (map fst (btm_entries m))"
    by (rule btm_sorted)
  show "map_of (btm_entries m) = btm_get m"
    by (simp add: btm_get_def fun_eq_iff)
qed

lemmas btm_get_simps [simp] = btm.get_ins btm.get_del

lemma btm_get_empty [simp]: "btm_get btm_empty k = None"
  by (simp add: btm_get_def btm_empty.rep_eq)

lemma btm_entries_empty [simp]: "btm_entries btm_empty = []"
  by (simp add: btm_empty.rep_eq)

lemma btm_get_map_values [simp]: "btm_get (btm_map_values f m) k = map_option f (btm_get m k)"
  unfolding btm_get_def by transfer (induct_tac "m", auto)

lemma btm_contains_insert [simp]:
  "btm_contains (btm_insert k v m) j \<longleftrightarrow> j = k \<or> btm_contains m j"
  by (simp add: btm_contains_def)

lemma btm_contains_remove [simp]:
  "btm_contains (btm_remove k m) j \<longleftrightarrow> j \<noteq> k \<and> btm_contains m j"
  by (simp add: btm_contains_def)

lemma btm_contains_empty [simp]: "\<not> btm_contains btm_empty k"
  by (simp add: btm_contains_def)

text \<open>Two maps with the same lookups are equal.\<close>

lemma btm_eqI: "(\<And>k. btm_get m k = btm_get n k) \<Longrightarrow> m = n"
proof -
  assume eq: "\<And>k. btm_get m k = btm_get n k"
  then have set_eq: "set (btm_entries m) = set (btm_entries n)"
    by (simp add: btm.entries_set)
  have keys: "map fst (btm_entries m) = map fst (btm_entries n)"
    using set_eq btm.keys_increasing [of m] btm.keys_increasing [of n]
    by (metis list.set_map strict_sorted_equal)
  have vals: "map snd (btm_entries m') = map (\<lambda>k. the (btm_get m' k)) (map fst (btm_entries m'))"
    for m' :: "('a, 'b) btmap"
    by (auto simp: btm.entries_iff)
  have "btm_get m = btm_get n"
    using eq by blast
  then have "map snd (btm_entries m) = map snd (btm_entries n)"
    by (simp only: vals keys)
  with keys have "btm_entries m = btm_entries n"
    by (metis zip_map_fst_snd)
  then show ?thesis by (simp add: btm_entries_inject)
qed

text \<open>Sets are maps to the unit type.\<close>

type_synonym 'k btset = "('k, unit) btmap"

definition bts_insert :: "'k::linorder \<Rightarrow> 'k btset \<Rightarrow> 'k btset" where
  "bts_insert k s = btm_insert k () s"

lemma bts_contains_insert [simp]: "btm_contains (bts_insert k s) j \<longleftrightarrow> j = k \<or> btm_contains s j"
  by (simp add: bts_insert_def)

end
