(* ===== verification/Protocol_Types.thy ===== *)
theory Protocol_Types
  imports Ordered_Map
begin

text \<open>
  The wire protocol's data (\<open>crates/protocol/src/lib.rs\<close>): identifiers, the errors every
  request can be answered with and their machine-readable codes, the messages of both
  directions, and the pure policies of the crate (identifier allocation, output sequences,
  screen sizes). Newtypes are one-constructor datatypes, structs are records, enums are
  datatypes with the source's constructors. A constructor whose name two enums share carries
  the initials of its enum.
\<close>

section \<open>Identifiers\<close>

datatype session_id = SessionId (session_id_raw: u64)

datatype pane_id = PaneId (pane_id_raw: u64)

text \<open>
  The three non-zero opaque identities come from one macro: \<open>from_bytes\<close> refuses the all-zero
  array, and deserializing goes through it. The wire carries the array itself.
\<close>

datatype state_namespace = StateNamespace (namespace_bytes: bytes16)

datatype session_token = SessionToken (token_bytes: bytes16)

datatype agent_generation = AgentGeneration (generation_bytes: bytes16)

definition nonzero_from_bytes :: "(bytes16 \<Rightarrow> 'i) \<Rightarrow> bytes16 \<Rightarrow> 'i option" where
  "nonzero_from_bytes mk b = (if b = 0 then None else Some (mk b))"

definition nonzero_deserialize :: "(bytes16 \<Rightarrow> 'i) \<Rightarrow> string \<Rightarrow> bytes16 \<Rightarrow> string + 'i" where
  "nonzero_deserialize mk description b =
     (case nonzero_from_bytes mk b of
        Some i \<Rightarrow> Inr i
      | None \<Rightarrow> Inl (description @ '' cannot be all zero''))"

datatype session_identity =
  SessionIdentity (identity_namespace: state_namespace) (identity_token: session_token)

datatype client_scope_id = ClientScopeId (scope_bytes: bytes16)

datatype server_instance_id = ServerInstanceId (instance_bytes: bytes16)

datatype request_id = RequestId (request_id_get: u64)

definition request_id_new :: "u64 \<Rightarrow> request_id option" where
  "request_id_new value = (if value = 0 then None else Some (RequestId value))"

definition request_id_checked_next :: "request_id \<Rightarrow> request_id option" where
  "request_id_checked_next r =
     (case u64_checked_add (request_id_get r) 1 of
        Some value \<Rightarrow> request_id_new value
      | None \<Rightarrow> None)"

datatype attachment_lease = AttachmentLease (lease_get: u64)

definition lease_MIN :: attachment_lease where
  "lease_MIN = AttachmentLease 1"

definition lease_new :: "u64 \<Rightarrow> attachment_lease option" where
  "lease_new value = (if value = 0 then None else Some (AttachmentLease value))"

definition lease_checked_next :: "attachment_lease \<Rightarrow> attachment_lease option" where
  "lease_checked_next l =
     (case u64_checked_add (lease_get l) 1 of
        Some value \<Rightarrow> lease_new value
      | None \<Rightarrow> None)"

datatype output_sequence = OutputSequence (sequence_get: u64)

definition sequence_ZERO :: output_sequence where
  "sequence_ZERO = OutputSequence 0"

text \<open>\<open>u64::try_from(byte_count)\<close> fails only above the 64-bit range.\<close>

definition checked_add_bytes :: "output_sequence \<Rightarrow> nat \<Rightarrow> output_sequence option" where
  "checked_add_bytes s byte_count =
     (if byte_count < 2 ^ 64
      then map_option OutputSequence (u64_checked_add (sequence_get s) (of_nat byte_count))
      else None)"

subsection \<open>The derived orders of the identifiers that key the daemon's maps\<close>

instantiation session_id :: linorder
begin

definition less_eq_session_id :: "session_id \<Rightarrow> session_id \<Rightarrow> bool" where
  "less_eq_session_id a b \<longleftrightarrow> session_id_raw a \<le> session_id_raw b"

definition less_session_id :: "session_id \<Rightarrow> session_id \<Rightarrow> bool" where
  "less_session_id a b \<longleftrightarrow> session_id_raw a < session_id_raw b"

instance
  by standard (auto simp: less_eq_session_id_def less_session_id_def session_id.expand)

end

instantiation client_scope_id :: linorder
begin

definition less_eq_client_scope_id :: "client_scope_id \<Rightarrow> client_scope_id \<Rightarrow> bool" where
  "less_eq_client_scope_id a b \<longleftrightarrow> scope_bytes a \<le> scope_bytes b"

definition less_client_scope_id :: "client_scope_id \<Rightarrow> client_scope_id \<Rightarrow> bool" where
  "less_client_scope_id a b \<longleftrightarrow> scope_bytes a < scope_bytes b"

instance
  by standard (auto simp: less_eq_client_scope_id_def less_client_scope_id_def client_scope_id.expand)

end

instantiation request_id :: linorder
begin

definition less_eq_request_id :: "request_id \<Rightarrow> request_id \<Rightarrow> bool" where
  "less_eq_request_id a b \<longleftrightarrow> request_id_get a \<le> request_id_get b"

definition less_request_id :: "request_id \<Rightarrow> request_id \<Rightarrow> bool" where
  "less_request_id a b \<longleftrightarrow> request_id_get a < request_id_get b"

instance
  by standard (auto simp: less_eq_request_id_def less_request_id_def request_id.expand)

end

text \<open>A session identity is ordered by its namespace, then by its token.\<close>

fun identity_key :: "session_identity \<Rightarrow> bytes16 \<times> bytes16" where
  "identity_key (SessionIdentity (StateNamespace n) (SessionToken t)) = (n, t)"

lemma identity_key_inject: "identity_key a = identity_key b \<longleftrightarrow> a = b"
  by (cases a rule: identity_key.cases; cases b rule: identity_key.cases) simp

instantiation session_identity :: linorder
begin

definition less_eq_session_identity :: "session_identity \<Rightarrow> session_identity \<Rightarrow> bool" where
  "less_eq_session_identity a b \<longleftrightarrow> identity_key a \<le> identity_key b"

definition less_session_identity :: "session_identity \<Rightarrow> session_identity \<Rightarrow> bool" where
  "less_session_identity a b \<longleftrightarrow> identity_key a < identity_key b"

instance
  by standard
    (auto simp: less_eq_session_identity_def less_session_identity_def
      identity_key_inject [symmetric])

end

section \<open>Rejection codes\<close>

datatype reject_code =
    ProtocolMismatch
  | ProtocolOrder
  | RequestCollision
  | RetryExpired
  | TooManyPendingRequests
  | ResourceExhausted
  | UnknownSession
  | SessionAlreadyExists
  | IdentityMismatch
  | NotOwner
  | StaleLease
  | Superseded
  | InputRefused
  | AgentStatusRejected
  | ShuttingDown
  | LaunchFailed
  | DaemonInternal

fun reject_description :: "reject_code \<Rightarrow> string" where
  "reject_description ProtocolMismatch = ''protocol version mismatch''"
| "reject_description ProtocolOrder = ''protocol message out of order''"
| "reject_description RequestCollision = ''request ID collision''"
| "reject_description RetryExpired = ''request retry expired''"
| "reject_description TooManyPendingRequests = ''too many pending requests''"
| "reject_description ResourceExhausted = ''daemon identifier space exhausted''"
| "reject_description UnknownSession = ''unknown session''"
| "reject_description SessionAlreadyExists = ''session already exists''"
| "reject_description IdentityMismatch = ''session identity mismatch''"
| "reject_description NotOwner = ''not the pane'' @ [CHR 0x27] @ ''s current owner''"
| "reject_description StaleLease = ''stale attachment lease''"
| "reject_description Superseded = ''attachment superseded by a takeover''"
| "reject_description InputRefused = ''PTY input refused''"
| "reject_description AgentStatusRejected = ''agent status rejected''"
| "reject_description ShuttingDown = ''daemon is shutting down''"
| "reject_description LaunchFailed = ''failed to launch the PTY''"
| "reject_description DaemonInternal = ''internal daemon failure''"

fun is_transient :: "reject_code \<Rightarrow> bool" where
  "is_transient c \<longleftrightarrow>
     (case c of
        TooManyPendingRequests \<Rightarrow> True
      | InputRefused \<Rightarrow> True
      | ShuttingDown \<Rightarrow> True
      | _ \<Rightarrow> False)"


section \<open>Requests and their data\<close>

datatype launch_spec = LaunchShell | LaunchCommand string

datatype agent_kind = Pi | ClaudeCode | Codex

record agent_metadata =
  md_schema_version :: u16
  md_chat_id :: u64
  md_agent :: agent_kind
  md_generation :: agent_generation

datatype agent_status = Idle | Running | Waiting | Finished | Failed | Exited

fun is_final :: "agent_status \<Rightarrow> bool" where
  "is_final s \<longleftrightarrow> (case s of Failed \<Rightarrow> True | Exited \<Rightarrow> True | _ \<Rightarrow> False)"

record agent_status_record =
  sr_schema_version :: u16
  sr_identity :: session_identity
  sr_chat_id :: u64
  sr_agent :: agent_kind
  sr_generation :: agent_generation
  sr_status :: agent_status

record agent_status_query =
  sq_schema_version :: u16
  sq_identity :: session_identity
  sq_chat_id :: u64
  sq_agent :: agent_kind
  sq_generation :: agent_generation

record session_info =
  si_id :: session_id
  si_identity :: session_identity
  si_name :: string
  si_pane :: pane_id
  si_attached :: bool

record pane_info =
  pi_id :: pane_id
  pi_title :: string
  pi_rows :: u16
  pi_cols :: u16

record foreground_info =
  fg_root_pid :: "u32 option"
  fg_foreground_pid :: "u32 option"
  fg_command :: "string option"

record exit_info =
  ex_code :: u32
  ex_signal :: "string option"

text \<open>The body of \<open>CreateSession\<close>, kept as one record; the environment is an ordered map.\<close>

record create_request =
  cr_request_id :: request_id
  cr_identity :: session_identity
  cr_requested_id :: "session_id option"
  cr_agent :: "agent_metadata option"
  cr_name :: string
  cr_cwd :: "string option"
  cr_env :: "(string \<times> string) list"
  cr_launch :: launch_spec
  cr_rows :: u16
  cr_cols :: u16

datatype client_message =
    CHello u16 "client_scope_id option"
  | CListSessions state_namespace
  | CCreateSession create_request
  | CAttach request_id session_identity session_id u16 u16
  | CInput pane_id attachment_lease bytes
  | CPaste pane_id attachment_lease bytes
  | CResize pane_id attachment_lease u16 u16
  | CDetach pane_id attachment_lease
  | CStop request_id session_identity pane_id attachment_lease
  | CUpdateAgentStatus request_id agent_status_record
  | CGetAgentStatus request_id agent_status_query

section \<open>Outcomes, errors and their codes\<close>

datatype identity_mismatch = MismatchNamespace | MismatchToken

datatype agent_status_error =
    ASRequestCollision
  | ASRetryExpired
  | ASWrongSchema u16 u16
  | ASSessionNotFound session_identity
  | ASIdentityMismatch identity_mismatch
  | ASNotAgentSession session_identity
  | ASWrongChat u64 u64
  | ASWrongAgent agent_kind agent_kind
  | ASStaleGeneration agent_generation agent_generation
  | ASFinalStatusConflict agent_status agent_status
  | ASFailed reject_code string

fun agent_status_error_code :: "agent_status_error \<Rightarrow> reject_code" where
  "agent_status_error_code ASRequestCollision = RequestCollision"
| "agent_status_error_code ASRetryExpired = RetryExpired"
| "agent_status_error_code (ASSessionNotFound _) = UnknownSession"
| "agent_status_error_code (ASIdentityMismatch _) = IdentityMismatch"
| "agent_status_error_code (ASWrongSchema _ _) = AgentStatusRejected"
| "agent_status_error_code (ASNotAgentSession _) = AgentStatusRejected"
| "agent_status_error_code (ASWrongChat _ _) = AgentStatusRejected"
| "agent_status_error_code (ASWrongAgent _ _) = AgentStatusRejected"
| "agent_status_error_code (ASStaleGeneration _ _) = AgentStatusRejected"
| "agent_status_error_code (ASFinalStatusConflict _ _) = AgentStatusRejected"
| "agent_status_error_code (ASFailed code _) = code"

datatype agent_status_outcome =
    ASUpdated agent_status_record
  | ASCurrent "agent_status_record option"
  | ASError agent_status_error

datatype create_error =
    CERequestCollision
  | CERetryExpired
  | CESessionAlreadyExists session_info
  | CEIdentityAlreadyExists session_info
  | CEIdentityMismatch session_id identity_mismatch
  | CEInvalidAgentMetadata agent_status_error
  | CEFailed reject_code string

fun create_error_code :: "create_error \<Rightarrow> reject_code" where
  "create_error_code CERequestCollision = RequestCollision"
| "create_error_code CERetryExpired = RetryExpired"
| "create_error_code (CESessionAlreadyExists _) = SessionAlreadyExists"
| "create_error_code (CEIdentityAlreadyExists _) = SessionAlreadyExists"
| "create_error_code (CEIdentityMismatch _ _) = IdentityMismatch"
| "create_error_code (CEInvalidAgentMetadata e) = agent_status_error_code e"
| "create_error_code (CEFailed code _) = code"

datatype create_outcome = COCreated session_info | COError create_error

datatype attach_error =
    AERequestCollision
  | AERetryExpired
  | AESessionNotFound session_id
  | AEIdentityMismatch session_id identity_mismatch
  | AESuperseded
  | AEFailed reject_code string

fun attach_error_code :: "attach_error \<Rightarrow> reject_code" where
  "attach_error_code AERequestCollision = RequestCollision"
| "attach_error_code AERetryExpired = RetryExpired"
| "attach_error_code (AESessionNotFound _) = UnknownSession"
| "attach_error_code (AEIdentityMismatch _ _) = IdentityMismatch"
| "attach_error_code AESuperseded = Superseded"
| "attach_error_code (AEFailed code _) = code"

datatype attach_outcome =
    AOAttached session_id pane_info attachment_lease
  | AOError attach_error

datatype lease_operation = OpInput | OpPaste | OpResize | OpDetach

datatype lease_rejection_reason = LRPaneMissing | LRNotOwner | LRStaleLease | LRWriteRefused

fun lease_rejection_code :: "lease_rejection_reason \<Rightarrow> reject_code" where
  "lease_rejection_code LRPaneMissing = UnknownSession"
| "lease_rejection_code LRNotOwner = NotOwner"
| "lease_rejection_code LRStaleLease = StaleLease"
| "lease_rejection_code LRWriteRefused = InputRefused"

datatype stop_error =
    SERequestCollision
  | SERetryExpired
  | SEIdentityMismatch pane_id identity_mismatch
  | SELeaseRejected lease_rejection_reason
  | SEFailed reject_code string

fun stop_error_code :: "stop_error \<Rightarrow> reject_code" where
  "stop_error_code SERequestCollision = RequestCollision"
| "stop_error_code SERetryExpired = RetryExpired"
| "stop_error_code (SEIdentityMismatch _ _) = IdentityMismatch"
| "stop_error_code (SELeaseRejected reason) = lease_rejection_code reason"
| "stop_error_code (SEFailed code _) = code"

datatype stop_outcome = SOStopped exit_info | SOAlreadyAbsent | SOError stop_error

datatype server_message =
    SHello u16 server_instance_id client_scope_id bool
  | SSessions state_namespace "session_info list"
  | SCreateResult request_id create_outcome
  | SAttachResult request_id attach_outcome
  | SReplayBegin request_id pane_id attachment_lease output_sequence output_sequence u64
  | SReplayChunk request_id pane_id attachment_lease output_sequence bytes
  | SReplayEnd request_id pane_id attachment_lease output_sequence
  | SPtyOutput pane_id attachment_lease output_sequence bytes
  | SForegroundProcess pane_id attachment_lease foreground_info
  | SPaneExited pane_id attachment_lease exit_info
  | SStopResult request_id stop_outcome
  | SAgentStatusResult request_id agent_status_outcome
  | STakenOver pane_id attachment_lease
  | SLeaseRejected pane_id attachment_lease lease_operation lease_rejection_reason
  | SError reject_code string

section \<open>Protocol constants\<close>

definition PROTOCOL_VERSION :: u16 where
  "PROTOCOL_VERSION = 12"

definition AGENT_STATUS_SCHEMA_VERSION :: u16 where
  "AGENT_STATUS_SCHEMA_VERSION = 1"

definition MAX_MESSAGE_BYTES :: nat where
  "MAX_MESSAGE_BYTES = 16 * 1024 * 1024"

definition MAX_SCREEN_ROWS :: u16 where
  "MAX_SCREEN_ROWS = 1000"

definition MAX_SCREEN_COLS :: u16 where
  "MAX_SCREEN_COLS = 1000"

definition MAX_SCREEN_CELLS :: nat where
  "MAX_SCREEN_CELLS = 200000"

definition MIN_SCREEN_ROWS :: u16 where
  "MIN_SCREEN_ROWS = 2"

definition MIN_SCREEN_COLS :: u16 where
  "MIN_SCREEN_COLS = 2"

definition MAX_PENDING_REQUESTS_PER_CLIENT :: nat where
  "MAX_PENDING_REQUESTS_PER_CLIENT = 1024"

definition MAX_CACHED_REQUEST_RESULTS_PER_SCOPE :: nat where
  "MAX_CACHED_REQUEST_RESULTS_PER_SCOPE = 4096"

section \<open>Screen sizes\<close>

text \<open>
  \<open>bounded_screen_dimensions\<close>, at the code's widths: the rows the cell budget leaves are
  computed as \<open>usize\<close> and cast back to \<open>u16\<close>, which truncates.
\<close>

definition u16_clamp :: "u16 \<Rightarrow> u16 \<Rightarrow> u16 \<Rightarrow> u16" where
  "u16_clamp lo hi x = (if x < lo then lo else if hi < x then hi else x)"

definition bounded_screen_dimensions :: "u16 \<Rightarrow> u16 \<Rightarrow> u16 \<times> u16" where
  "bounded_screen_dimensions rows cols =
     (let cols = u16_clamp MIN_SCREEN_COLS MAX_SCREEN_COLS cols;
          rows = min rows MAX_SCREEN_ROWS;
          max_rows_by_cells = max (MAX_SCREEN_CELLS div unat cols) 1;
          rows = max (min rows (of_nat max_rows_by_cells)) MIN_SCREEN_ROWS
      in (rows, cols))"


subsection \<open>The bounds\<close>

lemma u16_clamp_bounds: "lo \<le> hi \<Longrightarrow> lo \<le> u16_clamp lo hi x \<and> u16_clamp lo hi x \<le> hi"
  by (auto simp: u16_clamp_def)

text \<open>The cast of the row budget truncates for two and three columns, but never below 1000.\<close>

lemma row_budget_cast:
  assumes "2 \<le> c" and "c \<le> 1000"
  shows "min 1000 (max (200000 div c) 1 mod 65536) = min 1000 (200000 div (c::nat))"
proof (cases "c \<le> 3")
  case True
  with assms have "c = 2 \<or> c = 3" by arith
  then show ?thesis by auto
next
  case False
  then have "200000 div c \<le> 200000 div 4" by (intro div_le_mono2) auto
  moreover have "200000 div 1000 \<le> 200000 div c" using assms by (intro div_le_mono2) auto
  ultimately show ?thesis by simp
qed

lemma bounded_cols:
  assumes "bounded_screen_dimensions rows cols = (r, c)"
  shows "unat c = max 2 (min 1000 (unat cols))"
  using assms
  by (auto simp: bounded_screen_dimensions_def Let_def u16_clamp_def MIN_SCREEN_COLS_def
      MAX_SCREEN_COLS_def word_less_nat_alt min_def max_def)

lemma bounded_rows:
  assumes "bounded_screen_dimensions rows cols = (r, c)"
  shows "unat r = max 2 (min (unat rows) (min 1000 (200000 div unat c)))"
proof -
  have c: "2 \<le> unat c" "unat c \<le> 1000"
    using bounded_cols [OF assms] by auto
  define b :: u16 where "b = of_nat (max (200000 div unat c) 1)"
  have b: "unat b = max (200000 div unat c) 1 mod 65536"
    by (simp add: b_def unat_of_nat)
  have "r = max (min (min rows 1000) b) 2"
    using assms
    by (auto simp: bounded_screen_dimensions_def Let_def MAX_SCREEN_ROWS_def
        MIN_SCREEN_ROWS_def MAX_SCREEN_CELLS_def b_def)
  then have "unat r = max (min (min (unat rows) 1000) (unat b)) 2"
    by (auto simp: min_def max_def word_le_nat_alt)
  then show ?thesis
    using row_budget_cast [OF c] b by (metis max.commute min.assoc min.commute)
qed

text \<open>
  A requested screen size is clamped into the range the emulator can be driven at: columns
  and rows between 2 and 1000, at most 200000 cells, with the exact size chosen for every
  request, and a size already in range is kept (so that clamping twice changes nothing).
\<close>

theorem bounded_screen_dimensions_correct:
  assumes "bounded_screen_dimensions rows cols = (r, c)"
  shows "unat c = max 2 (min 1000 (unat cols)) \<and>
    unat r = max 2 (min (unat rows) (min 1000 (200000 div unat c))) \<and>
    unat r * unat c \<le> MAX_SCREEN_CELLS \<and>
    bounded_screen_dimensions r c = (r, c)"
proof -
  have c: "unat c = max 2 (min 1000 (unat cols))"
    using assms by (rule bounded_cols)
  have r: "unat r = max 2 (min (unat rows) (min 1000 (200000 div unat c)))"
    using assms by (rule bounded_rows)
  have "200 \<le> 200000 div unat c"
    using c div_le_mono2 [of "unat c" 1000 200000] by auto
  then have le: "unat r \<le> 200000 div unat c"
    using r by auto
  then have "unat r * unat c \<le> 200000 div unat c * unat c"
    by (rule mult_le_mono1)
  also have "\<dots> \<le> 200000" by simp
  finally have cells: "unat r * unat c \<le> MAX_SCREEN_CELLS"
    by (simp add: MAX_SCREEN_CELLS_def)
  obtain r' c' where again: "bounded_screen_dimensions r c = (r', c')"
    by fastforce
  have "unat c' = unat c"
    using bounded_cols [OF again] c by simp
  moreover have "unat r' = unat r"
  proof -
    have "2 \<le> unat r" and "unat r \<le> min 1000 (200000 div unat c)"
      using r le by (simp_all only: max.cobounded1 min.bounded_iff) (simp add: r)
    then show ?thesis
      using bounded_rows [OF again] \<open>unat c' = unat c\<close>
      by (simp only: min_absorb1 max_absorb2)
  qed
  ultimately have "bounded_screen_dimensions r c = (r, c)"
    using again by (simp add: word_unat_eq_iff)
  with c r cells show ?thesis by blast
qed

theorem bounded_screen_dimensions_correct_witness:
  "bounded_screen_dimensions 60000 3 = (1000, 3)
   \<and> unat (1000::u16) * unat (3::u16) \<le> MAX_SCREEN_CELLS"
proof -
  have big: "bounded_screen_dimensions 60000 3 = (1000, 3)"
    unfolding bounded_screen_dimensions_def u16_clamp_def MIN_SCREEN_COLS_def
      MAX_SCREEN_COLS_def MAX_SCREEN_ROWS_def MIN_SCREEN_ROWS_def MAX_SCREEN_CELLS_def
      Let_def min_def max_def
    by simp
  then show ?thesis
    using bounded_screen_dimensions_correct [OF big] by simp
qed

section \<open>Identifier allocation\<close>

lemma request_id_less_iff: "a < b \<longleftrightarrow> unat (request_id_get a) < unat (request_id_get b)"
  by (simp add: less_request_id_def word_less_nat_alt)

lemma request_id_checked_next_Some:
  "request_id_checked_next r = Some r' \<longleftrightarrow> unat (request_id_get r') = unat (request_id_get r) + 1"
  by (cases r')
    (use unat_u64_less [of "request_id_get r'"] in
      \<open>auto simp: request_id_checked_next_def request_id_new_def u64_checked_add_Some_iff
        u64_checked_add_None_iff word_unat_eq_iff split: option.splits\<close>)

lemma lease_checked_next_Some:
  "lease_checked_next l = Some l' \<longleftrightarrow> unat (lease_get l') = unat (lease_get l) + 1"
  by (cases l')
    (use unat_u64_less [of "lease_get l'"] in
      \<open>auto simp: lease_checked_next_def lease_new_def u64_checked_add_Some_iff
        u64_checked_add_None_iff word_unat_eq_iff split: option.splits\<close>)

lemma checked_add_bytes_Some:
  "checked_add_bytes s n = Some t \<longleftrightarrow> unat (sequence_get t) = unat (sequence_get s) + n"
proof (cases "n < 2 ^ 64")
  case True
  then have "unat (of_nat n :: u64) = n"
    by (simp add: unat_of_nat)
  then show ?thesis
    using True by (cases t)
      (auto simp: checked_add_bytes_def u64_checked_add_Some_iff)
next
  case False
  then show ?thesis
    using unat_u64_less [of "sequence_get t"] by (simp add: checked_add_bytes_def)
qed

lemma checked_add_bytes_None:
  "checked_add_bytes s n = None \<longleftrightarrow> 2 ^ 64 \<le> unat (sequence_get s) + n"
proof -
  have "unat (sequence_get s) < 2 ^ 64"
    using unat_u64_less [of "sequence_get s"] by simp
  then show ?thesis
    by (auto simp: checked_add_bytes_def u64_checked_add_None_iff unat_of_nat)
qed

end
