(* ===== verification/Raw_History.thy ===== *)
theory Raw_History
  imports Protocol_Types
begin

text \<open>
  The output a pane retains for attach replay (\<open>RawHistory\<close> in
  \<open>src/bin/mult-server.rs\<close>): a queue of immutable chunks with an offset into the oldest one,
  trimmed from the front, and cut into frames for replay. What it promises is stated against one
  flat byte string, \<open>history_bytes\<close>: appending keeps a suffix of bounded length, and replay is
  exactly the flat string in frames of 64 KiB.
\<close>

section \<open>The data\<close>

definition RAW_HISTORY_CHUNK_BYTES :: nat where
  "RAW_HISTORY_CHUNK_BYTES = 64 * 1024"

definition RAW_HISTORY_SCROLLBACK_LINES :: nat where
  "RAW_HISTORY_SCROLLBACK_LINES = 5000"

definition RAW_HISTORY_BYTES_PER_LINE :: nat where
  "RAW_HISTORY_BYTES_PER_LINE = 512"

definition RAW_HISTORY_MAX_BYTES :: nat where
  "RAW_HISTORY_MAX_BYTES = RAW_HISTORY_SCROLLBACK_LINES * RAW_HISTORY_BYTES_PER_LINE"

record raw_history =
  rh_chunks :: "bytes list"
  rh_front_offset :: nat
  rh_len :: nat

definition raw_history_default :: raw_history where
  "raw_history_default = \<lparr>rh_chunks = [], rh_front_offset = 0, rh_len = 0\<rparr>"

text \<open>\<open>slice::chunks\<close>: pieces of \<open>n\<close> elements, the last one possibly shorter.\<close>

function chunks_of :: "nat \<Rightarrow> 'a list \<Rightarrow> 'a list list" where
  "chunks_of n xs = (if n = 0 \<or> xs = [] then [] else take n xs # chunks_of n (drop n xs))"
  by pat_completeness auto
termination
  by (relation "measure (\<lambda>(n, xs). length xs)") auto

declare chunks_of.simps [simp del]

section \<open>Appending and trimming\<close>

text \<open>
  \<open>trim_to\<close> walks the chunks from the front: a chunk that is needed in part only moves the
  offset, a chunk that is not needed is dropped. The running count of dropped bytes is returned.
\<close>

fun trim_loop :: "bytes list \<Rightarrow> nat \<Rightarrow> nat \<Rightarrow> nat \<Rightarrow> nat \<Rightarrow> nat \<times> raw_history" where
  "trim_loop [] offset len remaining dropped =
     (dropped, \<lparr>rh_chunks = [], rh_front_offset = offset, rh_len = len\<rparr>)"
| "trim_loop (front # rest) offset len remaining dropped =
     (if remaining = 0
      then (dropped, \<lparr>rh_chunks = front # rest, rh_front_offset = offset, rh_len = len\<rparr>)
      else let available = length front - offset in
        if remaining < available
        then (dropped + remaining,
              \<lparr>rh_chunks = front # rest, rh_front_offset = offset + remaining,
               rh_len = len - remaining\<rparr>)
        else trim_loop rest 0 (len - available) (remaining - available) (dropped + available))"

definition trim_to :: "raw_history \<Rightarrow> nat \<Rightarrow> nat \<times> raw_history" where
  "trim_to h limit =
     trim_loop (rh_chunks h) (rh_front_offset h) (rh_len h) (rh_len h - limit) 0"

definition push_chunk :: "raw_history \<Rightarrow> bytes \<Rightarrow> raw_history" where
  "push_chunk h piece =
     h\<lparr>rh_len := rh_len h + length piece, rh_chunks := rh_chunks h @ [piece]\<rparr>"

definition history_append :: "raw_history \<Rightarrow> bytes \<Rightarrow> nat \<Rightarrow> nat \<times> raw_history" where
  "history_append h bs limit =
     (let h = (if length bs \<le> RAW_HISTORY_CHUNK_BYTES
               then (if bs = [] then h else push_chunk h bs)
               else foldl push_chunk h (chunks_of RAW_HISTORY_CHUNK_BYTES bs))
      in trim_to h limit)"

section \<open>Replay frames\<close>

text \<open>
  \<open>replay_chunks\<close> coalesces: \<open>pending\<close> collects bytes until it is a full frame. The inner
  loop moves as many bytes as fit; it makes progress only while \<open>pending\<close> is not full, so it
  is a partial function, and that it returns is proved below.
\<close>

definition flush :: "bytes \<Rightarrow> bytes list \<Rightarrow> bytes \<times> bytes list" where
  "flush pending frames = (if pending = [] then ([], frames) else ([], frames @ [pending]))"

partial_function (option) fill_frames ::
    "bytes \<Rightarrow> bytes list \<Rightarrow> bytes \<Rightarrow> (bytes \<times> bytes list) option" where
  "fill_frames pending frames rest =
     (if rest = [] then Some (pending, frames)
      else let space = RAW_HISTORY_CHUNK_BYTES - length pending;
               n = min space (length rest);
               pending = pending @ take n rest;
               rest = drop n rest
           in if length pending = RAW_HISTORY_CHUNK_BYTES
              then fill_frames (fst (flush pending frames)) (snd (flush pending frames)) rest
              else fill_frames pending frames rest)"

fun replay_loop :: "bytes \<Rightarrow> bytes list \<Rightarrow> bytes list \<Rightarrow> (bytes \<times> bytes list) option" where
  "replay_loop pending frames [] = Some (pending, frames)"
| "replay_loop pending frames (piece # pieces) =
     (if pending = [] \<and> length piece = RAW_HISTORY_CHUNK_BYTES
      then replay_loop pending (frames @ [piece]) pieces
      else case fill_frames pending frames piece of
             None \<Rightarrow> None
           | Some (pending, frames) \<Rightarrow> replay_loop pending frames pieces)"

text \<open>Only the first chunk is read from the offset.\<close>

definition history_slices :: "raw_history \<Rightarrow> bytes list" where
  "history_slices h =
     (case rh_chunks h of [] \<Rightarrow> [] | c # cs \<Rightarrow> drop (rh_front_offset h) c # cs)"

definition replay_chunks :: "raw_history \<Rightarrow> bytes list option" where
  "replay_chunks h =
     (case replay_loop [] [] (history_slices h) of
        None \<Rightarrow> None
      | Some (pending, frames) \<Rightarrow> Some (snd (flush pending frames)))"

section \<open>The flat history and the invariant\<close>

definition history_bytes :: "raw_history \<Rightarrow> bytes" where
  "history_bytes h = drop (rh_front_offset h) (concat (rh_chunks h))"

definition history_ok :: "raw_history \<Rightarrow> bool" where
  "history_ok h \<longleftrightarrow>
     rh_len h = length (history_bytes h) \<and>
     list_all (\<lambda>c. c \<noteq> [] \<and> length c \<le> RAW_HISTORY_CHUNK_BYTES) (rh_chunks h) \<and>
     (case rh_chunks h of [] \<Rightarrow> rh_front_offset h = 0 | c # _ \<Rightarrow> rh_front_offset h < length c)"

lemma chunk_bytes_pos [simp]: "0 < RAW_HISTORY_CHUNK_BYTES" "RAW_HISTORY_CHUNK_BYTES \<noteq> 0"
  by (simp_all add: RAW_HISTORY_CHUNK_BYTES_def)

lemma chunks_of_Nil [simp]: "chunks_of n [] = []"
  by (simp add: chunks_of.simps)

lemma concat_chunks_of: "0 < n \<Longrightarrow> concat (chunks_of n xs) = xs"
  by (induction n xs rule: chunks_of.induct) (simp add: chunks_of.simps)

lemma chunks_of_sizes: "c \<in> set (chunks_of n xs) \<Longrightarrow> c \<noteq> [] \<and> length c \<le> n"
proof (induction n xs rule: chunks_of.induct)
  case (1 n xs)
  then show ?case
    by (cases "n = 0 \<or> xs = []") (auto simp: chunks_of.simps [of n xs])
qed

lemma length_chunks_of: "0 < n \<Longrightarrow> length (chunks_of n xs) = (length xs + n - 1) div n"
proof (induction n xs rule: chunks_of.induct)
  case (1 n xs)
  show ?case
  proof (cases "xs = []")
    case True
    then show ?thesis using "1.prems" by simp
  next
    case False
    with 1 have "length (chunks_of n xs) = Suc ((length xs - n + n - 1) div n)"
      by (simp add: chunks_of.simps [of n xs])
    also have "\<dots> = (length xs + n - 1) div n"
    proof (cases "length xs \<le> n")
      case True
      moreover have "1 \<le> length xs" using False by (cases xs) auto
      ultimately have "(length xs + n - 1) div n = 1"
        using "1.prems" by (intro div_nat_eqI) simp_all
      then show ?thesis using True "1.prems" by simp
    next
      case False
      then have "length xs + n - 1 = (length xs - n + n - 1) + n" by simp
      then show ?thesis using "1.prems" by (simp only: div_add_self2)
    qed
    finally show ?thesis .
  qed
qed

text \<open>Full frames followed by a shorter one are the chunks of their concatenation.\<close>

lemma chunks_of_frames:
  assumes "0 < n" and "list_all (\<lambda>f. length f = n) frames" and "length pending < n"
  shows "chunks_of n (concat frames @ pending) = snd (flush pending frames)"
  using assms(2)
proof (induction frames)
  case Nil
  show ?case
  proof (cases "pending = []")
    case False
    then show ?thesis using assms by (simp add: chunks_of.simps [of n pending] flush_def)
  qed (simp add: flush_def)
next
  case (Cons f fs)
  then have "chunks_of n (concat (f # fs) @ pending) = f # chunks_of n (concat fs @ pending)"
    using assms(1) by (auto simp: chunks_of.simps [of n "f @ concat fs @ pending"])
  with Cons show ?case by (simp add: flush_def split: if_splits)
qed


section \<open>Appending keeps a bounded suffix\<close>

lemma history_ok_chunks:
  "history_ok h \<Longrightarrow> c \<in> set (rh_chunks h) \<Longrightarrow> c \<noteq> [] \<and> length c \<le> RAW_HISTORY_CHUNK_BYTES"
  by (auto simp: history_ok_def list_all_iff)

lemma history_ok_offset:
  "history_ok h \<Longrightarrow> rh_front_offset h \<le> length (concat (rh_chunks h))"
  by (auto simp: history_ok_def split: list.splits)

lemma history_ok_default [simp]: "history_ok raw_history_default"
  by (simp add: history_ok_def raw_history_default_def history_bytes_def)

lemma history_bytes_default [simp]: "history_bytes raw_history_default = []"
  by (simp add: raw_history_default_def history_bytes_def)

lemma push_chunk_ok:
  assumes "history_ok h" and "c \<noteq> []" and "length c \<le> RAW_HISTORY_CHUNK_BYTES"
  shows "history_ok (push_chunk h c)" and "history_bytes (push_chunk h c) = history_bytes h @ c"
proof -
  show bytes: "history_bytes (push_chunk h c) = history_bytes h @ c"
    using history_ok_offset [OF assms(1)] by (simp add: history_bytes_def push_chunk_def)
  show "history_ok (push_chunk h c)"
    using assms bytes
    by (auto simp: history_ok_def push_chunk_def hd_append split: list.splits)
qed

lemma push_chunks_ok:
  assumes "history_ok h" and "\<And>c. c \<in> set cs \<Longrightarrow> c \<noteq> [] \<and> length c \<le> RAW_HISTORY_CHUNK_BYTES"
  shows "history_ok (foldl push_chunk h cs) \<and>
    history_bytes (foldl push_chunk h cs) = history_bytes h @ concat cs"
  using assms by (induction cs arbitrary: h) (auto simp: push_chunk_ok)

text \<open>The loop of \<open>trim_to\<close>: what it drops is what it was asked to drop.\<close>

lemma trim_loop_ok:
  assumes "history_ok \<lparr>rh_chunks = cs, rh_front_offset = offset, rh_len = len\<rparr>"
    and "remaining \<le> len" and "trim_loop cs offset len remaining dropped = (d, h)"
  shows "d = dropped + remaining \<and> history_ok h \<and>
    history_bytes h = drop (offset + remaining) (concat cs)"
  using assms
proof (induction cs offset len remaining dropped rule: trim_loop.induct)
  case (1 offset len remaining dropped)
  then show ?case by (auto simp: history_ok_def history_bytes_def)
next
  case (2 front rest offset len remaining dropped)
  let ?available = "length front - offset"
  have off: "offset < length front"
    and len: "len = length (concat (front # rest)) - offset"
    and sizes: "list_all (\<lambda>c. c \<noteq> [] \<and> length c \<le> RAW_HISTORY_CHUNK_BYTES) (front # rest)"
    using "2.prems"(1) by (auto simp: history_ok_def history_bytes_def)
  consider "remaining = 0" | "0 < remaining" "remaining < ?available" | "?available \<le> remaining" "0 < remaining"
    by linarith
  then show ?case
  proof cases
    case 1
    then show ?thesis using "2.prems" by (auto simp: history_bytes_def)
  next
    case 2
    then have "d = dropped + remaining"
      and "h = \<lparr>rh_chunks = front # rest, rh_front_offset = offset + remaining, rh_len = len - remaining\<rparr>"
      using "2.prems"(3) by auto
    then show ?thesis
      using 2 off len sizes by (auto simp: history_ok_def history_bytes_def)
  next
    case 3
    then have step: "trim_loop rest 0 (len - ?available) (remaining - ?available) (dropped + ?available) = (d, h)"
      using "2.prems"(3) by (auto simp: Let_def)
    have ok: "history_ok \<lparr>rh_chunks = rest, rh_front_offset = 0, rh_len = len - ?available\<rparr>"
      using off len sizes by (auto simp: history_ok_def history_bytes_def list_all_iff split: list.splits)
    have "remaining - ?available \<le> len - ?available"
      using "2.prems"(2) by simp
    from "2.IH" [OF _ _ _ ok this step] 3
    have "d = dropped + ?available + (remaining - ?available)" and "history_ok h"
      and "history_bytes h = drop (remaining - ?available) (concat rest)"
      by auto
    moreover have "drop (remaining - ?available) (concat rest) = drop (offset + remaining) (concat (front # rest))"
      using 3 off by (simp add: drop_append add.commute)
    ultimately show ?thesis using 3 by simp
  qed
qed

lemma trim_to_ok:
  assumes "history_ok h" and "trim_to h limit = (d, h')"
  shows "d = length (history_bytes h) - limit \<and> history_ok h' \<and>
    history_bytes h' = drop d (history_bytes h)"
proof -
  have len: "rh_len h = length (history_bytes h)"
    using assms(1) by (simp add: history_ok_def)
  have "history_ok \<lparr>rh_chunks = rh_chunks h, rh_front_offset = rh_front_offset h, rh_len = rh_len h\<rparr>"
    using assms(1) by (cases h) simp
  from trim_loop_ok [OF this _ assms(2) [unfolded trim_to_def]]
  have "d = rh_len h - limit" and "history_ok h'"
    and "history_bytes h' = drop (rh_front_offset h + d) (concat (rh_chunks h))"
    by auto
  then show ?thesis
    by (simp only: len) (simp add: history_bytes_def add.commute)
qed

lemma history_append_ok:
  assumes "history_ok h" and "history_append h bs limit = (d, h')"
  shows "d = length (history_bytes h) + length bs - limit \<and> history_ok h' \<and>
    history_bytes h' = drop d (history_bytes h @ bs)"
proof -
  define h1 where "h1 = (if length bs \<le> RAW_HISTORY_CHUNK_BYTES
               then (if bs = [] then h else push_chunk h bs)
               else foldl push_chunk h (chunks_of RAW_HISTORY_CHUNK_BYTES bs))"
  have "history_ok h1 \<and> history_bytes h1 = history_bytes h @ bs"
  proof (cases "length bs \<le> RAW_HISTORY_CHUNK_BYTES")
    case True
    then show ?thesis using push_chunk_ok [OF assms(1)] assms(1) by (simp add: h1_def)
  next
    case False
    then show ?thesis
      using push_chunks_ok [OF assms(1), of "chunks_of RAW_HISTORY_CHUNK_BYTES bs"]
      by (simp add: h1_def chunks_of_sizes concat_chunks_of)
  qed
  moreover have "trim_to h1 limit = (d, h')"
    using assms(2) by (simp add: history_append_def h1_def Let_def)
  ultimately show ?thesis using trim_to_ok [of h1 limit d h'] by auto
qed

section \<open>Replay is the flat history in frames\<close>

lemma fill_frames_returns:
  assumes "length pending < RAW_HISTORY_CHUNK_BYTES"
    and "list_all (\<lambda>f. length f = RAW_HISTORY_CHUNK_BYTES) frames"
  shows "\<exists>p fs. fill_frames pending frames rest = Some (p, fs) \<and>
    length p < RAW_HISTORY_CHUNK_BYTES \<and>
    list_all (\<lambda>f. length f = RAW_HISTORY_CHUNK_BYTES) fs \<and>
    concat fs @ p = concat frames @ pending @ rest"
  using assms
proof (induction "length rest" arbitrary: pending frames rest rule: less_induct)
  case less
  show ?case
  proof (cases "rest = []")
    case True
    then show ?thesis using less.prems by (simp add: fill_frames.simps)
  next
    case False
    define n where "n = min (RAW_HISTORY_CHUNK_BYTES - length pending) (length rest)"
    let ?p = "pending @ take n rest" and ?rest = "drop n rest"
    have n: "0 < n" "n \<le> length rest" "length ?p \<le> RAW_HISTORY_CHUNK_BYTES"
      using False less.prems(1) by (auto simp: n_def)
    then have smaller: "length ?rest < length rest" using False by simp
    show ?thesis
    proof (cases "length ?p = RAW_HISTORY_CHUNK_BYTES")
      case True
      then have "?p \<noteq> []" using n by auto
      then have f: "flush ?p frames = ([], frames @ [?p])" by (simp add: flush_def)
      have eq: "fill_frames pending frames rest = fill_frames [] (frames @ [?p]) ?rest"
        using False True f by (subst fill_frames.simps) (simp only: Let_def n_def [symmetric] if_False if_True fst_conv snd_conv simp_thms)
      show ?thesis
        using less.hyps [OF smaller, of "[]" "frames @ [?p]"] less.prems True by (simp add: eq)
    next
      case False
      have eq: "fill_frames pending frames rest = fill_frames ?p frames ?rest"
        using \<open>rest \<noteq> []\<close> False by (subst fill_frames.simps) (simp only: Let_def n_def [symmetric] if_False)
      have "length ?p < RAW_HISTORY_CHUNK_BYTES" using False n by linarith
      then show ?thesis
        using less.hyps [OF smaller, of ?p frames] less.prems by (simp add: eq)
    qed
  qed
qed

lemma replay_loop_returns:
  assumes "length pending < RAW_HISTORY_CHUNK_BYTES"
    and "list_all (\<lambda>f. length f = RAW_HISTORY_CHUNK_BYTES) frames"
  shows "\<exists>p fs. replay_loop pending frames pieces = Some (p, fs) \<and>
    length p < RAW_HISTORY_CHUNK_BYTES \<and>
    list_all (\<lambda>f. length f = RAW_HISTORY_CHUNK_BYTES) fs \<and>
    concat fs @ p = concat frames @ pending @ concat pieces"
  using assms
proof (induction pieces arbitrary: pending frames)
  case Nil
  then show ?case by simp
next
  case (Cons piece pieces)
  show ?case
  proof (cases "pending = [] \<and> length piece = RAW_HISTORY_CHUNK_BYTES")
    case True
    then show ?thesis
      using Cons.IH [of "[]" "frames @ [piece]"] Cons.prems by simp
  next
    case False
    obtain p fs where step: "fill_frames pending frames piece = Some (p, fs)"
      and p: "length p < RAW_HISTORY_CHUNK_BYTES"
      and fs: "list_all (\<lambda>f. length f = RAW_HISTORY_CHUNK_BYTES) fs"
      and eq: "concat fs @ p = concat frames @ pending @ piece"
      using fill_frames_returns [OF Cons.prems] by blast
    obtain p' fs' where "replay_loop p fs pieces = Some (p', fs')"
      and "length p' < RAW_HISTORY_CHUNK_BYTES"
      and "list_all (\<lambda>f. length f = RAW_HISTORY_CHUNK_BYTES) fs'"
      and "concat fs' @ p' = concat fs @ p @ concat pieces"
      using Cons.IH [OF p fs] by auto
    moreover have "concat fs @ p @ concat pieces = concat frames @ pending @ concat (piece # pieces)"
      using eq by (metis append.assoc concat.simps(2))
    ultimately show ?thesis using False step by auto
  qed
qed

lemma concat_history_slices:
  "history_ok h \<Longrightarrow> concat (history_slices h) = history_bytes h"
  by (auto simp: history_slices_def history_bytes_def history_ok_def split: list.splits)

lemma replay_chunks_eq:
  assumes "history_ok h"
  shows "replay_chunks h = Some (chunks_of RAW_HISTORY_CHUNK_BYTES (history_bytes h))"
proof -
  obtain p fs where "replay_loop [] [] (history_slices h) = Some (p, fs)"
    and "length p < RAW_HISTORY_CHUNK_BYTES"
    and "list_all (\<lambda>f. length f = RAW_HISTORY_CHUNK_BYTES) fs"
    and "concat fs @ p = history_bytes h"
    using replay_loop_returns [of "[]" "[]" "history_slices h"] concat_history_slices [OF assms]
    by auto
  then show ?thesis
    using chunks_of_frames [of RAW_HISTORY_CHUNK_BYTES fs p] by (simp add: replay_chunks_def)
qed


lemma length_history_append:
  assumes "history_ok h" and "history_append h bs limit = (d, h')"
  shows "length (history_bytes h') = min limit (length (history_bytes h) + length bs)"
  using history_append_ok [OF assms] by auto

text \<open>
  C6. Appending to the retained history keeps its bookkeeping consistent, reports exactly the
  number of bytes it drops, and leaves the last \<open>limit\<close> bytes of everything appended so far
  (all of them, if they are fewer), however the bytes are cut into chunks.
\<close>

theorem history_append_correct:
  assumes "history_ok h" and "history_append h bs limit = (d, h')"
  shows "history_ok h' \<and> d = length (history_bytes h) + length bs - limit \<and>
    history_bytes h' = drop d (history_bytes h @ bs) \<and> rh_len h' = min limit (rh_len h + length bs)"
  using history_append_ok [OF assms] length_history_append [OF assms] assms(1)
  by (simp add: history_ok_def)

theorem history_append_correct_witness:
  "history_append (push_chunk raw_history_default [1, 2, 3]) [4, 5] 4 =
     (1, \<lparr>rh_chunks = [[1, 2, 3], [4, 5]], rh_front_offset = 1, rh_len = 4\<rparr>) \<and>
   history_bytes \<lparr>rh_chunks = [[1, 2, 3], [4, 5]], rh_front_offset = 1, rh_len = 4\<rparr> =
     drop 1 ([1, 2, 3] @ [4, 5])"
proof -
  let ?h = "push_chunk raw_history_default [1, 2, 3]"
  have ok: "history_ok ?h" and bytes: "history_bytes ?h = [1, 2, 3]"
    by (simp_all add: push_chunk_ok RAW_HISTORY_CHUNK_BYTES_def)
  have run: "history_append ?h [4, 5] 4 =
      (1, \<lparr>rh_chunks = [[1, 2, 3], [4, 5]], rh_front_offset = 1, rh_len = 4\<rparr>)"
    by (simp add: history_append_def push_chunk_def raw_history_default_def trim_to_def
        RAW_HISTORY_CHUNK_BYTES_def)
  from history_append_correct [OF ok run] run bytes show ?thesis by simp
qed

text \<open>
  C7. Replay always returns, and sends exactly the retained bytes, in order, cut as
  \<open>slice::chunks\<close> would cut the flat history into 64 KiB frames: no frame is empty or too long
  for the wire, and their number depends on the retained length only, never on how small the
  reads were; within the retention limit there are at most 40.
\<close>

theorem replay_chunks_correct:
  assumes "history_ok h"
  shows "\<exists>frames. replay_chunks h = Some frames \<and>
    frames = chunks_of RAW_HISTORY_CHUNK_BYTES (history_bytes h) \<and>
    concat frames = history_bytes h \<and>
    list_all (\<lambda>f. f \<noteq> [] \<and> length f \<le> RAW_HISTORY_CHUNK_BYTES) frames \<and>
    length frames = (rh_len h + RAW_HISTORY_CHUNK_BYTES - 1) div RAW_HISTORY_CHUNK_BYTES \<and>
    (rh_len h \<le> RAW_HISTORY_MAX_BYTES \<longrightarrow> length frames \<le> 40)"
proof -
  let ?fs = "chunks_of RAW_HISTORY_CHUNK_BYTES (history_bytes h)"
  have len: "rh_len h = length (history_bytes h)"
    using assms by (simp add: history_ok_def)
  have count: "length ?fs = (rh_len h + RAW_HISTORY_CHUNK_BYTES - 1) div RAW_HISTORY_CHUNK_BYTES"
    by (simp add: length_chunks_of len)
  have "length ?fs \<le> 40" if "rh_len h \<le> RAW_HISTORY_MAX_BYTES"
  proof -
    have "rh_len h + RAW_HISTORY_CHUNK_BYTES - 1 \<le> 2560000 + 65536 - 1"
      using that
      by (simp add: RAW_HISTORY_CHUNK_BYTES_def RAW_HISTORY_MAX_BYTES_def
          RAW_HISTORY_SCROLLBACK_LINES_def RAW_HISTORY_BYTES_PER_LINE_def)
    then have "length ?fs \<le> (2560000 + 65536 - 1) div RAW_HISTORY_CHUNK_BYTES"
      unfolding count by (rule div_le_mono)
    then have "length ?fs \<le> (2560000 + 65536 - 1) div 65536"
      by (simp add: RAW_HISTORY_CHUNK_BYTES_def)
    then show ?thesis by simp
  qed
  with count show ?thesis
    by (auto simp: replay_chunks_eq [OF assms] concat_chunks_of list_all_iff chunks_of_sizes)
qed

theorem replay_chunks_correct_witness:
  "\<exists>frames. replay_chunks (push_chunk (push_chunk raw_history_default [1]) [2, 3]) = Some frames \<and>
     concat frames = [1, 2, 3] \<and> length frames = 1"
proof -
  let ?h = "push_chunk (push_chunk raw_history_default [1]) [2, 3]"
  have ok: "history_ok ?h" and bytes: "history_bytes ?h = [1, 2, 3]"
    by (simp_all add: push_chunk_ok RAW_HISTORY_CHUNK_BYTES_def)
  have "rh_len ?h = 3"
    by (simp add: push_chunk_def raw_history_default_def)
  then show ?thesis
    using replay_chunks_correct [OF ok] bytes by (auto simp: RAW_HISTORY_CHUNK_BYTES_def)
qed

end
