(* ===== verification/Framing.thy ===== *)
theory Framing
  imports Protocol_Types
begin

text \<open>
  The wire format of \<open>crates/protocol/src/lib.rs\<close>: a message is a 4-byte big-endian length
  followed by that many bytes of payload. The payload's encoding is the \<open>postcard\<close> crate's; its
  encoder and decoder are parameters here, and \<open>codec_law\<close> states what postcard documents of
  them. A reader is the bytes still to come and how the stream ends.
\<close>

unbundle bit_operations_syntax

section \<open>Input/output errors\<close>

datatype io_kind =
    InvalidData
  | InvalidInput
  | UnexpectedEof
  | ConnectionReset
  | ConnectionRefused
  | ConnectionAborted
  | NotConnected
  | IoTimedOut
  | BrokenPipe
  | PermissionDenied
  | AddrInUse
  | NotFound
  | AlreadyExists
  | WouldBlock
  | Interrupted
  | StorageFull
  | OtherKind

record io_error =
  io_kind :: io_kind
  io_message :: string

definition io_error_new :: "io_kind \<Rightarrow> string \<Rightarrow> io_error" where
  "io_error_new kind message = \<lparr>io_kind = kind, io_message = message\<rparr>"

definition io_other :: "string \<Rightarrow> io_error" where
  "io_other message = io_error_new OtherKind message"

definition invalid_data :: "string \<Rightarrow> io_error" where
  "invalid_data message = io_error_new InvalidData message"

text \<open>Decimal rendering, as \<open>Display\<close> prints an unsigned integer.\<close>

definition digit_char :: "nat \<Rightarrow> char" where
  "digit_char d = char_of (48 + d)"

fun show_nat :: "nat \<Rightarrow> string" where
  "show_nat n = (if n < 10 then [digit_char n] else show_nat (n div 10) @ [digit_char (n mod 10)])"

declare show_nat.simps [simp del]

definition message_too_large :: "io_kind \<Rightarrow> nat \<Rightarrow> io_error" where
  "message_too_large kind len =
     io_error_new kind
       (''message too large: '' @ show_nat len @ '' bytes exceeds '' @
        show_nat MAX_MESSAGE_BYTES @ '' byte limit'')"

section \<open>Big-endian lengths\<close>

definition u32_to_be_bytes :: "u32 \<Rightarrow> bytes" where
  "u32_to_be_bytes w = [ucast (drop_bit 24 w), ucast (drop_bit 16 w), ucast (drop_bit 8 w), ucast w]"

definition u32_from_be_bytes :: "bytes \<Rightarrow> u32" where
  "u32_from_be_bytes bs = foldl (\<lambda>acc b. push_bit 8 acc OR ucast b) 0 bs"

lemma length_u32_to_be_bytes [simp]: "length (u32_to_be_bytes w) = 4"
  by (simp add: u32_to_be_bytes_def)

lemma u32_from_to_be_bytes [simp]: "u32_from_be_bytes (u32_to_be_bytes w) = w"
proof (rule bit_word_eqI)
  fix n assume "n < LENGTH(32)"
  then consider "n < 8" | "8 \<le> n" "n < 16" | "16 \<le> n" "n < 24" | "24 \<le> n" "n < 32"
    by fastforce
  then show "bit (u32_from_be_bytes (u32_to_be_bytes w)) n = bit w n"
    by cases (simp_all add: u32_from_be_bytes_def u32_to_be_bytes_def bit_simps less_diff_conv2)
qed

section \<open>Reading\<close>

record reader =
  rd_bytes :: bytes
  rd_end :: "io_error option"

text \<open>
  \<open>read_exact\<close>: the wanted bytes, or the error the stream ends with; a stream that merely ends
  is \<open>UnexpectedEof\<close>.
\<close>

definition read_exact :: "nat \<Rightarrow> reader \<Rightarrow> (io_error + bytes) \<times> reader" where
  "read_exact n r =
     (if n \<le> length (rd_bytes r)
      then (Inr (take n (rd_bytes r)), r\<lparr>rd_bytes := drop n (rd_bytes r)\<rparr>)
      else (Inl (case rd_end r of
                   None \<Rightarrow> io_error_new UnexpectedEof ''failed to fill whole buffer''
                 | Some e \<Rightarrow> e),
            r\<lparr>rd_bytes := []\<rparr>))"

type_synonym 'm decoder = "bytes \<Rightarrow> string + ('m \<times> bytes)"
type_synonym 'm encoder = "'m \<Rightarrow> string + bytes"

definition decode_payload :: "'m decoder \<Rightarrow> bytes \<Rightarrow> io_error + 'm" where
  "decode_payload dec payload =
     (case dec payload of
        Inl error \<Rightarrow> Inl (invalid_data error)
      | Inr (message, trailing) \<Rightarrow>
          if trailing = [] then Inr message
          else Inl (io_error_new InvalidData ''message contains trailing bytes''))"

definition read_message :: "'m decoder \<Rightarrow> reader \<Rightarrow> (io_error + 'm) \<times> reader" where
  "read_message dec r =
     (case read_exact 4 r of
        (Inl e, r) \<Rightarrow> (Inl e, r)
      | (Inr header, r) \<Rightarrow>
          (let len = unat (u32_from_be_bytes header) in
           if MAX_MESSAGE_BYTES < len then (Inl (message_too_large InvalidData len), r)
           else case read_exact len r of
                  (Inl e, r) \<Rightarrow> (Inl e, r)
                | (Inr payload, r) \<Rightarrow> (decode_payload dec payload, r)))"

section \<open>Writing\<close>

text \<open>
  What \<open>write_message\<close> hands to the stream, or the error it returns before writing anything.
\<close>

definition write_message :: "'m encoder \<Rightarrow> 'm \<Rightarrow> io_error + bytes" where
  "write_message enc message =
     bind_sum (map_err invalid_data (enc message)) (\<lambda>payload.
       if MAX_MESSAGE_BYTES < length payload
       then Inl (message_too_large InvalidInput (length payload))
       else if length payload < 2 ^ 32
       then Inr (u32_to_be_bytes (of_nat (length payload)) @ payload)
       else Inl (io_error_new InvalidInput ''message too large''))"

text \<open>The messages of a stream, written one after the other, and read back one after the other.\<close>

fun write_messages :: "'m encoder \<Rightarrow> 'm list \<Rightarrow> io_error + bytes" where
  "write_messages enc [] = Inr []"
| "write_messages enc (m # ms) =
     bind_sum (write_message enc m) (\<lambda>frame.
       bind_sum (write_messages enc ms) (\<lambda>rest. Inr (frame @ rest)))"

fun read_messages :: "'m decoder \<Rightarrow> nat \<Rightarrow> reader \<Rightarrow> (io_error + 'm list) \<times> reader" where
  "read_messages dec 0 r = (Inr [], r)"
| "read_messages dec (Suc n) r =
     (case read_message dec r of
        (Inl e, r) \<Rightarrow> (Inl e, r)
      | (Inr m, r) \<Rightarrow>
          (case read_messages dec n r of
             (Inl e, r) \<Rightarrow> (Inl e, r)
           | (Inr ms, r) \<Rightarrow> (Inr (m # ms), r)))"

section \<open>Round trips\<close>

text \<open>
  What postcard documents: \<open>take_from_bytes\<close> reads one message off the front of the bytes that
  \<open>to_allocvec\<close> produced for it and returns what follows.
\<close>

definition codec_law :: "'m encoder \<Rightarrow> 'm decoder \<Rightarrow> bool" where
  "codec_law enc dec \<longleftrightarrow>
     (\<forall>m payload rest. enc m = Inr payload \<longrightarrow> dec (payload @ rest) = Inr (m, rest))"

lemma write_message_Inr:
  assumes "write_message enc m = Inr frame"
  obtains payload where "enc m = Inr payload" and "length payload \<le> MAX_MESSAGE_BYTES"
    and "frame = u32_to_be_bytes (of_nat (length payload)) @ payload"
  using assms by (auto simp: write_message_def sums split: if_splits)

lemma read_exact_append:
  "length xs = n \<Longrightarrow> read_exact n (r\<lparr>rd_bytes := xs @ ys\<rparr>) = (Inr xs, r\<lparr>rd_bytes := ys\<rparr>)"
  by (auto simp: read_exact_def)

lemma unat_of_payload_length:
  "length payload \<le> MAX_MESSAGE_BYTES \<Longrightarrow> unat (of_nat (length payload) :: u32) = length payload"
  by (simp add: unat_of_nat MAX_MESSAGE_BYTES_def)

lemma read_written_message:
  assumes law: "codec_law enc dec" and w: "write_message enc m = Inr frame"
  shows "read_message dec (r\<lparr>rd_bytes := frame @ rest\<rparr>) = (Inr m, r\<lparr>rd_bytes := rest\<rparr>)"
proof -
  obtain payload where p: "enc m = Inr payload" "length payload \<le> MAX_MESSAGE_BYTES"
    and frame: "frame = u32_to_be_bytes (of_nat (length payload)) @ payload"
    using w by (rule write_message_Inr)
  have "dec payload = Inr (m, [])"
    using law p(1) by (metis append_Nil2 codec_law_def)
  then show ?thesis
    using p(2)
    by (simp add: read_message_def frame read_exact_append unat_of_payload_length Let_def
        decode_payload_def)
qed

lemma read_written_messages:
  assumes law: "codec_law enc dec"
  shows "write_messages enc ms = Inr frames \<Longrightarrow>
    read_messages dec (length ms) (r\<lparr>rd_bytes := frames @ rest\<rparr>) = (Inr ms, r\<lparr>rd_bytes := rest\<rparr>)"
proof (induction ms arbitrary: frames)
  case Nil
  then show ?case by simp
next
  case (Cons m ms)
  then show ?case
    by (auto simp: sums read_written_message [OF law])
qed

lemma decode_payload_write:
  assumes "codec_law enc dec" and "write_message enc m = Inr frame"
  shows "4 \<le> length frame \<and> length frame \<le> 4 + MAX_MESSAGE_BYTES"
  using assms by (auto elim!: write_message_Inr)

text \<open>
  C2. Any sequence of messages the writer accepts is read back exactly, in order, whatever
  follows on the stream, and the reader is left at the first byte after the last frame: framing
  neither loses nor invents messages and never reads into the next one.
\<close>

theorem framing_roundtrip:
  assumes "codec_law enc dec" and "write_messages enc ms = Inr frames"
  shows "read_messages dec (length ms) \<lparr>rd_bytes = frames @ rest, rd_end = e\<rparr> =
    (Inr ms, \<lparr>rd_bytes = rest, rd_end = e\<rparr>)"
  using read_written_messages [OF assms, where r = "\<lparr>rd_bytes = [], rd_end = e\<rparr>" and rest = rest] by simp

text \<open>A length-prefixed byte string, as postcard encodes a short one: its length, then its bytes.\<close>

definition short_bytes_enc :: "bytes encoder" where
  "short_bytes_enc bs = (if length bs < 128 then Inr (of_nat (length bs) # bs) else Inl ''too long'')"

definition short_bytes_dec :: "bytes decoder" where
  "short_bytes_dec bs =
     (case bs of
        [] \<Rightarrow> Inl ''end''
      | n # bs \<Rightarrow> if unat n \<le> length bs then Inr (take (unat n) bs, drop (unat n) bs) else Inl ''end'')"

lemma short_bytes_codec: "codec_law short_bytes_enc short_bytes_dec"
  by (auto simp: codec_law_def short_bytes_enc_def short_bytes_dec_def unat_of_nat)

theorem framing_roundtrip_witness:
  "read_messages short_bytes_dec 2
     \<lparr>rd_bytes = [0, 0, 0, 2, 1, 9] @ [0, 0, 0, 1, 0] @ [7], rd_end = None\<rparr> =
   (Inr [[9], []], \<lparr>rd_bytes = [7], rd_end = None\<rparr>)"
proof -
  have w: "write_messages short_bytes_enc [[9], []] = Inr ([0, 0, 0, 2, 1, 9] @ [0, 0, 0, 1, 0])"
    by (simp add: write_message_def short_bytes_enc_def u32_to_be_bytes_def MAX_MESSAGE_BYTES_def)
  show ?thesis
    using framing_roundtrip [OF short_bytes_codec w, of "[7]" None]
    by (simp only: list.size append_assoc append.simps numeral_2_eq_2 add_0 add_Suc)
qed

lemma read_message_Inr_cases:
  assumes "read_message dec r = (Inr m, r')"
  obtains header payload where "rd_bytes r = header @ payload @ rd_bytes r'"
    and "length header = 4" and "length payload = unat (u32_from_be_bytes header)"
    and "length payload \<le> MAX_MESSAGE_BYTES" and "dec payload = Inr (m, [])"
proof -
  let ?b = "rd_bytes r"
  let ?n = "unat (u32_from_be_bytes (take 4 ?b))"
  have four: "4 \<le> length ?b" and n: "?n \<le> MAX_MESSAGE_BYTES" "?n \<le> length ?b - 4"
    and d: "decode_payload dec (take ?n (drop 4 ?b)) = Inr m"
    and r': "rd_bytes r' = drop ?n (drop 4 ?b)"
    using assms
    by (auto simp: read_message_def read_exact_def Let_def not_less split: if_splits)
  show thesis
  proof (rule that)
    show "?b = take 4 ?b @ take ?n (drop 4 ?b) @ rd_bytes r'"
      by (simp only: r' append_take_drop_id)
    show "length (take 4 ?b) = 4" using four by simp
    show "length (take ?n (drop 4 ?b)) = ?n" using n by simp
    then show "length (take ?n (drop 4 ?b)) \<le> MAX_MESSAGE_BYTES" using n by simp
    show "dec (take ?n (drop 4 ?b)) = Inr (m, [])"
      using d by (auto simp: decode_payload_def split: sum.splits if_splits)
  qed
qed




end
