(* ===== verification/Inboxes.thy ===== *)
theory Inboxes
  imports Framing
begin

text \<open>
  The daemon's two bounded queues (\<open>src/bin/mult-server.rs\<close>): a pane's queue of input for
  the PTY writer thread (\<open>PtyWriteQueue\<close>) and a client's queue of deliveries for the socket
  writer thread (\<open>ClientHandle\<close> over a \<open>sync_channel\<close>). Both refuse instead of blocking or
  dropping; the interface \<open>refusing_inbox\<close> is what the handlers rely on.
\<close>

section \<open>The interface\<close>

text \<open>
  Offering an item either appends exactly its contribution, or reports a refusal and changes
  nothing.
\<close>

locale refusing_inbox =
  fixes offer :: "'x \<Rightarrow> 'q \<Rightarrow> bool \<times> 'q"
    and contents :: "'q \<Rightarrow> 'y list"
    and contribution :: "'x \<Rightarrow> 'y list"
  assumes offer_accepted: "offer x q = (True, q') \<Longrightarrow> contents q' = contents q @ contribution x"
    and offer_refused: "offer x q = (False, q') \<Longrightarrow> q' = q"
begin

fun offer_all :: "'x list \<Rightarrow> 'q \<Rightarrow> bool list \<times> 'q" where
  "offer_all [] q = ([], q)"
| "offer_all (x # xs) q =
     (let (r, q) = offer x q; (rs, q) = offer_all xs q in (r # rs, q))"

text \<open>
  However many items are offered, the queue holds what it held, followed by the accepted items in
  the order they were offered: nothing is lost, repeated, split or reordered.
\<close>

lemma offer_all_contents:
  "offer_all xs q = (rs, q') \<Longrightarrow>
   length rs = length xs \<and>
   contents q' = contents q @ concat (map (\<lambda>(x, r). if r then contribution x else []) (zip xs rs))"
proof (induction xs arbitrary: q rs q')
  case Nil
  then show ?case by simp
next
  case (Cons x xs)
  obtain r q1 where o1: "offer x q = (r, q1)" by fastforce
  obtain rs1 q2 where o2: "offer_all xs q1 = (rs1, q2)" by fastforce
  have "contents q1 = contents q @ (if r then contribution x else [])"
    using o1 offer_accepted offer_refused by (cases r) fastforce+
  then show ?case
    using Cons.prems Cons.IH [OF o2] o1 o2 by auto
qed

end

section \<open>PTY input\<close>

datatype pty_write_refusal = QueueFull | QueueClosed

record pty_write_queue =
  wq_pending :: "bytes list"
  wq_queued_bytes :: nat
  wq_closed :: bool
  wq_capacity :: nat

definition PTY_WRITE_QUEUE_MAX_BYTES :: nat where
  "PTY_WRITE_QUEUE_MAX_BYTES = 1024 * 1024"

definition wq_with_capacity :: "nat \<Rightarrow> pty_write_queue" where
  "wq_with_capacity capacity =
     \<lparr>wq_pending = [], wq_queued_bytes = 0, wq_closed = False, wq_capacity = capacity\<rparr>"

definition wq_spawn :: pty_write_queue where
  "wq_spawn = wq_with_capacity PTY_WRITE_QUEUE_MAX_BYTES"

definition wq_enqueue :: "bytes \<Rightarrow> pty_write_queue \<Rightarrow> (pty_write_refusal + unit) \<times> pty_write_queue" where
  "wq_enqueue bs q =
     (if bs = [] then (Inr (), q)
      else if wq_closed q then (Inl QueueClosed, q)
      else if wq_capacity q < sat_add (wq_queued_bytes q) (length bs) then (Inl QueueFull, q)
      else (Inr (), q\<lparr>wq_queued_bytes := wq_queued_bytes q + length bs,
                      wq_pending := wq_pending q @ [bs]\<rparr>))"

text \<open>
  One look of \<open>wait_for_writes\<close> under the queue's mutex: it returns, with or without a batch, or
  goes back to waiting on the condition variable.
\<close>

datatype wq_wait = WaitEnded | WaitBatch "bytes list" | WaitAgain

definition wq_wait_for_writes :: "pty_write_queue \<Rightarrow> wq_wait \<times> pty_write_queue" where
  "wq_wait_for_writes q =
     (if wq_closed q then (WaitEnded, q)
      else if wq_pending q \<noteq> []
      then (WaitBatch (wq_pending q), q\<lparr>wq_queued_bytes := 0, wq_pending := []\<rparr>)
      else (WaitAgain, q))"

definition wq_close :: "pty_write_queue \<Rightarrow> pty_write_queue" where
  "wq_close q = q\<lparr>wq_closed := True, wq_pending := [], wq_queued_bytes := 0\<rparr>"

definition wq_ok :: "pty_write_queue \<Rightarrow> bool" where
  "wq_ok q \<longleftrightarrow>
     wq_queued_bytes q = length (concat (wq_pending q)) \<and>
     wq_queued_bytes q \<le> wq_capacity q \<and> wq_capacity q < usize_max \<and>
     [] \<notin> set (wq_pending q) \<and> (wq_closed q \<longrightarrow> wq_pending q = [])"

definition wq_backlog :: "pty_write_queue \<Rightarrow> bytes" where
  "wq_backlog q = concat (wq_pending q)"

definition wq_offer :: "bytes \<Rightarrow> pty_write_queue \<Rightarrow> bool \<times> pty_write_queue" where
  "wq_offer bs q = (case wq_enqueue bs q of (r, q) \<Rightarrow> (r = Inr (), q))"

interpretation pty_inbox: refusing_inbox wq_offer wq_backlog "\<lambda>bs. bs"
  by unfold_locales
    (auto simp: wq_offer_def wq_enqueue_def wq_backlog_def split: if_splits)

lemma wq_ok_spawn: "wq_ok wq_spawn"
  by (simp add: wq_ok_def wq_spawn_def wq_with_capacity_def PTY_WRITE_QUEUE_MAX_BYTES_def usize_max_def)

lemma wq_ok_enqueue: "wq_ok q \<Longrightarrow> wq_enqueue bs q = (r, q') \<Longrightarrow> wq_ok q'"
  by (auto simp: wq_ok_def wq_enqueue_def not_less dest: sat_add_le split: if_splits)

lemma wq_ok_wait: "wq_ok q \<Longrightarrow> wq_wait_for_writes q = (r, q') \<Longrightarrow> wq_ok q'"
  by (auto simp: wq_ok_def wq_wait_for_writes_def split: if_splits)

lemma wq_ok_close: "wq_ok q \<Longrightarrow> wq_ok (wq_close q)"
  by (auto simp: wq_ok_def wq_close_def)

lemma wq_close_fields [simp]: "wq_closed (wq_close q)" "wq_pending (wq_close q) = []"
  by (simp_all add: wq_close_def)

lemma wq_enqueue_refused: "wq_enqueue bs q = (Inl r, q') \<Longrightarrow> q' = q"
  by (auto simp: wq_enqueue_def split: if_splits)

lemma wq_enqueue_accepted: "wq_enqueue bs q = (Inr (), q') \<Longrightarrow> wq_backlog q' = wq_backlog q @ bs"
  by (auto simp: wq_enqueue_def wq_backlog_def split: if_splits)

section \<open>The writer thread\<close>

text \<open>
  \<open>run_pty_writer\<close> as steps interleaved with the producers' calls: a batch is taken when the
  thread is idle, its items are written one at a time, a failed write closes the queue and ends
  the thread. \<open>accepted\<close> records what producers were told was accepted, \<open>written\<close> what reached
  the PTY.
\<close>

record pty_writer =
  pw_queue :: pty_write_queue
  pw_in_flight :: "bytes list"
  pw_running :: bool
  pw_accepted :: bytes
  pw_written :: bytes

definition pw_init :: pty_writer where
  "pw_init = \<lparr>pw_queue = wq_spawn, pw_in_flight = [], pw_running = True, pw_accepted = [], pw_written = []\<rparr>"

inductive pw_step :: "pty_writer \<Rightarrow> pty_writer \<Rightarrow> bool" where
  pw_produce:
    "wq_enqueue bs (pw_queue s) = (Inr (), q) \<Longrightarrow>
     pw_step s (s\<lparr>pw_queue := q, pw_accepted := pw_accepted s @ bs\<rparr>)"
| pw_take:
    "pw_running s \<Longrightarrow> pw_in_flight s = [] \<Longrightarrow>
     wq_wait_for_writes (pw_queue s) = (WaitBatch batch, q) \<Longrightarrow>
     pw_step s (s\<lparr>pw_queue := q, pw_in_flight := batch\<rparr>)"
| pw_write:
    "pw_running s \<Longrightarrow> pw_in_flight s = bs # rest \<Longrightarrow>
     pw_step s (s\<lparr>pw_in_flight := rest, pw_written := pw_written s @ bs\<rparr>)"
| pw_write_error:
    "pw_running s \<Longrightarrow> pw_in_flight s = bs # rest \<Longrightarrow>
     pw_step s (s\<lparr>pw_queue := wq_close (pw_queue s), pw_running := False\<rparr>)"
| pw_end:
    "pw_running s \<Longrightarrow> pw_in_flight s = [] \<Longrightarrow>
     wq_wait_for_writes (pw_queue s) = (WaitEnded, q) \<Longrightarrow>
     pw_step s (s\<lparr>pw_running := False\<rparr>)"
| pw_close_pane:
    "pw_step s (s\<lparr>pw_queue := wq_close (pw_queue s)\<rparr>)"

inductive_cases pw_stepE: "pw_step s t"

inductive pw_reachable :: "pty_writer \<Rightarrow> bool" where
  pw_start: "pw_reachable pw_init"
| pw_next: "pw_reachable s \<Longrightarrow> pw_step s t \<Longrightarrow> pw_reachable t"

definition pw_inv :: "pty_writer \<Rightarrow> bool" where
  "pw_inv s \<longleftrightarrow>
     wq_ok (pw_queue s) \<and>
     (\<exists>lost. pw_accepted s = pw_written s @ lost \<and>
       (\<not> wq_closed (pw_queue s) \<longrightarrow>
          pw_running s \<and> lost = concat (pw_in_flight s) @ wq_backlog (pw_queue s)) \<and>
       (\<exists>tail. lost = concat (pw_in_flight s) @ tail))"

lemma pw_inv_step: "pw_step s t \<Longrightarrow> pw_inv s \<Longrightarrow> pw_inv t"
proof (induction rule: pw_step.induct)
  case (pw_produce bs s q)
  then show ?case
    using wq_ok_enqueue [of "pw_queue s" bs "Inr ()" q] wq_enqueue_accepted [of bs "pw_queue s" q]
    by (auto simp: pw_inv_def wq_enqueue_def split: if_splits)
next
  case (pw_take s batch q)
  then show ?case
    using wq_ok_wait [of "pw_queue s" "WaitBatch batch" q]
    by (auto simp: pw_inv_def wq_wait_for_writes_def wq_backlog_def split: if_splits)
next
  case (pw_write s bs rest)
  then show ?case by (fastforce simp: pw_inv_def)
next
  case (pw_write_error s bs rest)
  then show ?case by (auto simp: pw_inv_def wq_ok_close)
next
  case (pw_end s q)
  then show ?case by (auto simp: pw_inv_def wq_wait_for_writes_def split: if_splits)
next
  case (pw_close_pane s)
  then show ?case by (auto simp: pw_inv_def wq_ok_close)
qed

lemma pw_reachable_inv: "pw_reachable s \<Longrightarrow> pw_inv s"
proof (induction rule: pw_reachable.induct)
  case pw_start
  show ?case
    by (simp add: pw_inv_def pw_init_def wq_ok_spawn wq_backlog_def)
      (simp add: wq_spawn_def wq_with_capacity_def)
next
  case (pw_next s t)
  then show ?case by (blast intro: pw_inv_step)
qed




section \<open>Client deliveries\<close>

text \<open>
  What is queued for one client's socket. Payload deliveries carry the retained chunk and become
  wire messages only in the writer thread.
\<close>

datatype client_delivery =
    DeliverMessage server_message
  | DeliverOutput pane_id attachment_lease output_sequence bytes
  | DeliverReplay request_id pane_id attachment_lease output_sequence bytes
  | DeliverClose

fun delivery_message :: "client_delivery \<Rightarrow> server_message option" where
  "delivery_message (DeliverMessage message) = Some message"
| "delivery_message (DeliverOutput pane lease sequence bs) = Some (SPtyOutput pane lease sequence bs)"
| "delivery_message (DeliverReplay request pane lease sequence bs) =
     Some (SReplayChunk request pane lease sequence bs)"
| "delivery_message DeliverClose = None"

definition CLIENT_QUEUE_CAPACITY :: nat where
  "CLIENT_QUEUE_CAPACITY = 1024"

text \<open>
  The channel behind every clone of one \<open>ClientHandle\<close>: the flag, the queue, whether the writer
  thread still holds the receiver, and whether the socket is open.
\<close>

record client_channel =
  ch_active :: bool
  ch_queue :: "client_delivery list"
  ch_receiver_open :: bool
  ch_stream_open :: bool

definition ch_new :: client_channel where
  "ch_new = \<lparr>ch_active = True, ch_queue = [], ch_receiver_open = True, ch_stream_open = True\<rparr>"

definition ch_try_send :: "client_delivery \<Rightarrow> client_channel \<Rightarrow> bool \<times> client_channel" where
  "ch_try_send d ch =
     (if ch_receiver_open ch \<and> length (ch_queue ch) < CLIENT_QUEUE_CAPACITY
      then (True, ch\<lparr>ch_queue := ch_queue ch @ [d]\<rparr>)
      else (False, ch))"

definition ch_try_enqueue :: "client_delivery \<Rightarrow> client_channel \<Rightarrow> bool \<times> client_channel" where
  "ch_try_enqueue d ch = (if ch_active ch then ch_try_send d ch else (False, ch))"

definition ch_finish_after_pending_deliveries :: "client_channel \<Rightarrow> client_channel" where
  "ch_finish_after_pending_deliveries ch =
     (case ch_try_send DeliverClose (ch\<lparr>ch_active := False\<rparr>) of
        (True, ch) \<Rightarrow> ch
      | (False, ch) \<Rightarrow> ch\<lparr>ch_stream_open := False\<rparr>)"

definition ch_disconnect :: "client_channel \<Rightarrow> client_channel" where
  "ch_disconnect ch = ch\<lparr>ch_active := False, ch_stream_open := False\<rparr>"

text \<open>
  One turn of the writer thread: the next delivery is written, or the thread ends (at \<open>Close\<close> or
  when the write fails), which clears the flag, drops the receiver and shuts the socket down.
\<close>

definition ch_writer_end :: "client_channel \<Rightarrow> client_channel" where
  "ch_writer_end ch =
     ch\<lparr>ch_active := False, ch_receiver_open := False, ch_stream_open := False, ch_queue := []\<rparr>"

definition ch_writer_turn :: "bool \<Rightarrow> client_channel \<Rightarrow> server_message list \<times> client_channel" where
  "ch_writer_turn write_ok ch =
     (case ch_queue ch of
        [] \<Rightarrow> ([], ch)
      | d # ds \<Rightarrow>
          (case delivery_message d of
             None \<Rightarrow> ([], ch_writer_end ch)
           | Some message \<Rightarrow>
               if write_ok then ([message], ch\<lparr>ch_queue := ds\<rparr>) else ([], ch_writer_end ch)))"

interpretation delivery_inbox: refusing_inbox ch_try_enqueue ch_queue "\<lambda>d. [d]"
  by unfold_locales (auto simp: ch_try_enqueue_def ch_try_send_def split: if_splits)

lemma ch_try_enqueue_bound:
  "length (ch_queue ch) \<le> CLIENT_QUEUE_CAPACITY \<Longrightarrow> ch_try_enqueue d ch = (r, ch') \<Longrightarrow>
   length (ch_queue ch') \<le> CLIENT_QUEUE_CAPACITY"
  by (auto simp: ch_try_enqueue_def ch_try_send_def split: if_splits)

lemma ch_try_enqueue_frame [frame]:
  "ch_active (snd (ch_try_enqueue d ch)) = ch_active ch"
  "ch_receiver_open (snd (ch_try_enqueue d ch)) = ch_receiver_open ch"
  "ch_stream_open (snd (ch_try_enqueue d ch)) = ch_stream_open ch"
  by (simp_all add: ch_try_enqueue_def ch_try_send_def)

lemma ch_try_enqueue_True:
  "ch_try_enqueue d ch = (True, ch') \<longleftrightarrow>
   ch_active ch \<and> ch_receiver_open ch \<and> length (ch_queue ch) < CLIENT_QUEUE_CAPACITY \<and>
   ch' = ch\<lparr>ch_queue := ch_queue ch @ [d]\<rparr>"
  by (auto simp: ch_try_enqueue_def ch_try_send_def)

lemma ch_inactive_refuses: "\<not> ch_active ch \<Longrightarrow> ch_try_enqueue d ch = (False, ch)"
  by (simp add: ch_try_enqueue_def)

end
