(* ===== verification/Request_Scope.thy ===== *)
theory Request_Scope
  imports Protocol_Types
begin

text \<open>
  Idempotent requests (\<open>RequestScopeState\<close> in \<open>src/bin/mult-server.rs\<close>). A scope
  records every correlated request it has admitted with its answer, so that a retried request is
  answered from the record and never carried out twice. The lemmas rest on the ordered-map
  interface: counting pending and answered records, and evicting the one with the least number.
\<close>

section \<open>The data\<close>

type_synonym client_id = u64

record request_record =
  rr_request :: client_message
  rr_response :: "server_message option"
  rr_waiters :: "client_id list"

record request_scope =
  rs_highest :: "request_id option"
  rs_records :: "(request_id, request_record) btmap"

datatype request_disposition =
    DispNew
  | DispPending
  | DispCached server_message
  | DispCollision
  | DispExpired
  | DispTooManyPending

definition scope_new :: request_scope where
  "scope_new = \<lparr>rs_highest = None, rs_records = btm_empty\<rparr>"

definition answered :: "request_id \<times> request_record \<Rightarrow> bool" where
  "answered = (\<lambda>(k, r). rr_response r \<noteq> None)"

definition pending_count :: "request_scope \<Rightarrow> nat" where
  "pending_count s = length (filter (\<lambda>e. \<not> answered e) (btm_entries (rs_records s)))"

definition answered_count :: "(request_id, request_record) btmap \<Rightarrow> nat" where
  "answered_count m = length (filter answered (btm_entries m))"

section \<open>The operations\<close>

definition scope_begin ::
    "request_id \<Rightarrow> client_message \<Rightarrow> client_id \<Rightarrow> request_scope \<Rightarrow> request_disposition \<times> request_scope" where
  "scope_begin rid request client s =
     (case btm_get (rs_records s) rid of
        Some record \<Rightarrow>
          if rr_request record \<noteq> request then (DispCollision, s)
          else (case rr_response record of
                  Some response \<Rightarrow> (DispCached response, s)
                | None \<Rightarrow>
                    if client \<in> set (rr_waiters record) then (DispPending, s)
                    else (DispPending,
                          s\<lparr>rs_records := btm_insert rid
                              (record\<lparr>rr_waiters := rr_waiters record @ [client]\<rparr>) (rs_records s)\<rparr>))
      | None \<Rightarrow>
          if (case rs_highest s of Some highest \<Rightarrow> rid \<le> highest | None \<Rightarrow> False)
          then (DispExpired, s)
          else let overloaded = (MAX_PENDING_REQUESTS_PER_CLIENT \<le> pending_count s);
                   record = \<lparr>rr_request = request, rr_response = None, rr_waiters = [client]\<rparr>;
                   s = s\<lparr>rs_highest := Some rid, rs_records := btm_insert rid record (rs_records s)\<rparr>
               in (if overloaded then DispTooManyPending else DispNew, s))"

text \<open>\<open>evict_old_results\<close> removes the answered record with the least number while too many are kept.\<close>

function evict_old_results :: "(request_id, request_record) btmap \<Rightarrow> (request_id, request_record) btmap" where
  "evict_old_results m =
     (if MAX_CACHED_REQUEST_RESULTS_PER_SCOPE < answered_count m
      then (case find answered (btm_entries m) of
              None \<Rightarrow> m
            | Some (oldest, _) \<Rightarrow> evict_old_results (btm_remove oldest m))
      else m)"
  by pat_completeness auto
termination
proof (relation "measure answered_count")
  fix m :: "(request_id, request_record) btmap" and p oldest r
  assume "find answered (btm_entries m) = Some p" and "(oldest, r) = p"
  then have "btm_get m oldest = Some r \<and> answered (oldest, r)"
    using btm.find_entry_least [of answered m oldest r] by simp
  then show "(btm_remove oldest m, m) \<in> measure answered_count"
    using btm.count_del_less [of m oldest r answered] by (simp add: answered_count_def)
qed simp

declare evict_old_results.simps [simp del]

definition scope_complete ::
    "request_id \<Rightarrow> server_message \<Rightarrow> request_scope \<Rightarrow> client_id list \<times> request_scope" where
  "scope_complete rid response s =
     (case btm_get (rs_records s) rid of
        Some record \<Rightarrow>
          (rr_waiters record,
           s\<lparr>rs_records := evict_old_results
               (btm_insert rid (record\<lparr>rr_response := Some response, rr_waiters := []\<rparr>) (rs_records s))\<rparr>)
      | None \<Rightarrow> ([], s\<lparr>rs_records := evict_old_results (rs_records s)\<rparr>))"

definition scope_remove_client :: "client_id \<Rightarrow> request_scope \<Rightarrow> request_scope" where
  "scope_remove_client client s =
     s\<lparr>rs_records := btm_map_values
         (\<lambda>r. r\<lparr>rr_waiters := filter (\<lambda>c. c \<noteq> client) (rr_waiters r)\<rparr>) (rs_records s)\<rparr>"

section \<open>Eviction\<close>

text \<open>
  While too many answers are kept there is an oldest one, and eviction continues without it. The
  induction rule follows the loop.
\<close>

lemma oldest_answered:
  assumes "MAX_CACHED_REQUEST_RESULTS_PER_SCOPE < answered_count m"
  obtains oldest w where "find answered (btm_entries m) = Some (oldest, w)"
    and "btm_get m oldest = Some w" and "rr_response w \<noteq> None"
    and "\<And>j r. btm_get m j = Some r \<Longrightarrow> rr_response r \<noteq> None \<Longrightarrow> oldest \<le> j"
    and "evict_old_results m = evict_old_results (btm_remove oldest m)"
proof -
  have "filter answered (btm_entries m) \<noteq> []"
    using assms by (auto simp: answered_count_def)
  then obtain e where "find answered (btm_entries m) = Some e"
    by (cases "find answered (btm_entries m)") (auto simp: find_None_iff filter_empty_conv)
  then obtain oldest w where f: "find answered (btm_entries m) = Some (oldest, w)"
    by (cases e) simp
  show thesis
  proof (rule that [OF f])
    show "btm_get m oldest = Some w" and "rr_response w \<noteq> None"
      and "\<And>j r. btm_get m j = Some r \<Longrightarrow> rr_response r \<noteq> None \<Longrightarrow> oldest \<le> j"
      using btm.find_entry_least [OF f] by (auto simp: answered_def)
    show "evict_old_results m = evict_old_results (btm_remove oldest m)"
      using assms f by (subst evict_old_results.simps) simp
  qed
qed

lemma evict_small:
  "answered_count m \<le> MAX_CACHED_REQUEST_RESULTS_PER_SCOPE \<Longrightarrow> evict_old_results m = m"
  by (subst evict_old_results.simps) simp

lemma evict_induct [case_names keep evict]:
  assumes keep: "\<And>m. answered_count m \<le> MAX_CACHED_REQUEST_RESULTS_PER_SCOPE \<Longrightarrow> P m"
    and evict: "\<And>m oldest w. MAX_CACHED_REQUEST_RESULTS_PER_SCOPE < answered_count m \<Longrightarrow>
      btm_get m oldest = Some w \<Longrightarrow> rr_response w \<noteq> None \<Longrightarrow>
      (\<And>j r. btm_get m j = Some r \<Longrightarrow> rr_response r \<noteq> None \<Longrightarrow> oldest \<le> j) \<Longrightarrow>
      evict_old_results m = evict_old_results (btm_remove oldest m) \<Longrightarrow>
      P (btm_remove oldest m) \<Longrightarrow> P m"
  shows "P m"
proof (induction m rule: evict_old_results.induct)
  case (1 m)
  show ?case
  proof (cases "MAX_CACHED_REQUEST_RESULTS_PER_SCOPE < answered_count m")
    case True
    then obtain oldest w where o: "find answered (btm_entries m) = Some (oldest, w)"
      "btm_get m oldest = Some w" "rr_response w \<noteq> None"
      "\<And>j r. btm_get m j = Some r \<Longrightarrow> rr_response r \<noteq> None \<Longrightarrow> oldest \<le> j"
      "evict_old_results m = evict_old_results (btm_remove oldest m)"
      by (rule oldest_answered) blast
    show ?thesis
      using True o(2-5) "1.IH" [OF True o(1) refl] by (rule evict)
  next
    case False
    then show ?thesis by (intro keep) simp
  qed
qed

text \<open>
  Eviction never touches a pending record, never invents one, leaves at most the bound, and drops
  an answered record only when every older answered record is gone too.
\<close>

lemma evict_get: "btm_get (evict_old_results m) k = Some r \<Longrightarrow> btm_get m k = Some r"
  by (induction m rule: evict_induct) (auto simp: evict_small split: if_splits)

lemma evict_keeps_pending:
  "btm_get m k = Some r \<Longrightarrow> rr_response r = None \<Longrightarrow> btm_get (evict_old_results m) k = Some r"
proof (induction m rule: evict_induct)
  case (keep m)
  then show ?case by (simp add: evict_small)
next
  case (evict m oldest w)
  then have "k \<noteq> oldest" by auto
  then show ?case using evict by simp
qed

lemma evict_bound: "answered_count (evict_old_results m) \<le> MAX_CACHED_REQUEST_RESULTS_PER_SCOPE"
  by (induction m rule: evict_induct) (simp_all add: evict_small)

lemma evict_oldest_first:
  "btm_get m k = Some r \<Longrightarrow> btm_get (evict_old_results m) k = None \<Longrightarrow>
   btm_get m j = Some w \<Longrightarrow> rr_response w \<noteq> None \<Longrightarrow> j \<le> k \<Longrightarrow>
   btm_get (evict_old_results m) j = None"
proof (induction m rule: evict_induct)
  case (keep m)
  then show ?case by (simp add: evict_small)
next
  case (evict m oldest v)
  show ?case
  proof (cases "j = oldest")
    case True
    then show ?thesis
      using evict_get [of "btm_remove oldest m" oldest] evict.hyps(5)
      by (cases "btm_get (evict_old_results m) j") auto
  next
    case False
    then have "k \<noteq> oldest" using evict.hyps(4) evict.prems by fastforce
    then show ?thesis using evict.IH evict.prems evict.hyps(5) False by simp
  qed
qed

section \<open>Runs\<close>

text \<open>
  The history of a scope: requests arriving from its connections, answers being recorded, and
  connections going away. \<open>scope_events\<close> collects the disposition of every arrival.
\<close>

datatype scope_event =
    Arrive request_id client_message client_id
  | Answer request_id server_message
  | Leave client_id

fun scope_step :: "scope_event \<Rightarrow> request_scope \<Rightarrow> (request_id \<times> request_disposition) list \<times> request_scope" where
  "scope_step (Arrive rid request client) s =
     (case scope_begin rid request client s of (d, s) \<Rightarrow> ([(rid, d)], s))"
| "scope_step (Answer rid response) s = ([], snd (scope_complete rid response s))"
| "scope_step (Leave client) s = ([], scope_remove_client client s)"

fun scope_events :: "scope_event list \<Rightarrow> request_scope \<Rightarrow> (request_id \<times> request_disposition) list \<times> request_scope" where
  "scope_events [] s = ([], s)"
| "scope_events (e # es) s =
     (case scope_step e s of (ds, s) \<Rightarrow>
        case scope_events es s of (ds', s) \<Rightarrow> (ds @ ds', s))"

definition scope_ok :: "request_scope \<Rightarrow> bool" where
  "scope_ok s \<longleftrightarrow>
     (\<forall>k r. btm_get (rs_records s) k = Some r \<longrightarrow> (\<exists>h. rs_highest s = Some h \<and> k \<le> h))"

lemma scope_ok_new [simp]: "scope_ok scope_new"
  by (simp add: scope_ok_def scope_new_def)

lemma scope_begin_cases:
  assumes "scope_begin rid request client s = (d, s')"
  obtains (known) rec where "btm_get (rs_records s) rid = Some rec"
      and "d = DispCollision \<and> rr_request rec \<noteq> request \<or>
           (\<exists>response. d = DispCached response \<and> rr_request rec = request \<and> rr_response rec = Some response) \<or>
           d = DispPending \<and> rr_request rec = request \<and> rr_response rec = None"
      and "s' = s \<or> (rr_response rec = None \<and> s' = s\<lparr>rs_records := btm_insert rid
              (rec\<lparr>rr_waiters := rr_waiters rec @ [client]\<rparr>) (rs_records s)\<rparr>)"
  | (expired) highest where "btm_get (rs_records s) rid = None" and "rs_highest s = Some highest"
      and "rid \<le> highest" and "d = DispExpired" and "s' = s"
  | (admitted) "btm_get (rs_records s) rid = None"
      and "\<And>h. rs_highest s = Some h \<Longrightarrow> h < rid"
      and "d = (if MAX_PENDING_REQUESTS_PER_CLIENT \<le> pending_count s then DispTooManyPending else DispNew)"
      and "s' = s\<lparr>rs_highest := Some rid, rs_records :=
             btm_insert rid \<lparr>rr_request = request, rr_response = None, rr_waiters = [client]\<rparr> (rs_records s)\<rparr>"
proof (cases "btm_get (rs_records s) rid")
  case (Some rec)
  then show thesis
    using assms by (intro known) (auto simp: scope_begin_def split: if_splits option.splits)
next
  case None
  show thesis
  proof (cases "\<exists>h. rs_highest s = Some h \<and> rid \<le> h")
    case True
    then obtain h where "rs_highest s = Some h" "rid \<le> h" by blast
    then show thesis
      using assms None by (intro expired [of h]) (auto simp: scope_begin_def)
  next
    case False
    have "(d, s') = (if MAX_PENDING_REQUESTS_PER_CLIENT \<le> pending_count s then DispTooManyPending else DispNew,
        s\<lparr>rs_highest := Some rid, rs_records :=
          btm_insert rid \<lparr>rr_request = request, rr_response = None, rr_waiters = [client]\<rparr> (rs_records s)\<rparr>)"
      using assms None False by (auto simp: scope_begin_def Let_def split: option.splits if_splits)
    then show thesis
      using None False by (intro admitted) auto
  qed
qed


text \<open>The highest admitted number never decreases.\<close>

definition highest_le :: "request_id option \<Rightarrow> request_id option \<Rightarrow> bool" where
  "highest_le a b \<longleftrightarrow> (\<forall>h. a = Some h \<longrightarrow> (\<exists>h'. b = Some h' \<and> h \<le> h'))"

lemma highest_le_refl [simp]: "highest_le a a"
  by (simp add: highest_le_def)

lemma highest_le_trans: "highest_le a b \<Longrightarrow> highest_le b c \<Longrightarrow> highest_le a c"
  by (fastforce simp: highest_le_def)

lemma scope_complete_highest [frame]: "rs_highest (snd (scope_complete rid response s)) = rs_highest s"
  by (simp add: scope_complete_def split: option.splits)

lemma scope_remove_client_highest [frame]: "rs_highest (scope_remove_client client s) = rs_highest s"
  by (simp add: scope_remove_client_def)

lemma scope_begin_highest: "scope_begin rid request client s = (d, s') \<Longrightarrow> highest_le (rs_highest s) (rs_highest s')"
  by (erule scope_begin_cases) (auto simp: highest_le_def less_imp_le)

lemma scope_step_highest: "scope_step e s = (ds, s') \<Longrightarrow> highest_le (rs_highest s) (rs_highest s')"
  by (cases e) (auto simp: frame dest: scope_begin_highest split: prod.splits)

definition admitted :: "request_id \<times> request_disposition \<Rightarrow> bool" where
  "admitted = (\<lambda>(rid, d). d = DispNew \<or> d = DispTooManyPending)"

definition above :: "request_id option \<Rightarrow> request_id \<Rightarrow> bool" where
  "above highest rid \<longleftrightarrow> (\<forall>h. highest = Some h \<longrightarrow> h < rid)"

lemma above_mono: "highest_le a b \<Longrightarrow> above b rid \<Longrightarrow> above a rid"
  by (fastforce simp: highest_le_def above_def)

lemma scope_step_admits:
  assumes "scope_step e s = (ds, s')"
  shows "filter admitted ds = [] \<or>
    (\<exists>p. filter admitted ds = [p] \<and> above (rs_highest s) (fst p) \<and> rs_highest s' = Some (fst p))"
proof (cases e)
  case (Arrive rid request client)
  then obtain d where d: "scope_begin rid request client s = (d, s')" and ds: "ds = [(rid, d)]"
    using assms by (auto split: prod.splits)
  from d show ?thesis
    by (cases rule: scope_begin_cases) (auto simp: ds admitted_def above_def)
qed (use assms in auto)

lemma scope_events_admits:
  "scope_events es s = (ds, s') \<Longrightarrow>
   sorted_wrt (<) (map fst (filter admitted ds)) \<and>
   (\<forall>rid \<in> set (map fst (filter admitted ds)). above (rs_highest s) rid)"
proof (induction es arbitrary: s ds)
  case Nil
  then show ?case by simp
next
  case (Cons e es)
  obtain ds1 s1 where e: "scope_step e s = (ds1, s1)" by fastforce
  obtain ds2 where es: "scope_events es s1 = (ds2, s')" and ds: "ds = ds1 @ ds2"
    using Cons.prems e by (auto split: prod.splits)
  have rest: "sorted_wrt (<) (map fst (filter admitted ds2))"
    and later: "\<And>rid. rid \<in> set (map fst (filter admitted ds2)) \<Longrightarrow> above (rs_highest s1) rid"
    using Cons.IH [OF es] by blast+
  then have all: "\<And>rid. rid \<in> set (map fst (filter admitted ds2)) \<Longrightarrow> above (rs_highest s) rid"
    using above_mono scope_step_highest [OF e] by blast
  consider "filter admitted ds1 = []"
    | p where "filter admitted ds1 = [p]" "above (rs_highest s) (fst p)" "rs_highest s1 = Some (fst p)"
    using scope_step_admits [OF e] by blast
  then show ?case
  proof cases
    case 1
    then show ?thesis using rest all by (simp add: ds)
  next
    case 2
    then have "\<And>rid. rid \<in> set (map fst (filter admitted ds2)) \<Longrightarrow> fst p < rid"
      using later by (fastforce simp: above_def)
    then show ?thesis using 2 rest all by (simp add: ds)
  qed
qed

text \<open>
  C9. A request number is admitted for execution at most once in the life of its scope: over any
  history of arrivals (retries, reorderings and collisions included), answers and departing
  connections, the numbers that are admitted (as new or as one too many) strictly increase.
\<close>

theorem requests_admitted_once:
  "sorted_wrt (<) (map fst (filter admitted (fst (scope_events es s))))"
  using scope_events_admits [of es s] by (cases "scope_events es s") auto

lemma scope_ok_evict:
  "scope_ok s \<Longrightarrow> (\<And>k r. btm_get m k = Some r \<Longrightarrow> \<exists>r'. btm_get (rs_records s) k = Some r') \<Longrightarrow>
   scope_ok (s\<lparr>rs_records := m\<rparr>)"
  by (fastforce simp: scope_ok_def)

lemma scope_ok_complete: "scope_ok s \<Longrightarrow> scope_ok (snd (scope_complete rid response s))"
  by (auto simp: scope_complete_def intro!: scope_ok_evict dest!: evict_get split: option.splits if_splits)

lemma scope_ok_remove_client: "scope_ok s \<Longrightarrow> scope_ok (scope_remove_client client s)"
  by (auto simp: scope_remove_client_def scope_ok_def)

lemma scope_ok_begin: "scope_ok s \<Longrightarrow> scope_begin rid request client s = (d, s') \<Longrightarrow> scope_ok s'"
  by (erule scope_begin_cases) (fastforce simp: scope_ok_def less_imp_le split: if_splits)+

lemma scope_ok_step: "scope_ok s \<Longrightarrow> scope_step e s = (ds, s') \<Longrightarrow> scope_ok s'"
  by (cases e) (auto simp: scope_ok_complete scope_ok_remove_client dest: scope_ok_begin split: prod.splits)

text \<open>Once answered, a number is either still answered the same way or spent.\<close>

definition settled :: "request_id \<Rightarrow> client_message \<Rightarrow> server_message \<Rightarrow> request_scope \<Rightarrow> bool" where
  "settled rid request response s \<longleftrightarrow>
     (case btm_get (rs_records s) rid of
        Some r \<Rightarrow> rr_request r = request \<and> rr_response r = Some response
      | None \<Rightarrow> \<exists>h. rs_highest s = Some h \<and> rid \<le> h)"

lemma settled_step:
  assumes "scope_ok s" and "settled rid request response s" and "\<forall>a. e \<noteq> Answer rid a"
    and "scope_step e s = (ds, s')"
  shows "settled rid request response s'"
proof (cases e)
  case (Arrive rid' request' client)
  then obtain d where "scope_begin rid' request' client s = (d, s')"
    using assms(4) by (auto split: prod.splits)
  then show ?thesis
    using assms(1,2)
    by (cases rule: scope_begin_cases)
      (fastforce simp: settled_def scope_ok_def less_imp_le split: option.splits if_splits)+
next
  case (Answer rid' response')
  then have s': "s' = snd (scope_complete rid' response' s)" and "rid' \<noteq> rid"
    using assms(3,4) by auto
  then have same: "btm_get (rs_records s') rid = Some r \<Longrightarrow> btm_get (rs_records s) rid = Some r" for r
    by (auto simp: scope_complete_def dest!: evict_get split: option.splits)
  have "rs_highest s' = rs_highest s" by (simp add: s' frame)
  moreover have "\<exists>h. rs_highest s = Some h \<and> rid \<le> h"
    using assms(1,2) by (auto simp: settled_def scope_ok_def split: option.splits)
  ultimately show ?thesis
    using same assms(2) by (auto simp: settled_def split: option.splits)
next
  case (Leave client)
  then show ?thesis
    using assms(2,4) by (auto simp: scope_remove_client_def settled_def split: option.splits)
qed

lemma settled_events:
  "scope_ok s \<Longrightarrow> settled rid request response s \<Longrightarrow> \<forall>a. Answer rid a \<notin> set es \<Longrightarrow>
   scope_events es s = (ds, s') \<Longrightarrow> settled rid request response s'"
proof (induction es arbitrary: s ds)
  case Nil
  then show ?case by simp
next
  case (Cons e es)
  obtain ds1 s1 where e: "scope_step e s = (ds1, s1)" by fastforce
  then obtain ds2 where es: "scope_events es s1 = (ds2, s')"
    using Cons.prems(4) by (auto split: prod.splits)
  show ?case
    using Cons.IH [OF _ _ _ es] Cons.prems settled_step [OF Cons.prems(1,2) _ e]
      scope_ok_step [OF Cons.prems(1) e] by auto
qed



definition sample_stop :: "request_id \<Rightarrow> client_message" where
  "sample_stop rid =
     CStop rid (SessionIdentity (StateNamespace 1) (SessionToken 2)) (PaneId 7) (AttachmentLease 1)"

definition sample_answer :: server_message where
  "sample_answer = SStopResult (RequestId 1) SOAlreadyAbsent"

definition sample_scope :: request_scope where
  "sample_scope =
     snd (scope_complete (RequestId 1) sample_answer
       (snd (scope_begin (RequestId 1) (sample_stop (RequestId 1)) 1 scope_new)))"

lemma sample_scope_record:
  "btm_get (rs_records sample_scope) (RequestId 1) =
     Some \<lparr>rr_request = sample_stop (RequestId 1), rr_response = Some sample_answer, rr_waiters = []\<rparr>"
proof -
  have "answered_count (btm_insert k r btm_empty) \<le> MAX_CACHED_REQUEST_RESULTS_PER_SCOPE" for k r
    by (simp add: answered_count_def btm.count_ins MAX_CACHED_REQUEST_RESULTS_PER_SCOPE_def)
  moreover have "btm_insert k r (btm_insert k q btm_empty) = btm_insert k r btm_empty"
    for k :: request_id and r q :: request_record
    by (rule btm_eqI) simp
  ultimately show ?thesis
    by (simp add: sample_scope_def scope_begin_def scope_new_def scope_complete_def Let_def evict_small)
qed




end
