(* ===== verification/Pane_State.thy ===== *)
theory Pane_State
  imports Raw_History Inboxes Request_Scope
begin

text \<open>
  One pane of the daemon (\<open>PaneState\<close> in \<open>src/bin/mult-server.rs\<close>): its coordinates,
  retained output with absolute sequence numbers, owner, lifecycle and pending stop requests. The
  PTY master is outside the model: what an \<open>ioctl\<close> on it answers is an argument of the operation
  that makes the call. Mutexes are not modelled: each operation here runs under the pane's lock,
  and no lock is poisoned (which takes a panic of another thread).
\<close>

section \<open>The state\<close>

record attachment_owner =
  ao_scope :: client_scope_id
  ao_lease :: attachment_lease
  ao_client :: client_id

datatype pane_lifecycle = LifeRunning | LifeStopping | LifeExited | LifeRemoved

record request_key =
  rk_scope :: client_scope_id
  rk_request_id :: request_id

record pane_state =
  ps_session :: session_id
  ps_identity :: session_identity
  ps_agent :: "agent_metadata option"
  ps_pane :: pane_id
  ps_name :: string
  ps_title :: string
  ps_rows :: u16
  ps_cols :: u16
  ps_raw_history :: raw_history
  ps_history_start :: output_sequence
  ps_next_output :: output_sequence
  ps_writes :: pty_write_queue
  ps_child_pid :: u32
  ps_process_group :: int
  ps_foreground_process :: foreground_info
  ps_owner :: "attachment_owner option"
  ps_lifecycle :: pane_lifecycle
  ps_reader_done :: bool
  ps_child_exit :: "exit_info option"
  ps_last_wait_error :: "string option"
  ps_stop_driver_active :: bool
  ps_pending_stops :: "request_key list"
  ps_lifecycle_signal :: u64
  ps_foreground_poll_scheduled :: bool

section \<open>What is reported about a pane\<close>

definition session_info_of :: "pane_state \<Rightarrow> session_info" where
  "session_info_of p =
     \<lparr>si_id = ps_session p, si_identity = ps_identity p, si_name = ps_name p,
      si_pane = ps_pane p, si_attached = (ps_owner p \<noteq> None)\<rparr>"

definition pane_info_of :: "pane_state \<Rightarrow> pane_info" where
  "pane_info_of p =
     \<lparr>pi_id = ps_pane p, pi_title = ps_title p, pi_rows = ps_rows p, pi_cols = ps_cols p\<rparr>"

definition pane_title :: "string \<Rightarrow> launch_spec \<Rightarrow> string" where
  "pane_title shell launch = (case launch of LaunchShell \<Rightarrow> shell | LaunchCommand command \<Rightarrow> command)"

definition notify_lifecycle :: "pane_state \<Rightarrow> pane_state" where
  "notify_lifecycle p = p\<lparr>ps_lifecycle_signal := ps_lifecycle_signal p + 1\<rparr>"

section \<open>Leases\<close>

text \<open>\<open>active\<close> tells whether a client's connection is still usable (\<open>ClientHandle::is_active\<close>).\<close>

definition validate_lease ::
    "(client_id \<Rightarrow> bool) \<Rightarrow> pane_state \<Rightarrow> client_scope_id \<Rightarrow> client_id \<Rightarrow> attachment_lease \<Rightarrow>
     lease_rejection_reason + unit" where
  "validate_lease active p scope client lease =
     (case ps_owner p of
        None \<Rightarrow> Inl LRNotOwner
      | Some owner \<Rightarrow>
          if ao_lease owner \<noteq> lease then Inl LRStaleLease
          else if ao_scope owner \<noteq> scope \<or> ao_client owner \<noteq> client \<or> \<not> active (ao_client owner)
          then Inl LRNotOwner
          else Inr ())"

definition validate_mutation_lease ::
    "(client_id \<Rightarrow> bool) \<Rightarrow> pane_state \<Rightarrow> bool \<Rightarrow> client_scope_id \<Rightarrow> client_id \<Rightarrow> attachment_lease \<Rightarrow>
     lease_rejection_reason + unit" where
  "validate_mutation_lease active p shutting_down scope client lease =
     (if shutting_down \<or> ps_lifecycle p \<noteq> LifeRunning then Inl LRNotOwner
      else validate_lease active p scope client lease)"

definition validate_stop_lease ::
    "(client_id \<Rightarrow> bool) \<Rightarrow> pane_state \<Rightarrow> client_scope_id \<Rightarrow> client_id \<Rightarrow> attachment_lease \<Rightarrow>
     lease_rejection_reason + unit" where
  "validate_stop_lease active p scope client lease = validate_lease active p scope client lease"

lemma validate_lease_Inr:
  "validate_lease active p scope client lease = Inr () \<longleftrightarrow>
   ps_owner p = Some \<lparr>ao_scope = scope, ao_lease = lease, ao_client = client\<rparr> \<and> active client"
proof (cases "ps_owner p")
  case None
  then show ?thesis by (simp add: validate_lease_def)
next
  case (Some owner)
  then show ?thesis by (cases owner) (auto simp: validate_lease_def)
qed

lemma validate_mutation_lease_Inr:
  "validate_mutation_lease active p down scope client lease = Inr () \<longleftrightarrow>
   \<not> down \<and> ps_lifecycle p = LifeRunning \<and>
   ps_owner p = Some \<lparr>ao_scope = scope, ao_lease = lease, ao_client = client\<rparr> \<and> active client"
  by (auto simp: validate_mutation_lease_def validate_lease_Inr)

section \<open>Screen size and foreground process\<close>

definition bounded_pty_dimensions :: "u16 \<Rightarrow> u16 \<Rightarrow> u16 \<times> u16" where
  "bounded_pty_dimensions rows cols = bounded_screen_dimensions rows cols"

text \<open>\<open>ioctl_result\<close> is what \<open>TIOCSWINSZ\<close> answers for the bounded size.\<close>

definition pane_resize ::
    "(u16 \<times> u16 \<Rightarrow> io_error option) \<Rightarrow> u16 \<Rightarrow> u16 \<Rightarrow> pane_state \<Rightarrow> (io_error + unit) \<times> pane_state" where
  "pane_resize ioctl_result rows cols p =
     (let (rows, cols) = bounded_pty_dimensions rows cols in
      case ioctl_result (rows, cols) of
        Some error \<Rightarrow> (Inl error, p)
      | None \<Rightarrow> (Inr (), p\<lparr>ps_rows := rows, ps_cols := cols\<rparr>))"

text \<open>
  What probing the PTY's foreground process group answers: the group's leader (a \<open>pid_t\<close>), and
  the command line of a process.
\<close>

record foreground_probe =
  fp_leader :: "int option"
  fp_command_line :: "u32 \<Rightarrow> string option"

definition current_foreground_process :: "foreground_probe \<Rightarrow> pane_state \<Rightarrow> foreground_info" where
  "current_foreground_process probe p =
     (let foreground_pid = (case fp_leader probe of
              None \<Rightarrow> None
            | Some pid \<Rightarrow> if 0 \<le> pid \<and> pid < 2 ^ 32 then Some (of_int pid) else None)
      in \<lparr>fg_root_pid = Some (ps_child_pid p), fg_foreground_pid = foreground_pid,
          fg_command = (case foreground_pid of None \<Rightarrow> None | Some pid \<Rightarrow> fp_command_line probe pid)\<rparr>)"

definition refresh_foreground_process ::
    "foreground_probe \<Rightarrow> pane_state \<Rightarrow> foreground_info \<times> pane_state" where
  "refresh_foreground_process probe p =
     (let process = current_foreground_process probe p
      in (process, p\<lparr>ps_foreground_process := process\<rparr>))"

definition refresh_foreground_process_if_changed ::
    "foreground_probe \<Rightarrow> pane_state \<Rightarrow> foreground_info option \<times> pane_state" where
  "refresh_foreground_process_if_changed probe p =
     (let process = current_foreground_process probe p in
      if process = ps_foreground_process p then (None, p)
      else (Some process, p\<lparr>ps_foreground_process := process\<rparr>))"

definition input_may_change_foreground :: "bytes \<Rightarrow> bool" where
  "input_may_change_foreground bs \<longleftrightarrow> list_ex (\<lambda>b. b = 13 \<or> b = 10 \<or> b = 3 \<or> b = 26) bs"

text \<open>The debounce slot: \<open>swap(true)\<close> tells whether this caller claimed it.\<close>

definition claim_foreground_process_poll :: "pane_state \<Rightarrow> bool \<times> pane_state" where
  "claim_foreground_process_poll p =
     (\<not> ps_foreground_poll_scheduled p, p\<lparr>ps_foreground_poll_scheduled := True\<rparr>)"

section \<open>Retained output\<close>

text \<open>
  \<open>append_raw_history_with_limit\<close>: the sequence counter is advanced first, and an exhausted
  counter leaves the pane as it was; the history's start moves by what was dropped.
\<close>

definition append_raw_history_with_limit ::
    "nat \<Rightarrow> bytes \<Rightarrow> pane_state \<Rightarrow> (io_error + output_sequence) \<times> pane_state" where
  "append_raw_history_with_limit limit bs p =
     (let sequence = ps_next_output p in
      case checked_add_bytes sequence (length bs) of
        None \<Rightarrow> (Inl (io_other ''PTY output sequence exhausted''), p)
      | Some next \<Rightarrow>
          (case history_append (ps_raw_history p) bs limit of (dropped, history) \<Rightarrow>
             let p = p\<lparr>ps_next_output := next, ps_raw_history := history\<rparr> in
             if 0 < dropped
             then (case checked_add_bytes (ps_history_start p) dropped of
                     None \<Rightarrow> (Inl (io_other ''PTY history sequence exhausted''), p)
                   | Some start \<Rightarrow> (Inr sequence, p\<lparr>ps_history_start := start\<rparr>))
             else (Inr sequence, p)))"

definition append_raw_history :: "bytes \<Rightarrow> pane_state \<Rightarrow> (io_error + output_sequence) \<times> pane_state" where
  "append_raw_history bs p = append_raw_history_with_limit RAW_HISTORY_MAX_BYTES bs p"

text \<open>
  The contract of the retained output, against everything the PTY has produced so far: the next
  sequence number is the length of that stream, and what is retained is the stream from
  \<open>history_start\<close> on.
\<close>

definition retains :: "pane_state \<Rightarrow> bytes \<Rightarrow> bool" where
  "retains p stream \<longleftrightarrow>
     history_ok (ps_raw_history p) \<and>
     unat (sequence_get (ps_next_output p)) = length stream \<and>
     unat (sequence_get (ps_history_start p)) \<le> length stream \<and>
     history_bytes (ps_raw_history p) = drop (unat (sequence_get (ps_history_start p))) stream"

lemma append_with_limit_retains:
  assumes r: "retains p stream" and fits: "length stream + length bs < 2 ^ 64"
  shows "\<exists>p'. append_raw_history_with_limit limit bs p = (Inr (ps_next_output p), p') \<and>
    retains p' (stream @ bs) \<and>
    length (history_bytes (ps_raw_history p')) =
      min limit (length (history_bytes (ps_raw_history p)) + length bs)"
proof -
  let ?start = "unat (sequence_get (ps_history_start p))"
  obtain d h where app: "history_append (ps_raw_history p) bs limit = (d, h)" by fastforce
  have ok: "history_ok (ps_raw_history p)" using r by (simp add: retains_def)
  have len: "length (history_bytes (ps_raw_history p)) = length stream - ?start"
    using r by (simp add: retains_def)
  have hist: "history_bytes (ps_raw_history p) = drop ?start stream"
    using r by (simp add: retains_def)
  have d: "d = length stream - ?start + length bs - limit" and hok: "history_ok h"
    and hb: "history_bytes h = drop d (drop ?start stream @ bs)"
    using history_append_ok [OF ok app] unfolding hist length_drop by blast+
  have start: "?start \<le> length stream" using r by (simp add: retains_def)
  obtain nxt where nxt: "checked_add_bytes (ps_next_output p) (length bs) = Some nxt"
    using r fits checked_add_bytes_None [of "ps_next_output p" "length bs"]
    by (cases "checked_add_bytes (ps_next_output p) (length bs)") (auto simp: retains_def)
  then have n: "unat (sequence_get nxt) = length stream + length bs"
    using r by (simp add: checked_add_bytes_Some retains_def)
  obtain start' where start': "checked_add_bytes (ps_history_start p) d = Some start'"
    using fits start d checked_add_bytes_None [of "ps_history_start p" d]
    by (cases "checked_add_bytes (ps_history_start p) d") auto
  then have s: "unat (sequence_get start') = ?start + d"
    by (simp add: checked_add_bytes_Some)
  have "drop ?start stream @ bs = drop ?start (stream @ bs)"
    using start by simp
  then have bytes: "history_bytes h = drop (?start + d) (stream @ bs)"
    by (simp only: hb drop_drop add.commute)
  have le: "?start + d \<le> length stream + length bs"
    using d start by simp
  have size: "length (history_bytes h) = min limit (length stream - ?start + length bs)"
    using length_history_append [OF ok app] len by simp
  show ?thesis
  proof (cases "d = 0")
    case True
    then have "append_raw_history_with_limit limit bs p =
        (Inr (ps_next_output p), p\<lparr>ps_next_output := nxt, ps_raw_history := h\<rparr>)"
      using nxt app by (simp add: append_raw_history_with_limit_def Let_def)
    then show ?thesis
      using True hok n bytes start size len by (auto simp: retains_def)
  next
    case False
    then have "append_raw_history_with_limit limit bs p = (Inr (ps_next_output p),
        p\<lparr>ps_next_output := nxt, ps_raw_history := h, ps_history_start := start'\<rparr>)"
      using nxt app start' by (simp add: append_raw_history_with_limit_def Let_def)
    then show ?thesis
      using hok n bytes s le size len by (auto simp: retains_def)
  qed
qed

text \<open>
  C12. A pane's retained output is the tail of what the PTY produced, at its absolute offsets:
  appending a read returns the offset of its first byte, keeps the retained bytes equal to the
  stream from \<open>history_start\<close> on, retains at most 2560000 bytes, and can only fail when the 64-bit
  sequence space is exhausted, in which case the pane is unchanged.
\<close>

theorem append_raw_history_retains:
  assumes "retains p stream" and "append_raw_history bs p = (result, p')"
  shows "if length stream + length bs < 2 ^ 64
    then result = Inr (ps_next_output p) \<and> retains p' (stream @ bs) \<and>
      rh_len (ps_raw_history p') = min RAW_HISTORY_MAX_BYTES (rh_len (ps_raw_history p) + length bs)
    else (\<exists>e. result = Inl e) \<and> p' = p"
proof (cases "length stream + length bs < 2 ^ 64")
  case True
  then show ?thesis
    using append_with_limit_retains [OF assms(1) True, of RAW_HISTORY_MAX_BYTES] assms
    by (auto simp: append_raw_history_def retains_def history_ok_def)
next
  case False
  then have "checked_add_bytes (ps_next_output p) (length bs) = None"
    using assms(1) by (simp add: checked_add_bytes_None retains_def)
  then show ?thesis
    using assms(2) False by (auto simp: append_raw_history_def append_raw_history_with_limit_def Let_def)
qed


text \<open>A pane as \<open>spawn_pane\<close> builds it, for the witnesses.\<close>

definition sample_identity :: session_identity where
  "sample_identity = SessionIdentity (StateNamespace 1) (SessionToken 2)"

definition pane_new ::
    "session_id \<Rightarrow> session_identity \<Rightarrow> agent_metadata option \<Rightarrow> string \<Rightarrow> string \<Rightarrow> u16 \<Rightarrow> u16 \<Rightarrow> u32 \<Rightarrow> int \<Rightarrow> pane_state" where
  "pane_new session identity agent name title rows cols child_pid process_group =
     \<lparr>ps_session = session, ps_identity = identity, ps_agent = agent,
      ps_pane = PaneId (session_id_raw session), ps_name = name, ps_title = title,
      ps_rows = rows, ps_cols = cols, ps_raw_history = raw_history_default,
      ps_history_start = sequence_ZERO, ps_next_output = sequence_ZERO,
      ps_writes = wq_spawn, ps_child_pid = child_pid, ps_process_group = process_group,
      ps_foreground_process =
        \<lparr>fg_root_pid = Some child_pid, fg_foreground_pid = None, fg_command = None\<rparr>,
      ps_owner = None, ps_lifecycle = LifeRunning, ps_reader_done = False,
      ps_child_exit = None, ps_last_wait_error = None, ps_stop_driver_active = False,
      ps_pending_stops = [], ps_lifecycle_signal = 0, ps_foreground_poll_scheduled = False\<rparr>"

lemma retains_new: "retains (pane_new session identity agent name title rows cols pid grp) []"
  by (simp add: retains_def pane_new_def sequence_ZERO_def)

theorem append_raw_history_retains_witness:
  "\<exists>p'. append_raw_history [7, 8]
      (pane_new (SessionId 1) sample_identity None [] [] 24 80 100 100) = (Inr (OutputSequence 0), p') \<and>
     retains p' [7, 8]"
proof -
  let ?p = "pane_new (SessionId 1) sample_identity None [] [] 24 80 100 100"
  obtain result p' where run: "append_raw_history [7, 8] ?p = (result, p')" by fastforce
  have "ps_next_output ?p = OutputSequence 0"
    by (simp add: pane_new_def sequence_ZERO_def)
  then show ?thesis
    using append_raw_history_retains [OF retains_new run] run by simp
qed

end
