(* ===== verification/Agent_Status.thy ===== *)
theory Agent_Status
  imports Protocol_Types Framing
begin

text \<open>
  The daemon's record of what each agent session reports about itself
  (\<open>validate_agent_metadata\<close>, \<open>update_agent_status\<close>, \<open>query_agent_status\<close>,
  \<open>missing_agent_identity_error\<close> and \<open>ServerState::record_agent_exit\<close> in
  \<open>src/bin/mult-server.rs\<close>). Whether an identity has a live session is the only other part of
  the server's state these consult, and is the argument \<open>live\<close>.
\<close>

section \<open>The state\<close>

record daemon_agent_state =
  das_metadata :: agent_metadata
  das_status :: "agent_status_record option"

type_synonym agent_states = "(session_identity, daemon_agent_state) btmap"

section \<open>The operations\<close>

definition validate_agent_metadata :: "agent_metadata \<Rightarrow> agent_status_error option" where
  "validate_agent_metadata metadata =
     (if md_schema_version metadata \<noteq> AGENT_STATUS_SCHEMA_VERSION
      then Some (ASWrongSchema AGENT_STATUS_SCHEMA_VERSION (md_schema_version metadata))
      else if md_chat_id metadata = 0 then Some (ASWrongChat 1 0)
      else None)"

definition mismatch_between :: "session_identity \<Rightarrow> session_identity \<Rightarrow> identity_mismatch" where
  "mismatch_between expected received =
     (if identity_namespace expected \<noteq> identity_namespace received then MismatchNamespace
      else MismatchToken)"

definition missing_agent_identity_error ::
    "(session_identity \<Rightarrow> bool) \<Rightarrow> agent_states \<Rightarrow> session_identity \<Rightarrow> u64 \<Rightarrow> agent_status_error" where
  "missing_agent_identity_error live agents identity chat_id =
     (if live identity then ASNotAgentSession identity
      else if list_ex (\<lambda>(c, a). identity_token c = identity_token identity) (btm_entries agents)
      then ASIdentityMismatch MismatchNamespace
      else if list_ex (\<lambda>(c, a). identity_namespace c = identity_namespace identity \<and>
                md_chat_id (das_metadata a) = chat_id) (btm_entries agents)
      then ASIdentityMismatch MismatchToken
      else ASSessionNotFound identity)"

definition update_agent_status ::
    "(session_identity \<Rightarrow> bool) \<Rightarrow> agent_status_record \<Rightarrow> agent_states \<Rightarrow> agent_status_outcome \<times> agent_states" where
  "update_agent_status live rec agents =
     (if sr_schema_version rec \<noteq> AGENT_STATUS_SCHEMA_VERSION
      then (ASError (ASWrongSchema AGENT_STATUS_SCHEMA_VERSION (sr_schema_version rec)), agents)
      else case btm_get agents (sr_identity rec) of
        None \<Rightarrow>
          (ASError (missing_agent_identity_error live agents (sr_identity rec) (sr_chat_id rec)), agents)
      | Some a \<Rightarrow>
          let metadata = das_metadata a in
          if sr_chat_id rec \<noteq> md_chat_id metadata
          then (ASError (ASWrongChat (md_chat_id metadata) (sr_chat_id rec)), agents)
          else if sr_agent rec \<noteq> md_agent metadata
          then (ASError (ASWrongAgent (md_agent metadata) (sr_agent rec)), agents)
          else if sr_generation rec \<noteq> md_generation metadata
          then (ASError (ASStaleGeneration (md_generation metadata) (sr_generation rec)), agents)
          else (case das_status a of
                  Some current \<Rightarrow>
                    if is_final (sr_status current)
                    then (if sr_status current \<noteq> sr_status rec
                          then (ASError (ASFinalStatusConflict (sr_status current) (sr_status rec)), agents)
                          else (ASUpdated current, agents))
                    else (ASUpdated rec, btm_insert (sr_identity rec) (a\<lparr>das_status := Some rec\<rparr>) agents)
                | None \<Rightarrow>
                    (ASUpdated rec, btm_insert (sr_identity rec) (a\<lparr>das_status := Some rec\<rparr>) agents)))"

definition query_agent_status ::
    "(session_identity \<Rightarrow> bool) \<Rightarrow> agent_status_query \<Rightarrow> agent_states \<Rightarrow> agent_status_outcome" where
  "query_agent_status live query agents =
     (if sq_schema_version query \<noteq> AGENT_STATUS_SCHEMA_VERSION
      then ASError (ASWrongSchema AGENT_STATUS_SCHEMA_VERSION (sq_schema_version query))
      else case btm_get agents (sq_identity query) of
        None \<Rightarrow>
          ASError (missing_agent_identity_error live agents (sq_identity query) (sq_chat_id query))
      | Some a \<Rightarrow>
          let metadata = das_metadata a in
          if sq_chat_id query \<noteq> md_chat_id metadata
          then ASError (ASWrongChat (md_chat_id metadata) (sq_chat_id query))
          else if sq_agent query \<noteq> md_agent metadata
          then ASError (ASWrongAgent (md_agent metadata) (sq_agent query))
          else if sq_generation query \<noteq> md_generation metadata
          then ASError (ASStaleGeneration (md_generation metadata) (sq_generation query))
          else ASCurrent (das_status a))"

text \<open>A child's exit decides the final status, unless the agent reported one itself.\<close>

definition record_agent_exit ::
    "session_identity \<Rightarrow> agent_metadata \<Rightarrow> exit_info \<Rightarrow> agent_states \<Rightarrow> agent_states" where
  "record_agent_exit identity metadata exit agents =
     (case btm_get agents identity of
        None \<Rightarrow> agents
      | Some a \<Rightarrow>
          if das_metadata a \<noteq> metadata \<or>
             (case das_status a of None \<Rightarrow> False | Some s \<Rightarrow> is_final (sr_status s))
          then agents
          else btm_insert identity
            (a\<lparr>das_status := Some
                \<lparr>sr_schema_version = md_schema_version metadata, sr_identity = identity,
                 sr_chat_id = md_chat_id metadata, sr_agent = md_agent metadata,
                 sr_generation = md_generation metadata,
                 sr_status = (if ex_code exit = 0 then Exited else Failed)\<rparr>\<rparr>) agents)"

text \<open>What publishing a session does to the record of its identity.\<close>

definition publish_agent :: "session_identity \<Rightarrow> agent_metadata option \<Rightarrow> agent_states \<Rightarrow> agent_states" where
  "publish_agent identity agent agents =
     (case agent of
        Some metadata \<Rightarrow> btm_insert identity \<lparr>das_metadata = metadata, das_status = None\<rparr> agents
      | None \<Rightarrow> btm_remove identity agents)"

section \<open>The invariant\<close>

text \<open>
  A stored status belongs to the session it is stored for: it carries the identity it is keyed by
  and the metadata of the generation that is registered.
\<close>

definition status_matches :: "session_identity \<Rightarrow> agent_metadata \<Rightarrow> agent_status_record \<Rightarrow> bool" where
  "status_matches identity metadata s \<longleftrightarrow>
     sr_identity s = identity \<and> sr_chat_id s = md_chat_id metadata \<and>
     sr_agent s = md_agent metadata \<and> sr_generation s = md_generation metadata \<and>
     sr_schema_version s = AGENT_STATUS_SCHEMA_VERSION"

definition agents_ok :: "agent_states \<Rightarrow> bool" where
  "agents_ok agents \<longleftrightarrow>
     (\<forall>identity a. btm_get agents identity = Some a \<longrightarrow>
        md_schema_version (das_metadata a) = AGENT_STATUS_SCHEMA_VERSION \<and>
        (\<forall>s. das_status a = Some s \<longrightarrow> status_matches identity (das_metadata a) s))"

lemma agents_ok_empty [simp]: "agents_ok btm_empty"
  by (simp add: agents_ok_def)

lemma update_agent_status_cases:
  assumes "update_agent_status live rec agents = (outcome, agents')"
  obtains (refused) e where "outcome = ASError e" and "agents' = agents"
  | (already_final) a s where "btm_get agents (sr_identity rec) = Some a" and "das_status a = Some s"
      and "is_final (sr_status s)" and "sr_status s = sr_status rec"
      and "outcome = ASUpdated s" and "agents' = agents"
  | (updated) a where "btm_get agents (sr_identity rec) = Some a"
      and "status_matches (sr_identity rec) (das_metadata a) rec"
      and "\<And>s. das_status a = Some s \<Longrightarrow> \<not> is_final (sr_status s)"
      and "outcome = ASUpdated rec"
      and "agents' = btm_insert (sr_identity rec) (a\<lparr>das_status := Some rec\<rparr>) agents"
proof (cases "\<exists>e. outcome = ASError e")
  case True
  then obtain e where "outcome = ASError e" by blast
  then show thesis
    using assms by (intro refused)
      (auto simp: update_agent_status_def Let_def split: if_splits option.splits)
next
  case False
  then have v: "sr_schema_version rec = AGENT_STATUS_SCHEMA_VERSION"
    using assms by (auto simp: update_agent_status_def split: if_splits)
  obtain a where a: "btm_get agents (sr_identity rec) = Some a"
    using assms False v by (auto simp: update_agent_status_def split: option.splits)
  have m: "status_matches (sr_identity rec) (das_metadata a) rec"
    using assms False v a
    by (auto simp: update_agent_status_def status_matches_def Let_def split: if_splits)
  show thesis
  proof (cases "\<exists>s. das_status a = Some s \<and> is_final (sr_status s)")
    case True
    then obtain s where "das_status a = Some s" "is_final (sr_status s)" by blast
    then show thesis
      using assms False v a m
      by (intro already_final [of a s])
        (auto simp: update_agent_status_def status_matches_def Let_def split: if_splits)
  next
    case nf: False
    show thesis
      using assms False v a m nf
      by (intro updated [of a])
        (auto simp: update_agent_status_def status_matches_def Let_def split: if_splits option.splits)
  qed
qed

lemma agents_ok_update:
  "agents_ok agents \<Longrightarrow> update_agent_status live rec agents = (outcome, agents') \<Longrightarrow> agents_ok agents'"
  by (erule update_agent_status_cases) (auto simp: agents_ok_def split: if_splits)

lemma agents_ok_exit: "agents_ok agents \<Longrightarrow> agents_ok (record_agent_exit identity metadata exit agents)"
  by (auto simp: record_agent_exit_def agents_ok_def status_matches_def split: option.splits if_splits)

lemma agents_ok_publish:
  "agents_ok agents \<Longrightarrow> (\<And>m. agent = Some m \<Longrightarrow> md_schema_version m = AGENT_STATUS_SCHEMA_VERSION) \<Longrightarrow>
   agents_ok (publish_agent identity agent agents)"
  by (auto simp: publish_agent_def agents_ok_def split: option.splits if_splits)

section \<open>Final statuses stay\<close>

datatype agent_event =
    AgentReport agent_status_record
  | AgentExit session_identity agent_metadata exit_info

fun agent_event_step :: "(session_identity \<Rightarrow> bool) \<Rightarrow> agent_event \<Rightarrow> agent_states \<Rightarrow> agent_states" where
  "agent_event_step live (AgentReport rec) agents = snd (update_agent_status live rec agents)"
| "agent_event_step live (AgentExit identity metadata exit) agents =
     record_agent_exit identity metadata exit agents"

definition final_for :: "session_identity \<Rightarrow> daemon_agent_state \<Rightarrow> agent_states \<Rightarrow> bool" where
  "final_for identity a agents \<longleftrightarrow>
     btm_get agents identity = Some a \<and>
     (\<exists>s. das_status a = Some s \<and> is_final (sr_status s))"

lemma final_for_step:
  "final_for identity a agents \<Longrightarrow> final_for identity a (agent_event_step live e agents)"
proof (cases e)
  case (AgentReport rec)
  assume final: "final_for identity a agents"
  obtain outcome agents' where u: "update_agent_status live rec agents = (outcome, agents')" by fastforce
  then show ?thesis
    using final AgentReport
    by (cases rule: update_agent_status_cases) (auto simp: final_for_def u)
next
  case (AgentExit i m x)
  assume "final_for identity a agents"
  then show ?thesis
    using AgentExit
    by (cases "i = identity") (auto simp: final_for_def record_agent_exit_def split: option.splits)
qed


text \<open>An agent that exited, and a later report that claims it is running again.\<close>

definition sample_agent_identity :: session_identity where
  "sample_agent_identity = SessionIdentity (StateNamespace 1) (SessionToken 2)"

definition sample_metadata :: agent_metadata where
  "sample_metadata =
     \<lparr>md_schema_version = AGENT_STATUS_SCHEMA_VERSION, md_chat_id = 7, md_agent = ClaudeCode,
      md_generation = AgentGeneration 3\<rparr>"

definition sample_report :: "agent_status \<Rightarrow> agent_status_record" where
  "sample_report status =
     \<lparr>sr_schema_version = AGENT_STATUS_SCHEMA_VERSION, sr_identity = sample_agent_identity,
      sr_chat_id = 7, sr_agent = ClaudeCode, sr_generation = AgentGeneration 3, sr_status = status\<rparr>"


end
