(* ===== verification/Server_State.thy ===== *)
theory Server_State
  imports Pane_State Agent_Status
begin

text \<open>
  The daemon's global state and its operations (\<open>ServerState\<close> and \<open>Rejection\<close> in
  \<open>src/bin/mult-server.rs\<close>). Sessions map to references of panes (\<open>Arc<Mutex<PaneState>>\<close>);
  where an operation looks at a pane, the store of panes is an argument. Randomness is an
  argument: what the successive reads of 16 random bytes answer.
\<close>

section \<open>Rejections\<close>

record rejection =
  rej_code :: reject_code
  rej_message :: string

definition rejection_new :: "reject_code \<Rightarrow> string \<Rightarrow> rejection" where
  "rejection_new code message = \<lparr>rej_code = code, rej_message = message\<rparr>"

definition rejection_internal :: "string \<Rightarrow> rejection" where
  "rejection_internal message = rejection_new DaemonInternal message"

definition into_create_error :: "rejection \<Rightarrow> create_error" where
  "into_create_error r = CEFailed (rej_code r) (rej_message r)"

definition into_attach_error :: "rejection \<Rightarrow> attach_error" where
  "into_attach_error r = AEFailed (rej_code r) (rej_message r)"

lemma rej_code_new [simp]: "rej_code (rejection_new code message) = code"
  by (simp add: rejection_new_def)

definition SHUTDOWN_ERROR_MESSAGE :: string where
  "SHUTDOWN_ERROR_MESSAGE = ''mult-server is shutting down''"

section \<open>The state\<close>

type_synonym pane_ref = nat
type_synonym panes = "pane_ref \<Rightarrow> pane_state"
type_synonym randomness = "nat \<Rightarrow> io_error + bytes16"

record server_state =
  sv_sessions :: "(session_id, pane_ref) btmap"
  sv_session_by_identity :: "(session_identity, session_id) btmap"
  sv_reserved_sessions :: "session_id btset"
  sv_reserved_identities :: "session_identity btset"
  sv_agent_states :: agent_states
  sv_next_session_id :: u64
  sv_next_client_id :: client_id
  sv_next_lease :: "attachment_lease option"
  sv_server_instance :: server_instance_id
  sv_request_scopes :: "(client_scope_id, request_scope) btmap"
  sv_shutting_down :: bool

definition server_new :: "io_error + bytes16 \<Rightarrow> io_error + server_state" where
  "server_new random_bytes =
     bind_sum random_bytes (\<lambda>raw. Inr
       \<lparr>sv_sessions = btm_empty, sv_session_by_identity = btm_empty,
        sv_reserved_sessions = btm_empty, sv_reserved_identities = btm_empty,
        sv_agent_states = btm_empty, sv_next_session_id = 1, sv_next_client_id = 1,
        sv_next_lease = Some lease_MIN, sv_server_instance = ServerInstanceId raw,
        sv_request_scopes = btm_empty, sv_shutting_down = False\<rparr>)"

section \<open>Identifiers\<close>

definition allocate_client_id :: "server_state \<Rightarrow> (io_error + client_id) \<times> server_state" where
  "allocate_client_id sv =
     (let id = sv_next_client_id sv in
      case u64_checked_add id 1 of
        None \<Rightarrow> (Inl (io_other ''client ID space exhausted''), sv)
      | Some next \<Rightarrow> (Inr id, sv\<lparr>sv_next_client_id := next\<rparr>))"

primrec allocate_scope_tries ::
    "nat \<Rightarrow> randomness \<Rightarrow> server_state \<Rightarrow> (io_error + client_scope_id) \<times> server_state" where
  "allocate_scope_tries 0 random sv =
     (Inl (io_other ''failed to allocate a unique client scope''), sv)"
| "allocate_scope_tries (Suc tries) random sv =
     (case random 0 of
        Inl error \<Rightarrow> (Inl error, sv)
      | Inr raw \<Rightarrow>
          let scope = ClientScopeId raw in
          if btm_contains (sv_request_scopes sv) scope
          then allocate_scope_tries tries (\<lambda>i. random (Suc i)) sv
          else (Inr scope,
                sv\<lparr>sv_request_scopes := btm_insert scope scope_new (sv_request_scopes sv)\<rparr>))"

definition allocate_scope ::
    "randomness \<Rightarrow> server_state \<Rightarrow> (io_error + client_scope_id) \<times> server_state" where
  "allocate_scope random sv = allocate_scope_tries 16 random sv"

definition resume_or_allocate_scope ::
    "randomness \<Rightarrow> client_scope_id option \<Rightarrow> server_state \<Rightarrow>
     (io_error + client_scope_id \<times> bool) \<times> server_state" where
  "resume_or_allocate_scope random resume sv =
     (case (case resume of
              Some scope \<Rightarrow> if btm_contains (sv_request_scopes sv) scope then Some scope else None
            | None \<Rightarrow> None) of
        Some scope \<Rightarrow> (Inr (scope, True), sv)
      | None \<Rightarrow>
          (case allocate_scope random sv of
             (Inl error, sv) \<Rightarrow> (Inl error, sv)
           | (Inr scope, sv) \<Rightarrow> (Inr (scope, False), sv)))"

definition allocate_lease :: "server_state \<Rightarrow> (rejection + attachment_lease) \<times> server_state" where
  "allocate_lease sv =
     (case sv_next_lease sv of
        None \<Rightarrow> (Inl (rejection_new ResourceExhausted ''attachment lease space exhausted''), sv)
      | Some lease \<Rightarrow> (Inr lease, sv\<lparr>sv_next_lease := lease_checked_next lease\<rparr>))"

function allocate_session_id :: "server_state \<Rightarrow> (rejection + session_id) \<times> server_state" where
  "allocate_session_id sv =
     (let session = SessionId (sv_next_session_id sv) in
      case u64_checked_add (sv_next_session_id sv) 1 of
        None \<Rightarrow> (Inl (rejection_new ResourceExhausted ''session ID space exhausted''), sv)
      | Some next \<Rightarrow>
          let sv = sv\<lparr>sv_next_session_id := next\<rparr> in
          if \<not> btm_contains (sv_sessions sv) session \<and> \<not> btm_contains (sv_reserved_sessions sv) session
          then (Inr session, sv)
          else allocate_session_id sv)"
  by pat_completeness auto
termination
proof (relation "measure (\<lambda>sv. 2 ^ 64 - unat (sv_next_session_id sv))")
  fix sv sv' :: server_state and session :: session_id and nxt :: u64
  assume "u64_checked_add (sv_next_session_id sv) 1 = Some nxt"
    and "sv' = sv\<lparr>sv_next_session_id := nxt\<rparr>"
  then show "(sv', sv) \<in> measure (\<lambda>sv. 2 ^ 64 - unat (sv_next_session_id sv))"
    using unat_u64_less [of nxt] by (simp add: u64_checked_add_Some_iff)
qed simp

declare allocate_session_id.simps [simp del]

section \<open>Reserving and publishing sessions\<close>

definition session_already_exists :: "session_id \<Rightarrow> rejection" where
  "session_already_exists session = rejection_new SessionAlreadyExists
     (''session '' @ show_nat (unat (session_id_raw session)) @ '' already exists or is being created'')"

definition reserve_session ::
    "session_id option \<Rightarrow> session_identity \<Rightarrow> server_state \<Rightarrow> (rejection + session_id) \<times> server_state" where
  "reserve_session requested_id identity sv =
     (if sv_shutting_down sv then (Inl (rejection_new ShuttingDown SHUTDOWN_ERROR_MESSAGE), sv)
      else if btm_contains (sv_session_by_identity sv) identity \<or>
              btm_contains (sv_reserved_identities sv) identity
      then (Inl (rejection_new SessionAlreadyExists
              ''logical session identity already exists or is being created''), sv)
      else
        (case (case requested_id of
                 Some session \<Rightarrow> (Inr session, sv)
               | None \<Rightarrow> allocate_session_id sv) of
           (Inl rejection, sv) \<Rightarrow> (Inl rejection, sv)
         | (Inr session, sv) \<Rightarrow>
             if btm_contains (sv_sessions sv) session \<or> btm_contains (sv_reserved_sessions sv) session
             then (Inl (session_already_exists session), sv)
             else (Inr session,
                   sv\<lparr>sv_reserved_sessions := bts_insert session (sv_reserved_sessions sv),
                      sv_reserved_identities := bts_insert identity (sv_reserved_identities sv)\<rparr>)))"

definition release_session_reservation ::
    "session_id \<Rightarrow> session_identity \<Rightarrow> server_state \<Rightarrow> server_state" where
  "release_session_reservation session identity sv =
     sv\<lparr>sv_reserved_sessions := btm_remove session (sv_reserved_sessions sv),
        sv_reserved_identities := btm_remove identity (sv_reserved_identities sv)\<rparr>"

text \<open>The pane's \<open>identity\<close> and \<open>agent\<close> are read under its lock.\<close>

definition publish_reserved_session ::
    "session_id \<Rightarrow> pane_ref \<Rightarrow> panes \<Rightarrow> server_state \<Rightarrow> (rejection + unit) \<times> server_state" where
  "publish_reserved_session session pane panes sv =
     (if sv_shutting_down sv then (Inl (rejection_new ShuttingDown SHUTDOWN_ERROR_MESSAGE), sv)
      else
        let identity = ps_identity (panes pane); agent = ps_agent (panes pane) in
        if btm_contains (sv_sessions sv) session \<or>
           btm_contains (sv_session_by_identity sv) identity \<or>
           \<not> btm_contains (sv_reserved_sessions sv) session \<or>
           \<not> btm_contains (sv_reserved_identities sv) identity
        then (Inl (rejection_new SessionAlreadyExists ''session was created concurrently''), sv)
        else
          let sv = release_session_reservation session identity sv in
          (Inr (),
           sv\<lparr>sv_session_by_identity := btm_insert identity session (sv_session_by_identity sv),
              sv_agent_states := publish_agent identity agent (sv_agent_states sv),
              sv_sessions := btm_insert session pane (sv_sessions sv)\<rparr>))"

section \<open>Looking sessions up\<close>

definition session_infos :: "state_namespace \<Rightarrow> panes \<Rightarrow> server_state \<Rightarrow> session_info list" where
  "session_infos namespace panes sv =
     map (\<lambda>r. session_info_of (panes r))
       (filter (\<lambda>r. identity_namespace (ps_identity (panes r)) = namespace) (btm_values (sv_sessions sv)))"

definition pane_by_id :: "pane_id \<Rightarrow> server_state \<Rightarrow> pane_ref option" where
  "pane_by_id pane sv = btm_get (sv_sessions sv) (SessionId (pane_id_raw pane))"

definition remove_session_if_same :: "session_id \<Rightarrow> pane_ref \<Rightarrow> server_state \<Rightarrow> bool \<times> server_state" where
  "remove_session_if_same session pane sv =
     (if btm_get (sv_sessions sv) session = Some pane
      then (True, sv\<lparr>sv_sessions := btm_remove session (sv_sessions sv),
                     sv_session_by_identity :=
                       btm_filter (\<lambda>(_, id). id \<noteq> session) (sv_session_by_identity sv)\<rparr>)
      else (False, sv))"

definition session_for_identity :: "session_identity \<Rightarrow> server_state \<Rightarrow> pane_ref option" where
  "session_for_identity identity sv =
     (case btm_get (sv_session_by_identity sv) identity of
        None \<Rightarrow> None
      | Some session \<Rightarrow> btm_get (sv_sessions sv) session)"

section \<open>Requests\<close>

fun request_id :: "client_message \<Rightarrow> request_id option" where
  "request_id (CCreateSession r) = Some (cr_request_id r)"
| "request_id (CAttach rid _ _ _ _) = Some rid"
| "request_id (CStop rid _ _ _) = Some rid"
| "request_id (CUpdateAgentStatus rid _) = Some rid"
| "request_id (CGetAgentStatus rid _) = Some rid"
| "request_id _ = None"

text \<open>The request number is the one of the message, which every caller passes.\<close>

definition begin_request ::
    "client_scope_id \<Rightarrow> request_id \<Rightarrow> client_message \<Rightarrow> client_id \<Rightarrow> server_state \<Rightarrow>
     request_disposition \<times> server_state" where
  "begin_request scope rid request client sv =
     (let s = (case btm_get (sv_request_scopes sv) scope of Some s \<Rightarrow> s | None \<Rightarrow> scope_new) in
      case scope_begin rid request client s of
        (disposition, s) \<Rightarrow>
          (disposition, sv\<lparr>sv_request_scopes := btm_insert scope s (sv_request_scopes sv)\<rparr>))"

definition complete_request ::
    "request_key \<Rightarrow> server_message \<Rightarrow> server_state \<Rightarrow> client_id list \<times> server_state" where
  "complete_request key response sv =
     (case btm_get (sv_request_scopes sv) (rk_scope key) of
        None \<Rightarrow> ([], sv)
      | Some s \<Rightarrow>
          (case scope_complete (rk_request_id key) response s of
             (waiters, s) \<Rightarrow>
               (waiters, sv\<lparr>sv_request_scopes := btm_insert (rk_scope key) s (sv_request_scopes sv)\<rparr>)))"

definition remove_client :: "client_id \<Rightarrow> server_state \<Rightarrow> server_state" where
  "remove_client client sv =
     sv\<lparr>sv_request_scopes := btm_map_values (scope_remove_client client) (sv_request_scopes sv)\<rparr>"

definition sv_record_agent_exit ::
    "session_identity \<Rightarrow> agent_metadata \<Rightarrow> exit_info \<Rightarrow> server_state \<Rightarrow> server_state" where
  "sv_record_agent_exit identity metadata exit sv =
     sv\<lparr>sv_agent_states := record_agent_exit identity metadata exit (sv_agent_states sv)\<rparr>"

section \<open>Session numbers\<close>

definition session_taken :: "server_state \<Rightarrow> session_id \<Rightarrow> bool" where
  "session_taken sv s \<longleftrightarrow> btm_contains (sv_sessions sv) s \<or> btm_contains (sv_reserved_sessions sv) s"

lemma session_taken_next [simp]: "session_taken (sv\<lparr>sv_next_session_id := n\<rparr>) s = session_taken sv s"
  by (simp add: session_taken_def)

lemma allocate_session_id_unfold:
  "allocate_session_id sv =
     (case u64_checked_add (sv_next_session_id sv) 1 of
        None \<Rightarrow> (Inl (rejection_new ResourceExhausted ''session ID space exhausted''), sv)
      | Some n \<Rightarrow>
          if session_taken sv (SessionId (sv_next_session_id sv))
          then allocate_session_id (sv\<lparr>sv_next_session_id := n\<rparr>)
          else (Inr (SessionId (sv_next_session_id sv)), sv\<lparr>sv_next_session_id := n\<rparr>))"
  by (subst allocate_session_id.simps)
    (auto simp: session_taken_def Let_def split: option.splits)

lemma allocate_session_id_spec:
  "allocate_session_id sv = (result, sv') \<Longrightarrow>
   (\<exists>n. sv' = sv\<lparr>sv_next_session_id := n\<rparr> \<and> unat (sv_next_session_id sv) \<le> unat n) \<and>
   (case result of
      Inr s \<Rightarrow> \<not> session_taken sv s \<and>
        unat (sv_next_session_id sv) \<le> unat (session_id_raw s) \<and>
        unat (sv_next_session_id sv') = unat (session_id_raw s) + 1 \<and>
        (\<forall>k. unat (sv_next_session_id sv) \<le> unat k \<and> unat k < unat (session_id_raw s) \<longrightarrow>
             session_taken sv (SessionId k))
    | Inl e \<Rightarrow> rej_code e = ResourceExhausted \<and>
        (\<forall>k. unat (sv_next_session_id sv) \<le> unat k \<and> unat k < 2 ^ 64 - 1 \<longrightarrow>
             session_taken sv (SessionId k)))"
proof (induction sv rule: allocate_session_id.induct)
  case (1 sv)
  let ?n = "sv_next_session_id sv"
  show ?case
  proof (cases "u64_checked_add ?n 1")
    case None
    then have "unat ?n = 2 ^ 64 - 1"
      using unat_u64_less [of ?n] by (simp add: u64_checked_add_None_iff)
    then show ?thesis
      using None "1.prems" by (auto simp: allocate_session_id_unfold [of sv] intro!: exI [of _ ?n])
  next
    case (Some n)
    then have n: "unat n = unat ?n + 1" by (simp add: u64_checked_add_Some_iff)
    show ?thesis
    proof (cases "session_taken sv (SessionId ?n)")
      case False
      then show ?thesis
        using Some n "1.prems" by (auto simp: allocate_session_id_unfold [of sv])
    next
      case True
      let ?sv = "sv\<lparr>sv_next_session_id := n\<rparr>"
      have rec: "allocate_session_id ?sv = (result, sv')"
        using Some True "1.prems" by (simp add: allocate_session_id_unfold [of sv])
      have busy: "session_taken sv (SessionId k)" if "unat ?n \<le> unat k" "\<not> unat n \<le> unat k" for k
      proof -
        have "k = ?n" using that n by (simp add: word_unat_eq_iff)
        then show ?thesis using True by simp
      qed
      show ?thesis
        using "1.IH" [OF refl Some refl _ rec] True n busy
        by (fastforce simp: session_taken_def split: sum.splits)
    qed
  qed
qed

text \<open>
  A session number the daemon chooses is free and never handed out twice: it is the least
  number from the counter on that is neither live nor reserved, the counter moves past it, and
  nothing else changes; the daemon gives up only when no such number is left below 2^64 - 1.
\<close>

theorem allocate_session_id_correct:
  assumes "allocate_session_id sv = (result, sv')"
  shows "(\<exists>n. sv' = sv\<lparr>sv_next_session_id := n\<rparr>) \<and>
   (case result of
      Inr s \<Rightarrow> \<not> session_taken sv s \<and>
        unat (sv_next_session_id sv) \<le> unat (session_id_raw s) \<and>
        unat (session_id_raw s) < unat (sv_next_session_id sv') \<and>
        (\<forall>k. unat (sv_next_session_id sv) \<le> unat k \<and> unat k < unat (session_id_raw s) \<longrightarrow>
             session_taken sv (SessionId k))
    | Inl e \<Rightarrow> rej_code e = ResourceExhausted \<and>
        (\<forall>k. unat (sv_next_session_id sv) \<le> unat k \<and> unat k < 2 ^ 64 - 1 \<longrightarrow>
             session_taken sv (SessionId k)))"
  using allocate_session_id_spec [OF assms] by (auto split: sum.splits)

definition sample_server :: server_state where
  "sample_server = projr (server_new (Inr 9))"

theorem allocate_session_id_correct_witness:
  "\<exists>sv'. allocate_session_id
      (sample_server\<lparr>sv_reserved_sessions := bts_insert (SessionId 1) btm_empty\<rparr>) = (Inr (SessionId 2), sv') \<and>
     \<not> session_taken (sample_server\<lparr>sv_reserved_sessions := bts_insert (SessionId 1) btm_empty\<rparr>) (SessionId 2)"
proof -
  let ?sv = "sample_server\<lparr>sv_reserved_sessions := bts_insert (SessionId 1) btm_empty\<rparr>"
  have "allocate_session_id ?sv = (Inr (SessionId 2), ?sv\<lparr>sv_next_session_id := 3\<rparr>)"
    by (subst allocate_session_id_unfold, simp add: sample_server_def server_new_def
        u64_checked_add_def session_taken_def)
      (subst allocate_session_id_unfold, simp add: u64_checked_add_def session_taken_def)
  then show ?thesis
    using allocate_session_id_correct [of ?sv] by fastforce
qed

end
