(* ===== verification/Sections.thy ===== *)
theory Sections
  imports Mult_Prelude
begin

text \<open>
  Threads over shared state. A thread is a program of atomic sections (what it does while it
  holds a lock), each of which sees what the operating system answers (\<open>'e\<close>) and the shared state
  (\<open>'s\<close>), and decides how the thread goes on. A loop is a tail call of a named thread (\<open>'k\<close>), and
  a spawned thread is named the same way. Threads interleave at section boundaries.
\<close>

section \<open>Programs\<close>

datatype ('k, 'e, 's) prog =
    Done
  | Become 'k
  | Fork 'k "('k, 'e, 's) prog"
  | Section "'e \<Rightarrow> 's \<Rightarrow> 's \<times> ('k, 'e, 's) prog"

primrec then_do :: "('k, 'e, 's) prog \<Rightarrow> ('k, 'e, 's) prog \<Rightarrow> ('k, 'e, 's) prog" where
  "then_do Done q = q"
| "then_do (Become k) q = Become k"
| "then_do (Fork k p) q = Fork k (then_do p q)"
| "then_do (Section f) q = Section (\<lambda>e s. map_prod id (\<lambda>p. then_do p q) (f e s))"

text \<open>A section that only changes the state, and one that does so once per element of a list.\<close>

definition atomically :: "('e \<Rightarrow> 's \<Rightarrow> 's) \<Rightarrow> ('k, 'e, 's) prog \<Rightarrow> ('k, 'e, 's) prog" where
  "atomically f p = Section (\<lambda>e s. (f e s, p))"

primrec atomically_each :: "('a \<Rightarrow> 's \<Rightarrow> 's) \<Rightarrow> 'a list \<Rightarrow> ('k, 'e, 's) prog \<Rightarrow> ('k, 'e, 's) prog" where
  "atomically_each f [] p = p"
| "atomically_each f (x # xs) p = atomically (\<lambda>_. f x) (atomically_each f xs p)"

text \<open>
  A program run without interruption, with one set of answers: the final state, the threads it
  started and the thread it turned into, if any.
\<close>

primrec run :: "('k, 'e, 's) prog \<Rightarrow> 'e \<Rightarrow> 's \<Rightarrow> 's \<times> 'k list \<times> 'k option" where
  "run Done e s = (s, [], None)"
| "run (Become k) e s = (s, [], Some k)"
| "run (Fork k p) e s = map_prod id (map_prod (\<lambda>ks. k # ks) id) (run p e s)"
| "run (Section f) e s = (case map_prod id (\<lambda>p. run p e) (f e s) of (s, r) \<Rightarrow> r s)"

lemma run_Section [simp]: "run (Section f) e s = (case f e s of (s, p) \<Rightarrow> run p e s)"
  by (simp split: prod.split)

declare run.simps(4) [simp del]

lemma run_atomically [simp]: "run (atomically f p) e s = run p e (f e s)"
  by (simp add: atomically_def)

lemma run_atomically_each [simp]: "run (atomically_each f xs p) e s = run p e (fold f xs s)"
  by (induction xs arbitrary: s) simp_all

lemma run_then_do:
  "run p e s = (s', ks, None) \<Longrightarrow> run q e s' = (s'', ks', r) \<Longrightarrow> run (then_do p q) e s = (s'', ks @ ks', r)"
proof (induction p arbitrary: s ks)
  case (Fork k p)
  then show ?case by (cases "run p e s") fastforce
next
  case (Section f)
  obtain t p where f: "f e s = (t, p)" by fastforce
  have "(t, p) \<in> range (f e)" by (metis f rangeI)
  then show ?case
    using Section.IH [of "f e" "(t, p)" p t ks] Section.prems f by auto
qed auto

section \<open>Interleaving\<close>

text \<open>
  A system is the shared state and the programs its threads have left. One step runs one section
  of one thread, starts a thread, or resolves a tail call.
\<close>

inductive thread_step ::
    "('k \<Rightarrow> ('k, 'e, 's) prog) \<Rightarrow> 's \<times> ('k, 'e, 's) prog list \<Rightarrow> 's \<times> ('k, 'e, 's) prog list \<Rightarrow> bool"
  for body where
  run_section:
    "f e s = (s', p) \<Longrightarrow>
     thread_step body (s, before @ Section f # after) (s', before @ p # after)"
| run_fork:
    "thread_step body (s, before @ Fork k p # after) (s, before @ p # after @ [body k])"
| run_become:
    "thread_step body (s, before @ Become k # after) (s, before @ body k # after)"

inductive_cases thread_stepE: "thread_step body c c'"

section \<open>What every section of a program obeys\<close>

text \<open>
  \<open>obeys ok rel p\<close>: every section of \<open>p\<close>, started in any state of \<open>ok\<close> (whatever the other
  threads did in between), ends in a state of \<open>ok\<close> that is related to where it started.
\<close>

inductive obeys :: "('s \<Rightarrow> bool) \<Rightarrow> ('s \<Rightarrow> 's \<Rightarrow> bool) \<Rightarrow> ('k, 'e, 's) prog \<Rightarrow> bool"
  for ok rel where
  obeys_Done [intro!, simp]: "obeys ok rel Done"
| obeys_Become [intro!, simp]: "obeys ok rel (Become k)"
| obeys_Fork [intro!]: "obeys ok rel p \<Longrightarrow> obeys ok rel (Fork k p)"
| obeys_Section:
    "(\<And>e s. ok s \<Longrightarrow> ok (fst (f e s)) \<and> rel s (fst (f e s)) \<and> obeys ok rel (snd (f e s))) \<Longrightarrow>
     obeys ok rel (Section f)"

inductive_simps obeys_Fork_iff [simp]: "obeys ok rel (Fork k p)"
inductive_cases obeys_SectionE: "obeys ok rel (Section f)"

lemma obeys_atomically:
  "(\<And>e s. ok s \<Longrightarrow> ok (f e s) \<and> rel s (f e s)) \<Longrightarrow> obeys ok rel p \<Longrightarrow>
   obeys ok rel (atomically f p)"
  by (auto simp: atomically_def intro: obeys_Section)

lemma obeys_atomically_each:
  "(\<And>x s. ok s \<Longrightarrow> ok (f x s) \<and> rel s (f x s)) \<Longrightarrow> obeys ok rel p \<Longrightarrow>
   obeys ok rel (atomically_each f xs p)"
  by (induction xs) (auto intro: obeys_atomically)

lemma obeys_then_do:
  "obeys ok rel p \<Longrightarrow> obeys ok rel q \<Longrightarrow> obeys ok rel (then_do p q)"
  by (induction rule: obeys.induct) (auto intro!: obeys_Section)

lemma obeys_weaken:
  assumes "obeys ok rel p" and "\<And>s. ok' s \<Longrightarrow> ok s"
    and "\<And>s t. ok' s \<Longrightarrow> ok t \<Longrightarrow> rel s t \<Longrightarrow> ok' t \<and> rel' s t"
  shows "obeys ok' rel' p"
  using assms(1)
proof (induction rule: obeys.induct)
  case (obeys_Section f)
  show ?case
  proof (rule obeys.obeys_Section)
    fix e s assume "ok' s"
    then have "ok s" by (rule assms(2))
    from obeys_Section.IH [OF this, of e] assms(3) [OF \<open>ok' s\<close>, of "fst (f e s)"]
    show "ok' (fst (f e s)) \<and> rel' s (fst (f e s)) \<and> obeys ok' rel' (snd (f e s))"
      by blast
  qed
qed (simp_all add: obeys_Fork)

text \<open>
  The interface between a system and an invariant of it: every thread's body obeys the
  invariant and a relation that composes. Then the invariant holds at every point of every
  interleaving, and any later state is related to any earlier one.
\<close>

locale obeying_threads =
  fixes body :: "'k \<Rightarrow> ('k, 'e, 's) prog"
    and ok :: "'s \<Rightarrow> bool"
    and rel :: "'s \<Rightarrow> 's \<Rightarrow> bool"
  assumes body_obeys: "obeys ok rel (body k)"
    and rel_refl: "rel s s"
    and rel_trans: "rel s t \<Longrightarrow> rel t u \<Longrightarrow> rel s u"
begin

lemma one_step:
  assumes "thread_step body (s, ps) (s', ps')"
    and "ok s" and "\<forall>p \<in> set ps. obeys ok rel p"
  shows "ok s' \<and> rel s s' \<and> (\<forall>p \<in> set ps'. obeys ok rel p)"
  using assms
proof (cases rule: thread_step.cases)
  case (run_section f e p before after)
  then have "obeys ok rel (Section f)" using assms(3) by auto
  then have "ok s' \<and> rel s s' \<and> obeys ok rel p"
    using run_section(3) assms(2) by (elim obeys_SectionE) (metis fst_conv snd_conv)
  then show ?thesis using run_section assms(3) by auto
next
  case (run_fork before k p after)
  then have "obeys ok rel p" using assms(3) by auto
  then show ?thesis using run_fork assms(2,3) rel_refl body_obeys by auto
next
  case (run_become before k after)
  then show ?thesis using assms(2,3) rel_refl body_obeys by auto
qed

lemma all_steps:
  assumes "(thread_step body)\<^sup>*\<^sup>* (s, ps) (s', ps')"
    and "ok s" and "\<forall>p \<in> set ps. obeys ok rel p"
  shows "ok s' \<and> rel s s' \<and> (\<forall>p \<in> set ps'. obeys ok rel p)"
  using assms
proof (induction "(s', ps')" arbitrary: s' ps' rule: rtranclp_induct)
  case base
  then show ?case using rel_refl by simp
next
  case (step c)
  obtain t qs where c: "c = (t, qs)" by fastforce
  have "ok t \<and> rel s t \<and> (\<forall>p \<in> set qs. obeys ok rel p)"
    using step.hyps(3) [OF c] step.prems by blast
  then show ?case
    using one_step [OF step.hyps(2) [unfolded c]] rel_trans by blast
qed

lemma from_threads:
  assumes "(thread_step body)\<^sup>*\<^sup>* (s, map body ks) (s', ps')" and "ok s"
  shows "ok s' \<and> (\<forall>p \<in> set ps'. obeys ok rel p)"
  using all_steps [OF assms] body_obeys by auto

end

end
