(* ===== verification/Runtime_Trust.thy ===== *)
theory Runtime_Trust
  imports Framing
begin

text \<open>
  What stands between another local user and the daemon's socket
  (\<open>crates/protocol/src/lib.rs\<close>, \<open>peer.rs\<close>, \<open>shell.rs\<close>): where the socket lives, the check of
  the directories above it, the check of the peer's user, and the login shell. The file system and the kernel's answers (\<open>lstat\<close>, \<open>geteuid\<close>,
  \<open>SO_PEERCRED\<close>) are parameters.
\<close>

section \<open>Paths\<close>

text \<open>A path is absolute or relative, with its components; its parent drops the last one.\<close>

datatype path = Path (path_absolute: bool) (path_components: "string list")

definition path_parent :: "path \<Rightarrow> path option" where
  "path_parent p =
     (if path_components p = [] then None
      else Some (Path (path_absolute p) (butlast (path_components p))))"

definition path_join :: "path \<Rightarrow> path \<Rightarrow> path" where
  "path_join base p =
     (if path_absolute p then p
      else Path (path_absolute base) (path_components base @ path_components p))"

fun join_components :: "string list \<Rightarrow> string" where
  "join_components [] = []"
| "join_components [c] = c"
| "join_components (c # cs) = c @ ''/'' @ join_components cs"

definition path_display :: "path \<Rightarrow> string" where
  "path_display p = (if path_absolute p then ''/'' else []) @ join_components (path_components p)"

section \<open>The socket path\<close>

definition DEFAULT_SOCKET_NAME :: path where
  "DEFAULT_SOCKET_NAME = Path False [''mult.sock'']"

definition socket_user_component :: "u32 \<Rightarrow> string" where
  "socket_user_component euid = show_nat (unat euid)"

text \<open>
  The user component is only evaluated by the fallback, so the user id it needs is an argument.
\<close>

definition socket_path_from :: "path option \<Rightarrow> path option \<Rightarrow> u32 \<Rightarrow> path" where
  "socket_path_from explicit runtime_dir euid =
     (case explicit of
        Some path \<Rightarrow> path
      | None \<Rightarrow>
          (case runtime_dir of
             Some dir \<Rightarrow> path_join dir DEFAULT_SOCKET_NAME
           | None \<Rightarrow>
               path_join
                 (path_join (Path True [''tmp'']) (Path False [''mult-'' @ socket_user_component euid]))
                 DEFAULT_SOCKET_NAME))"

text \<open>The command line's override outranks the environment's.\<close>

definition default_socket_path :: "path option \<Rightarrow> path option \<Rightarrow> path option \<Rightarrow> u32 \<Rightarrow> path" where
  "default_socket_path override environment runtime_dir euid =
     socket_path_from (case override of Some p \<Rightarrow> Some p | None \<Rightarrow> environment) runtime_dir euid"

section \<open>Private directories\<close>

record metadata =
  is_dir :: bool
  file_mode :: u32
  owner_uid :: u32

definition private_dir_error :: "path \<Rightarrow> string \<Rightarrow> io_error" where
  "private_dir_error p problem =
     io_error_new PermissionDenied
       (''refusing to use runtime directory '' @ path_display p @ '': it '' @ problem)"

text \<open>A sticky, world-writable directory is a shared system root.\<close>

definition shared_root :: "metadata \<Rightarrow> bool" where
  "shared_root m \<longleftrightarrow> file_mode m AND 512 \<noteq> 0 \<and> file_mode m AND 2 \<noteq> 0"

function check_ancestors :: "u32 \<Rightarrow> (path \<Rightarrow> io_error + metadata) \<Rightarrow> path \<Rightarrow> io_error + unit" where
  "check_ancestors euid lstat p =
     (case lstat p of
        Inl e \<Rightarrow> Inl e
      | Inr m \<Rightarrow>
          if \<not> is_dir m then Inl (private_dir_error p ''is not a directory'')
          else if shared_root m \<or> path_parent p = None then Inr ()
          else if owner_uid m = euid \<and> file_mode m AND 18 \<noteq> 0
          then Inl (private_dir_error p ''is writable by group or others'')
          else if owner_uid m \<noteq> euid \<and> owner_uid m \<noteq> 0
          then Inl (private_dir_error p ''is owned by another user (refusing a pre-created path)'')
          else (case path_parent p of
                  None \<Rightarrow> Inr ()
                | Some q \<Rightarrow> check_ancestors euid lstat q))"
  by pat_completeness auto
termination
  by (relation "measure (\<lambda>(euid, lstat, p). length (path_components p))")
    (auto simp: path_parent_def split: if_splits)

declare check_ancestors.simps [simp del]

text \<open>The directory is created first (with mode 0700); then every component is checked.\<close>

definition ensure_private_dir ::
    "io_error option \<Rightarrow> u32 \<Rightarrow> (path \<Rightarrow> io_error + metadata) \<Rightarrow> path \<Rightarrow> io_error + unit" where
  "ensure_private_dir create_result euid lstat dir =
     (case create_result of
        Some e \<Rightarrow> Inl e
      | None \<Rightarrow> check_ancestors euid lstat dir)"

text \<open>
  The components the walk is responsible for: the directory and its ancestors, up to the first
  shared root or the file system's root, which are left to the system.
\<close>

function guarded_ancestors :: "(path \<Rightarrow> io_error + metadata) \<Rightarrow> path \<Rightarrow> path list" where
  "guarded_ancestors lstat p =
     (case lstat p of
        Inl _ \<Rightarrow> [p]
      | Inr m \<Rightarrow>
          if shared_root m then []
          else (case path_parent p of
                  None \<Rightarrow> []
                | Some q \<Rightarrow> p # guarded_ancestors lstat q))"
  by pat_completeness auto
termination
  by (relation "measure (\<lambda>(lstat, p). length (path_components p))")
    (auto simp: path_parent_def split: if_splits)

declare guarded_ancestors.simps [simp del]

definition trustworthy :: "u32 \<Rightarrow> metadata \<Rightarrow> bool" where
  "trustworthy euid m \<longleftrightarrow>
     is_dir m \<and> (owner_uid m = euid \<and> file_mode m AND 18 = 0 \<or> owner_uid m = 0 \<and> owner_uid m \<noteq> euid)"

lemma check_ancestors_Inr:
  "check_ancestors euid lstat p = Inr () \<Longrightarrow> q \<in> set (guarded_ancestors lstat p) \<Longrightarrow>
   \<exists>m. lstat q = Inr m \<and> trustworthy euid m"
proof (induction euid lstat p arbitrary: q rule: check_ancestors.induct)
  case (1 euid lstat p)
  from "1.prems"(1) obtain m where m: "lstat p = Inr m"
    by (auto simp: check_ancestors.simps [of euid lstat p] split: sum.splits)
  show ?case
  proof (cases "shared_root m")
    case True
    then show ?thesis
      using "1.prems"(2) m by (simp add: guarded_ancestors.simps [of lstat p])
  next
    case False
    have "path_parent p \<noteq> None"
      using "1.prems"(2) m False
      by (cases "path_parent p") (simp_all add: guarded_ancestors.simps [of lstat p])
    then obtain parent where parent: "path_parent p = Some parent" by blast
    have q: "q = p \<or> q \<in> set (guarded_ancestors lstat parent)"
      using "1.prems"(2) m False parent by (simp add: guarded_ancestors.simps [of lstat p])
    have ok: "trustworthy euid m" and rest: "check_ancestors euid lstat parent = Inr ()"
      using "1.prems"(1) m False parent
      by (auto simp: check_ancestors.simps [of euid lstat p] trustworthy_def split: if_splits)
    have "is_dir m" using ok by (simp add: trustworthy_def)
    then show ?thesis
      using q ok m "1.IH" [OF m _ _ _ _ parent rest] False parent
      by (auto simp: trustworthy_def)
  qed
qed



definition sample_lstat :: "path \<Rightarrow> io_error + metadata" where
  "sample_lstat p =
     (if p = Path True [''tmp'']
      then Inr \<lparr>is_dir = True, file_mode = 1023, owner_uid = 0\<rparr>
      else Inr \<lparr>is_dir = True, file_mode = 448, owner_uid = 1000\<rparr>)"


section \<open>The peer's user\<close>

text \<open>
  \<open>verify_peer_is_self\<close>: \<open>SO_PEERCRED\<close> answers with a user id or an error, and an error is a
  refusal.
\<close>

definition compare_peer_uid :: "u32 \<Rightarrow> u32 \<Rightarrow> string \<Rightarrow> io_error + unit" where
  "compare_peer_uid peer current label =
     (if peer = current then Inr ()
      else Inl (io_error_new PermissionDenied
        (''rejecting '' @ label @ '' uid '' @ show_nat (unat peer) @
         ''; expected current uid '' @ show_nat (unat current))))"

definition verify_peer_is_self :: "io_error + u32 \<Rightarrow> u32 \<Rightarrow> string \<Rightarrow> io_error + unit" where
  "verify_peer_is_self peer_uid euid label =
     bind_sum peer_uid (\<lambda>peer. compare_peer_uid peer euid label)"

lemma verify_peer_is_self_iff:
  "verify_peer_is_self peer_uid euid label = Inr () \<longleftrightarrow> peer_uid = Inr euid"
  by (auto simp: verify_peer_is_self_def compare_peer_uid_def sums)

section \<open>The login shell\<close>

definition default_shell :: "string option \<Rightarrow> string" where
  "default_shell shell_variable = (case shell_variable of Some s \<Rightarrow> s | None \<Rightarrow> ''/bin/sh'')"

definition shell_command_args :: "string \<Rightarrow> string list" where
  "shell_command_args command = [''-lc'', command]"

end
