(* ===== verification/Daemon_State.thy ===== *)
theory Daemon_State
  imports Server_State Sections Runtime_Trust
begin

text \<open>
  The daemon as one shared state: the server state behind its mutex, the panes behind theirs, the
  channel of every client, and what the outside world has seen of it (bytes read from each PTY,
  bytes written to it, messages written to each socket, signals sent). Also what the operating
  system answers a section, the threads there are, and the deliveries every handler makes.
\<close>

section \<open>The state\<close>

record daemon =
  d_server :: server_state
  d_panes :: panes
  d_next_ref :: pane_ref
  d_channels :: "client_id \<Rightarrow> client_channel"
  d_produced :: "pane_ref \<Rightarrow> bytes"
  d_pty_input :: "pane_ref \<Rightarrow> bytes"
  d_wire :: "client_id \<Rightarrow> server_message list"
  d_signals :: "(int \<times> nat) list"

text \<open>A reference nothing has been spawned behind yet stands for a pane that is gone.\<close>

definition no_pane :: pane_state where
  "no_pane = (pane_new (SessionId 0) sample_identity None [] [] 0 0 0 0)
     \<lparr>ps_lifecycle := LifeRemoved, ps_writes := wq_close wq_spawn\<rparr>"

definition daemon_new :: "server_state \<Rightarrow> daemon" where
  "daemon_new sv =
     \<lparr>d_server = sv, d_panes = (\<lambda>_. no_pane), d_next_ref = 0,
      d_channels = (\<lambda>_. ch_writer_end ch_new), d_produced = (\<lambda>_. []), d_pty_input = (\<lambda>_. []),
      d_wire = (\<lambda>_. []), d_signals = []\<rparr>"

definition set_pane :: "pane_ref \<Rightarrow> pane_state \<Rightarrow> daemon \<Rightarrow> daemon" where
  "set_pane r p d = d\<lparr>d_panes := (d_panes d)(r := p)\<rparr>"

definition client_active :: "daemon \<Rightarrow> client_id \<Rightarrow> bool" where
  "client_active d c = ch_active (d_channels d c)"

section \<open>What the operating system answers\<close>

text \<open>The command of the child: program, arguments, working directory, environment.\<close>

record child_command =
  cc_program :: string
  cc_args :: "string list"
  cc_cwd :: "string option"
  cc_env :: "(string \<times> string) list"

text \<open>
  \<open>kill\<close> fails with an error number and its \<open>io::Error\<close>; opening the PTY, its reader and writer
  and starting the command can each fail; a child may report no process number.
\<close>

record spawn_answers =
  sp_openpty :: "io_error option"
  sp_reader :: "io_error option"
  sp_writer :: "io_error option"
  sp_command :: "child_command \<Rightarrow> io_error option"
  sp_process_id :: "u32 option"
  sp_getpgid :: "int \<Rightarrow> io_error + int"
  sp_getsid :: "int \<Rightarrow> io_error + int"
  sp_shell :: "string option"

record os =
  os_resize :: "u16 \<times> u16 \<Rightarrow> io_error option"
  os_probe :: foreground_probe
  os_group_leader :: "int option"
  os_random :: randomness
  os_spawn :: spawn_answers
  os_getpgrp :: int
  os_kill :: "int \<Rightarrow> nat \<Rightarrow> (nat \<times> io_error) option"
  os_message :: "io_error + client_message"
  os_timeout :: "io_error option"
  os_clone :: "io_error option"
  os_peer_uid :: "io_error + u32"
  os_euid :: u32
  os_pty_read :: "io_error + bytes"
  os_pty_write_ok :: bool
  os_wait :: "io_error + exit_info"
  os_write_ok :: bool
  os_accept :: "io_error + unit"
  os_shutdown :: bool

section \<open>The threads\<close>

datatype daemon_thread =
    Listener
  | Accepted
  | Serving client_id client_scope_id bool
  | ClientWriter client_id
  | ReaderOf pane_ref
  | WaiterOf pane_ref
  | PtyWriterOf pane_ref
  | StopDriver pane_ref "int \<times> int option"
  | ForegroundPoll pane_ref

type_synonym program = "(daemon_thread, os, daemon) prog"

section \<open>Deliveries\<close>

definition try_enqueue :: "client_id \<Rightarrow> client_delivery \<Rightarrow> daemon \<Rightarrow> bool \<times> daemon" where
  "try_enqueue c delivery d =
     (case ch_try_enqueue delivery (d_channels d c) of
        (accepted, ch) \<Rightarrow> (accepted, d\<lparr>d_channels := (d_channels d)(c := ch)\<rparr>))"

definition try_deliver :: "client_id \<Rightarrow> server_message \<Rightarrow> daemon \<Rightarrow> bool \<times> daemon" where
  "try_deliver c message d = try_enqueue c (DeliverMessage message) d"

definition disconnect :: "client_id \<Rightarrow> daemon \<Rightarrow> daemon" where
  "disconnect c d = d\<lparr>d_channels := (d_channels d)(c := ch_disconnect (d_channels d c))\<rparr>"

text \<open>The two ways a result is used: ignored, or taken as a reason to disconnect.\<close>

definition deliver :: "client_id \<Rightarrow> server_message \<Rightarrow> daemon \<Rightarrow> daemon" where
  "deliver c message d = snd (try_deliver c message d)"

definition enqueue_or_disconnect :: "client_id \<Rightarrow> client_delivery \<Rightarrow> daemon \<Rightarrow> daemon" where
  "enqueue_or_disconnect c delivery d =
     (case try_enqueue c delivery d of (accepted, d) \<Rightarrow> if accepted then d else disconnect c d)"

definition deliver_or_disconnect :: "client_id \<Rightarrow> server_message \<Rightarrow> daemon \<Rightarrow> daemon" where
  "deliver_or_disconnect c message d = enqueue_or_disconnect c (DeliverMessage message) d"

definition deliver_to_waiters :: "client_id list \<Rightarrow> server_message \<Rightarrow> program" where
  "deliver_to_waiters waiters response =
     atomically_each (\<lambda>waiter. deliver_or_disconnect waiter response) waiters Done"

definition d_complete_request ::
    "request_key \<Rightarrow> server_message \<Rightarrow> daemon \<Rightarrow> client_id list \<times> daemon" where
  "d_complete_request key response d =
     (case complete_request key response (d_server d) of
        (waiters, sv) \<Rightarrow> (waiters, d\<lparr>d_server := sv\<rparr>))"

definition complete_and_deliver :: "request_key \<Rightarrow> server_message \<Rightarrow> program" where
  "complete_and_deliver key response =
     Section (\<lambda>_ d. case d_complete_request key response d of
       (waiters, d) \<Rightarrow> (d, deliver_to_waiters waiters response))"

definition d_begin_request ::
    "client_scope_id \<Rightarrow> request_id \<Rightarrow> client_message \<Rightarrow> client_id \<Rightarrow> daemon \<Rightarrow>
     request_disposition \<times> daemon" where
  "d_begin_request scope rid request client d =
     (case begin_request scope rid request client (d_server d) of
        (disposition, sv) \<Rightarrow> (disposition, d\<lparr>d_server := sv\<rparr>))"

definition TOO_MANY_PENDING :: string where
  "TOO_MANY_PENDING = ''too many pending requests''"

section \<open>Signals\<close>

definition ESRCH :: nat where "ESRCH = 3"
definition SIGKILL :: nat where "SIGKILL = 9"
definition SIGTERM :: nat where "SIGTERM = 15"

definition show_int :: "int \<Rightarrow> string" where
  "show_int i = (if i < 0 then ''-'' @ show_nat (nat (- i)) else show_nat (nat i))"

definition signal_process_group :: "os \<Rightarrow> int \<Rightarrow> nat \<Rightarrow> daemon \<Rightarrow> io_error option \<times> daemon" where
  "signal_process_group e pgid signal d =
     (if pgid \<le> 1 \<or> pgid = os_getpgrp e
      then (Some (io_error_new InvalidInput
              (''refusing to signal unsafe process group '' @ show_int pgid)), d)
      else
        let d = d\<lparr>d_signals := d_signals d @ [(pgid, signal)]\<rparr> in
        case os_kill e pgid signal of
          None \<Rightarrow> (None, d)
        | Some (errno, error) \<Rightarrow> if errno = ESRCH then (None, d) else (Some error, d))"

definition signal_process_groups ::
    "os \<Rightarrow> int \<times> int option \<Rightarrow> nat \<Rightarrow> daemon \<Rightarrow> io_error option \<times> daemon" where
  "signal_process_groups e groups signal d =
     (case signal_process_group e (fst groups) signal d of
        (Some error, d) \<Rightarrow> (Some error, d)
      | (None, d) \<Rightarrow>
          (case snd groups of
             None \<Rightarrow> (None, d)
           | Some foreground \<Rightarrow> (None, snd (signal_process_group e foreground signal d))))"

end
