(* ===== verification/Daemon_Lifecycle.thy ===== *)
theory Daemon_Lifecycle
  imports Daemon_State
begin

text \<open>
  The life of a pane in the daemon (\<open>src/bin/mult-server.rs\<close>): starting its child
  (\<open>spawn_pane\<close>, \<open>validate_child_process_group\<close>), publishing what the child prints
  (\<open>publish_pty_output\<close>), polling its foreground process, terminating it
  (\<open>start_stop_if_needed\<close>, \<open>drive_termination\<close>, \<open>fail_pending_stops\<close>) and retiring it
  (\<open>maybe_finalize\<close>). An operation that runs under the pane's lock (and the server's, where the
  code holds both) is one section; what it delivers after releasing them follows in sections of
  their own.
\<close>

section \<open>Spawning\<close>

definition validate_child_process_group :: "os \<Rightarrow> u32 \<Rightarrow> io_error + int" where
  "validate_child_process_group e child_pid =
     (let pid = uint child_pid in
      bind_sum (sp_getpgid (os_spawn e) pid) (\<lambda>pgid.
      bind_sum (sp_getsid (os_spawn e) pid) (\<lambda>sid.
        if pgid \<noteq> pid \<or> sid \<noteq> pid \<or> pgid = os_getpgrp e \<or> pgid \<le> 1
        then Inl (io_other (''PTY child '' @ show_int pid @
               '' is not an isolated session/process-group leader''))
        else Inr pgid)))"

record pane_spawn_spec =
  pss_identity :: session_identity
  pss_agent :: "agent_metadata option"
  pss_name :: string
  pss_cwd :: "string option"
  pss_env :: "(string \<times> string) list"
  pss_launch :: launch_spec
  pss_rows :: u16
  pss_cols :: u16

definition child_command_of :: "string \<Rightarrow> pane_spawn_spec \<Rightarrow> child_command" where
  "child_command_of shell spec =
     \<lparr>cc_program = shell,
      cc_args = (case pss_launch spec of
                   LaunchShell \<Rightarrow> []
                 | LaunchCommand command_line \<Rightarrow> shell_command_args command_line),
      cc_cwd = pss_cwd spec,
      cc_env = [(''TERM'', ''xterm-256color''), (''COLORTERM'', ''truecolor'')] @ pss_env spec\<rparr>"

text \<open>
  What a failed spawn leaves to clean up: nothing, the child alone, or the child and the process
  group it may lead. \<open>cleanup_unpublished_child\<close> signals the group; killing the child itself and
  reaping it have no effect on the daemon's state.
\<close>

datatype unpublished_child = NoChild | Unpublished "int option"

fun cleanup_unpublished_child :: "os \<Rightarrow> unpublished_child \<Rightarrow> daemon \<Rightarrow> daemon" where
  "cleanup_unpublished_child e (Unpublished (Some pgid)) d = snd (signal_process_group e pgid SIGKILL d)"
| "cleanup_unpublished_child e (Unpublished None) d = d"
| "cleanup_unpublished_child e NoChild d = d"

definition PID_MAX :: nat where
  "PID_MAX = 2147483647"

definition spawn_pane ::
    "os \<Rightarrow> session_id \<Rightarrow> pane_spawn_spec \<Rightarrow> (io_error \<times> unpublished_child) + pane_state" where
  "spawn_pane e session spec =
     (let (rows, cols) = bounded_pty_dimensions (pss_rows spec) (pss_cols spec);
          sp = os_spawn e; shell = default_shell (sp_shell sp) in
      case sp_openpty sp of Some error \<Rightarrow> Inl (error, NoChild) | None \<Rightarrow>
      case sp_reader sp of Some error \<Rightarrow> Inl (error, NoChild) | None \<Rightarrow>
      case sp_writer sp of Some error \<Rightarrow> Inl (error, NoChild) | None \<Rightarrow>
      case sp_command sp (child_command_of shell spec) of Some error \<Rightarrow> Inl (error, NoChild) | None \<Rightarrow>
      case (case sp_process_id sp of
              Some pid \<Rightarrow> if 1 < pid \<and> unat pid \<le> PID_MAX then Some pid else None
            | None \<Rightarrow> None) of
        None \<Rightarrow> Inl (io_other ''PTY child did not report a safe process ID'', Unpublished None)
      | Some child_pid \<Rightarrow>
          (case validate_child_process_group e child_pid of
             Inl error \<Rightarrow> Inl (error, Unpublished (Some (uint child_pid)))
           | Inr process_group \<Rightarrow>
               Inr (pane_new session (pss_identity spec) (pss_agent spec) (pss_name spec)
                 (pane_title shell (pss_launch spec)) rows cols child_pid process_group)))"

section \<open>Output\<close>

text \<open>
  \<open>publish_pty_output\<close>, under the pane's lock: append, then offer the frame to the owner. What
  was read is recorded in \<open>d_produced\<close>.
\<close>

definition publish_pty_output :: "pane_ref \<Rightarrow> bytes \<Rightarrow> daemon \<Rightarrow> (io_error + unit) \<times> daemon" where
  "publish_pty_output r bs d =
     (case append_raw_history bs (d_panes d r) of
        (Inl error, p) \<Rightarrow> (Inl error, set_pane r p d)
      | (Inr sequence, p) \<Rightarrow>
          let d = (set_pane r p d)\<lparr>d_produced := (d_produced d)(r := d_produced d r @ bs)\<rparr> in
          case ps_owner p of
            None \<Rightarrow> (Inr (), d)
          | Some owner \<Rightarrow>
              (Inr (), enqueue_or_disconnect (ao_client owner)
                 (DeliverOutput (ps_pane p) (ao_lease owner) sequence bs) d))"

definition deliver_foreground_process :: "pane_state \<Rightarrow> foreground_info \<Rightarrow> daemon \<Rightarrow> daemon" where
  "deliver_foreground_process p process d =
     (case ps_owner p of
        None \<Rightarrow> d
      | Some owner \<Rightarrow>
          deliver_or_disconnect (ao_client owner)
            (SForegroundProcess (ps_pane p) (ao_lease owner) process) d)"

definition broadcast_foreground_process_if_changed :: "os \<Rightarrow> pane_ref \<Rightarrow> daemon \<Rightarrow> daemon" where
  "broadcast_foreground_process_if_changed e r d =
     (case refresh_foreground_process_if_changed (os_probe e) (d_panes d r) of
        (None, p) \<Rightarrow> d
      | (Some process, p) \<Rightarrow> deliver_foreground_process p process (set_pane r p d))"

text \<open>Claiming the debounce slot (an atomic swap), and starting the poll if it was free.\<close>

definition schedule_foreground_process_poll :: "pane_ref \<Rightarrow> program \<Rightarrow> program" where
  "schedule_foreground_process_poll r k =
     Section (\<lambda>_ d. case claim_foreground_process_poll (d_panes d r) of
       (claimed, p) \<Rightarrow> (set_pane r p d, if claimed then Fork (ForegroundPoll r) k else k))"

section \<open>Finalization\<close>

text \<open>\<open>finalized_pane\<close> is the pane as \<open>maybe_finalize\<close> leaves it.\<close>

definition finalized_pane :: "pane_state \<Rightarrow> pane_state" where
  "finalized_pane p = notify_lifecycle
     (p\<lparr>ps_lifecycle := LifeRemoved, ps_stop_driver_active := False,
        ps_writes := wq_close (ps_writes p), ps_owner := None, ps_pending_stops := []\<rparr>)"

primrec complete_stops ::
    "stop_outcome \<Rightarrow> request_key list \<Rightarrow> daemon \<Rightarrow> (client_id list \<times> server_message) list \<times> daemon" where
  "complete_stops outcome [] d = ([], d)"
| "complete_stops outcome (key # keys) d =
     (let response = SStopResult (rk_request_id key) outcome in
      case d_complete_request key response d of
        (waiters, d) \<Rightarrow>
          (case complete_stops outcome keys d of
             (deliveries, d) \<Rightarrow> ((waiters, response) # deliveries, d)))"

definition maybe_finalize_locked ::
    "pane_ref \<Rightarrow> daemon \<Rightarrow>
     (attachment_owner option \<times> exit_info \<times> (client_id list \<times> server_message) list) option \<times> daemon" where
  "maybe_finalize_locked r d =
     (let p = d_panes d r in
      case ps_child_exit p of
        None \<Rightarrow> (None, d)
      | Some exit \<Rightarrow>
          if ps_lifecycle p = LifeRemoved \<or> \<not> ps_reader_done p then (None, d)
          else
            let sv = d_server d;
                sv = (case ps_agent p of
                        Some metadata \<Rightarrow> sv_record_agent_exit (ps_identity p) metadata exit sv
                      | None \<Rightarrow> sv);
                sv = snd (remove_session_if_same (ps_session p) r sv);
                d = set_pane r (finalized_pane p) (d\<lparr>d_server := sv\<rparr>)
            in (case complete_stops (SOStopped exit) (ps_pending_stops p) d of
                  (deliveries, d) \<Rightarrow> (Some (ps_owner p, exit, deliveries), d)))"

primrec deliver_all :: "(client_id list \<times> server_message) list \<Rightarrow> program" where
  "deliver_all [] = Done"
| "deliver_all (delivery # deliveries) =
     then_do (deliver_to_waiters (fst delivery) (snd delivery)) (deliver_all deliveries)"

definition maybe_finalize :: "pane_ref \<Rightarrow> program" where
  "maybe_finalize r =
     Section (\<lambda>_ d. case maybe_finalize_locked r d of
       (None, d) \<Rightarrow> (d, Done)
     | (Some (owner, exit, deliveries), d) \<Rightarrow>
         (d, case owner of
               None \<Rightarrow> deliver_all deliveries
             | Some owner \<Rightarrow>
                 atomically (\<lambda>_ d. deliver_or_disconnect (ao_client owner)
                   (SPaneExited (ps_pane (d_panes d r)) (ao_lease owner) exit) d)
                 (deliver_all deliveries)))"

section \<open>Termination\<close>

datatype termination_result = Finalized | TermFailed io_error | KillFailed io_error | TimedOut

definition STOP_TERM_GRACE_MS :: nat where "STOP_TERM_GRACE_MS = 750"
definition STOP_FINALIZE_TIMEOUT_MS :: nat where "STOP_FINALIZE_TIMEOUT_MS = 3000"

text \<open>
  \<open>drive_termination\<close>, in continuation-passing style because both of its closures take time:
  \<open>signal\<close> answers an error or none, \<open>wait_for\<close> whether the pane finalized in time.
\<close>

definition drive_termination ::
    "(nat \<Rightarrow> (io_error option \<Rightarrow> 'p) \<Rightarrow> 'p) \<Rightarrow> (nat \<Rightarrow> (bool \<Rightarrow> 'p) \<Rightarrow> 'p) \<Rightarrow>
     (termination_result \<Rightarrow> 'p) \<Rightarrow> 'p" where
  "drive_termination signal wait_for k =
     signal SIGTERM (\<lambda>r. case r of Some error \<Rightarrow> k (TermFailed error) | None \<Rightarrow>
       wait_for STOP_TERM_GRACE_MS (\<lambda>finalized.
         if finalized then k Finalized
         else signal SIGKILL (\<lambda>r. case r of Some error \<Rightarrow> k (KillFailed error) | None \<Rightarrow>
           wait_for STOP_FINALIZE_TIMEOUT_MS (\<lambda>finalized.
             k (if finalized then Finalized else TimedOut)))))"

text \<open>
  \<open>wait_for_finalization\<close> looks at the pane until it sees it removed or the time is over; its
  looks change nothing, so it is the one look that decides.
\<close>

definition wait_for_finalization :: "pane_ref \<Rightarrow> nat \<Rightarrow> (bool \<Rightarrow> program) \<Rightarrow> program" where
  "wait_for_finalization r timeout k =
     Section (\<lambda>_ d. (d, k (ps_lifecycle (d_panes d r) = LifeRemoved)))"

definition fail_pending_stops :: "pane_ref \<Rightarrow> reject_code \<Rightarrow> string \<Rightarrow> program" where
  "fail_pending_stops r code message =
     Section (\<lambda>_ d.
       let p = d_panes d r in
       case complete_stops (SOError (SEFailed code message)) (ps_pending_stops p)
              (set_pane r (p\<lparr>ps_pending_stops := []\<rparr>) d) of
         (deliveries, d) \<Rightarrow>
           (d, foldr (\<lambda>(waiters, response) k. atomically_each (\<lambda>w. deliver w response) waiters k)
                 deliveries Done))"

text \<open>The failed driver gives the pane back, running again if nothing was signalled.\<close>

definition stop_driver_failed :: "pane_ref \<Rightarrow> bool \<Rightarrow> string \<Rightarrow> program" where
  "stop_driver_failed r restore_running message =
     atomically (\<lambda>_ d.
       let p = d_panes d r;
           p = p\<lparr>ps_stop_driver_active := False\<rparr>;
           p = (if restore_running \<and> ps_lifecycle p = LifeStopping
                then p\<lparr>ps_lifecycle := LifeRunning\<rparr> else p)
       in set_pane r (notify_lifecycle p) d)
     (fail_pending_stops r DaemonInternal message)"

definition stop_driver :: "pane_ref \<Rightarrow> int \<times> int option \<Rightarrow> program" where
  "stop_driver r groups =
     drive_termination
       (\<lambda>signal k. Section (\<lambda>e d. case signal_process_groups e groups signal d of (res, d) \<Rightarrow> (d, k res)))
       (wait_for_finalization r)
       (\<lambda>result. case result of
          Finalized \<Rightarrow> Done
        | TermFailed error \<Rightarrow>
            stop_driver_failed r True (''failed to signal PTY group: '' @ io_message error)
        | KillFailed error \<Rightarrow>
            stop_driver_failed r False (''failed to kill PTY group: '' @ io_message error)
        | TimedOut \<Rightarrow>
            stop_driver_failed r False ''timed out waiting for PTY child reap and output drain'')"

definition start_stop_if_needed :: "pane_ref \<Rightarrow> program \<Rightarrow> program" where
  "start_stop_if_needed r k =
     Section (\<lambda>e d.
       let p = d_panes d r in
       if ps_lifecycle p = LifeExited \<or> ps_lifecycle p = LifeRemoved \<or> ps_stop_driver_active p
       then (d, k)
       else
         let foreground = (case os_group_leader e of
                 Some pgid \<Rightarrow> if 1 < pgid \<and> pgid \<noteq> ps_process_group p then Some pgid else None
               | None \<Rightarrow> None)
         in (set_pane r (p\<lparr>ps_lifecycle := LifeStopping, ps_stop_driver_active := True\<rparr>) d,
             Fork (StopDriver r (ps_process_group p, foreground)) k))"

section \<open>The pane's threads\<close>

definition handle_pty_read :: "pane_ref \<Rightarrow> bytes \<Rightarrow> (io_error + unit \<Rightarrow> program) \<Rightarrow> program" where
  "handle_pty_read r bs k =
     Section (\<lambda>_ d. case publish_pty_output r bs d of
       (Inl error, d) \<Rightarrow> (d, k (Inl error))
     | (Inr _, d) \<Rightarrow> (d, schedule_foreground_process_poll r (k (Inr ()))))"

definition reader_thread :: "pane_ref \<Rightarrow> program" where
  "reader_thread r =
     (let finish = atomically (\<lambda>_ d. set_pane r (notify_lifecycle ((d_panes d r)\<lparr>ps_reader_done := True\<rparr>)) d)
                     (maybe_finalize r)
      in Section (\<lambda>e d. (d,
           case os_pty_read e of
             Inr bs \<Rightarrow>
               if bs = [] then finish
               else handle_pty_read r (take 8192 bs)
                 (\<lambda>result. case result of Inr _ \<Rightarrow> Become (ReaderOf r) | Inl _ \<Rightarrow> finish)
           | Inl error \<Rightarrow>
               if io_kind error = Interrupted then Become (ReaderOf r) else finish)))"

definition record_wait_failure :: "string \<Rightarrow> pane_state \<Rightarrow> pane_state" where
  "record_wait_failure message p = notify_lifecycle (p\<lparr>ps_last_wait_error := Some message\<rparr>)"

definition waiter_thread :: "pane_ref \<Rightarrow> program" where
  "waiter_thread r =
     Section (\<lambda>e d. (d,
       case os_wait e of
         Inr exit \<Rightarrow>
           atomically (\<lambda>_ d. set_pane r (notify_lifecycle
               ((d_panes d r)\<lparr>ps_child_exit := Some exit, ps_last_wait_error := None\<rparr>)) d)
             (maybe_finalize r)
       | Inl error \<Rightarrow>
           if io_kind error = Interrupted then Become (WaiterOf r)
           else atomically (\<lambda>_ d. set_pane r (record_wait_failure (io_message error) (d_panes d r)) d)
                  (then_do (fail_pending_stops r DaemonInternal
                       (''failed to wait for PTY child: '' @ io_message error))
                     (Become (WaiterOf r)))))"

text \<open>\<open>run_pty_writer\<close>: a batch is taken under the queue's lock and written without it.\<close>

primrec write_batch :: "pane_ref \<Rightarrow> bytes list \<Rightarrow> program \<Rightarrow> program" where
  "write_batch r [] k = k"
| "write_batch r (bs # rest) k =
     Section (\<lambda>e d.
       if os_pty_write_ok e
       then (d\<lparr>d_pty_input := (d_pty_input d)(r := d_pty_input d r @ bs)\<rparr>, write_batch r rest k)
       else (set_pane r ((d_panes d r)\<lparr>ps_writes := wq_close (ps_writes (d_panes d r))\<rparr>) d, Done))"

definition pty_writer_thread :: "pane_ref \<Rightarrow> program" where
  "pty_writer_thread r =
     Section (\<lambda>_ d.
       case wq_wait_for_writes (ps_writes (d_panes d r)) of
         (WaitEnded, q) \<Rightarrow> (d, Done)
       | (WaitAgain, q) \<Rightarrow> (d, Become (PtyWriterOf r))
       | (WaitBatch batch, q) \<Rightarrow>
           (set_pane r ((d_panes d r)\<lparr>ps_writes := q\<rparr>) d,
            write_batch r batch (Become (PtyWriterOf r))))"

definition foreground_poll_thread :: "pane_ref \<Rightarrow> program" where
  "foreground_poll_thread r =
     (let probe = atomically (\<lambda>e. broadcast_foreground_process_if_changed e r) in
      probe (probe (probe (atomically (\<lambda>_ d.
        set_pane r ((d_panes d r)\<lparr>ps_foreground_poll_scheduled := False\<rparr>) d) Done))))"

end
