(* ===== verification/Daemon_Attach.thy ===== *)
theory Daemon_Attach
  imports Daemon_Lifecycle
begin

text \<open>
  Attaching a client to a pane (\<open>handle_attach_request_with_hooks\<close> and
  \<open>deliver_attach_transaction\<close> in \<open>src/bin/mult-server.rs\<close>): admission of the request, then
  one section at the attach/takeover linearization boundary, where the server's and the pane's
  locks are held until the attachment is decided and the pane's is kept through replay.
\<close>

section \<open>The transaction\<close>

text \<open>The loop over the retained chunks; \<open>None\<close> is the early return at a sequence overflow.\<close>

primrec deliver_replay ::
    "client_id \<Rightarrow> request_id \<Rightarrow> pane_id \<Rightarrow> attachment_lease \<Rightarrow> bytes list \<Rightarrow>
     bool \<Rightarrow> output_sequence \<Rightarrow> daemon \<Rightarrow> (bool \<times> output_sequence) option \<times> daemon" where
  "deliver_replay c rid pane lease [] accepted sequence d = (Some (accepted, sequence), d)"
| "deliver_replay c rid pane lease (chunk # chunks) accepted sequence d =
     (if \<not> accepted then (Some (accepted, sequence), d)
      else case try_enqueue c (DeliverReplay rid pane lease sequence chunk) d of
        (accepted, d) \<Rightarrow>
          (case checked_add_bytes sequence (length chunk) of
             None \<Rightarrow> (None, d)
           | Some next \<Rightarrow> deliver_replay c rid pane lease chunks accepted next d))"

text \<open>Deliveries joined by \<open>&&\<close>: the first refusal ends the chain.\<close>

primrec deliver_chain :: "client_id \<Rightarrow> server_message list \<Rightarrow> daemon \<Rightarrow> bool \<times> daemon" where
  "deliver_chain c [] d = (True, d)"
| "deliver_chain c (m # ms) d =
     (case try_deliver c m d of
        (accepted, d) \<Rightarrow> if accepted then deliver_chain c ms d else (False, d))"

definition deliver_attach_transaction ::
    "client_id \<Rightarrow> server_message \<Rightarrow> request_id \<Rightarrow> attachment_lease \<Rightarrow> pane_state \<Rightarrow>
     foreground_info \<Rightarrow> daemon \<Rightarrow> bool \<times> daemon" where
  "deliver_attach_transaction c response rid lease p foreground d =
     (case deliver_chain c
             [response,
              SReplayBegin rid (ps_pane p) lease (ps_history_start p) (ps_next_output p)
                (sequence_get (ps_history_start p))] d of
        (accepted, d) \<Rightarrow>
          (case replay_chunks (ps_raw_history p) of
             None \<Rightarrow> (False, d)
           | Some chunks \<Rightarrow>
               (case deliver_replay c rid (ps_pane p) lease chunks accepted (ps_history_start p) d of
                  (None, d) \<Rightarrow> (False, d)
                | (Some (accepted, sequence), d) \<Rightarrow>
                    if accepted \<and> sequence = ps_next_output p
                    then deliver_chain c
                           [SReplayEnd rid (ps_pane p) lease (ps_next_output p),
                            SForegroundProcess (ps_pane p) lease foreground] d
                    else (False, d))))"

section \<open>The request\<close>

record attach_request =
  ar_request_id :: request_id
  ar_identity :: session_identity
  ar_session :: session_id
  ar_rows :: u16
  ar_cols :: u16

definition attach_message :: "attach_request \<Rightarrow> client_message" where
  "attach_message r = CAttach (ar_request_id r) (ar_identity r) (ar_session r) (ar_rows r) (ar_cols r)"

definition attach_result :: "attach_request \<Rightarrow> attach_outcome \<Rightarrow> server_message" where
  "attach_result r outcome = SAttachResult (ar_request_id r) outcome"

definition deliver_attach_error :: "client_id \<Rightarrow> request_id \<Rightarrow> attach_error \<Rightarrow> program" where
  "deliver_attach_error c rid error = atomically (\<lambda>_. deliver c (SAttachResult rid (AOError error))) Done"

text \<open>Recording an answer under the server's lock; the waiters are told after it is released.\<close>

definition answer_attach ::
    "client_scope_id \<Rightarrow> attach_request \<Rightarrow> attach_outcome \<Rightarrow> daemon \<Rightarrow> daemon \<times> program" where
  "answer_attach scope r outcome d =
     (case d_complete_request \<lparr>rk_scope = scope, rk_request_id = ar_request_id r\<rparr>
             (attach_result r outcome) d of
        (waiters, d) \<Rightarrow> (d, deliver_to_waiters waiters (attach_result r outcome)))"

section \<open>The committed attachment\<close>

text \<open>\<open>TakenOver\<close> to the previous owner.\<close>

definition tell_taken_over :: "pane_state \<Rightarrow> attachment_owner \<Rightarrow> daemon \<Rightarrow> daemon" where
  "tell_taken_over p previous d =
     deliver_or_disconnect (ao_client previous) (STakenOver (ps_pane p) (ao_lease previous)) d"

definition resize_if_running :: "os \<Rightarrow> attach_request \<Rightarrow> pane_state \<Rightarrow> (io_error + unit) \<times> pane_state" where
  "resize_if_running e r p =
     (if ps_lifecycle p = LifeRunning then pane_resize (os_resize e) (ar_rows r) (ar_cols r) p
      else (Inr (), p))"

text \<open>A cached success may rebind its own lease, on this connection or on a resumed scope.\<close>

definition attach_rebind ::
    "os \<Rightarrow> client_scope_id \<Rightarrow> bool \<Rightarrow> client_id \<Rightarrow> attach_request \<Rightarrow> pane_ref \<Rightarrow> attachment_lease \<Rightarrow>
     daemon \<Rightarrow> daemon \<times> program" where
  "attach_rebind e scope resumed c r ref lease d =
     (let p = d_panes d ref;
          usable = (case ps_owner p of
            None \<Rightarrow> False
          | Some owner \<Rightarrow> ao_scope owner = scope \<and> ao_lease owner = lease \<and> client_active d c \<and>
                           (ao_client owner = c \<or> resumed))
      in
      if \<not> usable then (d, deliver_attach_error c (ar_request_id r) AESuperseded)
      else case resize_if_running e r p of
        (Inl error, p) \<Rightarrow>
          (d, deliver_attach_error c (ar_request_id r) (AEFailed DaemonInternal (io_message error)))
      | (Inr _, p) \<Rightarrow>
          let previous = ps_owner p;
              p = p\<lparr>ps_owner := Some \<lparr>ao_scope = scope, ao_lease = lease, ao_client = c\<rparr>\<rparr>;
              d = set_pane ref p d;
              d = (case previous of
                     Some previous \<Rightarrow> if ao_client previous \<noteq> c then tell_taken_over p previous d else d
                   | None \<Rightarrow> d);
              response = attach_result r (AOAttached (ar_session r) (pane_info_of p) lease)
          in case refresh_foreground_process (os_probe e) p of
            (foreground, p) \<Rightarrow>
              (snd (deliver_attach_transaction c response (ar_request_id r) lease p foreground
                 (set_pane ref p d)), Done))"

primrec transact_waiters ::
    "client_id list \<Rightarrow> client_id \<Rightarrow> server_message \<Rightarrow> request_id \<Rightarrow> attachment_lease \<Rightarrow> pane_state \<Rightarrow>
     foreground_info \<Rightarrow> daemon \<Rightarrow> daemon" where
  "transact_waiters [] owner response rid lease p foreground d = d"
| "transact_waiters (w # ws) owner response rid lease p foreground d =
     (case deliver_attach_transaction w response rid lease p foreground d of
        (accepted, d) \<Rightarrow>
          transact_waiters ws owner response rid lease p foreground
            (if accepted \<and> w \<noteq> owner then deliver w (STakenOver (ps_pane p) lease) d else d))"

definition attach_fresh ::
    "os \<Rightarrow> client_scope_id \<Rightarrow> client_id \<Rightarrow> attach_request \<Rightarrow> pane_ref \<Rightarrow> daemon \<Rightarrow> daemon \<times> program" where
  "attach_fresh e scope c r ref d =
     (case resize_if_running e r (d_panes d ref) of
        (Inl error, p) \<Rightarrow> answer_attach scope r (AOError (AEFailed DaemonInternal (io_message error))) d
      | (Inr _, p) \<Rightarrow>
          let d = set_pane ref p d in
          case allocate_lease (d_server d) of
            (Inl rejection, sv) \<Rightarrow>
              answer_attach scope r (AOError (into_attach_error rejection)) (d\<lparr>d_server := sv\<rparr>)
          | (Inr lease, sv) \<Rightarrow>
              let d = d\<lparr>d_server := sv\<rparr>;
                  previous = ps_owner p;
                  p = p\<lparr>ps_owner := None\<rparr>;
                  d = set_pane ref p d;
                  d = (case previous of Some previous \<Rightarrow> tell_taken_over p previous d | None \<Rightarrow> d);
                  response = attach_result r (AOAttached (ar_session r) (pane_info_of p) lease)
              in case d_complete_request \<lparr>rk_scope = scope, rk_request_id = ar_request_id r\<rparr> response d of
                (waiters, d) \<Rightarrow>
                  let waiters = (if waiters = [] then [c] else waiters);
                      selected_owner = last waiters;
                      p = p\<lparr>ps_owner := Some \<lparr>ao_scope = scope, ao_lease = lease,
                                            ao_client = selected_owner\<rparr>\<rparr>
                  in case refresh_foreground_process (os_probe e) p of
                    (foreground, p) \<Rightarrow>
                      (transact_waiters waiters selected_owner response (ar_request_id r) lease p
                         foreground (set_pane ref p d), Done))"

section \<open>The linearization boundary\<close>

text \<open>
  \<open>cached\<close> is the lease of the recorded success this request repeats, if any: a refusal then
  goes to this connection only and the record stays as it is.
\<close>

definition attach_commit ::
    "os \<Rightarrow> client_scope_id \<Rightarrow> bool \<Rightarrow> client_id \<Rightarrow> attach_request \<Rightarrow> attachment_lease option \<Rightarrow>
     daemon \<Rightarrow> daemon \<times> program" where
  "attach_commit e scope resumed c r cached d =
     (let refuse = (\<lambda>repeated error.
            case cached of
              Some _ \<Rightarrow> (d, deliver_attach_error c (ar_request_id r) repeated)
            | None \<Rightarrow> answer_attach scope r (AOError error) d);
          shutdown = AEFailed ShuttingDown SHUTDOWN_ERROR_MESSAGE
      in
      if sv_shutting_down (d_server d) then refuse shutdown shutdown
      else case btm_get (sv_sessions (d_server d)) (ar_session r) of
        None \<Rightarrow> refuse AESuperseded (AESessionNotFound (ar_session r))
      | Some ref \<Rightarrow>
          let p = d_panes d ref;
              recoverable_stopping = (ps_lifecycle p = LifeStopping \<and> \<not> ps_stop_driver_active p)
          in
          if ps_identity p \<noteq> ar_identity r
          then refuse AESuperseded
                 (AEIdentityMismatch (ar_session r) (mismatch_between (ps_identity p) (ar_identity r)))
          else if ps_lifecycle p \<noteq> LifeRunning \<and> \<not> recoverable_stopping
          then refuse AESuperseded (AESessionNotFound (ar_session r))
          else (case cached of
                  Some lease \<Rightarrow> attach_rebind e scope resumed c r ref lease d
                | None \<Rightarrow> attach_fresh e scope c r ref d))"

text \<open>
  A cached answer that is an error is repeated as it is. A cached answer of another shape cannot
  occur (the code declares it unreachable) and ends the program without effect.
\<close>

definition handle_attach_request ::
    "client_scope_id \<Rightarrow> bool \<Rightarrow> client_id \<Rightarrow> attach_request \<Rightarrow> program" where
  "handle_attach_request scope resumed c r =
     Section (\<lambda>_ d.
       case d_begin_request scope (ar_request_id r) (attach_message r) c d of
         (disposition, d) \<Rightarrow> (d,
           case disposition of
             DispCached response \<Rightarrow>
               (case response of
                  SAttachResult _ (AOError _) \<Rightarrow> atomically (\<lambda>_. deliver c response) Done
                | SAttachResult _ (AOAttached _ _ lease) \<Rightarrow>
                    Section (\<lambda>e. attach_commit e scope resumed c r (Some lease))
                | _ \<Rightarrow> Done)
           | DispPending \<Rightarrow> Done
           | DispCollision \<Rightarrow> deliver_attach_error c (ar_request_id r) AERequestCollision
           | DispExpired \<Rightarrow> deliver_attach_error c (ar_request_id r) AERetryExpired
           | DispTooManyPending \<Rightarrow>
               complete_and_deliver \<lparr>rk_scope = scope, rk_request_id = ar_request_id r\<rparr>
                 (attach_result r (AOError (AEFailed TooManyPendingRequests TOO_MANY_PENDING)))
           | DispNew \<Rightarrow> Section (\<lambda>e. attach_commit e scope resumed c r None)))"

end
