(* ===== verification/Daemon_Handlers.thy ===== *)
theory Daemon_Handlers
  imports Daemon_Attach
begin

text \<open>
  The other client requests (\<open>src/bin/mult-server.rs\<close>): creating a session
  (\<open>handle_create_request\<close>, \<open>create_session_with_spawner\<close>), input, paste, resize and detach under
  a lease, stop, and agent status. Each lock acquisition of the code is a section.
\<close>

section \<open>Creating a session\<close>

definition create_spec :: "create_request \<Rightarrow> pane_spawn_spec" where
  "create_spec r =
     \<lparr>pss_identity = cr_identity r, pss_agent = cr_agent r, pss_name = cr_name r, pss_cwd = cr_cwd r,
      pss_env = cr_env r, pss_launch = cr_launch r, pss_rows = cr_rows r, pss_cols = cr_cols r\<rparr>"

text \<open>Releasing the reservation is a section of its own on both failure paths.\<close>

definition release_section :: "session_id \<Rightarrow> session_identity \<Rightarrow> program \<Rightarrow> program" where
  "release_section session identity k =
     atomically (\<lambda>_ d. d\<lparr>d_server := release_session_reservation session identity (d_server d)\<rparr>) k"

text \<open>
  \<open>publish_section\<close> publishes a spawned pane: until then only this thread knows it, so it enters
  the store here. The reader and the waiter start once it is published; the PTY writer, whose
  thread \<open>spawn_pane\<close> starts, has nothing to do before that.
\<close>

definition publish_section ::
    "session_id \<Rightarrow> pane_state \<Rightarrow> (rejection + pane_ref \<Rightarrow> program) \<Rightarrow> program" where
  "publish_section session p k =
     Section (\<lambda>_ d.
       let ref = d_next_ref d; panes = (d_panes d)(ref := p) in
       case publish_reserved_session session ref panes (d_server d) of
         (Inl rejection, sv) \<Rightarrow>
           (d\<lparr>d_server := sv\<rparr>,
            atomically (\<lambda>e. cleanup_unpublished_child e (Unpublished (Some (ps_process_group p))))
              (release_section session (ps_identity p) (k (Inl rejection))))
       | (Inr _, sv) \<Rightarrow>
           (d\<lparr>d_server := sv, d_panes := panes, d_next_ref := ref + 1,
              d_produced := (d_produced d)(ref := []), d_pty_input := (d_pty_input d)(ref := [])\<rparr>,
            Fork (PtyWriterOf ref) (Fork (ReaderOf ref) (Fork (WaiterOf ref) (k (Inr ref))))))"

definition create_session ::
    "session_id option \<Rightarrow> pane_spawn_spec \<Rightarrow> (rejection + pane_ref \<Rightarrow> program) \<Rightarrow> program" where
  "create_session requested_id spec k =
     Section (\<lambda>_ d.
       case reserve_session requested_id (pss_identity spec) (d_server d) of
         (Inl rejection, sv) \<Rightarrow> (d\<lparr>d_server := sv\<rparr>, k (Inl rejection))
       | (Inr session, sv) \<Rightarrow>
           (d\<lparr>d_server := sv\<rparr>,
            Section (\<lambda>e d.
              case spawn_pane e session spec of
                Inl (error, child) \<Rightarrow>
                  (cleanup_unpublished_child e child d,
                   release_section session (pss_identity spec)
                     (k (Inl (rejection_new LaunchFailed (io_message error)))))
              | Inr p \<Rightarrow> (d, publish_section session p k))))"

text \<open>The structured answers when the number or the identity is taken.\<close>

definition numeric_conflict :: "session_identity \<Rightarrow> pane_state \<Rightarrow> create_outcome" where
  "numeric_conflict identity p =
     COError (if ps_identity p = identity then CESessionAlreadyExists (session_info_of p)
              else CEIdentityMismatch (ps_session p) (mismatch_between (ps_identity p) identity))"

definition identity_conflict :: "pane_state \<Rightarrow> create_outcome" where
  "identity_conflict p = COError (CEIdentityAlreadyExists (session_info_of p))"

text \<open>
  Looking both up takes the server's lock twice; the pane found is read under its own lock.
  \<open>none\<close> continues when neither is taken.
\<close>

definition resolve_existing ::
    "create_request \<Rightarrow> program \<Rightarrow> (create_outcome \<Rightarrow> program) \<Rightarrow> program" where
  "resolve_existing r none finish =
     Section (\<lambda>_ d. (d,
       let numeric = Option.bind (cr_requested_id r) (btm_get (sv_sessions (d_server d))) in
       Section (\<lambda>_ d. (d,
         case numeric of
           Some ref \<Rightarrow> Section (\<lambda>_ d. (d, finish (numeric_conflict (cr_identity r) (d_panes d ref))))
         | None \<Rightarrow>
             (case session_for_identity (cr_identity r) (d_server d) of
                Some ref \<Rightarrow> Section (\<lambda>_ d. (d, finish (identity_conflict (d_panes d ref))))
              | None \<Rightarrow> none)))))"

definition finish_create :: "client_scope_id \<Rightarrow> create_request \<Rightarrow> create_outcome \<Rightarrow> program" where
  "finish_create scope r outcome =
     complete_and_deliver \<lparr>rk_scope = scope, rk_request_id = cr_request_id r\<rparr>
       (SCreateResult (cr_request_id r) outcome)"

definition create_new :: "client_scope_id \<Rightarrow> create_request \<Rightarrow> program" where
  "create_new scope r =
     (let finish = finish_create scope r in
      case Option.bind (cr_agent r) validate_agent_metadata of
        Some error \<Rightarrow> finish (COError (CEInvalidAgentMetadata error))
      | None \<Rightarrow>
          resolve_existing r
            (create_session (cr_requested_id r) (create_spec r) (\<lambda>result.
               case result of
                 Inr ref \<Rightarrow> Section (\<lambda>_ d. (d, finish (COCreated (session_info_of (d_panes d ref)))))
               | Inl rejection \<Rightarrow>
                   if rej_code rejection = SessionAlreadyExists
                   then resolve_existing r (finish (COError (into_create_error rejection))) finish
                   else finish (COError (into_create_error rejection))))
            finish)"

definition deliver_create_error :: "client_id \<Rightarrow> request_id \<Rightarrow> create_error \<Rightarrow> program" where
  "deliver_create_error c rid error = atomically (\<lambda>_. deliver c (SCreateResult rid (COError error))) Done"

definition handle_create_request :: "client_scope_id \<Rightarrow> client_id \<Rightarrow> create_request \<Rightarrow> program" where
  "handle_create_request scope c r =
     Section (\<lambda>_ d.
       case d_begin_request scope (cr_request_id r) (CCreateSession r) c d of
         (disposition, d) \<Rightarrow> (d,
           case disposition of
             DispCached response \<Rightarrow> atomically (\<lambda>_. deliver c response) Done
           | DispPending \<Rightarrow> Done
           | DispCollision \<Rightarrow> deliver_create_error c (cr_request_id r) CERequestCollision
           | DispExpired \<Rightarrow> deliver_create_error c (cr_request_id r) CERetryExpired
           | DispTooManyPending \<Rightarrow>
               finish_create scope r (COError (CEFailed TooManyPendingRequests TOO_MANY_PENDING))
           | DispNew \<Rightarrow> create_new scope r))"

section \<open>Operations under a lease\<close>

definition reject_lease ::
    "client_id \<Rightarrow> pane_id \<Rightarrow> attachment_lease \<Rightarrow> lease_operation \<Rightarrow> lease_rejection_reason \<Rightarrow>
     daemon \<Rightarrow> daemon" where
  "reject_lease c pane lease operation reason d =
     deliver c (SLeaseRejected pane lease operation reason) d"

text \<open>
  Finding the pane and validating the lease under the server's and the pane's locks, common to
  input, resize and detach.
\<close>

definition leased_pane ::
    "client_scope_id \<Rightarrow> client_id \<Rightarrow> pane_id \<Rightarrow> attachment_lease \<Rightarrow> daemon \<Rightarrow>
     lease_rejection_reason + pane_ref" where
  "leased_pane scope c pane lease d =
     (case pane_by_id pane (d_server d) of
        None \<Rightarrow> Inl LRPaneMissing
      | Some ref \<Rightarrow>
          (case validate_mutation_lease (client_active d) (d_panes d ref)
                  (sv_shutting_down (d_server d)) scope c lease of
             Inl reason \<Rightarrow> Inl reason
           | Inr _ \<Rightarrow> Inr ref))"

definition handle_leased_input ::
    "client_scope_id \<Rightarrow> client_id \<Rightarrow> pane_id \<Rightarrow> attachment_lease \<Rightarrow> bytes \<Rightarrow> lease_operation \<Rightarrow> program" where
  "handle_leased_input scope c pane lease bs operation =
     Section (\<lambda>_ d. (d,
       case leased_pane scope c pane lease d of
         Inl reason \<Rightarrow> atomically (\<lambda>_. reject_lease c pane lease operation reason) Done
       | Inr ref \<Rightarrow>
           Section (\<lambda>_ d.
             case wq_enqueue bs (ps_writes (d_panes d ref)) of
               (Inl refusal, q) \<Rightarrow>
                 (set_pane ref ((d_panes d ref)\<lparr>ps_writes := q\<rparr>) d,
                  atomically (\<lambda>_. reject_lease c pane lease operation LRWriteRefused) Done)
             | (Inr _, q) \<Rightarrow>
                 (set_pane ref ((d_panes d ref)\<lparr>ps_writes := q\<rparr>) d,
                  if input_may_change_foreground bs
                  then schedule_foreground_process_poll ref Done else Done))))"

definition handle_leased_resize ::
    "client_scope_id \<Rightarrow> client_id \<Rightarrow> pane_id \<Rightarrow> attachment_lease \<Rightarrow> u16 \<Rightarrow> u16 \<Rightarrow> program" where
  "handle_leased_resize scope c pane lease rows cols =
     Section (\<lambda>e d.
       case leased_pane scope c pane lease d of
         Inl reason \<Rightarrow> (reject_lease c pane lease OpResize reason d, Done)
       | Inr ref \<Rightarrow> (set_pane ref (snd (pane_resize (os_resize e) rows cols (d_panes d ref))) d, Done))"

definition handle_leased_detach ::
    "client_scope_id \<Rightarrow> client_id \<Rightarrow> pane_id \<Rightarrow> attachment_lease \<Rightarrow> program" where
  "handle_leased_detach scope c pane lease =
     Section (\<lambda>_ d.
       case leased_pane scope c pane lease d of
         Inl reason \<Rightarrow> (reject_lease c pane lease OpDetach reason d, Done)
       | Inr ref \<Rightarrow> (set_pane ref ((d_panes d ref)\<lparr>ps_owner := None\<rparr>) d, Done))"

section \<open>Stopping a session\<close>

record stop_request =
  st_request_id :: request_id
  st_identity :: session_identity
  st_pane :: pane_id
  st_lease :: attachment_lease

definition stop_message :: "stop_request \<Rightarrow> client_message" where
  "stop_message r = CStop (st_request_id r) (st_identity r) (st_pane r) (st_lease r)"

definition finish_stop :: "client_scope_id \<Rightarrow> stop_request \<Rightarrow> stop_outcome \<Rightarrow> program" where
  "finish_stop scope r outcome =
     complete_and_deliver \<lparr>rk_scope = scope, rk_request_id = st_request_id r\<rparr>
       (SStopResult (st_request_id r) outcome)"

definition deliver_stop_error :: "client_id \<Rightarrow> request_id \<Rightarrow> stop_error \<Rightarrow> program" where
  "deliver_stop_error c rid error = atomically (\<lambda>_. deliver c (SStopResult rid (SOError error))) Done"

text \<open>The section under the pane's lock: refuse, or queue the request and mark the pane.\<close>

definition stop_pane ::
    "client_scope_id \<Rightarrow> client_id \<Rightarrow> stop_request \<Rightarrow> pane_ref \<Rightarrow> daemon \<Rightarrow> daemon \<times> program" where
  "stop_pane scope c r ref d =
     (let p = d_panes d ref in
      if ps_identity p \<noteq> st_identity r
      then (d, finish_stop scope r (SOError (SEIdentityMismatch (st_pane r)
                 (mismatch_between (ps_identity p) (st_identity r)))))
      else if ps_lifecycle p = LifeExited \<or> ps_lifecycle p = LifeRemoved
      then (d, finish_stop scope r SOAlreadyAbsent)
      else case validate_stop_lease (client_active d) p scope c (st_lease r) of
        Inl reason \<Rightarrow> (d, finish_stop scope r (SOError (SELeaseRejected reason)))
      | Inr _ \<Rightarrow>
          (set_pane ref
             (p\<lparr>ps_pending_stops := ps_pending_stops p @
                  [\<lparr>rk_scope = scope, rk_request_id = st_request_id r\<rparr>],
                ps_lifecycle := (if ps_lifecycle p = LifeRunning then LifeStopping else ps_lifecycle p)\<rparr>) d,
           start_stop_if_needed ref Done))"

definition handle_stop_request :: "client_scope_id \<Rightarrow> client_id \<Rightarrow> stop_request \<Rightarrow> program" where
  "handle_stop_request scope c r =
     Section (\<lambda>_ d.
       case d_begin_request scope (st_request_id r) (stop_message r) c d of
         (disposition, d) \<Rightarrow> (d,
           case disposition of
             DispCached response \<Rightarrow> atomically (\<lambda>_. deliver c response) Done
           | DispPending \<Rightarrow> Done
           | DispCollision \<Rightarrow> deliver_stop_error c (st_request_id r) SERequestCollision
           | DispExpired \<Rightarrow> deliver_stop_error c (st_request_id r) SERetryExpired
           | DispTooManyPending \<Rightarrow>
               finish_stop scope r (SOError (SEFailed TooManyPendingRequests TOO_MANY_PENDING))
           | DispNew \<Rightarrow>
               Section (\<lambda>_ d. (d,
                 case pane_by_id (st_pane r) (d_server d) of
                   None \<Rightarrow> finish_stop scope r SOAlreadyAbsent
                 | Some ref \<Rightarrow> Section (\<lambda>_. stop_pane scope c r ref)))))"

section \<open>Agent status\<close>

datatype agent_request = UpdateAgent agent_status_record | QueryAgent agent_status_query

fun agent_message :: "request_id \<Rightarrow> agent_request \<Rightarrow> client_message" where
  "agent_message rid (UpdateAgent rec) = CUpdateAgentStatus rid rec"
| "agent_message rid (QueryAgent query) = CGetAgentStatus rid query"

definition agent_live :: "server_state \<Rightarrow> session_identity \<Rightarrow> bool" where
  "agent_live sv identity \<longleftrightarrow> btm_contains (sv_session_by_identity sv) identity"

fun answer_agent :: "agent_request \<Rightarrow> server_state \<Rightarrow> agent_status_outcome \<times> server_state" where
  "answer_agent (UpdateAgent rec) sv =
     (case update_agent_status (agent_live sv) rec (sv_agent_states sv) of
        (outcome, agents) \<Rightarrow> (outcome, sv\<lparr>sv_agent_states := agents\<rparr>))"
| "answer_agent (QueryAgent query) sv = (query_agent_status (agent_live sv) query (sv_agent_states sv), sv)"

definition finish_agent :: "client_scope_id \<Rightarrow> request_id \<Rightarrow> agent_status_outcome \<Rightarrow> program" where
  "finish_agent scope rid outcome =
     complete_and_deliver \<lparr>rk_scope = scope, rk_request_id = rid\<rparr> (SAgentStatusResult rid outcome)"

definition deliver_agent_status_error :: "client_id \<Rightarrow> request_id \<Rightarrow> agent_status_error \<Rightarrow> program" where
  "deliver_agent_status_error c rid error =
     atomically (\<lambda>_. deliver c (SAgentStatusResult rid (ASError error))) Done"

definition handle_agent_status_request ::
    "client_scope_id \<Rightarrow> client_id \<Rightarrow> request_id \<Rightarrow> agent_request \<Rightarrow> program" where
  "handle_agent_status_request scope c rid r =
     Section (\<lambda>_ d.
       case d_begin_request scope rid (agent_message rid r) c d of
         (disposition, d) \<Rightarrow> (d,
           case disposition of
             DispCached response \<Rightarrow> atomically (\<lambda>_. deliver c response) Done
           | DispPending \<Rightarrow> Done
           | DispCollision \<Rightarrow> deliver_agent_status_error c rid ASRequestCollision
           | DispExpired \<Rightarrow> deliver_agent_status_error c rid ASRetryExpired
           | DispTooManyPending \<Rightarrow>
               finish_agent scope rid (ASError (ASFailed TooManyPendingRequests TOO_MANY_PENDING))
           | DispNew \<Rightarrow>
               Section (\<lambda>_ d. case answer_agent r (d_server d) of
                 (outcome, sv) \<Rightarrow> (d\<lparr>d_server := sv\<rparr>, finish_agent scope rid outcome))))"

end
