(* ===== verification/Daemon_Threads.thy ===== *)
theory Daemon_Threads
  imports Daemon_Handlers
begin

text \<open>
  The daemon's threads (\<open>src/bin/mult-server.rs\<close>): the listener and shutdown (\<open>run\<close>,
  \<open>begin_daemon_shutdown\<close>, \<open>wait_for_sessions_drained\<close>), one connection (\<open>handle_client\<close>,
  \<open>handle_client_messages\<close>) with its writer, and the threads of a pane. \<open>thread_body\<close> maps every
  thread to its program; together with the interleaving of \<open>Sections\<close> it is the daemon.
\<close>

section \<open>Reading a message\<close>

definition is_client_disconnect :: "io_error \<Rightarrow> bool" where
  "is_client_disconnect error \<longleftrightarrow>
     io_kind error = UnexpectedEof \<or> io_kind error = ConnectionReset \<or> io_kind error = BrokenPipe"

definition read_client_message :: "io_error + client_message \<Rightarrow> io_error + client_message option" where
  "read_client_message result =
     (case result of
        Inr message \<Rightarrow> Inr (Some message)
      | Inl error \<Rightarrow> if is_client_disconnect error then Inr None else Inl error)"

section \<open>A connection\<close>

text \<open>\<open>close_client\<close> is what \<open>handle_client\<close> does when the messages are over, however they ended.\<close>

definition close_client :: "client_id \<Rightarrow> program" where
  "close_client c =
     atomically (\<lambda>_ d. d\<lparr>d_channels := (d_channels d)
         (c := ch_finish_after_pending_deliveries (d_channels d c))\<rparr>)
       (atomically (\<lambda>_ d. d\<lparr>d_server := remove_client c (d_server d)\<rparr>) Done)"

definition protocol_error :: "client_id \<Rightarrow> reject_code \<Rightarrow> string \<Rightarrow> program" where
  "protocol_error c code message = atomically (\<lambda>_. deliver c (SError code message)) (close_client c)"

definition handshake :: "client_id \<Rightarrow> program" where
  "handshake c =
     Section (\<lambda>e d. (d,
       case os_timeout e of Some _ \<Rightarrow> close_client c | None \<Rightarrow>
       case read_client_message (os_message e) of
         Inl _ \<Rightarrow> close_client c
       | Inr None \<Rightarrow> close_client c
       | Inr (Some (CHello protocol_version resume)) \<Rightarrow>
           if protocol_version \<noteq> PROTOCOL_VERSION
           then protocol_error c ProtocolMismatch
                  (''client protocol version '' @ show_nat (unat protocol_version) @
                   '' is incompatible with server version '' @ show_nat (unat PROTOCOL_VERSION) @
                   ''; restart mult clients'')
           else
             Section (\<lambda>e d.
               case resume_or_allocate_scope (os_random e) resume (d_server d) of
                 (Inl _, sv) \<Rightarrow> (d\<lparr>d_server := sv\<rparr>, close_client c)
               | (Inr (scope, resumed), sv) \<Rightarrow>
                   (d\<lparr>d_server := sv\<rparr>,
                    Section (\<lambda>_ d.
                      case try_deliver c (SHello PROTOCOL_VERSION (sv_server_instance sv) scope resumed) d of
                        (accepted, d) \<Rightarrow>
                          (d, if accepted then Become (Serving c scope resumed) else close_client c))))
       | Inr (Some _) \<Rightarrow>
           protocol_error c ProtocolOrder ''expected protocol hello before other client messages''))"

definition dispatch :: "client_id \<Rightarrow> client_scope_id \<Rightarrow> bool \<Rightarrow> client_message \<Rightarrow> program" where
  "dispatch c scope resumed message =
     (let again = Become (Serving c scope resumed) in
      case message of
        CHello _ _ \<Rightarrow>
          protocol_error c ProtocolOrder ''protocol hello may only be sent once per connection''
      | CListSessions namespace \<Rightarrow>
          Section (\<lambda>_ d. (d,
            let sessions = session_infos namespace (d_panes d) (d_server d) in
            atomically (\<lambda>_. deliver c (SSessions namespace sessions)) again))
      | CCreateSession r \<Rightarrow> then_do (handle_create_request scope c r) again
      | CAttach rid identity session rows cols \<Rightarrow>
          then_do (handle_attach_request scope resumed c
            \<lparr>ar_request_id = rid, ar_identity = identity, ar_session = session,
             ar_rows = rows, ar_cols = cols\<rparr>) again
      | CInput pane lease bs \<Rightarrow> then_do (handle_leased_input scope c pane lease bs OpInput) again
      | CPaste pane lease bs \<Rightarrow> then_do (handle_leased_input scope c pane lease bs OpPaste) again
      | CResize pane lease rows cols \<Rightarrow> then_do (handle_leased_resize scope c pane lease rows cols) again
      | CDetach pane lease \<Rightarrow> then_do (handle_leased_detach scope c pane lease) again
      | CStop rid identity pane lease \<Rightarrow>
          then_do (handle_stop_request scope c
            \<lparr>st_request_id = rid, st_identity = identity, st_pane = pane, st_lease = lease\<rparr>) again
      | CUpdateAgentStatus rid rec \<Rightarrow>
          then_do (handle_agent_status_request scope c rid (UpdateAgent rec)) again
      | CGetAgentStatus rid query \<Rightarrow>
          then_do (handle_agent_status_request scope c rid (QueryAgent query)) again)"

definition serving_thread :: "client_id \<Rightarrow> client_scope_id \<Rightarrow> bool \<Rightarrow> program" where
  "serving_thread c scope resumed =
     Section (\<lambda>e d. (d,
       case read_client_message (os_message e) of
         Inl _ \<Rightarrow> close_client c
       | Inr None \<Rightarrow> close_client c
       | Inr (Some message) \<Rightarrow> dispatch c scope resumed message))"

text \<open>
  \<open>handle_client\<close> up to the first message. The channel is created with the connection's number;
  duplicating the socket can fail, and then nothing more happens.
\<close>

definition accepted_thread :: program where
  "accepted_thread =
     Section (\<lambda>e d. (d,
       case verify_peer_is_self (os_peer_uid e) (os_euid e) ''client'' of
         Inl _ \<Rightarrow> Done
       | Inr _ \<Rightarrow>
           Section (\<lambda>e d.
             case allocate_client_id (d_server d) of
               (Inl _, sv) \<Rightarrow> (d\<lparr>d_server := sv\<rparr>, Done)
             | (Inr c, sv) \<Rightarrow>
                 let d = d\<lparr>d_server := sv\<rparr> in
                 case os_clone e of
                   Some _ \<Rightarrow> (d, Done)
                 | None \<Rightarrow> (d\<lparr>d_channels := (d_channels d)(c := ch_new)\<rparr>,
                            Fork (ClientWriter c) (handshake c)))))"

text \<open>
  The connection's writer. A socket that was shut down refuses the write. That every sender is
  gone is not modelled: the thread then stays idle instead of ending.
\<close>

definition client_writer_thread :: "client_id \<Rightarrow> program" where
  "client_writer_thread c =
     Section (\<lambda>e d.
       case ch_writer_turn (os_write_ok e \<and> ch_stream_open (d_channels d c)) (d_channels d c) of
         (messages, ch) \<Rightarrow>
           (d\<lparr>d_channels := (d_channels d)(c := ch),
              d_wire := (d_wire d)(c := d_wire d c @ messages)\<rparr>,
            if ch_receiver_open ch then Become (ClientWriter c)
            else atomically (\<lambda>_ d. d\<lparr>d_server := remove_client c (d_server d)\<rparr>) Done))"

section \<open>The listener\<close>

definition sessions_drained :: "server_state \<Rightarrow> bool" where
  "sessions_drained sv \<longleftrightarrow>
     btm_is_empty (sv_sessions sv) \<and> btm_is_empty (sv_reserved_sessions sv)"

text \<open>
  \<open>wait_for_sessions_drained\<close> looks until it sees the daemon drained or its deadline passes; its
  looks change nothing, so it is the one look that decides. \<open>run\<close> returns either way.
\<close>

definition wait_for_sessions_drained :: "(bool \<Rightarrow> program) \<Rightarrow> program" where
  "wait_for_sessions_drained k = Section (\<lambda>_ d. (d, k (sessions_drained (d_server d))))"

definition begin_daemon_shutdown :: "program \<Rightarrow> program" where
  "begin_daemon_shutdown k =
     Section (\<lambda>_ d.
       (d\<lparr>d_server := (d_server d)\<lparr>sv_shutting_down := True\<rparr>\<rparr>,
        foldr start_stop_if_needed (btm_values (sv_sessions (d_server d))) k))"

definition listener_thread :: program where
  "listener_thread =
     Section (\<lambda>e d. (d,
       if os_shutdown e then begin_daemon_shutdown (wait_for_sessions_drained (\<lambda>_. Done))
       else case os_accept e of
              Inr _ \<Rightarrow> Fork Accepted (Become Listener)
            | Inl _ \<Rightarrow> Become Listener))"

section \<open>The daemon\<close>

fun thread_body :: "daemon_thread \<Rightarrow> program" where
  "thread_body Listener = listener_thread"
| "thread_body Accepted = accepted_thread"
| "thread_body (Serving c scope resumed) = serving_thread c scope resumed"
| "thread_body (ClientWriter c) = client_writer_thread c"
| "thread_body (ReaderOf r) = reader_thread r"
| "thread_body (WaiterOf r) = waiter_thread r"
| "thread_body (PtyWriterOf r) = pty_writer_thread r"
| "thread_body (StopDriver r groups) = stop_driver r groups"
| "thread_body (ForegroundPoll r) = foreground_poll_thread r"

definition daemon_step :: "daemon \<times> program list \<Rightarrow> daemon \<times> program list \<Rightarrow> bool" where
  "daemon_step = thread_step thread_body"

text \<open>What the daemon can reach from its start, with any answers of the operating system.\<close>

definition daemon_start :: "daemon \<times> program list \<Rightarrow> bool" where
  "daemon_start = (\<lambda>(d, ps). \<exists>raw sv. server_new (Inr raw) = Inr sv \<and> d = daemon_new sv \<and> ps = [thread_body Listener])"

definition reachable :: "daemon \<times> program list \<Rightarrow> bool" where
  "reachable c \<longleftrightarrow> (\<exists>c0. daemon_start c0 \<and> daemon_step\<^sup>*\<^sup>* c0 c)"

end
