(* ===== verification/Daemon_Frames.thy ===== *)
theory Daemon_Frames
  imports Daemon_Threads
begin

text \<open>
  What the daemon's operations leave alone: deliveries change channels only, the allocators and
  the reservations change their own fields of the server state.
\<close>

section \<open>Deliveries\<close>

definition only_channels :: "daemon \<Rightarrow> daemon \<Rightarrow> bool" where
  "only_channels d d' \<longleftrightarrow> (\<exists>ch. d' = d\<lparr>d_channels := ch\<rparr>)"

lemma only_channels_fields:
  assumes "only_channels d d'"
  shows "d_server d' = d_server d" and "d_panes d' = d_panes d" and "d_next_ref d' = d_next_ref d"
    and "d_produced d' = d_produced d" and "d_pty_input d' = d_pty_input d"
    and "d_wire d' = d_wire d" and "d_signals d' = d_signals d"
proof -
  obtain ch where "d' = d\<lparr>d_channels := ch\<rparr>" using assms by (auto simp: only_channels_def)
  then show "d_server d' = d_server d" and "d_panes d' = d_panes d" and "d_next_ref d' = d_next_ref d"
    and "d_produced d' = d_produced d" and "d_pty_input d' = d_pty_input d"
    and "d_wire d' = d_wire d" and "d_signals d' = d_signals d" by simp_all
qed

lemma only_channels_refl [simp]: "only_channels d d"
  by (auto simp: only_channels_def intro: exI [of _ "d_channels d"])

lemma only_channels_update [simp]: "only_channels d (d\<lparr>d_channels := ch\<rparr>)"
  by (auto simp: only_channels_def)

lemma only_channels_trans: "only_channels d d' \<Longrightarrow> only_channels d' d'' \<Longrightarrow> only_channels d d''"
  by (auto simp: only_channels_def)

lemma oc_try_enqueue [simp]: "only_channels d (snd (try_enqueue c x d))"
  by (simp add: try_enqueue_def split: prod.split)

lemma oc_disconnect [simp]: "only_channels d (disconnect c d)"
  by (simp add: disconnect_def)

lemma oc_try_deliver [simp]: "only_channels d (snd (try_deliver c m d))"
  by (simp add: try_deliver_def)

lemma oc_deliver [simp]: "only_channels d (deliver c m d)"
  by (simp add: deliver_def)

lemma oc_enqueue_or_disconnect [simp]: "only_channels d (enqueue_or_disconnect c x d)"
proof -
  obtain a d1 where 1: "try_enqueue c x d = (a, d1)" by fastforce
  then have "only_channels d d1" using oc_try_enqueue [of d c x] by simp
  then show ?thesis
    using 1 only_channels_trans [OF _ oc_disconnect] by (simp add: enqueue_or_disconnect_def)
qed

lemma oc_deliver_or_disconnect [simp]: "only_channels d (deliver_or_disconnect c m d)"
  by (simp add: deliver_or_disconnect_def)

lemma oc_tell_taken_over [simp]: "only_channels d (tell_taken_over p previous d)"
  by (simp add: tell_taken_over_def)

lemma oc_deliver_chain [simp]: "only_channels d (snd (deliver_chain c ms d))"
proof (induction ms arbitrary: d)
  case (Cons m ms)
  obtain a d1 where 1: "try_deliver c m d = (a, d1)" by fastforce
  then have "only_channels d d1" using oc_try_deliver [of d c m] by simp
  then show ?case
    using 1 only_channels_trans [OF _ Cons.IH] by simp
qed simp

lemma oc_deliver_replay [simp]:
  "only_channels d (snd (deliver_replay c rid pane lease chunks accepted sequence d))"
proof (induction chunks arbitrary: accepted sequence d)
  case (Cons chunk chunks)
  obtain r d1 where e: "try_enqueue c (DeliverReplay rid pane lease sequence chunk) d = (r, d1)"
    by fastforce
  have "only_channels d d1"
    using oc_try_enqueue [of d c "DeliverReplay rid pane lease sequence chunk"] e by simp
  then show ?case
    using e Cons by (auto split: option.split intro: only_channels_trans)
qed simp

lemma oc_deliver_attach_transaction [simp]:
  "only_channels d (snd (deliver_attach_transaction c response rid lease p foreground d))"
proof -
  define ms where "ms = [response, SReplayBegin rid (ps_pane p) lease (ps_history_start p)
    (ps_next_output p) (sequence_get (ps_history_start p))]"
  obtain a d1 where 1: "deliver_chain c ms d = (a, d1)" by fastforce
  have o1: "only_channels d d1" using oc_deliver_chain [of d c ms] 1 by simp
  show ?thesis
  proof (cases "replay_chunks (ps_raw_history p)")
    case None
    then show ?thesis using 1 o1 by (simp add: deliver_attach_transaction_def ms_def)
  next
    case (Some chunks)
    obtain res d2 where 2: "deliver_replay c rid (ps_pane p) lease chunks a (ps_history_start p) d1 = (res, d2)"
      by fastforce
    have o2: "only_channels d d2"
      using oc_deliver_replay [of d1 c rid "ps_pane p" lease chunks a "ps_history_start p"] 2 o1
      by (auto intro: only_channels_trans)
    then have "only_channels d (snd (deliver_chain c ms' d2))" for ms'
      using oc_deliver_chain only_channels_trans by blast
    then show ?thesis
      using 1 2 o2 Some
      by (simp add: deliver_attach_transaction_def ms_def [symmetric] del: deliver_chain.simps
          split: option.split)
  qed
qed

lemma oc_transact_waiters [simp]:
  "only_channels d (transact_waiters ws owner response rid lease p foreground d)"
proof (induction ws arbitrary: d)
  case (Cons w ws)
  obtain a d1 where 1: "deliver_attach_transaction w response rid lease p foreground d = (a, d1)"
    by fastforce
  have "only_channels d d1"
    using oc_deliver_attach_transaction [of d w response rid lease p foreground] 1 by simp
  then show ?case
    using 1 Cons by (auto intro: only_channels_trans [OF only_channels_trans [OF _ oc_deliver]]
        only_channels_trans)
qed simp

lemmas delivery_frame [simp, frame] =
  only_channels_fields [OF oc_try_enqueue] only_channels_fields [OF oc_disconnect]
  only_channels_fields [OF oc_try_deliver] only_channels_fields [OF oc_deliver]
  only_channels_fields [OF oc_enqueue_or_disconnect] only_channels_fields [OF oc_deliver_or_disconnect]
  only_channels_fields [OF oc_tell_taken_over] only_channels_fields [OF oc_deliver_chain]
  only_channels_fields [OF oc_deliver_replay] only_channels_fields [OF oc_deliver_attach_transaction]
  only_channels_fields [OF oc_transact_waiters]

section \<open>Panes and signals\<close>

lemma set_pane_simps [simp]:
  "d_panes (set_pane r p d) = (d_panes d)(r := p)"
  "d_server (set_pane r p d) = d_server d"
  "d_next_ref (set_pane r p d) = d_next_ref d"
  "d_channels (set_pane r p d) = d_channels d"
  "d_produced (set_pane r p d) = d_produced d"
  "d_pty_input (set_pane r p d) = d_pty_input d"
  "d_wire (set_pane r p d) = d_wire d"
  "d_signals (set_pane r p d) = d_signals d"
  "set_pane r p (set_pane r q d) = set_pane r p d"
  "set_pane r (d_panes d r) d = d"
  by (simp_all add: set_pane_def)

lemma signal_process_group_simps [simp]:
  "d_server (snd (signal_process_group e pgid signal d)) = d_server d"
  "d_panes (snd (signal_process_group e pgid signal d)) = d_panes d"
  "d_next_ref (snd (signal_process_group e pgid signal d)) = d_next_ref d"
  "d_channels (snd (signal_process_group e pgid signal d)) = d_channels d"
  "d_produced (snd (signal_process_group e pgid signal d)) = d_produced d"
  "d_wire (snd (signal_process_group e pgid signal d)) = d_wire d"
  by (simp_all add: signal_process_group_def Let_def split: option.split)

text \<open>\<open>publish_pty_output\<close> with the append's result at hand.\<close>

lemma publish_pty_output_server [simp]: "d_server (snd (publish_pty_output r bs d)) = d_server d"
  by (auto simp: publish_pty_output_def Let_def split: prod.split sum.split option.split)

section \<open>The server's allocators\<close>

lemma allocate_session_id_shape:
  "allocate_session_id sv = (res, sv') \<Longrightarrow> \<exists>n. sv' = sv\<lparr>sv_next_session_id := n\<rparr>"
  using allocate_session_id_spec by blast

lemma allocate_client_id_shape:
  "allocate_client_id sv = (res, sv') \<Longrightarrow> \<exists>n. sv' = sv\<lparr>sv_next_client_id := n\<rparr>"
  by (auto simp: allocate_client_id_def Let_def split: option.splits intro: exI [of _ "sv_next_client_id sv"])

lemma reserve_session_shape:
  assumes "reserve_session requested identity sv = (res, sv')"
  obtains n where "sv' = sv\<lparr>sv_next_session_id := n\<rparr>" and "\<exists>e. res = Inl e"
  | n session where "res = Inr session" and "\<not> sv_shutting_down sv" and "\<not> session_taken sv session"
      and "\<not> btm_contains (sv_session_by_identity sv) identity"
      and "\<not> btm_contains (sv_reserved_identities sv) identity"
      and "requested = None \<or> requested = Some session"
      and "sv' = sv\<lparr>sv_next_session_id := n,
             sv_reserved_sessions := bts_insert session (sv_reserved_sessions sv),
             sv_reserved_identities := bts_insert identity (sv_reserved_identities sv)\<rparr>"
proof (cases res)
  case (Inl e)
  have "\<exists>n. sv' = sv\<lparr>sv_next_session_id := n\<rparr>"
    using assms Inl
    by (auto simp: reserve_session_def dest!: allocate_session_id_shape
        split: if_splits option.splits prod.splits sum.splits
        intro: exI [of _ "sv_next_session_id sv"])
  then show thesis using Inl that(1) by blast
next
  case (Inr session)
  have free: "\<not> sv_shutting_down sv" "\<not> btm_contains (sv_session_by_identity sv) identity"
    "\<not> btm_contains (sv_reserved_identities sv) identity"
    using assms Inr by (auto simp: reserve_session_def split: if_splits)
  obtain n where n: "(case requested of Some session \<Rightarrow> (Inr session, sv) | None \<Rightarrow> allocate_session_id sv) =
      (Inr session, sv\<lparr>sv_next_session_id := n\<rparr>)"
    and taken: "\<not> session_taken sv session"
    and sv': "sv' = sv\<lparr>sv_next_session_id := n,
             sv_reserved_sessions := bts_insert session (sv_reserved_sessions sv),
             sv_reserved_identities := bts_insert identity (sv_reserved_identities sv)\<rparr>"
  proof (cases requested)
    case None
    obtain a sv1 where al: "allocate_session_id sv = (a, sv1)" by fastforce
    then obtain n where n: "sv1 = sv\<lparr>sv_next_session_id := n\<rparr>"
      using allocate_session_id_shape by blast
    then have "a = Inr session"
      using assms Inr None al free by (auto simp: reserve_session_def split: sum.splits if_splits)
    then show thesis
      using assms Inr None al n free that [of n]
      by (auto simp: reserve_session_def session_taken_def split: if_splits)
  next
    case (Some r)
    then show thesis
      using assms Inr free that [of "sv_next_session_id sv"]
      by (auto simp: reserve_session_def session_taken_def split: if_splits)
  qed
  have "requested = None \<or> requested = Some session"
    using n by (cases requested) auto
  then show thesis
    using that(2) [OF Inr free(1) taken free(2,3) _ sv'] by blast
qed

lemma publish_reserved_session_Inr:
  "publish_reserved_session session r panes sv = (Inr (), sv') \<longleftrightarrow>
   \<not> sv_shutting_down sv \<and> \<not> btm_contains (sv_sessions sv) session \<and>
   \<not> btm_contains (sv_session_by_identity sv) (ps_identity (panes r)) \<and>
   btm_contains (sv_reserved_sessions sv) session \<and>
   btm_contains (sv_reserved_identities sv) (ps_identity (panes r)) \<and>
   sv' = sv\<lparr>sv_reserved_sessions := btm_remove session (sv_reserved_sessions sv),
      sv_reserved_identities := btm_remove (ps_identity (panes r)) (sv_reserved_identities sv),
      sv_session_by_identity := btm_insert (ps_identity (panes r)) session (sv_session_by_identity sv),
      sv_agent_states := publish_agent (ps_identity (panes r)) (ps_agent (panes r)) (sv_agent_states sv),
      sv_sessions := btm_insert session r (sv_sessions sv)\<rparr>"
  by (auto simp: publish_reserved_session_def Let_def release_session_reservation_def)

lemma publish_reserved_session_Inl:
  "publish_reserved_session session r panes sv = (Inl e, sv') \<Longrightarrow> sv' = sv"
  by (auto simp: publish_reserved_session_def Let_def split: if_splits)

end
