(* ===== verification/Daemon_Evolution.thy ===== *)
theory Daemon_Evolution
  imports Daemon_Frames
begin

text \<open>
  What the daemon's threads can do to its state, as one abstract relation. \<open>evolves s d\<close> collects
  the effects a section that starts in \<open>s\<close> may have, one rule per kind of effect; the lemmas show
  that every section of every thread stays within it. Invariants are then proved over its rules
  and never look at a handler again.
\<close>

section \<open>Answers and control messages\<close>

text \<open>Everything but the messages of an attach transaction and of live output.\<close>

fun control :: "server_message \<Rightarrow> bool" where
  "control (SReplayBegin _ _ _ _ _ _) = False"
| "control (SReplayChunk _ _ _ _ _) = False"
| "control (SReplayEnd _ _ _ _) = False"
| "control (SPtyOutput _ _ _ _) = False"
| "control _ = True"

definition responses :: "server_state \<Rightarrow> server_message set" where
  "responses sv = {m. \<exists>scope s k rec. btm_get (sv_request_scopes sv) scope = Some s \<and>
     btm_get (rs_records s) k = Some rec \<and> rr_response rec = Some m}"

definition responses_ok :: "daemon \<Rightarrow> bool" where
  "responses_ok d \<longleftrightarrow> (\<forall>m \<in> responses (d_server d). control m)"

section \<open>The relation\<close>

text \<open>The parts of the server state that only the rules below may change.\<close>

definition server_same :: "server_state \<Rightarrow> server_state \<Rightarrow> bool" where
  "server_same sv sv' \<longleftrightarrow>
     sv_sessions sv' = sv_sessions sv \<and> sv_session_by_identity sv' = sv_session_by_identity sv \<and>
     sv_reserved_sessions sv' = sv_reserved_sessions sv \<and>
     sv_reserved_identities sv' = sv_reserved_identities sv \<and>
     sv_next_client_id sv' = sv_next_client_id sv \<and> sv_next_lease sv' = sv_next_lease sv \<and>
     sv_shutting_down sv' = sv_shutting_down sv \<and>
     (\<forall>m \<in> responses sv'. m \<in> responses sv \<or> control m)"

definition live :: "pane_lifecycle \<Rightarrow> bool" where
  "live l \<longleftrightarrow> l = LifeRunning \<or> l = LifeStopping"

text \<open>
  What stays of a pane under its ordinary operations: its coordinates, output and owner; a live
  pane stays live, a removed one stays as it is.
\<close>

definition pane_same :: "pane_state \<Rightarrow> pane_state \<Rightarrow> bool" where
  "pane_same p p' \<longleftrightarrow>
     ps_session p' = ps_session p \<and> ps_identity p' = ps_identity p \<and> ps_pane p' = ps_pane p \<and>
     ps_raw_history p' = ps_raw_history p \<and> ps_history_start p' = ps_history_start p \<and>
     ps_next_output p' = ps_next_output p \<and> ps_owner p' = ps_owner p \<and>
     (ps_lifecycle p' = ps_lifecycle p \<or> live (ps_lifecycle p) \<and> live (ps_lifecycle p')) \<and>
     (wq_closed (ps_writes p) \<longrightarrow> wq_closed (ps_writes p')) \<and>
     (ps_lifecycle p = LifeRemoved \<longrightarrow> set (ps_pending_stops p') \<subseteq> set (ps_pending_stops p))"

definition lease_issued :: "daemon \<Rightarrow> attachment_lease \<Rightarrow> bool" where
  "lease_issued d l \<longleftrightarrow>
     (case sv_next_lease (d_server d) of None \<Rightarrow> True | Some n \<Rightarrow> unat (lease_get l) < unat (lease_get n))"

definition owns :: "daemon \<Rightarrow> pane_ref \<Rightarrow> client_id \<Rightarrow> attachment_lease \<Rightarrow> bool" where
  "owns d r c l \<longleftrightarrow>
     (\<exists>o'. ps_owner (d_panes d r) = Some o' \<and> ao_client o' = c \<and> ao_lease o' = l)"

definition spawned_pane :: "session_id \<Rightarrow> pane_state \<Rightarrow> bool" where
  "spawned_pane session p \<longleftrightarrow>
     (\<exists>identity agent name title rows cols pid pgid.
        p = pane_new session identity agent name title rows cols pid pgid)"

inductive evolves :: "daemon \<Rightarrow> daemon \<Rightarrow> bool" for s where
  ev_refl: "evolves s s"
| ev_message: "evolves s d \<Longrightarrow> control m \<Longrightarrow> evolves s (snd (try_enqueue c (DeliverMessage m) d))"
| ev_disconnect: "evolves s d \<Longrightarrow> evolves s (disconnect c d)"
| ev_finish: "evolves s d \<Longrightarrow>
    evolves s (d\<lparr>d_channels := (d_channels d)(c := ch_finish_after_pending_deliveries (d_channels d c))\<rparr>)"
| ev_writer: "evolves s d \<Longrightarrow> ch_writer_turn write_ok (d_channels d c) = (ms, ch) \<Longrightarrow>
    evolves s (d\<lparr>d_channels := (d_channels d)(c := ch), d_wire := (d_wire d)(c := d_wire d c @ ms)\<rparr>)"
| ev_client_id: "evolves s d \<Longrightarrow> allocate_client_id (d_server d) = (res, sv) \<Longrightarrow>
    evolves s (d\<lparr>d_server := sv\<rparr>)"
| ev_connect: "evolves s d \<Longrightarrow> allocate_client_id (d_server d) = (Inr c, sv) \<Longrightarrow>
    evolves s (d\<lparr>d_server := sv, d_channels := (d_channels d)(c := ch_new)\<rparr>)"
| ev_server: "evolves s d \<Longrightarrow> server_same (d_server d) sv \<Longrightarrow> evolves s (d\<lparr>d_server := sv\<rparr>)"
| ev_reserve: "evolves s d \<Longrightarrow> reserve_session requested identity (d_server d) = (res, sv) \<Longrightarrow>
    evolves s (d\<lparr>d_server := sv\<rparr>)"
| ev_release: "evolves s d \<Longrightarrow>
    evolves s (d\<lparr>d_server := release_session_reservation session identity (d_server d)\<rparr>)"
| ev_publish: "evolves s d \<Longrightarrow> spawned_pane session p \<Longrightarrow>
    publish_reserved_session session (d_next_ref d) ((d_panes d)(d_next_ref d := p)) (d_server d) = (Inr (), sv) \<Longrightarrow>
    evolves s (d\<lparr>d_server := sv, d_panes := (d_panes d)(d_next_ref d := p), d_next_ref := d_next_ref d + 1,
      d_produced := (d_produced d)(d_next_ref d := []), d_pty_input := (d_pty_input d)(d_next_ref d := [])\<rparr>)"
| ev_shutdown: "evolves s d \<Longrightarrow> evolves s (d\<lparr>d_server := (d_server d)\<lparr>sv_shutting_down := True\<rparr>\<rparr>)"
| ev_pane: "evolves s d \<Longrightarrow> pane_same (d_panes d r) p \<Longrightarrow> evolves s (set_pane r p d)"
| ev_disown: "evolves s d \<Longrightarrow> evolves s (set_pane r ((d_panes d r)\<lparr>ps_owner := None\<rparr>) d)"
| ev_own: "evolves s d \<Longrightarrow> p = d_panes d r \<Longrightarrow> live (ps_lifecycle p) \<Longrightarrow>
    sv_next_lease (d_server s) = Some l \<Longrightarrow> sv_next_lease (d_server d) = Some l \<Longrightarrow>
    \<not> sv_shutting_down (d_server d) \<Longrightarrow>
    evolves s (set_pane r (p\<lparr>ps_owner := Some \<lparr>ao_scope = scope, ao_lease = l, ao_client = c\<rparr>\<rparr>)
      (d\<lparr>d_server := (d_server d)\<lparr>sv_next_lease := lease_checked_next l\<rparr>\<rparr>))"
| ev_rebind: "evolves s d \<Longrightarrow> p = d_panes d r \<Longrightarrow> ps_owner p = Some previous \<Longrightarrow>
    evolves s ((if ao_client previous \<noteq> c then tell_taken_over p previous else id)
      (set_pane r (p\<lparr>ps_owner := Some (previous\<lparr>ao_client := c\<rparr>)\<rparr>) d))"
| ev_transact: "evolves s d \<Longrightarrow> p = d_panes d r \<Longrightarrow> control response \<Longrightarrow>
    owns d r c l \<or> \<not> lease_issued s l \<Longrightarrow>
    evolves s (snd (deliver_attach_transaction c response rid l p foreground d))"
| ev_output: "evolves s d \<Longrightarrow> evolves s (snd (publish_pty_output r bs d))"
| ev_finalize: "evolves s d \<Longrightarrow> p = d_panes d r \<Longrightarrow>
    evolves s (set_pane r (finalized_pane p)
      (d\<lparr>d_server := snd (remove_session_if_same (ps_session p) r (d_server d))\<rparr>))"
| ev_signal: "evolves s d \<Longrightarrow> evolves s (snd (signal_process_group e pgid signal d))"
| ev_pty_input: "evolves s d \<Longrightarrow> evolves s (d\<lparr>d_pty_input := input\<rparr>)"

section \<open>The server's bookkeeping\<close>

lemma server_same_refl [simp]: "server_same sv sv"
  by (simp add: server_same_def)

lemma server_same_trans: "server_same a b \<Longrightarrow> server_same b c \<Longrightarrow> server_same a c"
  by (auto simp: server_same_def)

lemma responses_cong: "sv_request_scopes sv' = sv_request_scopes sv \<Longrightarrow> responses sv' = responses sv"
  by (simp add: responses_def)

lemma responses_simps [simp]:
  "responses (sv\<lparr>sv_agent_states := a\<rparr>) = responses sv"
  "responses (sv\<lparr>sv_shutting_down := b\<rparr>) = responses sv"
  "responses (sv\<lparr>sv_next_lease := n\<rparr>) = responses sv"
  "responses (sv\<lparr>sv_next_client_id := c\<rparr>) = responses sv"
  "responses (release_session_reservation session identity sv) = responses sv"
  by (simp_all add: responses_def release_session_reservation_def)

lemma server_same_agents [simp]: "server_same sv (sv\<lparr>sv_agent_states := a\<rparr>)"
  by (simp add: server_same_def)

text \<open>The records of one scope, in the state where that scope was replaced.\<close>

lemma responses_insert:
  assumes "m \<in> responses (sv\<lparr>sv_request_scopes := btm_insert scope s' (sv_request_scopes sv)\<rparr>)"
    and "\<And>k rec. btm_get (rs_records s') k = Some rec \<Longrightarrow> rr_response rec = Some m \<Longrightarrow>
      m \<in> responses sv \<or> control m"
  shows "m \<in> responses sv \<or> control m"
  using assms by (auto simp: responses_def split: if_splits)

lemma scope_begin_responses:
  assumes "scope_begin rid request c s = (disposition, s')"
    and "btm_get (rs_records s') k = Some rec" and "rr_response rec = Some m"
  shows "btm_get (rs_records s) k = Some rec"
  using assms(1)
proof (cases rule: scope_begin_cases)
  case (known rec')
  then show ?thesis using assms(2,3) by (auto split: if_splits)
next
  case (expired highest)
  then show ?thesis using assms(2) by simp
next
  case admitted
  then show ?thesis using assms(2,3) by (auto split: if_splits)
qed

lemma begin_request_same:
  assumes "begin_request scope rid request c sv = (disposition, sv')"
  shows "server_same sv sv'"
proof -
  let ?s = "case btm_get (sv_request_scopes sv) scope of Some s \<Rightarrow> s | None \<Rightarrow> scope_new"
  obtain s' where b: "scope_begin rid request c ?s = (disposition, s')"
    and sv': "sv' = sv\<lparr>sv_request_scopes := btm_insert scope s' (sv_request_scopes sv)\<rparr>"
    using assms by (auto simp: begin_request_def Let_def split: prod.splits)
  have "m \<in> responses sv \<or> control m" if "m \<in> responses sv'" for m
    using that [unfolded sv']
  proof (rule responses_insert)
    fix k rec
    assume "btm_get (rs_records s') k = Some rec" and m: "rr_response rec = Some m"
    then have "btm_get (rs_records ?s) k = Some rec"
      using scope_begin_responses [OF b] by blast
    then show "m \<in> responses sv \<or> control m"
      using m by (fastforce simp: responses_def scope_new_def split: option.splits)
  qed
  then show ?thesis by (simp add: server_same_def sv')
qed

lemma begin_request_cached:
  assumes "begin_request scope rid request c sv = (DispCached m, sv')"
  shows "m \<in> responses sv"
proof -
  let ?s = "case btm_get (sv_request_scopes sv) scope of Some s \<Rightarrow> s | None \<Rightarrow> scope_new"
  obtain s' where "scope_begin rid request c ?s = (DispCached m, s')"
    using assms by (auto simp: begin_request_def Let_def split: prod.splits)
  then obtain rec where "btm_get (rs_records ?s) rid = Some rec" "rr_response rec = Some m"
    by (cases rule: scope_begin_cases) (auto split: if_splits)
  then show ?thesis
    by (fastforce simp: responses_def scope_new_def split: option.splits)
qed

lemma complete_request_same:
  assumes "complete_request key response sv = (waiters, sv')" and "control response"
  shows "server_same sv sv'"
proof (cases "btm_get (sv_request_scopes sv) (rk_scope key)")
  case None
  then show ?thesis using assms(1) by (simp add: complete_request_def)
next
  case (Some s)
  obtain s' where c: "scope_complete (rk_request_id key) response s = (waiters, s')"
    and sv': "sv' = sv\<lparr>sv_request_scopes := btm_insert (rk_scope key) s' (sv_request_scopes sv)\<rparr>"
    using assms(1) Some by (auto simp: complete_request_def split: prod.splits)
  have "m \<in> responses sv \<or> control m" if "m \<in> responses sv'" for m
    using that [unfolded sv']
  proof (rule responses_insert)
    fix k rec
    assume k: "btm_get (rs_records s') k = Some rec" and m: "rr_response rec = Some m"
    have "m = response \<or> btm_get (rs_records s) k = Some rec"
      using c k m by (auto simp: scope_complete_def dest!: evict_get split: option.splits if_splits)
    then show "m \<in> responses sv \<or> control m"
      using assms(2) Some m by (auto simp: responses_def)
  qed
  then show ?thesis by (simp add: server_same_def sv')
qed

lemma remove_client_same [simp]: "server_same sv (remove_client c sv)"
proof -
  have "m \<in> responses sv" if "m \<in> responses (remove_client c sv)" for m
    using that by (fastforce simp: responses_def remove_client_def scope_remove_client_def)
  then show ?thesis by (auto simp: server_same_def remove_client_def)
qed

lemma new_scope_same:
  "server_same sv (sv\<lparr>sv_request_scopes := btm_insert scope scope_new (sv_request_scopes sv)\<rparr>)"
proof -
  have "m \<in> responses sv \<or> control m"
    if "m \<in> responses (sv\<lparr>sv_request_scopes := btm_insert scope scope_new (sv_request_scopes sv)\<rparr>)" for m
    using that by (rule responses_insert) (simp add: scope_new_def)
  then show ?thesis by (simp add: server_same_def)
qed

lemma allocate_scope_tries_same:
  "allocate_scope_tries n random sv = (res, sv') \<Longrightarrow> server_same sv sv'"
proof (induction n arbitrary: random)
  case 0
  then show ?case by simp
next
  case (Suc n)
  show ?case
  proof (cases "random 0")
    case (Inl error)
    then show ?thesis using Suc.prems by simp
  next
    case (Inr raw)
    then show ?thesis
      using Suc.prems Suc.IH [of "\<lambda>i. random (Suc i)"] new_scope_same
      by (auto simp: Let_def split: if_splits)
  qed
qed

lemma resume_or_allocate_scope_same:
  "resume_or_allocate_scope random resume sv = (res, sv') \<Longrightarrow> server_same sv sv'"
  by (auto simp: resume_or_allocate_scope_def allocate_scope_def dest: allocate_scope_tries_same
      split: option.splits prod.splits sum.splits if_splits)

section \<open>Derived effects\<close>

named_theorems evolution

lemmas evolution_basic [evolution] =
  ev_refl ev_message ev_disconnect ev_finish ev_release ev_shutdown ev_disown ev_output ev_signal
  ev_pty_input

lemma ev_try_deliver [evolution]:
  "evolves s d \<Longrightarrow> control m \<Longrightarrow> evolves s (snd (try_deliver c m d))"
  unfolding try_deliver_def by (rule ev_message)

lemma ev_deliver [evolution]: "evolves s d \<Longrightarrow> control m \<Longrightarrow> evolves s (deliver c m d)"
  unfolding deliver_def by (rule ev_try_deliver)

lemma ev_deliver_or_disconnect [evolution]:
  "evolves s d \<Longrightarrow> control m \<Longrightarrow> evolves s (deliver_or_disconnect c m d)"
  using ev_message [of s d m c] ev_disconnect [of s "snd (try_enqueue c (DeliverMessage m) d)" c]
  by (auto simp: deliver_or_disconnect_def enqueue_or_disconnect_def split: prod.split)

lemma ev_tell_taken_over [evolution]: "evolves s d \<Longrightarrow> evolves s (tell_taken_over p previous d)"
  unfolding tell_taken_over_def by (rule ev_deliver_or_disconnect) simp_all

lemma ev_deliver_foreground_process [evolution]:
  "evolves s d \<Longrightarrow> evolves s (deliver_foreground_process p process d)"
  by (auto simp: deliver_foreground_process_def intro: evolution split: option.split)

lemma ev_begin_request:
  "evolves s d \<Longrightarrow> d_begin_request scope rid request c d = (disposition, d') \<Longrightarrow> evolves s d'"
  by (auto simp: d_begin_request_def intro: ev_server dest: begin_request_same split: prod.splits)

lemma ev_complete_request:
  "evolves s d \<Longrightarrow> control response \<Longrightarrow> d_complete_request key response d = (waiters, d') \<Longrightarrow> evolves s d'"
  by (auto simp: d_complete_request_def intro: ev_server dest: complete_request_same split: prod.splits)

lemma ev_complete_stops:
  "evolves s d \<Longrightarrow> complete_stops outcome keys d = (deliveries, d') \<Longrightarrow>
   evolves s d' \<and> list_all (\<lambda>(waiters, response). control response) deliveries"
proof (induction keys arbitrary: d deliveries d')
  case Nil
  then show ?case by simp
next
  case (Cons key keys)
  let ?response = "SStopResult (rk_request_id key) outcome"
  obtain waiters d1 where c: "d_complete_request key ?response d = (waiters, d1)" by fastforce
  obtain ds d2 where r: "complete_stops outcome keys d1 = (ds, d2)" by fastforce
  have "evolves s d1" by (rule ev_complete_request [OF Cons.prems(1) _ c]) simp
  then show ?case using Cons.IH [OF _ r] Cons.prems(2) c r by (auto simp: Let_def)
qed

lemma ev_process_groups [evolution]:
  "evolves s d \<Longrightarrow> evolves s (snd (signal_process_groups e groups signal d))"
  using ev_signal [of s d e "fst groups" signal]
    ev_signal [of s "snd (signal_process_group e (fst groups) signal d)" e _ signal]
  by (auto simp: signal_process_groups_def split: prod.split option.split)

lemma ev_cleanup [evolution]: "evolves s d \<Longrightarrow> evolves s (cleanup_unpublished_child e child d)"
  by (induction e child d rule: cleanup_unpublished_child.induct) (auto intro: evolution)

section \<open>Panes\<close>

lemma pane_same_refl [simp]: "pane_same p p"
  by (simp add: pane_same_def)

lemma pane_same_updates [simp]:
  "pane_same p (notify_lifecycle q) = pane_same p q"
  "pane_same p (q\<lparr>ps_rows := rows\<rparr>) = pane_same p q"
  "pane_same p (q\<lparr>ps_cols := cols\<rparr>) = pane_same p q"
  "pane_same p (q\<lparr>ps_foreground_process := process\<rparr>) = pane_same p q"
  "pane_same p (q\<lparr>ps_foreground_poll_scheduled := b\<rparr>) = pane_same p q"
  "pane_same p (q\<lparr>ps_reader_done := b\<rparr>) = pane_same p q"
  "pane_same p (q\<lparr>ps_child_exit := exit\<rparr>) = pane_same p q"
  "pane_same p (q\<lparr>ps_last_wait_error := error\<rparr>) = pane_same p q"
  "pane_same p (q\<lparr>ps_stop_driver_active := b\<rparr>) = pane_same p q"
  "pane_same p (p\<lparr>ps_pending_stops := []\<rparr>)"
  by (simp_all add: pane_same_def notify_lifecycle_def)

lemma pane_same_resize: "pane_resize ioctl_result rows cols p = (res, p') \<Longrightarrow> pane_same p p'"
  by (auto simp: pane_resize_def split: prod.splits option.splits)

lemma pane_same_resize_if_running: "resize_if_running e r p = (res, p') \<Longrightarrow> pane_same p p'"
  by (auto simp: resize_if_running_def dest: pane_same_resize split: if_splits)

lemma pane_same_enqueue:
  "wq_enqueue bs (ps_writes p) = (res, q) \<Longrightarrow> pane_same p (p\<lparr>ps_writes := q\<rparr>)"
  by (auto simp: pane_same_def wq_enqueue_def split: if_splits)

lemma pane_same_wait:
  "wq_wait_for_writes (ps_writes p) = (res, q) \<Longrightarrow> pane_same p (p\<lparr>ps_writes := q\<rparr>)"
  by (auto simp: pane_same_def wq_wait_for_writes_def split: if_splits)

lemma pane_same_close: "pane_same p (p\<lparr>ps_writes := wq_close (ps_writes p)\<rparr>)"
  by (simp add: pane_same_def)

section \<open>Sound programs\<close>

lemma evolves_responses:
  assumes "evolves s d" and "responses_ok s"
  shows "responses_ok d"
proof -
  have "m \<in> responses (d_server s) \<or> control m" if "m \<in> responses (d_server d)" for m
    using assms(1) that
  proof (induction rule: evolves.induct)
    case (ev_server d sv)
    then show ?case by (auto simp: server_same_def)
  next
    case (ev_client_id d res sv)
    obtain n where "sv = (d_server d)\<lparr>sv_next_client_id := n\<rparr>"
      using allocate_client_id_shape [OF ev_client_id(2)] by blast
    then have "responses sv = responses (d_server d)" by simp
    then show ?case using ev_client_id by simp
  next
    case (ev_connect d c sv)
    obtain n where "sv = (d_server d)\<lparr>sv_next_client_id := n\<rparr>"
      using allocate_client_id_shape [OF ev_connect(2)] by blast
    then have "responses sv = responses (d_server d)" by simp
    then show ?case using ev_connect by simp
  next
    case (ev_reserve d requested identity res sv)
    from ev_reserve(2) have "sv_request_scopes sv = sv_request_scopes (d_server d)"
      by (cases rule: reserve_session_shape) simp_all
    then show ?case using ev_reserve responses_cong [of sv "d_server d"] by simp
  next
    case (ev_publish d session p sv)
    then have "sv_request_scopes sv = sv_request_scopes (d_server d)"
      by (auto simp: publish_reserved_session_Inr)
    then show ?case using ev_publish responses_cong [of sv "d_server d"] by simp
  next
    case (ev_finalize d p r)
    have "responses (snd (remove_session_if_same (ps_session p) r (d_server d))) = responses (d_server d)"
      by (rule responses_cong) (simp add: remove_session_if_same_def)
    then show ?case using ev_finalize by simp
  next
    case (ev_rebind d p r previous c)
    then show ?case by (auto split: if_splits)
  qed simp_all
  then show ?thesis using assms(2) by (auto simp: responses_ok_def)
qed

abbreviation sound :: "program \<Rightarrow> bool" where
  "sound p \<equiv> obeys responses_ok evolves p"

lemma sound_Section:
  "(\<And>e d. responses_ok d \<Longrightarrow> evolves d (fst (f e d)) \<and> sound (snd (f e d))) \<Longrightarrow> sound (Section f)"
  by (rule obeys_Section) (blast intro: evolves_responses)

lemma sound_atomically:
  "(\<And>e d. evolves d (f e d)) \<Longrightarrow> sound p \<Longrightarrow> sound (atomically f p)"
  by (rule obeys_atomically) (blast intro: evolves_responses)

lemma sound_atomically_each:
  "(\<And>x d. evolves d (f x d)) \<Longrightarrow> sound p \<Longrightarrow> sound (atomically_each f xs p)"
  by (rule obeys_atomically_each) (blast intro: evolves_responses)

end
