(* ===== verification/Daemon_Soundness.thy ===== *)
theory Daemon_Soundness
  imports Daemon_Evolution
begin

text \<open>
  Every section of every thread of the daemon stays within \<open>evolves\<close>: one lemma per program of
  the model, composed the way the programs are.
\<close>

section \<open>Deliveries and answers\<close>

lemma sound_deliver: "control m \<Longrightarrow> sound p \<Longrightarrow> sound (atomically (\<lambda>_. deliver c m) p)"
  by (rule sound_atomically) (auto intro: evolution)

lemma sound_deliver_to_waiters: "control m \<Longrightarrow> sound (deliver_to_waiters waiters m)"
  unfolding deliver_to_waiters_def by (rule sound_atomically_each) (auto intro: evolution)

lemma sound_complete_and_deliver:
  assumes "control m" shows "sound (complete_and_deliver key m)"
  unfolding complete_and_deliver_def
proof (rule sound_Section)
  fix e :: os and d
  obtain waiters d' where c: "d_complete_request key m d = (waiters, d')" by fastforce
  show "evolves d (fst (case d_complete_request key m d of
          (waiters, d) \<Rightarrow> (d, deliver_to_waiters waiters m))) \<and>
        sound (snd (case d_complete_request key m d of
          (waiters, d) \<Rightarrow> (d, deliver_to_waiters waiters m)))"
    using ev_complete_request [OF ev_refl assms c] sound_deliver_to_waiters [OF assms] c by simp
qed

lemma sound_deliver_all:
  "list_all (\<lambda>(waiters, response). control response) deliveries \<Longrightarrow> sound (deliver_all deliveries)"
  by (induction deliveries) (auto intro!: obeys_then_do sound_deliver_to_waiters)

text \<open>The admission every correlated request starts with.\<close>

lemma sound_begin:
  assumes "\<And>m. control m \<Longrightarrow> sound (k (DispCached m))"
    and "\<And>disposition. (\<forall>m. disposition \<noteq> DispCached m) \<Longrightarrow> sound (k disposition)"
  shows "sound (Section (\<lambda>_ d. case d_begin_request scope rid request c d of
    (disposition, d) \<Rightarrow> (d, k disposition)))"
proof (rule sound_Section)
  fix e :: os and d assume ok: "responses_ok d"
  obtain disposition d' where b: "d_begin_request scope rid request c d = (disposition, d')" by fastforce
  have "sound (k disposition)"
  proof (cases "\<exists>m. disposition = DispCached m")
    case True
    then obtain m where m: "disposition = DispCached m" by blast
    then obtain sv where "begin_request scope rid request c (d_server d) = (DispCached m, sv)"
      using b by (auto simp: d_begin_request_def split: prod.splits)
    then have "control m" using ok begin_request_cached by (auto simp: responses_ok_def)
    then show ?thesis using assms(1) m by simp
  next
    case False
    then show ?thesis using assms(2) by blast
  qed
  then show "evolves d (fst (case d_begin_request scope rid request c d of (disposition, d) \<Rightarrow> (d, k disposition))) \<and>
      sound (snd (case d_begin_request scope rid request c d of (disposition, d) \<Rightarrow> (d, k disposition)))"
    using ev_begin_request [OF ev_refl b] b by simp
qed

text \<open>A section that only looks.\<close>

lemma sound_look: "(\<And>e d. sound (p e d)) \<Longrightarrow> sound (Section (\<lambda>e d. (d, p e d)))"
  by (rule sound_Section) (simp add: ev_refl)

lemma sound_set_pane:
  "(\<And>q. pane_same q (f q)) \<Longrightarrow> sound p \<Longrightarrow>
   sound (atomically (\<lambda>_ d. set_pane r (f (d_panes d r)) d) p)"
  by (rule sound_atomically, rule ev_pane [OF ev_refl])

section \<open>Pane threads\<close>

lemma sound_schedule_poll: "sound k \<Longrightarrow> sound (schedule_foreground_process_poll r k)"
  unfolding schedule_foreground_process_poll_def
  by (rule sound_Section)
    (auto simp: claim_foreground_process_poll_def intro!: ev_pane ev_refl)

lemma maybe_finalize_locked_evolves:
  assumes "maybe_finalize_locked r d = (res, d')"
  shows "evolves d d' \<and>
    (case res of None \<Rightarrow> True
     | Some (own, exit, deliveries) \<Rightarrow> list_all (\<lambda>(waiters, response). control response) deliveries)"
proof -
  let ?p = "d_panes d r"
  show ?thesis
  proof (cases "ps_child_exit ?p = None \<or> ps_lifecycle ?p = LifeRemoved \<or> \<not> ps_reader_done ?p")
    case True
    then show ?thesis
      using assms by (auto simp: maybe_finalize_locked_def Let_def ev_refl split: option.splits if_splits)
  next
    case False
    then obtain exit where exit: "ps_child_exit ?p = Some exit" by auto
    define sv1 where "sv1 = (case ps_agent ?p of
      Some metadata \<Rightarrow> sv_record_agent_exit (ps_identity ?p) metadata exit (d_server d)
    | None \<Rightarrow> d_server d)"
    define d2 where "d2 = set_pane r (finalized_pane ?p)
      (d\<lparr>d_server := snd (remove_session_if_same (ps_session ?p) r sv1)\<rparr>)"
    have "server_same (d_server d) sv1"
      by (auto simp: sv1_def sv_record_agent_exit_def split: option.split)
    then have "evolves d (d\<lparr>d_server := sv1\<rparr>)"
      by (rule ev_server [OF ev_refl])
    then have ev: "evolves d d2"
      using ev_finalize [of d "d\<lparr>d_server := sv1\<rparr>" ?p r] by (simp add: d2_def)
    obtain ds d3 where c: "complete_stops (SOStopped exit) (ps_pending_stops ?p) d2 = (ds, d3)"
      by fastforce
    have "maybe_finalize_locked r d = (Some (ps_owner ?p, exit, ds), d3)"
      using False exit c by (simp add: maybe_finalize_locked_def Let_def sv1_def d2_def)
    then show ?thesis
      using assms ev_complete_stops [OF ev c] by simp
  qed
qed

lemma sound_maybe_finalize: "sound (maybe_finalize r)"
  unfolding maybe_finalize_def
proof (rule sound_Section)
  fix e :: os and d
  obtain res d' where f: "maybe_finalize_locked r d = (res, d')" by fastforce
  show "evolves d (fst (case maybe_finalize_locked r d of
       (None, d) \<Rightarrow> (d, Done)
     | (Some (own, exit, deliveries), d) \<Rightarrow>
         (d, case own of
               None \<Rightarrow> deliver_all deliveries
             | Some owner \<Rightarrow>
                 atomically (\<lambda>_ d. deliver_or_disconnect (ao_client owner)
                   (SPaneExited (ps_pane (d_panes d r)) (ao_lease owner) exit) d)
                 (deliver_all deliveries)))) \<and>
     sound (snd (case maybe_finalize_locked r d of
       (None, d) \<Rightarrow> (d, Done)
     | (Some (own, exit, deliveries), d) \<Rightarrow>
         (d, case own of
               None \<Rightarrow> deliver_all deliveries
             | Some owner \<Rightarrow>
                 atomically (\<lambda>_ d. deliver_or_disconnect (ao_client owner)
                   (SPaneExited (ps_pane (d_panes d r)) (ao_lease owner) exit) d)
                 (deliver_all deliveries))))"
    using maybe_finalize_locked_evolves [OF f] f
    by (auto split: option.split intro!: sound_atomically sound_deliver_all evolution)
qed

lemma sound_fail_pending_stops: "sound (fail_pending_stops r code message)"
  unfolding fail_pending_stops_def
proof (rule sound_Section)
  fix e :: os and d
  let ?outcome = "SOError (SEFailed code message)"
  let ?d = "set_pane r ((d_panes d r)\<lparr>ps_pending_stops := []\<rparr>) d"
  obtain ds d' where c: "complete_stops ?outcome (ps_pending_stops (d_panes d r)) ?d = (ds, d')"
    by fastforce
  have ev: "evolves d d' \<and> list_all (\<lambda>(waiters, response). control response) ds"
    by (rule ev_complete_stops [OF _ c]) (auto intro: ev_pane ev_refl)
  have "sound (foldr (\<lambda>(waiters, response) k. atomically_each (\<lambda>w. deliver w response) waiters k) ds Done)"
    using conjunct2 [OF ev]
    by (induction ds) (auto intro!: sound_atomically_each evolution)
  then show "evolves d (fst (let p = d_panes d r in
       case complete_stops ?outcome (ps_pending_stops p) (set_pane r (p\<lparr>ps_pending_stops := []\<rparr>) d) of
         (deliveries, d) \<Rightarrow>
           (d, foldr (\<lambda>(waiters, response) k. atomically_each (\<lambda>w. deliver w response) waiters k)
                 deliveries Done))) \<and>
     sound (snd (let p = d_panes d r in
       case complete_stops ?outcome (ps_pending_stops p) (set_pane r (p\<lparr>ps_pending_stops := []\<rparr>) d) of
         (deliveries, d) \<Rightarrow>
           (d, foldr (\<lambda>(waiters, response) k. atomically_each (\<lambda>w. deliver w response) waiters k)
                 deliveries Done)))"
    using ev c by simp
qed

lemma sound_drive_termination:
  assumes "\<And>sig k. (\<And>r. sound (k r)) \<Longrightarrow> sound (signal sig k)"
    and "\<And>timeout k. (\<And>b. sound (k b)) \<Longrightarrow> sound (wait_for timeout k)"
    and "\<And>result. sound (k result)"
  shows "sound (drive_termination signal wait_for k)"
  unfolding drive_termination_def using assms by (auto split: option.split)

lemma sound_stop_driver: "sound (stop_driver r groups)"
  unfolding stop_driver_def
proof (rule sound_drive_termination)
  fix sig and k :: "io_error option \<Rightarrow> program" assume k: "\<And>r. sound (k r)"
  show "sound (Section (\<lambda>e d. case signal_process_groups e groups sig d of (res, d) \<Rightarrow> (d, k res)))"
  proof (rule sound_Section)
    fix e d
    show "evolves d (fst (case signal_process_groups e groups sig d of (res, d) \<Rightarrow> (d, k res))) \<and>
      sound (snd (case signal_process_groups e groups sig d of (res, d) \<Rightarrow> (d, k res)))"
      using ev_process_groups [OF ev_refl, of d e groups sig] k
      by (cases "signal_process_groups e groups sig d") simp
  qed
next
  fix timeout and k :: "bool \<Rightarrow> program" assume k: "\<And>b. sound (k b)"
  show "sound (wait_for_finalization r timeout k)"
    unfolding wait_for_finalization_def by (rule sound_look) (rule k)
next
  fix result
  have "sound (stop_driver_failed r restore_running message)" for restore_running message
    unfolding stop_driver_failed_def
    by (rule sound_atomically)
      (auto simp: Let_def pane_same_def live_def notify_lifecycle_def
        intro!: ev_pane ev_refl sound_fail_pending_stops)
  then show "sound (case result of Finalized \<Rightarrow> Done
     | TermFailed error \<Rightarrow> stop_driver_failed r True (''failed to signal PTY group: '' @ io_message error)
     | KillFailed error \<Rightarrow> stop_driver_failed r False (''failed to kill PTY group: '' @ io_message error)
     | TimedOut \<Rightarrow> stop_driver_failed r False ''timed out waiting for PTY child reap and output drain'')"
    by (cases result) simp_all
qed

lemma sound_start_stop: "sound k \<Longrightarrow> sound (start_stop_if_needed r k)"
  unfolding start_stop_if_needed_def
proof (rule sound_Section, goal_cases)
  case (1 e d)
  have "live (ps_lifecycle (d_panes d r))"
    if "ps_lifecycle (d_panes d r) \<noteq> LifeExited" "ps_lifecycle (d_panes d r) \<noteq> LifeRemoved"
    using that by (cases "ps_lifecycle (d_panes d r)") (auto simp: live_def)
  then show ?case
    using 1 by (auto simp: Let_def pane_same_def live_def intro!: ev_pane ev_refl)
qed

lemma sound_handle_pty_read:
  assumes "\<And>result. sound (k result)" shows "sound (handle_pty_read r bs k)"
  unfolding handle_pty_read_def
proof (rule sound_Section, goal_cases)
  case (1 e d)
  show ?case
    using ev_output [OF ev_refl, of d r bs] assms
    by (cases "publish_pty_output r bs d") (auto intro: sound_schedule_poll split: sum.split)
qed

lemma sound_reader_thread: "sound (reader_thread r)"
  unfolding reader_thread_def Let_def
  by (rule sound_look)
    (auto intro!: sound_set_pane sound_maybe_finalize sound_handle_pty_read split: sum.split)

lemma sound_waiter_thread: "sound (waiter_thread r)"
  unfolding waiter_thread_def
  by (rule sound_look)
    (auto simp: record_wait_failure_def intro!: sound_set_pane sound_maybe_finalize obeys_then_do
      sound_fail_pending_stops split: sum.split)

lemma sound_write_batch: "sound k \<Longrightarrow> sound (write_batch r batch k)"
  by (induction batch)
    (auto intro!: sound_Section ev_pty_input ev_pane ev_refl pane_same_close)

lemma sound_pty_writer_thread: "sound (pty_writer_thread r)"
  unfolding pty_writer_thread_def
proof (rule sound_Section, goal_cases)
  case (1 e d)
  show ?case
  proof (cases "wq_wait_for_writes (ps_writes (d_panes d r))")
    case (Pair res q)
    have "pane_same (d_panes d r) ((d_panes d r)\<lparr>ps_writes := q\<rparr>)"
      by (rule pane_same_wait [OF Pair])
    then show ?thesis
      using Pair by (auto intro: ev_pane ev_refl sound_write_batch split: wq_wait.split)
  qed
qed

lemma ev_broadcast_foreground: "evolves d (broadcast_foreground_process_if_changed e r d)"
  by (auto simp: broadcast_foreground_process_if_changed_def refresh_foreground_process_if_changed_def
      Let_def intro!: ev_deliver_foreground_process ev_pane ev_refl)

lemma sound_foreground_poll: "sound (foreground_poll_thread r)"
  unfolding foreground_poll_thread_def Let_def
  by (intro sound_atomically ev_broadcast_foreground sound_set_pane) simp_all

section \<open>Attaching\<close>

lemma sound_answer_attach:
  assumes "evolves s d" and "answer_attach scope r outcome d = (d', p)"
  shows "evolves s d' \<and> sound p"
proof -
  have c: "control (attach_result r outcome)" by (simp add: attach_result_def)
  show ?thesis
    using assms ev_complete_request [OF assms(1) c] sound_deliver_to_waiters [OF c]
    by (auto simp: answer_attach_def split: prod.splits)
qed

lemma sound_attach_error [intro!]: "sound (deliver_attach_error c rid error)"
  unfolding deliver_attach_error_def by (rule sound_deliver) simp_all

lemma sound_attach_rebind:
  assumes "attach_rebind e scope resumed c r ref lease d = (d', p)"
  shows "evolves d d' \<and> sound p"
proof (cases "(case ps_owner (d_panes d ref) of
            None \<Rightarrow> False
          | Some owner \<Rightarrow> ao_scope owner = scope \<and> ao_lease owner = lease \<and> client_active d c \<and>
                           (ao_client owner = c \<or> resumed))")
  case False
  then show ?thesis using assms by (auto simp: attach_rebind_def Let_def ev_refl split: if_splits)
next
  case True
  then obtain own where own: "ps_owner (d_panes d ref) = Some own" "ao_scope own = scope" "ao_lease own = lease"
    by (auto split: option.splits)
  obtain res p1 where res: "resize_if_running e r (d_panes d ref) = (res, p1)" by fastforce
  note same = pane_same_resize_if_running [OF res]
  show ?thesis
  proof (cases res)
    case (Inl error)
    then show ?thesis using assms True res by (auto simp: attach_rebind_def Let_def ev_refl)
  next
    case (Inr u)
    define p2 where "p2 = p1\<lparr>ps_owner := Some \<lparr>ao_scope = scope, ao_lease = lease, ao_client = c\<rparr>\<rparr>"
    define d2 where "d2 = (if ao_client own \<noteq> c then tell_taken_over p2 own else id) (set_pane ref p2 d)"
    define response where "response = attach_result r (AOAttached (ar_session r) (pane_info_of p2) lease)"
    obtain fg p3 where fg: "refresh_foreground_process (os_probe e) p2 = (fg, p3)" by fastforce
    have own1: "ps_owner p1 = Some own" using same own by (simp add: pane_same_def)
    have "evolves d (set_pane ref p1 d)" using same by (auto intro: ev_pane ev_refl)
    from ev_rebind [OF this, of p1 ref own c] own1
    have "evolves d ((if ao_client own \<noteq> c then tell_taken_over p1 own else id) (set_pane ref p2 d))"
      using own by (cases own) (simp add: p2_def)
    moreover have "tell_taken_over p1 own = tell_taken_over p2 own"
      by (simp add: tell_taken_over_def p2_def fun_eq_iff)
    ultimately have ev2: "evolves d d2" by (auto simp: d2_def split: if_splits)
    have p3: "p3 = p2\<lparr>ps_foreground_process := fg\<rparr>"
      using fg by (auto simp: refresh_foreground_process_def Let_def)
    have "d_panes d2 ref = p2" by (simp add: d2_def)
    then have ev3: "evolves d (set_pane ref p3 d2)"
      using ev2 by (auto simp: p3 intro: ev_pane)
    have "evolves d (snd (deliver_attach_transaction c response (ar_request_id r) lease p3 fg (set_pane ref p3 d2)))"
      by (rule ev_transact [OF ev3, where r = ref])
        (simp_all add: response_def attach_result_def owns_def p3 p2_def)
    moreover have "attach_rebind e scope resumed c r ref lease d =
      (snd (deliver_attach_transaction c response (ar_request_id r) lease p3 fg (set_pane ref p3 d2)), Done)"
      using True res Inr own own1 fg
      by (auto simp: attach_rebind_def Let_def p2_def [symmetric] d2_def response_def)
    ultimately show ?thesis using assms by auto
  qed
qed

lemma set_pane_server: "(set_pane r p d)\<lparr>d_server := sv\<rparr> = set_pane r p (d\<lparr>d_server := sv\<rparr>)"
  by (simp add: set_pane_def)

text \<open>Taking the pane over tells the previous owner before the new one is set.\<close>

lemma tell_taken_over_commutes:
  "tell_taken_over p own (set_pane r q d) = set_pane r q (tell_taken_over p own d)"
  "tell_taken_over p own (d\<lparr>d_server := sv\<rparr>) = (tell_taken_over p own d)\<lparr>d_server := sv\<rparr>"
  by (cases "ch_try_enqueue (DeliverMessage (STakenOver (ps_pane p) (ao_lease own)))
        (d_channels d (ao_client own))",
      simp add: tell_taken_over_def deliver_or_disconnect_def enqueue_or_disconnect_def
        try_enqueue_def disconnect_def set_pane_def)+

lemma transact_waiters_evolves:
  "evolves s d \<Longrightarrow> d_panes d r = p \<Longrightarrow> control response \<Longrightarrow> \<not> lease_issued s lease \<Longrightarrow>
   evolves s (transact_waiters ws own response rid lease p fg d)"
proof (induction ws arbitrary: d)
  case (Cons w ws)
  obtain a d1 where 1: "deliver_attach_transaction w response rid lease p fg d = (a, d1)" by fastforce
  have "evolves s (snd (deliver_attach_transaction w response rid lease p fg d))"
    by (rule ev_transact [OF Cons.prems(1)]) (use Cons.prems in auto)
  moreover have "d_panes d1 r = p"
    using Cons.prems(2) only_channels_fields(2) [OF oc_deliver_attach_transaction [of d w response rid lease p fg]] 1
    by simp
  ultimately have "evolves s (if a \<and> w \<noteq> own then deliver w (STakenOver (ps_pane p) lease) d1 else d1)"
    and "d_panes (if a \<and> w \<noteq> own then deliver w (STakenOver (ps_pane p) lease) d1 else d1) r = p"
    using 1 by (auto intro: ev_deliver)
  then show ?case
    using 1 Cons.IH Cons.prems(3,4) by simp
qed simp

lemma sound_attach_fresh:
  assumes live: "live (ps_lifecycle (d_panes d ref))" and down: "\<not> sv_shutting_down (d_server d)"
    and run: "attach_fresh e scope c r ref d = (d', prog)"
  shows "evolves d d' \<and> sound prog"
proof -
  obtain res p1 where res: "resize_if_running e r (d_panes d ref) = (res, p1)" by fastforce
  note same = pane_same_resize_if_running [OF res]
  show ?thesis
  proof (cases res)
    case (Inl error)
    then show ?thesis using run res sound_answer_attach [OF ev_refl] by (auto simp: attach_fresh_def)
  next
    case (Inr u)
    have ev1: "evolves d (set_pane ref p1 d)" using same by (auto intro: ev_pane ev_refl)
    show ?thesis
    proof (cases "sv_next_lease (d_server d)")
      case None
      have "evolves d ((set_pane ref p1 d)\<lparr>d_server := d_server d\<rparr>)"
        by (rule ev_server [OF ev1]) simp
      then show ?thesis
        using run res Inr None sound_answer_attach
        by (fastforce simp: attach_fresh_def allocate_lease_def)
    next
      case (Some lease)
      define sv where "sv = (d_server d)\<lparr>sv_next_lease := lease_checked_next lease\<rparr>"
      define p2 where "p2 = p1\<lparr>ps_owner := None\<rparr>"
      define tell where "tell = (case ps_owner p1 of Some previous \<Rightarrow> tell_taken_over p2 previous | None \<Rightarrow> id)"
      define d3 where "d3 = tell (set_pane ref p2 (d\<lparr>d_server := sv\<rparr>))"
      define response where "response = attach_result r (AOAttached (ar_session r) (pane_info_of p2) lease)"
      have cr: "control response" by (simp add: response_def attach_result_def)
      obtain ws0 sv4 where cmp: "complete_request \<lparr>rk_scope = scope, rk_request_id = ar_request_id r\<rparr> response sv = (ws0, sv4)"
        by fastforce
      have tell_frame: "d_server (tell x) = d_server x" "d_panes (tell x) = d_panes x" for x
        by (simp_all add: tell_def split: option.split)
      have tell_comm: "tell (set_pane r' q x) = set_pane r' q (tell x)"
        "tell (x\<lparr>d_server := sv'\<rparr>) = (tell x)\<lparr>d_server := sv'\<rparr>" for r' q x sv'
        by (simp_all add: tell_def tell_taken_over_commutes split: option.split)
      define ws where "ws = (if ws0 = [] then [c] else ws0)"
      define p5 where "p5 = p2\<lparr>ps_owner := Some \<lparr>ao_scope = scope, ao_lease = lease, ao_client = last ws\<rparr>\<rparr>"
      obtain fg p6 where fg: "refresh_foreground_process (os_probe e) p5 = (fg, p6)" by fastforce
      have p6: "p6 = p5\<lparr>ps_foreground_process := fg\<rparr>"
        using fg by (auto simp: refresh_foreground_process_def Let_def)
      define d6 where "d6 = set_pane ref p6 (d3\<lparr>d_server := sv4\<rparr>)"
      have fg1: "refresh_foreground_process (os_probe e) (p1\<lparr>ps_owner :=
          Some \<lparr>ao_scope = scope, ao_lease = lease, ao_client = last ws\<rparr>\<rparr>) = (fg, p6)"
        using fg by (simp add: p5_def p2_def)
      have out: "(d', prog) = (transact_waiters ws (last ws) response (ar_request_id r) lease p6 fg d6, Done)"
        using run res Inr Some cmp fg1
        by (cases "ps_owner p1")
          (simp_all add: attach_fresh_def allocate_lease_def Let_def p2_def [symmetric] sv_def [symmetric]
            response_def [symmetric] d_complete_request_def d6_def ws_def [symmetric]
            d3_def tell_def set_pane_server)
      have "live (ps_lifecycle p1)" using same live by (auto simp: pane_same_def)
      then have "evolves d (set_pane ref p5 ((set_pane ref p1 d)\<lparr>d_server := sv\<rparr>))"
        using ev_own [OF ev1, of p1 ref lease scope "last ws"] Some down
        by (simp add: p5_def p2_def sv_def)
      then have "evolves d (tell (set_pane ref p5 ((set_pane ref p1 d)\<lparr>d_server := sv\<rparr>)))"
        by (auto simp: tell_def intro: evolution split: option.split)
      then have "evolves d ((tell (set_pane ref p5 ((set_pane ref p1 d)\<lparr>d_server := sv\<rparr>)))\<lparr>d_server := sv4\<rparr>)"
        using complete_request_same [OF cmp cr] by (intro ev_server) (simp_all add: tell_frame)
      then have "evolves d (set_pane ref p6
          ((tell (set_pane ref p5 ((set_pane ref p1 d)\<lparr>d_server := sv\<rparr>)))\<lparr>d_server := sv4\<rparr>))"
        by (rule ev_pane) (simp add: tell_frame p6)
      also have "set_pane ref p6 ((tell (set_pane ref p5 ((set_pane ref p1 d)\<lparr>d_server := sv\<rparr>)))\<lparr>d_server := sv4\<rparr>) = d6"
        by (simp add: d6_def d3_def tell_comm set_pane_server)
      finally have "evolves d (transact_waiters ws (last ws) response (ar_request_id r) lease p6 fg d6)"
        by (rule transact_waiters_evolves [where r = ref]) (simp_all add: d6_def cr lease_issued_def Some)
      then show ?thesis using out by simp
    qed
  qed
qed

lemma sound_attach_commit:
  assumes "attach_commit e scope resumed c r cached d = (d', prog)"
  shows "evolves d d' \<and> sound prog"
proof (cases "sv_shutting_down (d_server d)")
  case True
  then show ?thesis
    using assms sound_answer_attach [OF ev_refl]
    by (auto simp: attach_commit_def Let_def ev_refl split: option.splits)
next
  case up: False
  show ?thesis
  proof (cases "btm_get (sv_sessions (d_server d)) (ar_session r)")
    case None
    then show ?thesis
      using up assms sound_answer_attach [OF ev_refl]
      by (auto simp: attach_commit_def Let_def ev_refl split: option.splits)
  next
    case (Some ref)
    let ?p = "d_panes d ref"
    show ?thesis
    proof (cases "ps_identity ?p = ar_identity r \<and> live (ps_lifecycle ?p) \<and>
        (ps_lifecycle ?p = LifeStopping \<longrightarrow> \<not> ps_stop_driver_active ?p)")
      case True
      then have "attach_commit e scope resumed c r cached d =
          (case cached of Some lease \<Rightarrow> attach_rebind e scope resumed c r ref lease d
           | None \<Rightarrow> attach_fresh e scope c r ref d)"
        using up Some by (auto simp: attach_commit_def Let_def live_def)
      then show ?thesis
        using assms True sound_attach_rebind sound_attach_fresh [OF _ up]
        by (cases cached) auto
    next
      case False
      then show ?thesis
        using up Some assms sound_answer_attach [OF ev_refl]
        by (auto simp: attach_commit_def Let_def ev_refl live_def split: option.splits if_splits)
    qed
  qed
qed

lemma sound_attach_section: "sound (Section (\<lambda>e. attach_commit e scope resumed c r cached))"
proof (rule sound_Section)
  fix e d
  show "evolves d (fst (attach_commit e scope resumed c r cached d)) \<and>
    sound (snd (attach_commit e scope resumed c r cached d))"
    using sound_attach_commit by (cases "attach_commit e scope resumed c r cached d") auto
qed

lemma sound_handle_attach_request: "sound (handle_attach_request scope resumed c r)"
  unfolding handle_attach_request_def
proof (rule sound_begin, goal_cases)
  case (1 m)
  then show ?case
    by (cases m)
      (auto intro!: sound_deliver sound_attach_section split: attach_outcome.split)
next
  case (2 disposition)
  then show ?case
    by (cases disposition)
      (auto simp: attach_result_def intro!: sound_complete_and_deliver sound_attach_section)
qed

section \<open>Creating sessions\<close>

lemma sound_release: "sound k \<Longrightarrow> sound (release_section session identity k)"
  unfolding release_section_def by (rule sound_atomically) (rule ev_release [OF ev_refl])

lemma spawned_pane_session: "spawn_pane e session spec = Inr p \<Longrightarrow> spawned_pane session p"
  by (fastforce simp: spawn_pane_def spawned_pane_def Let_def
      split: prod.splits option.splits sum.splits if_splits)

lemma sound_publish:
  assumes "spawned_pane session p" and k: "\<And>result. sound (k result)"
  shows "sound (publish_section session p k)"
  unfolding publish_section_def
proof (rule sound_Section, goal_cases)
  case (1 e d)
  obtain res sv where pub: "publish_reserved_session session (d_next_ref d)
      ((d_panes d)(d_next_ref d := p)) (d_server d) = (res, sv)" by fastforce
  show ?case
  proof (cases res)
    case (Inl rejection)
    then have "sv = d_server d"
      using publish_reserved_session_Inl pub by blast
    then have "evolves d (d\<lparr>d_server := sv\<rparr>)"
      by (intro ev_server ev_refl) simp
    moreover have "sound (atomically (\<lambda>e. cleanup_unpublished_child e child)
        (release_section session identity (k (Inl rejection))))" for child identity
      by (intro sound_atomically ev_cleanup ev_refl sound_release k)
    ultimately show ?thesis using pub Inl by (simp add: Let_def)
  next
    case (Inr u)
    then show ?thesis
      using pub ev_publish [OF ev_refl assms(1)] k by (auto simp: Let_def)
  qed
qed

lemma sound_create_session:
  assumes k: "\<And>result. sound (k result)"
  shows "sound (create_session requested spec k)"
  unfolding create_session_def
proof (rule sound_Section, goal_cases)
  case (1 e d)
  obtain res sv where res: "reserve_session requested (pss_identity spec) (d_server d) = (res, sv)"
    by fastforce
  have spawn: "sound (Section (\<lambda>e d. case spawn_pane e session spec of
      Inl (error, child) \<Rightarrow>
        (cleanup_unpublished_child e child d,
         release_section session (pss_identity spec)
           (k (Inl (rejection_new LaunchFailed (io_message error)))))
    | Inr p \<Rightarrow> (d, publish_section session p k)))" for session
  proof (rule sound_Section, goal_cases)
    case (1 e d)
    show ?case
      by (auto split: sum.split
          intro!: ev_cleanup ev_refl sound_release k sound_publish [OF spawned_pane_session])
  qed
  show ?case
    using ev_reserve [OF ev_refl res] res k spawn by (simp split: sum.split)
qed

lemma sound_resolve_existing:
  assumes "sound none" and "\<And>outcome. sound (finish outcome)"
  shows "sound (resolve_existing r none finish)"
  unfolding resolve_existing_def Let_def
  using assms by (auto intro!: sound_look split: option.split)

lemma sound_finish_create: "sound (finish_create scope r outcome)"
  unfolding finish_create_def by (rule sound_complete_and_deliver) simp

lemma sound_create_new: "sound (create_new scope r)"
  unfolding create_new_def Let_def
  by (auto intro!: sound_finish_create sound_resolve_existing sound_create_session sound_look
      split: option.split sum.split)

lemma sound_handle_create_request: "sound (handle_create_request scope c r)"
  unfolding handle_create_request_def
proof (rule sound_begin, goal_cases)
  case (1 m)
  then show ?case by (auto intro: sound_deliver)
next
  case (2 disposition)
  then show ?case
    by (cases disposition)
      (auto simp: deliver_create_error_def intro!: sound_deliver sound_finish_create sound_create_new)
qed

section \<open>Operations under a lease\<close>

lemma sound_reject: "sound p \<Longrightarrow> sound (atomically (\<lambda>_. reject_lease c pane lease operation reason) p)"
  by (rule sound_atomically) (auto simp: reject_lease_def intro: ev_deliver ev_refl)

lemma sound_handle_leased_input: "sound (handle_leased_input scope c pane lease bs operation)"
proof -
  have enqueue: "sound (Section (\<lambda>_ d. case wq_enqueue bs (ps_writes (d_panes d ref)) of
      (Inl refusal, q) \<Rightarrow>
        (set_pane ref ((d_panes d ref)\<lparr>ps_writes := q\<rparr>) d,
         atomically (\<lambda>_. reject_lease c pane lease operation LRWriteRefused) Done)
    | (Inr _, q) \<Rightarrow>
        (set_pane ref ((d_panes d ref)\<lparr>ps_writes := q\<rparr>) d,
         if input_may_change_foreground bs then schedule_foreground_process_poll ref Done else Done)))"
    for ref
  proof (rule sound_Section, goal_cases)
    case (1 e d)
    obtain res q where q: "wq_enqueue bs (ps_writes (d_panes d ref)) = (res, q)" by fastforce
    have "evolves d (set_pane ref ((d_panes d ref)\<lparr>ps_writes := q\<rparr>) d)"
      by (rule ev_pane [OF ev_refl pane_same_enqueue [OF q]])
    then show ?case
      using q by (auto intro!: sound_reject sound_schedule_poll split: sum.split)
  qed
  show ?thesis
    unfolding handle_leased_input_def
  proof (rule sound_look, goal_cases)
    case (1 e d)
    show ?case
      by (cases "leased_pane scope c pane lease d")
        (simp_all only: sum.case sound_reject [OF obeys_Done] enqueue)
  qed
qed

lemma sound_handle_leased_resize: "sound (handle_leased_resize scope c pane lease rows cols)"
  unfolding handle_leased_resize_def
proof (rule sound_Section, goal_cases)
  case (1 e d)
  have "evolves d (set_pane ref (snd (pane_resize (os_resize e) rows cols (d_panes d ref))) d)" for ref
    using pane_same_resize [of "os_resize e" rows cols "d_panes d ref"]
    by (cases "pane_resize (os_resize e) rows cols (d_panes d ref)") (auto intro: ev_pane ev_refl)
  then show ?case
    by (auto simp: reject_lease_def intro: ev_deliver ev_refl split: sum.split)
qed

lemma sound_handle_leased_detach: "sound (handle_leased_detach scope c pane lease)"
  unfolding handle_leased_detach_def
  by (rule sound_Section)
    (auto simp: reject_lease_def intro: ev_deliver ev_disown ev_refl split: sum.split)

section \<open>Stop and agent status\<close>

lemma sound_finish_stop: "sound (finish_stop scope r outcome)"
  unfolding finish_stop_def by (rule sound_complete_and_deliver) simp

lemma sound_stop_pane:
  "evolves d (fst (stop_pane scope c r ref d)) \<and> sound (snd (stop_pane scope c r ref d))"
proof -
  have "live (ps_lifecycle (d_panes d ref))"
    if "ps_lifecycle (d_panes d ref) \<noteq> LifeExited" "ps_lifecycle (d_panes d ref) \<noteq> LifeRemoved"
    using that by (cases "ps_lifecycle (d_panes d ref)") (auto simp: live_def)
  then show ?thesis
    by (auto simp: stop_pane_def Let_def pane_same_def live_def
        intro!: ev_pane ev_refl sound_finish_stop sound_start_stop split: sum.split)
qed

lemma sound_handle_stop_request: "sound (handle_stop_request scope c r)"
  unfolding handle_stop_request_def
proof (rule sound_begin, goal_cases)
  case (1 m)
  then show ?case by (auto intro: sound_deliver)
next
  case (2 disposition)
  have "sound (Section (\<lambda>_. stop_pane scope c r ref))" for ref
    by (rule sound_Section) (rule sound_stop_pane)
  with 2 show ?case
    by (cases disposition)
      (auto simp: deliver_stop_error_def intro!: sound_deliver sound_finish_stop sound_look
        split: option.split)
qed

lemma answer_agent_same: "answer_agent r sv = (outcome, sv') \<Longrightarrow> server_same sv sv'"
  by (cases r) (auto split: prod.splits)

lemma sound_finish_agent: "sound (finish_agent scope rid outcome)"
  unfolding finish_agent_def by (rule sound_complete_and_deliver) simp

lemma sound_handle_agent_status_request: "sound (handle_agent_status_request scope c rid r)"
  unfolding handle_agent_status_request_def
proof (rule sound_begin, goal_cases)
  case (1 m)
  then show ?case by (auto intro: sound_deliver)
next
  case (2 disposition)
  have "sound (Section (\<lambda>_ d. case answer_agent r (d_server d) of
      (outcome, sv) \<Rightarrow> (d\<lparr>d_server := sv\<rparr>, finish_agent scope rid outcome)))"
    by (rule sound_Section)
      (auto intro!: ev_server ev_refl sound_finish_agent dest: answer_agent_same split: prod.split)
  with 2 show ?case
    by (cases disposition)
      (auto simp: deliver_agent_status_error_def intro!: sound_deliver sound_finish_agent)
qed

section \<open>Connections and the listener\<close>

lemma sound_close_client: "sound (close_client c)"
  unfolding close_client_def
  by (intro sound_atomically obeys_Done)
    (auto intro: ev_finish ev_server ev_refl)

lemma sound_protocol_error: "sound (protocol_error c code message)"
  unfolding protocol_error_def by (rule sound_deliver) (simp_all add: sound_close_client)

lemma sound_hello:
  "sound (Section (\<lambda>_ d. case try_deliver c (SHello version instance_id scope resumed) d of
     (accepted, d) \<Rightarrow> (d, if accepted then Become (Serving c scope resumed) else close_client c)))"
proof (rule sound_Section, goal_cases)
  case (1 e d)
  show ?case
    using ev_try_deliver [OF ev_refl, of "SHello version instance_id scope resumed" d c]
    by (cases "try_deliver c (SHello version instance_id scope resumed) d") (simp add: sound_close_client)
qed

lemma sound_resume:
  "sound (Section (\<lambda>e d. case resume_or_allocate_scope (os_random e) resume (d_server d) of
     (Inl _, sv) \<Rightarrow> (d\<lparr>d_server := sv\<rparr>, close_client c)
   | (Inr (scope, resumed), sv) \<Rightarrow>
       (d\<lparr>d_server := sv\<rparr>,
        Section (\<lambda>_ d. case try_deliver c (SHello PROTOCOL_VERSION (sv_server_instance sv) scope resumed) d of
          (accepted, d) \<Rightarrow> (d, if accepted then Become (Serving c scope resumed) else close_client c)))))"
proof (rule sound_Section, goal_cases)
  case (1 e d)
  obtain res sv where res: "resume_or_allocate_scope (os_random e) resume (d_server d) = (res, sv)"
    by fastforce
  then have "evolves d (d\<lparr>d_server := sv\<rparr>)"
    by (auto intro: ev_server ev_refl dest: resume_or_allocate_scope_same)
  then show ?case
    using res sound_close_client sound_hello by (auto split: sum.split)
qed

lemma sound_handshake: "sound (handshake c)"
  unfolding handshake_def
  by (rule sound_look)
    (auto intro!: sound_close_client sound_protocol_error sound_resume
      split: option.split sum.split client_message.split)

lemma sound_dispatch: "sound (dispatch c scope resumed message)"
  unfolding dispatch_def Let_def
  by (cases message)
    (auto intro!: obeys_then_do sound_protocol_error sound_look sound_deliver
      sound_handle_create_request sound_handle_attach_request sound_handle_leased_input
      sound_handle_leased_resize sound_handle_leased_detach sound_handle_stop_request
      sound_handle_agent_status_request)

lemma sound_serving: "sound (serving_thread c scope resumed)"
  unfolding serving_thread_def
  by (rule sound_look) (auto intro!: sound_close_client sound_dispatch split: sum.split option.split)

lemma sound_accepted: "sound accepted_thread"
proof -
  have "sound (Section (\<lambda>e d. case allocate_client_id (d_server d) of
      (Inl _, sv) \<Rightarrow> (d\<lparr>d_server := sv\<rparr>, Done)
    | (Inr c, sv) \<Rightarrow>
        let d = d\<lparr>d_server := sv\<rparr> in
        case os_clone e of
          Some _ \<Rightarrow> (d, Done)
        | None \<Rightarrow> (d\<lparr>d_channels := (d_channels d)(c := ch_new)\<rparr>, Fork (ClientWriter c) (handshake c))))"
  proof (rule sound_Section, goal_cases)
    case (1 e d)
    obtain res sv where res: "allocate_client_id (d_server d) = (res, sv)" by fastforce
    then show ?case
      using ev_client_id [OF ev_refl res] ev_connect [OF ev_refl, of d _ sv] sound_handshake
      by (auto simp: Let_def split: sum.split option.split)
  qed
  then show ?thesis
    unfolding accepted_thread_def by (intro sound_look) (auto split: sum.split)
qed

lemma sound_client_writer: "sound (client_writer_thread c)"
  unfolding client_writer_thread_def
proof (rule sound_Section, goal_cases)
  case (1 e d)
  obtain ms ch where t: "ch_writer_turn (os_write_ok e \<and> ch_stream_open (d_channels d c)) (d_channels d c) = (ms, ch)"
    by fastforce
  have "sound (atomically (\<lambda>_ d. d\<lparr>d_server := remove_client c (d_server d)\<rparr>) Done)"
    by (rule sound_atomically) (auto intro: ev_server ev_refl)
  then show ?case using ev_writer [OF ev_refl t] t by simp
qed

lemma sound_listener: "sound listener_thread"
proof -
  have stops: "sound (foldr start_stop_if_needed rs k)" if "sound k" for rs k
    using that by (induction rs) (auto intro: sound_start_stop)
  have "sound (wait_for_sessions_drained (\<lambda>_. Done))"
    unfolding wait_for_sessions_drained_def by (rule sound_look) simp
  then have "sound (begin_daemon_shutdown (wait_for_sessions_drained (\<lambda>_. Done)))"
    unfolding begin_daemon_shutdown_def
    by (intro sound_Section) (auto intro: ev_shutdown ev_refl stops)
  then show ?thesis
    unfolding listener_thread_def by (intro sound_look) (auto split: sum.split)
qed

theorem thread_body_sound: "sound (thread_body k)"
  by (cases k)
    (auto intro: sound_listener sound_accepted sound_serving sound_client_writer sound_reader_thread
      sound_waiter_thread sound_pty_writer_thread sound_stop_driver sound_foreground_poll)

end
