(* ===== verification/Daemon_Reach.thy ===== *)
theory Daemon_Reach
  imports Daemon_Soundness
begin

text \<open>
  From the abstract relation to the running daemon. The locale is the interface of a daemon
  invariant: it holds at the start and every effect of \<open>evolves\<close> keeps it, relating the states by
  a preorder. What it gives holds of every state the interleaved threads reach, and between any
  two of them. The theories that follow interpret it once per invariant.
\<close>

lemma daemon_start_responses: "daemon_start (d, ps) \<Longrightarrow> responses_ok d"
  by (auto simp: daemon_start_def server_new_def daemon_new_def responses_ok_def responses_def)

locale daemon_invariant =
  fixes good :: "daemon \<Rightarrow> bool"
    and grows :: "daemon \<Rightarrow> daemon \<Rightarrow> bool"
  assumes good_start: "daemon_start (d, ps) \<Longrightarrow> good d"
    and good_evolves: "good s \<Longrightarrow> evolves s d \<Longrightarrow> good d \<and> grows s d"
    and grows_refl: "grows d d"
    and grows_trans: "grows d1 d2 \<Longrightarrow> grows d2 d3 \<Longrightarrow> grows d1 d3"

sublocale daemon_invariant \<subseteq>
  threads: obeying_threads thread_body "\<lambda>d. responses_ok d \<and> good d" grows
proof unfold_locales
  fix k
  show "obeys (\<lambda>d. responses_ok d \<and> good d) grows (thread_body k)"
    by (rule obeys_weaken [OF thread_body_sound [of k]]) (use good_evolves in auto)
qed (use grows_refl grows_trans in blast)+

context daemon_invariant
begin

lemma start_good:
  assumes "daemon_start (d, ps)"
  shows "responses_ok d \<and> good d \<and> (\<forall>p \<in> set ps. obeys (\<lambda>d. responses_ok d \<and> good d) grows p)"
proof -
  have "ps = [thread_body Listener]" using assms by (auto simp: daemon_start_def)
  then show ?thesis
    using assms daemon_start_responses good_start threads.body_obeys [of Listener] by auto
qed

lemma always:
  assumes "reachable (d, ps)"
  shows "responses_ok d \<and> good d \<and> (\<forall>p \<in> set ps. obeys (\<lambda>d. responses_ok d \<and> good d) grows p)"
proof -
  obtain d0 ps0 where "daemon_start (d0, ps0)" and "daemon_step\<^sup>*\<^sup>* (d0, ps0) (d, ps)"
    using assms by (auto simp: reachable_def)
  then show ?thesis
    using threads.all_steps [of d0 ps0 d ps] start_good by (auto simp: daemon_step_def)
qed

lemma later:
  assumes "reachable (d, ps)" and "daemon_step\<^sup>*\<^sup>* (d, ps) (d', ps')"
  shows "grows d d'"
  using threads.all_steps [of d ps d' ps'] always [OF assms(1)] assms(2)
  by (auto simp: daemon_step_def)

end

end
