(* ===== verification/Daemon_Invariants.thy ===== *)
theory Daemon_Invariants
  imports Daemon_Reach
begin

text \<open>
  The invariants of the running daemon: the directory of sessions is consistent, attachment leases
  are unique and never come back, a pane's life only goes forward, nothing new starts once it
  shuts down, and only process groups that are safe to signal are signalled. Each is proved over
  the rules of \<open>evolves\<close> and reaches the interleaved threads through \<open>daemon_invariant\<close>.
\<close>

section \<open>Output keeps a pane's identity\<close>

definition pane_core :: "pane_state \<Rightarrow> pane_state \<Rightarrow> bool" where
  "pane_core p p' \<longleftrightarrow>
     ps_session p' = ps_session p \<and> ps_identity p' = ps_identity p \<and> ps_pane p' = ps_pane p \<and>
     ps_owner p' = ps_owner p \<and> ps_lifecycle p' = ps_lifecycle p \<and> ps_writes p' = ps_writes p \<and>
     ps_pending_stops p' = ps_pending_stops p"

lemma append_raw_history_core: "append_raw_history bs p = (res, p') \<Longrightarrow> pane_core p p'"
  by (auto simp: append_raw_history_def append_raw_history_with_limit_def pane_core_def Let_def
      split: option.splits prod.splits if_splits)

lemma publish_pty_output_panes:
  obtains p' where "d_panes (snd (publish_pty_output r bs d)) = (d_panes d)(r := p')"
    and "pane_core (d_panes d r) p'"
proof -
  obtain res p' where a: "append_raw_history bs (d_panes d r) = (res, p')" by fastforce
  show thesis
    by (rule that [of p'])
      (use a append_raw_history_core [OF a] in
        \<open>auto simp: publish_pty_output_def Let_def split: sum.split option.split\<close>)
qed

lemma publish_pty_output_next_ref [simp]:
  "d_next_ref (snd (publish_pty_output r bs d)) = d_next_ref d"
  "d_signals (snd (publish_pty_output r bs d)) = d_signals d"
  by (auto simp: publish_pty_output_def Let_def split: prod.split sum.split option.split)

section \<open>The session directory\<close>

text \<open>
  Every published session is registered under its own number and identity, every identity leads
  to the session that has it, and what is reserved is not published.
\<close>

definition directory_ok :: "daemon \<Rightarrow> bool" where
  "directory_ok d \<longleftrightarrow>
     (let sv = d_server d in
     (\<forall>s r. btm_get (sv_sessions sv) s = Some r \<longrightarrow>
        r < d_next_ref d \<and> ps_session (d_panes d r) = s \<and>
        btm_get (sv_session_by_identity sv) (ps_identity (d_panes d r)) = Some s) \<and>
     (\<forall>i s. btm_get (sv_session_by_identity sv) i = Some s \<longrightarrow>
        (\<exists>r. btm_get (sv_sessions sv) s = Some r \<and> ps_identity (d_panes d r) = i)) \<and>
     (\<forall>s. btm_contains (sv_reserved_sessions sv) s \<longrightarrow> \<not> btm_contains (sv_sessions sv) s) \<and>
     (\<forall>i. btm_contains (sv_reserved_identities sv) i \<longrightarrow> \<not> btm_contains (sv_session_by_identity sv) i) \<and>
     (\<forall>r. ps_pane (d_panes d r) = PaneId (session_id_raw (ps_session (d_panes d r)))))"

lemma directory_cong:
  assumes "directory_ok d" and "d_next_ref d' = d_next_ref d"
    and "sv_sessions (d_server d') = sv_sessions (d_server d)"
    and "sv_session_by_identity (d_server d') = sv_session_by_identity (d_server d)"
    and "sv_reserved_sessions (d_server d') = sv_reserved_sessions (d_server d)"
    and "sv_reserved_identities (d_server d') = sv_reserved_identities (d_server d)"
    and "\<And>r. ps_session (d_panes d' r) = ps_session (d_panes d r)"
    and "\<And>r. ps_identity (d_panes d' r) = ps_identity (d_panes d r)"
    and "\<And>r. ps_pane (d_panes d' r) = ps_pane (d_panes d r)"
  shows "directory_ok d'"
  using assms by (simp add: directory_ok_def Let_def)

lemma directory_publish:
  assumes ok: "directory_ok d" and p: "spawned_pane session p"
    and pub: "publish_reserved_session session (d_next_ref d) ((d_panes d)(d_next_ref d := p)) (d_server d) = (Inr (), sv)"
  shows "directory_ok (d\<lparr>d_server := sv, d_panes := (d_panes d)(d_next_ref d := p), d_next_ref := d_next_ref d + 1,
      d_produced := x, d_pty_input := y\<rparr>)"
proof -
  have s: "ps_session p = session" "ps_pane p = PaneId (session_id_raw session)"
    using p by (auto simp: spawned_pane_def pane_new_def)
  let ?sv = "d_server d"
  let ?d = "d\<lparr>d_server := sv, d_panes := (d_panes d)(d_next_ref d := p), d_next_ref := d_next_ref d + 1,
      d_produced := x, d_pty_input := y\<rparr>"
  have free: "btm_get (sv_sessions ?sv) session = None"
      "btm_get (sv_session_by_identity ?sv) (ps_identity p) = None"
    and sess: "sv_sessions sv = btm_insert session (d_next_ref d) (sv_sessions ?sv)"
    and by_id: "sv_session_by_identity sv = btm_insert (ps_identity p) session (sv_session_by_identity ?sv)"
    and reserved: "sv_reserved_sessions sv = btm_remove session (sv_reserved_sessions ?sv)"
      "sv_reserved_identities sv = btm_remove (ps_identity p) (sv_reserved_identities ?sv)"
    using pub [unfolded publish_reserved_session_Inr] by (simp_all add: btm_contains_def)
  have old: "r < d_next_ref d \<and> r \<noteq> d_next_ref d \<and> ps_session (d_panes d r) = t \<and>
      btm_get (sv_session_by_identity ?sv) (ps_identity (d_panes d r)) = Some t"
    if "btm_get (sv_sessions ?sv) t = Some r" for t r
    using ok that by (fastforce simp: directory_ok_def Let_def)
  show ?thesis
    unfolding directory_ok_def Let_def
  proof (intro conjI allI impI, goal_cases)
    case (1 t r)
    then show ?case using old by (fastforce simp: sess split: if_splits)
  next
    case (2 t r)
    then show ?case using old s by (auto simp: sess split: if_splits)
  next
    case (3 t r)
    then show ?case using old [of t r] free by (auto simp: sess by_id split: if_splits)
  next
    case (4 i t)
    then show ?case
    proof (cases "i = ps_identity p")
      case True
      then show ?thesis using 4 by (auto simp: sess by_id)
    next
      case False
      then have "btm_get (sv_session_by_identity ?sv) i = Some t" using 4 by (simp add: by_id)
      then obtain r where "btm_get (sv_sessions ?sv) t = Some r" "ps_identity (d_panes d r) = i"
        using ok unfolding directory_ok_def Let_def by blast
      then show ?thesis using old [of t r] free by (auto simp: sess)
    qed
  next
    case (5 t)
    then show ?case using ok by (auto simp: sess reserved directory_ok_def Let_def)
  next
    case (6 i)
    then show ?case using ok by (auto simp: by_id reserved directory_ok_def Let_def)
  next
    case (7 r)
    then show ?case using ok s by (auto simp: directory_ok_def Let_def)
  qed
qed

lemma directory_finalize:
  assumes ok: "directory_ok d" and p: "p = d_panes d r"
  shows "directory_ok (set_pane r (finalized_pane p)
      (d\<lparr>d_server := snd (remove_session_if_same (ps_session p) r (d_server d))\<rparr>))"
proof -
  have f: "ps_session (finalized_pane p) = ps_session p" "ps_identity (finalized_pane p) = ps_identity p"
    "ps_pane (finalized_pane p) = ps_pane p"
    by (simp_all add: finalized_pane_def notify_lifecycle_def)
  let ?sv = "d_server d"
  let ?sv' = "snd (remove_session_if_same (ps_session p) r ?sv)"
  let ?d = "set_pane r (finalized_pane p) (d\<lparr>d_server := ?sv'\<rparr>)"
  have same: "ps_session (d_panes ?d q) = ps_session (d_panes d q)"
    "ps_identity (d_panes ?d q) = ps_identity (d_panes d q)"
    "ps_pane (d_panes ?d q) = ps_pane (d_panes d q)" for q
    using f p by simp_all
  show ?thesis
  proof (cases "btm_get (sv_sessions ?sv) (ps_session p) = Some r")
    case False
    then show ?thesis
      using ok same by (intro directory_cong [OF ok]) (simp_all add: remove_session_if_same_def)
  next
    case True
    then have sv': "?sv' = ?sv\<lparr>sv_sessions := btm_remove (ps_session p) (sv_sessions ?sv),
        sv_session_by_identity := btm_filter (\<lambda>(_, id). id \<noteq> ps_session p) (sv_session_by_identity ?sv)\<rparr>"
      by (simp add: remove_session_if_same_def)
    have by_id: "btm_get (sv_session_by_identity ?sv') i = Some s \<longleftrightarrow>
        btm_get (sv_session_by_identity ?sv) i = Some s \<and> s \<noteq> ps_session p" for i s
      by (auto simp: sv' btm_get_filter split: option.splits)
    have sess: "btm_get (sv_sessions ?sv') s = Some q \<longleftrightarrow>
        btm_get (sv_sessions ?sv) s = Some q \<and> s \<noteq> ps_session p" for q s
      by (auto simp: sv' split: if_splits)
    have none: "btm_contains (sv_sessions ?sv') s \<Longrightarrow> btm_contains (sv_sessions ?sv) s"
      "btm_contains (sv_session_by_identity ?sv') i \<Longrightarrow> btm_contains (sv_session_by_identity ?sv) i" for s i
      using sess by_id by (fastforce simp: btm_contains_def)+
    have res: "sv_reserved_sessions ?sv' = sv_reserved_sessions ?sv"
      "sv_reserved_identities ?sv' = sv_reserved_identities ?sv" by (simp_all add: sv')
    show ?thesis
      using ok unfolding directory_ok_def Let_def set_pane_simps(2) same
      by (simp add: by_id sess res) (use none in blast)
  qed
qed

lemma directory_start: "daemon_start (d, ps) \<Longrightarrow> directory_ok d"
  by (auto simp: daemon_start_def server_new_def daemon_new_def directory_ok_def no_pane_def pane_new_def)

lemma directory_evolves: "evolves s d \<Longrightarrow> directory_ok s \<Longrightarrow> directory_ok d"
proof (induction rule: evolves.induct)
  case (ev_client_id d res sv)
  then show ?case by (auto dest!: allocate_client_id_shape elim: directory_cong)
next
  case (ev_connect d c sv)
  then show ?case by (auto dest!: allocate_client_id_shape elim: directory_cong)
next
  case (ev_server d sv)
  then show ?case by (auto simp: server_same_def elim: directory_cong)
next
  case (ev_reserve d requested identity res sv)
  then have "directory_ok d" by simp
  with ev_reserve(2) show ?case
    by (cases rule: reserve_session_shape)
      (auto simp: directory_ok_def Let_def session_taken_def)
next
  case (ev_release d session identity)
  then show ?case
    by (auto simp: directory_ok_def Let_def release_session_reservation_def)
next
  case (ev_publish d session p sv)
  then show ?case using directory_publish by blast
next
  case (ev_pane d r p)
  then show ?case by (auto simp: pane_same_def elim!: directory_cong)
next
  case (ev_output d r bs)
  obtain p' where "d_panes (snd (publish_pty_output r bs d)) = (d_panes d)(r := p')"
    and "pane_core (d_panes d r) p'" by (rule publish_pty_output_panes)
  then show ?case
    using ev_output by (auto simp: pane_core_def elim!: directory_cong)
next
  case (ev_finalize d p r)
  then show ?case using directory_finalize by blast
next
  case (ev_rebind d p r previous c)
  then have "directory_ok d" by simp
  then show ?case by (rule directory_cong) (simp_all add: ev_rebind)
qed (auto elim!: directory_cong)

interpretation directory: daemon_invariant directory_ok "\<lambda>_ _. True"
  by unfold_locales (auto intro: directory_start directory_evolves)

section \<open>Leases\<close>

definition holds :: "daemon \<Rightarrow> pane_ref \<Rightarrow> client_scope_id \<Rightarrow> attachment_lease \<Rightarrow> bool" where
  "holds d r scope l \<longleftrightarrow>
     (\<exists>o'. ps_owner (d_panes d r) = Some o' \<and> ao_scope o' = scope \<and> ao_lease o' = l)"

definition leases_ok :: "daemon \<Rightarrow> bool" where
  "leases_ok d \<longleftrightarrow>
     (\<forall>r scope l. holds d r scope l \<longrightarrow> lease_issued d l) \<and>
     (\<forall>r r' scope scope' l. holds d r scope l \<longrightarrow> holds d r' scope' l \<longrightarrow> r = r')"

definition leases_grow :: "daemon \<Rightarrow> daemon \<Rightarrow> bool" where
  "leases_grow s d \<longleftrightarrow>
     (\<forall>l. lease_issued s l \<longrightarrow> lease_issued d l) \<and>
     (\<forall>r scope l. lease_issued s l \<longrightarrow> holds d r scope l \<longrightarrow> holds s r scope l)"

lemma leases_grow_refl: "leases_grow d d"
  by (simp add: leases_grow_def)

lemma leases_grow_trans: "leases_grow d1 d2 \<Longrightarrow> leases_grow d2 d3 \<Longrightarrow> leases_grow d1 d3"
  by (auto simp: leases_grow_def)

text \<open>Fewer holders and more issued leases keep both.\<close>

lemma leases_shrink:
  assumes "leases_ok d \<and> leases_grow s d"
    and "\<And>r scope l. holds d' r scope l \<Longrightarrow> holds d r scope l"
    and "sv_next_lease (d_server d') = sv_next_lease (d_server d)"
  shows "leases_ok d' \<and> leases_grow s d'"
proof -
  have "lease_issued d' l = lease_issued d l" for l
    using assms(3) by (simp add: lease_issued_def)
  then show ?thesis
    using assms(1,2) unfolding leases_ok_def leases_grow_def by blast
qed

lemma leases_same:
  assumes "leases_ok d \<and> leases_grow s d"
    and "\<And>r. ps_owner (d_panes d' r) = ps_owner (d_panes d r)"
    and "sv_next_lease (d_server d') = sv_next_lease (d_server d)"
  shows "leases_ok d' \<and> leases_grow s d'"
  by (rule leases_shrink [OF assms(1) _ assms(3)]) (simp add: holds_def assms(2))

lemma leases_own:
  assumes ok: "leases_ok d \<and> leases_grow s d"
    and s: "sv_next_lease (d_server s) = Some l" and d: "sv_next_lease (d_server d) = Some l"
  shows "leases_ok (set_pane r (p\<lparr>ps_owner := Some \<lparr>ao_scope = scope, ao_lease = l, ao_client = c\<rparr>\<rparr>)
      (d\<lparr>d_server := (d_server d)\<lparr>sv_next_lease := lease_checked_next l\<rparr>\<rparr>)) \<and>
    leases_grow s (set_pane r (p\<lparr>ps_owner := Some \<lparr>ao_scope = scope, ao_lease = l, ao_client = c\<rparr>\<rparr>)
      (d\<lparr>d_server := (d_server d)\<lparr>sv_next_lease := lease_checked_next l\<rparr>\<rparr>))"
    (is "leases_ok ?d \<and> _")
proof -
  have fresh: "\<not> lease_issued d l" "\<not> lease_issued s l"
    using s d by (simp_all add: lease_issued_def)
  have issued: "lease_issued ?d k" if "lease_issued d k \<or> k = l" for k
  proof (cases "lease_checked_next l")
    case None
    then show ?thesis by (simp add: lease_issued_def)
  next
    case (Some m)
    from Some have "unat (lease_get m) = unat (lease_get l) + 1" unfolding lease_checked_next_Some .
    then show ?thesis using that d Some by (auto simp: lease_issued_def)
  qed
  have holds: "holds ?d q scope' k \<Longrightarrow> (q = r \<and> scope' = scope \<and> k = l) \<or> (q \<noteq> r \<and> holds d q scope' k \<and> k \<noteq> l)"
    for q scope' k
    using ok fresh by (cases "q = r") (auto simp: holds_def leases_ok_def)
  show ?thesis
    unfolding leases_ok_def leases_grow_def
    using ok issued holds fresh unfolding leases_ok_def leases_grow_def by metis
qed

lemma leases_evolves:
  assumes "evolves s d" and "leases_ok s"
  shows "leases_ok d \<and> leases_grow s d"
  using assms(1)
proof (induction rule: evolves.induct)
  case ev_refl
  then show ?case using assms(2) leases_grow_refl by blast
next
  case (ev_client_id d res sv)
  then show ?case by (elim leases_same) (auto dest!: allocate_client_id_shape)
next
  case (ev_connect d c sv)
  then show ?case by (elim leases_same) (auto dest!: allocate_client_id_shape)
next
  case (ev_server d sv)
  then show ?case by (elim leases_same) (auto simp: server_same_def)
next
  case (ev_reserve d requested identity res sv)
  from ev_reserve(2) have "sv_next_lease sv = sv_next_lease (d_server d)"
    by (cases rule: reserve_session_shape) simp_all
  then show ?case using ev_reserve(3) by (elim leases_same) simp_all
next
  case (ev_release d session identity)
  then show ?case by (elim leases_same) (simp_all add: release_session_reservation_def)
next
  case (ev_publish d session p sv)
  show ?case
  proof (rule leases_shrink [OF ev_publish.IH])
    fix r scope l
    show "holds d r scope l"
      if "holds (d\<lparr>d_server := sv, d_panes := (d_panes d)(d_next_ref d := p), d_next_ref := d_next_ref d + 1,
        d_produced := (d_produced d)(d_next_ref d := []), d_pty_input := (d_pty_input d)(d_next_ref d := [])\<rparr>) r scope l"
      using that ev_publish(2) by (auto simp: holds_def spawned_pane_def pane_new_def split: if_splits)
  qed (use ev_publish(3) in \<open>simp add: publish_reserved_session_Inr\<close>)
next
  case (ev_pane d r p)
  then show ?case by (elim leases_same) (auto simp: pane_same_def)
next
  case (ev_disown d r)
  then show ?case by (elim leases_shrink) (auto simp: holds_def split: if_splits)
next
  case (ev_own d p r l scope c)
  then show ?case using leases_own by blast
next
  case (ev_rebind d p r previous c)
  then show ?case by (elim leases_shrink) (auto simp: holds_def split: if_splits)
next
  case (ev_output d r bs)
  obtain p' where "d_panes (snd (publish_pty_output r bs d)) = (d_panes d)(r := p')"
    and "pane_core (d_panes d r) p'" by (rule publish_pty_output_panes)
  then show ?case using ev_output.IH by (elim leases_same) (auto simp: pane_core_def)
next
  case (ev_finalize d p r)
  then show ?case
    by (elim leases_shrink)
      (auto simp: holds_def finalized_pane_def notify_lifecycle_def remove_session_if_same_def split: if_splits)
qed (elim leases_same; simp)+

lemma leases_start: "daemon_start (d, ps) \<Longrightarrow> leases_ok d"
  by (auto simp: daemon_start_def server_new_def daemon_new_def leases_ok_def holds_def no_pane_def pane_new_def)

interpretation leases: daemon_invariant leases_ok leases_grow
proof unfold_locales
  show "leases_ok d" if "daemon_start (d, ps)" for d ps using leases_start that .
  show "leases_ok d \<and> leases_grow s d" if "leases_ok s" "evolves s d" for s d
    using leases_evolves that by blast
qed (rule leases_grow_refl, erule (1) leases_grow_trans)

section \<open>The life of a pane\<close>

definition lives_ok :: "daemon \<Rightarrow> bool" where
  "lives_ok d \<longleftrightarrow>
     (\<forall>r. ps_lifecycle (d_panes d r) \<noteq> LifeExited) \<and>
     (\<forall>r. ps_lifecycle (d_panes d r) = LifeRemoved \<longrightarrow>
        ps_owner (d_panes d r) = None \<and> ps_pending_stops (d_panes d r) = [] \<and>
        wq_closed (ps_writes (d_panes d r))) \<and>
     (\<forall>r. d_next_ref d \<le> r \<longrightarrow> ps_lifecycle (d_panes d r) = LifeRemoved) \<and>
     (\<forall>s r. btm_get (sv_sessions (d_server d)) s = Some r \<longrightarrow> ps_lifecycle (d_panes d r) \<noteq> LifeRemoved)"

definition lives_grow :: "daemon \<Rightarrow> daemon \<Rightarrow> bool" where
  "lives_grow s d \<longleftrightarrow>
     d_next_ref s \<le> d_next_ref d \<and>
     (\<forall>r < d_next_ref s.
        (ps_lifecycle (d_panes s r) = LifeRemoved \<longrightarrow> ps_lifecycle (d_panes d r) = LifeRemoved) \<and>
        ps_session (d_panes d r) = ps_session (d_panes s r) \<and>
        ps_identity (d_panes d r) = ps_identity (d_panes s r))"

lemma lives_grow_refl: "lives_grow d d"
  by (simp add: lives_grow_def)

lemma lives_grow_trans: "lives_grow d1 d2 \<Longrightarrow> lives_grow d2 d3 \<Longrightarrow> lives_grow d1 d3"
  by (auto simp: lives_grow_def)

definition pane_lives_on :: "pane_state \<Rightarrow> pane_state \<Rightarrow> bool" where
  "pane_lives_on p p' \<longleftrightarrow>
     ps_session p' = ps_session p \<and> ps_identity p' = ps_identity p \<and>
     (ps_lifecycle p' = ps_lifecycle p \<or> live (ps_lifecycle p) \<and> live (ps_lifecycle p')) \<and>
     (ps_lifecycle p = LifeRemoved \<and> ps_owner p = None \<and> ps_pending_stops p = [] \<and> wq_closed (ps_writes p) \<longrightarrow>
        ps_owner p' = None \<and> ps_pending_stops p' = [] \<and> wq_closed (ps_writes p'))"

lemma pane_lives_on_refl [simp]: "pane_lives_on p p"
  by (simp add: pane_lives_on_def)

lemma lives_same:
  assumes "lives_ok d \<and> lives_grow s d" and "\<And>r. pane_lives_on (d_panes d r) (d_panes d' r)"
    and "d_next_ref d' = d_next_ref d"
    and "sv_sessions (d_server d') = sv_sessions (d_server d)"
  shows "lives_ok d' \<and> lives_grow s d'"
proof -
  have "ps_lifecycle (d_panes d' r) \<noteq> LifeExited" for r
    using assms(1) assms(2) [of r] by (auto simp: lives_ok_def pane_lives_on_def live_def)
  moreover have "ps_lifecycle (d_panes d' r) = LifeRemoved \<longleftrightarrow> ps_lifecycle (d_panes d r) = LifeRemoved" for r
    using assms(2) [of r] by (auto simp: pane_lives_on_def live_def)
  moreover have "ps_session (d_panes d' r) = ps_session (d_panes d r)"
    and "ps_identity (d_panes d' r) = ps_identity (d_panes d r)" for r
    using assms(2) [of r] by (auto simp: pane_lives_on_def)
  moreover have "ps_owner (d_panes d' r) = None \<and> ps_pending_stops (d_panes d' r) = [] \<and>
      wq_closed (ps_writes (d_panes d' r))" if "ps_lifecycle (d_panes d r) = LifeRemoved" for r
    using assms(1) assms(2) [of r] that by (auto simp: lives_ok_def pane_lives_on_def)
  ultimately show ?thesis
    using assms(1,3,4) unfolding lives_ok_def lives_grow_def by simp
qed

lemma lives_publish:
  assumes ok: "lives_ok d \<and> lives_grow s d" and p: "spawned_pane session p"
    and pub: "publish_reserved_session session (d_next_ref d) ((d_panes d)(d_next_ref d := p)) (d_server d) = (Inr (), sv)"
  shows "lives_ok (d\<lparr>d_server := sv, d_panes := (d_panes d)(d_next_ref d := p), d_next_ref := d_next_ref d + 1,
      d_produced := x, d_pty_input := y\<rparr>) \<and>
    lives_grow s (d\<lparr>d_server := sv, d_panes := (d_panes d)(d_next_ref d := p), d_next_ref := d_next_ref d + 1,
      d_produced := x, d_pty_input := y\<rparr>)"
proof -
  have "ps_lifecycle p = LifeRunning" using p by (auto simp: spawned_pane_def pane_new_def)
  moreover have "sv_sessions sv = btm_insert session (d_next_ref d) (sv_sessions (d_server d))"
    using pub by (simp add: publish_reserved_session_Inr)
  ultimately show ?thesis
    using ok by (auto simp: lives_ok_def lives_grow_def)
qed

lemma lives_retire:
  assumes ok: "lives_ok d \<and> lives_grow s d"
    and panes: "d_panes d' = (d_panes d)(r := p')" and refs: "d_next_ref d' = d_next_ref d"
    and p': "ps_lifecycle p' = LifeRemoved" "ps_owner p' = None" "ps_pending_stops p' = []"
      "wq_closed (ps_writes p')" "ps_session p' = ps_session (d_panes d r)"
      "ps_identity p' = ps_identity (d_panes d r)"
    and sess: "\<And>t q. btm_get (sv_sessions (d_server d')) t = Some q \<Longrightarrow>
      q \<noteq> r \<and> btm_get (sv_sessions (d_server d)) t = Some q"
  shows "lives_ok d' \<and> lives_grow s d'"
proof
  show "lives_ok d'"
    using ok p' unfolding lives_ok_def panes refs by (auto dest: sess)
  show "lives_grow s d'"
    using ok p' unfolding lives_grow_def panes refs by simp
qed

lemma lives_finalize:
  assumes ok: "lives_ok d \<and> lives_grow s d" and dir: "directory_ok d" and p: "p = d_panes d r"
  shows "lives_ok (set_pane r (finalized_pane p)
      (d\<lparr>d_server := snd (remove_session_if_same (ps_session p) r (d_server d))\<rparr>)) \<and>
    lives_grow s (set_pane r (finalized_pane p)
      (d\<lparr>d_server := snd (remove_session_if_same (ps_session p) r (d_server d))\<rparr>))"
proof -
  have f: "ps_lifecycle (finalized_pane p) = LifeRemoved" "ps_owner (finalized_pane p) = None"
    "ps_pending_stops (finalized_pane p) = []" "wq_closed (ps_writes (finalized_pane p))"
    "ps_session (finalized_pane p) = ps_session p" "ps_identity (finalized_pane p) = ps_identity p"
    by (simp_all add: finalized_pane_def notify_lifecycle_def)
  have own: "t = ps_session p" if "btm_get (sv_sessions (d_server d)) t = Some r" for t
    using dir that p by (auto simp: directory_ok_def Let_def)
  let ?d' = "set_pane r (finalized_pane p)
      (d\<lparr>d_server := snd (remove_session_if_same (ps_session p) r (d_server d))\<rparr>)"
  have panes: "d_panes ?d' = (d_panes d)(r := finalized_pane p)" and refs: "d_next_ref ?d' = d_next_ref d"
    by simp_all
  show ?thesis
  proof (rule lives_retire [OF ok panes refs f(1-4)])
    fix t q
    assume "btm_get (sv_sessions (d_server ?d')) t = Some q"
    then have "btm_get (sv_sessions (d_server d)) t = Some q \<and>
        (btm_get (sv_sessions (d_server d)) (ps_session p) = Some r \<longrightarrow> t \<noteq> ps_session p)"
      by (simp add: remove_session_if_same_def split: if_splits)
    then show "q \<noteq> r \<and> btm_get (sv_sessions (d_server d)) t = Some q"
      using own [of t] by (cases "q = r") simp_all
  qed (use f(5,6) p in \<open>simp_all only:\<close>)
qed

lemma lives_evolves:
  assumes "evolves s d" and "directory_ok s" and "lives_ok s"
  shows "lives_ok d \<and> lives_grow s d"
  using assms(1)
proof (induction rule: evolves.induct)
  case ev_refl
  then show ?case using assms(3) lives_grow_refl by blast
next
  case (ev_client_id d res sv)
  then show ?case by (elim lives_same) (auto dest!: allocate_client_id_shape)
next
  case (ev_connect d c sv)
  then show ?case by (elim lives_same) (auto dest!: allocate_client_id_shape)
next
  case (ev_server d sv)
  then show ?case by (elim lives_same) (auto simp: server_same_def)
next
  case (ev_reserve d requested identity res sv)
  from ev_reserve(2) have "sv_sessions sv = sv_sessions (d_server d)"
    by (cases rule: reserve_session_shape) simp_all
  then show ?case using ev_reserve(3) by (elim lives_same) simp_all
next
  case (ev_release d session identity)
  then show ?case by (elim lives_same) (simp_all add: release_session_reservation_def)
next
  case (ev_publish d session p sv)
  then show ?case using lives_publish by blast
next
  case (ev_pane d r p)
  then show ?case by (elim lives_same) (auto simp: pane_same_def pane_lives_on_def)
next
  case (ev_disown d r)
  then show ?case by (elim lives_same) (auto simp: pane_lives_on_def)
next
  case (ev_own d p r l scope c)
  then show ?case by (elim lives_same) (auto simp: pane_lives_on_def live_def)
next
  case (ev_rebind d p r previous c)
  then show ?case by (elim lives_same) (auto simp: pane_lives_on_def)
next
  case (ev_output d r bs)
  obtain p' where "d_panes (snd (publish_pty_output r bs d)) = (d_panes d)(r := p')"
    and "pane_core (d_panes d r) p'" by (rule publish_pty_output_panes)
  then show ?case using ev_output.IH by (elim lives_same) (auto simp: pane_core_def pane_lives_on_def)
next
  case (ev_finalize d p r)
  then show ?case using lives_finalize directory_evolves [OF _ assms(2)] by blast
qed (elim lives_same; simp)+

lemma lives_start: "daemon_start (d, ps) \<Longrightarrow> lives_ok d"
  by (auto simp: daemon_start_def server_new_def daemon_new_def lives_ok_def no_pane_def pane_new_def)

interpretation lives: daemon_invariant "\<lambda>d. directory_ok d \<and> lives_ok d" lives_grow
proof unfold_locales
  show "directory_ok d \<and> lives_ok d" if "daemon_start (d, ps)" for d ps
    using directory_start lives_start that by blast
  show "(directory_ok d \<and> lives_ok d) \<and> lives_grow s d" if "directory_ok s \<and> lives_ok s" "evolves s d" for s d
    using directory_evolves lives_evolves that by blast
qed (rule lives_grow_refl, erule (1) lives_grow_trans)

section \<open>Shutting down, and signals\<close>

definition shutdown_grows :: "daemon \<Rightarrow> daemon \<Rightarrow> bool" where
  "shutdown_grows s d \<longleftrightarrow>
     (sv_shutting_down (d_server s) \<longrightarrow>
        sv_shutting_down (d_server d) \<and> sv_next_lease (d_server d) = sv_next_lease (d_server s) \<and>
        (\<forall>k r. btm_get (sv_sessions (d_server d)) k = Some r \<longrightarrow> btm_get (sv_sessions (d_server s)) k = Some r) \<and>
        (\<forall>k. btm_contains (sv_reserved_sessions (d_server d)) k \<longrightarrow> btm_contains (sv_reserved_sessions (d_server s)) k))"

definition signals_safe :: "daemon \<Rightarrow> bool" where
  "signals_safe d \<longleftrightarrow> (\<forall>(pgid, signal) \<in> set (d_signals d). 1 < pgid)"

lemma shutdown_same:
  "shutdown_grows s d \<Longrightarrow> sv_shutting_down (d_server d') = sv_shutting_down (d_server d) \<Longrightarrow>
   sv_next_lease (d_server d') = sv_next_lease (d_server d) \<Longrightarrow>
   sv_sessions (d_server d') = sv_sessions (d_server d) \<Longrightarrow>
   sv_reserved_sessions (d_server d') = sv_reserved_sessions (d_server d) \<Longrightarrow> shutdown_grows s d'"
  by (simp add: shutdown_grows_def)

lemma shutdown_evolves: "evolves s d \<Longrightarrow> shutdown_grows s d"
proof (induction rule: evolves.induct)
  case ev_refl
  then show ?case by (simp add: shutdown_grows_def)
next
  case (ev_client_id d res sv)
  then show ?case by (elim shutdown_same) (auto dest!: allocate_client_id_shape)
next
  case (ev_connect d c sv)
  then show ?case by (elim shutdown_same) (auto dest!: allocate_client_id_shape)
next
  case (ev_server d sv)
  then show ?case by (elim shutdown_same) (auto simp: server_same_def)
next
  case (ev_reserve d requested identity res sv)
  from ev_reserve(2) show ?case
    by (cases rule: reserve_session_shape) (use ev_reserve(3) in \<open>simp_all add: shutdown_grows_def\<close>)
next
  case (ev_release d session identity)
  then show ?case by (auto simp: shutdown_grows_def release_session_reservation_def)
next
  case (ev_publish d session p sv)
  then show ?case by (auto simp: publish_reserved_session_Inr shutdown_grows_def)
next
  case (ev_finalize d p r)
  then show ?case by (auto simp: shutdown_grows_def remove_session_if_same_def split: if_splits)
next
  case (ev_own d p r l scope c)
  then show ?case by (simp add: shutdown_grows_def)
qed (auto simp: shutdown_grows_def)

lemma signals_evolves: "evolves s d \<Longrightarrow> signals_safe s \<Longrightarrow> signals_safe d"
proof (induction rule: evolves.induct)
  case (ev_signal d e pgid signal)
  then show ?case
    by (auto simp: signals_safe_def signal_process_group_def Let_def split: option.split)
qed (auto simp: signals_safe_def)

interpretation shutdown: daemon_invariant signals_safe shutdown_grows
proof unfold_locales
  show "signals_safe d" if "daemon_start (d, ps)" for d ps
    using that by (auto simp: daemon_start_def daemon_new_def signals_safe_def)
  show "signals_safe d \<and> shutdown_grows s d" if "signals_safe s" "evolves s d" for s d
    using that shutdown_evolves signals_evolves by blast
qed (auto simp: shutdown_grows_def)

end
