(* ===== verification/Daemon_Run.thy ===== *)
theory Daemon_Run
  imports Daemon_Reach
begin

text \<open>
  A deterministic scheduler for the daemon, and one concrete run of it: a client connects, says
  hello, creates a session, attaches to it, and detaches again.
\<close>

section \<open>Scheduling\<close>

definition turn :: "('k \<Rightarrow> ('k, 'e, 's) prog) \<Rightarrow> nat \<Rightarrow> 'e \<Rightarrow> 's \<times> ('k, 'e, 's) prog list \<Rightarrow> 's \<times> ('k, 'e, 's) prog list" where
  "turn body i e c =
     (case c of (s, ps) \<Rightarrow>
        if i < length ps
        then (case ps ! i of
                Done \<Rightarrow> (s, ps)
              | Become k \<Rightarrow> (s, ps[i := body k])
              | Fork k p \<Rightarrow> (s, ps[i := p] @ [body k])
              | Section f \<Rightarrow> (case f e s of (s', p) \<Rightarrow> (s', ps[i := p])))
        else (s, ps))"

primrec turns :: "('k \<Rightarrow> ('k, 'e, 's) prog) \<Rightarrow> (nat \<times> 'e) list \<Rightarrow> 's \<times> ('k, 'e, 's) prog list \<Rightarrow> 's \<times> ('k, 'e, 's) prog list" where
  "turns body [] c = c"
| "turns body (t # ts) c = turns body ts (turn body (fst t) (snd t) c)"

lemma turn_steps: "(thread_step body)\<^sup>*\<^sup>* c (turn body i e c)"
proof (cases "\<exists>s ps. c = (s, ps) \<and> i < length ps")
  case False
  then show ?thesis by (cases c) (simp add: turn_def)
next
  case True
  then obtain s ps where c: "c = (s, ps)" and i: "i < length ps" by blast
  let ?before = "take i ps" and ?after = "drop (Suc i) ps"
  have ps: "ps = ?before @ ps ! i # ?after" using i by (rule id_take_nth_drop)
  have set: "ps[i := q] = ?before @ q # ?after" for q using i by (rule upd_conv_take_nth_drop)
  show ?thesis
  proof (cases "ps ! i")
    case Done
    then show ?thesis using c i by (simp add: turn_def)
  next
    case (Become k)
    have "thread_step body (s, ?before @ Become k # ?after) (s, ?before @ body k # ?after)"
      by (rule run_become)
    then have "thread_step body (s, ps) (s, ps[i := body k])" unfolding set Become [symmetric] ps [symmetric] .
    then show ?thesis using c i Become by (simp add: turn_def)
  next
    case (Fork k p)
    have "thread_step body (s, ?before @ Fork k p # ?after) (s, ?before @ p # ?after @ [body k])"
      by (rule run_fork)
    then have "thread_step body (s, ps) (s, ps[i := p] @ [body k])"
      unfolding set Fork [symmetric] ps [symmetric] by simp
    then show ?thesis using c i Fork by (simp add: turn_def)
  next
    case (Section f)
    obtain s' p where f: "f e s = (s', p)" by fastforce
    have "thread_step body (s, ?before @ Section f # ?after) (s', ?before @ p # ?after)"
      using f by (rule run_section)
    then have "thread_step body (s, ps) (s', ps[i := p])" unfolding set Section [symmetric] ps [symmetric] .
    then show ?thesis using c i Section f by (simp add: turn_def)
  qed
qed

lemma turns_steps: "(thread_step body)\<^sup>*\<^sup>* c (turns body ts c)"
proof (induction ts arbitrary: c)
  case (Cons t ts)
  show ?case unfolding turns.simps using turn_steps Cons by (rule rtranclp_trans)
qed simp

section \<open>A run\<close>

declare fill_frames.simps [code]

definition demo_os :: "client_message \<Rightarrow> os" where
  "demo_os m =
     \<lparr>os_resize = (\<lambda>_. None), os_probe = \<lparr>fp_leader = None, fp_command_line = (\<lambda>_. None)\<rparr>, os_group_leader = None,
      os_random = (\<lambda>i. Inr (of_nat i + 7)),
      os_spawn = \<lparr>sp_openpty = None, sp_reader = None, sp_writer = None, sp_command = (\<lambda>_. None),
        sp_process_id = Some 50, sp_getpgid = (\<lambda>i. Inr i), sp_getsid = (\<lambda>i. Inr i), sp_shell = None\<rparr>,
      os_getpgrp = 9, os_kill = (\<lambda>_ _. None), os_message = Inr m, os_timeout = None, os_clone = None,
      os_peer_uid = Inr 1000, os_euid = 1000, os_pty_read = Inr [], os_pty_write_ok = True,
      os_wait = Inr \<lparr>ex_code = 0, ex_signal = None\<rparr>, os_write_ok = True, os_accept = Inr (), os_shutdown = False\<rparr>"

definition demo_identity :: session_identity where
  "demo_identity = SessionIdentity (StateNamespace 1) (SessionToken 2)"

definition demo_hello :: client_message where
  "demo_hello = CHello PROTOCOL_VERSION None"

definition demo_request :: create_request where
  "demo_request =
     \<lparr>cr_request_id = RequestId 1, cr_identity = demo_identity, cr_requested_id = None, cr_agent = None,
      cr_name = ''sh'', cr_cwd = None, cr_env = [], cr_launch = LaunchShell, cr_rows = 24, cr_cols = 80\<rparr>"

definition demo_attach_request :: attach_request where
  "demo_attach_request =
     \<lparr>ar_request_id = RequestId 2, ar_identity = demo_identity, ar_session = SessionId 1, ar_rows = 24, ar_cols = 80\<rparr>"

definition demo_pane :: pane_state where
  "demo_pane = pane_new (SessionId 1) demo_identity None ''sh'' ''/bin/sh'' 24 80 50 50"

definition demo_created :: server_message where
  "demo_created = SCreateResult (RequestId 1) (COCreated (session_info_of demo_pane))"

definition demo_attached :: server_message where
  "demo_attached = SAttachResult (RequestId 2) (AOAttached (SessionId 1) (pane_info_of demo_pane) lease_MIN)"

definition demo_start :: "daemon \<times> program list" where
  "demo_start = (daemon_new (projr (server_new (Inr 5))), [thread_body Listener])"

definition demo_turns :: "(nat \<times> os) list" where
  "demo_turns = replicate 2 (0::nat, demo_os demo_hello) @ replicate 7 (1, demo_os demo_hello) @
     replicate 14 (1, demo_os (CCreateSession demo_request)) @ replicate 4 (1, demo_os (attach_message demo_attach_request))"

lemma demo_os_simps:
  "os_resize (demo_os m) = (\<lambda>_. None)" "os_probe (demo_os m) = \<lparr>fp_leader = None, fp_command_line = (\<lambda>_. None)\<rparr>"
  "os_group_leader (demo_os m) = None" "os_random (demo_os m) i = Inr (of_nat i + 7)"
  "sp_openpty (os_spawn (demo_os m)) = None" "sp_reader (os_spawn (demo_os m)) = None"
  "sp_writer (os_spawn (demo_os m)) = None" "sp_command (os_spawn (demo_os m)) cc = None"
  "sp_process_id (os_spawn (demo_os m)) = Some 50" "sp_getpgid (os_spawn (demo_os m)) j = Inr j"
  "sp_getsid (os_spawn (demo_os m)) j = Inr j" "sp_shell (os_spawn (demo_os m)) = None"
  "os_getpgrp (demo_os m) = 9" "os_message (demo_os m) = Inr m" "os_timeout (demo_os m) = None" "os_clone (demo_os m) = None"
  "os_peer_uid (demo_os m) = Inr 1000" "os_euid (demo_os m) = 1000"
  "os_kill (demo_os m) g n = None" "os_pty_read (demo_os m) = Inr []" "os_wait (demo_os m) = Inr \<lparr>ex_code = 0, ex_signal = None\<rparr>"
  "os_accept (demo_os m) = Inr ()" "os_shutdown (demo_os m) = False"
  by (simp_all add: demo_os_def)

lemma btm_values_single: "btm_values (btm_insert k v btm_empty) = [v]"
  by (simp add: btm_values_def btm_insert.rep_eq btm_empty.rep_eq)

lemma replicate_numeral: "replicate (numeral n) x = x # replicate (pred_numeral n) x"
  by (simp add: numeral_eq_Suc)

lemma allocate_scope_tries_numeral:
  "allocate_scope_tries (numeral n) random sv =
     (case random 0 of
        Inl error \<Rightarrow> (Inl error, sv)
      | Inr raw \<Rightarrow>
          let scope = ClientScopeId raw in
          if btm_contains (sv_request_scopes sv) scope
          then allocate_scope_tries (pred_numeral n) (\<lambda>i. random (Suc i)) sv
          else (Inr scope,
                sv\<lparr>sv_request_scopes := btm_insert scope scope_new (sv_request_scopes sv)\<rparr>))"
  by (simp add: numeral_eq_Suc)

lemma allocate_session_id_free:
  "u64_checked_add (sv_next_session_id sv) 1 = Some n \<Longrightarrow>
   \<not> session_taken sv (SessionId (sv_next_session_id sv)) \<Longrightarrow>
   allocate_session_id sv = (Inr (SessionId (sv_next_session_id sv)), sv\<lparr>sv_next_session_id := n\<rparr>)"
  by (simp add: allocate_session_id_unfold session_taken_def)

lemma demo_request_simps: "cr_request_id demo_request = RequestId 1" "cr_identity demo_request = demo_identity"
  "cr_requested_id demo_request = None" "cr_agent demo_request = None"
  "pss_identity (create_spec demo_request) = demo_identity"
  by (simp_all add: demo_request_def create_spec_def)

lemma demo_attach_request_simps: "ar_request_id demo_attach_request = RequestId 2" "ar_identity demo_attach_request = demo_identity"
  "ar_session demo_attach_request = SessionId 1"
  by (simp_all add: demo_attach_request_def)

lemma demo_pane_simps:
  "ps_identity demo_pane = demo_identity" "ps_session demo_pane = SessionId 1" "ps_pane demo_pane = PaneId 1"
  "ps_agent demo_pane = None" "ps_owner demo_pane = None" "ps_lifecycle demo_pane = LifeRunning"
  "ps_raw_history demo_pane = raw_history_default"
  "ps_history_start demo_pane = sequence_ZERO" "ps_next_output demo_pane = sequence_ZERO"
  "ps_child_exit demo_pane = None" "ps_pending_stops demo_pane = []" "ps_process_group demo_pane = 50"
  "ps_stop_driver_active demo_pane = False"
  by (simp_all add: demo_pane_def pane_new_def session_id_raw_def)

definition demo_scope1 :: request_scope where
  "demo_scope1 = snd (scope_begin (RequestId 1) (CCreateSession demo_request) 1 scope_new)"

definition demo_scope2 :: request_scope where
  "demo_scope2 = snd (scope_complete (RequestId 1) demo_created demo_scope1)"

definition demo_scope3 :: request_scope where
  "demo_scope3 = snd (scope_begin (RequestId 2) (attach_message demo_attach_request) 1 demo_scope2)"

definition demo_scope4 :: request_scope where
  "demo_scope4 = snd (scope_complete (RequestId 2) demo_attached demo_scope3)"

text \<open>Evaluated for any messages, so that their contents stay folded.\<close>

lemma begin1: "fst (scope_begin (RequestId 1) q 1 scope_new) = DispNew"
  by code_simp

lemma complete1: "fst (scope_complete (RequestId 1) m (snd (scope_begin (RequestId 1) q 1 scope_new))) = [1]"
  by code_simp

lemma begin2: "fst (scope_begin (RequestId 2) q' 1
    (snd (scope_complete (RequestId 1) m (snd (scope_begin (RequestId 1) q 1 scope_new))))) = DispNew"
  by code_simp

lemma complete2: "fst (scope_complete (RequestId 2) m' (snd (scope_begin (RequestId 2) q' 1
    (snd (scope_complete (RequestId 1) m (snd (scope_begin (RequestId 1) q 1 scope_new))))))) = [1]"
  by code_simp

lemma demo_scope1: "scope_begin (RequestId 1) (CCreateSession demo_request) 1 scope_new = (DispNew, demo_scope1)"
  by (simp add: demo_scope1_def prod_eq_iff begin1)

lemma demo_scope2: "scope_complete (RequestId 1) demo_created demo_scope1 = ([1], demo_scope2)"
  by (simp add: demo_scope2_def demo_scope1_def prod_eq_iff complete1)

lemma demo_scope3: "scope_begin (RequestId 2) (attach_message demo_attach_request) 1 demo_scope2 = (DispNew, demo_scope3)"
  by (simp add: demo_scope3_def demo_scope2_def demo_scope1_def prod_eq_iff begin2)

lemma demo_scope4: "scope_complete (RequestId 2) demo_attached demo_scope3 = ([1], demo_scope4)"
  by (simp add: demo_scope4_def demo_scope3_def demo_scope2_def demo_scope1_def prod_eq_iff complete2)

lemma demo_dimensions: "bounded_pty_dimensions 24 80 = (24, 80)"
  by (simp add: bounded_pty_dimensions_def bounded_screen_dimensions_def u16_clamp_def MIN_SCREEN_COLS_def
    MAX_SCREEN_COLS_def MIN_SCREEN_ROWS_def MAX_SCREEN_ROWS_def MAX_SCREEN_CELLS_def Let_def min_def max_def)

lemma demo_resize: "resize_if_running (demo_os m) demo_attach_request demo_pane = (Inr (), demo_pane)"
  by (simp add: resize_if_running_def demo_attach_request_def pane_resize_def demo_dimensions demo_os_def
     demo_pane_def pane_new_def)

lemma demo_info: "pane_info_of (p\<lparr>ps_owner := o'\<rparr>) = pane_info_of p" by (simp add: pane_info_of_def)

lemma demo_replay: "replay_chunks raw_history_default = Some []"
  by (simp add: raw_history_default_def replay_chunks_def history_slices_def flush_def)

lemma dispatch_attach: "dispatch c scope resumed (attach_message r) =
    then_do (handle_attach_request scope resumed c r) (Become (Serving c scope resumed))"
  by (cases r) (simp add: dispatch_def attach_message_def)

lemma dispatch_create: "dispatch c scope resumed (CCreateSession r) =
    then_do (handle_create_request scope c r) (Become (Serving c scope resumed))"
  by (simp add: dispatch_def)

lemma dispatch_detach: "dispatch c scope resumed (CDetach pane lease) =
    then_do (handle_leased_detach scope c pane lease) (Become (Serving c scope resumed))"
  by (simp add: dispatch_def)

lemma demo_spawn: "spawn_pane (demo_os m) (SessionId 1) (create_spec demo_request) = Inr demo_pane"
  by (simp add: spawn_pane_def create_spec_def demo_request_def demo_dimensions demo_os_def default_shell_def
    validate_child_process_group_def demo_pane_def PID_MAX_def pane_title_def)

section \<open>Running it\<close>

text \<open>
  A section's body is evaluated when its turn comes, not before: the congruence rules keep the
  simplifier out of programs that have not started.
\<close>

lemma Section_lazy: "Section f = Section f" ..

lemma then_do_lazy: "p = p' \<Longrightarrow> then_do p q = then_do p' q" by simp

lemma atomically_each_lazy: "xs = xs' \<Longrightarrow> atomically_each f xs p = atomically_each f xs' p" by simp

lemma turn_pair: "turn body i e (s, ps) = (if i < length ps
        then (case ps ! i of
                Done \<Rightarrow> (s, ps)
              | Become k \<Rightarrow> (s, ps[i := body k])
              | Fork k p \<Rightarrow> (s, ps[i := p] @ [body k])
              | Section f \<Rightarrow> (case f e s of (s', p) \<Rightarrow> (s', ps[i := p])))
        else (s, ps))" by (simp add: turn_def)

lemmas demo_defs =
  demo_pane_simps demo_created_def [symmetric] demo_attached_def [symmetric] demo_turns_def
  demo_start_def turn_pair listener_thread_def accepted_thread_def demo_os_simps server_new_def
  verify_peer_is_self_def compare_peer_uid_def allocate_client_id_def u64_checked_add_def
  handshake_def demo_hello_def read_client_message_def resume_or_allocate_scope_def
  allocate_scope_def Let_def daemon_new_def try_deliver_def try_enqueue_def replicate_numeral
  ch_try_enqueue_def ch_try_send_def ch_new_def CLIENT_QUEUE_CAPACITY_def serving_thread_def
  allocate_scope_tries_numeral dispatch_attach dispatch_create dispatch_detach
  handle_create_request_def d_begin_request_def begin_request_def demo_request_simps
  demo_attach_request_simps demo_scope1 demo_scope2 demo_scope3 demo_scope4 demo_spawn demo_resize
  demo_info demo_replay deliver_replay.simps tell_taken_over_def Let_def deliver_chain.simps
  deliver_attach_transaction_def refresh_foreground_process_def leased_pane_def
  validate_mutation_lease_def validate_lease_def handle_leased_detach_def client_active_def
  pane_by_id_def create_new_def resolve_existing_def create_session_def reserve_session_def
  allocate_session_id_free session_taken_def session_for_identity_def publish_section_def
  publish_reserved_session_def release_session_reservation_def publish_agent_def finish_create_def
  complete_and_deliver_def d_complete_request_def complete_request_def handle_attach_request_def
  attach_result_def attach_commit_def attach_fresh_def allocate_lease_def deliver_to_waiters_def
  deliver_or_disconnect_def enqueue_or_disconnect_def release_section_def atomically_def

definition demo_attached_state :: "daemon \<times> program list" where
  "demo_attached_state = turns thread_body demo_turns demo_start"

lemma demo_run:
  "ps_owner (d_panes (fst demo_attached_state) 0) = Some \<lparr>ao_scope = ClientScopeId 7, ao_lease = lease_MIN, ao_client = 1\<rparr> \<and>
   sv_next_lease (d_server (fst demo_attached_state)) = lease_checked_next lease_MIN \<and>
   d_next_ref (fst demo_attached_state) = 1 \<and>
   btm_get (sv_sessions (d_server (fst demo_attached_state))) (SessionId 1) = Some 0"
  by (simp add: demo_attached_state_def demo_defs split del: if_split
    cong: Section_lazy then_do_lazy atomically_each_lazy)

definition demo_detached_state :: "daemon \<times> program list" where
  "demo_detached_state =
     turns thread_body (demo_turns @ replicate 2 (1, demo_os (CDetach (PaneId 1) lease_MIN))) demo_start"

lemma demo_run_detach:
  "(\<forall>r. ps_owner (d_panes (fst demo_detached_state) r) = None) \<and>
   sv_next_lease (d_server (fst demo_detached_state)) = lease_checked_next lease_MIN \<and>
   btm_get (sv_sessions (d_server (fst demo_detached_state))) (SessionId 1) = Some 0"
  by (simp add: demo_detached_state_def demo_defs no_pane_def pane_new_def split del: if_split
    cong: Section_lazy then_do_lazy atomically_each_lazy) simp

text \<open>The child closes its terminal and exits; the reader and the waiter retire the pane.\<close>

definition demo_removed_state :: "daemon \<times> program list" where
  "demo_removed_state =
     turns thread_body (demo_turns @ replicate 3 (4, demo_os demo_hello) @ replicate 3 (5, demo_os demo_hello)) demo_start"

lemma demo_run_removed:
  "ps_lifecycle (d_panes (fst demo_removed_state) 0) = LifeRemoved \<and> d_next_ref (fst demo_removed_state) = 1"
  by (simp add: demo_removed_state_def demo_defs reader_thread_def waiter_thread_def maybe_finalize_def maybe_finalize_locked_def
    finalized_pane_def notify_lifecycle_def remove_session_if_same_def split del: if_split
    cong: Section_lazy then_do_lazy atomically_each_lazy)

text \<open>The daemon is asked to shut down; the stop driver of the pane signals its group.\<close>

definition demo_signalled_state :: "daemon \<times> program list" where
  "demo_signalled_state =
     turns thread_body (demo_turns @ replicate 5 (0, demo_os demo_hello\<lparr>os_shutdown := True\<rparr>) @
       replicate 1 (6, demo_os demo_hello)) demo_start"

lemma demo_run_signalled:
  "sv_shutting_down (d_server (fst demo_signalled_state)) \<and> d_signals (fst demo_signalled_state) = [(50, SIGTERM)]"
  by (simp add: demo_signalled_state_def demo_defs begin_daemon_shutdown_def start_stop_if_needed_def stop_driver_def drive_termination_def
    signal_process_groups_def btm_values_single signal_process_group_def split del: if_split
    cong: Section_lazy then_do_lazy atomically_each_lazy)

lemma turns_append: "turns body (ts @ ts') c = turns body ts' (turns body ts c)"
  by (induction ts arbitrary: c) simp_all

lemma demo_start: "daemon_start demo_start"
  by (auto simp: daemon_start_def demo_start_def server_new_def)

lemma demo_reachable: "reachable (turns thread_body ts demo_start)"
  unfolding reachable_def daemon_step_def using demo_start turns_steps [of thread_body demo_start ts] by blast

lemma demo_later: "daemon_step\<^sup>*\<^sup>* demo_attached_state demo_detached_state"
  unfolding demo_attached_state_def demo_detached_state_def turns_append daemon_step_def by (rule turns_steps)

end
