(* ===== verification/Daemon_Properties.thy ===== *)
theory Daemon_Properties
  imports Daemon_Invariants Daemon_Run
begin

text \<open>
  What holds of the daemon in every state its interleaved threads can reach, and between any two
  such states. The witnesses use the concrete run of \<open>Daemon_Run\<close>.
\<close>

interpretation evolution: daemon_invariant "\<lambda>_. True" "evolves\<^sup>*\<^sup>*"
  by unfold_locales auto

lemma demo_states:
  "reachable (fst demo_attached_state, snd demo_attached_state)"
  "reachable (fst demo_detached_state, snd demo_detached_state)"
  "reachable (fst demo_removed_state, snd demo_removed_state)"
  "reachable (fst demo_signalled_state, snd demo_signalled_state)"
  using demo_reachable
  by (simp_all add: demo_attached_state_def demo_detached_state_def demo_removed_state_def demo_signalled_state_def)

lemma demo_later':
  "daemon_step\<^sup>*\<^sup>* (fst demo_attached_state, snd demo_attached_state)
     (fst demo_detached_state, snd demo_detached_state)"
  using demo_later by simp

section \<open>Refinement\<close>



section \<open>The directory\<close>

text \<open>
  C16. In every reachable state the directory is consistent: a pane found by its number carries
  that number; a pane is found by an identity exactly when it is published and has that identity;
  so no identity has two published panes; and what is reserved is not published yet.
\<close>

theorem directory_is_consistent:
  assumes "reachable (d, ps)"
  shows "(\<forall>pane r. pane_by_id pane (d_server d) = Some r \<longrightarrow> ps_pane (d_panes d r) = pane) \<and>
    (\<forall>identity r. session_for_identity identity (d_server d) = Some r \<longleftrightarrow>
       (\<exists>s. btm_get (sv_sessions (d_server d)) s = Some r \<and> ps_identity (d_panes d r) = identity)) \<and>
    (\<forall>s r s' r'. btm_get (sv_sessions (d_server d)) s = Some r \<longrightarrow>
       btm_get (sv_sessions (d_server d)) s' = Some r' \<longrightarrow>
       ps_identity (d_panes d r) = ps_identity (d_panes d r') \<longrightarrow> r = r' \<and> s = s') \<and>
    (\<forall>s. btm_contains (sv_reserved_sessions (d_server d)) s \<longrightarrow> \<not> btm_contains (sv_sessions (d_server d)) s) \<and>
    (\<forall>i. btm_contains (sv_reserved_identities (d_server d)) i \<longrightarrow> session_for_identity i (d_server d) = None)"
proof -
  let ?sv = "d_server d"
  have ok: "directory_ok d" using directory.always [OF assms] by simp
  note d = ok [unfolded directory_ok_def Let_def]
  have by_id: "btm_get (sv_session_by_identity ?sv) (ps_identity (d_panes d r)) = Some s \<and> ps_session (d_panes d r) = s"
    if "btm_get (sv_sessions ?sv) s = Some r" for s r
    using d that by blast
  have found: "\<exists>r. btm_get (sv_sessions ?sv) s = Some r \<and> ps_identity (d_panes d r) = i"
    if "btm_get (sv_session_by_identity ?sv) i = Some s" for i s
    using d that by blast
  show ?thesis
  proof (intro conjI allI impI, goal_cases)
    case (1 pane r)
    then have "ps_session (d_panes d r) = SessionId (pane_id_raw pane)"
      using by_id by (simp add: pane_by_id_def)
    moreover have "ps_pane (d_panes d r) = PaneId (session_id_raw (ps_session (d_panes d r)))"
      using d by blast
    ultimately show ?case by simp
  next
    case (2 identity r)
    show ?case
      using by_id found [of identity] by (fastforce simp: session_for_identity_def split: option.splits)
  next
    case (3 s r s' r')
    then show ?case using by_id [OF 3(1)] by_id [OF 3(2)] by simp
  next
    case (4 s r s' r')
    then show ?case using by_id [OF 4(1)] by_id [OF 4(2)] by simp
  next
    case (5 s)
    then show ?case using d by blast
  next
    case (6 i)
    then have "\<not> btm_contains (sv_session_by_identity ?sv) i" using d by blast
    then show ?case by (simp add: session_for_identity_def btm_contains_def)
  qed
qed

theorem directory_is_consistent_witness:
  "ps_pane (d_panes (fst demo_attached_state) 0) = PaneId 1 \<and>
   session_for_identity (ps_identity (d_panes (fst demo_attached_state) 0)) (d_server (fst demo_attached_state)) = Some 0"
proof -
  note c = directory_is_consistent [OF demo_states(1)]
  have "btm_get (sv_sessions (d_server (fst demo_attached_state))) (SessionId 1) = Some 0" using demo_run by simp
  then show ?thesis using c by (simp add: pane_by_id_def) blast
qed

section \<open>Leases\<close>

text \<open>
  C17. In every reachable state a lease is held on at most one pane, by one owner; every lease
  that is held has been issued, so the next attachment gets one that no pane has.
\<close>

theorem lease_is_exclusive:
  assumes "reachable (d, ps)"
    and "ps_owner (d_panes d r) = Some owner" and "ps_owner (d_panes d r') = Some owner'"
    and "ao_lease owner = ao_lease owner'"
  shows "r = r' \<and> owner = owner' \<and> fst (allocate_lease (d_server d)) \<noteq> Inr (ao_lease owner)"
proof -
  have ok: "leases_ok d" using leases.always [OF assms(1)] by simp
  have h: "holds d r (ao_scope owner) (ao_lease owner)" "holds d r' (ao_scope owner') (ao_lease owner)"
    using assms by (auto simp: holds_def)
  then have r: "r = r'" and issued: "lease_issued d (ao_lease owner)"
    using ok unfolding leases_ok_def by blast+
  then have "fst (allocate_lease (d_server d)) \<noteq> Inr (ao_lease owner)"
    by (auto simp: allocate_lease_def lease_issued_def split: option.splits)
  then show ?thesis using r assms(2,3) by simp
qed

theorem lease_is_exclusive_witness:
  "fst (allocate_lease (d_server (fst demo_attached_state))) \<noteq> Inr lease_MIN"
  using lease_is_exclusive [OF demo_states(1), of 0 _ 0] demo_run by fastforce



section \<open>The end of a pane\<close>

text \<open>
  C19. Removal is final: a pane that was removed stays removed; nobody owns it, its input queue is
  closed, no stop request waits on it, and no session leads to it.
\<close>

theorem removed_pane_is_gone:
  assumes "reachable (d, ps)" and "daemon_step\<^sup>*\<^sup>* (d, ps) (d', ps')"
    and "r < d_next_ref d" and "ps_lifecycle (d_panes d r) = LifeRemoved"
  shows "ps_lifecycle (d_panes d' r) = LifeRemoved \<and> ps_owner (d_panes d' r) = None \<and>
    wq_closed (ps_writes (d_panes d' r)) \<and> ps_pending_stops (d_panes d' r) = [] \<and>
    (\<forall>s. btm_get (sv_sessions (d_server d')) s \<noteq> Some r)"
proof -
  have "reachable (d', ps')" using assms(1,2) unfolding reachable_def by (meson rtranclp_trans)
  then have "lives_ok d'" using lives.always by blast
  moreover have "ps_lifecycle (d_panes d' r) = LifeRemoved"
    using lives.later [OF assms(1,2)] assms(3,4) by (simp add: lives_grow_def)
  ultimately show ?thesis by (auto simp: lives_ok_def)
qed

theorem removed_pane_is_gone_witness:
  "ps_owner (d_panes (fst demo_removed_state) 0) = None \<and>
   btm_get (sv_sessions (d_server (fst demo_removed_state))) (SessionId 1) \<noteq> Some 0"
  using removed_pane_is_gone [OF demo_states(3), of "fst demo_removed_state" "snd demo_removed_state" 0]
    demo_run_removed by simp

section \<open>Shutdown and signals\<close>

text \<open>
  C20. Shutdown is final and admits nothing new: once the daemon shuts down, no session appears or
  is reserved that was not there, no lease is issued, and every reservation is refused.
\<close>

theorem shutdown_admits_nothing:
  assumes "reachable (d, ps)" and "daemon_step\<^sup>*\<^sup>* (d, ps) (d', ps')" and "sv_shutting_down (d_server d)"
  shows "sv_shutting_down (d_server d') \<and> sv_next_lease (d_server d') = sv_next_lease (d_server d) \<and>
    (\<forall>s r. btm_get (sv_sessions (d_server d')) s = Some r \<longrightarrow> btm_get (sv_sessions (d_server d)) s = Some r) \<and>
    (\<forall>s. btm_contains (sv_reserved_sessions (d_server d')) s \<longrightarrow> btm_contains (sv_reserved_sessions (d_server d)) s) \<and>
    (\<exists>rejection. fst (reserve_session requested identity (d_server d')) = Inl rejection)"
  using shutdown.later [OF assms(1,2)] assms(3) by (simp add: shutdown_grows_def reserve_session_def)

theorem shutdown_admits_nothing_witness:
  "\<exists>rejection. fst (reserve_session None demo_identity (d_server (fst demo_signalled_state))) = Inl rejection"
  using shutdown_admits_nothing [OF demo_states(4), of "fst demo_signalled_state" "snd demo_signalled_state"]
    demo_run_signalled by simp

text \<open>
  C21. The daemon only ever signals process groups above 1: never its own group by number 0, every
  process by -1, or init's.
\<close>

theorem signalled_groups_are_safe:
  assumes "reachable (d, ps)" and "(pgid, signal) \<in> set (d_signals d)"
  shows "1 < pgid"
  using shutdown.always [OF assms(1)] assms(2) by (auto simp: signals_safe_def)

theorem signalled_groups_are_safe_witness: "1 < (50 :: int) \<and> (50, SIGTERM) \<in> set (d_signals (fst demo_signalled_state))"
  using signalled_groups_are_safe [OF demo_states(4), of 50 SIGTERM] demo_run_signalled by simp

text \<open>
  C22. A child is published as a pane only when it leads a session and a process group of its own:
  the group that will be signalled is the child's number, above 1 and not the daemon's group, and
  the terminal it got has dimensions within the protocol's bounds.
\<close>

theorem spawned_child_is_isolated:
  assumes "spawn_pane e session spec = Inr p"
  shows "ps_process_group p = uint (ps_child_pid p) \<and> 1 < ps_process_group p \<and>
    ps_process_group p \<noteq> os_getpgrp e \<and>
    sp_getsid (os_spawn e) (ps_process_group p) = Inr (ps_process_group p) \<and>
    sp_getpgid (os_spawn e) (ps_process_group p) = Inr (ps_process_group p) \<and>
    sp_command (os_spawn e) (child_command_of (default_shell (sp_shell (os_spawn e))) spec) = None \<and>
    (ps_rows p, ps_cols p) = bounded_screen_dimensions (pss_rows spec) (pss_cols spec)"
  using assms
  by (auto simp: spawn_pane_def validate_child_process_group_def pane_new_def bounded_pty_dimensions_def Let_def
      bind_sum_Inr_iff split: option.splits sum.splits prod.splits if_splits)

theorem spawned_child_is_isolated_witness:
  "ps_process_group demo_pane = 50 \<and> ps_process_group demo_pane \<noteq> os_getpgrp (demo_os demo_hello)"
  using spawned_child_is_isolated [OF demo_spawn [of demo_hello]] by (simp add: demo_pane_simps)

end
