(* ===== verification/Id_Allocator.thy ===== *)
theory Id_Allocator
  imports Ordered_Map
begin

text \<open>
  The allocator of durable numbers (\<open>take_available_id\<close> and its helpers in \<open>src/model.rs\<close>): the
  first free number at or after a hint, wrapping once at the end of the range. The numbers in
  use are a \<open>BTreeSet<u64>\<close>; the arithmetic is that of \<open>u64\<close>.
\<close>

section \<open>Sets of numbers\<close>

definition bts_of_list :: "'k::linorder list \<Rightarrow> 'k btset" where
  "bts_of_list xs = fold bts_insert xs btm_empty"

definition btm_keys :: "('k::linorder, 'v) btmap \<Rightarrow> 'k list" where
  "btm_keys m = map fst (btm_entries m)"

text \<open>\<open>range(start..=end)\<close>, in ascending order.\<close>

definition bts_range :: "'k::linorder \<Rightarrow> 'k \<Rightarrow> 'k btset \<Rightarrow> 'k list" where
  "bts_range first stop s = filter (\<lambda>k. first \<le> k \<and> k \<le> stop) (btm_keys s)"

lemma bts_contains_fold: "btm_contains (fold bts_insert xs s) k \<longleftrightarrow> k \<in> set xs \<or> btm_contains s k"
  by (induction xs arbitrary: s) auto

lemma bts_contains_of_list [simp]: "btm_contains (bts_of_list xs) k \<longleftrightarrow> k \<in> set xs"
  by (simp add: bts_of_list_def bts_contains_fold)

lemma set_btm_keys: "set (btm_keys m) = {k. btm_contains m k}"
  by (force simp: btm_keys_def btm_contains_def btm.entries_set)

lemma sorted_btm_keys: "sorted_wrt (<) (btm_keys m)"
  using btm.keys_increasing [of m] by (simp add: btm_keys_def)

lemma bts_range_sorted: "sorted_wrt (<) (bts_range a b s)"
  unfolding bts_range_def using sorted_btm_keys by (rule sorted_wrt_filter)

lemma set_bts_range: "set (bts_range a b s) = {k. btm_contains s k \<and> a \<le> k \<and> k \<le> b}"
  by (auto simp: bts_range_def set_btm_keys)

lemma length_btm_keys: "length (btm_keys m) = card {k. btm_contains m k}"
proof -
  have "distinct (btm_keys m)" using sorted_btm_keys [of m] by (simp add: strict_sorted_iff)
  then show ?thesis using distinct_card [of "btm_keys m"] by (simp add: set_btm_keys)
qed

section \<open>The code\<close>

primrec first_gap :: "u64 \<Rightarrow> u64 \<Rightarrow> u64 list \<Rightarrow> u64 option" where
  "first_gap stop candidate [] = Some candidate"
| "first_gap stop candidate (i # is) =
     (if candidate < i then Some candidate
      else if i = candidate
      then if candidate = stop then None else first_gap stop (candidate + 1) is
      else first_gap stop candidate is)"

definition first_available_in_range :: "u64 btset \<Rightarrow> u64 \<Rightarrow> u64 \<Rightarrow> u64 option" where
  "first_available_in_range used start stop = first_gap stop start (bts_range start stop used)"

definition find_available_id :: "u64 btset \<Rightarrow> u64 \<Rightarrow> u64 \<Rightarrow> u64 option" where
  "find_available_id used hint limit =
     (if limit = 0 then None
      else let start = (if 1 \<le> hint \<and> hint \<le> limit then hint else 1) in
        case first_available_in_range used start limit of
          Some i \<Rightarrow> Some i
        | None \<Rightarrow> if 1 < start then first_available_in_range used 1 (start - 1) else None)"

definition id_successor :: "u64 \<Rightarrow> u64 \<Rightarrow> u64" where
  "id_successor i limit = (if i = limit then 1 else i + 1)"

definition take_available_id :: "u64 btset \<Rightarrow> u64 \<Rightarrow> u64 \<Rightarrow> ((u64 \<times> u64) \<times> u64 btset) option" where
  "take_available_id used hint limit =
     (case find_available_id used hint limit of
        None \<Rightarrow> None
      | Some i \<Rightarrow>
          let used = bts_insert i used;
              next_hint = (case find_available_id used (id_successor i limit) limit of Some n \<Rightarrow> n | None \<Rightarrow> 0)
          in Some ((i, next_hint), used))"

definition normalized_allocator_hint :: "u64 \<Rightarrow> u64 btset \<Rightarrow> u64 \<Rightarrow> u64" where
  "normalized_allocator_hint current used limit =
     (let ids = bts_range 1 limit used;
          highest = (if ids = [] then 0 else last ids);
          start = (if highest < limit \<and> (\<not> (1 \<le> current \<and> current \<le> limit) \<or> current \<le> highest)
                   then highest + 1
                   else if 1 \<le> current \<and> current \<le> limit then current else 1)
      in case find_available_id used start limit of Some i \<Rightarrow> i | None \<Rightarrow> 0)"

section \<open>What it finds\<close>

lemma u64_after:
  fixes c x b :: u64
  assumes "c < b"
  shows "c + 1 \<le> x \<longleftrightarrow> c < x" and "x < c + 1 \<longleftrightarrow> x \<le> c"
proof -
  have "unat (c + 1) = unat c + 1"
    using assms unat_u64_less [of b] unat_add_no_overflow [of c 1] by (simp add: word_less_nat_alt)
  then show "c + 1 \<le> x \<longleftrightarrow> c < x" and "x < c + 1 \<longleftrightarrow> x \<le> c"
    by (simp_all add: word_le_nat_alt word_less_nat_alt Suc_le_eq less_Suc_eq_le)
qed

lemma first_gap_spec:
  assumes "sorted_wrt (<) ids" and "\<forall>i \<in> set ids. candidate \<le> i \<and> i \<le> stop" and "candidate \<le> stop"
  shows "case first_gap stop candidate ids of
      None \<Rightarrow> \<forall>i. candidate \<le> i \<and> i \<le> stop \<longrightarrow> i \<in> set ids
    | Some c \<Rightarrow> candidate \<le> c \<and> c \<le> stop \<and> c \<notin> set ids \<and> (\<forall>i. candidate \<le> i \<and> i < c \<longrightarrow> i \<in> set ids)"
  using assms
proof (induction ids arbitrary: candidate)
  case Nil
  then show ?case by auto
next
  case (Cons i ids)
  show ?case
  proof (cases "candidate < i")
    case True
    then show ?thesis using Cons.prems by fastforce
  next
    case False
    then have i: "i = candidate" using Cons.prems by fastforce
    show ?thesis
    proof (cases "candidate = stop")
      case True
      then show ?thesis using i by auto
    next
      case ne: False
      then have lt: "candidate < stop" using Cons.prems by simp
      have step: "j = candidate \<or> candidate + 1 \<le> j" if "candidate \<le> j" for j
        using that u64_after(1) [OF lt, of j] by auto
      have "first_gap stop candidate (i # ids) = first_gap stop (candidate + 1) ids"
        using i ne by simp
      moreover have "case first_gap stop (candidate + 1) ids of
          None \<Rightarrow> \<forall>j. candidate + 1 \<le> j \<and> j \<le> stop \<longrightarrow> j \<in> set ids
        | Some c \<Rightarrow> candidate + 1 \<le> c \<and> c \<le> stop \<and> c \<notin> set ids \<and>
            (\<forall>j. candidate + 1 \<le> j \<and> j < c \<longrightarrow> j \<in> set ids)"
        using Cons.prems i lt by (intro Cons.IH) (auto simp: u64_after [OF lt])
      ultimately show ?thesis
        using step u64_after(1) [OF lt] i by (fastforce split: option.splits)
    qed
  qed
qed

lemma first_available_in_range_spec:
  assumes "start \<le> stop"
  shows "case first_available_in_range used start stop of
      None \<Rightarrow> \<forall>i. start \<le> i \<and> i \<le> stop \<longrightarrow> btm_contains used i
    | Some c \<Rightarrow> start \<le> c \<and> c \<le> stop \<and> \<not> btm_contains used c \<and>
        (\<forall>i. start \<le> i \<and> i < c \<longrightarrow> btm_contains used i)"
proof -
  have "\<forall>i \<in> set (bts_range start stop used). start \<le> i \<and> i \<le> stop"
    by (simp add: set_bts_range)
  from first_gap_spec [OF bts_range_sorted this assms]
  show ?thesis
    by (auto simp: first_available_in_range_def set_bts_range split: option.splits)
qed

text \<open>
  The search from a hint: the first free number from the hint to the limit, or else the first
  free number below the hint; nothing only when every number of the range is in use.
\<close>

definition hint_start :: "u64 \<Rightarrow> u64 \<Rightarrow> u64" where
  "hint_start hint limit = (if 1 \<le> hint \<and> hint \<le> limit then hint else 1)"

definition all_used :: "u64 btset \<Rightarrow> u64 \<Rightarrow> u64 \<Rightarrow> bool" where
  "all_used used a b \<longleftrightarrow> (\<forall>i. a \<le> i \<and> i \<le> b \<longrightarrow> btm_contains used i)"

lemma u64_pos: "(i :: u64) \<noteq> 0 \<longleftrightarrow> 1 \<le> i"
  by (simp add: word_le_nat_alt unat_eq_zero [symmetric] del: unat_eq_zero) linarith

lemma u64_minus_1: "1 < (s :: u64) \<Longrightarrow> 1 \<le> s - 1 \<and> (i \<le> s - 1 \<longleftrightarrow> i < s) \<and> s - 1 \<le> s"
  by unat_arith

lemma find_available_id_spec:
  assumes "limit \<noteq> 0"
  shows "case find_available_id used hint limit of
      None \<Rightarrow> all_used used 1 limit
    | Some i \<Rightarrow> 1 \<le> i \<and> i \<le> limit \<and> \<not> btm_contains used i \<and>
        (if hint_start hint limit \<le> i
         then \<forall>j. hint_start hint limit \<le> j \<and> j < i \<longrightarrow> btm_contains used j
         else all_used used (hint_start hint limit) limit \<and> (\<forall>j. 1 \<le> j \<and> j < i \<longrightarrow> btm_contains used j))"
proof -
  let ?s = "hint_start hint limit"
  have s: "1 \<le> ?s" "?s \<le> limit" using assms by (auto simp: hint_start_def u64_pos)
  note hi = first_available_in_range_spec [OF s(2), of used]
  show ?thesis
  proof (cases "first_available_in_range used ?s limit")
    case (Some c)
    then have "find_available_id used hint limit = Some c"
      using assms by (simp add: find_available_id_def hint_start_def)
    then show ?thesis using hi Some s by auto
  next
    case None
    then have top: "all_used used ?s limit" using hi by (simp add: all_used_def)
    show ?thesis
    proof (cases "1 < ?s")
      case False
      then have "?s = 1" using s by simp
      then show ?thesis
        using top None assms by (simp add: find_available_id_def hint_start_def)
    next
      case True
      note m = u64_minus_1 [OF True]
      have find: "find_available_id used hint limit = first_available_in_range used 1 (?s - 1)"
        using None True assms by (simp add: find_available_id_def hint_start_def)
      have low: "case first_available_in_range used 1 (?s - 1) of
          None \<Rightarrow> \<forall>i. 1 \<le> i \<and> i \<le> ?s - 1 \<longrightarrow> btm_contains used i
        | Some c \<Rightarrow> 1 \<le> c \<and> c \<le> ?s - 1 \<and> \<not> btm_contains used c \<and>
            (\<forall>i. 1 \<le> i \<and> i < c \<longrightarrow> btm_contains used i)"
        by (rule first_available_in_range_spec) (use m in blast)
      show ?thesis
      proof (cases "first_available_in_range used 1 (?s - 1)")
        case None
        then have "all_used used 1 limit"
          using low top m by (fastforce simp: all_used_def not_le)
        then show ?thesis using None find by simp
      next
        case (Some c)
        then have "c < ?s" using low m by auto
        then show ?thesis using Some low find top s by (auto simp: all_used_def)
      qed
    qed
  qed
qed

lemma find_available_id_Some:
  assumes "find_available_id used hint limit = Some i"
  shows "1 \<le> i \<and> i \<le> limit \<and> \<not> btm_contains used i"
proof -
  have "limit \<noteq> 0" using assms by (auto simp: find_available_id_def)
  then show ?thesis using find_available_id_spec [of limit used hint] assms by simp
qed

lemma take_available_id_Some:
  assumes "take_available_id used hint limit = Some ((i, n), used')"
  shows "1 \<le> i \<and> i \<le> limit \<and> \<not> btm_contains used i \<and> used' = bts_insert i used \<and>
    (n = 0 \<or> 1 \<le> n \<and> n \<le> limit \<and> \<not> btm_contains used n \<and> n \<noteq> i)"
  using assms find_available_id_Some [of used hint limit i]
    find_available_id_Some [of "bts_insert i used" "id_successor i limit" limit]
  by (auto simp: take_available_id_def Let_def split: option.splits)

lemma take_available_id_None:
  "limit \<noteq> 0 \<Longrightarrow> take_available_id used hint limit = None \<Longrightarrow> all_used used 1 limit"
  using find_available_id_spec [of limit used hint]
  by (auto simp: take_available_id_def Let_def split: option.splits)

text \<open>A range that is all in use has as many numbers in use as it has numbers.\<close>

lemma all_used_card:
  assumes "all_used used 1 limit"
  shows "unat limit \<le> card {i. btm_contains used i}"
proof -
  have "{i. 1 \<le> i \<and> i \<le> limit} \<subseteq> {i. btm_contains used i}"
    using assms by (auto simp: all_used_def)
  then have "card {i :: u64. 1 \<le> i \<and> i \<le> limit} \<le> card {i. btm_contains used i}"
    by (rule card_mono [rotated]) (simp add: set_btm_keys [symmetric])
  moreover have "card {i :: u64. 1 \<le> i \<and> i \<le> limit} = unat limit"
  proof -
    have "bij_betw unat {i :: u64. 1 \<le> i \<and> i \<le> limit} {1..unat limit}"
    proof (rule bij_betw_imageI)
      show "inj_on unat {i :: u64. 1 \<le> i \<and> i \<le> limit}" by (rule inj_onI) (simp add: word_unat_eq_iff)
      show "unat ` {i :: u64. 1 \<le> i \<and> i \<le> limit} = {1..unat limit}"
      proof (intro equalityI subsetI)
        fix n assume n: "n \<in> {1..unat limit}"
        then have "n < 2 ^ 64" using unat_u64_less [of limit] by simp
        then have "unat (of_nat n :: u64) = n" by (simp add: unat_of_nat)
        then show "n \<in> unat ` {i :: u64. 1 \<le> i \<and> i \<le> limit}"
          using n by (intro image_eqI [of _ _ "of_nat n"]) (auto simp: word_le_nat_alt)
      qed (auto simp: word_le_nat_alt)
    qed
    then show ?thesis using bij_betw_same_card by fastforce
  qed
  ultimately show ?thesis by simp
qed

end
