(* ===== verification/Rust_Strings.thy ===== *)
theory Rust_Strings
  imports Mult_Prelude
begin

text \<open>
  Rust's \<open>String\<close> as the client edits it: a list of Unicode scalar values, with the UTF-8 length
  of each. An offset into a string counts bytes; slicing at an offset inside a character panics,
  which is \<open>None\<close> here. What the code relies on of the standard library (\<open>char_indices\<close>,
  \<open>is_char_boundary\<close>, \<open>insert\<close>, \<open>replace_range\<close>, \<open>char::is_whitespace\<close>) is defined on this model.
\<close>

type_synonym uchar = u32
type_synonym ustring = "uchar list"

section \<open>Bytes\<close>

definition utf8_len :: "uchar \<Rightarrow> nat" where
  "utf8_len c = (if c < 0x80 then 1 else if c < 0x800 then 2 else if c < 0x10000 then 3 else 4)"

definition byte_len :: "ustring \<Rightarrow> nat" where
  "byte_len s = sum_list (map utf8_len s)"

lemma utf8_len_bounds: "1 \<le> utf8_len c" "utf8_len c \<le> 4"
  by (simp_all add: utf8_len_def)

lemma byte_len_simps [simp]:
  "byte_len [] = 0" "byte_len (c # s) = utf8_len c + byte_len s" "byte_len (s @ t) = byte_len s + byte_len t"
  by (simp_all add: byte_len_def)

lemma byte_len_ge_length: "length s \<le> byte_len s"
proof (induction s)
  case (Cons c s)
  then show ?case using utf8_len_bounds(1) [of c] by simp
qed simp

text \<open>
  \<open>split_at_byte n s\<close> is the string before and from byte \<open>n\<close>; none if that byte is not at a
  character boundary or past the end.
\<close>

fun split_at_byte :: "nat \<Rightarrow> ustring \<Rightarrow> (ustring \<times> ustring) option" where
  "split_at_byte 0 s = Some ([], s)"
| "split_at_byte (Suc n) [] = None"
| "split_at_byte (Suc n) (c # s) =
     (if Suc n < utf8_len c then None
      else map_option (\<lambda>(before, after). (c # before, after)) (split_at_byte (Suc n - utf8_len c) s))"

definition is_char_boundary :: "nat \<Rightarrow> ustring \<Rightarrow> bool" where
  "is_char_boundary n s \<longleftrightarrow> split_at_byte n s \<noteq> None"

definition str_insert :: "nat \<Rightarrow> uchar \<Rightarrow> ustring \<Rightarrow> ustring option" where
  "str_insert n c s = map_option (\<lambda>(before, after). before @ c # after) (split_at_byte n s)"

text \<open>\<open>replace_range(start..end, "")\<close>: also panics when the range runs backwards.\<close>

definition str_delete :: "nat \<Rightarrow> nat \<Rightarrow> ustring \<Rightarrow> ustring option" where
  "str_delete start stop s =
     (if stop < start then None
      else case (split_at_byte start s, split_at_byte stop s) of
             (Some (before, _), Some (_, after)) \<Rightarrow> Some (before @ after)
           | _ \<Rightarrow> None)"

definition char_byte_offset :: "nat \<Rightarrow> ustring \<Rightarrow> nat" where
  "char_byte_offset n s = byte_len (take n s)"

lemma split_at_byte_append: "split_at_byte (byte_len s) (s @ t) = Some (s, t)"
proof (induction s)
  case (Cons c s)
  obtain n where n: "byte_len (c # s) = Suc n"
    using utf8_len_bounds(1) [of c] by (cases "byte_len (c # s)") auto
  then have "Suc n - utf8_len c = byte_len s" "\<not> Suc n < utf8_len c" by auto
  then show ?case using Cons n by simp
qed simp

lemma split_at_byte_Some:
  "split_at_byte n s = Some (before, after) \<longleftrightarrow> s = before @ after \<and> n = byte_len before"
proof
  show "split_at_byte n s = Some (before, after) \<Longrightarrow> s = before @ after \<and> n = byte_len before"
    by (induction n s arbitrary: before after rule: split_at_byte.induct) (auto split: if_splits)
qed (auto simp: split_at_byte_append)

lemma split_at_byte_take: "split_at_byte (byte_len (take n s)) s = Some (take n s, drop n s)"
  using split_at_byte_append [of "take n s" "drop n s"] by simp

section \<open>White space\<close>

definition is_whitespace :: "uchar \<Rightarrow> bool" where
  "is_whitespace c \<longleftrightarrow>
     9 \<le> c \<and> c \<le> 13 \<or> c = 0x20 \<or> c = 0x85 \<or> c = 0xA0 \<or> c = 0x1680 \<or> 0x2000 \<le> c \<and> c \<le> 0x200A \<or>
     c = 0x2028 \<or> c = 0x2029 \<or> c = 0x202F \<or> c = 0x205F \<or> c = 0x3000"

definition trim :: "ustring \<Rightarrow> ustring" where
  "trim s = rev (dropWhile is_whitespace (rev (dropWhile is_whitespace s)))"

end
