(* ===== verification/Rust_Text.thy ===== *)
theory Rust_Text
  imports Rust_Strings "HOL-Library.Sublist"
begin

text \<open>
  The operations of \<open>str\<close> and \<open>char\<close> that the client's text handling uses: literals, decimal numbers,
  searching, splitting into words and lines.
\<close>

section \<open>Literals and numbers\<close>

definition ascii :: "string \<Rightarrow> ustring" where
  "ascii s = map of_char s"

fun decimal :: "nat \<Rightarrow> ustring" where
  "decimal n = (if n < 10 then [48 + of_nat n] else decimal (n div 10) @ [48 + of_nat (n mod 10)])"

declare decimal.simps [simp del]

lemma decimal_nonempty [simp]: "decimal n \<noteq> []"
  by (subst decimal.simps) simp

lemma ascii_simps [simp]: "ascii [] = []" "ascii (c # s) = of_char c # ascii s" "ascii (s @ t) = ascii s @ ascii t"
  by (simp_all add: ascii_def)

section \<open>Characters\<close>

definition is_control :: "uchar \<Rightarrow> bool" where
  "is_control c \<longleftrightarrow> c < 0x20 \<or> 0x7F \<le> c \<and> c \<le> 0x9F"

definition to_ascii_lowercase :: "ustring \<Rightarrow> ustring" where
  "to_ascii_lowercase = map (\<lambda>c. if 65 \<le> c \<and> c \<le> 90 then c + 32 else c)"

definition is_ascii_digit :: "uchar \<Rightarrow> bool" where
  "is_ascii_digit c \<longleftrightarrow> 48 \<le> c \<and> c \<le> 57"

definition is_ascii_alphanumeric :: "uchar \<Rightarrow> bool" where
  "is_ascii_alphanumeric c \<longleftrightarrow> is_ascii_digit c \<or> 65 \<le> c \<and> c \<le> 90 \<or> 97 \<le> c \<and> c \<le> 122"

section \<open>Searching\<close>

definition starts_with :: "ustring \<Rightarrow> ustring \<Rightarrow> bool" where
  "starts_with p s \<longleftrightarrow> take (length p) s = p"

definition strip_prefix :: "ustring \<Rightarrow> ustring \<Rightarrow> ustring option" where
  "strip_prefix p s = (if starts_with p s then Some (drop (length p) s) else None)"

primrec contains :: "ustring \<Rightarrow> ustring \<Rightarrow> bool" where
  "contains p [] \<longleftrightarrow> p = []"
| "contains p (c # s) \<longleftrightarrow> starts_with p (c # s) \<or> contains p s"

lemma starts_with_iff: "starts_with p s \<longleftrightarrow> prefix p s"
  unfolding starts_with_def prefix_def by (metis append_eq_conv_conj)

lemma strip_prefix_Some: "strip_prefix p s = Some r \<longleftrightarrow> s = p @ r"
  unfolding strip_prefix_def starts_with_def by (auto simp: append_eq_conv_conj) (metis append_take_drop_id)

lemma contains_iff: "contains p s \<longleftrightarrow> sublist p s"
  by (induction s) (auto simp: sublist_Cons_right starts_with_iff)

section \<open>Splitting\<close>

primrec split_whitespace_from :: "ustring \<Rightarrow> ustring \<Rightarrow> ustring list" where
  "split_whitespace_from word [] = (if word = [] then [] else [word])"
| "split_whitespace_from word (c # s) =
     (if is_whitespace c
      then (if word = [] then split_whitespace_from [] s else word # split_whitespace_from [] s)
      else split_whitespace_from (word @ [c]) s)"

definition split_whitespace :: "ustring \<Rightarrow> ustring list" where
  "split_whitespace = split_whitespace_from []"

text \<open>A line ends with a line feed, which goes with a carriage return right before it.\<close>

definition drop_return :: "ustring \<Rightarrow> ustring" where
  "drop_return line = (if line \<noteq> [] \<and> last line = 13 then butlast line else line)"

primrec lines_from :: "ustring \<Rightarrow> ustring \<Rightarrow> ustring list" where
  "lines_from line [] = (if line = [] then [] else [line])"
| "lines_from line (c # s) =
     (if c = 10 then drop_return line # lines_from [] s else lines_from (line @ [c]) s)"

definition lines :: "ustring \<Rightarrow> ustring list" where
  "lines = lines_from []"

text \<open>\<open>split\<close> at every occurrence of a character.\<close>

primrec split_char_from :: "uchar \<Rightarrow> ustring \<Rightarrow> ustring \<Rightarrow> ustring list" where
  "split_char_from sep part [] = [part]"
| "split_char_from sep part (c # s) =
     (if c = sep then part # split_char_from sep [] s else split_char_from sep (part @ [c]) s)"

definition split_char :: "uchar \<Rightarrow> ustring \<Rightarrow> ustring list" where
  "split_char sep = split_char_from sep []"

end
