(* ===== verification/Project.thy ===== *)
theory Project
  imports Id_Allocator Rust_Text Framing
begin

text \<open>
  The client's durable state (\<open>src/model.rs\<close>): workspaces with their agent chats and terminals,
  the tables that give each of them an identity, and the allocator hints. Operations take the
  state and return it; what can fail returns the error as a sum. An entropy source is the stream
  of its successive 16-byte reads, and an operation that reads it returns what is left.
  A failed operation returns the state the code leaves, except \<open>normalize_next_ids\<close> and
  \<open>normalize_session_identities\<close>, whose callers drop the state with the error.
\<close>

section \<open>Numbers and keys\<close>

datatype workspace_id = WorkspaceId (workspace_id_raw: u64)
datatype chat_id = ChatId (chat_id_raw: u64)
datatype terminal_id = TerminalId (terminal_id_raw: u64)

datatype pty_key = PtyTerminal terminal_id | PtyChatAgent chat_id

instantiation workspace_id :: linorder
begin

definition less_eq_workspace_id :: "workspace_id \<Rightarrow> workspace_id \<Rightarrow> bool" where
  "less_eq_workspace_id a b \<longleftrightarrow> workspace_id_raw a \<le> workspace_id_raw b"

definition less_workspace_id :: "workspace_id \<Rightarrow> workspace_id \<Rightarrow> bool" where
  "less_workspace_id a b \<longleftrightarrow> workspace_id_raw a < workspace_id_raw b"

instance
  by standard (auto simp: less_eq_workspace_id_def less_workspace_id_def workspace_id.expand)

end

instantiation chat_id :: linorder
begin

definition less_eq_chat_id :: "chat_id \<Rightarrow> chat_id \<Rightarrow> bool" where
  "less_eq_chat_id a b \<longleftrightarrow> chat_id_raw a \<le> chat_id_raw b"

definition less_chat_id :: "chat_id \<Rightarrow> chat_id \<Rightarrow> bool" where
  "less_chat_id a b \<longleftrightarrow> chat_id_raw a < chat_id_raw b"

instance
  by standard (auto simp: less_eq_chat_id_def less_chat_id_def chat_id.expand)

end

instantiation terminal_id :: linorder
begin

definition less_eq_terminal_id :: "terminal_id \<Rightarrow> terminal_id \<Rightarrow> bool" where
  "less_eq_terminal_id a b \<longleftrightarrow> terminal_id_raw a \<le> terminal_id_raw b"

definition less_terminal_id :: "terminal_id \<Rightarrow> terminal_id \<Rightarrow> bool" where
  "less_terminal_id a b \<longleftrightarrow> terminal_id_raw a < terminal_id_raw b"

instance
  by standard (auto simp: less_eq_terminal_id_def less_terminal_id_def terminal_id.expand)

end

text \<open>Tokens and generations are kept in sets too.\<close>

instantiation session_token :: linorder
begin

definition less_eq_session_token :: "session_token \<Rightarrow> session_token \<Rightarrow> bool" where
  "less_eq_session_token a b \<longleftrightarrow> token_bytes a \<le> token_bytes b"

definition less_session_token :: "session_token \<Rightarrow> session_token \<Rightarrow> bool" where
  "less_session_token a b \<longleftrightarrow> token_bytes a < token_bytes b"

instance
  by standard (auto simp: less_eq_session_token_def less_session_token_def session_token.expand)

end

instantiation agent_generation :: linorder
begin

definition less_eq_agent_generation :: "agent_generation \<Rightarrow> agent_generation \<Rightarrow> bool" where
  "less_eq_agent_generation a b \<longleftrightarrow> generation_bytes a \<le> generation_bytes b"

definition less_agent_generation :: "agent_generation \<Rightarrow> agent_generation \<Rightarrow> bool" where
  "less_agent_generation a b \<longleftrightarrow> generation_bytes a < generation_bytes b"

instance
  by standard (auto simp: less_eq_agent_generation_def less_agent_generation_def agent_generation.expand)

end

definition RUNTIME_TERMINAL_ID_FLAG :: u64 where
  "RUNTIME_TERMINAL_ID_FLAG = push_bit 63 1"

definition MAX_DURABLE_SESSION_ID :: u64 where
  "MAX_DURABLE_SESSION_ID = RUNTIME_TERMINAL_ID_FLAG - 1"

definition is_valid_durable_session_id :: "u64 \<Rightarrow> bool" where
  "is_valid_durable_session_id i \<longleftrightarrow> 1 \<le> i \<and> i \<le> MAX_DURABLE_SESSION_ID"

section \<open>The state\<close>

datatype chat_status = Idle | Thinking | Waiting | Failed | DoneUnseen | DoneSeen

fun is_done :: "chat_status \<Rightarrow> bool" where
  "is_done DoneUnseen = True"
| "is_done DoneSeen = True"
| "is_done _ = False"

fun done_seen :: "chat_status \<Rightarrow> bool" where
  "done_seen DoneSeen = True"
| "done_seen _ = False"

fun with_done_seen :: "chat_status \<Rightarrow> bool \<Rightarrow> chat_status" where
  "with_done_seen DoneUnseen seen = (if seen then DoneSeen else DoneUnseen)"
| "with_done_seen DoneSeen seen = (if seen then DoneSeen else DoneUnseen)"
| "with_done_seen other _ = other"

datatype message_role = RoleUser | RoleAssistant | RoleSystem | RoleTool | RoleError

record chat_message =
  cm_role :: message_role
  cm_text :: ustring

record chat_session =
  ct_id :: chat_id
  ct_name :: ustring
  ct_status :: chat_status
  ct_agent :: agent_kind
  ct_messages :: "chat_message list"

datatype terminal_launch = TLShell | TLCommand ustring

record terminal_session =
  tm_id :: terminal_id
  tm_name :: ustring
  tm_restore_on_launch :: bool
  tm_launch :: terminal_launch

record remote_target =
  rt_host :: ustring
  rt_path :: ustring
  rt_session :: ustring

record workspace =
  ws_id :: workspace_id
  ws_name :: ustring
  ws_cwd :: "ustring option"
  ws_remote :: "remote_target option"
  ws_environment :: "(ustring \<times> ustring) list"
  ws_chats :: "chat_session list"
  ws_terminals :: "terminal_session list"

record session_identities =
  si_chats :: "(chat_id, session_token) btmap"
  si_terminals :: "(terminal_id, session_token) btmap"

record project_state =
  pj_version :: u32
  pj_namespace :: state_namespace
  pj_identities :: session_identities
  pj_generations :: "(chat_id, agent_generation) btmap"
  pj_next_workspace_id :: u64
  pj_next_chat_id :: u64
  pj_next_terminal_id :: u64
  pj_workspaces :: "workspace list"

definition STATE_VERSION :: u32 where "STATE_VERSION = 5"

definition workspace_ids :: "project_state \<Rightarrow> workspace_id list" where
  "workspace_ids p = map ws_id (pj_workspaces p)"

definition chat_ids :: "project_state \<Rightarrow> chat_id list" where
  "chat_ids p = concat (map (\<lambda>w. map ct_id (ws_chats w)) (pj_workspaces p))"

definition terminal_ids :: "project_state \<Rightarrow> terminal_id list" where
  "terminal_ids p = concat (map (\<lambda>w. map tm_id (ws_terminals w)) (pj_workspaces p))"

definition project_tokens :: "project_state \<Rightarrow> session_token list" where
  "project_tokens p = btm_values (si_chats (pj_identities p)) @ btm_values (si_terminals (pj_identities p))"

section \<open>Errors and entropy\<close>

datatype id_allocation_error = IAWorkspace | IAChat | IATerminal | IAIdentity string

fun id_allocation_message :: "id_allocation_error \<Rightarrow> string" where
  "id_allocation_message IAWorkspace = ''workspace ID space is exhausted''"
| "id_allocation_message IAChat = ''chat ID space is exhausted''"
| "id_allocation_message IATerminal = ''terminal ID space is exhausted''"
| "id_allocation_message (IAIdentity error) = ''could not allocate secure session identity: '' @ error"

definition identity_allocation_error :: "io_error \<Rightarrow> id_allocation_error" where
  "identity_allocation_error error = IAIdentity (io_message error)"

fun allocation_io_error :: "id_allocation_error \<Rightarrow> io_error" where
  "allocation_io_error (IAIdentity message) = io_other message"
| "allocation_io_error error = io_other (id_allocation_message error)"

type_synonym entropy = "nat \<Rightarrow> io_error + bytes16"

definition rest_of :: "entropy \<Rightarrow> entropy" where
  "rest_of source = (\<lambda>i. source (Suc i))"

definition MAX_IDENTITY_ATTEMPTS :: nat where "MAX_IDENTITY_ATTEMPTS = 64"

primrec generate_identity_tries ::
    "nat \<Rightarrow> (bytes16 \<Rightarrow> 'i) \<Rightarrow> ('i \<Rightarrow> bool) \<Rightarrow> entropy \<Rightarrow> (io_error + 'i) \<times> entropy" where
  "generate_identity_tries 0 mk collision source =
     (Inl (io_error_new InvalidData ''secure entropy repeatedly produced zero or colliding identities''), source)"
| "generate_identity_tries (Suc tries) mk collision source =
     (case source 0 of
        Inl error \<Rightarrow> (Inl error, rest_of source)
      | Inr raw \<Rightarrow>
          (case nonzero_from_bytes mk raw of
             Some identity \<Rightarrow>
               if collision identity then generate_identity_tries tries mk collision (rest_of source)
               else (Inr identity, rest_of source)
           | None \<Rightarrow> generate_identity_tries tries mk collision (rest_of source)))"

definition generate_identity ::
    "(bytes16 \<Rightarrow> 'i) \<Rightarrow> ('i \<Rightarrow> bool) \<Rightarrow> entropy \<Rightarrow> (io_error + 'i) \<times> entropy" where
  "generate_identity = generate_identity_tries MAX_IDENTITY_ATTEMPTS"

definition allocate_session_token ::
    "project_state \<Rightarrow> entropy \<Rightarrow> (id_allocation_error + session_token) \<times> entropy" where
  "allocate_session_token p source =
     (case generate_identity SessionToken (\<lambda>t. t \<in> set (project_tokens p)) source of
        (res, source) \<Rightarrow> (map_err identity_allocation_error res, source))"

section \<open>Creation\<close>

definition try_default_with :: "entropy \<Rightarrow> (io_error + project_state) \<times> entropy" where
  "try_default_with source =
     (case generate_identity StateNamespace (\<lambda>_. False) source of
        (Inl error, source) \<Rightarrow> (Inl error, source)
      | (Inr namespace, source) \<Rightarrow>
          (Inr \<lparr>pj_version = STATE_VERSION, pj_namespace = namespace,
                pj_identities = \<lparr>si_chats = btm_empty, si_terminals = btm_empty\<rparr>,
                pj_generations = btm_empty, pj_next_workspace_id = 1, pj_next_chat_id = 1,
                pj_next_terminal_id = 1, pj_workspaces = []\<rparr>, source))"

section \<open>Looking up\<close>

definition find_workspace :: "workspace_id \<Rightarrow> project_state \<Rightarrow> workspace option" where
  "find_workspace wid p = find (\<lambda>w. ws_id w = wid) (pj_workspaces p)"

definition find_chat :: "workspace_id \<Rightarrow> chat_id \<Rightarrow> project_state \<Rightarrow> chat_session option" where
  "find_chat wid cid p =
     Option.bind (find_workspace wid p) (\<lambda>w. find (\<lambda>c. ct_id c = cid) (ws_chats w))"

definition find_terminal :: "workspace_id \<Rightarrow> terminal_id \<Rightarrow> project_state \<Rightarrow> terminal_session option" where
  "find_terminal wid tid p =
     Option.bind (find_workspace wid p) (\<lambda>w. find (\<lambda>t. tm_id t = tid) (ws_terminals w))"

fun status_label :: "chat_status \<Rightarrow> ustring" where
  "status_label Idle = ascii ''idle''"
| "status_label Thinking = ascii ''thinking''"
| "status_label Waiting = ascii ''waiting''"
| "status_label Failed = ascii ''failed''"
| "status_label _ = ascii ''done''"

fun role_label :: "message_role \<Rightarrow> ustring" where
  "role_label RoleUser = ascii ''user''"
| "role_label RoleAssistant = ascii ''agent''"
| "role_label RoleSystem = ascii ''system''"
| "role_label RoleTool = ascii ''tool''"
| "role_label RoleError = ascii ''error''"

text \<open>
  Where the code takes a mutable reference to the first element it finds, the model updates that
  element: \<open>update_first\<close> changes the first element with a property.
\<close>

primrec update_first :: "('a \<Rightarrow> bool) \<Rightarrow> ('a \<Rightarrow> 'a) \<Rightarrow> 'a list \<Rightarrow> 'a list" where
  "update_first P f [] = []"
| "update_first P f (x # xs) = (if P x then f x # xs else x # update_first P f xs)"

definition update_workspace :: "workspace_id \<Rightarrow> (workspace \<Rightarrow> workspace) \<Rightarrow> project_state \<Rightarrow> project_state" where
  "update_workspace wid f p = p\<lparr>pj_workspaces := update_first (\<lambda>w. ws_id w = wid) f (pj_workspaces p)\<rparr>"

definition update_chat ::
    "workspace_id \<Rightarrow> chat_id \<Rightarrow> (chat_session \<Rightarrow> chat_session) \<Rightarrow> project_state \<Rightarrow> project_state" where
  "update_chat wid cid f =
     update_workspace wid (\<lambda>w. w\<lparr>ws_chats := update_first (\<lambda>c. ct_id c = cid) f (ws_chats w)\<rparr>)"

text \<open>\<open>terminal_mut_by_id\<close>: the first terminal with a number, in whichever workspace.\<close>

primrec update_first_terminal ::
    "terminal_id \<Rightarrow> (terminal_session \<Rightarrow> terminal_session) \<Rightarrow> workspace list \<Rightarrow> workspace list" where
  "update_first_terminal tid f [] = []"
| "update_first_terminal tid f (w # ws) =
     (if \<exists>t \<in> set (ws_terminals w). tm_id t = tid
      then w\<lparr>ws_terminals := update_first (\<lambda>t. tm_id t = tid) f (ws_terminals w)\<rparr> # ws
      else w # update_first_terminal tid f ws)"

definition find_terminal_by_id :: "terminal_id \<Rightarrow> project_state \<Rightarrow> terminal_session option" where
  "find_terminal_by_id tid p = find (\<lambda>t. tm_id t = tid) (concat (map ws_terminals (pj_workspaces p)))"

definition update_terminal_by_id ::
    "terminal_id \<Rightarrow> (terminal_session \<Rightarrow> terminal_session) \<Rightarrow> project_state \<Rightarrow> project_state" where
  "update_terminal_by_id tid f p = p\<lparr>pj_workspaces := update_first_terminal tid f (pj_workspaces p)\<rparr>"

definition session_identity_of :: "pty_key \<Rightarrow> project_state \<Rightarrow> session_identity option" where
  "session_identity_of key p =
     map_option (SessionIdentity (pj_namespace p))
       (case key of
          PtyTerminal tid \<Rightarrow> btm_get (si_terminals (pj_identities p)) tid
        | PtyChatAgent cid \<Rightarrow> btm_get (si_chats (pj_identities p)) cid)"

definition active_agent_generation :: "chat_id \<Rightarrow> project_state \<Rightarrow> agent_generation option" where
  "active_agent_generation cid p = btm_get (pj_generations p) cid"

section \<open>Adding\<close>

definition allocate_workspace_id :: "project_state \<Rightarrow> (id_allocation_error + workspace_id) \<times> project_state" where
  "allocate_workspace_id p =
     (case take_available_id (bts_of_list (map workspace_id_raw (workspace_ids p))) (pj_next_workspace_id p) (- 1) of
        None \<Rightarrow> (Inl IAWorkspace, p)
      | Some ((i, n), _) \<Rightarrow> (Inr (WorkspaceId i), p\<lparr>pj_next_workspace_id := n\<rparr>))"

definition allocate_chat_id :: "project_state \<Rightarrow> (id_allocation_error + chat_id) \<times> project_state" where
  "allocate_chat_id p =
     (case take_available_id (bts_of_list (filter is_valid_durable_session_id (map chat_id_raw (chat_ids p))))
             (pj_next_chat_id p) MAX_DURABLE_SESSION_ID of
        None \<Rightarrow> (Inl IAChat, p)
      | Some ((i, n), _) \<Rightarrow> (Inr (ChatId i), p\<lparr>pj_next_chat_id := n\<rparr>))"

definition allocate_terminal_id :: "project_state \<Rightarrow> (id_allocation_error + terminal_id) \<times> project_state" where
  "allocate_terminal_id p =
     (case take_available_id (bts_of_list (filter is_valid_durable_session_id (map terminal_id_raw (terminal_ids p))))
             (pj_next_terminal_id p) MAX_DURABLE_SESSION_ID of
        None \<Rightarrow> (Inl IATerminal, p)
      | Some ((i, n), _) \<Rightarrow> (Inr (TerminalId i), p\<lparr>pj_next_terminal_id := n\<rparr>))"

definition push_workspace ::
    "ustring \<Rightarrow> ustring option \<Rightarrow> remote_target option \<Rightarrow> project_state \<Rightarrow>
     (id_allocation_error + workspace_id) \<times> project_state" where
  "push_workspace name cwd remote p =
     (case allocate_workspace_id p of
        (Inl error, p) \<Rightarrow> (Inl error, p)
      | (Inr wid, p) \<Rightarrow>
          (Inr wid, p\<lparr>pj_workspaces := pj_workspaces p @
             [\<lparr>ws_id = wid, ws_name = name, ws_cwd = cwd, ws_remote = remote, ws_environment = [],
               ws_chats = [], ws_terminals = []\<rparr>]\<rparr>))"

definition add_workspace ::
    "ustring \<Rightarrow> ustring option \<Rightarrow> project_state \<Rightarrow> (id_allocation_error + workspace_id) \<times> project_state" where
  "add_workspace name cwd = push_workspace name cwd None"

definition add_remote_workspace ::
    "ustring \<Rightarrow> remote_target \<Rightarrow> project_state \<Rightarrow> (id_allocation_error + workspace_id) \<times> project_state" where
  "add_remote_workspace name remote = push_workspace name None (Some remote)"

definition add_chat_with_source ::
    "workspace_id \<Rightarrow> ustring \<Rightarrow> chat_status \<Rightarrow> agent_kind \<Rightarrow> entropy \<Rightarrow> project_state \<Rightarrow>
     (id_allocation_error + chat_id option) \<times> project_state" where
  "add_chat_with_source wid name status agent source p =
     (case find_workspace wid p of
        None \<Rightarrow> (Inr None, p)
      | Some _ \<Rightarrow>
          (case allocate_session_token p source of
             (Inl error, _) \<Rightarrow> (Inl error, p)
           | (Inr token, _) \<Rightarrow>
               (case allocate_chat_id p of
                  (Inl error, p) \<Rightarrow> (Inl error, p)
                | (Inr cid, p) \<Rightarrow>
                    let p = update_workspace wid (\<lambda>w. w\<lparr>ws_chats := ws_chats w @
                          [\<lparr>ct_id = cid, ct_name = name, ct_status = status, ct_agent = agent, ct_messages = []\<rparr>]\<rparr>) p
                    in (Inr (Some cid),
                        p\<lparr>pj_identities := (pj_identities p)
                            \<lparr>si_chats := btm_insert cid token (si_chats (pj_identities p))\<rparr>\<rparr>))))"

definition add_terminal_with_source ::
    "workspace_id \<Rightarrow> ustring \<Rightarrow> terminal_launch \<Rightarrow> entropy \<Rightarrow> project_state \<Rightarrow>
     (id_allocation_error + terminal_id option) \<times> project_state \<times> entropy" where
  "add_terminal_with_source wid name launch source p =
     (case find_workspace wid p of
        None \<Rightarrow> (Inr None, p, source)
      | Some _ \<Rightarrow>
          (case allocate_session_token p source of
             (Inl error, source) \<Rightarrow> (Inl error, p, source)
           | (Inr token, source) \<Rightarrow>
               (case allocate_terminal_id p of
                  (Inl error, p) \<Rightarrow> (Inl error, p, source)
                | (Inr tid, p) \<Rightarrow>
                    let p = update_workspace wid (\<lambda>w. w\<lparr>ws_terminals := ws_terminals w @
                          [\<lparr>tm_id = tid, tm_name = name, tm_restore_on_launch = False, tm_launch = launch\<rparr>]\<rparr>) p
                    in (Inr (Some tid),
                        p\<lparr>pj_identities := (pj_identities p)
                            \<lparr>si_terminals := btm_insert tid token (si_terminals (pj_identities p))\<rparr>\<rparr>,
                        source))))"

text \<open>
  Opening the entropy source may fail; \<open>urandom\<close> is what \<open>SecureIdentitySource::new\<close> answers.
\<close>

definition add_chat ::
    "io_error + entropy \<Rightarrow> workspace_id \<Rightarrow> ustring \<Rightarrow> chat_status \<Rightarrow> agent_kind \<Rightarrow> project_state \<Rightarrow>
     (id_allocation_error + chat_id option) \<times> project_state" where
  "add_chat urandom wid name status agent p =
     (case urandom of
        Inl error \<Rightarrow> (Inl (identity_allocation_error error), p)
      | Inr source \<Rightarrow> add_chat_with_source wid name status agent source p)"

definition add_terminal_with_launch ::
    "io_error + entropy \<Rightarrow> workspace_id \<Rightarrow> ustring \<Rightarrow> terminal_launch \<Rightarrow> project_state \<Rightarrow>
     (id_allocation_error + terminal_id option) \<times> project_state" where
  "add_terminal_with_launch urandom wid name launch p =
     (case urandom of
        Inl error \<Rightarrow> (Inl (identity_allocation_error error), p)
      | Inr source \<Rightarrow> (case add_terminal_with_source wid name launch source p of (res, p, _) \<Rightarrow> (res, p)))"

definition add_terminal ::
    "io_error + entropy \<Rightarrow> workspace_id \<Rightarrow> ustring \<Rightarrow> project_state \<Rightarrow>
     (id_allocation_error + terminal_id option) \<times> project_state" where
  "add_terminal urandom wid name = add_terminal_with_launch urandom wid name TLShell"

definition add_command_terminal ::
    "io_error + entropy \<Rightarrow> workspace_id \<Rightarrow> ustring \<Rightarrow> ustring \<Rightarrow> project_state \<Rightarrow>
     (id_allocation_error + terminal_id option) \<times> project_state" where
  "add_command_terminal urandom wid name command = add_terminal_with_launch urandom wid name (TLCommand command)"

text \<open>The first run: the working directory is what \<open>current_dir\<close> answers.\<close>

definition try_first_run_with :: "ustring option \<Rightarrow> entropy \<Rightarrow> io_error + project_state" where
  "try_first_run_with current_dir source =
     (case try_default_with source of
        (Inl error, _) \<Rightarrow> Inl error
      | (Inr p, source) \<Rightarrow>
          (case add_workspace (ascii ''mult'') current_dir p of
             (Inl error, _) \<Rightarrow> Inl (allocation_io_error error)
           | (Inr mult, p) \<Rightarrow>
               (case add_terminal_with_source mult (ascii ''dev server'') TLShell source p of
                  (Inl error, _, _) \<Rightarrow> Inl (allocation_io_error error)
                | (Inr _, p, source) \<Rightarrow>
                    (case add_workspace (ascii ''website'') None p of
                       (Inl error, _) \<Rightarrow> Inl (allocation_io_error error)
                     | (Inr website, p) \<Rightarrow>
                         (case add_terminal_with_source website (ascii ''shell'') TLShell source p of
                            (Inl error, _, _) \<Rightarrow> Inl (allocation_io_error error)
                          | (Inr _, p, _) \<Rightarrow> Inr p)))))"

section \<open>Removing\<close>

text \<open>\<open>position\<close> and \<open>remove\<close> at that index.\<close>

primrec remove_first :: "('a \<Rightarrow> bool) \<Rightarrow> 'a list \<Rightarrow> 'a list" where
  "remove_first P [] = []"
| "remove_first P (x # xs) = (if P x then xs else x # remove_first P xs)"

definition forget_chat :: "chat_id \<Rightarrow> project_state \<Rightarrow> project_state" where
  "forget_chat cid p =
     p\<lparr>pj_identities := (pj_identities p)\<lparr>si_chats := btm_remove cid (si_chats (pj_identities p))\<rparr>,
       pj_generations := btm_remove cid (pj_generations p)\<rparr>"

definition forget_terminal :: "terminal_id \<Rightarrow> project_state \<Rightarrow> project_state" where
  "forget_terminal tid p =
     p\<lparr>pj_identities := (pj_identities p)\<lparr>si_terminals := btm_remove tid (si_terminals (pj_identities p))\<rparr>\<rparr>"

definition remove_workspace :: "workspace_id \<Rightarrow> project_state \<Rightarrow> workspace option \<times> project_state" where
  "remove_workspace wid p =
     (case find_workspace wid p of
        None \<Rightarrow> (None, p)
      | Some w \<Rightarrow>
          (Some w,
           fold (\<lambda>t. forget_terminal (tm_id t)) (ws_terminals w)
             (fold (\<lambda>c. forget_chat (ct_id c)) (ws_chats w)
                (p\<lparr>pj_workspaces := remove_first (\<lambda>w. ws_id w = wid) (pj_workspaces p)\<rparr>))))"

definition remove_chat :: "workspace_id \<Rightarrow> chat_id \<Rightarrow> project_state \<Rightarrow> chat_session option \<times> project_state" where
  "remove_chat wid cid p =
     (case find_chat wid cid p of
        None \<Rightarrow> (None, p)
      | Some c \<Rightarrow>
          (Some c, forget_chat cid
             (update_workspace wid (\<lambda>w. w\<lparr>ws_chats := remove_first (\<lambda>c. ct_id c = cid) (ws_chats w)\<rparr>) p)))"

definition remove_terminal ::
    "workspace_id \<Rightarrow> terminal_id \<Rightarrow> project_state \<Rightarrow> terminal_session option \<times> project_state" where
  "remove_terminal wid tid p =
     (case find_terminal wid tid p of
        None \<Rightarrow> (None, p)
      | Some t \<Rightarrow>
          (Some t, forget_terminal tid
             (update_workspace wid (\<lambda>w. w\<lparr>ws_terminals := remove_first (\<lambda>t. tm_id t = tid) (ws_terminals w)\<rparr>) p)))"

section \<open>Agent generations\<close>

definition begin_agent_generation_with_source ::
    "chat_id \<Rightarrow> entropy \<Rightarrow> project_state \<Rightarrow>
     (id_allocation_error + agent_generation option) \<times> project_state" where
  "begin_agent_generation_with_source cid source p =
     (if cid \<notin> set (chat_ids p) then (Inr None, p)
      else case generate_identity AgentGeneration (\<lambda>g. g \<in> set (btm_values (pj_generations p))) source of
             (Inl error, _) \<Rightarrow> (Inl (identity_allocation_error error), p)
           | (Inr generation, _) \<Rightarrow>
               (Inr (Some generation), p\<lparr>pj_generations := btm_insert cid generation (pj_generations p)\<rparr>))"

definition clear_agent_generation :: "chat_id \<Rightarrow> agent_generation \<Rightarrow> project_state \<Rightarrow> bool \<times> project_state" where
  "clear_agent_generation cid generation p =
     (if btm_get (pj_generations p) cid \<noteq> Some generation then (False, p)
      else (True, p\<lparr>pj_generations := btm_remove cid (pj_generations p)\<rparr>))"

definition begin_agent_generation ::
    "io_error + entropy \<Rightarrow> chat_id \<Rightarrow> project_state \<Rightarrow>
     (id_allocation_error + agent_generation option) \<times> project_state" where
  "begin_agent_generation urandom cid p =
     (case urandom of
        Inl error \<Rightarrow> (Inl (identity_allocation_error error), p)
      | Inr source \<Rightarrow> begin_agent_generation_with_source cid source p)"

section \<open>Messages\<close>

definition MAX_CHAT_MESSAGE_BYTES :: nat where "MAX_CHAT_MESSAGE_BYTES = 64 * 1024"

definition CHAT_MESSAGE_TRUNCATION_NOTICE :: ustring where
  "CHAT_MESSAGE_TRUNCATION_NOTICE = 10 # ascii ''[truncated]''"

text \<open>The retreat to a character boundary, from \<open>keep\<close> downwards.\<close>

primrec retreat_to_boundary :: "ustring \<Rightarrow> nat \<Rightarrow> nat" where
  "retreat_to_boundary s 0 = 0"
| "retreat_to_boundary s (Suc keep) =
     (if is_char_boundary (Suc keep) s then Suc keep else retreat_to_boundary s keep)"

definition str_prefix :: "nat \<Rightarrow> ustring \<Rightarrow> ustring" where
  "str_prefix n s = (case split_at_byte n s of Some (before, _) \<Rightarrow> before | None \<Rightarrow> [])"

definition push_capped_message_text :: "ustring \<Rightarrow> ustring \<Rightarrow> bool \<times> ustring" where
  "push_capped_message_text existing s =
     (let content_limit = MAX_CHAT_MESSAGE_BYTES - byte_len CHAT_MESSAGE_TRUNCATION_NOTICE in
      if content_limit < byte_len existing then (False, existing)
      else
        let budget = content_limit - byte_len existing in
        if budget = 0 then (False, existing)
        else if byte_len s \<le> budget then (True, existing @ s)
        else (True, existing @ str_prefix (retreat_to_boundary s budget) s @ CHAT_MESSAGE_TRUNCATION_NOTICE))"

definition append_chat_message ::
    "workspace_id \<Rightarrow> chat_id \<Rightarrow> message_role \<Rightarrow> ustring \<Rightarrow> project_state \<Rightarrow> bool \<times> project_state" where
  "append_chat_message wid cid role s p =
     (if s = [] then (False, p)
      else if find_chat wid cid p = None then (False, p)
      else (True, update_chat wid cid (\<lambda>c. c\<lparr>ct_messages := ct_messages c @
              [\<lparr>cm_role = role, cm_text = snd (push_capped_message_text [] s)\<rparr>]\<rparr>) p))"

definition append_chat_delta ::
    "workspace_id \<Rightarrow> chat_id \<Rightarrow> message_role \<Rightarrow> ustring \<Rightarrow> project_state \<Rightarrow> bool \<times> project_state" where
  "append_chat_delta wid cid role s p =
     (if s = [] then (False, p)
      else case find_chat wid cid p of
        None \<Rightarrow> (False, p)
      | Some c \<Rightarrow>
          if ct_messages c \<noteq> [] \<and> cm_role (last (ct_messages c)) = role
          then (case push_capped_message_text (cm_text (last (ct_messages c))) s of
                  (changed, s') \<Rightarrow>
                    (changed, update_chat wid cid (\<lambda>c. c\<lparr>ct_messages :=
                       butlast (ct_messages c) @ [(last (ct_messages c))\<lparr>cm_text := s'\<rparr>]\<rparr>) p))
          else (True, update_chat wid cid (\<lambda>c. c\<lparr>ct_messages := ct_messages c @
                  [\<lparr>cm_role = role, cm_text = snd (push_capped_message_text [] s)\<rparr>]\<rparr>) p))"

end
