(* ===== verification/Project_Repair.thy ===== *)
theory Project_Repair
  imports Project
begin

text \<open>
  Checking and repairing a decoded project (\<open>validate_session_identities\<close>,
  \<open>normalize_next_ids\<close>, \<open>normalize_session_identities\<close> in \<open>src/model.rs\<close>).
\<close>

section \<open>Validation\<close>

definition bts_len :: "('k::linorder, 'v) btmap \<Rightarrow> nat" where
  "bts_len s = length (btm_entries s)"

definition validate_session_identities :: "project_state \<Rightarrow> string + unit" where
  "validate_session_identities p =
     (let wids = bts_of_list (map workspace_id_raw (workspace_ids p)) in
      if bts_len wids \<noteq> length (pj_workspaces p) \<or> btm_contains wids 0
      then Inl ''workspace IDs must be non-zero and unique''
      else
        let chat_count = sum_list (map (\<lambda>w. length (ws_chats w)) (pj_workspaces p));
            cids = bts_of_list (chat_ids p) in
        if bts_len cids \<noteq> chat_count \<or> (\<exists>i \<in> set (btm_keys cids). \<not> is_valid_durable_session_id (chat_id_raw i))
        then Inl ''chat IDs must be unique, non-zero durable IDs''
        else
          let terminal_count = sum_list (map (\<lambda>w. length (ws_terminals w)) (pj_workspaces p));
              tids = bts_of_list (terminal_ids p) in
          if bts_len tids \<noteq> terminal_count \<or>
             (\<exists>i \<in> set (btm_keys tids). \<not> is_valid_durable_session_id (terminal_id_raw i))
          then Inl ''terminal IDs must be unique, non-zero durable IDs''
          else
            let chats = si_chats (pj_identities p); terminals = si_terminals (pj_identities p) in
            if bts_len cids \<noteq> bts_len chats \<or> (\<exists>i \<in> set (btm_keys cids). \<not> btm_contains chats i)
            then Inl ''chat session identity table does not match durable chats''
            else if bts_len tids \<noteq> bts_len terminals \<or> (\<exists>i \<in> set (btm_keys tids). \<not> btm_contains terminals i)
            then Inl ''terminal session identity table does not match durable terminals''
            else if bts_len (bts_of_list (project_tokens p)) \<noteq> bts_len chats + bts_len terminals
            then Inl ''durable session tokens must be unique within a state namespace''
            else if \<exists>i \<in> set (btm_keys (pj_generations p)). \<not> btm_contains cids i
            then Inl ''active agent generation table references a missing chat''
            else if bts_len (bts_of_list (btm_values (pj_generations p))) \<noteq> bts_len (pj_generations p)
            then Inl ''active agent generations must be unique within durable state''
            else Inr ())"

section \<open>Repairing the numbers\<close>

text \<open>A loop that threads a state and stops at the first error.\<close>

primrec traverse :: "('a \<Rightarrow> 's \<Rightarrow> 'e + ('b \<times> 's)) \<Rightarrow> 'a list \<Rightarrow> 's \<Rightarrow> 'e + ('b list \<times> 's)" where
  "traverse f [] s = Inr ([], s)"
| "traverse f (x # xs) s =
     bind_sum (f x s) (\<lambda>(y, s). bind_sum (traverse f xs s) (\<lambda>(ys, s). Inr (y # ys, s)))"

record renumbering =
  rn_used :: "u64 btset"
  rn_seen :: "u64 btset"
  rn_next :: u64
  rn_changed :: bool

definition renumber_one ::
    "(u64 \<Rightarrow> bool) \<Rightarrow> u64 \<Rightarrow> 'e \<Rightarrow> u64 \<Rightarrow> renumbering \<Rightarrow> 'e + (u64 \<times> renumbering)" where
  "renumber_one valid limit error i s =
     (if valid i \<and> \<not> btm_contains (rn_seen s) i
      then Inr (i, s\<lparr>rn_seen := bts_insert i (rn_seen s)\<rparr>)
      else case take_available_id (rn_used s) (rn_next s) limit of
             None \<Rightarrow> Inl error
           | Some ((j, n), used) \<Rightarrow>
               Inr (j, s\<lparr>rn_used := used, rn_seen := bts_insert j (rn_seen s), rn_next := n, rn_changed := True\<rparr>))"

definition renumbering_start :: "u64 list \<Rightarrow> renumbering" where
  "renumbering_start used = \<lparr>rn_used = bts_of_list used, rn_seen = btm_empty, rn_next = 1, rn_changed = False\<rparr>"

definition renumber_chats :: "workspace \<Rightarrow> renumbering \<Rightarrow> id_allocation_error + (workspace \<times> renumbering)" where
  "renumber_chats w s =
     bind_sum (traverse (\<lambda>c s. bind_sum
         (renumber_one is_valid_durable_session_id MAX_DURABLE_SESSION_ID IAChat (chat_id_raw (ct_id c)) s)
         (\<lambda>(i, s). Inr (c\<lparr>ct_id := ChatId i\<rparr>, s))) (ws_chats w) s)
       (\<lambda>(cs, s). Inr (w\<lparr>ws_chats := cs\<rparr>, s))"

definition renumber_terminals :: "workspace \<Rightarrow> renumbering \<Rightarrow> id_allocation_error + (workspace \<times> renumbering)" where
  "renumber_terminals w s =
     bind_sum (traverse (\<lambda>t s. bind_sum
         (renumber_one is_valid_durable_session_id MAX_DURABLE_SESSION_ID IATerminal (terminal_id_raw (tm_id t)) s)
         (\<lambda>(i, s). Inr (t\<lparr>tm_id := TerminalId i\<rparr>, s))) (ws_terminals w) s)
       (\<lambda>(ts, s). Inr (w\<lparr>ws_terminals := ts\<rparr>, s))"

definition renumber_workspace :: "workspace \<Rightarrow> renumbering \<Rightarrow> id_allocation_error + (workspace \<times> renumbering)" where
  "renumber_workspace w s =
     bind_sum (renumber_one (\<lambda>i. i \<noteq> 0) (- 1) IAWorkspace (workspace_id_raw (ws_id w)) s)
       (\<lambda>(i, s). Inr (w\<lparr>ws_id := WorkspaceId i\<rparr>, s))"

definition normalize_existing_ids :: "project_state \<Rightarrow> id_allocation_error + (bool \<times> project_state)" where
  "normalize_existing_ids p =
     bind_sum (traverse renumber_workspace (pj_workspaces p)
         (renumbering_start (filter (\<lambda>i. i \<noteq> 0) (map workspace_id_raw (workspace_ids p)))))
     (\<lambda>(ws, s1). let p = p\<lparr>pj_workspaces := ws\<rparr> in
      bind_sum (traverse renumber_chats (pj_workspaces p)
         (renumbering_start (filter is_valid_durable_session_id (map chat_id_raw (chat_ids p)))))
     (\<lambda>(ws, s2). let p = p\<lparr>pj_workspaces := ws\<rparr> in
      bind_sum (traverse renumber_terminals (pj_workspaces p)
         (renumbering_start (filter is_valid_durable_session_id (map terminal_id_raw (terminal_ids p)))))
     (\<lambda>(ws, s3). Inr (rn_changed s1 \<or> rn_changed s2 \<or> rn_changed s3, p\<lparr>pj_workspaces := ws\<rparr>))))"

text \<open>The counts are added in \<open>u128\<close>, saturating; a list's length is a \<open>u64\<close>.\<close>

definition ensure_id_capacity :: "project_state \<Rightarrow> id_allocation_error + unit" where
  "ensure_id_capacity p =
     (let add = (\<lambda>count n. min (count + n) (2 ^ 128 - 1)) in
      if unat MAX_DURABLE_SESSION_ID < foldl (\<lambda>count w. add count (length (ws_chats w))) 0 (pj_workspaces p)
      then Inl IAChat
      else if unat MAX_DURABLE_SESSION_ID < foldl (\<lambda>count w. add count (length (ws_terminals w))) 0 (pj_workspaces p)
      then Inl IATerminal
      else Inr ())"

definition normalize_next_ids :: "project_state \<Rightarrow> id_allocation_error + (bool \<times> project_state)" where
  "normalize_next_ids p =
     bind_sum (ensure_id_capacity p) (\<lambda>_.
     bind_sum (normalize_existing_ids p) (\<lambda>(changed, p).
       let w = normalized_allocator_hint (pj_next_workspace_id p)
                 (bts_of_list (map workspace_id_raw (workspace_ids p))) (- 1);
           c = normalized_allocator_hint (pj_next_chat_id p)
                 (bts_of_list (map chat_id_raw (chat_ids p))) MAX_DURABLE_SESSION_ID;
           t = normalized_allocator_hint (pj_next_terminal_id p)
                 (bts_of_list (map terminal_id_raw (terminal_ids p))) MAX_DURABLE_SESSION_ID
       in Inr (changed \<or> pj_next_workspace_id p \<noteq> w \<or> pj_next_chat_id p \<noteq> c \<or> pj_next_terminal_id p \<noteq> t,
               p\<lparr>pj_next_workspace_id := w, pj_next_chat_id := c, pj_next_terminal_id := t\<rparr>)))"

section \<open>Repairing the identity table\<close>

text \<open>
  \<open>retain\<close> with a closure that remembers what it kept: an entry stays when its session exists and
  its value was not kept before.
\<close>

primrec kept_keys :: "('k \<Rightarrow> bool) \<Rightarrow> 'v::linorder btset \<Rightarrow> ('k \<times> 'v) list \<Rightarrow> 'k list \<times> 'v btset" where
  "kept_keys present seen [] = ([], seen)"
| "kept_keys present seen (e # es) =
     (if present (fst e) \<and> \<not> btm_contains seen (snd e)
      then (case kept_keys present (bts_insert (snd e) seen) es of (ks, seen) \<Rightarrow> (fst e # ks, seen))
      else kept_keys present seen es)"

definition retain_fresh ::
    "('k::linorder \<Rightarrow> bool) \<Rightarrow> 'v::linorder btset \<Rightarrow> ('k, 'v) btmap \<Rightarrow> ('k, 'v) btmap \<times> 'v btset" where
  "retain_fresh present seen m =
     (case kept_keys present seen (btm_entries m) of
        (ks, seen) \<Rightarrow> (btm_filter (\<lambda>(k, v). k \<in> set ks) m, seen))"

primrec mint_chat_tokens ::
    "chat_id list \<Rightarrow> entropy \<Rightarrow> bool \<Rightarrow> project_state \<Rightarrow> io_error + (bool \<times> project_state \<times> entropy)" where
  "mint_chat_tokens [] source changed p = Inr (changed, p, source)"
| "mint_chat_tokens (i # is) source changed p =
     (if btm_contains (si_chats (pj_identities p)) i then mint_chat_tokens is source changed p
      else case allocate_session_token p source of
             (Inl error, _) \<Rightarrow> Inl (allocation_io_error error)
           | (Inr token, source) \<Rightarrow>
               mint_chat_tokens is source True
                 (p\<lparr>pj_identities := (pj_identities p)\<lparr>si_chats := btm_insert i token (si_chats (pj_identities p))\<rparr>\<rparr>))"

primrec mint_terminal_tokens ::
    "terminal_id list \<Rightarrow> entropy \<Rightarrow> bool \<Rightarrow> project_state \<Rightarrow> io_error + (bool \<times> project_state \<times> entropy)" where
  "mint_terminal_tokens [] source changed p = Inr (changed, p, source)"
| "mint_terminal_tokens (i # is) source changed p =
     (if btm_contains (si_terminals (pj_identities p)) i then mint_terminal_tokens is source changed p
      else case allocate_session_token p source of
             (Inl error, _) \<Rightarrow> Inl (allocation_io_error error)
           | (Inr token, source) \<Rightarrow>
               mint_terminal_tokens is source True
                 (p\<lparr>pj_identities := (pj_identities p)
                     \<lparr>si_terminals := btm_insert i token (si_terminals (pj_identities p))\<rparr>\<rparr>))"

definition normalize_session_identities ::
    "entropy \<Rightarrow> project_state \<Rightarrow> io_error + (bool \<times> project_state \<times> entropy)" where
  "normalize_session_identities source p =
     (let cids = bts_of_list (chat_ids p);
          tids = bts_of_list (terminal_ids p);
          ids = pj_identities p;
          (chats, seen) = retain_fresh (btm_contains cids) btm_empty (si_chats ids);
          (terminals, seen) = retain_fresh (btm_contains tids) seen (si_terminals ids);
          (generations, _) = retain_fresh (btm_contains cids) btm_empty (pj_generations p);
          changed = (bts_len chats + bts_len terminals \<noteq> bts_len (si_chats ids) + bts_len (si_terminals ids) \<or>
                     bts_len generations \<noteq> bts_len (pj_generations p));
          p = p\<lparr>pj_identities := \<lparr>si_chats = chats, si_terminals = terminals\<rparr>, pj_generations := generations\<rparr>
      in bind_sum (mint_chat_tokens (btm_keys cids) source changed p) (\<lambda>(changed, p, source).
           mint_terminal_tokens (btm_keys tids) source changed p))"

end
