(* ===== verification/Project_Invariant.thy ===== *)
theory Project_Invariant
  imports Project_Repair "HOL-Library.Multiset"
begin

text \<open>
  What makes a project valid, and that every operation of \<open>src/model.rs\<close> keeps it so, that the
  identity of a session never changes while it lives, and that repair makes any decoded project
  valid and leaves a valid one alone.
\<close>

section \<open>Sizes and values of maps\<close>

lemma bts_len_card: "bts_len m = card {k. btm_contains m k}"
  using length_btm_keys [of m] by (simp add: bts_len_def btm_keys_def)

lemma finite_contains [simp]: "finite {k. btm_contains m k}"
  by (simp add: set_btm_keys [symmetric])

lemma bts_len_of_list: "bts_len (bts_of_list xs) = length xs \<longleftrightarrow> distinct xs"
  by (simp add: bts_len_card) (metis card_distinct distinct_card)

lemma bts_len_of_list_card: "bts_len (bts_of_list xs) = card (set xs)"
  by (simp add: bts_len_card)

lemma set_btm_values: "set (btm_values m) = {v. \<exists>k. btm_get m k = Some v}"
  by (force simp: btm_values_def btm.entries_set)

lemma distinct_btm_values:
  "distinct (btm_values m) \<longleftrightarrow> (\<forall>k k' v. btm_get m k = Some v \<longrightarrow> btm_get m k' = Some v \<longrightarrow> k = k')"
  by (auto simp: btm_values_def distinct_map btm.entries_distinct inj_on_def btm.entries_set)

lemma length_btm_values: "length (btm_values m) = bts_len m"
  by (simp add: btm_values_def bts_len_def)

lemma same_keys:
  assumes "bts_len s = bts_len m" and "\<forall>k \<in> set (btm_keys s). btm_contains m k"
  shows "btm_contains m k \<longleftrightarrow> btm_contains s k"
proof -
  have "{k. btm_contains s k} = {k. btm_contains m k}"
    using assms by (intro card_subset_eq) (auto simp: bts_len_card set_btm_keys)
  then show ?thesis by blast
qed

section \<open>Valid projects\<close>

definition project_ok :: "project_state \<Rightarrow> bool" where
  "project_ok p \<longleftrightarrow> validate_session_identities p = Inr ()"

definition ids_ok :: "project_state \<Rightarrow> bool" where
  "ids_ok p \<longleftrightarrow>
     distinct (workspace_ids p) \<and> WorkspaceId 0 \<notin> set (workspace_ids p) \<and>
     distinct (chat_ids p) \<and> (\<forall>i \<in> set (chat_ids p). is_valid_durable_session_id (chat_id_raw i)) \<and>
     distinct (terminal_ids p) \<and> (\<forall>i \<in> set (terminal_ids p). is_valid_durable_session_id (terminal_id_raw i))"

definition table_ok :: "project_state \<Rightarrow> bool" where
  "table_ok p \<longleftrightarrow>
     (\<forall>k. session_identity_of k p \<noteq> None \<longleftrightarrow>
        (case k of PtyTerminal t \<Rightarrow> t \<in> set (terminal_ids p) | PtyChatAgent c \<Rightarrow> c \<in> set (chat_ids p))) \<and>
     (\<forall>k k' s. session_identity_of k p = Some s \<longrightarrow> session_identity_of k' p = Some s \<longrightarrow> k = k')"

definition generations_ok :: "project_state \<Rightarrow> bool" where
  "generations_ok p \<longleftrightarrow>
     (\<forall>c. btm_contains (pj_generations p) c \<longrightarrow> c \<in> set (chat_ids p)) \<and> distinct (btm_values (pj_generations p))"

lemma distinct_raw_workspaces: "distinct (map workspace_id_raw xs) \<longleftrightarrow> distinct xs"
  by (simp add: distinct_map inj_on_def workspace_id.expand)

lemma tokens_injective:
  "distinct (project_tokens p) \<longleftrightarrow>
   (\<forall>k k' s. session_identity_of k p = Some s \<longrightarrow> session_identity_of k' p = Some s \<longrightarrow> k = k')"
    (is "?l = ?r")
proof
  assume ?l
  then show ?r
    by (auto simp: project_tokens_def distinct_btm_values set_btm_values session_identity_of_def
        split: pty_key.splits)
next
  assume r: ?r
  have "c = c'" if "btm_get (si_chats (pj_identities p)) c = Some t" "btm_get (si_chats (pj_identities p)) c' = Some t" for c c' t
    using r [rule_format, of "PtyChatAgent c" _ "PtyChatAgent c'"] that by (simp add: session_identity_of_def)
  moreover have "c = c'" if "btm_get (si_terminals (pj_identities p)) c = Some t"
      "btm_get (si_terminals (pj_identities p)) c' = Some t" for c c' t
    using r [rule_format, of "PtyTerminal c" _ "PtyTerminal c'"] that by (simp add: session_identity_of_def)
  moreover have False if "btm_get (si_chats (pj_identities p)) c = Some t"
      "btm_get (si_terminals (pj_identities p)) c' = Some t" for c c' t
    using r [rule_format, of "PtyChatAgent c" _ "PtyTerminal c'"] that by (simp add: session_identity_of_def)
  ultimately show ?l
    by (auto simp: project_tokens_def distinct_btm_values set_btm_values)
qed

lemma tokens_distinct:
  "bts_len (bts_of_list (project_tokens p)) = bts_len (si_chats (pj_identities p)) + bts_len (si_terminals (pj_identities p))
   \<longleftrightarrow> distinct (project_tokens p)"
  using bts_len_of_list [of "project_tokens p"] by (simp add: project_tokens_def length_btm_values)

lemma table_keys:
  "(bts_len (bts_of_list xs) = bts_len m \<and> (\<forall>i \<in> set (btm_keys (bts_of_list xs)). btm_contains m i)) \<longleftrightarrow>
   (\<forall>i. btm_contains m i \<longleftrightarrow> i \<in> set xs)"
proof
  assume "bts_len (bts_of_list xs) = bts_len m \<and> (\<forall>i \<in> set (btm_keys (bts_of_list xs)). btm_contains m i)"
  then show "\<forall>i. btm_contains m i \<longleftrightarrow> i \<in> set xs" using same_keys [of "bts_of_list xs" m] by simp
next
  assume "\<forall>i. btm_contains m i \<longleftrightarrow> i \<in> set xs"
  then show "bts_len (bts_of_list xs) = bts_len m \<and> (\<forall>i \<in> set (btm_keys (bts_of_list xs)). btm_contains m i)"
    by (simp add: bts_len_card set_btm_keys)
qed

lemma session_identity_contains:
  "session_identity_of (PtyChatAgent c) p \<noteq> None \<longleftrightarrow> btm_contains (si_chats (pj_identities p)) c"
  "session_identity_of (PtyTerminal t) p \<noteq> None \<longleftrightarrow> btm_contains (si_terminals (pj_identities p)) t"
  by (simp_all add: session_identity_of_def btm_contains_def)

lemma table_ok_iff:
  "table_ok p \<longleftrightarrow>
     (\<forall>c. btm_contains (si_chats (pj_identities p)) c \<longleftrightarrow> c \<in> set (chat_ids p)) \<and>
     (\<forall>t. btm_contains (si_terminals (pj_identities p)) t \<longleftrightarrow> t \<in> set (terminal_ids p)) \<and>
     distinct (project_tokens p)"
proof -
  have keys: "(\<forall>k. P k) \<longleftrightarrow> (\<forall>c. P (PtyChatAgent c)) \<and> (\<forall>t. P (PtyTerminal t))" for P
    by (metis pty_key.exhaust)
  show ?thesis
    unfolding table_ok_def tokens_injective [symmetric]
    by (subst keys) (simp add: session_identity_of_def btm_contains_def)
qed

lemma project_ok_iff: "project_ok p \<longleftrightarrow> ids_ok p \<and> table_ok p \<and> generations_ok p"
proof -
  have counts: "sum_list (map (\<lambda>w. length (ws_chats w)) (pj_workspaces p)) = length (chat_ids p)"
    "sum_list (map (\<lambda>w. length (ws_terminals w)) (pj_workspaces p)) = length (terminal_ids p)"
    "length (pj_workspaces p) = length (map workspace_id_raw (workspace_ids p))"
    by (simp_all add: chat_ids_def terminal_ids_def workspace_ids_def length_concat comp_def)
  have ws: "btm_contains (bts_of_list (map workspace_id_raw (workspace_ids p))) 0 \<longleftrightarrow> WorkspaceId 0 \<in> set (workspace_ids p)"
    unfolding bts_contains_of_list set_map image_iff by (metis workspace_id.collapse workspace_id.sel)
  have ks: "set (btm_keys (bts_of_list xs)) = set xs" for xs :: "'k::linorder list"
    by (simp add: set_btm_keys)
  have ifs: "(if a then Inl e else r) = Inr () \<longleftrightarrow> \<not> a \<and> r = Inr ()" for a and e :: string and r
    by auto
  show ?thesis
    unfolding project_ok_def validate_session_identities_def Let_def counts ifs ws
      ids_ok_def table_ok_iff generations_ok_def table_keys [symmetric] de_Morgan_disj not_not
      bts_len_of_list tokens_distinct distinct_raw_workspaces ks
    using bts_len_of_list [of "btm_values (pj_generations p)"]
    by (auto simp: length_btm_values set_btm_keys)
qed

section \<open>Lists of workspaces\<close>

lemma mset_update_first_add:
  assumes "find P xs = Some x" and "mset (g (f x)) = add_mset a (mset (g x))"
  shows "mset (concat (map g (update_first P f xs))) = add_mset a (mset (concat (map g xs)))"
  using assms by (induction xs) (auto split: if_splits)

lemma mset_update_first_del:
  assumes "find P xs = Some x" and "mset (g x) = add_mset a (mset (g (f x)))"
  shows "mset (concat (map g xs)) = add_mset a (mset (concat (map g (update_first P f xs))))"
  using assms by (induction xs) (auto split: if_splits)

lemma map_update_first:
  assumes "\<And>x. P x \<Longrightarrow> g (f x) = g x"
  shows "map g (update_first P f xs) = map g xs"
  using assms by (induction xs) auto

lemma mset_remove_first: "find P xs = Some x \<Longrightarrow> mset xs = add_mset x (mset (remove_first P xs))"
  by (induction xs) (auto split: if_splits)

lemma map_remove_first: "find P xs = Some x \<Longrightarrow> mset (map g xs) = add_mset (g x) (mset (map g (remove_first P xs)))"
  by (induction xs) (auto split: if_splits)

lemma mset_concat_remove_first:
  "find P xs = Some x \<Longrightarrow> mset (concat (map g xs)) = mset (g x) + mset (concat (map g (remove_first P xs)))"
  by (induction xs) (auto split: if_splits)

lemma distinct_add_mset: "mset ys = add_mset a (mset xs) \<Longrightarrow> distinct ys \<longleftrightarrow> distinct xs \<and> a \<notin> set xs"
  by (metis distinct.simps(2) mset.simps(2) mset_eq_imp_distinct_iff)

lemma set_add_mset: "mset ys = add_mset a (mset xs) \<Longrightarrow> set ys = insert a (set xs)"
  by (metis list.simps(15) mset.simps(2) mset_eq_setD)

lemma set_union_mset: "mset ys = mset zs + mset xs \<Longrightarrow> set ys = set zs \<union> set xs"
  by (metis mset_append mset_eq_setD set_append)

lemma distinct_union_mset:
  "mset ys = mset zs + mset xs \<Longrightarrow> distinct ys \<longleftrightarrow> distinct zs \<and> distinct xs \<and> set zs \<inter> set xs = {}"
  by (metis distinct_append mset_append mset_eq_imp_distinct_iff)

lemma ids_update_workspace:
  "(\<And>w. ws_id (f w) = ws_id w) \<Longrightarrow> workspace_ids (update_workspace wid f p) = workspace_ids p"
  by (simp add: workspace_ids_def update_workspace_def map_update_first)

lemma update_workspace_fields [simp]:
  "pj_namespace (update_workspace wid f p) = pj_namespace p"
  "pj_identities (update_workspace wid f p) = pj_identities p"
  "pj_generations (update_workspace wid f p) = pj_generations p"
  by (simp_all add: update_workspace_def)

lemma ids_fields [simp]:
  "chat_ids (p\<lparr>pj_identities := x\<rparr>) = chat_ids p" "chat_ids (p\<lparr>pj_generations := y\<rparr>) = chat_ids p"
  "chat_ids (p\<lparr>pj_next_chat_id := n\<rparr>) = chat_ids p" "chat_ids (p\<lparr>pj_next_terminal_id := n\<rparr>) = chat_ids p"
  "chat_ids (p\<lparr>pj_next_workspace_id := n\<rparr>) = chat_ids p"
  "terminal_ids (p\<lparr>pj_identities := x\<rparr>) = terminal_ids p" "terminal_ids (p\<lparr>pj_generations := y\<rparr>) = terminal_ids p"
  "terminal_ids (p\<lparr>pj_next_chat_id := n\<rparr>) = terminal_ids p"
  "terminal_ids (p\<lparr>pj_next_terminal_id := n\<rparr>) = terminal_ids p"
  "terminal_ids (p\<lparr>pj_next_workspace_id := n\<rparr>) = terminal_ids p"
  "workspace_ids (p\<lparr>pj_identities := x\<rparr>) = workspace_ids p" "workspace_ids (p\<lparr>pj_generations := y\<rparr>) = workspace_ids p"
  "workspace_ids (p\<lparr>pj_next_chat_id := n\<rparr>) = workspace_ids p"
  "workspace_ids (p\<lparr>pj_next_terminal_id := n\<rparr>) = workspace_ids p"
  "workspace_ids (p\<lparr>pj_next_workspace_id := n\<rparr>) = workspace_ids p"
  by (simp_all add: chat_ids_def terminal_ids_def workspace_ids_def)

section \<open>Adding\<close>

lemma generate_identity_fresh:
  assumes "generate_identity mk collision source = (Inr i, rest)"
  shows "\<not> collision i"
proof -
  have "generate_identity_tries n mk collision source = (Inr i, rest) \<Longrightarrow> \<not> collision i" for n
    by (induction n arbitrary: source) (auto split: sum.splits option.splits if_splits)
  then show ?thesis using assms by (simp add: generate_identity_def)
qed

lemma allocate_session_token_fresh:
  "allocate_session_token p source = (Inr t, rest) \<Longrightarrow> t \<notin> set (project_tokens p)"
  using generate_identity_fresh [of SessionToken "\<lambda>t. t \<in> set (project_tokens p)" source]
  by (auto simp: allocate_session_token_def map_err_Inr_iff split: prod.splits)

lemma allocate_chat_id_fresh:
  assumes "allocate_chat_id p = (Inr i, p')"
  shows "i \<notin> set (chat_ids p) \<and> is_valid_durable_session_id (chat_id_raw i) \<and> (\<exists>n. p' = p\<lparr>pj_next_chat_id := n\<rparr>)"
proof -
  obtain j n used where t: "take_available_id (bts_of_list (filter is_valid_durable_session_id (map chat_id_raw (chat_ids p))))
      (pj_next_chat_id p) MAX_DURABLE_SESSION_ID = Some ((j, n), used)" and i: "i = ChatId j" "p' = p\<lparr>pj_next_chat_id := n\<rparr>"
    using assms by (auto simp: allocate_chat_id_def split: option.splits)
  show ?thesis
    using take_available_id_Some [OF t] i by (force simp: is_valid_durable_session_id_def)
qed

lemma allocate_terminal_id_fresh:
  assumes "allocate_terminal_id p = (Inr i, p')"
  shows "i \<notin> set (terminal_ids p) \<and> is_valid_durable_session_id (terminal_id_raw i) \<and>
    (\<exists>n. p' = p\<lparr>pj_next_terminal_id := n\<rparr>)"
proof -
  obtain j n used where t: "take_available_id (bts_of_list (filter is_valid_durable_session_id (map terminal_id_raw (terminal_ids p))))
      (pj_next_terminal_id p) MAX_DURABLE_SESSION_ID = Some ((j, n), used)" and i: "i = TerminalId j" "p' = p\<lparr>pj_next_terminal_id := n\<rparr>"
    using assms by (auto simp: allocate_terminal_id_def split: option.splits)
  show ?thesis
    using take_available_id_Some [OF t] i by (force simp: is_valid_durable_session_id_def)
qed

lemma allocate_workspace_id_fresh:
  assumes "allocate_workspace_id p = (Inr i, p')"
  shows "i \<notin> set (workspace_ids p) \<and> i \<noteq> WorkspaceId 0 \<and> (\<exists>n. p' = p\<lparr>pj_next_workspace_id := n\<rparr>)"
proof -
  obtain j n used where t: "take_available_id (bts_of_list (map workspace_id_raw (workspace_ids p)))
      (pj_next_workspace_id p) (- 1) = Some ((j, n), used)" and i: "i = WorkspaceId j" "p' = p\<lparr>pj_next_workspace_id := n\<rparr>"
    using assms by (auto simp: allocate_workspace_id_def split: option.splits)
  show ?thesis
    using take_available_id_Some [OF t] i by (force simp: u64_pos)
qed

text \<open>
  A project with one more session, whose number and token are fresh, is valid; so is one with one
  less, whose entries are removed.
\<close>

lemma identity_update:
  "session_identity_of k (p\<lparr>pj_identities := (pj_identities p)\<lparr>si_chats := btm_insert c t (si_chats (pj_identities p))\<rparr>\<rparr>) =
     (if k = PtyChatAgent c then Some (SessionIdentity (pj_namespace p) t) else session_identity_of k p)"
  "session_identity_of k (p\<lparr>pj_identities := (pj_identities p)\<lparr>si_terminals := btm_insert u t (si_terminals (pj_identities p))\<rparr>\<rparr>) =
     (if k = PtyTerminal u then Some (SessionIdentity (pj_namespace p) t) else session_identity_of k p)"
  "session_identity_of k (forget_chat c p) = (if k = PtyChatAgent c then None else session_identity_of k p)"
  "session_identity_of k (forget_terminal u p) = (if k = PtyTerminal u then None else session_identity_of k p)"
  by (auto simp: session_identity_of_def forget_chat_def forget_terminal_def split: pty_key.splits)

lemma identity_fields [simp]:
  "session_identity_of k (update_workspace wid f p) = session_identity_of k p"
  "session_identity_of k (p\<lparr>pj_generations := y\<rparr>) = session_identity_of k p"
  "session_identity_of k (p\<lparr>pj_next_chat_id := n\<rparr>) = session_identity_of k p"
  "session_identity_of k (p\<lparr>pj_next_terminal_id := n\<rparr>) = session_identity_of k p"
  "session_identity_of k (p\<lparr>pj_next_workspace_id := n\<rparr>) = session_identity_of k p"
  "session_identity_of k (p\<lparr>pj_workspaces := ws\<rparr>) = session_identity_of k p"
  by (simp_all add: session_identity_of_def split: pty_key.split)

lemma token_fresh_identity:
  "t \<notin> set (project_tokens p) \<Longrightarrow> session_identity_of k p \<noteq> Some (SessionIdentity (pj_namespace p) t)"
  by (auto simp: session_identity_of_def project_tokens_def set_btm_values split: pty_key.splits)


lemma ok_add_chat:
  assumes ok: "project_ok p" and c: "c \<notin> set (chat_ids p)" "is_valid_durable_session_id (chat_id_raw c)"
    and s: "\<forall>k. session_identity_of k p \<noteq> Some s"
    and ids: "mset (chat_ids p') = add_mset c (mset (chat_ids p))"
    and same: "workspace_ids p' = workspace_ids p" "terminal_ids p' = terminal_ids p"
      "pj_generations p' = pj_generations p"
    and table: "\<And>k. session_identity_of k p' = (if k = PtyChatAgent c then Some s else session_identity_of k p)"
  shows "project_ok p'"
proof -
  have "ids_ok p'"
    using ok c same distinct_add_mset [OF ids] set_add_mset [OF ids] by (auto simp: project_ok_iff ids_ok_def)
  moreover have "table_ok p'"
    using ok s same(2) set_add_mset [OF ids] unfolding project_ok_iff table_ok_def table
    by (auto split: pty_key.splits)
  moreover have "generations_ok p'"
    using ok same(3) set_add_mset [OF ids] by (auto simp: project_ok_iff generations_ok_def)
  ultimately show ?thesis by (simp add: project_ok_iff)
qed

lemma ok_add_terminal:
  assumes ok: "project_ok p" and c: "u \<notin> set (terminal_ids p)" "is_valid_durable_session_id (terminal_id_raw u)"
    and s: "\<forall>k. session_identity_of k p \<noteq> Some s"
    and ids: "mset (terminal_ids p') = add_mset u (mset (terminal_ids p))"
    and same: "workspace_ids p' = workspace_ids p" "chat_ids p' = chat_ids p"
      "pj_generations p' = pj_generations p"
    and table: "\<And>k. session_identity_of k p' = (if k = PtyTerminal u then Some s else session_identity_of k p)"
  shows "project_ok p'"
proof -
  have "ids_ok p'"
    using ok c same distinct_add_mset [OF ids] set_add_mset [OF ids] by (auto simp: project_ok_iff ids_ok_def)
  moreover have "table_ok p'"
    using ok s same(2) set_add_mset [OF ids] unfolding project_ok_iff table_ok_def table
    by (auto split: pty_key.splits)
  moreover have "generations_ok p'"
    using ok same by (simp add: project_ok_iff generations_ok_def)
  ultimately show ?thesis by (simp add: project_ok_iff)
qed

text \<open>Removing a set of sessions, whatever workspaces stay.\<close>

definition gone :: "pty_key set \<Rightarrow> project_state \<Rightarrow> project_state \<Rightarrow> bool" where
  "gone ks p p' \<longleftrightarrow>
     (\<forall>k. session_identity_of k p' = (if k \<in> ks then None else session_identity_of k p)) \<and>
     (\<forall>c. btm_get (pj_generations p') c = (if PtyChatAgent c \<in> ks then None else btm_get (pj_generations p) c))"

lemma ok_remove:
  assumes ok: "project_ok p" and g: "gone ks p p'"
    and w: "distinct (workspace_ids p')" "set (workspace_ids p') \<subseteq> set (workspace_ids p)"
    and c: "distinct (chat_ids p')" "set (chat_ids p') = {c \<in> set (chat_ids p). PtyChatAgent c \<notin> ks}"
    and u: "distinct (terminal_ids p')" "set (terminal_ids p') = {u \<in> set (terminal_ids p). PtyTerminal u \<notin> ks}"
  shows "project_ok p'"
proof -
  have table: "session_identity_of k p' = (if k \<in> ks then None else session_identity_of k p)" for k
    using g by (simp add: gone_def)
  have gens: "btm_get (pj_generations p') i = (if PtyChatAgent i \<in> ks then None else btm_get (pj_generations p) i)" for i
    using g by (simp add: gone_def)
  have "ids_ok p'"
    using ok w c u by (auto simp: project_ok_iff ids_ok_def)
  moreover have "table_ok p'"
    using ok c(2) u(2) unfolding project_ok_iff table_ok_def table by (auto split: pty_key.splits if_splits)
  moreover have "generations_ok p'"
    using ok c(2) unfolding project_ok_iff generations_ok_def distinct_btm_values gens btm_contains_def
    by (auto split: if_splits)
  ultimately show ?thesis by (simp add: project_ok_iff)
qed

lemma generations_forget:
  "pj_generations (forget_chat c p) = btm_remove c (pj_generations p)"
  "pj_generations (forget_terminal u p) = pj_generations p"
  by (simp_all add: forget_chat_def forget_terminal_def)

lemma gone_forget_chat: "gone ks p p' \<Longrightarrow> gone (insert (PtyChatAgent c) ks) p (forget_chat c p')"
  by (auto simp: gone_def identity_update generations_forget)

lemma gone_forget_terminal: "gone ks p p' \<Longrightarrow> gone (insert (PtyTerminal u) ks) p (forget_terminal u p')"
  by (auto simp: gone_def identity_update generations_forget)

lemma gone_forget_chats:
  "gone ks p p' \<Longrightarrow> gone (PtyChatAgent ` ct_id ` set cs \<union> ks) p (fold (\<lambda>c. forget_chat (ct_id c)) cs p')"
proof (induction cs arbitrary: p' ks)
  case (Cons c cs)
  show ?case using Cons.IH [OF gone_forget_chat [OF Cons.prems]] by simp
qed simp

lemma gone_forget_terminals:
  "gone ks p p' \<Longrightarrow> gone (PtyTerminal ` tm_id ` set ts \<union> ks) p (fold (\<lambda>t. forget_terminal (tm_id t)) ts p')"
proof (induction ts arbitrary: p' ks)
  case (Cons t ts)
  show ?case using Cons.IH [OF gone_forget_terminal [OF Cons.prems]] by simp
qed simp

lemma forget_workspaces [simp]:
  "pj_workspaces (fold (\<lambda>c. forget_chat (ct_id c)) cs p) = pj_workspaces p"
  "pj_workspaces (fold (\<lambda>t. forget_terminal (tm_id t)) ts p) = pj_workspaces p"
  "pj_workspaces (forget_chat c p) = pj_workspaces p" "pj_workspaces (forget_terminal u p) = pj_workspaces p"
proof -
  show one: "pj_workspaces (forget_chat c p) = pj_workspaces p" "pj_workspaces (forget_terminal u p) = pj_workspaces p" for c u p
    by (simp_all add: forget_chat_def forget_terminal_def)
  show "pj_workspaces (fold (\<lambda>c. forget_chat (ct_id c)) cs p) = pj_workspaces p" for p
    by (induction cs arbitrary: p) (simp_all add: one)
  show "pj_workspaces (fold (\<lambda>t. forget_terminal (tm_id t)) ts p) = pj_workspaces p" for p
    by (induction ts arbitrary: p) (simp_all add: one)
qed


section \<open>Every operation\<close>

text \<open>The ways the client changes a project, one rule for each operation that succeeds.\<close>

inductive project_edit :: "project_state \<Rightarrow> project_state \<Rightarrow> bool" where
  edit_add_workspace: "push_workspace name cwd remote p = (Inr wid, p') \<Longrightarrow> project_edit p p'"
| edit_add_chat: "add_chat_with_source wid name status agent source p = (Inr (Some cid), p') \<Longrightarrow> project_edit p p'"
| edit_add_terminal: "add_terminal_with_source wid name launch source p = (Inr (Some tid), p', source') \<Longrightarrow> project_edit p p'"
| edit_remove_workspace: "remove_workspace wid p = (Some w, p') \<Longrightarrow> project_edit p p'"
| edit_remove_chat: "remove_chat wid cid p = (Some c, p') \<Longrightarrow> project_edit p p'"
| edit_remove_terminal: "remove_terminal wid tid p = (Some t, p') \<Longrightarrow> project_edit p p'"
| edit_begin_generation: "begin_agent_generation_with_source cid source p = (Inr (Some g), p') \<Longrightarrow> project_edit p p'"
| edit_clear_generation: "clear_agent_generation cid g p = (True, p') \<Longrightarrow> project_edit p p'"
| edit_message: "append_chat_message wid cid role s p = (True, p') \<Longrightarrow> project_edit p p'"
| edit_delta: "append_chat_delta wid cid role s p = (True, p') \<Longrightarrow> project_edit p p'"

lemma push_workspace_ok:
  assumes "project_ok p" and "push_workspace name cwd remote p = (Inr wid, p')"
  shows "project_ok p'"
proof -
  obtain q where a: "allocate_workspace_id p = (Inr wid, q)" and p': "p' = q\<lparr>pj_workspaces := pj_workspaces q @
       [\<lparr>ws_id = wid, ws_name = name, ws_cwd = cwd, ws_remote = remote, ws_environment = [],
         ws_chats = [], ws_terminals = []\<rparr>]\<rparr>"
    using assms(2) by (auto simp: push_workspace_def split: prod.splits sum.splits)
  obtain n where q: "q = p\<lparr>pj_next_workspace_id := n\<rparr>" and fresh: "wid \<notin> set (workspace_ids p)" "wid \<noteq> WorkspaceId 0"
    using allocate_workspace_id_fresh [OF a] by blast
  have ids: "workspace_ids p' = workspace_ids p @ [wid]" "chat_ids p' = chat_ids p" "terminal_ids p' = terminal_ids p"
    by (simp_all add: p' q workspace_ids_def chat_ids_def terminal_ids_def)
  have same: "session_identity_of k p' = session_identity_of k p" "pj_generations p' = pj_generations p" for k
    by (simp_all add: p' q)
  show ?thesis
    using assms(1) fresh unfolding project_ok_iff ids_ok_def table_ok_def generations_ok_def ids same by auto
qed

lemma add_chat_ok:
  assumes "project_ok p" and "add_chat_with_source wid name status agent source p = (Inr (Some cid), p')"
  shows "project_ok p' \<and> (\<exists>s. \<forall>k. session_identity_of k p' = (if k = PtyChatAgent cid then Some s else session_identity_of k p))"
proof -
  let ?c = "\<lparr>ct_id = cid, ct_name = name, ct_status = status, ct_agent = agent, ct_messages = []\<rparr>"
  obtain w t rest q where w: "find_workspace wid p = Some w" and t: "allocate_session_token p source = (Inr t, rest)"
    and a: "allocate_chat_id p = (Inr cid, q)"
    and p': "p' = (let p = update_workspace wid (\<lambda>w. w\<lparr>ws_chats := ws_chats w @ [?c]\<rparr>) q in
        p\<lparr>pj_identities := (pj_identities p)\<lparr>si_chats := btm_insert cid t (si_chats (pj_identities p))\<rparr>\<rparr>)"
    using assms(2) by (auto simp: add_chat_with_source_def Let_def split: prod.splits sum.splits option.splits)
  obtain n where q: "q = p\<lparr>pj_next_chat_id := n\<rparr>" and fresh: "cid \<notin> set (chat_ids p)" "is_valid_durable_session_id (chat_id_raw cid)"
    using allocate_chat_id_fresh [OF a] by blast
  let ?s = "SessionIdentity (pj_namespace p) t"
  have table: "session_identity_of k p' = (if k = PtyChatAgent cid then Some ?s else session_identity_of k p)" for k
    by (simp add: p' q Let_def identity_update del: update_workspace_fields(2))
  have ws: "pj_workspaces p' = update_first (\<lambda>w. ws_id w = wid) (\<lambda>w. w\<lparr>ws_chats := ws_chats w @ [?c]\<rparr>) (pj_workspaces p)"
    by (simp add: p' q Let_def update_workspace_def)
  have ids: "mset (chat_ids p') = add_mset cid (mset (chat_ids p))"
    unfolding chat_ids_def ws by (rule mset_update_first_add) (use w in \<open>simp_all add: find_workspace_def\<close>)
  have same: "workspace_ids p' = workspace_ids p" "terminal_ids p' = terminal_ids p" "pj_generations p' = pj_generations p"
    by (simp_all add: workspace_ids_def terminal_ids_def ws map_update_first) (simp add: p' q Let_def)
  have new: "\<forall>k. session_identity_of k p \<noteq> Some ?s"
    using token_fresh_identity [OF allocate_session_token_fresh [OF t]] by blast
  have "project_ok p'"
    by (rule ok_add_chat [OF assms(1) fresh new ids same]) (rule table)
  then show ?thesis using table by blast
qed

lemma add_terminal_ok:
  assumes "project_ok p" and "add_terminal_with_source wid name launch source p = (Inr (Some tid), p', source')"
  shows "project_ok p' \<and> (\<exists>s. \<forall>k. session_identity_of k p' = (if k = PtyTerminal tid then Some s else session_identity_of k p))"
proof -
  let ?t = "\<lparr>tm_id = tid, tm_name = name, tm_restore_on_launch = False, tm_launch = launch\<rparr>"
  obtain w t rest q where w: "find_workspace wid p = Some w" and t: "allocate_session_token p source = (Inr t, rest)"
    and a: "allocate_terminal_id p = (Inr tid, q)"
    and p': "p' = (let p = update_workspace wid (\<lambda>w. w\<lparr>ws_terminals := ws_terminals w @ [?t]\<rparr>) q in
        p\<lparr>pj_identities := (pj_identities p)\<lparr>si_terminals := btm_insert tid t (si_terminals (pj_identities p))\<rparr>\<rparr>)"
    using assms(2) by (auto simp: add_terminal_with_source_def Let_def split: prod.splits sum.splits option.splits)
  obtain n where q: "q = p\<lparr>pj_next_terminal_id := n\<rparr>" and fresh: "tid \<notin> set (terminal_ids p)" "is_valid_durable_session_id (terminal_id_raw tid)"
    using allocate_terminal_id_fresh [OF a] by blast
  let ?s = "SessionIdentity (pj_namespace p) t"
  have table: "session_identity_of k p' = (if k = PtyTerminal tid then Some ?s else session_identity_of k p)" for k
    by (simp add: p' q Let_def identity_update del: update_workspace_fields(2))
  have ws: "pj_workspaces p' = update_first (\<lambda>w. ws_id w = wid) (\<lambda>w. w\<lparr>ws_terminals := ws_terminals w @ [?t]\<rparr>) (pj_workspaces p)"
    by (simp add: p' q Let_def update_workspace_def)
  have ids: "mset (terminal_ids p') = add_mset tid (mset (terminal_ids p))"
    unfolding terminal_ids_def ws by (rule mset_update_first_add) (use w in \<open>simp_all add: find_workspace_def\<close>)
  have same: "workspace_ids p' = workspace_ids p" "chat_ids p' = chat_ids p" "pj_generations p' = pj_generations p"
    by (simp_all add: workspace_ids_def chat_ids_def ws map_update_first) (simp add: p' q Let_def)
  have new: "\<forall>k. session_identity_of k p \<noteq> Some ?s"
    using token_fresh_identity [OF allocate_session_token_fresh [OF t]] by blast
  have "project_ok p'"
    by (rule ok_add_terminal [OF assms(1) fresh new ids same]) (rule table)
  then show ?thesis using table by blast
qed


lemma gone_nothing: "gone {} p (p\<lparr>pj_workspaces := ws\<rparr>)" "gone {} p (update_workspace wid f p)"
  by (simp_all add: gone_def)

lemma remove_workspace_ok:
  assumes ok: "project_ok p" and "remove_workspace wid p = (Some w, p')"
  shows "project_ok p' \<and> gone (PtyTerminal ` tm_id ` set (ws_terminals w) \<union> PtyChatAgent ` ct_id ` set (ws_chats w)) p p'"
proof -
  let ?P = "\<lambda>w. ws_id w = wid"
  have w: "find ?P (pj_workspaces p) = Some w"
    and p': "p' = fold (\<lambda>t. forget_terminal (tm_id t)) (ws_terminals w)
             (fold (\<lambda>c. forget_chat (ct_id c)) (ws_chats w)
                (p\<lparr>pj_workspaces := remove_first ?P (pj_workspaces p)\<rparr>))"
    using assms(2) by (auto simp: remove_workspace_def find_workspace_def split: option.splits)
  have ws: "pj_workspaces p' = remove_first ?P (pj_workspaces p)" by (simp add: p')
  have g: "gone (PtyTerminal ` tm_id ` set (ws_terminals w) \<union> PtyChatAgent ` ct_id ` set (ws_chats w)) p p'"
    using gone_forget_terminals [OF gone_forget_chats [OF gone_nothing(1)]] by (simp add: p')
  have m: "mset (workspace_ids p) = add_mset (ws_id w) (mset (workspace_ids p'))"
    "mset (chat_ids p) = mset (map ct_id (ws_chats w)) + mset (chat_ids p')"
    "mset (terminal_ids p) = mset (map tm_id (ws_terminals w)) + mset (terminal_ids p')"
    unfolding workspace_ids_def chat_ids_def terminal_ids_def ws
    by (rule map_remove_first [OF w], (rule mset_concat_remove_first [OF w])+)
  have d: "distinct (workspace_ids p)" "distinct (chat_ids p)" "distinct (terminal_ids p)"
    using ok by (simp_all add: project_ok_iff ids_ok_def)
  have "project_ok p'"
  proof (rule ok_remove [OF ok g])
    show "distinct (workspace_ids p')" "set (workspace_ids p') \<subseteq> set (workspace_ids p)"
      using d(1) distinct_add_mset [OF m(1)] set_add_mset [OF m(1)] by auto
    show "distinct (chat_ids p')" and "distinct (terminal_ids p')"
      using d(2,3) distinct_union_mset [OF m(2)] distinct_union_mset [OF m(3)] by simp_all
    show "set (chat_ids p') = {c \<in> set (chat_ids p). PtyChatAgent c \<notin>
        PtyTerminal ` tm_id ` set (ws_terminals w) \<union> PtyChatAgent ` ct_id ` set (ws_chats w)}"
      using d(2) distinct_union_mset [OF m(2)] set_union_mset [OF m(2)] by auto
    show "set (terminal_ids p') = {u \<in> set (terminal_ids p). PtyTerminal u \<notin>
        PtyTerminal ` tm_id ` set (ws_terminals w) \<union> PtyChatAgent ` ct_id ` set (ws_chats w)}"
      using d(3) distinct_union_mset [OF m(3)] set_union_mset [OF m(3)] by auto
  qed
  then show ?thesis using g by simp
qed

lemma remove_chat_ok:
  assumes ok: "project_ok p" and "remove_chat wid cid p = (Some c, p')"
  shows "project_ok p' \<and> gone {PtyChatAgent cid} p p'"
proof -
  let ?f = "\<lambda>w. w\<lparr>ws_chats := remove_first (\<lambda>c. ct_id c = cid) (ws_chats w)\<rparr>"
  obtain w where w: "find (\<lambda>w. ws_id w = wid) (pj_workspaces p) = Some w"
    and c: "find (\<lambda>c. ct_id c = cid) (ws_chats w) = Some c"
    and p': "p' = forget_chat cid (update_workspace wid ?f p)"
    using assms(2) by (auto simp: remove_chat_def find_chat_def find_workspace_def bind_eq_Some_conv split: option.splits)
  have ws: "pj_workspaces p' = update_first (\<lambda>w. ws_id w = wid) ?f (pj_workspaces p)"
    by (simp add: p' update_workspace_def)
  have cid: "ct_id c = cid" using c by (auto simp: find_Some_iff)
  have g: "gone {PtyChatAgent cid} p p'"
    using gone_forget_chat [OF gone_nothing(2)] by (simp add: p')
  have m: "mset (chat_ids p) = add_mset cid (mset (chat_ids p'))"
    unfolding chat_ids_def ws
    by (rule mset_update_first_del [OF w]) (use map_remove_first [OF c, of ct_id] cid in simp)
  have same: "workspace_ids p' = workspace_ids p" "terminal_ids p' = terminal_ids p"
    by (simp_all add: workspace_ids_def terminal_ids_def ws map_update_first)
  have d: "distinct (workspace_ids p)" "distinct (chat_ids p)" "distinct (terminal_ids p)"
    using ok by (simp_all add: project_ok_iff ids_ok_def)
  have "project_ok p'"
    by (rule ok_remove [OF ok g])
      (use d same distinct_add_mset [OF m] set_add_mset [OF m] in auto)
  then show ?thesis using g by simp
qed

lemma remove_terminal_ok:
  assumes ok: "project_ok p" and "remove_terminal wid tid p = (Some t, p')"
  shows "project_ok p' \<and> gone {PtyTerminal tid} p p'"
proof -
  let ?f = "\<lambda>w. w\<lparr>ws_terminals := remove_first (\<lambda>t. tm_id t = tid) (ws_terminals w)\<rparr>"
  obtain w where w: "find (\<lambda>w. ws_id w = wid) (pj_workspaces p) = Some w"
    and t: "find (\<lambda>t. tm_id t = tid) (ws_terminals w) = Some t"
    and p': "p' = forget_terminal tid (update_workspace wid ?f p)"
    using assms(2) by (auto simp: remove_terminal_def find_terminal_def find_workspace_def bind_eq_Some_conv split: option.splits)
  have ws: "pj_workspaces p' = update_first (\<lambda>w. ws_id w = wid) ?f (pj_workspaces p)"
    by (simp add: p' update_workspace_def)
  have tid: "tm_id t = tid" using t by (auto simp: find_Some_iff)
  have g: "gone {PtyTerminal tid} p p'"
    using gone_forget_terminal [OF gone_nothing(2)] by (simp add: p')
  have m: "mset (terminal_ids p) = add_mset tid (mset (terminal_ids p'))"
    unfolding terminal_ids_def ws
    by (rule mset_update_first_del [OF w]) (use map_remove_first [OF t, of tm_id] tid in simp)
  have same: "workspace_ids p' = workspace_ids p" "chat_ids p' = chat_ids p"
    by (simp_all add: workspace_ids_def chat_ids_def ws map_update_first)
  have d: "distinct (workspace_ids p)" "distinct (chat_ids p)" "distinct (terminal_ids p)"
    using ok by (simp_all add: project_ok_iff ids_ok_def)
  have "project_ok p'"
    by (rule ok_remove [OF ok g])
      (use d same distinct_add_mset [OF m] set_add_mset [OF m] in auto)
  then show ?thesis using g by simp
qed

lemma ok_cong:
  assumes "project_ok p" and "generations_ok p'"
    and "workspace_ids p' = workspace_ids p" "chat_ids p' = chat_ids p" "terminal_ids p' = terminal_ids p"
    and "\<And>k. session_identity_of k p' = session_identity_of k p"
  shows "project_ok p'"
  using assms(1,2) unfolding project_ok_iff ids_ok_def table_ok_def assms(3-6) by blast

lemma begin_generation_ok:
  assumes ok: "project_ok p" and "begin_agent_generation_with_source cid source p = (Inr (Some g), p')"
  shows "project_ok p' \<and> (\<forall>k. session_identity_of k p' = session_identity_of k p)"
proof -
  obtain rest where cid: "cid \<in> set (chat_ids p)"
    and g: "generate_identity AgentGeneration (\<lambda>g. g \<in> set (btm_values (pj_generations p))) source = (Inr g, rest)"
    and p': "p' = p\<lparr>pj_generations := btm_insert cid g (pj_generations p)\<rparr>"
    using assms(2) by (auto simp: begin_agent_generation_with_source_def split: if_splits prod.splits sum.splits)
  have "g \<notin> set (btm_values (pj_generations p))" using generate_identity_fresh [OF g] .
  then have "generations_ok p'"
    using ok cid by (auto simp: project_ok_iff generations_ok_def p' distinct_btm_values set_btm_values)
  then have "project_ok p'" by (rule ok_cong [OF ok]) (simp_all add: p')
  then show ?thesis using p' by simp
qed

lemma clear_generation_ok:
  assumes ok: "project_ok p" and "clear_agent_generation cid g p = (True, p')"
  shows "project_ok p' \<and> (\<forall>k. session_identity_of k p' = session_identity_of k p)"
proof -
  have p': "p' = p\<lparr>pj_generations := btm_remove cid (pj_generations p)\<rparr>"
    using assms(2) by (auto simp: clear_agent_generation_def split: if_splits)
  have "generations_ok p'"
    using ok by (auto simp: project_ok_iff generations_ok_def p' distinct_btm_values split: if_splits)
  then have "project_ok p'" by (rule ok_cong [OF ok]) (simp_all add: p')
  then show ?thesis using p' by simp
qed

lemma update_chat_same:
  assumes "\<And>c. ct_id (f c) = ct_id c"
  shows "workspace_ids (update_chat wid cid f p) = workspace_ids p" "chat_ids (update_chat wid cid f p) = chat_ids p"
    "terminal_ids (update_chat wid cid f p) = terminal_ids p" "pj_generations (update_chat wid cid f p) = pj_generations p"
    "session_identity_of k (update_chat wid cid f p) = session_identity_of k p"
proof -
  show "chat_ids (update_chat wid cid f p) = chat_ids p"
    by (simp add: chat_ids_def update_chat_def update_workspace_def map_update_first assms)
qed (simp_all add: update_chat_def workspace_ids_def terminal_ids_def update_workspace_def map_update_first)

lemma update_chat_ok:
  assumes "project_ok p" and "\<And>c. ct_id (f c) = ct_id c"
  shows "project_ok (update_chat wid cid f p)"
proof (rule ok_cong [OF assms(1)])
  show "generations_ok (update_chat wid cid f p)"
    using assms(1) by (simp add: project_ok_iff generations_ok_def update_chat_same assms(2))
qed (simp_all add: update_chat_same assms(2))

lemma append_message_ok:
  assumes "append_chat_message wid cid role s p = (True, p')" and "project_ok p"
  shows "project_ok p' \<and> (\<forall>k. session_identity_of k p' = session_identity_of k p)"
  using assms
  by (auto simp: append_chat_message_def update_chat_same(5) split: if_splits intro!: update_chat_ok)

lemma append_delta_ok:
  assumes "append_chat_delta wid cid role s p = (True, p')" and "project_ok p"
  shows "project_ok p' \<and> (\<forall>k. session_identity_of k p' = session_identity_of k p)"
  using assms
  by (auto simp: append_chat_delta_def update_chat_same(5)
      split: if_splits option.splits prod.splits intro!: update_chat_ok)

lemma no_identity:
  assumes "project_ok p"
  shows "session_identity_of (PtyChatAgent c) p = None \<longleftrightarrow> c \<notin> set (chat_ids p)"
    and "session_identity_of (PtyTerminal u) p = None \<longleftrightarrow> u \<notin> set (terminal_ids p)"
  using assms session_identity_contains unfolding project_ok_iff table_ok_iff by blast+

text \<open>One statement for all of them: validity, and what becomes of the identities.\<close>

lemma project_edit_ok:
  assumes "project_edit p p'" and "project_ok p"
  shows "project_ok p' \<and> (\<forall>k s. session_identity_of k p = Some s \<longrightarrow>
    session_identity_of k p' = Some s \<or> session_identity_of k p' = None)"
  using assms
proof (induction rule: project_edit.induct)
  case (edit_add_workspace name cwd remote p wid p')
  moreover have "session_identity_of k p' = session_identity_of k p" for k
  proof -
    obtain q ws where "allocate_workspace_id p = (Inr wid, q)" "p' = q\<lparr>pj_workspaces := ws\<rparr>"
      using edit_add_workspace(1) by (auto simp: push_workspace_def split: prod.splits sum.splits)
    then show ?thesis using allocate_workspace_id_fresh [of p wid q] by auto
  qed
  ultimately show ?case using push_workspace_ok by simp
next
  case (edit_add_chat wid name status agent source p cid p')
  have "session_identity_of (PtyChatAgent cid) p = None"
  proof -
    obtain q where "allocate_chat_id p = (Inr cid, q)"
      using edit_add_chat(1) by (auto simp: add_chat_with_source_def Let_def split: prod.splits sum.splits option.splits)
    then show ?thesis
      using allocate_chat_id_fresh [of p cid q] no_identity(1) [OF edit_add_chat(2)] by simp
  qed
  then show ?case using add_chat_ok [OF edit_add_chat(2,1)] by (metis option.discI)
next
  case (edit_add_terminal wid name launch source p tid p' source')
  have "session_identity_of (PtyTerminal tid) p = None"
  proof -
    obtain q where "allocate_terminal_id p = (Inr tid, q)"
      using edit_add_terminal(1) by (auto simp: add_terminal_with_source_def Let_def split: prod.splits sum.splits option.splits)
    then show ?thesis
      using allocate_terminal_id_fresh [of p tid q] no_identity(2) [OF edit_add_terminal(2)] by simp
  qed
  then show ?case using add_terminal_ok [OF edit_add_terminal(2,1)] by (metis option.discI)
next
  case (edit_remove_workspace wid p w p')
  then show ?case using remove_workspace_ok by (auto simp: gone_def)
next
  case (edit_remove_chat wid cid p c p')
  then show ?case using remove_chat_ok by (auto simp: gone_def)
next
  case (edit_remove_terminal wid tid p t p')
  then show ?case using remove_terminal_ok by (auto simp: gone_def)
next
  case (edit_begin_generation cid source p g p')
  then show ?case using begin_generation_ok by metis
next
  case (edit_clear_generation cid g p p')
  then show ?case using clear_generation_ok by metis
next
  case (edit_message wid cid role s p p')
  then show ?case using append_message_ok by metis
next
  case (edit_delta wid cid role s p p')
  then show ?case using append_delta_ok by metis
qed

end
