(* ===== verification/Project_Numbers.thy ===== *)
theory Project_Numbers
  imports Project_Invariant
begin

text \<open>
  The repair of numbers: every workspace, chat and terminal ends with a valid number of its own,
  a valid number is kept where it occurs first, and repair never runs out within the capacity.
\<close>

section \<open>Traversals\<close>

lemma traverse_append:
  "traverse f (xs @ ys) s =
     bind_sum (traverse f xs s) (\<lambda>(a, s). bind_sum (traverse f ys s) (\<lambda>(b, s). Inr (a @ b, s)))"
proof (induction xs arbitrary: s)
  case Nil
  then show ?case by (cases "traverse f ys s") auto
next
  case (Cons x xs)
  show ?case
  proof (cases "f x s")
    case (Inr r)
    obtain y t where r: "r = (y, t)" by fastforce
    show ?thesis
    proof (cases "traverse f xs t")
      case (Inr q)
      then show ?thesis
        using Cons \<open>f x s = Inr r\<close> r by (cases q; cases "traverse f ys (snd q)") (auto split: prod.split)
    qed (use Cons \<open>f x s = Inr r\<close> r in simp)
  qed simp
qed

lemma traverse_nested:
  assumes "\<And>x s y s'. g x s = Inr (y, s') \<Longrightarrow> traverse f (proj x) s = Inr (proj y, s')"
  shows "traverse g xs s = Inr (ys, s') \<Longrightarrow>
    traverse f (concat (map proj xs)) s = Inr (concat (map proj ys), s')"
proof (induction xs arbitrary: s ys)
  case (Cons x xs)
  then obtain y t ys' where "g x s = Inr (y, t)" "traverse g xs t = Inr (ys', s')" "ys = y # ys'"
    by (auto simp: bind_sum_Inr_iff)
  then show ?case using assms Cons.IH by (simp add: traverse_append)
qed simp

lemma traverse_map:
  assumes "\<And>x s. g x s = bind_sum (f (proj x) s) (\<lambda>(j, s). Inr (put j x, s))" and "\<And>j x. proj (put j x) = j"
  shows "traverse g xs s = Inr (ys, s') \<Longrightarrow> traverse f (map proj xs) s = Inr (map proj ys, s')"
proof (induction xs arbitrary: s ys)
  case (Cons x xs)
  then show ?case using assms by (auto simp: bind_sum_Inr_iff split: prod.splits)
qed simp

lemma traverse_keeps:
  assumes "\<And>x s y s'. g x s = Inr (y, s') \<Longrightarrow> h y = h x"
  shows "traverse g xs s = Inr (ys, s') \<Longrightarrow> map h ys = map h xs"
proof (induction xs arbitrary: s ys)
  case (Cons x xs)
  then show ?case using assms by (auto simp: bind_sum_Inr_iff)
qed simp

section \<open>Renumbering\<close>

lemma renumber_spec:
  assumes "traverse (renumber_one valid limit error) ids s = Inr (out, s')"
    and "\<And>i. valid i \<Longrightarrow> 1 \<le> i \<and> i \<le> limit"
    and "\<forall>i \<in> set ids. valid i \<longrightarrow> btm_contains (rn_used s) i"
    and "\<forall>i. btm_contains (rn_seen s) i \<longrightarrow> btm_contains (rn_used s) i"
  shows "length out = length ids \<and> distinct out \<and>
    (\<forall>i \<in> set out. 1 \<le> i \<and> i \<le> limit \<and> \<not> btm_contains (rn_seen s) i) \<and>
    (\<forall>n < length ids. valid (ids ! n) \<and> \<not> btm_contains (rn_seen s) (ids ! n) \<and> ids ! n \<notin> set (take n ids) \<longrightarrow>
       out ! n = ids ! n) \<and>
    (rn_changed s' = rn_changed s \<or> rn_changed s') \<and> (\<not> rn_changed s' \<longrightarrow> out = ids)"
  using assms
proof (induction ids arbitrary: s out)
  case Nil
  then show ?case by simp
next
  case (Cons i ids)
  obtain j t out' where one: "renumber_one valid limit error i s = Inr (j, t)"
    and tail: "traverse (renumber_one valid limit error) ids t = Inr (out', s')" and out: "out = j # out'"
    using Cons.prems(1) by (auto simp: bind_sum_Inr_iff)
  have shape: "valid i \<and> \<not> btm_contains (rn_seen s) i \<and> j = i \<and> t = s\<lparr>rn_seen := bts_insert i (rn_seen s)\<rparr> \<or>
      \<not> (valid i \<and> \<not> btm_contains (rn_seen s) i) \<and> 1 \<le> j \<and> j \<le> limit \<and> \<not> btm_contains (rn_used s) j \<and>
      rn_used t = bts_insert j (rn_used s) \<and> rn_seen t = bts_insert j (rn_seen s) \<and> rn_changed t"
    using one take_available_id_Some [of "rn_used s" "rn_next s" limit j]
    by (auto simp: renumber_one_def split: if_splits option.splits)
  have IH: "length out' = length ids \<and> distinct out' \<and>
    (\<forall>k \<in> set out'. 1 \<le> k \<and> k \<le> limit \<and> \<not> btm_contains (rn_seen t) k) \<and>
    (\<forall>n < length ids. valid (ids ! n) \<and> \<not> btm_contains (rn_seen t) (ids ! n) \<and> ids ! n \<notin> set (take n ids) \<longrightarrow>
       out' ! n = ids ! n) \<and>
    (rn_changed s' = rn_changed t \<or> rn_changed s') \<and> (\<not> rn_changed s' \<longrightarrow> out' = ids)"
    by (rule Cons.IH [OF tail Cons.prems(2)]) (use shape Cons.prems(3,4) in auto)
  have seen_t: "btm_contains (rn_seen t) k \<longleftrightarrow> k = j \<or> btm_contains (rn_seen s) k" for k
    using shape by auto
  have j: "1 \<le> j \<and> j \<le> limit \<and> \<not> btm_contains (rn_seen s) j"
    using shape Cons.prems(2,4) by auto
  have nth: "out ! n = (i # ids) ! n"
    if n: "n < length (i # ids)" "valid ((i # ids) ! n)" "\<not> btm_contains (rn_seen s) ((i # ids) ! n)"
      "(i # ids) ! n \<notin> set (take n (i # ids))" for n
  proof (cases n)
    case 0
    then show ?thesis using n shape out by auto
  next
    case (Suc m)
    have "ids ! m \<noteq> j"
      using n Suc shape Cons.prems(3) by (auto dest: nth_mem)
    then show ?thesis using n Suc IH out seen_t by auto
  qed
  show ?case
    using IH seen_t j nth out shape by (auto split: if_splits)
qed


lemma renumber_workspace_ids:
  assumes "traverse renumber_workspace ws s = Inr (ws', s')"
  shows "traverse (renumber_one (\<lambda>i. i \<noteq> 0) (- 1) IAWorkspace) (map (\<lambda>w. workspace_id_raw (ws_id w)) ws) s =
      Inr (map (\<lambda>w. workspace_id_raw (ws_id w)) ws', s') \<and>
    map ws_chats ws' = map ws_chats ws \<and> map ws_terminals ws' = map ws_terminals ws"
proof (intro conjI)
  show "traverse (renumber_one (\<lambda>i. i \<noteq> 0) (- 1) IAWorkspace) (map (\<lambda>w. workspace_id_raw (ws_id w)) ws) s =
      Inr (map (\<lambda>w. workspace_id_raw (ws_id w)) ws', s')"
    by (rule traverse_map [OF _ _ assms, where put = "\<lambda>i w. w\<lparr>ws_id := WorkspaceId i\<rparr>"])
      (simp_all add: renumber_workspace_def)
  show "map ws_chats ws' = map ws_chats ws"
    by (rule traverse_keeps [OF _ assms]) (auto simp: renumber_workspace_def bind_sum_Inr_iff)
  show "map ws_terminals ws' = map ws_terminals ws"
    by (rule traverse_keeps [OF _ assms]) (auto simp: renumber_workspace_def bind_sum_Inr_iff)
qed

lemma renumber_chat_ids:
  assumes "traverse renumber_chats ws s = Inr (ws', s')"
  shows "traverse (renumber_one is_valid_durable_session_id MAX_DURABLE_SESSION_ID IAChat)
      (concat (map (\<lambda>w. map (\<lambda>c. chat_id_raw (ct_id c)) (ws_chats w)) ws)) s =
      Inr (concat (map (\<lambda>w. map (\<lambda>c. chat_id_raw (ct_id c)) (ws_chats w)) ws'), s') \<and>
    map ws_id ws' = map ws_id ws \<and> map ws_terminals ws' = map ws_terminals ws"
proof (intro conjI)
  show "traverse (renumber_one is_valid_durable_session_id MAX_DURABLE_SESSION_ID IAChat)
      (concat (map (\<lambda>w. map (\<lambda>c. chat_id_raw (ct_id c)) (ws_chats w)) ws)) s =
      Inr (concat (map (\<lambda>w. map (\<lambda>c. chat_id_raw (ct_id c)) (ws_chats w)) ws'), s')"
  proof (rule traverse_nested [OF _ assms])
    fix w s w' s' assume "renumber_chats w s = Inr (w', s')"
    then obtain cs where cs: "traverse (\<lambda>c s. bind_sum
         (renumber_one is_valid_durable_session_id MAX_DURABLE_SESSION_ID IAChat (chat_id_raw (ct_id c)) s)
         (\<lambda>(i, s). Inr (c\<lparr>ct_id := ChatId i\<rparr>, s))) (ws_chats w) s = Inr (cs, s')" and w': "w' = w\<lparr>ws_chats := cs\<rparr>"
      by (auto simp: renumber_chats_def bind_sum_Inr_iff)
    have "traverse (renumber_one is_valid_durable_session_id MAX_DURABLE_SESSION_ID IAChat)
      (map (\<lambda>c. chat_id_raw (ct_id c)) (ws_chats w)) s = Inr (map (\<lambda>c. chat_id_raw (ct_id c)) cs, s')"
      by (rule traverse_map [OF _ _ cs, where put = "\<lambda>i c. c\<lparr>ct_id := ChatId i\<rparr>"]) simp_all
    then show "traverse (renumber_one is_valid_durable_session_id MAX_DURABLE_SESSION_ID IAChat)
      (map (\<lambda>c. chat_id_raw (ct_id c)) (ws_chats w)) s = Inr (map (\<lambda>c. chat_id_raw (ct_id c)) (ws_chats w'), s')"
      by (simp add: w')
  qed
  show "map ws_id ws' = map ws_id ws"
    by (rule traverse_keeps [OF _ assms]) (auto simp: renumber_chats_def bind_sum_Inr_iff)
  show "map ws_terminals ws' = map ws_terminals ws"
    by (rule traverse_keeps [OF _ assms]) (auto simp: renumber_chats_def bind_sum_Inr_iff)
qed

lemma renumber_terminal_ids:
  assumes "traverse renumber_terminals ws s = Inr (ws', s')"
  shows "traverse (renumber_one is_valid_durable_session_id MAX_DURABLE_SESSION_ID IATerminal)
      (concat (map (\<lambda>w. map (\<lambda>t. terminal_id_raw (tm_id t)) (ws_terminals w)) ws)) s =
      Inr (concat (map (\<lambda>w. map (\<lambda>t. terminal_id_raw (tm_id t)) (ws_terminals w)) ws'), s') \<and>
    map ws_id ws' = map ws_id ws \<and> map ws_chats ws' = map ws_chats ws"
proof (intro conjI)
  show "traverse (renumber_one is_valid_durable_session_id MAX_DURABLE_SESSION_ID IATerminal)
      (concat (map (\<lambda>w. map (\<lambda>t. terminal_id_raw (tm_id t)) (ws_terminals w)) ws)) s =
      Inr (concat (map (\<lambda>w. map (\<lambda>t. terminal_id_raw (tm_id t)) (ws_terminals w)) ws'), s')"
  proof (rule traverse_nested [OF _ assms])
    fix w s w' s' assume "renumber_terminals w s = Inr (w', s')"
    then obtain ts where ts: "traverse (\<lambda>t s. bind_sum
         (renumber_one is_valid_durable_session_id MAX_DURABLE_SESSION_ID IATerminal (terminal_id_raw (tm_id t)) s)
         (\<lambda>(i, s). Inr (t\<lparr>tm_id := TerminalId i\<rparr>, s))) (ws_terminals w) s = Inr (ts, s')" and w': "w' = w\<lparr>ws_terminals := ts\<rparr>"
      by (auto simp: renumber_terminals_def bind_sum_Inr_iff)
    have "traverse (renumber_one is_valid_durable_session_id MAX_DURABLE_SESSION_ID IATerminal)
      (map (\<lambda>t. terminal_id_raw (tm_id t)) (ws_terminals w)) s = Inr (map (\<lambda>t. terminal_id_raw (tm_id t)) ts, s')"
      by (rule traverse_map [OF _ _ ts, where put = "\<lambda>i t. t\<lparr>tm_id := TerminalId i\<rparr>"]) simp_all
    then show "traverse (renumber_one is_valid_durable_session_id MAX_DURABLE_SESSION_ID IATerminal)
      (map (\<lambda>t. terminal_id_raw (tm_id t)) (ws_terminals w)) s = Inr (map (\<lambda>t. terminal_id_raw (tm_id t)) (ws_terminals w'), s')"
      by (simp add: w')
  qed
  show "map ws_id ws' = map ws_id ws"
    by (rule traverse_keeps [OF _ assms]) (auto simp: renumber_terminals_def bind_sum_Inr_iff)
  show "map ws_chats ws' = map ws_chats ws"
    by (rule traverse_keeps [OF _ assms]) (auto simp: renumber_terminals_def bind_sum_Inr_iff)
qed

lemma renumbered:
  assumes "traverse (renumber_one valid limit error) ids (renumbering_start (filter valid ids)) = Inr (out, s')"
    and "\<And>i. valid i \<Longrightarrow> 1 \<le> i \<and> i \<le> limit"
  shows "length out = length ids \<and> distinct out \<and> (\<forall>i \<in> set out. 1 \<le> i \<and> i \<le> limit) \<and>
    (\<forall>n < length ids. valid (ids ! n) \<and> ids ! n \<notin> set (take n ids) \<longrightarrow> out ! n = ids ! n) \<and>
    (\<not> rn_changed s' \<longrightarrow> out = ids)"
  using renumber_spec [OF assms] by (auto simp: renumbering_start_def)


section \<open>Renumbering never runs out\<close>

lemma renumber_total:
  assumes "\<forall>i. btm_contains (rn_used s) i \<longrightarrow> btm_contains (rn_seen s) i \<or> i \<in> set ids \<and> valid i"
    and "\<forall>i \<in> set ids. valid i \<longrightarrow> btm_contains (rn_used s) i"
    and "bts_len (rn_seen s) + length ids \<le> unat limit" and "limit \<noteq> 0"
  shows "\<exists>out s'. traverse (renumber_one valid limit error) ids s = Inr (out, s')"
  using assms
proof (induction ids arbitrary: s)
  case Nil
  then show ?case by simp
next
  case (Cons i ids)
  have grow: "bts_len (bts_insert j m) \<le> bts_len m + 1" for j and m :: "u64 btset"
  proof -
    have "{k. btm_contains (bts_insert j m) k} = insert j {k. btm_contains m k}" by auto
    then show ?thesis by (simp add: bts_len_card card_insert_if)
  qed
  show ?case
  proof (cases "valid i \<and> \<not> btm_contains (rn_seen s) i")
    case True
    let ?t = "s\<lparr>rn_seen := bts_insert i (rn_seen s)\<rparr>"
    have "\<exists>out s'. traverse (renumber_one valid limit error) ids ?t = Inr (out, s')"
      by (rule Cons.IH) (use Cons.prems grow [of i "rn_seen s"] in auto)
    moreover have "renumber_one valid limit error i s = Inr (i, ?t)" using True by (simp add: renumber_one_def)
    ultimately show ?thesis by auto
  next
    case False
    have "{k. btm_contains (rn_used s) k} \<subseteq> {k. btm_contains (rn_seen s) k} \<union> set ids"
    proof
      fix k assume "k \<in> {k. btm_contains (rn_used s) k}"
      then show "k \<in> {k. btm_contains (rn_seen s) k} \<union> set ids"
        using Cons.prems(1) False by auto
    qed
    then have "card {k. btm_contains (rn_used s) k} \<le> card ({k. btm_contains (rn_seen s) k} \<union> set ids)"
      by (intro card_mono) simp_all
    also have "\<dots> \<le> bts_len (rn_seen s) + length ids"
      by (rule order_trans [OF card_Un_le]) (simp add: bts_len_card card_length)
    finally have "card {k. btm_contains (rn_used s) k} < unat limit" using Cons.prems(3) by simp
    then have "\<not> all_used (rn_used s) 1 limit" using all_used_card by fastforce
    then obtain j n used where t: "take_available_id (rn_used s) (rn_next s) limit = Some ((j, n), used)"
      using take_available_id_None [OF Cons.prems(4)] by (metis option.exhaust prod.exhaust)
    let ?t = "s\<lparr>rn_used := used, rn_seen := bts_insert j (rn_seen s), rn_next := n, rn_changed := True\<rparr>"
    have used: "used = bts_insert j (rn_used s)" using take_available_id_Some [OF t] by simp
    have "\<exists>out s'. traverse (renumber_one valid limit error) ids ?t = Inr (out, s')"
    proof (rule Cons.IH)
      show "\<forall>k. btm_contains (rn_used ?t) k \<longrightarrow> btm_contains (rn_seen ?t) k \<or> k \<in> set ids \<and> valid k"
        using Cons.prems(1,2) False used by auto
    qed (use Cons.prems grow [of j "rn_seen s"] used in auto)
    moreover have "renumber_one valid limit error i s = Inr (j, ?t)" using False t by (auto simp: renumber_one_def)
    ultimately show ?thesis by auto
  qed
qed


section \<open>What the repair of numbers gives\<close>

text \<open>A number is kept where it occurs first, if it is valid.\<close>

definition kept_first :: "('i \<Rightarrow> bool) \<Rightarrow> 'i list \<Rightarrow> 'i list \<Rightarrow> bool" where
  "kept_first valid xs ys \<longleftrightarrow> length ys = length xs \<and>
     (\<forall>n < length xs. valid (xs ! n) \<and> xs ! n \<notin> set (take n xs) \<longrightarrow> ys ! n = xs ! n)"

lemma kept_first_raw:
  assumes "length (map raw ys) = length (map raw xs)" and inj: "inj raw"
    and "\<forall>n < length (map raw xs). valid (map raw xs ! n) \<and> map raw xs ! n \<notin> set (take n (map raw xs)) \<longrightarrow>
       map raw ys ! n = map raw xs ! n"
  shows "kept_first (\<lambda>i. valid (raw i)) xs ys"
proof -
  have "raw x \<in> set (take n (map raw xs)) \<longleftrightarrow> x \<in> set (take n xs)" for x n
    using inj by (auto simp: take_map inj_def)
  then show ?thesis
    using assms inj by (auto simp: kept_first_def inj_def)
qed

lemma raw_inj: "inj workspace_id_raw" "inj chat_id_raw" "inj terminal_id_raw"
  by (auto simp: inj_def workspace_id.expand chat_id.expand terminal_id.expand)

lemma raw_concat:
  "map chat_id_raw (chat_ids p) = concat (map (\<lambda>w. map (\<lambda>c. chat_id_raw (ct_id c)) (ws_chats w)) (pj_workspaces p))"
  "map terminal_id_raw (terminal_ids p) =
     concat (map (\<lambda>w. map (\<lambda>t. terminal_id_raw (tm_id t)) (ws_terminals w)) (pj_workspaces p))"
  "map workspace_id_raw (workspace_ids p) = map (\<lambda>w. workspace_id_raw (ws_id w)) (pj_workspaces p)"
  by (simp_all add: chat_ids_def terminal_ids_def workspace_ids_def map_concat comp_def)

lemma ids_via_maps:
  "chat_ids p = concat (map (map ct_id) (map ws_chats (pj_workspaces p)))"
  "terminal_ids p = concat (map (map tm_id) (map ws_terminals (pj_workspaces p)))"
  "workspace_ids p = map ws_id (pj_workspaces p)"
  by (simp_all add: chat_ids_def terminal_ids_def workspace_ids_def comp_def)

lemma durable_range: "is_valid_durable_session_id i \<Longrightarrow> 1 \<le> i \<and> i \<le> MAX_DURABLE_SESSION_ID"
  by (simp add: is_valid_durable_session_id_def)

lemma nonzero_range: "(i :: u64) \<noteq> 0 \<Longrightarrow> 1 \<le> i \<and> i \<le> - 1"
  by (simp add: u64_pos)

lemma normalize_existing_ids_spec:
  assumes "normalize_existing_ids p = Inr (changed, p')"
  shows "ids_ok p' \<and> kept_first (\<lambda>i. i \<noteq> WorkspaceId 0) (workspace_ids p) (workspace_ids p') \<and>
    kept_first (\<lambda>i. is_valid_durable_session_id (chat_id_raw i)) (chat_ids p) (chat_ids p') \<and>
    kept_first (\<lambda>i. is_valid_durable_session_id (terminal_id_raw i)) (terminal_ids p) (terminal_ids p') \<and>
    (\<exists>ws. p' = p\<lparr>pj_workspaces := ws\<rparr>)"
proof -
  let ?used1 = "renumbering_start (filter (\<lambda>i. i \<noteq> 0) (map workspace_id_raw (workspace_ids p)))"
  obtain ws1 s1 ws2 s2 ws3 s3 where
    1: "traverse renumber_workspace (pj_workspaces p) ?used1 = Inr (ws1, s1)" and
    2: "traverse renumber_chats ws1 (renumbering_start (filter is_valid_durable_session_id
         (map chat_id_raw (chat_ids (p\<lparr>pj_workspaces := ws1\<rparr>))))) = Inr (ws2, s2)" and
    3: "traverse renumber_terminals ws2 (renumbering_start (filter is_valid_durable_session_id
         (map terminal_id_raw (terminal_ids (p\<lparr>pj_workspaces := ws2\<rparr>))))) = Inr (ws3, s3)" and
    p': "p' = p\<lparr>pj_workspaces := ws3\<rparr>"
    using assms by (clarsimp simp: normalize_existing_ids_def bind_sum_Inr_iff Let_def)
  note w = renumber_workspace_ids [OF 1] and c = renumber_chat_ids [OF 2] and t = renumber_terminal_ids [OF 3]
  have chats: "chat_ids (p\<lparr>pj_workspaces := ws1\<rparr>) = chat_ids p" "chat_ids p' = chat_ids (p\<lparr>pj_workspaces := ws2\<rparr>)"
    and terms: "terminal_ids (p\<lparr>pj_workspaces := ws2\<rparr>) = terminal_ids p"
    and works: "workspace_ids p' = workspace_ids (p\<lparr>pj_workspaces := ws1\<rparr>)"
    using w c t by (simp_all add: ids_via_maps p')
  have W: "traverse (renumber_one (\<lambda>i. i \<noteq> 0) (- 1) IAWorkspace) (map workspace_id_raw (workspace_ids p))
      (renumbering_start (filter (\<lambda>i. i \<noteq> 0) (map workspace_id_raw (workspace_ids p)))) =
      Inr (map workspace_id_raw (workspace_ids p'), s1)"
    using w works by (simp add: raw_concat)
  have C: "traverse (renumber_one is_valid_durable_session_id MAX_DURABLE_SESSION_ID IAChat) (map chat_id_raw (chat_ids p))
      (renumbering_start (filter is_valid_durable_session_id (map chat_id_raw (chat_ids p)))) =
      Inr (map chat_id_raw (chat_ids p'), s2)"
    using c unfolding chats(2) raw_concat(1) [symmetric] chats(1) [symmetric] by (simp add: raw_concat)
  have T: "traverse (renumber_one is_valid_durable_session_id MAX_DURABLE_SESSION_ID IATerminal) (map terminal_id_raw (terminal_ids p))
      (renumbering_start (filter is_valid_durable_session_id (map terminal_id_raw (terminal_ids p)))) =
      Inr (map terminal_id_raw (terminal_ids p'), s3)"
    using t unfolding p' terms [symmetric] by (simp add: raw_concat)
  note W' = renumbered [OF W nonzero_range] and C' = renumbered [OF C durable_range] and T' = renumbered [OF T durable_range]
  note W1 = W' [THEN conjunct1] and C1 = C' [THEN conjunct1] and T1 = T' [THEN conjunct1]
  note W4 = W' [THEN conjunct2, THEN conjunct2, THEN conjunct2, THEN conjunct1]
    and C4 = C' [THEN conjunct2, THEN conjunct2, THEN conjunct2, THEN conjunct1]
    and T4 = T' [THEN conjunct2, THEN conjunct2, THEN conjunct2, THEN conjunct1]
  have d: "distinct (map workspace_id_raw (workspace_ids p'))" "distinct (map chat_id_raw (chat_ids p'))"
    "distinct (map terminal_id_raw (terminal_ids p'))"
    using W' C' T' by blast+
  have r: "\<forall>i \<in> set (map workspace_id_raw (workspace_ids p')). 1 \<le> i"
    "\<forall>i \<in> set (map chat_id_raw (chat_ids p')). is_valid_durable_session_id i"
    "\<forall>i \<in> set (map terminal_id_raw (terminal_ids p')). is_valid_durable_session_id i"
    unfolding is_valid_durable_session_id_def using W' C' T' by blast+
  have "WorkspaceId 0 \<notin> set (workspace_ids p')"
    using r(1) by force
  then have "ids_ok p'"
    using d r(2,3) by (simp add: ids_ok_def distinct_map)
  moreover have "kept_first (\<lambda>i. workspace_id_raw i \<noteq> 0) (workspace_ids p) (workspace_ids p')"
    by (rule kept_first_raw [OF W1 raw_inj(1) W4])
  moreover have "(\<lambda>i. workspace_id_raw i \<noteq> 0) = (\<lambda>i. i \<noteq> WorkspaceId 0)"
    by (auto simp: fun_eq_iff workspace_id.expand)
  moreover have "kept_first (\<lambda>i. is_valid_durable_session_id (chat_id_raw i)) (chat_ids p) (chat_ids p')"
    by (rule kept_first_raw [OF C1 raw_inj(2) C4])
  moreover have "kept_first (\<lambda>i. is_valid_durable_session_id (terminal_id_raw i)) (terminal_ids p) (terminal_ids p')"
    by (rule kept_first_raw [OF T1 raw_inj(3) T4])
  ultimately show ?thesis using p' by auto
qed

end
