(* ===== verification/Project_Tables.thy ===== *)
theory Project_Tables
  imports Project_Numbers
begin

text \<open>
  The repair of the identity table and of the table of agent generations: what \<open>retain\<close> keeps,
  what is minted for sessions without an entry, and that the result is valid.
\<close>

section \<open>Keeping first occurrences\<close>

lemma kept_keys_spec:
  assumes "kept_keys present seen es = (ks, seen')" and "distinct (map fst es)"
  shows "set ks \<subseteq> fst ` set es \<and>
    (\<forall>k v. (k, v) \<in> set es \<longrightarrow> k \<in> set ks \<longrightarrow> present k \<and> \<not> btm_contains seen v \<and> btm_contains seen' v) \<and>
    (\<forall>k k' v. (k, v) \<in> set es \<longrightarrow> (k', v) \<in> set es \<longrightarrow> k \<in> set ks \<longrightarrow> k' \<in> set ks \<longrightarrow> k = k') \<and>
    (\<forall>x. btm_contains seen x \<longrightarrow> btm_contains seen' x)"
  using assms
proof (induction es arbitrary: seen ks)
  case Nil
  then show ?case by simp
next
  case (Cons e es)
  obtain j w where e: "e = (j, w)" by fastforce
  show ?case
  proof (cases "present j \<and> \<not> btm_contains seen w")
    case True
    obtain ks' where rest: "kept_keys present (bts_insert w seen) es = (ks', seen')" and ks: "ks = j # ks'"
      using Cons.prems(1) True e by (auto split: prod.splits)
    show ?thesis
      using Cons.IH [OF rest] Cons.prems(2) True e ks by (auto 0 3 simp: image_iff)
  next
    case False
    then have rest: "kept_keys present seen es = (ks, seen')" using Cons.prems(1) e by auto
    show ?thesis using Cons.IH [OF rest] Cons.prems(2) e by (auto 0 3 simp: image_iff)
  qed
qed

lemma kept_keys_all:
  assumes "\<forall>e \<in> set es. present (fst e) \<and> \<not> btm_contains seen (snd e)" and "distinct (map snd es)"
  shows "fst (kept_keys present seen es) = map fst es \<and>
    (\<forall>x. btm_contains (snd (kept_keys present seen es)) x \<longleftrightarrow> btm_contains seen x \<or> x \<in> snd ` set es)"
  using assms
proof (induction es arbitrary: seen)
  case (Cons e es)
  have "\<forall>d \<in> set es. present (fst d) \<and> \<not> btm_contains (bts_insert (snd e) seen) (snd d)"
    using Cons.prems by (auto simp: image_iff)
  note rest = Cons.IH [OF this]
  show ?case using Cons.prems rest by (auto simp: case_prod_unfold)
qed simp

lemma retain_fresh_spec:
  assumes "retain_fresh present seen m = (m', seen')"
  shows "(\<forall>k v. btm_get m' k = Some v \<longrightarrow>
      btm_get m k = Some v \<and> present k \<and> \<not> btm_contains seen v \<and> btm_contains seen' v) \<and>
    distinct (btm_values m')"
proof -
  obtain ks where ks: "kept_keys present seen (btm_entries m) = (ks, seen')"
    and m': "m' = btm_filter (\<lambda>(k, v). k \<in> set ks) m"
    using assms by (auto simp: retain_fresh_def split: prod.splits)
  note spec = kept_keys_spec [OF ks btm.keys_distinct]
  have get: "btm_get m' k = Some v \<Longrightarrow> btm_get m k = Some v \<and> k \<in> set ks" for k v
    by (auto simp: m' btm_get_filter split: option.splits if_splits)
  then show ?thesis
    using spec by (simp add: distinct_btm_values btm.entries_iff) blast
qed

lemma retain_fresh_all:
  assumes "\<And>k v. btm_get m k = Some v \<Longrightarrow> present k \<and> \<not> btm_contains seen v" and "distinct (btm_values m)"
  shows "fst (retain_fresh present seen m) = m"
    and "btm_contains (snd (retain_fresh present seen m)) x \<longleftrightarrow> btm_contains seen x \<or> x \<in> set (btm_values m)"
proof -
  have all: "fst (kept_keys present seen (btm_entries m)) = map fst (btm_entries m) \<and>
    (\<forall>x. btm_contains (snd (kept_keys present seen (btm_entries m))) x \<longleftrightarrow>
       btm_contains seen x \<or> x \<in> snd ` set (btm_entries m))"
    using assms by (intro kept_keys_all) (auto simp: btm.entries_iff btm_values_def)
  then show "btm_contains (snd (retain_fresh present seen m)) x \<longleftrightarrow> btm_contains seen x \<or> x \<in> set (btm_values m)"
    by (simp add: retain_fresh_def btm_values_def case_prod_unfold)
  show "fst (retain_fresh present seen m) = m"
  proof (rule btm_eqI)
    fix k
    have "v = w" if "btm_get m k = Some v" "(k, w) \<in> set (btm_entries m)" for v w
      using that by (simp add: btm.entries_iff)
    moreover have "k \<in> fst ` set (btm_entries m)" if "btm_get m k = Some v" for v
      using that by (force simp flip: btm.entries_iff)
    ultimately show "btm_get (fst (retain_fresh present seen m)) k = btm_get m k"
      using all by (simp add: retain_fresh_def case_prod_unfold btm_get_filter split: option.split)
  qed
qed

section \<open>Minting\<close>

lemma distinct_insert_fresh:
  assumes "distinct (btm_values m)" and "v \<notin> set (btm_values m)"
  shows "distinct (btm_values (btm_insert k v m))"
  using assms by (auto simp: distinct_btm_values set_btm_values)

lemma project_tokens_distinct_iff:
  "distinct (project_tokens p) \<longleftrightarrow> distinct (btm_values (si_chats (pj_identities p))) \<and>
     distinct (btm_values (si_terminals (pj_identities p))) \<and>
     set (btm_values (si_chats (pj_identities p))) \<inter> set (btm_values (si_terminals (pj_identities p))) = {}"
  by (auto simp: project_tokens_def)

lemma set_values_insert_fresh: "set (btm_values (btm_insert k v m)) \<subseteq> insert v (set (btm_values m))"
  by (auto simp: set_btm_values split: if_splits)

lemma mint_chat_tokens_spec:
  assumes "mint_chat_tokens is source changed p = Inr (changed', p', source')"
  shows "(\<exists>table. p' = p\<lparr>pj_identities := (pj_identities p)\<lparr>si_chats := table\<rparr>\<rparr>) \<and>
    (\<forall>i. btm_contains (si_chats (pj_identities p')) i \<longleftrightarrow> i \<in> set is \<or> btm_contains (si_chats (pj_identities p)) i) \<and>
    (\<forall>i t. btm_get (si_chats (pj_identities p)) i = Some t \<longrightarrow> btm_get (si_chats (pj_identities p')) i = Some t) \<and>
    (distinct (project_tokens p) \<longrightarrow> distinct (project_tokens p'))"
  using assms
proof (induction "is" arbitrary: p source changed)
  case Nil
  then show ?case by (auto intro!: exI [where x = "si_chats (pj_identities p)"])
next
  case (Cons i "is")
  show ?case
  proof (cases "btm_contains (si_chats (pj_identities p)) i")
    case True
    then have "mint_chat_tokens is source changed p = Inr (changed', p', source')" using Cons.prems by simp
    from Cons.IH [OF this] show ?thesis using True by auto
  next
    case False
    let ?q = "\<lambda>t. p\<lparr>pj_identities := (pj_identities p)\<lparr>si_chats := btm_insert i t (si_chats (pj_identities p))\<rparr>\<rparr>"
    obtain t rest where t: "allocate_session_token p source = (Inr t, rest)"
      and tail: "mint_chat_tokens is rest True (?q t) = Inr (changed', p', source')"
      using Cons.prems False by (auto split: prod.splits sum.splits)
    have fresh: "t \<notin> set (project_tokens p)" using allocate_session_token_fresh [OF t] .
    then have "distinct (project_tokens p) \<longrightarrow> distinct (project_tokens (?q t))"
      using distinct_insert_fresh [of "si_chats (pj_identities p)" t i]
        set_values_insert_fresh [of i t "si_chats (pj_identities p)"]
      unfolding project_tokens_distinct_iff by (auto simp: project_tokens_def)
    then show ?thesis
      using Cons.IH [OF tail] False by (auto simp: btm_contains_def split: if_splits) (metis option.distinct(1))+
  qed
qed

lemma mint_terminal_tokens_spec:
  assumes "mint_terminal_tokens is source changed p = Inr (changed', p', source')"
  shows "(\<exists>table. p' = p\<lparr>pj_identities := (pj_identities p)\<lparr>si_terminals := table\<rparr>\<rparr>) \<and>
    (\<forall>i. btm_contains (si_terminals (pj_identities p')) i \<longleftrightarrow> i \<in> set is \<or> btm_contains (si_terminals (pj_identities p)) i) \<and>
    (\<forall>i t. btm_get (si_terminals (pj_identities p)) i = Some t \<longrightarrow> btm_get (si_terminals (pj_identities p')) i = Some t) \<and>
    (distinct (project_tokens p) \<longrightarrow> distinct (project_tokens p'))"
  using assms
proof (induction "is" arbitrary: p source changed)
  case Nil
  then show ?case by (auto intro!: exI [where x = "si_terminals (pj_identities p)"])
next
  case (Cons i "is")
  show ?case
  proof (cases "btm_contains (si_terminals (pj_identities p)) i")
    case True
    then have "mint_terminal_tokens is source changed p = Inr (changed', p', source')" using Cons.prems by simp
    from Cons.IH [OF this] show ?thesis using True by auto
  next
    case False
    let ?q = "\<lambda>t. p\<lparr>pj_identities := (pj_identities p)\<lparr>si_terminals := btm_insert i t (si_terminals (pj_identities p))\<rparr>\<rparr>"
    obtain t rest where t: "allocate_session_token p source = (Inr t, rest)"
      and tail: "mint_terminal_tokens is rest True (?q t) = Inr (changed', p', source')"
      using Cons.prems False by (auto split: prod.splits sum.splits)
    have fresh: "t \<notin> set (project_tokens p)" using allocate_session_token_fresh [OF t] .
    then have "distinct (project_tokens p) \<longrightarrow> distinct (project_tokens (?q t))"
      using distinct_insert_fresh [of "si_terminals (pj_identities p)" t i]
        set_values_insert_fresh [of i t "si_terminals (pj_identities p)"]
      unfolding project_tokens_distinct_iff by (auto simp: project_tokens_def)
    then show ?thesis
      using Cons.IH [OF tail] False by (auto simp: btm_contains_def split: if_splits) (metis option.distinct(1))+
  qed
qed

lemma mint_nothing:
  "\<forall>i \<in> set is. btm_contains (si_chats (pj_identities p)) i \<Longrightarrow> mint_chat_tokens is source changed p = Inr (changed, p, source)"
  "\<forall>i \<in> set js. btm_contains (si_terminals (pj_identities p)) i \<Longrightarrow>
     mint_terminal_tokens js source changed p = Inr (changed, p, source)"
  by (induction "is"; simp) (induction js; simp)

section \<open>Repair\<close>

lemma normalize_session_identities_ok:
  assumes norm: "normalize_session_identities source p = Inr (changed, p', source')" and ids: "ids_ok p"
  shows "project_ok p' \<and> pj_workspaces p' = pj_workspaces p \<and> pj_namespace p' = pj_namespace p"
proof -
  let ?present_c = "btm_contains (bts_of_list (chat_ids p))" and ?present_t = "btm_contains (bts_of_list (terminal_ids p))"
  obtain cs seen ts seen' gs seen2 where
    cs: "retain_fresh ?present_c btm_empty (si_chats (pj_identities p)) = (cs, seen)" and
    ts: "retain_fresh ?present_t seen (si_terminals (pj_identities p)) = (ts, seen')" and
    gs: "retain_fresh ?present_c btm_empty (pj_generations p) = (gs, seen2)"
    by (metis surj_pair)
  let ?q = "p\<lparr>pj_identities := \<lparr>si_chats = cs, si_terminals = ts\<rparr>, pj_generations := gs\<rparr>"
  obtain ch ch2 q2 source2 where
    mc: "mint_chat_tokens (btm_keys (bts_of_list (chat_ids p))) source ch ?q = Inr (ch2, q2, source2)" and
    mt: "mint_terminal_tokens (btm_keys (bts_of_list (terminal_ids p))) source2 ch2 q2 = Inr (changed, p', source')"
    using norm by (auto simp: normalize_session_identities_def Let_def cs ts gs bind_sum_Inr_iff)
  note sc = retain_fresh_spec [OF cs] and st = retain_fresh_spec [OF ts] and sg = retain_fresh_spec [OF gs]
  note smc = mint_chat_tokens_spec [OF mc] and smt = mint_terminal_tokens_spec [OF mt]
  obtain table where q2: "q2 = ?q\<lparr>pj_identities := (pj_identities ?q)\<lparr>si_chats := table\<rparr>\<rparr>" using smc by blast
  obtain table' where p': "p' = q2\<lparr>pj_identities := (pj_identities q2)\<lparr>si_terminals := table'\<rparr>\<rparr>" using smt by blast
  have same: "workspace_ids p' = workspace_ids p" "chat_ids p' = chat_ids p" "terminal_ids p' = terminal_ids p"
    "pj_generations p' = gs"
    by (simp_all add: p' q2)
  have sub: "btm_contains cs i \<longrightarrow> i \<in> set (chat_ids p)" "btm_contains ts j \<longrightarrow> j \<in> set (terminal_ids p)" for i j
    using sc st by (auto simp: btm_contains_def [of cs] btm_contains_def [of ts])
  have "distinct (project_tokens ?q)"
    using sc st by (auto simp: project_tokens_distinct_iff set_btm_values)
  then have "distinct (project_tokens p')" using smc smt by blast
  moreover have "btm_contains (si_chats (pj_identities p')) i \<longleftrightarrow> i \<in> set (chat_ids p)" for i
    using smc sub(1) by (simp add: p' set_btm_keys) blast
  moreover have "btm_contains (si_terminals (pj_identities p')) i \<longleftrightarrow> i \<in> set (terminal_ids p)" for i
    using smt sub(2) by (simp add: q2 set_btm_keys) blast
  ultimately have "table_ok p'" by (simp add: table_ok_iff same)
  moreover have "generations_ok p'" using sg by (auto simp: generations_ok_def same btm_contains_def [of gs])
  moreover have "ids_ok p'" using ids by (simp add: ids_ok_def same)
  ultimately show ?thesis by (simp add: project_ok_iff p' q2)
qed

lemma normalize_session_identities_valid:
  assumes "project_ok p"
  shows "normalize_session_identities source p = Inr (False, p, source)"
proof -
  have ok: "ids_ok p" "table_ok p" "generations_ok p" using assms by (simp_all add: project_ok_iff)
  have c: "btm_get (si_chats (pj_identities p)) i = Some t \<Longrightarrow> i \<in> set (chat_ids p)"
    and t: "btm_get (si_terminals (pj_identities p)) j = Some u \<Longrightarrow> j \<in> set (terminal_ids p)"
    and g: "btm_get (pj_generations p) i = Some w \<Longrightarrow> i \<in> set (chat_ids p)" for i t j u w
    using ok unfolding table_ok_iff generations_ok_def btm_contains_def by force+
  have d: "distinct (btm_values (si_chats (pj_identities p)))" "distinct (btm_values (si_terminals (pj_identities p)))"
    "set (btm_values (si_chats (pj_identities p))) \<inter> set (btm_values (si_terminals (pj_identities p))) = {}"
    using ok(2) unfolding table_ok_iff project_tokens_distinct_iff by blast+
  let ?rc = "retain_fresh (btm_contains (bts_of_list (chat_ids p))) btm_empty (si_chats (pj_identities p))"
  have rc: "fst ?rc = si_chats (pj_identities p)"
    "btm_contains (snd ?rc) x \<longleftrightarrow> x \<in> set (btm_values (si_chats (pj_identities p)))" for x
    by (subst retain_fresh_all; use c d(1) in auto)+
  let ?rt = "retain_fresh (btm_contains (bts_of_list (terminal_ids p))) (snd ?rc) (si_terminals (pj_identities p))"
  have rt: "fst ?rt = si_terminals (pj_identities p)"
    by (rule retain_fresh_all) (use t d(2,3) rc(2) in \<open>auto simp: set_btm_values\<close>)
  let ?rg = "retain_fresh (btm_contains (bts_of_list (chat_ids p))) btm_empty (pj_generations p)"
  have rg: "fst ?rg = pj_generations p"
    by (rule retain_fresh_all) (use g ok(3) in \<open>auto simp: generations_ok_def\<close>)
  have all: "\<forall>i \<in> set (btm_keys (bts_of_list (chat_ids p))). btm_contains (si_chats (pj_identities p)) i"
    "\<forall>i \<in> set (btm_keys (bts_of_list (terminal_ids p))). btm_contains (si_terminals (pj_identities p)) i"
    using ok(2) by (simp_all add: table_ok_iff set_btm_keys)
  have same: "p\<lparr>pj_identities := \<lparr>si_chats = si_chats (pj_identities p), si_terminals = si_terminals (pj_identities p)\<rparr>\<rparr> = p"
    by (cases p) auto
  have "normalize_session_identities source p =
      bind_sum (mint_chat_tokens (btm_keys (bts_of_list (chat_ids p))) source False p)
        (\<lambda>(changed, p', source'). mint_terminal_tokens (btm_keys (bts_of_list (terminal_ids p))) source' changed p')"
    by (simp add: normalize_session_identities_def Let_def case_prod_unfold rc(1) rt rg same)
  then show ?thesis using mint_nothing(1) [OF all(1)] mint_nothing(2) [OF all(2)] by simp
qed

end
