(* ===== verification/Project_Capacity.thy ===== *)
theory Project_Capacity
  imports Project_Tables
begin

text \<open>
  Repairing the numbers of a project fails exactly when it holds more sessions than there are
  durable numbers.
\<close>

lemma foldl_saturating:
  fixes g :: "'a \<Rightarrow> nat"
  shows "c \<le> L \<Longrightarrow> foldl (\<lambda>count w. min (count + g w) L) c ws = min (c + sum_list (map g ws)) L"
  by (induction ws arbitrary: c) (auto simp: min_def)

lemma ensure_id_capacity_cases:
  "ensure_id_capacity p =
     (if unat MAX_DURABLE_SESSION_ID < length (chat_ids p) then Inl IAChat
      else if unat MAX_DURABLE_SESSION_ID < length (terminal_ids p) then Inl IATerminal else Inr ())"
proof -
  have "unat MAX_DURABLE_SESSION_ID < 2 ^ 64"
    using unsigned_less [of MAX_DURABLE_SESSION_ID, where 'a = nat] by simp
  then have "unat MAX_DURABLE_SESSION_ID < min n (2 ^ 128 - 1) \<longleftrightarrow> unat MAX_DURABLE_SESSION_ID < n" for n :: nat
    by (simp add: min_def)
  then show ?thesis
    by (simp add: ensure_id_capacity_def foldl_saturating chat_ids_def terminal_ids_def length_concat comp_def)
qed

lemma traverse_from_raw:
  assumes "\<And>x s. g x s = bind_sum (f (proj x) s) (\<lambda>(j, s). Inr (put j x, s))"
  shows "(\<exists>r. traverse f (map proj xs) s = Inr r) \<Longrightarrow> \<exists>r. traverse g xs s = Inr r"
proof (induction xs arbitrary: s)
  case (Cons x xs)
  then obtain j t where one: "f (proj x) s = Inr (j, t)" and "\<exists>r. traverse f (map proj xs) t = Inr r"
    by (auto simp: bind_sum_Inr_iff)
  from Cons.IH [OF this(2)] one show ?case by (auto simp: assms)
qed simp

lemma traverse_from_nested:
  assumes "\<And>x s. (\<exists>r. traverse f (proj x) s = Inr r) \<Longrightarrow> \<exists>r. g x s = Inr r"
    and "\<And>x s y s'. g x s = Inr (y, s') \<Longrightarrow> traverse f (proj x) s = Inr (proj y, s')"
  shows "(\<exists>r. traverse f (concat (map proj xs)) s = Inr r) \<Longrightarrow> \<exists>r. traverse g xs s = Inr r"
proof (induction xs arbitrary: s)
  case (Cons x xs)
  then obtain ys t where one: "traverse f (proj x) s = Inr (ys, t)"
    and tail: "\<exists>r. traverse f (concat (map proj xs)) t = Inr r"
    by (auto simp: traverse_append bind_sum_Inr_iff)
  obtain y u where g: "g x s = Inr (y, u)" using assms(1) [of x s] one by fastforce
  then have "u = t" using assms(2) [OF g] one by simp
  then show ?case using Cons.IH [OF tail] g by auto
qed simp

lemma renumber_chats_nested:
  assumes "renumber_chats w s = Inr (w', s')"
  shows "traverse (renumber_one is_valid_durable_session_id MAX_DURABLE_SESSION_ID IAChat)
      (map (\<lambda>c. chat_id_raw (ct_id c)) (ws_chats w)) s = Inr (map (\<lambda>c. chat_id_raw (ct_id c)) (ws_chats w'), s')"
  using renumber_chat_ids [of "[w]" s "[w']" s'] assms by simp

lemma renumber_terminals_nested:
  assumes "renumber_terminals w s = Inr (w', s')"
  shows "traverse (renumber_one is_valid_durable_session_id MAX_DURABLE_SESSION_ID IATerminal)
      (map (\<lambda>t. terminal_id_raw (tm_id t)) (ws_terminals w)) s = Inr (map (\<lambda>t. terminal_id_raw (tm_id t)) (ws_terminals w'), s')"
  using renumber_terminal_ids [of "[w]" s "[w']" s'] assms by simp

lemma renumber_chats_total:
  assumes "\<exists>r. traverse (renumber_one is_valid_durable_session_id MAX_DURABLE_SESSION_ID IAChat)
    (concat (map (\<lambda>w :: workspace. map (\<lambda>c. chat_id_raw (ct_id c)) (ws_chats w)) ws)) s = Inr r"
  shows "\<exists>r. traverse renumber_chats ws s = Inr r"
proof (rule traverse_from_nested [OF _ renumber_chats_nested assms])
  fix w :: workspace and s
  assume "\<exists>r. traverse (renumber_one is_valid_durable_session_id MAX_DURABLE_SESSION_ID IAChat)
    (map (\<lambda>c. chat_id_raw (ct_id c)) (ws_chats w)) s = Inr r"
  then have "\<exists>r. traverse (\<lambda>c s. bind_sum
      (renumber_one is_valid_durable_session_id MAX_DURABLE_SESSION_ID IAChat (chat_id_raw (ct_id c)) s)
      (\<lambda>(i, s). Inr (c\<lparr>ct_id := ChatId i\<rparr>, s))) (ws_chats w) s = Inr r"
    by (rule traverse_from_raw [rotated, where put = "\<lambda>i c. c\<lparr>ct_id := ChatId i\<rparr>"]) simp
  then show "\<exists>r. renumber_chats w s = Inr r" by (auto simp: renumber_chats_def)
qed

lemma renumber_terminals_total:
  assumes "\<exists>r. traverse (renumber_one is_valid_durable_session_id MAX_DURABLE_SESSION_ID IATerminal)
    (concat (map (\<lambda>w :: workspace. map (\<lambda>t. terminal_id_raw (tm_id t)) (ws_terminals w)) ws)) s = Inr r"
  shows "\<exists>r. traverse renumber_terminals ws s = Inr r"
proof (rule traverse_from_nested [OF _ renumber_terminals_nested assms])
  fix w :: workspace and s
  assume "\<exists>r. traverse (renumber_one is_valid_durable_session_id MAX_DURABLE_SESSION_ID IATerminal)
    (map (\<lambda>t. terminal_id_raw (tm_id t)) (ws_terminals w)) s = Inr r"
  then have "\<exists>r. traverse (\<lambda>t s. bind_sum
      (renumber_one is_valid_durable_session_id MAX_DURABLE_SESSION_ID IATerminal (terminal_id_raw (tm_id t)) s)
      (\<lambda>(i, s). Inr (t\<lparr>tm_id := TerminalId i\<rparr>, s))) (ws_terminals w) s = Inr r"
    by (rule traverse_from_raw [rotated, where put = "\<lambda>i t. t\<lparr>tm_id := TerminalId i\<rparr>"]) simp
  then show "\<exists>r. renumber_terminals w s = Inr r" by (auto simp: renumber_terminals_def)
qed

lemma renumbering_starts:
  assumes "length ids \<le> unat limit" and "limit \<noteq> 0"
  shows "\<exists>r. traverse (renumber_one valid limit error) ids (renumbering_start (filter valid ids)) = Inr r"
proof -
  have "bts_len (btm_empty :: u64 btset) = 0" by (simp add: bts_len_def)
  then show ?thesis
    using renumber_total [of "renumbering_start (filter valid ids)" ids valid limit error] assms
    by (auto simp: renumbering_start_def)
qed

lemma unat_max: "unat (- 1 :: u64) = 2 ^ 64 - 1"
  by (simp add: unsigned_minus_1_eq_mask mask_eq_exp_minus_1)

lemma MAX_DURABLE_nonzero: "MAX_DURABLE_SESSION_ID \<noteq> 0"
  by (simp add: MAX_DURABLE_SESSION_ID_def RUNTIME_TERMINAL_ID_FLAG_def)

lemma normalize_existing_ids_total:
  assumes cap: "length (chat_ids p) \<le> unat MAX_DURABLE_SESSION_ID" "length (terminal_ids p) \<le> unat MAX_DURABLE_SESSION_ID"
    and workspaces: "length (pj_workspaces p) < 2 ^ 64"
  shows "\<exists>r. normalize_existing_ids p = Inr r"
proof -
  have "length (map workspace_id_raw (workspace_ids p)) \<le> unat (- 1 :: u64)"
    using workspaces by (simp add: workspace_ids_def unat_max)
  then have "\<exists>r. traverse renumber_workspace (pj_workspaces p)
      (renumbering_start (filter (\<lambda>i. i \<noteq> 0) (map workspace_id_raw (workspace_ids p)))) = Inr r"
    using renumbering_starts [of "map workspace_id_raw (workspace_ids p)" "- 1" "\<lambda>i. i \<noteq> 0" IAWorkspace]
    unfolding raw_concat(3)
    by (intro traverse_from_raw [where put = "\<lambda>i w. w\<lparr>ws_id := WorkspaceId i\<rparr>"]) (simp_all add: renumber_workspace_def)
  then obtain ws1 s1 where 1: "traverse renumber_workspace (pj_workspaces p)
      (renumbering_start (filter (\<lambda>i. i \<noteq> 0) (map workspace_id_raw (workspace_ids p)))) = Inr (ws1, s1)" by auto
  let ?p1 = "p\<lparr>pj_workspaces := ws1\<rparr>"
  have c1: "chat_ids ?p1 = chat_ids p" "terminal_ids ?p1 = terminal_ids p"
    using renumber_workspace_ids [OF 1] by (simp_all add: ids_via_maps)
  have "\<exists>r. traverse renumber_chats (pj_workspaces ?p1)
      (renumbering_start (filter is_valid_durable_session_id (map chat_id_raw (chat_ids ?p1)))) = Inr r"
    using renumbering_starts [of "map chat_id_raw (chat_ids ?p1)" MAX_DURABLE_SESSION_ID is_valid_durable_session_id IAChat]
      cap(1) MAX_DURABLE_nonzero c1(1)
    by (intro renumber_chats_total, unfold raw_concat(1) [symmetric]) simp
  then obtain ws2 s2 where 2: "traverse renumber_chats ws1
      (renumbering_start (filter is_valid_durable_session_id (map chat_id_raw (chat_ids ?p1)))) = Inr (ws2, s2)" by auto
  let ?p2 = "p\<lparr>pj_workspaces := ws2\<rparr>"
  have c2: "terminal_ids ?p2 = terminal_ids p"
    using renumber_chat_ids [OF 2] c1(2) by (simp add: ids_via_maps)
  have "\<exists>r. traverse renumber_terminals (pj_workspaces ?p2)
      (renumbering_start (filter is_valid_durable_session_id (map terminal_id_raw (terminal_ids ?p2)))) = Inr r"
    using renumbering_starts [of "map terminal_id_raw (terminal_ids ?p2)" MAX_DURABLE_SESSION_ID is_valid_durable_session_id IATerminal]
      cap(2) MAX_DURABLE_nonzero c2
    by (intro renumber_terminals_total, unfold raw_concat(2) [symmetric]) simp
  then obtain ws3 s3 where 3: "traverse renumber_terminals ws2
      (renumbering_start (filter is_valid_durable_session_id (map terminal_id_raw (terminal_ids ?p2)))) = Inr (ws3, s3)" by auto
  show ?thesis using 1 2 3 by (simp add: normalize_existing_ids_def Let_def)
qed

lemma normalize_next_ids_shape:
  assumes "normalize_next_ids p = Inr (changed, p')"
  shows "ids_ok p' \<and> (\<exists>q. normalize_existing_ids p = Inr q \<and> chat_ids p' = chat_ids (snd q) \<and>
    terminal_ids p' = terminal_ids (snd q) \<and> workspace_ids p' = workspace_ids (snd q)) \<and>
    pj_namespace p' = pj_namespace p \<and> pj_identities p' = pj_identities p \<and> pj_generations p' = pj_generations p"
proof -
  obtain r where r: "normalize_existing_ids p = Inr r"
    using assms by (auto simp: normalize_next_ids_def bind_sum_Inr_iff)
  obtain ch q where q: "normalize_existing_ids p = Inr (ch, q)" using r by (cases r) simp
  have p': "\<exists>w c t. p' = q\<lparr>pj_next_workspace_id := w, pj_next_chat_id := c, pj_next_terminal_id := t\<rparr>"
    using assms q by (auto simp: normalize_next_ids_def bind_sum_Inr_iff Let_def)
  note spec = normalize_existing_ids_spec [OF q]
  obtain w c t where p'': "p' = q\<lparr>pj_next_workspace_id := w, pj_next_chat_id := c, pj_next_terminal_id := t\<rparr>"
    using p' by blast
  obtain ws where q': "q = p\<lparr>pj_workspaces := ws\<rparr>" using spec by blast
  have "ids_ok p'" using spec by (simp add: ids_ok_def p'')
  then show ?thesis using q by (simp add: p'') (simp add: q')
qed

end
