(* ===== verification/Project_Messages.thy ===== *)
theory Project_Messages
  imports Project_Invariant
begin

text \<open>
  The bound of a chat message's text: what \<open>push_capped_message_text\<close> appends, and that text that
  was cut takes nothing more.
\<close>

section \<open>Retreating to a boundary\<close>

lemma is_char_boundary_iff: "is_char_boundary n s \<longleftrightarrow> (\<exists>k. n = byte_len (take k s))"
proof
  assume "is_char_boundary n s"
  then obtain a b where "split_at_byte n s = Some (a, b)" by (auto simp: is_char_boundary_def)
  then have "take (length a) s = a" "n = byte_len a" by (auto simp: split_at_byte_Some)
  then show "\<exists>k. n = byte_len (take k s)" by metis
qed (auto simp: is_char_boundary_def split_at_byte_take)

lemma retreat_to_boundary_bounds:
  "retreat_to_boundary s n \<le> n \<and> is_char_boundary (retreat_to_boundary s n) s \<and>
   (\<forall>m. is_char_boundary m s \<longrightarrow> m \<le> n \<longrightarrow> m \<le> retreat_to_boundary s n)"
proof (induction n)
  case 0
  then show ?case by (simp add: is_char_boundary_def)
next
  case (Suc n)
  then show ?case by (auto simp: le_Suc_eq)
qed

lemma near_boundary: "n \<le> byte_len s \<Longrightarrow> \<exists>m. is_char_boundary m s \<and> m \<le> n \<and> n \<le> m + 3"
proof (induction s arbitrary: n)
  case Nil
  then show ?case by (auto simp: is_char_boundary_def)
next
  case (Cons c s)
  show ?case
  proof (cases "n < utf8_len c")
    case True
    then show ?thesis using utf8_len_bounds(2) [of c] by (intro exI [where x = 0]) (simp add: is_char_boundary_def)
  next
    case False
    then obtain m where m: "is_char_boundary m s" "m \<le> n - utf8_len c" "n - utf8_len c \<le> m + 3"
      using Cons.IH [of "n - utf8_len c"] Cons.prems False by fastforce
    then obtain k where "m = byte_len (take k s)" by (auto simp: is_char_boundary_iff)
    then have "is_char_boundary (utf8_len c + m) (c # s)"
      by (auto simp: is_char_boundary_iff intro: exI [where x = "Suc k"])
    then show ?thesis using m False by (intro exI [where x = "utf8_len c + m"]) auto
  qed
qed

lemma retreat_to_boundary_near:
  assumes "n \<le> byte_len s"
  shows "n \<le> retreat_to_boundary s n + 3"
  using near_boundary [OF assms] retreat_to_boundary_bounds [of s n] by fastforce

lemma str_prefix_boundary:
  assumes "is_char_boundary n s"
  shows "\<exists>k. str_prefix n s = take k s" and "byte_len (str_prefix n s) = n"
  using assms by (auto simp: is_char_boundary_iff str_prefix_def split_at_byte_take)

section \<open>Appending to a message\<close>

definition CONTENT_LIMIT :: nat where
  "CONTENT_LIMIT = MAX_CHAT_MESSAGE_BYTES - byte_len CHAT_MESSAGE_TRUNCATION_NOTICE"

lemma notice_length: "byte_len CHAT_MESSAGE_TRUNCATION_NOTICE = 12"
  by (simp add: CHAT_MESSAGE_TRUNCATION_NOTICE_def ascii_def utf8_len_def of_char_def)

lemma content_limit: "CONTENT_LIMIT = 65524" "MAX_CHAT_MESSAGE_BYTES = CONTENT_LIMIT + 12"
  by (simp_all add: CONTENT_LIMIT_def notice_length MAX_CHAT_MESSAGE_BYTES_def)

lemma push_capped_cases:
  "push_capped_message_text old s =
    (if CONTENT_LIMIT \<le> byte_len old then (False, old)
     else if byte_len old + byte_len s \<le> CONTENT_LIMIT then (True, old @ s)
     else (True, old @ str_prefix (retreat_to_boundary s (CONTENT_LIMIT - byte_len old)) s @ CHAT_MESSAGE_TRUNCATION_NOTICE))"
  by (auto simp: push_capped_message_text_def Let_def CONTENT_LIMIT_def [symmetric])

lemma push_capped_bound:
  assumes "byte_len old \<le> MAX_CHAT_MESSAGE_BYTES"
  shows "byte_len (snd (push_capped_message_text old s)) \<le> MAX_CHAT_MESSAGE_BYTES"
  using assms retreat_to_boundary_bounds [of s "CONTENT_LIMIT - byte_len old"]
  by (auto simp: push_capped_cases content_limit(2) notice_length str_prefix_boundary(2))

lemma push_capped_keeps:
  "\<exists>k. snd (push_capped_message_text old s) \<in> {old, old @ s, old @ take k s @ CHAT_MESSAGE_TRUNCATION_NOTICE}"
  using str_prefix_boundary(1) retreat_to_boundary_bounds [of s "CONTENT_LIMIT - byte_len old"]
  by (auto simp: push_capped_cases)

lemma push_capped_full:
  assumes "CONTENT_LIMIT < byte_len old + byte_len s"
  shows "fst (push_capped_message_text (snd (push_capped_message_text old s)) t) = False"
proof (cases "CONTENT_LIMIT \<le> byte_len old")
  case False
  let ?k = "retreat_to_boundary s (CONTENT_LIMIT - byte_len old)"
  have "CONTENT_LIMIT - byte_len old \<le> ?k + 3"
    using retreat_to_boundary_near [of "CONTENT_LIMIT - byte_len old" s] assms by simp
  moreover have "byte_len (str_prefix ?k s) = ?k"
    using str_prefix_boundary(2) retreat_to_boundary_bounds by blast
  ultimately have "CONTENT_LIMIT \<le> byte_len (snd (push_capped_message_text old s))"
    using assms False by (simp add: push_capped_cases notice_length)
  then show ?thesis by (simp add: push_capped_cases)
qed (simp add: push_capped_cases)

section \<open>The messages of a project\<close>

definition messages_bounded :: "project_state \<Rightarrow> bool" where
  "messages_bounded p \<longleftrightarrow> (\<forall>w \<in> set (pj_workspaces p). \<forall>c \<in> set (ws_chats w). \<forall>m \<in> set (ct_messages c).
     byte_len (cm_text m) \<le> MAX_CHAT_MESSAGE_BYTES)"

lemma set_update_first: "set (update_first P f xs) \<subseteq> set xs \<union> f ` {x \<in> set xs. P x}"
  by (induction xs) auto

lemma update_first_ball:
  assumes "\<forall>x \<in> set xs. Q x" and "\<And>x. x \<in> set xs \<Longrightarrow> P x \<Longrightarrow> Q x \<Longrightarrow> Q (f x)"
  shows "\<forall>x \<in> set (update_first P f xs). Q x"
  using assms by (induction xs) auto

lemma find_first_unique:
  "find P xs = Some x \<Longrightarrow> update_first P f xs = update_first P (\<lambda>_. f x) xs"
  by (induction xs) (auto split: if_splits)

abbreviation bounded_messages :: "chat_message list \<Rightarrow> bool" where
  "bounded_messages ms \<equiv> \<forall>m \<in> set ms. byte_len (cm_text m) \<le> MAX_CHAT_MESSAGE_BYTES"

lemma update_chat_bounded:
  assumes "messages_bounded p" and f: "\<And>c. bounded_messages (ct_messages c) \<Longrightarrow> bounded_messages (ct_messages (f c))"
  shows "messages_bounded (update_chat wid cid f p)"
proof -
  have chats: "\<forall>c \<in> set (update_first P f cs). bounded_messages (ct_messages c)"
    if "\<forall>c \<in> set cs. bounded_messages (ct_messages c)" for P cs
    by (rule update_first_ball [OF that f])
  have "\<forall>w \<in> set (update_first P (\<lambda>w. w\<lparr>ws_chats := update_first Q f (ws_chats w)\<rparr>) ws).
      \<forall>c \<in> set (ws_chats w). bounded_messages (ct_messages c)"
    if "\<forall>w \<in> set ws. \<forall>c \<in> set (ws_chats w). bounded_messages (ct_messages c)" for P Q ws
    by (rule update_first_ball [OF that]) (simp add: chats)
  then show ?thesis
    using assms(1) by (simp add: messages_bounded_def update_chat_def update_workspace_def)
qed

lemma find_chat_member:
  "find_chat wid cid p = Some c \<Longrightarrow> \<exists>w \<in> set (pj_workspaces p). c \<in> set (ws_chats w) \<and> ct_id c = cid \<and> ws_id w = wid"
  by (auto simp: find_chat_def find_workspace_def find_Some_iff split: bind_splits) (metis nth_mem)

lemma append_chat_message_bounded:
  assumes "messages_bounded p"
  shows "messages_bounded (snd (append_chat_message wid cid role s p))"
  using assms push_capped_bound [of "[]" s]
  by (auto simp: append_chat_message_def intro!: update_chat_bounded)

lemma append_chat_delta_bounded:
  assumes "messages_bounded p"
  shows "messages_bounded (snd (append_chat_delta wid cid role s p))"
proof (cases "find_chat wid cid p")
  case (Some c)
  have "byte_len (cm_text m) \<le> MAX_CHAT_MESSAGE_BYTES" if "m \<in> set (ct_messages c)" for m
    using find_chat_member [OF Some] assms that by (auto simp: messages_bounded_def)
  then have "byte_len (snd (push_capped_message_text (cm_text (last (ct_messages c))) s)) \<le> MAX_CHAT_MESSAGE_BYTES"
    if "ct_messages c \<noteq> []" using that by (intro push_capped_bound) simp
  then show ?thesis
    using assms push_capped_bound [of "[]" s] Some
    by (auto simp: append_chat_delta_def case_prod_unfold intro!: update_chat_bounded) (meson in_set_butlastD)
qed (use assms in \<open>simp add: append_chat_delta_def\<close>)

end
