(* ===== verification/Project_Properties.thy ===== *)
theory Project_Properties
  imports Project_Capacity Project_Messages
begin

text \<open>
  The properties of the client's durable state: the number allocator, validity and stable
  identities under every operation, what repair promises, and the bound of a chat's messages.
\<close>

section \<open>A sample\<close>

definition sample_entropy :: entropy where
  "sample_entropy n = Inr (of_nat (Suc n))"

definition sample_empty :: project_state where
  "sample_empty = \<lparr>pj_version = STATE_VERSION, pj_namespace = StateNamespace 1,
     pj_identities = \<lparr>si_chats = btm_empty, si_terminals = btm_empty\<rparr>, pj_generations = btm_empty,
     pj_next_workspace_id = 1, pj_next_chat_id = 1, pj_next_terminal_id = 1, pj_workspaces = []\<rparr>"

definition sample_chat :: "u64 \<Rightarrow> string \<Rightarrow> chat_session" where
  "sample_chat i name = \<lparr>ct_id = ChatId i, ct_name = ascii name, ct_status = Idle, ct_agent = ClaudeCode, ct_messages = []\<rparr>"

definition sample_workspace :: "u64 \<Rightarrow> chat_session list \<Rightarrow> workspace" where
  "sample_workspace i cs = \<lparr>ws_id = WorkspaceId i, ws_name = ascii ''mult'', ws_cwd = None, ws_remote = None,
     ws_environment = [], ws_chats = cs, ws_terminals = []\<rparr>"

text \<open>Two chats with one number and a workspace with number 0.\<close>

definition sample_broken :: project_state where
  "sample_broken = sample_empty\<lparr>pj_workspaces := [sample_workspace 0 [sample_chat 2 ''a'', sample_chat 2 ''b'']]\<rparr>"

definition sample_renumbered :: project_state where
  "sample_renumbered = sample_empty\<lparr>pj_next_workspace_id := 2, pj_next_chat_id := 3,
     pj_workspaces := [sample_workspace 1 [sample_chat 2 ''a'', sample_chat 1 ''b'']]\<rparr>"

definition sample_repaired :: project_state where
  "sample_repaired = sample_renumbered\<lparr>pj_identities :=
     \<lparr>si_chats = btm_insert (ChatId 2) (SessionToken 2) (btm_insert (ChatId 1) (SessionToken 1) btm_empty),
      si_terminals = btm_empty\<rparr>\<rparr>"

lemma sample_empty_ok: "project_ok sample_empty"
  by (simp add: project_ok_iff ids_ok_def table_ok_iff generations_ok_def sample_empty_def
      workspace_ids_def chat_ids_def terminal_ids_def project_tokens_def btm_values_def)

lemma sample_renumbering:
  "normalize_existing_ids sample_broken =
     Inr (True, sample_broken\<lparr>pj_workspaces := [sample_workspace 1 [sample_chat 2 ''a'', sample_chat 1 ''b'']]\<rparr>)"
  by code_simp

lemma sample_hints:
  "normalized_allocator_hint 1 (bts_of_list [1]) (- 1) = 2"
  "normalized_allocator_hint 1 (bts_of_list [2, 1]) MAX_DURABLE_SESSION_ID = 3"
  "normalized_allocator_hint 1 (bts_of_list []) MAX_DURABLE_SESSION_ID = 1"
  by code_simp+

lemma sample_normalized: "normalize_next_ids sample_broken = Inr (True, sample_renumbered)"
proof -
  have "ensure_id_capacity sample_broken = Inr ()"
    using MAX_DURABLE_nonzero
    by (simp add: ensure_id_capacity_cases sample_broken_def sample_empty_def sample_workspace_def chat_ids_def terminal_ids_def
        MAX_DURABLE_SESSION_ID_def RUNTIME_TERMINAL_ID_FLAG_def)
  moreover have
    "workspace_ids (p\<lparr>pj_workspaces := [sample_workspace 1 [sample_chat 2 ''a'', sample_chat 1 ''b'']]\<rparr>) = [WorkspaceId 1]"
    "chat_ids (p\<lparr>pj_workspaces := [sample_workspace 1 [sample_chat 2 ''a'', sample_chat 1 ''b'']]\<rparr>) = [ChatId 2, ChatId 1]"
    "terminal_ids (p\<lparr>pj_workspaces := [sample_workspace 1 [sample_chat 2 ''a'', sample_chat 1 ''b'']]\<rparr>) = []" for p
    by (simp_all add: workspace_ids_def chat_ids_def terminal_ids_def sample_workspace_def sample_chat_def)
  moreover have "sample_renumbered = sample_broken\<lparr>pj_workspaces := [sample_workspace 1 [sample_chat 2 ''a'', sample_chat 1 ''b'']],
      pj_next_workspace_id := 2, pj_next_chat_id := 3, pj_next_terminal_id := 1\<rparr>"
    by (simp add: sample_renumbered_def sample_broken_def sample_empty_def)
  moreover have "pj_next_workspace_id sample_broken = 1" "pj_next_chat_id sample_broken = 1" "pj_next_terminal_id sample_broken = 1"
    by (simp_all add: sample_broken_def sample_empty_def)
  ultimately show ?thesis
    by (simp add: normalize_next_ids_def sample_renumbering Let_def sample_hints)
qed

lemma sample_minted:
  "\<exists>rest. normalize_session_identities sample_entropy sample_renumbered = Inr (True, sample_repaired, rest)"
proof -
  have "map_sum (\<lambda>_. ()) (\<lambda>(c, p, _). (c, p)) (normalize_session_identities sample_entropy sample_renumbered) =
      Inr (True, sample_repaired)"
    by code_simp
  then show ?thesis
    by (cases "normalize_session_identities sample_entropy sample_renumbered") auto
qed

lemma sample_edit:
  "\<exists>p. project_edit sample_empty p \<and> pj_workspaces p = [sample_workspace 1 []]"
proof -
  have "push_workspace (ascii ''mult'') None None sample_empty =
      (Inr (WorkspaceId 1), sample_empty\<lparr>pj_next_workspace_id := 2, pj_workspaces := [sample_workspace 1 []]\<rparr>)"
    by code_simp
  then show ?thesis using edit_add_workspace by fastforce
qed

section \<open>The properties\<close>




lemma sample_renumbered_ids: "ids_ok sample_renumbered"
  using normalize_next_ids_shape [OF sample_normalized] by blast

lemma sample_repaired_ok: "project_ok sample_repaired"
proof -
  obtain rest where "normalize_session_identities sample_entropy sample_renumbered = Inr (True, sample_repaired, rest)"
    using sample_minted by blast
  then show ?thesis using normalize_session_identities_ok [OF _ sample_renumbered_ids] by blast
qed


text \<open>
  C25. Repair makes any decoded project valid: when \<open>normalize_next_ids\<close> and
  \<open>normalize_session_identities\<close> succeed on it, the result passes \<open>validate_session_identities\<close>,
  and a chat or terminal number that was valid is kept where it occurs first.
\<close>

theorem repair_makes_project_valid:
  assumes "normalize_next_ids p = Inr (changed, q)" and "normalize_session_identities source q = Inr (changed', r, source')"
  shows "project_ok r \<and> kept_first (\<lambda>i. i \<noteq> WorkspaceId 0) (workspace_ids p) (workspace_ids r) \<and>
    kept_first (\<lambda>i. is_valid_durable_session_id (chat_id_raw i)) (chat_ids p) (chat_ids r) \<and>
    kept_first (\<lambda>i. is_valid_durable_session_id (terminal_id_raw i)) (terminal_ids p) (terminal_ids r)"
proof -
  obtain ch q0 where q0: "normalize_existing_ids p = Inr (ch, q0)"
    and same: "chat_ids q = chat_ids q0" "terminal_ids q = terminal_ids q0" "workspace_ids q = workspace_ids q0"
    and ids: "ids_ok q"
    using normalize_next_ids_shape [OF assms(1)] by fastforce
  have r: "project_ok r" "pj_workspaces r = pj_workspaces q"
    using normalize_session_identities_ok [OF assms(2) ids] by blast+
  have "chat_ids r = chat_ids q" "terminal_ids r = terminal_ids q" "workspace_ids r = workspace_ids q"
    by (simp_all only: chat_ids_def terminal_ids_def workspace_ids_def r(2))
  then show ?thesis using normalize_existing_ids_spec [OF q0] r(1) by (simp add: same)
qed

theorem repair_makes_project_valid_witness:
  "\<exists>q r source'. normalize_next_ids sample_broken = Inr (True, q) \<and>
    normalize_session_identities sample_entropy q = Inr (True, r, source') \<and> project_ok r"
  using repair_makes_project_valid [OF sample_normalized] sample_normalized sample_minted by blast

text \<open>
  C26. Repairing the numbers fails exactly when the project holds more chats or more terminals than
  there are durable numbers, and then names which; the workspaces of a vector always fit.
\<close>

theorem repair_fails_only_beyond_capacity:
  assumes "length (pj_workspaces p) < 2 ^ 64"
  shows "(case normalize_next_ids p of
      Inr _ \<Rightarrow> length (chat_ids p) \<le> unat MAX_DURABLE_SESSION_ID \<and> length (terminal_ids p) \<le> unat MAX_DURABLE_SESSION_ID
    | Inl error \<Rightarrow>
        if unat MAX_DURABLE_SESSION_ID < length (chat_ids p) then error = IAChat
        else unat MAX_DURABLE_SESSION_ID < length (terminal_ids p) \<and> error = IATerminal)"
proof (cases "length (chat_ids p) \<le> unat MAX_DURABLE_SESSION_ID \<and> length (terminal_ids p) \<le> unat MAX_DURABLE_SESSION_ID")
  case True
  then obtain ch q where "normalize_existing_ids p = Inr (ch, q)"
    using normalize_existing_ids_total [OF _ _ assms] by fastforce
  then show ?thesis using True by (simp add: normalize_next_ids_def ensure_id_capacity_cases Let_def)
next
  case False
  then show ?thesis by (auto simp: normalize_next_ids_def ensure_id_capacity_cases)
qed

theorem repair_fails_only_beyond_capacity_witness:
  "length (pj_workspaces sample_broken) < 2 ^ 64 \<and>
   (case normalize_next_ids sample_broken of Inr _ \<Rightarrow> length (chat_ids sample_broken) \<le> unat MAX_DURABLE_SESSION_ID | Inl _ \<Rightarrow> False)"
proof -
  have "length (pj_workspaces sample_broken) < 2 ^ 64" by (simp add: sample_broken_def)
  from repair_fails_only_beyond_capacity [OF this] this show ?thesis by (simp add: sample_normalized)
qed

text \<open>
  Repair of the identity tables is idempotent on valid projects: it changes nothing, reports no
  change and reads no entropy.
\<close>

theorem valid_project_is_left_alone:
  assumes "project_ok p"
  shows "normalize_session_identities source p = Inr (False, p, source)"
  by (rule normalize_session_identities_valid [OF assms])

theorem valid_project_is_left_alone_witness:
  "normalize_session_identities (\<lambda>_. Inl (io_other ''none'')) sample_repaired =
     Inr (False, sample_repaired, \<lambda>_. Inl (io_other ''none''))"
  by (rule valid_project_is_left_alone [OF sample_repaired_ok])

text \<open>
  C28. A chat message never grows past 64 KiB, whatever the agent streams: both ways of adding text
  keep every message within the bound, text is only ever added at the end, on a character
  boundary, and a message that was cut takes nothing more.
\<close>

theorem chat_messages_are_bounded:
  assumes "messages_bounded p"
  shows "messages_bounded (snd (append_chat_message wid cid role s p)) \<and>
    messages_bounded (snd (append_chat_delta wid cid role s p)) \<and>
    (\<exists>k. snd (push_capped_message_text old s) \<in> {old, old @ s, old @ take k s @ CHAT_MESSAGE_TRUNCATION_NOTICE}) \<and>
    (CONTENT_LIMIT < byte_len old + byte_len s \<longrightarrow>
       fst (push_capped_message_text (snd (push_capped_message_text old s)) t) = False)"
  using append_chat_message_bounded [OF assms] append_chat_delta_bounded [OF assms] push_capped_keeps push_capped_full
  by blast

theorem chat_messages_are_bounded_witness:
  "messages_bounded (snd (append_chat_delta (WorkspaceId 1) (ChatId 1) RoleAssistant (ascii ''hello'') sample_repaired))"
proof -
  have "messages_bounded sample_repaired"
    by (simp add: messages_bounded_def sample_repaired_def sample_renumbered_def sample_workspace_def sample_chat_def)
  from chat_messages_are_bounded [OF this] show ?thesis by blast
qed

text \<open>
  The number allocator finds the first free number from the hint upwards, wraps to the numbers
  below it, and gives up only when every number up to the limit is taken.
\<close>

theorem id_allocator_finds_first_free:
  assumes "limit \<noteq> 0"
  shows "case find_available_id used hint limit of
      None \<Rightarrow> all_used used 1 limit
    | Some i \<Rightarrow> 1 \<le> i \<and> i \<le> limit \<and> \<not> btm_contains used i \<and>
        (if hint_start hint limit \<le> i
         then \<forall>j. hint_start hint limit \<le> j \<and> j < i \<longrightarrow> btm_contains used j
         else all_used used (hint_start hint limit) limit \<and> (\<forall>j. 1 \<le> j \<and> j < i \<longrightarrow> btm_contains used j))"
  by (rule find_available_id_spec [OF assms])

theorem id_allocator_finds_first_free_witness:
  "find_available_id (bts_of_list [3, 4]) 3 4 = Some 1 \<and> all_used (bts_of_list [3, 4]) 3 4"
proof -
  have "find_available_id (bts_of_list [3, 4]) 3 4 = Some 1" by code_simp
  then show ?thesis
    using id_allocator_finds_first_free [of 4 "bts_of_list [3, 4]" 3] by (simp add: hint_start_def word_le_nat_alt)
qed

end
