(* ===== verification/Prompt_Input.thy ===== *)
theory Prompt_Input
  imports Rust_Text
begin

text \<open>
  The text of a prompt with its cursor, and the wrap-around selection of a list
  (\<open>src/app/prompt.rs\<close>). The text is edited at byte offsets derived from the cursor, which counts
  characters; an offset inside a character or past the end is a panic, modelled as \<open>None\<close>.
\<close>

section \<open>Editing\<close>

record prompt_input =
  pi_text :: ustring
  pi_cursor :: nat

datatype prompt_edit =
    EditInsert uchar
  | Backspace
  | DeleteForward
  | MoveLeft
  | MoveRight
  | MoveHome
  | MoveEnd
  | DeleteWordBefore
  | DeleteToStart

fun mutates_text :: "prompt_edit \<Rightarrow> bool" where
  "mutates_text MoveLeft = False"
| "mutates_text MoveRight = False"
| "mutates_text MoveHome = False"
| "mutates_text MoveEnd = False"
| "mutates_text _ = True"

definition prompt_input_new :: "ustring \<Rightarrow> prompt_input" where
  "prompt_input_new s = \<lparr>pi_text = s, pi_cursor = length s\<rparr>"

definition byte_offset :: "prompt_input \<Rightarrow> nat \<Rightarrow> nat" where
  "byte_offset p i = (if i < length (pi_text p) then byte_len (take i (pi_text p)) else byte_len (pi_text p))"

definition split_at_cursor :: "prompt_input \<Rightarrow> (ustring \<times> ustring \<times> ustring) option" where
  "split_at_cursor p =
     (let start = byte_offset p (pi_cursor p); stop = byte_offset p (pi_cursor p + 1) in
      case split_at_byte stop (pi_text p) of
        None \<Rightarrow> None
      | Some (front, after) \<Rightarrow>
          (case split_at_byte start front of None \<Rightarrow> None | Some (before, at) \<Rightarrow> Some (before, at, after)))"

text \<open>A loop that walks the index back over characters with a property.\<close>

primrec walk_back :: "(uchar \<Rightarrow> bool) \<Rightarrow> ustring \<Rightarrow> nat \<Rightarrow> nat option" where
  "walk_back P s 0 = Some 0"
| "walk_back P s (Suc n) =
     (if length s \<le> n then None else if P (s ! n) then walk_back P s n else Some (Suc n))"

definition apply_edit :: "prompt_edit \<Rightarrow> prompt_input \<Rightarrow> (bool \<times> prompt_input) option" where
  "apply_edit edit p =
     (let s = pi_text p; k = pi_cursor p in
      case edit of
        EditInsert c \<Rightarrow>
          map_option (\<lambda>s. (True, \<lparr>pi_text = s, pi_cursor = k + 1\<rparr>)) (str_insert (byte_offset p k) c s)
      | Backspace \<Rightarrow>
          if k = 0 then Some (False, p)
          else map_option (\<lambda>s. (True, \<lparr>pi_text = s, pi_cursor = k - 1\<rparr>))
                 (str_delete (byte_offset p (k - 1)) (byte_offset p k) s)
      | DeleteForward \<Rightarrow>
          if byte_offset p k = byte_offset p (k + 1) then Some (False, p)
          else map_option (\<lambda>s. (True, p\<lparr>pi_text := s\<rparr>)) (str_delete (byte_offset p k) (byte_offset p (k + 1)) s)
      | MoveLeft \<Rightarrow> Some (if k = 0 then (False, p) else (True, p\<lparr>pi_cursor := k - 1\<rparr>))
      | MoveRight \<Rightarrow> Some (if length s \<le> k then (False, p) else (True, p\<lparr>pi_cursor := k + 1\<rparr>))
      | MoveHome \<Rightarrow> Some (k \<noteq> 0, p\<lparr>pi_cursor := 0\<rparr>)
      | MoveEnd \<Rightarrow> Some (k \<noteq> length s, p\<lparr>pi_cursor := length s\<rparr>)
      | DeleteWordBefore \<Rightarrow>
          if k = 0 then Some (False, p)
          else (case Option.bind (walk_back is_whitespace s k) (walk_back (\<lambda>c. \<not> is_whitespace c) s) of
                  None \<Rightarrow> None
                | Some i \<Rightarrow> map_option (\<lambda>s. (True, \<lparr>pi_text = s, pi_cursor = i\<rparr>))
                              (str_delete (byte_offset p i) (byte_offset p k) s))
      | DeleteToStart \<Rightarrow>
          if k = 0 then Some (False, p)
          else map_option (\<lambda>s. (True, \<lparr>pi_text = s, pi_cursor = 0\<rparr>)) (str_delete 0 (byte_offset p k) s))"

section \<open>What an edit means\<close>

text \<open>The text before and after the cursor, and the edits on this pair.\<close>

definition prompt_ok :: "prompt_input \<Rightarrow> bool" where
  "prompt_ok p \<longleftrightarrow> pi_cursor p \<le> length (pi_text p)"

type_synonym zipper = "ustring \<times> ustring"

definition zipper_of :: "prompt_input \<Rightarrow> zipper" where
  "zipper_of p = (take (pi_cursor p) (pi_text p), drop (pi_cursor p) (pi_text p))"

definition drop_last_while :: "(uchar \<Rightarrow> bool) \<Rightarrow> ustring \<Rightarrow> ustring" where
  "drop_last_while P s = rev (dropWhile P (rev s))"

fun zipper_edit :: "prompt_edit \<Rightarrow> zipper \<Rightarrow> zipper" where
  "zipper_edit (EditInsert c) (l, r) = (l @ [c], r)"
| "zipper_edit Backspace (l, r) = (butlast l, r)"
| "zipper_edit DeleteForward (l, r) = (l, tl r)"
| "zipper_edit MoveLeft (l, r) = (if l = [] then (l, r) else (butlast l, last l # r))"
| "zipper_edit MoveRight (l, r) = (case r of [] \<Rightarrow> (l, r) | c # r \<Rightarrow> (l @ [c], r))"
| "zipper_edit MoveHome (l, r) = ([], l @ r)"
| "zipper_edit MoveEnd (l, r) = (l @ r, [])"
| "zipper_edit DeleteWordBefore (l, r) =
     (drop_last_while (\<lambda>c. \<not> is_whitespace c) (drop_last_while is_whitespace l), r)"
| "zipper_edit DeleteToStart (l, r) = ([], r)"

lemma byte_offset_take: "byte_offset p i = byte_len (take i (pi_text p))"
  by (simp add: byte_offset_def)

lemma byte_len_take_mono: "i \<le> j \<Longrightarrow> byte_len (take i s) \<le> byte_len (take j s)"
  by (metis byte_len_simps(3) le_add1 le_add_diff_inverse take_add)

lemma byte_len_eq_0 [simp]: "byte_len s = 0 \<longleftrightarrow> s = []"
  using byte_len_ge_length [of s] by auto

lemma byte_len_take_Suc: "i < length s \<Longrightarrow> byte_len (take i s) < byte_len (take (Suc i) s)"
  using utf8_len_bounds(1) [of "s ! i"] by (simp add: take_Suc_conv_app_nth)

lemma str_insert_take: "i \<le> length s \<Longrightarrow> str_insert (byte_len (take i s)) c s = Some (take i s @ c # drop i s)"
  by (simp add: str_insert_def split_at_byte_take)

lemma str_delete_take:
  "i \<le> j \<Longrightarrow> str_delete (byte_len (take i s)) (byte_len (take j s)) s = Some (take i s @ drop j s)"
  using byte_len_take_mono [of i j s] by (simp add: str_delete_def split_at_byte_take)

lemma walk_back_take:
  "n \<le> length s \<Longrightarrow> walk_back P s n = Some (length (drop_last_while P (take n s)))"
  by (induction n) (auto simp: drop_last_while_def take_Suc_conv_app_nth)

lemma drop_last_while_prefix: "prefix (drop_last_while P s) s"
proof -
  have "suffix (dropWhile P (rev s)) (rev s)" by (rule suffix_dropWhile)
  then show ?thesis by (simp add: drop_last_while_def suffix_to_prefix)
qed

lemma take_prefix: "prefix l (take n s) \<Longrightarrow> take (length l) s = l \<and> length l \<le> n"
  by (auto simp: prefix_def) (metis append_eq_conv_conj append_take_drop_id append.assoc, metis length_append length_take le_add1 min.bounded_iff)

lemma split_at_cursor_parts:
  assumes "prompt_ok p"
  shows "split_at_cursor p =
    Some (take (pi_cursor p) (pi_text p), take 1 (drop (pi_cursor p) (pi_text p)), drop (pi_cursor p + 1) (pi_text p))"
proof -
  let ?k = "pi_cursor p" and ?s = "pi_text p"
  have "take ?k ?s = take ?k (take (?k + 1) ?s)" by (simp add: min_def)
  then have "split_at_byte (byte_len (take ?k ?s)) (take (?k + 1) ?s) = Some (take ?k ?s, drop ?k (take (?k + 1) ?s))"
    using split_at_byte_take [of ?k "take (?k + 1) ?s"] by (simp del: take_take)
  moreover have "drop ?k (take (?k + 1) ?s) = take 1 (drop ?k ?s)" by (simp add: drop_take)
  ultimately show ?thesis by (simp add: split_at_cursor_def Let_def byte_offset_take split_at_byte_take)
qed

section \<open>List selection\<close>

definition isize_max :: int where "isize_max = 2 ^ 63 - 1"

definition clamp_selection :: "nat \<Rightarrow> nat \<Rightarrow> nat" where
  "clamp_selection len i = min i (len - 1)"

definition step_selection :: "int \<Rightarrow> nat \<Rightarrow> nat \<Rightarrow> nat" where
  "step_selection delta len i =
     (if len = 0 then 0
      else let modulus = (if int len \<le> isize_max then int len else isize_max);
               current = (if int (i mod len) \<le> isize_max then int (i mod len) else 0);
               offset = delta mod modulus;
               next = min (current + offset) isize_max mod modulus
           in nat next)"

lemma step_selection_mod:
  assumes "0 < len" and "2 * int len \<le> isize_max"
  shows "int (step_selection delta len i) = (int i + delta) mod int len"
proof -
  have len: "int len \<le> isize_max" "int (i mod len) \<le> isize_max"
    using assms mod_less_divisor [of len i] by linarith+
  have "int (i mod len) + delta mod int len \<le> isize_max"
    using assms mod_less_divisor [of len i] pos_mod_bound [of "int len" delta] by linarith
  then show ?thesis
    using assms(1) len
    by (simp add: step_selection_def Let_def min_def zmod_int mod_add_eq)
qed

section \<open>Every edit is total and means what it says\<close>

lemma walk_word:
  assumes "k \<le> length s"
  defines "i \<equiv> length (drop_last_while (\<lambda>c. \<not> is_whitespace c) (drop_last_while is_whitespace (take k s)))"
  shows "Option.bind (walk_back is_whitespace s k) (walk_back (\<lambda>c. \<not> is_whitespace c) s) = Some i"
    and "take i s = drop_last_while (\<lambda>c. \<not> is_whitespace c) (drop_last_while is_whitespace (take k s))" and "i \<le> k"
proof -
  let ?j = "length (drop_last_while is_whitespace (take k s))"
  have j: "take ?j s = drop_last_while is_whitespace (take k s)" "?j \<le> k"
    using take_prefix [OF drop_last_while_prefix] by blast+
  have i: "take i s = drop_last_while (\<lambda>c. \<not> is_whitespace c) (take ?j s)" "i \<le> ?j"
    using take_prefix [OF drop_last_while_prefix, of "\<lambda>c. \<not> is_whitespace c" ?j s] unfolding i_def j(1) by blast+
  show "take i s = drop_last_while (\<lambda>c. \<not> is_whitespace c) (drop_last_while is_whitespace (take k s))"
    using i(1) j(1) by simp
  show "i \<le> k" using i(2) j(2) by simp
  have "walk_back (\<lambda>c. \<not> is_whitespace c) s ?j = Some i"
    using walk_back_take [of ?j s "\<lambda>c. \<not> is_whitespace c"] j assms(1) by (simp add: i_def)
  then show "Option.bind (walk_back is_whitespace s k) (walk_back (\<lambda>c. \<not> is_whitespace c) s) = Some i"
    using walk_back_take [OF assms(1), of is_whitespace] by simp
qed

lemma drop_word_shorter: "l \<noteq> [] \<Longrightarrow> drop_last_while (\<lambda>c. \<not> P c) (drop_last_while P l) \<noteq> l"
proof (cases "P (last l)")
  case True
  assume "l \<noteq> []"
  then have "length (drop_last_while P l) < length l"
    using True length_dropWhile_le [of P "rev (butlast l)"]
    by (cases l rule: rev_cases) (auto simp: drop_last_while_def less_Suc_eq_le)
  then show ?thesis
    using prefix_length_le [OF drop_last_while_prefix [of "\<lambda>c. \<not> P c" "drop_last_while P l"]] by force
next
  case False
  assume "l \<noteq> []"
  then have "length (drop_last_while (\<lambda>c. \<not> P c) l) < length l"
    using False length_dropWhile_le [of "\<lambda>c. \<not> P c" "rev (butlast l)"]
    by (cases l rule: rev_cases) (auto simp: drop_last_while_def less_Suc_eq_le)
  moreover have "drop_last_while P l = l"
    using False \<open>l \<noteq> []\<close> by (cases l rule: rev_cases) (auto simp: drop_last_while_def)
  ultimately show ?thesis by auto
qed

text \<open>
  C30. Editing a prompt never panics, never splits a character and keeps the cursor inside the text:
  every edit of a well-formed prompt returns, and refines the edit of the pair of the text before
  and the text after the cursor; the answer says whether anything changed.
\<close>

theorem prompt_edit_refines_zipper:
  assumes "prompt_ok p"
  shows "\<exists>changed q. apply_edit edit p = Some (changed, q) \<and> prompt_ok q \<and>
    zipper_of q = zipper_edit edit (zipper_of p) \<and> (changed \<longleftrightarrow> q \<noteq> p)"
proof -
  obtain s k where p: "p = \<lparr>pi_text = s, pi_cursor = k\<rparr>" and k: "k \<le> length s"
    using assms by (cases p) (simp add: prompt_ok_def)
  note defs = ex_bool_eq p apply_edit_def Let_def byte_offset_take prompt_ok_def zipper_of_def
  show ?thesis
  proof (cases edit)
    case (EditInsert c)
    then show ?thesis using k str_insert_take [OF k, of c] by (auto simp: defs)
  next
    case Backspace
    show ?thesis
    proof (cases k)
      case (Suc j)
      then have "length (take j s @ drop k s) < length s" using k by simp
      then have "take j s @ drop k s \<noteq> s" by (metis less_irrefl)
      then show ?thesis
        using Backspace k Suc str_delete_take [of j k s] by (simp add: defs butlast_take)
    qed (use Backspace k in \<open>simp add: defs\<close>)
  next
    case DeleteForward
    show ?thesis
    proof (cases "k < length s")
      case True
      have "length (take k s @ drop (Suc k) s) < length s" using True by simp
      then have "take k s @ drop (Suc k) s \<noteq> s" by (metis less_irrefl)
      then show ?thesis
        using DeleteForward True str_delete_take [of k "Suc k" s] byte_len_take_Suc [OF True]
        by (simp add: defs tl_drop drop_Suc)
    qed (use DeleteForward k in \<open>simp add: defs\<close>)
  next
    case MoveLeft
    show ?thesis
    proof (cases k)
      case (Suc j)
      then show ?thesis
        using MoveLeft k by (simp add: defs butlast_take take_Suc_conv_app_nth Cons_nth_drop_Suc)
    qed (use MoveLeft k in \<open>simp add: defs\<close>)
  next
    case MoveRight
    then show ?thesis
      using k by (cases "k < length s") (simp_all add: defs take_Suc_conv_app_nth Cons_nth_drop_Suc [symmetric])
  next
    case DeleteWordBefore
    show ?thesis
    proof (cases "k = 0")
      case False
      let ?l = "drop_last_while (\<lambda>c. \<not> is_whitespace c) (drop_last_while is_whitespace (take k s))"
      have l: "take (length ?l) s = ?l" "length ?l \<le> k" using walk_word [OF k] by simp_all
      have "take k s \<noteq> []" using False k by auto
      then have "?l \<noteq> take k s" by (rule drop_word_shorter)
      then have "?l @ drop k s \<noteq> s" by (metis append_same_eq append_take_drop_id)
      then show ?thesis
        using DeleteWordBefore False k walk_word(1) [OF k] str_delete_take [OF l(2), of s] l by (simp add: defs)
    qed (use DeleteWordBefore k in \<open>simp add: defs drop_last_while_def\<close>)
  next
    case DeleteToStart
    have "drop k s \<noteq> s" if "k \<noteq> 0" using that k by (cases s) (auto dest: arg_cong [where f = length])
    then show ?thesis
      using DeleteToStart k str_delete_take [of 0 k s] by (simp add: defs)
  qed (use k in \<open>auto simp: defs\<close>)
qed

theorem prompt_edit_refines_zipper_witness:
  "\<exists>changed q. apply_edit DeleteWordBefore (prompt_input_new (ascii ''run  now'')) = Some (changed, q) \<and>
    prompt_ok q \<and> zipper_of q = (ascii ''run  '', []) \<and> changed"
proof -
  have "prompt_ok (prompt_input_new (ascii ''run  now''))" by (simp add: prompt_ok_def prompt_input_new_def)
  moreover have "zipper_edit DeleteWordBefore (zipper_of (prompt_input_new (ascii ''run  now''))) = (ascii ''run  '', [])"
    "zipper_of (prompt_input_new (ascii ''run  now'')) = (ascii ''run  now'', [])"
    by code_simp+
  ultimately show ?thesis
    using prompt_edit_refines_zipper [of "prompt_input_new (ascii ''run  now'')" DeleteWordBefore] by fastforce
qed

text \<open>
  Stepping the selection of a list is modular arithmetic on its index, in both directions and
  for any distance, and never leaves the list.
\<close>

theorem list_selection_wraps:
  assumes "0 < len" and "2 * int len \<le> isize_max"
  shows "int (step_selection delta len i) = (int i + delta) mod int len \<and> step_selection delta len i < len \<and>
    clamp_selection len i < len"
proof -
  have "int (step_selection delta len i) < int len"
    unfolding step_selection_mod [OF assms] using assms(1) by simp
  then have "step_selection delta len i < len" by (simp only: of_nat_less_iff)
  then show ?thesis using step_selection_mod [OF assms] assms(1) by (auto simp: clamp_selection_def)
qed

theorem list_selection_wraps_witness:
  "step_selection (- 1) 3 0 = 2 \<and> step_selection (- 7) 3 0 = 2"
  using list_selection_wraps [of 3 "- 1" 0] list_selection_wraps [of 3 "- 7" 0] by (simp add: isize_max_def)

end
