(* ===== verification/Chat_Buffer.thy ===== *)
theory Chat_Buffer
  imports Project
begin

text \<open>
  The lines of a chat transcript as text streams in (\<open>ChatBuffer\<close> in \<open>src/app/search.rs\<close>): complete
  lines, and a partial line with the role that speaks.
\<close>

record chat_buffer =
  cb_lines :: "ustring list"
  cb_partial :: ustring
  cb_role :: "message_role option"

definition MAX_LINES :: nat where "MAX_LINES = 500"

definition chat_buffer_new :: chat_buffer where
  "chat_buffer_new = \<lparr>cb_lines = [], cb_partial = [], cb_role = None\<rparr>"

definition line_prefix :: "message_role \<Rightarrow> ustring" where
  "line_prefix role = role_label role @ ascii '' > ''"

definition partial_has_content :: "chat_buffer \<Rightarrow> bool" where
  "partial_has_content b = (case cb_role b of None \<Rightarrow> False | Some role \<Rightarrow> cb_partial b \<noteq> line_prefix role)"

definition push_line :: "ustring \<Rightarrow> chat_buffer \<Rightarrow> chat_buffer" where
  "push_line line b =
     (let ls = cb_lines b @ [line] in b\<lparr>cb_lines := drop (length ls - MAX_LINES) ls\<rparr>)"

definition flush_partial :: "chat_buffer \<Rightarrow> chat_buffer" where
  "flush_partial b =
     ((if partial_has_content b then push_line (cb_partial b) (b\<lparr>cb_partial := []\<rparr>)
       else b\<lparr>cb_partial := []\<rparr>)\<lparr>cb_role := None\<rparr>)"

definition start_line :: "message_role \<Rightarrow> chat_buffer \<Rightarrow> chat_buffer" where
  "start_line role b = b\<lparr>cb_partial := line_prefix role, cb_role := Some role\<rparr>"

definition append_char :: "message_role \<Rightarrow> uchar \<Rightarrow> chat_buffer \<Rightarrow> chat_buffer" where
  "append_char role c b =
     (if c = 10 then start_line role (flush_partial b)
      else if c = 13 then start_line role b
      else if c = 9 then b\<lparr>cb_partial := cb_partial b @ [32]\<rparr>
      else if is_control c then b
      else b\<lparr>cb_partial := cb_partial b @ [c]\<rparr>)"

definition append_delta :: "message_role \<Rightarrow> ustring \<Rightarrow> chat_buffer \<Rightarrow> chat_buffer" where
  "append_delta role s b =
     fold (append_char role) s (if cb_role b \<noteq> Some role then start_line role (flush_partial b) else b)"

definition from_messages :: "chat_message list \<Rightarrow> chat_buffer" where
  "from_messages ms = fold (\<lambda>m b. flush_partial (append_delta (cm_role m) (cm_text m) b)) ms chat_buffer_new"

definition buffer_is_empty :: "chat_buffer \<Rightarrow> bool" where
  "buffer_is_empty b \<longleftrightarrow> cb_lines b = [] \<and> \<not> partial_has_content b"

definition visible_lines :: "chat_buffer \<Rightarrow> ustring list" where
  "visible_lines b = cb_lines b @ (if partial_has_content b then [cb_partial b] else [])"

section \<open>Bounded, clean lines\<close>

text \<open>
  A buffer holds at most \<open>MAX_LINES\<close> complete lines, none with a control character, so drawing one
  never moves the terminal's cursor.
\<close>

definition clean :: "ustring \<Rightarrow> bool" where
  "clean s \<longleftrightarrow> (\<forall>c \<in> set s. \<not> is_control c)"

definition buffer_ok :: "chat_buffer \<Rightarrow> bool" where
  "buffer_ok b \<longleftrightarrow> length (cb_lines b) \<le> MAX_LINES \<and> (\<forall>l \<in> set (cb_lines b). clean l) \<and> clean (cb_partial b)"

lemma clean_simps [simp]: "clean []" "clean (c # s) \<longleftrightarrow> \<not> is_control c \<and> clean s" "clean (s @ t) \<longleftrightarrow> clean s \<and> clean t"
  by (auto simp: clean_def)

lemma clean_prefix [simp]: "clean (line_prefix role)"
  by (cases role) (simp_all add: line_prefix_def, simp_all add: is_control_def of_char_def)

lemma buffer_ok_new: "buffer_ok chat_buffer_new"
  by (simp add: buffer_ok_def chat_buffer_new_def)

lemma buffer_ok_flush: "buffer_ok b \<Longrightarrow> buffer_ok (flush_partial b)"
  by (auto simp: buffer_ok_def flush_partial_def push_line_def Let_def dest!: in_set_dropD)

lemma buffer_ok_start: "buffer_ok b \<Longrightarrow> buffer_ok (start_line role b)"
  by (simp add: buffer_ok_def start_line_def)

lemma buffer_ok_char: "buffer_ok b \<Longrightarrow> buffer_ok (append_char role c b)"
proof -
  assume ok: "buffer_ok b"
  have space: "\<not> is_control 32" by (simp add: is_control_def)
  have "buffer_ok (b\<lparr>cb_partial := cb_partial b @ [d]\<rparr>)" if "\<not> is_control d" for d
    using ok that by (simp add: buffer_ok_def)
  then show ?thesis
    using ok space buffer_ok_start [OF buffer_ok_flush [OF ok]] buffer_ok_start [OF ok]
    by (simp add: append_char_def)
qed

lemma buffer_ok_delta:
  assumes "buffer_ok b"
  shows "buffer_ok (append_delta role s b)"
proof -
  have "buffer_ok b \<Longrightarrow> buffer_ok (fold (append_char role) s b)" for b
    by (induction s arbitrary: b) (simp_all add: buffer_ok_char)
  then show ?thesis using assms by (simp add: append_delta_def buffer_ok_start buffer_ok_flush)
qed

lemma buffer_ok_messages: "buffer_ok (from_messages ms)"
proof -
  have "buffer_ok b \<Longrightarrow> buffer_ok (fold (\<lambda>m b. flush_partial (append_delta (cm_role m) (cm_text m) b)) ms b)" for b
    by (induction ms arbitrary: b) (simp_all add: buffer_ok_delta buffer_ok_flush)
  then show ?thesis by (simp add: from_messages_def buffer_ok_new)
qed

lemma role_after_delta: "cb_role (append_delta role s b) = Some role"
proof -
  have "cb_role b = Some role \<Longrightarrow> cb_role (fold (append_char role) s b) = Some role" for b
    by (induction s arbitrary: b) (simp_all add: append_char_def start_line_def)
  then show ?thesis by (simp add: append_delta_def start_line_def)
qed

text \<open>
  C32. How an agent's output is cut into deltas does not matter: appending two deltas of one role
  is appending their concatenation, so the transcript depends on the text alone; and it keeps at
  most 500 lines, all free of control characters.
\<close>

theorem transcript_ignores_chunking:
  assumes "buffer_ok b"
  shows "append_delta role t (append_delta role s b) = append_delta role (s @ t) b \<and>
    buffer_ok (append_delta role (s @ t) b) \<and> length (visible_lines (append_delta role (s @ t) b)) \<le> MAX_LINES + 1"
proof -
  have "append_delta role t (append_delta role s b) = append_delta role (s @ t) b"
    using role_after_delta [of role s b] by (simp add: append_delta_def)
  moreover have "buffer_ok (append_delta role (s @ t) b)" by (rule buffer_ok_delta [OF assms])
  ultimately show ?thesis by (simp add: buffer_ok_def visible_lines_def)
qed

theorem transcript_ignores_chunking_witness:
  "append_delta RoleAssistant (ascii ''b'') (append_delta RoleAssistant (ascii ''a'') chat_buffer_new) =
     append_delta RoleAssistant (ascii ''ab'') chat_buffer_new \<and>
   buffer_ok (append_delta RoleAssistant (ascii ''ab'') chat_buffer_new)"
  using transcript_ignores_chunking [OF buffer_ok_new, of RoleAssistant "ascii ''b''" "ascii ''a''"] by simp

end
