(* ===== verification/App_State.thy ===== *)
theory App_State
  imports Chat_Buffer Prompt_Input
begin

text \<open>
  What the client keeps in memory (\<open>App\<close> in \<open>src/app/mod.rs\<close>): the project, the selected sidebar
  item, the interaction mode, transcripts, notices and the mouse selection. What the code asks of
  its surroundings (the clock, entropy, the environment, the file system, and the Unicode tables behind
  \<open>to_lowercase\<close> and the debug form of a string) is a record of answers, an argument of the operations that ask.
\<close>

record host =
  h_now :: nat
  h_urandom :: "io_error + entropy"
  h_home :: "ustring option"
  h_current_dir :: "ustring option"
  h_canonicalize :: "ustring \<Rightarrow> ustring option"
  h_is_dir :: "ustring \<Rightarrow> bool"
  h_lowercase :: "ustring \<Rightarrow> ustring"
  h_debug :: "ustring \<Rightarrow> ustring"

section \<open>Notices\<close>

text \<open>Times are in nanoseconds.\<close>

definition NOTICE_TTL :: nat where "NOTICE_TTL = 12 * 10 ^ 9"
definition MAX_NOTICES :: nat where "MAX_NOTICES = 4"

datatype notice_level = LevelInfo | LevelWarning | LevelError
datatype notice_source = SaveFailure | Operation | Report

record notice =
  no_level :: notice_level
  no_source :: notice_source
  no_text :: ustring
  no_expires_at :: "nat option"

definition insert_notice :: "notice \<Rightarrow> notice list \<Rightarrow> bool \<times> notice list" where
  "insert_notice n ns =
     (if \<exists>e \<in> set ns. no_text e = no_text n \<and> no_level e = no_level n
      then (False, update_first (\<lambda>e. no_text e = no_text n \<and> no_level e = no_level n)
                     (\<lambda>e. e\<lparr>no_expires_at := no_expires_at n, no_source := no_source n\<rparr>) ns)
      else let ns = ns @ [n] in (True, drop (length ns - MAX_NOTICES) ns))"

section \<open>Navigation items and mouse selection\<close>

datatype nav_item =
    NavChat (nav_workspace: workspace_id) chat_id
  | NavTerminal (nav_workspace: workspace_id) terminal_id

datatype search_scope = SearchTerminal terminal_id | SearchChat chat_id

record search_state =
  se_query :: ustring
  se_scope :: search_scope

text \<open>Rows are \<open>i32\<close> (a selection can reach above the screen), columns \<open>u16\<close>.\<close>

record selection_cell =
  sc_row :: int
  sc_col :: "16 word"

record text_selection =
  ts_terminal :: pty_key
  ts_anchor :: selection_cell
  ts_focus :: selection_cell
  ts_dragging :: bool

record held_pane_click =
  hc_terminal :: pty_key
  hc_cell :: selection_cell
  hc_shift :: bool
  hc_alt :: bool
  hc_ctrl :: bool

definition i32_saturating_add :: "int \<Rightarrow> int \<Rightarrow> int" where
  "i32_saturating_add a b = max (- (2 ^ 31)) (min (2 ^ 31 - 1) (a + b))"

definition cell_le :: "selection_cell \<Rightarrow> selection_cell \<Rightarrow> bool" where
  "cell_le a b \<longleftrightarrow> sc_row a < sc_row b \<or> sc_row a = sc_row b \<and> sc_col a \<le> sc_col b"

definition normalized_range :: "text_selection \<Rightarrow> selection_cell \<times> selection_cell" where
  "normalized_range s =
     (if cell_le (ts_anchor s) (ts_focus s) then (ts_anchor s, ts_focus s) else (ts_focus s, ts_anchor s))"

section \<open>Prompts\<close>

record terminal_command_prompt =
  tc_input :: prompt_input
  tc_error :: "ustring option"

record command_palette_prompt =
  cp_input :: prompt_input
  cp_selected :: nat

record search_prompt =
  sp_input :: prompt_input
  sp_scope :: search_scope
  sp_error :: "ustring option"

datatype open_workspace_mode = PathMode | ConfiguredProjects

record open_workspace_prompt =
  ow_input :: prompt_input
  ow_error :: "ustring option"
  ow_selected :: nat
  ow_mode :: open_workspace_mode

datatype prompt =
    OpenWorkspace open_workspace_prompt
  | NewTerminalCommand terminal_command_prompt
  | CommandPalette command_palette_prompt
  | Search search_prompt

section \<open>The application\<close>

datatype focus_mode = FocusSidebar | FocusChat | FocusTerminal
datatype browse_focus = BrowseSidebar | SelectedPane
datatype interaction_mode = Prompting prompt browse_focus | Browsing browse_focus

record app =
  ap_project :: project_state
  ap_selected :: "nav_item option"
  ap_mode :: interaction_mode
  ap_chat_buffers :: "(chat_id, chat_buffer) btmap"
  ap_branches :: "(workspace_id, ustring) btmap"
  ap_search :: "search_state option"
  ap_text_selection :: "text_selection option"
  ap_held_click :: "held_pane_click option"
  ap_should_quit :: bool
  ap_dirty :: bool
  ap_structural_dirty :: bool
  ap_recoverable :: "terminal_id btset"
  ap_save_error :: "ustring option"
  ap_notices :: "notice list"
  ap_help_visible :: bool
  ap_reload_requested :: bool
  ap_host_focused :: bool

definition prompt_of :: "app \<Rightarrow> prompt option" where
  "prompt_of a = (case ap_mode a of Prompting p _ \<Rightarrow> Some p | Browsing _ \<Rightarrow> None)"

text \<open>The prompt updated in place, when there is one.\<close>

definition update_prompt :: "(prompt \<Rightarrow> prompt) \<Rightarrow> app \<Rightarrow> app" where
  "update_prompt f a =
     a\<lparr>ap_mode := (case ap_mode a of Prompting p resume \<Rightarrow> Prompting (f p) resume | Browsing focus \<Rightarrow> Browsing focus)\<rparr>"

definition browse_focus_of :: "app \<Rightarrow> browse_focus" where
  "browse_focus_of a = (case ap_mode a of Prompting _ resume \<Rightarrow> resume | Browsing focus \<Rightarrow> focus)"

definition set_prompt :: "prompt \<Rightarrow> app \<Rightarrow> app" where
  "set_prompt p a = a\<lparr>ap_mode := Prompting p (browse_focus_of a)\<rparr>"

definition clear_prompt :: "app \<Rightarrow> app" where
  "clear_prompt a = a\<lparr>ap_mode := Browsing (browse_focus_of a)\<rparr>"

definition set_browse_focus :: "browse_focus \<Rightarrow> app \<Rightarrow> app" where
  "set_browse_focus focus a =
     a\<lparr>ap_mode := (case ap_mode a of Prompting p _ \<Rightarrow> Prompting p focus | Browsing _ \<Rightarrow> Browsing focus)\<rparr>"

definition is_prompt_active :: "app \<Rightarrow> bool" where
  "is_prompt_active a \<longleftrightarrow> prompt_of a \<noteq> None"

definition mark_structural_change :: "app \<Rightarrow> app" where
  "mark_structural_change a = a\<lparr>ap_dirty := True, ap_structural_dirty := True\<rparr>"

definition mark_saved :: "app \<Rightarrow> app" where
  "mark_saved a = a\<lparr>ap_dirty := False, ap_structural_dirty := False, ap_save_error := None,
     ap_notices := filter (\<lambda>n. no_source n \<noteq> SaveFailure) (ap_notices a)\<rparr>"

definition quit :: "app \<Rightarrow> app" where "quit a = a\<lparr>ap_should_quit := True\<rparr>"
definition cancel_quit :: "app \<Rightarrow> app" where "cancel_quit a = a\<lparr>ap_should_quit := False\<rparr>"
definition show_help :: "app \<Rightarrow> app" where "show_help a = a\<lparr>ap_help_visible := True\<rparr>"

definition hide_help :: "app \<Rightarrow> bool \<times> app" where
  "hide_help a = (ap_help_visible a, a\<lparr>ap_help_visible := False\<rparr>)"

definition request_config_reload :: "app \<Rightarrow> app" where
  "request_config_reload a = a\<lparr>ap_reload_requested := True\<rparr>"

definition take_config_reload_request :: "app \<Rightarrow> bool \<times> app" where
  "take_config_reload_request a = (ap_reload_requested a, a\<lparr>ap_reload_requested := False\<rparr>)"

definition set_host_focused :: "bool \<Rightarrow> app \<Rightarrow> bool \<times> app" where
  "set_host_focused focused a = (ap_host_focused a \<noteq> focused, a\<lparr>ap_host_focused := focused\<rparr>)"

definition clean_git_branch_name :: "ustring \<Rightarrow> ustring option" where
  "clean_git_branch_name branch = (let branch = trim branch in if branch = [] then None else Some branch)"

definition replace_workspace_git_branches ::
    "(workspace_id \<times> ustring option) list \<Rightarrow> app \<Rightarrow> bool \<times> app" where
  "replace_workspace_git_branches branches a =
     (let next = fold (\<lambda>(w, branch) m.
          case Option.bind branch clean_git_branch_name of None \<Rightarrow> m | Some b \<Rightarrow> btm_insert w b m) branches btm_empty
      in if ap_branches a = next then (False, a) else (True, a\<lparr>ap_branches := next\<rparr>))"

section \<open>The status surface\<close>

definition push_notice_at :: "nat \<Rightarrow> notice_level \<Rightarrow> notice_source \<Rightarrow> ustring \<Rightarrow> app \<Rightarrow> bool \<times> app" where
  "push_notice_at now level source s a =
     (case insert_notice \<lparr>no_level = level, no_source = source, no_text = s, no_expires_at = Some (now + NOTICE_TTL)\<rparr>
             (ap_notices a) of
        (shown, ns) \<Rightarrow> (shown, a\<lparr>ap_notices := ns\<rparr>))"

definition push_notice :: "host \<Rightarrow> notice_level \<Rightarrow> notice_source \<Rightarrow> ustring \<Rightarrow> app \<Rightarrow> bool \<times> app" where
  "push_notice h = push_notice_at (h_now h)"

definition push_sticky_notice :: "notice_level \<Rightarrow> notice_source \<Rightarrow> ustring \<Rightarrow> app \<Rightarrow> bool \<times> app" where
  "push_sticky_notice level source s a =
     (case insert_notice \<lparr>no_level = level, no_source = source, no_text = s, no_expires_at = None\<rparr> (ap_notices a) of
        (shown, ns) \<Rightarrow> (shown, a\<lparr>ap_notices := ns\<rparr>))"

definition record_save_failure :: "ustring \<Rightarrow> app \<Rightarrow> app" where
  "record_save_failure message a =
     (snd (push_sticky_notice LevelError SaveFailure
        (ascii ''State save failed: '' @ message @ 32 # 0x2014 # ascii '' edit or quit to retry'') a))
     \<lparr>ap_save_error := Some message\<rparr>"

definition clear_operation_error :: "app \<Rightarrow> app" where
  "clear_operation_error a = a\<lparr>ap_notices := filter (\<lambda>n. no_source n \<noteq> Operation) (ap_notices a)\<rparr>"

definition record_operation_failure :: "host \<Rightarrow> ustring \<Rightarrow> app \<Rightarrow> app" where
  "record_operation_failure h message a =
     snd (push_notice h LevelError Operation (ascii ''Operation failed: '' @ message) (clear_operation_error a))"

definition expire_notices :: "nat \<Rightarrow> app \<Rightarrow> bool \<times> app" where
  "expire_notices now a =
     (let ns = filter (\<lambda>n. case no_expires_at n of None \<Rightarrow> True | Some deadline \<Rightarrow> now < deadline) (ap_notices a)
      in (length ns \<noteq> length (ap_notices a), a\<lparr>ap_notices := ns\<rparr>))"

definition dismiss_notices :: "app \<Rightarrow> bool \<times> app" where
  "dismiss_notices a = (ap_notices a \<noteq> [], a\<lparr>ap_notices := []\<rparr>)"

section \<open>Mouse selection\<close>

definition begin_text_selection :: "pty_key \<Rightarrow> selection_cell \<Rightarrow> app \<Rightarrow> app" where
  "begin_text_selection key cell a =
     a\<lparr>ap_text_selection := Some \<lparr>ts_terminal = key, ts_anchor = cell, ts_focus = cell, ts_dragging = True\<rparr>\<rparr>"

definition update_text_selection :: "pty_key \<Rightarrow> selection_cell \<Rightarrow> app \<Rightarrow> bool \<times> app" where
  "update_text_selection key cell a =
     (case ap_text_selection a of
        None \<Rightarrow> (False, a)
      | Some s \<Rightarrow> if ts_terminal s \<noteq> key then (False, a)
                  else (True, a\<lparr>ap_text_selection := Some (s\<lparr>ts_focus := cell\<rparr>)\<rparr>))"

definition end_text_selection :: "pty_key \<Rightarrow> selection_cell \<Rightarrow> app \<Rightarrow> text_selection option \<times> app" where
  "end_text_selection key cell a =
     (case update_text_selection key cell a of
        (False, a) \<Rightarrow> (None, a)
      | (True, a) \<Rightarrow>
          (case ap_text_selection a of
             None \<Rightarrow> (None, a)
           | Some s \<Rightarrow> let s = s\<lparr>ts_dragging := False\<rparr> in (Some s, a\<lparr>ap_text_selection := Some s\<rparr>)))"

definition clear_text_selection :: "app \<Rightarrow> app" where
  "clear_text_selection a = a\<lparr>ap_text_selection := None\<rparr>"

definition shift_text_selection_rows :: "pty_key \<Rightarrow> int \<Rightarrow> app \<Rightarrow> bool \<times> app" where
  "shift_text_selection_rows key delta a =
     (if delta = 0 then (False, a)
      else case ap_text_selection a of
        None \<Rightarrow> (False, a)
      | Some s \<Rightarrow>
          if ts_terminal s \<noteq> key then (False, a)
          else
            let anchor = i32_saturating_add (sc_row (ts_anchor s)) delta;
                focus = i32_saturating_add (sc_row (ts_focus s)) delta
            in if sc_row (ts_anchor s) = anchor \<and> sc_row (ts_focus s) = focus then (False, a)
               else (True, a\<lparr>ap_text_selection := Some (s\<lparr>ts_anchor := (ts_anchor s)\<lparr>sc_row := anchor\<rparr>,
                                                          ts_focus := (ts_focus s)\<lparr>sc_row := focus\<rparr>\<rparr>)\<rparr>))"

definition text_selection_for :: "pty_key \<Rightarrow> app \<Rightarrow> text_selection option" where
  "text_selection_for key a =
     (case ap_text_selection a of None \<Rightarrow> None | Some s \<Rightarrow> if ts_terminal s = key then Some s else None)"

definition hold_pane_click :: "held_pane_click \<Rightarrow> app \<Rightarrow> app" where
  "hold_pane_click held a = a\<lparr>ap_held_click := Some held\<rparr>"

definition take_held_pane_click :: "pty_key \<Rightarrow> app \<Rightarrow> held_pane_click option \<times> app" where
  "take_held_pane_click key a =
     (case ap_held_click a of
        None \<Rightarrow> (None, a)
      | Some held \<Rightarrow> if hc_terminal held = key then (Some held, a\<lparr>ap_held_click := None\<rparr>) else (None, a))"

definition take_any_held_pane_click :: "app \<Rightarrow> held_pane_click option \<times> app" where
  "take_any_held_pane_click a = (ap_held_click a, a\<lparr>ap_held_click := None\<rparr>)"

end
