(* ===== verification/App_Navigation.thy ===== *)
theory App_Navigation
  imports App_State
begin

text \<open>
  The sidebar walk and the selection over it (\<open>src/app/nav.rs\<close>), with the focus that follows it
  (\<open>src/app/mod.rs\<close>).
\<close>

datatype sidebar_row = RowSpacer | RowWorkspace workspace_id | RowNav nav_item

definition workspace_items :: "workspace \<Rightarrow> nav_item list" where
  "workspace_items w = map (\<lambda>c. NavChat (ws_id w) (ct_id c)) (ws_chats w) @
     map (\<lambda>t. NavTerminal (ws_id w) (tm_id t)) (ws_terminals w)"

definition workspace_rows :: "nat \<Rightarrow> workspace \<Rightarrow> sidebar_row list" where
  "workspace_rows index w =
     (if 0 < index then [RowSpacer] else []) @ RowWorkspace (ws_id w) # map RowNav (workspace_items w)"

definition sidebar_rows :: "app \<Rightarrow> sidebar_row list" where
  "sidebar_rows a = concat (map (\<lambda>(i, w). workspace_rows i w) (enumerate 0 (pj_workspaces (ap_project a))))"

definition nav_items :: "app \<Rightarrow> nav_item list" where
  "nav_items a = List.map_filter (\<lambda>row. case row of RowNav item \<Rightarrow> Some item | _ \<Rightarrow> None) (sidebar_rows a)"

primrec position :: "('a \<Rightarrow> bool) \<Rightarrow> 'a list \<Rightarrow> nat option" where
  "position P [] = None"
| "position P (x # xs) = (if P x then Some 0 else map_option Suc (position P xs))"

definition nth_option :: "nat \<Rightarrow> 'a list \<Rightarrow> 'a option" where
  "nth_option i xs = (if i < length xs then Some (xs ! i) else None)"

definition nav_len :: "app \<Rightarrow> nat" where "nav_len a = length (nav_items a)"
definition nav_item_at :: "nat \<Rightarrow> app \<Rightarrow> nav_item option" where "nav_item_at i a = nth_option i (nav_items a)"

definition nav_item_position :: "nav_item \<Rightarrow> app \<Rightarrow> nat option" where
  "nav_item_position target a = position (\<lambda>item. item = target) (nav_items a)"

definition selected_item :: "app \<Rightarrow> nav_item option" where
  "selected_item a =
     (case ap_selected a of None \<Rightarrow> None | Some item \<Rightarrow> if nav_item_position item a \<noteq> None then Some item else None)"

definition selected_index :: "app \<Rightarrow> nat option" where
  "selected_index a = Option.bind (ap_selected a) (\<lambda>item. nav_item_position item a)"

section \<open>What the selection says\<close>

definition selected_workspace_id :: "app \<Rightarrow> workspace_id option" where
  "selected_workspace_id a =
     (case selected_item a of
        Some item \<Rightarrow> Some (nav_workspace item)
      | None \<Rightarrow> (case pj_workspaces (ap_project a) of [] \<Rightarrow> None | w # _ \<Rightarrow> Some (ws_id w)))"

definition selected_terminal_id :: "app \<Rightarrow> (workspace_id \<times> terminal_id) option" where
  "selected_terminal_id a = (case selected_item a of Some (NavTerminal w t) \<Rightarrow> Some (w, t) | _ \<Rightarrow> None)"

definition selected_chat_id :: "app \<Rightarrow> (workspace_id \<times> chat_id) option" where
  "selected_chat_id a = (case selected_item a of Some (NavChat w c) \<Rightarrow> Some (w, c) | _ \<Rightarrow> None)"

definition selected_search_scope :: "app \<Rightarrow> search_scope option" where
  "selected_search_scope a =
     (case selected_item a of
        None \<Rightarrow> None | Some (NavChat _ c) \<Rightarrow> Some (SearchChat c) | Some (NavTerminal _ t) \<Rightarrow> Some (SearchTerminal t))"

definition terminal_input_target :: "app \<Rightarrow> terminal_id option" where
  "terminal_input_target a = map_option snd (selected_terminal_id a)"

definition pty_input_target :: "app \<Rightarrow> pty_key option" where
  "pty_input_target a =
     (case selected_item a of
        None \<Rightarrow> None | Some (NavChat _ c) \<Rightarrow> Some (PtyChatAgent c) | Some (NavTerminal _ t) \<Rightarrow> Some (PtyTerminal t))"

definition focused_pty :: "app \<Rightarrow> pty_key option" where
  "focused_pty a =
     (if \<not> ap_host_focused a \<or> is_prompt_active a \<or> ap_help_visible a then None else pty_input_target a)"

definition help_key_opens_help :: "app \<Rightarrow> bool" where
  "help_key_opens_help a \<longleftrightarrow> pty_input_target a = None"

definition selected_main_focus :: "app \<Rightarrow> focus_mode option" where
  "selected_main_focus a =
     (case selected_item a of
        None \<Rightarrow> None | Some (NavChat _ _) \<Rightarrow> Some FocusChat | Some (NavTerminal _ _) \<Rightarrow> Some FocusTerminal)"

definition focus_of :: "app \<Rightarrow> focus_mode option" where
  "focus_of a =
     (case ap_mode a of
        Prompting _ _ \<Rightarrow> None
      | Browsing BrowseSidebar \<Rightarrow> Some FocusSidebar
      | Browsing SelectedPane \<Rightarrow> Some (case selected_main_focus a of None \<Rightarrow> FocusSidebar | Some f \<Rightarrow> f))"

definition focus_sidebar :: "app \<Rightarrow> app" where
  "focus_sidebar = set_browse_focus BrowseSidebar"

definition focus_selected_main :: "app \<Rightarrow> bool \<times> app" where
  "focus_selected_main a =
     (if selected_main_focus a = None then (False, a) else (True, set_browse_focus SelectedPane a))"

definition begin_terminal_input :: "app \<Rightarrow> bool \<times> app" where
  "begin_terminal_input a =
     (if selected_terminal_id a = None then (False, a) else (True, set_browse_focus SelectedPane a))"

definition begin_chat_agent_input :: "app \<Rightarrow> bool \<times> app" where
  "begin_chat_agent_input a =
     (if selected_chat_id a = None then (False, a) else (True, set_browse_focus SelectedPane a))"

section \<open>Moving the selection\<close>

definition mark_selected_done_seen :: "app \<Rightarrow> app" where
  "mark_selected_done_seen a =
     (case selected_chat_id a of
        None \<Rightarrow> a
      | Some (w, c) \<Rightarrow>
          (case find_chat w c (ap_project a) of
             None \<Rightarrow> a
           | Some session \<Rightarrow>
               if is_done (ct_status session) \<and> \<not> done_seen (ct_status session)
               then a\<lparr>ap_project := update_chat w c (\<lambda>s. s\<lparr>ct_status := DoneSeen\<rparr>) (ap_project a), ap_dirty := True\<rparr>
               else a))"

definition sync_focus_to_selection :: "app \<Rightarrow> app" where
  "sync_focus_to_selection a =
     mark_selected_done_seen
       (set_browse_focus (if selected_main_focus a \<noteq> None then SelectedPane else BrowseSidebar) a)"

definition end_pty_input :: "app \<Rightarrow> app" where
  "end_pty_input = sync_focus_to_selection"

definition reconcile_selection :: "nat option \<Rightarrow> app \<Rightarrow> app" where
  "reconcile_selection preferred a =
     (if nav_len a = 0 then a\<lparr>ap_selected := None\<rparr>
      else case ap_selected a of
        Some item \<Rightarrow>
          if nav_item_position item a \<noteq> None then a
          else a\<lparr>ap_selected := nav_item_at (min (case preferred of None \<Rightarrow> 0 | Some i \<Rightarrow> i) (nav_len a - 1)) a\<rparr>
      | None \<Rightarrow>
          a\<lparr>ap_selected := nav_item_at (min (case preferred of None \<Rightarrow> 0 | Some i \<Rightarrow> i) (nav_len a - 1)) a\<rparr>)"

definition select_next :: "app \<Rightarrow> app" where
  "select_next a =
     (if 0 < nav_len a
      then let i = (case selected_index a of None \<Rightarrow> 0 | Some i \<Rightarrow> (i + 1) mod nav_len a)
           in sync_focus_to_selection (a\<lparr>ap_selected := nav_item_at i a\<rparr>)
      else a)"

definition select_previous :: "app \<Rightarrow> app" where
  "select_previous a =
     (if 0 < nav_len a
      then let i = (case selected_index a of
                      None \<Rightarrow> nav_len a - 1 | Some i \<Rightarrow> if i = 0 then nav_len a - 1 else i - 1)
           in sync_focus_to_selection (a\<lparr>ap_selected := nav_item_at i a\<rparr>)
      else a)"

definition select_item :: "nav_item \<Rightarrow> app \<Rightarrow> app" where
  "select_item target a =
     sync_focus_to_selection
       (if nav_item_position target a \<noteq> None then a\<lparr>ap_selected := Some target\<rparr>
        else reconcile_selection (selected_index a) a)"

definition select_nav_index :: "nat \<Rightarrow> app \<Rightarrow> app" where
  "select_nav_index i a = (case nav_item_at i a of None \<Rightarrow> a | Some item \<Rightarrow> select_item item a)"

definition first_item :: "workspace \<Rightarrow> nav_item option" where
  "first_item w =
     (case ws_chats w of
        c # _ \<Rightarrow> Some (NavChat (ws_id w) (ct_id c))
      | [] \<Rightarrow> (case ws_terminals w of t # _ \<Rightarrow> Some (NavTerminal (ws_id w) (tm_id t)) | [] \<Rightarrow> None))"

definition select_first_item_in_workspace :: "workspace_id \<Rightarrow> app \<Rightarrow> bool \<times> app" where
  "select_first_item_in_workspace wid a =
     (case Option.bind (find_workspace wid (ap_project a)) first_item of
        None \<Rightarrow> (False, sync_focus_to_selection (reconcile_selection (selected_index a) a))
      | Some target \<Rightarrow> (True, select_item target a))"

section \<open>Construction\<close>

definition DEFAULT_AGENT_CHAT_TITLE :: ustring where
  "DEFAULT_AGENT_CHAT_TITLE = ascii ''agent''"

definition normalize_agent_chat_titles :: "project_state \<Rightarrow> bool \<times> project_state" where
  "normalize_agent_chat_titles p =
     (\<exists>w \<in> set (pj_workspaces p). \<exists>c \<in> set (ws_chats w). ct_name c \<noteq> DEFAULT_AGENT_CHAT_TITLE,
      p\<lparr>pj_workspaces := map (\<lambda>w. w\<lparr>ws_chats := map (\<lambda>c. c\<lparr>ct_name := DEFAULT_AGENT_CHAT_TITLE\<rparr>) (ws_chats w)\<rparr>)
          (pj_workspaces p)\<rparr>)"

fun is_command_launch :: "terminal_launch \<Rightarrow> bool" where
  "is_command_launch (TLCommand _) = True"
| "is_command_launch TLShell = False"

definition all_chats :: "project_state \<Rightarrow> chat_session list" where
  "all_chats p = concat (map ws_chats (pj_workspaces p))"

definition all_terminals :: "project_state \<Rightarrow> terminal_session list" where
  "all_terminals p = concat (map ws_terminals (pj_workspaces p))"

definition app_new :: "project_state \<Rightarrow> app" where
  "app_new project =
     (let (titles_normalized, p) = normalize_agent_chat_titles project;
          buffers = fold (\<lambda>(i, b) m. btm_insert i b m)
            (filter (\<lambda>(_, b). \<not> buffer_is_empty b)
               (map (\<lambda>c. (ct_id c, from_messages (ct_messages c))) (all_chats p))) btm_empty;
          recoverable = bts_of_list (map tm_id
            (filter (\<lambda>t. \<not> tm_restore_on_launch t \<and> is_command_launch (tm_launch t)) (all_terminals p)))
      in sync_focus_to_selection (reconcile_selection None
        \<lparr>ap_project = p, ap_selected = None, ap_mode = Browsing BrowseSidebar, ap_chat_buffers = buffers,
         ap_branches = btm_empty, ap_search = None, ap_text_selection = None, ap_held_click = None,
         ap_should_quit = False, ap_dirty = titles_normalized, ap_structural_dirty = False,
         ap_recoverable = recoverable, ap_save_error = None, ap_notices = [], ap_help_visible = False,
         ap_reload_requested = False, ap_host_focused = True\<rparr>))"

definition chat_done_seen :: "chat_id \<Rightarrow> app \<Rightarrow> bool" where
  "chat_done_seen c a =
     (case find (\<lambda>s. ct_id s = c) (all_chats (ap_project a)) of None \<Rightarrow> False | Some s \<Rightarrow> done_seen (ct_status s))"

end
