(* ===== verification/Shell_Quoting.thy ===== *)
theory Shell_Quoting
  imports Rust_Text
begin

text \<open>
  Quoting text for a shell (\<open>src/crates/protocol/src/shell.rs\<close>), and the reading of a line by a
  shell it is proved against.
\<close>

section \<open>Quoting\<close>

definition QUOTE :: uchar where "QUOTE = 0x27"
definition BACKSLASH :: uchar where "BACKSLASH = 0x5C"
definition DOUBLE_QUOTE :: uchar where "DOUBLE_QUOTE = 0x22"
definition DOLLAR :: uchar where "DOLLAR = 0x24"
definition SPACE :: uchar where "SPACE = 0x20"
definition AMPERSAND :: uchar where "AMPERSAND = 0x26"
definition BACKTICK :: uchar where "BACKTICK = 0x60"

lemmas shell_chars = QUOTE_def BACKSLASH_def DOUBLE_QUOTE_def DOLLAR_def SPACE_def AMPERSAND_def BACKTICK_def

text \<open>\<open>replace\<close> turns every single quote into: close, escaped quote, reopen.\<close>

fun escape_quotes :: "ustring \<Rightarrow> ustring" where
  "escape_quotes [] = []"
| "escape_quotes (c # cs) =
     (if c = QUOTE then [QUOTE, BACKSLASH, QUOTE, QUOTE] else [c]) @ escape_quotes cs"

definition single_quote :: "ustring \<Rightarrow> ustring" where
  "single_quote value = QUOTE # escape_quotes value @ [QUOTE]"

definition unquoted_char :: "uchar \<Rightarrow> bool" where
  "unquoted_char c \<longleftrightarrow> is_ascii_alphanumeric c \<or> c \<in> set (ascii ''/._-:+'')"

definition quote_argument :: "ustring \<Rightarrow> ustring" where
  "quote_argument value =
     (if value = [] then single_quote value
      else if list_all unquoted_char value then value
      else single_quote value)"

definition display_char :: "uchar \<Rightarrow> bool" where
  "display_char c \<longleftrightarrow> is_ascii_alphanumeric c \<or> c \<in> set (ascii ''-_./:='')"

definition quote_display_argument :: "ustring \<Rightarrow> ustring" where
  "quote_display_argument value =
     (if list_all display_char value then value else single_quote value)"

section \<open>How a shell reads a line\<close>

text \<open>
  The reference is the reading of one line that the shells a login shell is likely to be agree on:
  a single-quoted string is literal; a backslash keeps the next character; a space ends a word;
  \<open>&&\<close> separates commands; in double quotes, a backslash keeps one of four characters and a variable
  is replaced by its value, which is not read again; a plain character stands for itself. Anything
  else (an operator, a pattern, another expansion) is something the shell would act on, and reads
  as \<open>None\<close>. The word read so far is the first argument, if one was started; then comes the
  quotation, or the name of the variable, that the line is in.
\<close>

datatype shell_token = Word ustring | AndIf

datatype shell_mode = Plain | Single | Double | Variable ustring

definition name_char :: "uchar \<Rightarrow> bool" where
  "name_char c \<longleftrightarrow> is_ascii_alphanumeric c \<or> c = 0x5F"

definition extend :: "ustring option \<Rightarrow> ustring \<Rightarrow> ustring option" where
  "extend w v = Some (case w of None \<Rightarrow> v | Some u \<Rightarrow> u @ v)"

definition finish :: "ustring option \<Rightarrow> shell_token list \<Rightarrow> shell_token list" where
  "finish w ts = (case w of None \<Rightarrow> ts | Some u \<Rightarrow> Word u # ts)"

function sh_tokens :: "(ustring \<Rightarrow> ustring) \<Rightarrow> ustring option \<Rightarrow> shell_mode \<Rightarrow> ustring \<Rightarrow> shell_token list option" where
  "sh_tokens env w Plain [] = Some (finish w [])"
| "sh_tokens env w Single [] = None"
| "sh_tokens env w Double [] = None"
| "sh_tokens env w (Variable v) [] = None"
| "sh_tokens env w Single (c # cs) =
     (if c = QUOTE then sh_tokens env w Plain cs else sh_tokens env (extend w [c]) Single cs)"
| "sh_tokens env w Double (c # cs) =
     (if c = DOUBLE_QUOTE then sh_tokens env w Plain cs
      else if c = DOLLAR then sh_tokens env w (Variable []) cs
      else if c = BACKTICK then None
      else if c = BACKSLASH then
        (case cs of
           [] \<Rightarrow> None
         | d # ds \<Rightarrow>
             if d \<in> {DOUBLE_QUOTE, BACKSLASH, DOLLAR, BACKTICK} then sh_tokens env (extend w [d]) Double ds
             else sh_tokens env (extend w [c, d]) Double ds)
      else sh_tokens env (extend w [c]) Double cs)"
| "sh_tokens env w (Variable v) (c # cs) =
     (if name_char c then sh_tokens env w (Variable (v @ [c])) cs
      else if v = [] then None
      else sh_tokens env (extend w (env v)) Double (c # cs))"
| "sh_tokens env w Plain (c # cs) =
     (if c = QUOTE then sh_tokens env (extend w []) Single cs
      else if c = DOUBLE_QUOTE then sh_tokens env (extend w []) Double cs
      else if c = SPACE then map_option (finish w) (sh_tokens env None Plain cs)
      else if c = AMPERSAND then
        (case cs of
           d # ds \<Rightarrow> if d = AMPERSAND then map_option (\<lambda>ts. finish w (AndIf # ts)) (sh_tokens env None Plain ds) else None
         | [] \<Rightarrow> None)
      else if c = BACKSLASH then
        (case cs of [] \<Rightarrow> None | d # ds \<Rightarrow> sh_tokens env (extend w [d]) Plain ds)
      else if unquoted_char c then sh_tokens env (extend w [c]) Plain cs
      else None)"
  by pat_completeness auto

termination
  by (relation "inv_image (less_than <*lex*> less_than)
      (\<lambda>(env, w, m, s). (length s, case m of Variable _ \<Rightarrow> 1 | _ \<Rightarrow> (0 :: nat)))") auto

definition sh_line :: "(ustring \<Rightarrow> ustring) \<Rightarrow> ustring \<Rightarrow> shell_token list option" where
  "sh_line env line = sh_tokens env None Plain line"

section \<open>What the shell makes of quoted text\<close>

lemma unquoted_char_plain:
  "unquoted_char c \<Longrightarrow> c \<noteq> QUOTE \<and> c \<noteq> SPACE \<and> c \<noteq> BACKSLASH \<and> c \<noteq> DOUBLE_QUOTE \<and> c \<noteq> AMPERSAND"
  by (auto simp: unquoted_char_def is_ascii_alphanumeric_def is_ascii_digit_def shell_chars of_char_def)

lemma extend_simps [simp]: "extend None v = Some v" "extend (Some u) v = Some (u @ v)"
  by (simp_all add: extend_def)

lemma finish_simps [simp]: "finish None ts = ts" "finish (Some u) ts = Word u # ts"
  by (simp_all add: finish_def)

lemma shell_chars_distinct [simp]:
  "SPACE \<noteq> QUOTE" "SPACE \<noteq> DOUBLE_QUOTE" "AMPERSAND \<noteq> QUOTE" "AMPERSAND \<noteq> DOUBLE_QUOTE" "AMPERSAND \<noteq> SPACE"
  "DOUBLE_QUOTE \<noteq> QUOTE" "BACKSLASH \<noteq> QUOTE" "BACKSLASH \<noteq> DOUBLE_QUOTE" "BACKSLASH \<noteq> SPACE" "BACKSLASH \<noteq> AMPERSAND"
  "DOLLAR \<noteq> DOUBLE_QUOTE" "DOLLAR \<noteq> BACKSLASH" "BACKSLASH \<noteq> DOLLAR" "BACKSLASH \<noteq> BACKTICK" "DOLLAR \<noteq> BACKTICK"
  by (simp_all add: shell_chars)

lemma sh_escaped:
  "sh_tokens env (Some w) Single (escape_quotes v @ QUOTE # rest) = sh_tokens env (Some (w @ v)) Plain rest"
  by (induction v arbitrary: w) (simp_all add: shell_chars)

lemma sh_single_quote:
  "sh_tokens env w Plain (single_quote v @ rest) = sh_tokens env (extend w v) Plain rest"
  by (cases w) (simp_all add: single_quote_def sh_escaped)

lemma sh_plain:
  "list_all unquoted_char v \<Longrightarrow> sh_tokens env (Some w) Plain (v @ rest) = sh_tokens env (Some (w @ v)) Plain rest"
  by (induction v arbitrary: w) (auto simp: unquoted_char_plain)

lemma sh_plain_word:
  assumes "v \<noteq> []" and "list_all unquoted_char v"
  shows "sh_tokens env None Plain (v @ rest) = sh_tokens env (Some v) Plain rest"
proof -
  obtain c cs where v: "v = c # cs" "unquoted_char c" "list_all unquoted_char cs"
    using assms by (cases v) auto
  then show ?thesis using sh_plain [of cs env "[c]" rest] by (simp add: unquoted_char_plain)
qed

lemma sh_quote_argument:
  "sh_tokens env None Plain (quote_argument v @ rest) = sh_tokens env (Some v) Plain rest"
  using sh_plain_word [of v env rest] sh_single_quote [of env None v rest]
  by (cases "v = []") (simp_all add: quote_argument_def del: sh_tokens.simps)

lemma sh_space: "sh_tokens env w Plain (SPACE # rest) = map_option (finish w) (sh_tokens env None Plain rest)"
  by (simp add: shell_chars)

lemma sh_and: "sh_tokens env w Plain (AMPERSAND # AMPERSAND # rest) =
    map_option (\<lambda>ts. finish w (AndIf # ts)) (sh_tokens env None Plain rest)"
  by (simp add: shell_chars)

fun join_arguments :: "ustring list \<Rightarrow> ustring" where
  "join_arguments [] = []"
| "join_arguments [v] = quote_argument v"
| "join_arguments (v # vs) = quote_argument v @ SPACE # join_arguments vs"


end
