(* ===== verification/App_Mutation.thy ===== *)
theory App_Mutation
  imports App_Navigation Shell_Quoting
begin

text \<open>
  Structural changes to the project: adding and deleting workspaces, chats and terminals, and the
  per-item state those changes keep honest (\<open>src/app/mutate.rs\<close>).
\<close>

section \<open>Deleting\<close>

datatype delete_target =
    DeleteWorkspace workspace_id
  | DeleteChat workspace_id chat_id
  | DeleteTerminal workspace_id terminal_id

fun delete_target_pty :: "delete_target \<Rightarrow> pty_key option" where
  "delete_target_pty (DeleteWorkspace _) = None"
| "delete_target_pty (DeleteChat _ c) = Some (PtyChatAgent c)"
| "delete_target_pty (DeleteTerminal _ t) = Some (PtyTerminal t)"

definition workspace_is_empty :: "workspace \<Rightarrow> bool" where
  "workspace_is_empty w \<longleftrightarrow> ws_chats w = [] \<and> ws_terminals w = []"

definition remove_workspace_if_empty :: "workspace_id \<Rightarrow> app \<Rightarrow> app" where
  "remove_workspace_if_empty wid a =
     (case find_workspace wid (ap_project a) of
        None \<Rightarrow> a
      | Some w \<Rightarrow>
          if \<not> workspace_is_empty w then a
          else case remove_workspace wid (ap_project a) of
                 (None, p) \<Rightarrow> a\<lparr>ap_project := p\<rparr>
               | (Some _, p) \<Rightarrow>
                   mark_structural_change (a\<lparr>ap_project := p, ap_branches := btm_remove wid (ap_branches a)\<rparr>))"

definition delete_item :: "delete_target \<Rightarrow> app \<Rightarrow> pty_key list \<times> app" where
  "delete_item target a =
     (case target of
        DeleteWorkspace wid \<Rightarrow> ([], remove_workspace_if_empty wid a)
      | DeleteChat wid cid \<Rightarrow>
          (case remove_chat wid cid (ap_project a) of
             (None, p) \<Rightarrow> ([], a\<lparr>ap_project := p\<rparr>)
           | (Some _, p) \<Rightarrow>
               ([PtyChatAgent cid],
                remove_workspace_if_empty wid (mark_structural_change
                  (a\<lparr>ap_project := p, ap_chat_buffers := btm_remove cid (ap_chat_buffers a)\<rparr>))))
      | DeleteTerminal wid tid \<Rightarrow>
          (case remove_terminal wid tid (ap_project a) of
             (None, p) \<Rightarrow> ([], a\<lparr>ap_project := p\<rparr>)
           | (Some _, p) \<Rightarrow>
               ([PtyTerminal tid],
                remove_workspace_if_empty wid (mark_structural_change
                  (a\<lparr>ap_project := p, ap_recoverable := btm_remove tid (ap_recoverable a)\<rparr>)))))"

definition delete_target :: "delete_target \<Rightarrow> app \<Rightarrow> pty_key list \<times> app" where
  "delete_target target a =
     (case delete_item target a of
        (keys, b) \<Rightarrow> (keys, sync_focus_to_selection (reconcile_selection (selected_index a) b)))"

definition first_empty_workspace_id :: "app \<Rightarrow> workspace_id option" where
  "first_empty_workspace_id a = map_option ws_id (find workspace_is_empty (pj_workspaces (ap_project a)))"

definition selected_delete_target :: "app \<Rightarrow> delete_target option" where
  "selected_delete_target a =
     (case selected_item a of
        Some (NavChat w c) \<Rightarrow> Some (DeleteChat w c)
      | Some (NavTerminal w t) \<Rightarrow> Some (DeleteTerminal w t)
      | None \<Rightarrow> map_option DeleteWorkspace (first_empty_workspace_id a))"

definition workspace_of_terminal :: "terminal_id \<Rightarrow> app \<Rightarrow> workspace_id option" where
  "workspace_of_terminal tid a =
     map_option ws_id (find (\<lambda>w. \<exists>t \<in> set (ws_terminals w). tm_id t = tid) (pj_workspaces (ap_project a)))"

definition remove_finished_terminal :: "terminal_id \<Rightarrow> app \<Rightarrow> pty_key list \<times> app" where
  "remove_finished_terminal tid a =
     (case workspace_of_terminal tid a of None \<Rightarrow> ([], a) | Some w \<Rightarrow> delete_target (DeleteTerminal w tid) a)"

section \<open>Intents and statuses\<close>

definition set_terminal_restore_intent :: "terminal_id \<Rightarrow> bool \<Rightarrow> app \<Rightarrow> app" where
  "set_terminal_restore_intent tid restore a =
     (case find_terminal_by_id tid (ap_project a) of
        None \<Rightarrow> a
      | Some t \<Rightarrow>
          if tm_restore_on_launch t \<noteq> restore
          then a\<lparr>ap_project := update_terminal_by_id tid (\<lambda>t. t\<lparr>tm_restore_on_launch := restore\<rparr>) (ap_project a),
                 ap_dirty := True\<rparr>
          else a)"

definition record_terminal_started :: "terminal_id \<Rightarrow> app \<Rightarrow> app" where
  "record_terminal_started tid a =
     set_terminal_restore_intent tid True (a\<lparr>ap_recoverable := btm_remove tid (ap_recoverable a)\<rparr>)"

definition record_terminal_stopped :: "terminal_id \<Rightarrow> app \<Rightarrow> app" where
  "record_terminal_stopped tid = set_terminal_restore_intent tid False"

definition mark_terminal_recoverable :: "terminal_id \<Rightarrow> app \<Rightarrow> app" where
  "mark_terminal_recoverable tid a =
     (case find_terminal_by_id tid (ap_project a) of
        None \<Rightarrow> a
      | Some t \<Rightarrow> if is_command_launch (tm_launch t) then a\<lparr>ap_recoverable := bts_insert tid (ap_recoverable a)\<rparr> else a)"

definition terminal_requires_recovery :: "terminal_id \<Rightarrow> app \<Rightarrow> bool" where
  "terminal_requires_recovery tid a = btm_contains (ap_recoverable a) tid"

definition app_begin_agent_generation ::
    "host \<Rightarrow> chat_id \<Rightarrow> app \<Rightarrow> (id_allocation_error + agent_generation option) \<times> app" where
  "app_begin_agent_generation h cid a =
     (case begin_agent_generation (h_urandom h) cid (ap_project a) of
        (Inl error, p) \<Rightarrow> (Inl error, a\<lparr>ap_project := p\<rparr>)
      | (Inr None, p) \<Rightarrow> (Inr None, a\<lparr>ap_project := p\<rparr>)
      | (Inr (Some g), p) \<Rightarrow> (Inr (Some g), a\<lparr>ap_project := p, ap_dirty := True\<rparr>))"

definition app_clear_agent_generation :: "chat_id \<Rightarrow> agent_generation \<Rightarrow> app \<Rightarrow> bool \<times> app" where
  "app_clear_agent_generation cid g a =
     (case clear_agent_generation cid g (ap_project a) of
        (changed, p) \<Rightarrow> (changed, a\<lparr>ap_project := p, ap_dirty := ap_dirty a \<or> changed\<rparr>))"

text \<open>The first chat with a number, in whichever workspace.\<close>

primrec update_first_chat :: "chat_id \<Rightarrow> (chat_session \<Rightarrow> chat_session) \<Rightarrow> workspace list \<Rightarrow> workspace list" where
  "update_first_chat cid f [] = []"
| "update_first_chat cid f (w # ws) =
     (if \<exists>c \<in> set (ws_chats w). ct_id c = cid
      then w\<lparr>ws_chats := update_first (\<lambda>c. ct_id c = cid) f (ws_chats w)\<rparr> # ws
      else w # update_first_chat cid f ws)"

definition mark_chat_status_by_id :: "chat_id \<Rightarrow> chat_status \<Rightarrow> app \<Rightarrow> bool \<times> app" where
  "mark_chat_status_by_id cid status a =
     (let seen = (map_option snd (selected_chat_id a) = Some cid);
          status = with_done_seen status seen
      in case find (\<lambda>c. ct_id c = cid) (all_chats (ap_project a)) of
           None \<Rightarrow> (False, a)
         | Some session \<Rightarrow>
             if ct_status session = status then (False, a)
             else (True, a\<lparr>ap_project := (ap_project a)\<lparr>pj_workspaces :=
                       update_first_chat cid (\<lambda>c. c\<lparr>ct_status := status\<rparr>) (pj_workspaces (ap_project a))\<rparr>,
                     ap_dirty := True\<rparr>))"

section \<open>Adding\<close>

definition only_remote_chat :: "workspace_id \<Rightarrow> app \<Rightarrow> chat_id option" where
  "only_remote_chat wid a =
     (case find_workspace wid (ap_project a) of
        None \<Rightarrow> None
      | Some w \<Rightarrow> if ws_remote w = None then None else (case ws_chats w of [] \<Rightarrow> None | c # _ \<Rightarrow> Some (ct_id c)))"

definition allocation_message :: "id_allocation_error \<Rightarrow> ustring" where
  "allocation_message error = ascii (id_allocation_message error)"

definition add_chat_to_selected_workspace_and_return ::
    "host \<Rightarrow> agent_kind \<Rightarrow> app \<Rightarrow> (workspace_id \<times> chat_id) option \<times> app" where
  "add_chat_to_selected_workspace_and_return h agent a =
     (case selected_workspace_id a of
        None \<Rightarrow> (None, a)
      | Some w \<Rightarrow>
          (case only_remote_chat w a of
             Some c \<Rightarrow> (Some (w, c), clear_operation_error (select_item (NavChat w c) a))
           | None \<Rightarrow>
               (case add_chat (h_urandom h) w DEFAULT_AGENT_CHAT_TITLE Idle agent (ap_project a) of
                  (Inr (Some c), p) \<Rightarrow>
                    (Some (w, c), mark_structural_change (clear_operation_error
                       (select_item (NavChat w c) (a\<lparr>ap_project := p\<rparr>))))
                | (Inr None, p) \<Rightarrow>
                    (None, record_operation_failure h (ascii ''selected workspace no longer exists'') (a\<lparr>ap_project := p\<rparr>))
                | (Inl error, p) \<Rightarrow>
                    (None, record_operation_failure h (allocation_message error) (a\<lparr>ap_project := p\<rparr>)))))"

text \<open>What every addition of a terminal does with the answer.\<close>

definition select_added_terminal ::
    "host \<Rightarrow> workspace_id \<Rightarrow> app \<Rightarrow> (id_allocation_error + terminal_id option) \<times> project_state \<Rightarrow>
     terminal_id option \<times> app" where
  "select_added_terminal h w a added =
     (case added of
        (Inr (Some t), p) \<Rightarrow>
          (Some t, mark_structural_change (clear_operation_error (select_item (NavTerminal w t) (a\<lparr>ap_project := p\<rparr>))))
      | (Inr None, p) \<Rightarrow>
          (None, record_operation_failure h (ascii ''selected workspace no longer exists'') (a\<lparr>ap_project := p\<rparr>))
      | (Inl error, p) \<Rightarrow> (None, record_operation_failure h (allocation_message error) (a\<lparr>ap_project := p\<rparr>)))"

definition terminal_count :: "workspace_id \<Rightarrow> app \<Rightarrow> nat" where
  "terminal_count w a =
     (case find_workspace w (ap_project a) of Some ws \<Rightarrow> length (ws_terminals ws) + 1 | None \<Rightarrow> 1)"

definition add_terminal_to_selected_workspace :: "host \<Rightarrow> app \<Rightarrow> app" where
  "add_terminal_to_selected_workspace h a =
     (case selected_workspace_id a of
        None \<Rightarrow> a
      | Some w \<Rightarrow>
          snd (select_added_terminal h w a
            (add_terminal (h_urandom h) w (ascii ''terminal-'' @ decimal (terminal_count w a)) (ap_project a))))"

definition command_terminal_running :: "workspace_id \<Rightarrow> ustring \<Rightarrow> app \<Rightarrow> terminal_id option" where
  "command_terminal_running w command a =
     (case find_workspace w (ap_project a) of
        None \<Rightarrow> None
      | Some ws \<Rightarrow> map_option tm_id (find (\<lambda>t. tm_launch t = TLCommand command) (ws_terminals ws)))"

definition open_tool_in_selected_workspace :: "host \<Rightarrow> ustring \<Rightarrow> ustring \<Rightarrow> app \<Rightarrow> terminal_id option \<times> app" where
  "open_tool_in_selected_workspace h command missing a =
     (let command = trim command in
      if command = [] then (None, record_operation_failure h missing a)
      else case selected_workspace_id a of
        None \<Rightarrow> (None, a)
      | Some w \<Rightarrow>
          (case command_terminal_running w command a of
             Some t \<Rightarrow> (Some t, clear_operation_error (select_item (NavTerminal w t) a))
           | None \<Rightarrow> select_added_terminal h w a (add_command_terminal (h_urandom h) w command command (ap_project a))))"

definition open_file_manager_in_selected_workspace :: "host \<Rightarrow> ustring \<Rightarrow> app \<Rightarrow> terminal_id option \<times> app" where
  "open_file_manager_in_selected_workspace h command =
     open_tool_in_selected_workspace h command (ascii ''no file manager command is configured'')"

definition open_editor_in_selected_workspace :: "host \<Rightarrow> ustring \<Rightarrow> app \<Rightarrow> terminal_id option \<times> app" where
  "open_editor_in_selected_workspace h command =
     open_tool_in_selected_workspace h command (ascii ''no editor command is configured'')"

section \<open>SFTP\<close>

definition SFTP_TERMINAL_NAME :: ustring where "SFTP_TERMINAL_NAME = ascii ''sftp''"

definition is_yazi_sftp_command :: "ustring \<Rightarrow> bool" where
  "is_yazi_sftp_command command =
     (case strip_prefix (ascii ''yazi '') command of
        None \<Rightarrow> False
      | Some target \<Rightarrow> starts_with (ascii ''sftp://'') target \<or> starts_with (39 # ascii ''sftp://'') target)"

definition is_sftp_terminal :: "terminal_session \<Rightarrow> bool" where
  "is_sftp_terminal t \<longleftrightarrow> tm_name t = SFTP_TERMINAL_NAME \<and>
     (case tm_launch t of TLCommand command \<Rightarrow> is_yazi_sftp_command command | TLShell \<Rightarrow> False)"

definition open_sftp_in_selected_workspace :: "host \<Rightarrow> ustring option \<Rightarrow> app \<Rightarrow> terminal_id option \<times> app" where
  "open_sftp_in_selected_workspace h target a =
     (case selected_workspace_id a of
        None \<Rightarrow> (None, a)
      | Some w \<Rightarrow>
          (case find_workspace w (ap_project a) of
             None \<Rightarrow> (None, a)
           | Some ws \<Rightarrow>
               (case find is_sftp_terminal (ws_terminals ws) of
                  Some t \<Rightarrow> (Some (tm_id t), clear_operation_error (select_item (NavTerminal w (tm_id t)) a))
                | None \<Rightarrow>
                    (case map_option trim target of
                       None \<Rightarrow> (None, record_operation_failure h (ascii ''no SFTP target is configured for this workspace'') a)
                     | Some target \<Rightarrow>
                         if target = []
                         then (None, record_operation_failure h (ascii ''no SFTP target is configured for this workspace'') a)
                         else
                           let url = (if starts_with (ascii ''sftp://'') target then target else ascii ''sftp://'' @ target)
                           in select_added_terminal h w a
                                (add_command_terminal (h_urandom h) w SFTP_TERMINAL_NAME
                                   (ascii ''yazi '' @ quote_argument url) (ap_project a))))))"

end
