(* ===== verification/Rust_Paths.thy ===== *)
theory Rust_Paths
  imports Rust_Text
begin

text \<open>
  What the client uses of \<open>std::path\<close> on Unix, on paths as text: a path is its components, separated
  by slashes; empty components and inner dots do not count.
\<close>

definition SLASH :: uchar where "SLASH = 0x2F"

definition path_is_absolute :: "ustring \<Rightarrow> bool" where
  "path_is_absolute p \<longleftrightarrow> p \<noteq> [] \<and> hd p = SLASH"

definition path_parts :: "ustring \<Rightarrow> ustring list" where
  "path_parts p = filter (\<lambda>c. c \<noteq> [] \<and> c \<noteq> ascii ''.'') (split_char SLASH p)"

text \<open>A relative path that begins with a dot keeps it as a component.\<close>

definition path_components :: "ustring \<Rightarrow> bool \<times> bool \<times> ustring list" where
  "path_components p =
     (path_is_absolute p, hd (split_char SLASH p) = ascii ''.'', path_parts p)"

definition path_equal :: "ustring \<Rightarrow> ustring \<Rightarrow> bool" where
  "path_equal p q \<longleftrightarrow> path_components p = path_components q"

definition path_join :: "ustring \<Rightarrow> ustring \<Rightarrow> ustring" where
  "path_join p q =
     (if path_is_absolute q then q
      else if p = [] \<or> last p = SLASH then p @ q
      else p @ SLASH # q)"

definition path_file_name :: "ustring \<Rightarrow> ustring option" where
  "path_file_name p =
     (let parts = path_parts p in
      if parts = [] \<or> last parts = ascii ''..'' then None else Some (last parts))"

lemma path_equal_refl [simp]: "path_equal p p"
  by (simp add: path_equal_def)

end
