(* ===== verification/Client_Config.thy ===== *)
theory Client_Config
  imports Rust_Paths Project
begin

text \<open>
  The client's configuration (\<open>src/config.rs\<close>, \<open>src/paths.rs\<close>): its values and defaults, the projects it
  offers, where the file is, and the editor command. The environment, the file system and the user
  database are parameters. Reading the file and its JSON decoding are not modelled.
\<close>

section \<open>Configured projects\<close>

record configured_project =
  pr_name :: ustring
  pr_path :: ustring
  pr_remote :: "ustring option"
  pr_sftp :: "ustring option"

definition non_blank :: "ustring option \<Rightarrow> ustring option" where
  "non_blank value =
     (case value of None \<Rightarrow> None | Some s \<Rightarrow> let s = trim s in if s = [] then None else Some s)"

definition remote_destination :: "configured_project \<Rightarrow> ustring option" where
  "remote_destination p = non_blank (pr_remote p)"

definition sftp_destination :: "configured_project \<Rightarrow> ustring option" where
  "sftp_destination p = non_blank (pr_sftp p)"

definition expanded_path :: "ustring option \<Rightarrow> configured_project \<Rightarrow> ustring" where
  "expanded_path home p =
     (if pr_path p = ascii ''~'' then (case home of None \<Rightarrow> pr_path p | Some h \<Rightarrow> h)
      else case (strip_prefix (ascii ''~/'') (pr_path p), home) of
        (Some rest, Some h) \<Rightarrow> path_join h rest
      | _ \<Rightarrow> pr_path p)"

definition matches_workspace ::
    "ustring option \<Rightarrow> (ustring \<Rightarrow> ustring option) \<Rightarrow> configured_project \<Rightarrow> workspace \<Rightarrow> bool" where
  "matches_workspace home canonicalize p w =
     (case (remote_destination p, ws_remote w) of
        (Some host, Some remote) \<Rightarrow> host = rt_host remote \<and> trim (pr_path p) = rt_path remote
      | (None, None) \<Rightarrow>
          (case ws_cwd w of
             None \<Rightarrow> False
           | Some cwd \<Rightarrow>
               let path = expanded_path home p in
               path_equal path cwd \<or>
               (case canonicalize path of None \<Rightarrow> False | Some path \<Rightarrow> path_equal path cwd))
      | _ \<Rightarrow> False)"

section \<open>The values\<close>

definition CODEX_ARGS_PLACEHOLDER :: ustring where
  "CODEX_ARGS_PLACEHOLDER = ascii ''{mult_codex_args}''"

record config =
  cf_pi_agent_command :: ustring
  cf_claude_code_command :: ustring
  cf_codex_command :: ustring
  cf_file_manager_command :: ustring
  cf_editor_command :: ustring
  cf_auto_start_pi_agent :: bool
  cf_auto_start_claude_code_agent :: bool
  cf_auto_start_codex_agent :: bool
  cf_auto_start_terminals :: bool
  cf_mouse_capture :: bool
  cf_clipboard_osc52 :: bool
  cf_projects :: "configured_project list"

definition default_config :: config where
  "default_config =
     \<lparr>cf_pi_agent_command = ascii ''pi'', cf_claude_code_command = ascii ''claude'',
      cf_codex_command = ascii ''codex '' @ CODEX_ARGS_PLACEHOLDER, cf_file_manager_command = ascii ''yazi'',
      cf_editor_command = [], cf_auto_start_pi_agent = True, cf_auto_start_claude_code_agent = True,
      cf_auto_start_codex_agent = True, cf_auto_start_terminals = True, cf_mouse_capture = True,
      cf_clipboard_osc52 = True, cf_projects = []\<rparr>"

definition resolve_editor_command :: "ustring \<Rightarrow> (ustring \<Rightarrow> ustring option) \<Rightarrow> ustring" where
  "resolve_editor_command configured env =
     (case non_blank (Some configured) of
        Some command \<Rightarrow> command
      | None \<Rightarrow>
          (case non_blank (env (ascii ''VISUAL'')) of
             Some command \<Rightarrow> command
           | None \<Rightarrow>
               (case non_blank (env (ascii ''EDITOR'')) of Some command \<Rightarrow> command | None \<Rightarrow> ascii ''vi'')))"

definition resolved_editor_command :: "(ustring \<Rightarrow> ustring option) \<Rightarrow> config \<Rightarrow> ustring" where
  "resolved_editor_command env cfg = resolve_editor_command (cf_editor_command cfg) env"

section \<open>Where it is\<close>

definition absolute_nonempty :: "ustring option \<Rightarrow> ustring option" where
  "absolute_nonempty value =
     (case value of None \<Rightarrow> None | Some p \<Rightarrow> if p \<noteq> [] \<and> path_is_absolute p then Some p else None)"

definition resolve_user_base ::
    "ustring option \<Rightarrow> ustring option \<Rightarrow> ustring \<Rightarrow> io_error + ustring option \<Rightarrow> string \<Rightarrow> io_error + ustring" where
  "resolve_user_base xdg home home_suffix passwd purpose =
     (case absolute_nonempty xdg of
        Some p \<Rightarrow> Inr p
      | None \<Rightarrow>
          (case absolute_nonempty home of
             Some h \<Rightarrow> Inr (path_join h home_suffix)
           | None \<Rightarrow>
               (case passwd of
                  Inl error \<Rightarrow> Inl error
                | Inr entry \<Rightarrow>
                    (case entry of
                       Some h \<Rightarrow>
                         if path_is_absolute h then Inr (path_join h home_suffix)
                         else Inl (io_error_new NotFound (''cannot determine a durable '' @ purpose @
                           '' directory: set an absolute HOME or the relevant XDG directory''))
                     | None \<Rightarrow>
                         Inl (io_error_new NotFound (''cannot determine a durable '' @ purpose @
                           '' directory: set an absolute HOME or the relevant XDG directory''))))))"

definition data_home ::
    "(ustring \<Rightarrow> ustring option) \<Rightarrow> io_error + ustring option \<Rightarrow> io_error + ustring" where
  "data_home env passwd =
     resolve_user_base (env (ascii ''XDG_DATA_HOME'')) (env (ascii ''HOME'')) (ascii ''.local/share'') passwd ''state''"

definition config_home ::
    "(ustring \<Rightarrow> ustring option) \<Rightarrow> io_error + ustring option \<Rightarrow> io_error + ustring" where
  "config_home env passwd =
     resolve_user_base (env (ascii ''XDG_CONFIG_HOME'')) (env (ascii ''HOME'')) (ascii ''.config'') passwd ''configuration''"

definition CONFIG_FILE_NAME :: ustring where "CONFIG_FILE_NAME = ascii ''config.json''"

definition config_path_from ::
    "ustring option \<Rightarrow> ustring option \<Rightarrow> io_error + ustring \<Rightarrow> io_error + ustring" where
  "config_path_from flag environment home =
     (case flag of
        Some path \<Rightarrow> Inr path
      | None \<Rightarrow>
          (case environment of
             Some path \<Rightarrow> Inr path
           | None \<Rightarrow> bind_sum home (\<lambda>h. Inr (path_join (path_join h (ascii ''mult'')) CONFIG_FILE_NAME))))"

definition resolve_config_path ::
    "(ustring \<Rightarrow> ustring option) \<Rightarrow> io_error + ustring option \<Rightarrow> ustring option \<Rightarrow> io_error + ustring" where
  "resolve_config_path env passwd flag =
     config_path_from flag (env (ascii ''MULT_CONFIG_PATH'')) (config_home env passwd)"

text \<open>A base directory is always absolute, so nothing durable depends on the working directory.\<close>

lemma path_join_absolute: "path_is_absolute p \<Longrightarrow> path_is_absolute (path_join p q)"
  by (cases p) (auto simp: path_join_def path_is_absolute_def)

lemma resolve_user_base_absolute: "resolve_user_base xdg home sfx passwd purpose = Inr p \<Longrightarrow> path_is_absolute p"
  by (auto simp: resolve_user_base_def absolute_nonempty_def path_join_absolute split: option.splits sum.splits if_splits)

lemma resolved_editor_nonempty: "resolve_editor_command configured env \<noteq> []"
  by (auto simp: resolve_editor_command_def non_blank_def Let_def split: option.splits if_splits)

end
