(* ===== verification/Remote.thy ===== *)
theory Remote
  imports Project Shell_Quoting
begin

text \<open>
  Command lines for a workspace on another machine (\<open>src/remote.rs\<close>): the line is read by the local
  login shell, which hands its last argument to the remote one. The debug form of a string, in
  error messages, is a parameter.
\<close>

datatype remote_error =
    EmptyDestination
  | DestinationLooksLikeAnOption ustring
  | DestinationHasWhitespace ustring
  | DestinationHasControlCharacter ustring
  | EmptyPath
  | EmptyCommand

fun remote_error_message :: "(ustring \<Rightarrow> ustring) \<Rightarrow> remote_error \<Rightarrow> ustring" where
  "remote_error_message debug EmptyDestination = ascii ''the remote destination is empty''"
| "remote_error_message debug (DestinationLooksLikeAnOption value) =
     ascii ''the remote destination '' @ debug value @ ascii '' starts with `-`, which ssh would read as an option''"
| "remote_error_message debug (DestinationHasWhitespace value) =
     ascii ''the remote destination '' @ debug value @ ascii '' contains whitespace; write it as `user@host`''"
| "remote_error_message debug (DestinationHasControlCharacter value) =
     ascii ''the remote destination '' @ debug value @ ascii '' contains a control character''"
| "remote_error_message debug EmptyPath = ascii ''the remote path is empty''"
| "remote_error_message debug EmptyCommand = ascii ''the remote command is empty''"

definition check_destination :: "ustring \<Rightarrow> remote_error + ustring" where
  "check_destination destination =
     (let destination = trim destination in
      if destination = [] then Inl EmptyDestination
      else if hd destination = 45 then Inl (DestinationLooksLikeAnOption destination)
      else if \<exists>c \<in> set destination. is_whitespace c then Inl (DestinationHasWhitespace destination)
      else if \<exists>c \<in> set destination. is_control c then Inl (DestinationHasControlCharacter destination)
      else Inr destination)"

definition trim_matches :: "uchar \<Rightarrow> ustring \<Rightarrow> ustring" where
  "trim_matches d s = rev (dropWhile (\<lambda>c. c = d) (rev (dropWhile (\<lambda>c. c = d) s)))"

definition trim_end_matches :: "uchar \<Rightarrow> ustring \<Rightarrow> ustring" where
  "trim_end_matches d s = rev (dropWhile (\<lambda>c. c = d) (rev s))"

definition session_name :: "ustring \<Rightarrow> ustring" where
  "session_name name =
     (let sanitized = map (\<lambda>c. if is_ascii_alphanumeric c \<or> c = 95 \<or> c = 45 then c else 45) (trim name);
          trimmed = trim_matches 45 sanitized
      in if trimmed = [] then ascii ''mult'' else trimmed)"

definition quote_for_local_shell :: "ustring \<Rightarrow> ustring" where
  "quote_for_local_shell value = QUOTE # escape_quotes value @ [QUOTE]"

definition quote_for_remote_shell :: "ustring \<Rightarrow> ustring" where
  "quote_for_remote_shell value = QUOTE # escape_quotes value @ [QUOTE]"

definition escape_for_double_quotes :: "ustring \<Rightarrow> ustring" where
  "escape_for_double_quotes value =
     concat (map (\<lambda>c. if c \<in> {DOUBLE_QUOTE, BACKSLASH, DOLLAR, BACKTICK} then [BACKSLASH, c] else [c]) value)"

definition remote_path_token :: "ustring \<Rightarrow> remote_error + ustring" where
  "remote_path_token path =
     (let path = trim path in
      if path = [] then Inl EmptyPath
      else if path = ascii ''~'' then Inr (DOUBLE_QUOTE # DOLLAR # ascii ''HOME'' @ [DOUBLE_QUOTE])
      else case strip_prefix (ascii ''~/'') path of
        Some rest \<Rightarrow> Inr (DOUBLE_QUOTE # DOLLAR # ascii ''HOME/'' @ escape_for_double_quotes rest @ [DOUBLE_QUOTE])
      | None \<Rightarrow> Inr (quote_for_remote_shell path))"

definition head_file_token :: "ustring \<Rightarrow> remote_error + ustring" where
  "head_file_token path =
     (let path = trim_end_matches 47 (trim path) in
      if path = [] then Inl EmptyPath else remote_path_token (path @ ascii ''/.git/HEAD''))"

definition ssh_command :: "ustring \<Rightarrow> ustring \<Rightarrow> ustring" where
  "ssh_command destination remote =
     ascii ''ssh -t '' @ quote_for_local_shell destination @ ascii '' '' @ quote_for_local_shell remote"

definition AGENT_TITLE_FORMAT :: ustring where
  "AGENT_TITLE_FORMAT = ascii ''#{?#{==:#T,#{host}},,#T}''"

definition tmux_remote_line :: "ustring \<Rightarrow> ustring \<Rightarrow> ustring \<Rightarrow> ustring \<Rightarrow> ustring" where
  "tmux_remote_line session directory command title =
     ascii ''tmux new-session -A -d -s '' @ session @ ascii '' -c '' @ directory @ ascii '' '' @ command @ ascii '' '' @
     QUOTE # 59 # QUOTE # ascii '' set-option -t '' @ session @ ascii '' set-titles on'' @ ascii '' '' @
     QUOTE # 59 # QUOTE # ascii '' set-option -t '' @ session @ ascii '' set-titles-string '' @ title @ ascii '' '' @
     QUOTE # 59 # QUOTE # ascii '' attach-session -t '' @ session"

definition tmux_agent_command :: "remote_target \<Rightarrow> ustring \<Rightarrow> remote_error + ustring" where
  "tmux_agent_command target command =
     bind_sum (check_destination (rt_host target)) (\<lambda>destination.
     bind_sum (remote_path_token (rt_path target)) (\<lambda>directory.
       let session = quote_for_remote_shell (rt_session target); command = trim command in
       if command = [] then Inl EmptyCommand
       else Inr (ssh_command destination
         (tmux_remote_line session directory (quote_for_remote_shell command) (quote_for_remote_shell AGENT_TITLE_FORMAT)))))"

definition login_shell_command :: "remote_target \<Rightarrow> remote_error + ustring" where
  "login_shell_command target =
     bind_sum (check_destination (rt_host target)) (\<lambda>destination.
     bind_sum (remote_path_token (rt_path target)) (\<lambda>directory.
       Inr (ssh_command destination
         (ascii ''cd '' @ directory @ ascii '' && exec '' @ DOUBLE_QUOTE # DOLLAR # ascii ''SHELL'' @ DOUBLE_QUOTE # ascii '' -l''))))"

definition wrapped_command :: "remote_target \<Rightarrow> ustring \<Rightarrow> remote_error + ustring" where
  "wrapped_command target command =
     bind_sum (check_destination (rt_host target)) (\<lambda>destination.
     bind_sum (remote_path_token (rt_path target)) (\<lambda>directory.
       Inr (ssh_command destination (ascii ''cd '' @ directory @ ascii '' && '' @ trim command))))"

section \<open>What the shells read\<close>

text \<open>The directory a path names on the far side, whose home is \<open>env HOME\<close>.\<close>

definition remote_directory :: "(ustring \<Rightarrow> ustring) \<Rightarrow> ustring \<Rightarrow> ustring" where
  "remote_directory env path =
     (let path = trim path in
      if path = ascii ''~'' then env (ascii ''HOME'')
      else case strip_prefix (ascii ''~/'') path of
        Some rest \<Rightarrow> env (ascii ''HOME'') @ 47 # rest
      | None \<Rightarrow> path)"

lemma quotes_are_single: "quote_for_local_shell v = single_quote v" "quote_for_remote_shell v = single_quote v"
  by (simp_all add: quote_for_local_shell_def quote_for_remote_shell_def single_quote_def)

lemma sh_escape_for_double_quotes:
  "sh_tokens env (Some w) Double (escape_for_double_quotes v @ DOUBLE_QUOTE # rest) =
   sh_tokens env (Some (w @ v)) Plain rest"
proof (induction v arbitrary: w)
  case (Cons c v)
  show ?case
  proof (cases "c \<in> {DOUBLE_QUOTE, BACKSLASH, DOLLAR, BACKTICK}")
    case True
    then show ?thesis using Cons.IH [of "w @ [c]"] by (simp add: escape_for_double_quotes_def)
  next
    case False
    then show ?thesis using Cons.IH [of "w @ [c]"] by (simp add: escape_for_double_quotes_def)
  qed
qed (simp add: escape_for_double_quotes_def)

lemma sh_variable_name:
  assumes "\<forall>d \<in> set name. name_char d" and "\<not> name_char c" and "v @ name \<noteq> []"
  shows "sh_tokens env w (Variable v) (name @ c # rest) = sh_tokens env (extend w (env (v @ name))) Double (c # rest)"
  using assms
proof (induction name arbitrary: v)
  case (Cons d name)
  then show ?case using Cons.IH [of "v @ [d]"] by simp
qed simp

lemma name_chars:
  "\<forall>d \<in> set (ascii ''HOME''). name_char d" "\<forall>d \<in> set (ascii ''SHELL''). name_char d"
  "\<not> name_char 47" "\<not> name_char DOUBLE_QUOTE"
  by (simp_all add: name_char_def is_ascii_alphanumeric_def is_ascii_digit_def shell_chars of_char_def)

lemma sh_variable:
  assumes "\<forall>d \<in> set name. name_char d" and "\<not> name_char c" and "name \<noteq> []"
  shows "sh_tokens env (Some w) Double (DOLLAR # name @ c # rest) = sh_tokens env (Some (w @ env name)) Double (c # rest)"
proof -
  have "sh_tokens env (Some w) Double (DOLLAR # name @ c # rest) = sh_tokens env (Some w) (Variable []) (name @ c # rest)"
    by simp
  then show ?thesis using sh_variable_name [of name c "[]"] assms by (simp del: sh_tokens.simps)
qed

lemma sh_home_slash: "sh_tokens env w Double (47 # rest) = sh_tokens env (extend w [47]) Double rest"
  by (simp add: shell_chars)

lemma sh_remote_path_token:
  assumes "remote_path_token path = Inr token"
  shows "sh_tokens env None Plain (token @ rest) = sh_tokens env (Some (remote_directory env path)) Plain rest"
proof -
  let ?p = "trim path" and ?home = "ascii ''HOME''"
  consider (home) "?p = ascii ''~''" "token = DOUBLE_QUOTE # DOLLAR # ?home @ [DOUBLE_QUOTE]"
    | (below) r where "?p \<noteq> ascii ''~''" "strip_prefix (ascii ''~/'') ?p = Some r"
        "token = DOUBLE_QUOTE # DOLLAR # ?home @ 47 # escape_for_double_quotes r @ [DOUBLE_QUOTE]"
    | (plain) "?p \<noteq> ascii ''~''" "strip_prefix (ascii ''~/'') ?p = None" "token = single_quote ?p"
    using assms by (auto simp: remote_path_token_def Let_def quotes_are_single of_char_def split: if_splits option.splits)
  then show ?thesis
  proof cases
    case home
    have "sh_tokens env None Plain (token @ rest) = sh_tokens env (Some []) Double (DOLLAR # ?home @ DOUBLE_QUOTE # rest)"
      by (simp add: home(2) del: ascii_simps)
    also have "\<dots> = sh_tokens env (Some (env ?home)) Double (DOUBLE_QUOTE # rest)"
      using sh_variable [OF name_chars(1,4)] by (simp del: sh_tokens.simps)
    finally show ?thesis by (simp add: remote_directory_def home(1) del: ascii_simps)
  next
    case (below r)
    have "sh_tokens env None Plain (token @ rest) =
        sh_tokens env (Some []) Double (DOLLAR # ?home @ 47 # escape_for_double_quotes r @ DOUBLE_QUOTE # rest)"
      by (simp add: below(3) del: ascii_simps)
    also have "\<dots> = sh_tokens env (Some (env ?home)) Double (47 # escape_for_double_quotes r @ DOUBLE_QUOTE # rest)"
      using sh_variable [OF name_chars(1,3)] by (simp del: sh_tokens.simps)
    also have "\<dots> = sh_tokens env (Some (env ?home @ 47 # r)) Plain rest"
      using sh_escape_for_double_quotes [of env "env ?home @ [47]" r rest]
      by (simp add: sh_home_slash del: sh_tokens.simps ascii_simps)
    finally show ?thesis by (simp add: remote_directory_def below(1,2) del: ascii_simps)
  next
    case plain
    then show ?thesis
      by (simp add: remote_directory_def sh_single_quote del: sh_tokens.simps ascii_simps)
  qed
qed

text \<open>The literal words of the lines.\<close>

lemma sh_literal:
  assumes "list_all unquoted_char (ascii v)" and "v \<noteq> []"
  shows "sh_tokens env None Plain (ascii v @ rest) = sh_tokens env (Some (ascii v)) Plain rest"
  using sh_plain_word [of "ascii v" env rest] assms by (cases v) (simp_all del: sh_tokens.simps)

lemma sh_end: "sh_tokens env (Some w) Plain [] = Some [Word w]"
  by simp

lemma sh_single_quote_word: "sh_tokens env None Plain (single_quote v @ rest) = sh_tokens env (Some v) Plain rest"
  using sh_single_quote [of env None v rest] by (simp del: sh_tokens.simps)

lemma ascii_space: "ascii (CHR 0x20 # s) = SPACE # ascii s"
  by (simp add: SPACE_def of_char_def)

lemma ascii_words:
  "list_all unquoted_char (ascii ''ssh'')" "list_all unquoted_char (ascii ''-t'')" "list_all unquoted_char (ascii ''cd'')"
  "list_all unquoted_char (ascii ''tmux'')" "list_all unquoted_char (ascii ''new-session'')" "list_all unquoted_char (ascii ''-A'')"
  "list_all unquoted_char (ascii ''-d'')" "list_all unquoted_char (ascii ''-s'')" "list_all unquoted_char (ascii ''-c'')"
  "list_all unquoted_char (ascii ''set-option'')" "list_all unquoted_char (ascii ''set-titles'')"
  "list_all unquoted_char (ascii ''on'')" "list_all unquoted_char (ascii ''set-titles-string'')"
  "list_all unquoted_char (ascii ''attach-session'')" "list_all unquoted_char (ascii ''exec'')" "list_all unquoted_char (ascii ''-l'')"
  by (simp_all add: unquoted_char_def is_ascii_alphanumeric_def is_ascii_digit_def of_char_def)

lemma sh_ssh_command:
  "sh_line env (ssh_command destination remote) = Some (map Word [ascii ''ssh'', ascii ''-t'', destination, remote])"
proof -
  have line: "ssh_command destination remote =
      ascii ''ssh'' @ SPACE # ascii ''-t'' @ SPACE # single_quote destination @ SPACE # single_quote remote"
    unfolding ssh_command_def quotes_are_single by (simp add: SPACE_def of_char_def)
  show ?thesis
    unfolding sh_line_def line
    using sh_single_quote_word [of env remote "[]"]
    by (simp add: sh_literal ascii_words sh_single_quote_word sh_space del: sh_tokens.simps(8) ascii_simps)
qed

lemma tmux_remote_line_words:
  "tmux_remote_line session directory command title =
     ascii ''tmux'' @ SPACE # ascii ''new-session'' @ SPACE # ascii ''-A'' @ SPACE # ascii ''-d'' @ SPACE # ascii ''-s'' @ SPACE #
     session @ SPACE # ascii ''-c'' @ SPACE # directory @ SPACE # command @ SPACE # single_quote [59] @ SPACE #
     ascii ''set-option'' @ SPACE # ascii ''-t'' @ SPACE # session @ SPACE # ascii ''set-titles'' @ SPACE # ascii ''on'' @ SPACE #
     single_quote [59] @ SPACE # ascii ''set-option'' @ SPACE # ascii ''-t'' @ SPACE # session @ SPACE #
     ascii ''set-titles-string'' @ SPACE # title @ SPACE # single_quote [59] @ SPACE #
     ascii ''attach-session'' @ SPACE # ascii ''-t'' @ SPACE # session"
  by (simp add: tmux_remote_line_def single_quote_def SPACE_def QUOTE_def of_char_def)

lemma sh_tmux_remote_line:
  assumes token: "remote_path_token path = Inr directory"
  shows "sh_line env (tmux_remote_line (single_quote session) directory (single_quote command) (single_quote title)) =
    Some (map Word [ascii ''tmux'', ascii ''new-session'', ascii ''-A'', ascii ''-d'', ascii ''-s'', session, ascii ''-c'',
      remote_directory env path, command, [59], ascii ''set-option'', ascii ''-t'', session, ascii ''set-titles'', ascii ''on'',
      [59], ascii ''set-option'', ascii ''-t'', session, ascii ''set-titles-string'', title,
      [59], ascii ''attach-session'', ascii ''-t'', session])"
  unfolding sh_line_def tmux_remote_line_words
  using sh_single_quote_word [of env session "[]"]
  by (simp add: sh_literal ascii_words sh_single_quote_word sh_remote_path_token [OF token] sh_space
      del: sh_tokens.simps(8) ascii_simps)

lemma sh_change_directory:
  assumes token: "remote_path_token path = Inr directory"
  shows "sh_line env (ascii ''cd '' @ directory @ ascii '' && '' @ rest) =
    map_option (\<lambda>ts. Word (ascii ''cd'') # Word (remote_directory env path) # AndIf # ts) (sh_line env rest)"
proof -
  have line: "ascii ''cd '' @ directory @ ascii '' && '' @ rest =
      ascii ''cd'' @ SPACE # directory @ SPACE # AMPERSAND # AMPERSAND # SPACE # rest"
    by (simp add: SPACE_def AMPERSAND_def of_char_def)
  show ?thesis
    unfolding sh_line_def line
    by (simp add: sh_literal ascii_words sh_remote_path_token [OF token] sh_space sh_and option.map_comp comp_def
        del: sh_tokens.simps(8) ascii_simps)
qed

lemma sh_exec_shell:
  "sh_line env (ascii ''exec '' @ DOUBLE_QUOTE # DOLLAR # ascii ''SHELL'' @ DOUBLE_QUOTE # ascii '' -l'') =
     Some (map Word [ascii ''exec'', env (ascii ''SHELL''), ascii ''-l''])"
proof -
  have line: "ascii ''exec '' @ DOUBLE_QUOTE # DOLLAR # ascii ''SHELL'' @ DOUBLE_QUOTE # ascii '' -l'' =
      ascii ''exec'' @ SPACE # DOUBLE_QUOTE # DOLLAR # ascii ''SHELL'' @ DOUBLE_QUOTE # SPACE # ascii ''-l''"
    by (simp add: SPACE_def of_char_def)
  have "sh_tokens env None Plain (DOUBLE_QUOTE # DOLLAR # ascii ''SHELL'' @ DOUBLE_QUOTE # rest) =
      sh_tokens env (Some (env (ascii ''SHELL''))) Plain rest" for rest
    using sh_variable [OF name_chars(2,4), of env "[]" rest] by (simp del: ascii_simps) simp
  moreover have "sh_tokens env None Plain (ascii ''-l'') = Some [Word (ascii ''-l'')]"
    using sh_literal [of "''-l''" env "[]"] ascii_words by (simp del: sh_tokens.simps(8) ascii_simps)
  ultimately show ?thesis
    unfolding sh_line_def line
    by (simp add: sh_literal ascii_words sh_space del: sh_tokens.simps(8) ascii_simps)
qed

lemma remote_path_token_total: "trim path \<noteq> [] \<Longrightarrow> \<exists>token. remote_path_token path = Inr token"
  by (simp add: remote_path_token_def Let_def split: option.split)

lemma check_destination_safe:
  "check_destination host = Inr destination \<Longrightarrow>
     destination = trim host \<and> destination \<noteq> [] \<and> hd destination \<noteq> 45 \<and>
     (\<forall>c \<in> set destination. \<not> is_whitespace c \<and> \<not> is_control c)"
  by (auto simp: check_destination_def Let_def split: if_splits)

text \<open>
  C33. A remote command arrives as it was meant: the local shell reads every line as one \<open>ssh\<close> with
  a destination that is no option and one argument, and the remote shell reads that argument as the
  intended commands, whatever the session name, the path and the agent's command hold: \<open>tmux\<close>
  creates and attaches the one session, in the project's directory, with the agent's command as one
  word; a terminal is a login shell in that directory; a user's command is read by the remote shell
  there untouched.
\<close>

theorem remote_commands_arrive_intact:
  assumes "check_destination (rt_host target) = Inr destination" and "trim (rt_path target) \<noteq> []" and "trim command \<noteq> []"
  shows "\<exists>agent login wrapped.
    tmux_agent_command target command = Inr (ssh_command destination agent) \<and>
    login_shell_command target = Inr (ssh_command destination login) \<and>
    wrapped_command target command = Inr (ssh_command destination wrapped) \<and>
    hd destination \<noteq> 45 \<and>
    (\<forall>remote. sh_line local_env (ssh_command destination remote) =
       Some (map Word [ascii ''ssh'', ascii ''-t'', destination, remote])) \<and>
    sh_line env agent = Some (map Word [ascii ''tmux'', ascii ''new-session'', ascii ''-A'', ascii ''-d'', ascii ''-s'',
      rt_session target, ascii ''-c'', remote_directory env (rt_path target), trim command,
      [59], ascii ''set-option'', ascii ''-t'', rt_session target, ascii ''set-titles'', ascii ''on'',
      [59], ascii ''set-option'', ascii ''-t'', rt_session target, ascii ''set-titles-string'', AGENT_TITLE_FORMAT,
      [59], ascii ''attach-session'', ascii ''-t'', rt_session target]) \<and>
    sh_line env login = Some (Word (ascii ''cd'') # Word (remote_directory env (rt_path target)) # AndIf #
      map Word [ascii ''exec'', env (ascii ''SHELL''), ascii ''-l'']) \<and>
    sh_line env wrapped = map_option (\<lambda>ts. Word (ascii ''cd'') # Word (remote_directory env (rt_path target)) # AndIf # ts)
      (sh_line env (trim command))"
proof -
  obtain directory where token: "remote_path_token (rt_path target) = Inr directory"
    using remote_path_token_total [OF assms(2)] by blast
  let ?agent = "tmux_remote_line (single_quote (rt_session target)) directory (single_quote (trim command))
    (single_quote AGENT_TITLE_FORMAT)"
  let ?cd = "\<lambda>rest. ascii ''cd '' @ directory @ ascii '' && '' @ rest"
  let ?shell = "ascii ''exec '' @ DOUBLE_QUOTE # DOLLAR # ascii ''SHELL'' @ DOUBLE_QUOTE # ascii '' -l''"
  have commands: "tmux_agent_command target command = Inr (ssh_command destination ?agent)"
    "wrapped_command target command = Inr (ssh_command destination (?cd (trim command)))"
    using assms token
    by (simp_all add: tmux_agent_command_def wrapped_command_def Let_def quotes_are_single del: ascii_simps)
  have login: "login_shell_command target = Inr (ssh_command destination (?cd ?shell))"
    using assms(1) token by (simp add: login_shell_command_def)
  have dash: "hd destination \<noteq> 45" using check_destination_safe [OF assms(1)] by blast
  show ?thesis
    by (intro exI conjI allI)
      (rule commands login dash sh_ssh_command sh_tmux_remote_line [OF token] sh_change_directory [OF token] |
        simp only: sh_change_directory [OF token] sh_exec_shell option.map)+
qed

definition sample_target :: remote_target where
  "sample_target = \<lparr>rt_host = ascii '' me@box'', rt_path = ascii ''~/my docs'', rt_session = ascii ''mult''\<rparr>"

theorem remote_commands_arrive_intact_witness:
  "\<exists>agent. tmux_agent_command sample_target (ascii ''claude --x'') = Inr (ssh_command (ascii ''me@box'') agent) \<and>
    sh_line (\<lambda>_. []) (ssh_command (ascii ''me@box'') agent) =
      Some (map Word [ascii ''ssh'', ascii ''-t'', ascii ''me@box'', agent])"
proof -
  have "check_destination (rt_host sample_target) = Inr (ascii ''me@box'')"
    "trim (rt_path sample_target) \<noteq> []" "trim (ascii ''claude --x'') \<noteq> []"
    by code_simp+
  note arrive = remote_commands_arrive_intact [OF this, of "\<lambda>_. []" "\<lambda>_. []"]
  obtain agent where "tmux_agent_command sample_target (ascii ''claude --x'') = Inr (ssh_command (ascii ''me@box'') agent)"
    and "\<forall>remote. sh_line (\<lambda>_. []) (ssh_command (ascii ''me@box'') remote) =
      Some (map Word [ascii ''ssh'', ascii ''-t'', ascii ''me@box'', remote])"
    using arrive by blast
  then show ?thesis by blast
qed

end
