(* ===== verification/App_Prompts.thy ===== *)
theory App_Prompts
  imports App_Mutation Client_Config Remote
begin

text \<open>
  The prompts (\<open>src/app/prompt.rs\<close>), the command palette generated from the table of bindings
  (\<open>src/app/bindings.rs\<close>), and search with the agent events that feed the transcripts
  (\<open>src/app/search.rs\<close>, \<open>src/agent.rs\<close>).
\<close>

section \<open>The table of bindings\<close>

datatype command_action =
    ShowKeybindings | ActFocusSidebar | FocusSelectedPane | StartInput | AddAgentChat | AddClaudeCodeChat
  | AddCodexChat | AddShellTerminal | AddCommandTerminal | OpenFileManager | OpenSftp | OpenEditor
  | ActOpenWorkspace | DeleteSelected | SearchSelectedPane | ClearSearch | DismissNotices | ReloadConfig | Quit

datatype binding_scope = GlobalScope | PromptScope | MouseScope

datatype binding_availability =
    Always | NeedsPane | NeedsWorkspace | DeletableSelection | ActiveSearch | PendingNotices

record binding_entry =
  be_keys :: "string option"
  be_label :: string
  be_help :: string
  be_action :: "command_action option"
  be_scope :: binding_scope
  be_availability :: binding_availability

definition binding_global ::
    "string option \<Rightarrow> string \<Rightarrow> string \<Rightarrow> command_action option \<Rightarrow> binding_availability \<Rightarrow> binding_entry" where
  "binding_global keys label help action availability =
     \<lparr>be_keys = keys, be_label = label, be_help = help, be_action = action, be_scope = GlobalScope,
      be_availability = availability\<rparr>"

definition binding_reference :: "string \<Rightarrow> string \<Rightarrow> binding_scope \<Rightarrow> binding_entry" where
  "binding_reference keys label scope =
     \<lparr>be_keys = Some keys, be_label = label, be_help = '''', be_action = None, be_scope = scope, be_availability = Always\<rparr>"

definition BINDINGS :: "binding_entry list" where
  "BINDINGS = [
    binding_global (Some ''? or F1'') ''Show keybindings'' ''list every key and command in an overlay''
      (Some ShowKeybindings) Always,
    binding_global None ''Focus sidebar'' ''return keyboard focus to workspace navigation'' (Some ActFocusSidebar) Always,
    binding_global None ''Focus selected pane'' ''move keyboard focus from sidebar to the selected chat or terminal''
      (Some FocusSelectedPane) NeedsPane,
    binding_global None ''Start selected PTY'' ''start the selected chat/terminal PTY for immediate input''
      (Some StartInput) NeedsPane,
    binding_global None ''Search selected pane'' ''filter terminal output or chat transcript lines''
      (Some SearchSelectedPane) NeedsPane,
    binding_global (Some ''Ctrl+a'') ''New pi agent chat'' ''add a pi agent chat to the selected workspace''
      (Some AddAgentChat) NeedsWorkspace,
    binding_global (Some ''Ctrl+x'') ''New Claude Code chat'' ''add a Claude Code agent chat to the selected workspace''
      (Some AddClaudeCodeChat) NeedsWorkspace,
    binding_global (Some ''Ctrl+o'') ''New Codex chat'' ''add a Codex agent chat to the selected workspace''
      (Some AddCodexChat) NeedsWorkspace,
    binding_global (Some ''Ctrl+t'') ''New shell terminal'' ''add a shell terminal to the selected workspace''
      (Some AddShellTerminal) NeedsWorkspace,
    binding_global None ''New command terminal'' ''add a command/dev-server terminal to the selected workspace''
      (Some AddCommandTerminal) NeedsWorkspace,
    binding_global (Some ''Ctrl+n'') ''Open file manager''
      ''open the configured file manager in the selected workspace's root directory'' (Some OpenFileManager) NeedsWorkspace,
    binding_global (Some ''Ctrl+s'') ''Open SFTP'' ''open Yazi at the selected project's configured SFTP target''
      (Some OpenSftp) NeedsWorkspace,
    binding_global (Some ''Ctrl+e'') ''Open editor''
      ''open your editor ($VISUAL, $EDITOR, or editor_command) in the selected workspace's root directory''
      (Some OpenEditor) NeedsWorkspace,
    binding_global (Some ''Ctrl+f'') ''Open workspace'' ''import a workspace directory'' (Some ActOpenWorkspace) Always,
    binding_global (Some ''Ctrl+q'') ''Delete selected item''
      ''delete the selected chat/terminal or an empty workspace, immediately'' (Some DeleteSelected) DeletableSelection,
    binding_global None ''Clear search'' ''clear the active search/filter'' (Some ClearSearch) ActiveSearch,
    binding_global None ''Dismiss notices'' ''clear the status notices without waiting for them to expire''
      (Some DismissNotices) PendingNotices,
    binding_global None ''Reload config'' ''re-read config.json and apply it without restarting'' (Some ReloadConfig) Always,
    binding_global (Some ''Ctrl+Esc'') ''Quit mult'' ''save state and exit'' (Some Quit) Always,
    binding_reference ''Ctrl+j or Ctrl+Enter'' ''Select next sidebar item'' GlobalScope,
    binding_reference ''Ctrl+k'' ''Select previous sidebar item'' GlobalScope,
    binding_reference ''Ctrl+p'' ''Open the command palette'' GlobalScope,
    binding_reference ''any other key'' ''start the selected chat/terminal PTY and send the key to it'' GlobalScope,
    binding_reference ''Enter'' ''Submit'' PromptScope,
    binding_reference ''Esc or Ctrl+c'' ''Cancel'' PromptScope,
    binding_reference ''Left/Right'' ''Move the cursor one character'' PromptScope,
    binding_reference ''Home/End or Ctrl+a/Ctrl+e'' ''Move the cursor to the start/end'' PromptScope,
    binding_reference ''Backspace/Delete'' ''Delete the character before/after the cursor'' PromptScope,
    binding_reference ''Ctrl+w'' ''Delete the word before the cursor'' PromptScope,
    binding_reference ''Ctrl+u'' ''Delete everything before the cursor'' PromptScope,
    binding_reference ''Up/Down or Ctrl+k/Ctrl+j'' ''Move through results (palette, project list)'' PromptScope,
    binding_reference ''wheel'' ''Scroll the selected output pane'' MouseScope,
    binding_reference ''drag'' ''Select visible text and copy it with OSC 52'' MouseScope,
    binding_reference ''Ctrl+Shift+C'' ''Copy the active mult selection'' MouseScope]"

record palette_entry =
  pe_action :: command_action
  pe_label :: string
  pe_help :: string

definition binding_is_available :: "app \<Rightarrow> binding_availability \<Rightarrow> bool" where
  "binding_is_available a availability =
     (case availability of
        Always \<Rightarrow> True
      | NeedsPane \<Rightarrow> selected_main_focus a \<noteq> None
      | NeedsWorkspace \<Rightarrow> selected_workspace_id a \<noteq> None
      | DeletableSelection \<Rightarrow> selected_delete_target a \<noteq> None
      | ActiveSearch \<Rightarrow> ap_search a \<noteq> None
      | PendingNotices \<Rightarrow> ap_notices a \<noteq> [])"

definition available_palette_entries :: "app \<Rightarrow> palette_entry list" where
  "available_palette_entries a =
     List.map_filter (\<lambda>b. map_option (\<lambda>action. \<lparr>pe_action = action, pe_label = be_label b, pe_help = be_help b\<rparr>) (be_action b))
       (filter (\<lambda>b. binding_is_available a (be_availability b)) BINDINGS)"

definition palette_entries_for :: "ustring \<Rightarrow> app \<Rightarrow> palette_entry list" where
  "palette_entries_for query a =
     (let entries = available_palette_entries a; query = to_ascii_lowercase (trim query) in
      if query = [] then entries
      else filter (\<lambda>e. list_all (\<lambda>term. contains term (to_ascii_lowercase (ascii (pe_label e @ '' '' @ pe_help e))))
             (split_whitespace query)) entries)"

section \<open>The command palette\<close>

definition begin_command_palette :: "app \<Rightarrow> app" where
  "begin_command_palette = set_prompt (CommandPalette \<lparr>cp_input = prompt_input_new [], cp_selected = 0\<rparr>)"

definition submit_command_palette :: "app \<Rightarrow> command_action option \<times> app" where
  "submit_command_palette a =
     (case prompt_of a of
        Some (CommandPalette p) \<Rightarrow>
          let entries = palette_entries_for (pi_text (cp_input p)) a
          in (map_option pe_action (nth_option (min (cp_selected p) (length entries - 1)) entries), clear_prompt a)
      | _ \<Rightarrow> (None, a))"

definition update_palette :: "(nat \<Rightarrow> nat \<Rightarrow> nat) \<Rightarrow> app \<Rightarrow> app" where
  "update_palette f a =
     (case prompt_of a of
        Some (CommandPalette p) \<Rightarrow>
          let len = length (palette_entries_for (pi_text (cp_input p)) a)
          in update_prompt (\<lambda>_. CommandPalette (p\<lparr>cp_selected := f len (cp_selected p)\<rparr>)) a
      | _ \<Rightarrow> a)"

definition move_command_palette_selection :: "int \<Rightarrow> app \<Rightarrow> app" where
  "move_command_palette_selection delta = update_palette (step_selection delta)"

definition clamp_command_palette_selection :: "app \<Rightarrow> app" where
  "clamp_command_palette_selection = update_palette clamp_selection"

section \<open>Editing a prompt\<close>

text \<open>Only an edit that changes the text clears the prompt's error and resets its selection.\<close>

definition edit_prompt :: "prompt_edit \<Rightarrow> prompt \<Rightarrow> (bool \<times> prompt) option" where
  "edit_prompt edit p =
     (case p of
        OpenWorkspace q \<Rightarrow>
          map_option (\<lambda>(changed, i). (changed, OpenWorkspace
            (if changed \<and> mutates_text edit then q\<lparr>ow_input := i, ow_error := None, ow_selected := 0\<rparr> else q\<lparr>ow_input := i\<rparr>)))
            (apply_edit edit (ow_input q))
      | NewTerminalCommand q \<Rightarrow>
          map_option (\<lambda>(changed, i). (changed, NewTerminalCommand
            (if changed \<and> mutates_text edit then q\<lparr>tc_input := i, tc_error := None\<rparr> else q\<lparr>tc_input := i\<rparr>)))
            (apply_edit edit (tc_input q))
      | CommandPalette q \<Rightarrow>
          map_option (\<lambda>(changed, i). (changed, CommandPalette
            (if changed \<and> mutates_text edit then q\<lparr>cp_input := i, cp_selected := 0\<rparr> else q\<lparr>cp_input := i\<rparr>)))
            (apply_edit edit (cp_input q))
      | Search q \<Rightarrow>
          map_option (\<lambda>(changed, i). (changed, Search
            (if changed \<and> mutates_text edit then q\<lparr>sp_input := i, sp_error := None\<rparr> else q\<lparr>sp_input := i\<rparr>)))
            (apply_edit edit (sp_input q)))"

definition apply_prompt_edit :: "prompt_edit \<Rightarrow> app \<Rightarrow> (bool \<times> app) option" where
  "apply_prompt_edit edit a =
     (case prompt_of a of
        None \<Rightarrow> Some (False, clamp_command_palette_selection a)
      | Some p \<Rightarrow>
          map_option (\<lambda>(changed, q). (changed, clamp_command_palette_selection (update_prompt (\<lambda>_. q) a)))
            (edit_prompt edit p))"

definition push_prompt_char :: "uchar \<Rightarrow> app \<Rightarrow> app option" where
  "push_prompt_char c a = map_option snd (apply_prompt_edit (EditInsert c) a)"

definition prompt_input_of :: "prompt \<Rightarrow> prompt_input" where
  "prompt_input_of p =
     (case p of
        OpenWorkspace q \<Rightarrow> ow_input q | NewTerminalCommand q \<Rightarrow> tc_input q | CommandPalette q \<Rightarrow> cp_input q | Search q \<Rightarrow> sp_input q)"

definition cancel_prompt :: "app \<Rightarrow> app" where "cancel_prompt = clear_prompt"

section \<open>Command terminals\<close>

definition begin_new_terminal_command :: "app \<Rightarrow> bool \<times> app" where
  "begin_new_terminal_command a =
     (if selected_workspace_id a = None then (False, a)
      else (True, set_prompt (NewTerminalCommand \<lparr>tc_input = prompt_input_new [], tc_error = None\<rparr>) a))"

definition set_terminal_command_error :: "ustring \<Rightarrow> app \<Rightarrow> app" where
  "set_terminal_command_error message =
     update_prompt (\<lambda>p. case p of NewTerminalCommand q \<Rightarrow> NewTerminalCommand (q\<lparr>tc_error := Some message\<rparr>) | _ \<Rightarrow> p)"

definition command_terminal_name :: "ustring \<Rightarrow> nat \<Rightarrow> ustring" where
  "command_terminal_name command next =
     (let command = trim command in if command = [] then ascii ''command-'' @ decimal next else command)"

definition submit_new_terminal_command :: "host \<Rightarrow> app \<Rightarrow> app" where
  "submit_new_terminal_command h a =
     (case prompt_of a of
        Some (NewTerminalCommand p) \<Rightarrow>
          let command = trim (pi_text (tc_input p)) in
          if command = [] then set_terminal_command_error (ascii ''enter a command to run'') a
          else (case selected_workspace_id a of
            None \<Rightarrow> set_terminal_command_error (ascii ''select a workspace first'') a
          | Some w \<Rightarrow>
              (case add_command_terminal (h_urandom h) w (command_terminal_name command (terminal_count w a)) command (ap_project a) of
                 (Inr (Some t), p) \<Rightarrow>
                   mark_structural_change (clear_operation_error (select_item (NavTerminal w t)
                     (clear_prompt (a\<lparr>ap_project := p\<rparr>))))
               | (Inr None, p) \<Rightarrow>
                   set_terminal_command_error (ascii ''selected workspace no longer exists'') (a\<lparr>ap_project := p\<rparr>)
               | (Inl error, p) \<Rightarrow> set_terminal_command_error (allocation_message error) (a\<lparr>ap_project := p\<rparr>)))
      | _ \<Rightarrow> a)"

section \<open>Search\<close>

definition begin_search :: "app \<Rightarrow> bool \<times> app" where
  "begin_search a =
     (case selected_search_scope a of
        None \<Rightarrow> (False, a)
      | Some scope \<Rightarrow>
          let input = (case ap_search a of Some s \<Rightarrow> if se_scope s = scope then se_query s else [] | None \<Rightarrow> [])
          in (True, set_prompt (Search \<lparr>sp_input = prompt_input_new input, sp_scope = scope, sp_error = None\<rparr>) a))"

definition submit_search :: "app \<Rightarrow> app" where
  "submit_search a =
     (case prompt_of a of
        Some (Search p) \<Rightarrow>
          let query = trim (pi_text (sp_input p)) in
          clear_prompt (a\<lparr>ap_search := (if query = [] then None else Some \<lparr>se_query = query, se_scope = sp_scope p\<rparr>)\<rparr>)
      | _ \<Rightarrow> a)"

definition clear_search :: "app \<Rightarrow> app" where
  "clear_search a = a\<lparr>ap_search := None\<rparr>"

definition filter_lines :: "host \<Rightarrow> ustring list \<Rightarrow> ustring \<Rightarrow> ustring list" where
  "filter_lines h ls query =
     (let query = h_lowercase h (trim query) in
      if query = [] then ls else filter (\<lambda>l. contains query (h_lowercase h l)) ls)"

definition transcript_lines :: "chat_message list \<Rightarrow> ustring list" where
  "transcript_lines ms = concat (map (\<lambda>m. map (\<lambda>l. line_prefix (cm_role m) @ l) (lines (cm_text m))) ms)"

definition chat_lines :: "chat_id \<Rightarrow> app \<Rightarrow> ustring list" where
  "chat_lines c a = (case btm_get (ap_chat_buffers a) c of None \<Rightarrow> [] | Some b \<Rightarrow> visible_lines b)"

definition chat_transcript_lines :: "chat_id \<Rightarrow> app \<Rightarrow> ustring list" where
  "chat_transcript_lines c a =
     (let ls = (case find (\<lambda>s. ct_id s = c) (all_chats (ap_project a)) of
                  None \<Rightarrow> [] | Some s \<Rightarrow> transcript_lines (ct_messages s))
      in if ls = [] then chat_lines c a else ls)"

definition match_status :: "string \<Rightarrow> nat \<Rightarrow> ustring \<Rightarrow> ustring" where
  "match_status what count query =
     ascii (''search '' @ what @ '': '') @ decimal count @ ascii '' match'' @ (if count = 1 then [] else ascii ''es'') @
     ascii '' for `'' @ query @ ascii ''`''"

definition chat_search_status :: "host \<Rightarrow> app \<Rightarrow> ustring option" where
  "chat_search_status h a =
     (case ap_search a of
        Some s \<Rightarrow>
          (case se_scope s of
             SearchChat c \<Rightarrow>
               Some (match_status ''chat'' (length (filter_lines h (chat_transcript_lines c a) (se_query s))) (se_query s))
           | SearchTerminal _ \<Rightarrow> None)
      | None \<Rightarrow> None)"

definition terminal_search_matches :: "host \<Rightarrow> terminal_id \<Rightarrow> ustring list \<Rightarrow> app \<Rightarrow> ustring list option" where
  "terminal_search_matches h t ls a =
     (case ap_search a of
        Some s \<Rightarrow> if se_scope s \<noteq> SearchTerminal t then None else Some (filter_lines h ls (se_query s))
      | None \<Rightarrow> None)"

definition terminal_search_status :: "host \<Rightarrow> terminal_id \<Rightarrow> ustring list \<Rightarrow> app \<Rightarrow> ustring option" where
  "terminal_search_status h t ls a =
     (case ap_search a of
        Some s \<Rightarrow> if se_scope s \<noteq> SearchTerminal t then None
                  else Some (match_status ''terminal'' (length (filter_lines h ls (se_query s))) (se_query s))
      | None \<Rightarrow> None)"

definition filtered_chat_lines :: "host \<Rightarrow> chat_id \<Rightarrow> app \<Rightarrow> ustring list option" where
  "filtered_chat_lines h c a =
     (case ap_search a of
        Some s \<Rightarrow> if se_scope s \<noteq> SearchChat c then None else Some (filter_lines h (chat_transcript_lines c a) (se_query s))
      | None \<Rightarrow> None)"

section \<open>Agent events\<close>

record agent_target =
  at_workspace :: workspace_id
  at_chat :: chat_id

datatype agent_message_role = AgentUser | AgentAssistant | AgentSystem | AgentTool

datatype agent_event =
    MessageDelta agent_target agent_message_role ustring
  | ToolCall agent_target ustring ustring
  | FileChanged agent_target ustring
  | CommandStarted agent_target ustring
  | StatusChanged agent_target chat_status
  | AgentError agent_target ustring

fun chat_role_from_agent :: "agent_message_role \<Rightarrow> message_role" where
  "chat_role_from_agent AgentUser = RoleUser"
| "chat_role_from_agent AgentAssistant = RoleAssistant"
| "chat_role_from_agent AgentSystem = RoleSystem"
| "chat_role_from_agent AgentTool = RoleTool"

definition buffer_append :: "chat_id \<Rightarrow> message_role \<Rightarrow> ustring \<Rightarrow> app \<Rightarrow> app" where
  "buffer_append c role s a =
     a\<lparr>ap_chat_buffers := btm_insert c (append_delta role s
         (case btm_get (ap_chat_buffers a) c of None \<Rightarrow> chat_buffer_new | Some b \<Rightarrow> b)) (ap_chat_buffers a)\<rparr>"

definition app_append_chat_message :: "agent_target \<Rightarrow> message_role \<Rightarrow> ustring \<Rightarrow> app \<Rightarrow> app" where
  "app_append_chat_message target role s a =
     (let a = buffer_append (at_chat target) role (s @ [10]) a in
      case append_chat_message (at_workspace target) (at_chat target) role s (ap_project a) of
        (changed, p) \<Rightarrow> a\<lparr>ap_project := p, ap_dirty := ap_dirty a \<or> changed\<rparr>)"

fun apply_agent_event :: "agent_event \<Rightarrow> app \<Rightarrow> app" where
  "apply_agent_event (MessageDelta target role s) a =
     (let role = chat_role_from_agent role; a = buffer_append (at_chat target) role s a in
      case append_chat_delta (at_workspace target) (at_chat target) role s (ap_project a) of
        (changed, p) \<Rightarrow> a\<lparr>ap_project := p, ap_dirty := ap_dirty a \<or> changed\<rparr>)"
| "apply_agent_event (ToolCall target name arguments) a =
     app_append_chat_message target RoleTool (if arguments = [] then name else name @ ascii '' '' @ arguments) a"
| "apply_agent_event (FileChanged target path) a =
     app_append_chat_message target RoleSystem (ascii ''file changed: '' @ path) a"
| "apply_agent_event (CommandStarted target command) a =
     app_append_chat_message target RoleSystem (ascii ''cmd: '' @ command) a"
| "apply_agent_event (StatusChanged target status) a = snd (mark_chat_status_by_id (at_chat target) status a)"
| "apply_agent_event (AgentError target message) a =
     app_append_chat_message target RoleError message (snd (mark_chat_status_by_id (at_chat target) Failed a))"

end
