(* ===== verification/App_Open_Workspace.thy ===== *)
theory App_Open_Workspace
  imports App_Prompts
begin

text \<open>
  The open-workspace prompt (\<open>src/app/open_workspace.rs\<close>): matching the configured projects, expanding
  a typed path, and importing what the user chose. Scores are \<open>i64\<close> and stay far inside it: a character of the
  query moves a score by at most 23.
\<close>

section \<open>Fuzzy matching\<close>

record open_workspace_match =
  om_name :: ustring
  om_path :: ustring
  om_remote :: "ustring option"

definition is_name_boundary :: "uchar \<Rightarrow> bool" where
  "is_name_boundary c \<longleftrightarrow> c \<in> {45, 95, 32, 47, 46}"

text \<open>
  The loop over the characters of a term: the score so far, where the scan of the name stands and where
  the previous character was found.
\<close>

primrec fuzzy_scan :: "ustring \<Rightarrow> ustring \<Rightarrow> int \<Rightarrow> nat \<Rightarrow> nat option \<Rightarrow> int option" where
  "fuzzy_scan name [] score pos last_match = Some score"
| "fuzzy_scan name (c # cs) score pos last_match =
     (let pos = pos + length (takeWhile (\<lambda>d. d \<noteq> c) (drop pos name)) in
      if pos = length name then None
      else
        let score = score + 10;
            score = (if pos = 0 then score + 8 else if is_name_boundary (name ! (pos - 1)) then score + 6 else score);
            score = (case last_match of
                       None \<Rightarrow> score
                     | Some previous \<Rightarrow>
                         if pos = previous + 1 then score + 5 else score - int (min (pos - previous - 1) 8))
        in fuzzy_scan name cs score (pos + 1) (Some pos))"

text \<open>The name counts in characters, the term in bytes.\<close>

definition fuzzy_term_score :: "ustring \<Rightarrow> ustring \<Rightarrow> int option" where
  "fuzzy_term_score name t =
     (if t = [] then Some 0
      else map_option (\<lambda>score. score - int (min (length name - byte_len t) 16))
             (fuzzy_scan name t (if contains t name then 20 else 0) 0 None))"

fun try_fold_score :: "(ustring \<Rightarrow> int option) \<Rightarrow> ustring list \<Rightarrow> int \<Rightarrow> int option" where
  "try_fold_score f [] score = Some score"
| "try_fold_score f (t # ts) score =
     (case f t of None \<Rightarrow> None | Some s \<Rightarrow> try_fold_score f ts (score + s))"

definition fuzzy_project_score :: "host \<Rightarrow> ustring \<Rightarrow> ustring \<Rightarrow> int option" where
  "fuzzy_project_score h name query =
     (let query = h_lowercase h (trim query) in
      if query = [] then Some 0
      else try_fold_score (fuzzy_term_score (h_lowercase h name)) (split_whitespace query) 0)"

text \<open>The best score first, equal scores in the order of the configuration: the sort is stable.\<close>

definition scored_projects :: "host \<Rightarrow> ustring \<Rightarrow> configured_project list \<Rightarrow> (int \<times> nat \<times> open_workspace_match) list" where
  "scored_projects h query projects =
     List.map_filter (\<lambda>(i, p). map_option (\<lambda>score.
         (score, i, \<lparr>om_name = pr_name p, om_path = pr_path p, om_remote = remote_destination p\<rparr>))
       (fuzzy_project_score h (pr_name p) query)) (enumerate 0 projects)"

definition open_workspace_matches_for :: "host \<Rightarrow> ustring \<Rightarrow> configured_project list \<Rightarrow> open_workspace_match list" where
  "open_workspace_matches_for h query projects =
     map (\<lambda>(_, _, m). m) (sort_key (\<lambda>(score, _, _). - score)
       (sort_key (\<lambda>(_, i, _). i) (scored_projects h (trim query) projects)))"

section \<open>Typed paths\<close>

definition expand_tilde :: "host \<Rightarrow> ustring \<Rightarrow> ustring" where
  "expand_tilde h input =
     (if input = ascii ''~'' then (case h_home h of None \<Rightarrow> input | Some home \<Rightarrow> home)
      else case (strip_prefix (ascii ''~/'') input, h_home h) of
        (Some rest, Some home) \<Rightarrow> path_join home rest
      | _ \<Rightarrow> input)"

definition expand_path :: "host \<Rightarrow> ustring \<Rightarrow> ustring" where
  "expand_path h path = expand_tilde h path"

definition looks_like_path :: "ustring \<Rightarrow> bool" where
  "looks_like_path input =
     (let input = trim input in
      path_is_absolute input \<or> starts_with (ascii ''~'') input \<or> starts_with (ascii ''.'') input \<or>
      contains [SLASH] input)"

definition workspace_name :: "ustring \<Rightarrow> ustring" where
  "workspace_name path =
     (case path_file_name path of None \<Rightarrow> path | Some name \<Rightarrow> if name = [] then path else name)"

section \<open>The prompt\<close>

definition set_open_workspace_error :: "ustring \<Rightarrow> app \<Rightarrow> app" where
  "set_open_workspace_error message =
     update_prompt (\<lambda>p. case p of OpenWorkspace q \<Rightarrow> OpenWorkspace (q\<lparr>ow_error := Some message\<rparr>) | _ \<Rightarrow> p)"

definition open_workspace_matches :: "host \<Rightarrow> configured_project list \<Rightarrow> app \<Rightarrow> open_workspace_match list" where
  "open_workspace_matches h projects a =
     (case prompt_of a of
        Some (OpenWorkspace p) \<Rightarrow>
          if ow_mode p = ConfiguredProjects then open_workspace_matches_for h (pi_text (ow_input p)) projects else []
      | _ \<Rightarrow> [])"

definition move_open_workspace_selection :: "host \<Rightarrow> int \<Rightarrow> configured_project list \<Rightarrow> app \<Rightarrow> app" where
  "move_open_workspace_selection h delta projects a =
     (case prompt_of a of
        Some (OpenWorkspace p) \<Rightarrow>
          if ow_mode p \<noteq> ConfiguredProjects then a
          else update_prompt (\<lambda>_. OpenWorkspace (p\<lparr>ow_selected := step_selection delta
                 (length (open_workspace_matches_for h (pi_text (ow_input p)) projects)) (ow_selected p)\<rparr>)) a
      | _ \<Rightarrow> a)"

definition begin_open_workspace :: "host \<Rightarrow> configured_project list \<Rightarrow> app \<Rightarrow> app" where
  "begin_open_workspace h projects =
     set_prompt (OpenWorkspace
       \<lparr>ow_input = prompt_input_new
          (if projects \<noteq> [] then [] else case h_current_dir h of None \<Rightarrow> [] | Some path \<Rightarrow> path),
        ow_error = None, ow_selected = 0, ow_mode = (if projects \<noteq> [] then ConfiguredProjects else PathMode)\<rparr>)"

section \<open>Importing\<close>

text \<open>
  Both allocations are staged on a copy, so that running out of terminal numbers leaves no
  half-imported workspace.
\<close>

definition insert_workspace ::
    "host \<Rightarrow> ustring \<Rightarrow> ustring option \<Rightarrow> remote_target option \<Rightarrow> app \<Rightarrow> app" where
  "insert_workspace h name cwd remote a =
     (case (case remote of
              Some target \<Rightarrow> add_remote_workspace name target (ap_project a)
            | None \<Rightarrow> add_workspace name cwd (ap_project a)) of
        (Inl error, _) \<Rightarrow> set_open_workspace_error (allocation_message error) a
      | (Inr w, project) \<Rightarrow>
          (case add_terminal (h_urandom h) w (ascii ''shell'') project of
             (Inl error, _) \<Rightarrow> set_open_workspace_error (allocation_message error) a
           | (Inr None, _) \<Rightarrow> set_open_workspace_error (ascii ''new workspace disappeared during import'') a
           | (Inr (Some _), project) \<Rightarrow>
               mark_structural_change (clear_operation_error (snd (select_first_item_in_workspace w
                 (clear_prompt (a\<lparr>ap_project := project\<rparr>)))))))"

definition import_workspace_path :: "host \<Rightarrow> ustring \<Rightarrow> ustring option \<Rightarrow> app \<Rightarrow> app" where
  "import_workspace_path h path configured_name a =
     (case h_canonicalize h path of
        None \<Rightarrow> set_open_workspace_error (ascii ''path does not exist'') a
      | Some cwd \<Rightarrow>
          if \<not> h_is_dir h cwd then set_open_workspace_error (ascii ''path is not a directory'') a
          else
            (case find (\<lambda>w. case ws_cwd w of None \<Rightarrow> False | Some d \<Rightarrow> path_equal d cwd) (pj_workspaces (ap_project a)) of
               Some existing \<Rightarrow> snd (select_first_item_in_workspace (ws_id existing) (clear_prompt a))
             | None \<Rightarrow>
                 insert_workspace h
                   (case non_blank configured_name of Some name \<Rightarrow> name | None \<Rightarrow> workspace_name cwd) (Some cwd) None a))"

definition import_remote_workspace :: "host \<Rightarrow> ustring \<Rightarrow> ustring \<Rightarrow> ustring \<Rightarrow> app \<Rightarrow> app" where
  "import_remote_workspace h name destination path a =
     (case check_destination destination of
        Inl error \<Rightarrow> set_open_workspace_error (remote_error_message (h_debug h) error) a
      | Inr destination \<Rightarrow>
          let path = trim path in
          if path = [] then set_open_workspace_error (remote_error_message (h_debug h) EmptyPath) a
          else
            (case find (\<lambda>w. case ws_remote w of
                       None \<Rightarrow> False | Some target \<Rightarrow> rt_host target = destination \<and> rt_path target = path)
                     (pj_workspaces (ap_project a)) of
               Some existing \<Rightarrow> snd (select_first_item_in_workspace (ws_id existing) (clear_prompt a))
             | None \<Rightarrow>
                 let name = (if trim name = []
                       then (case find (\<lambda>part. part \<noteq> []) (rev (split_char SLASH path)) of None \<Rightarrow> path | Some part \<Rightarrow> part)
                       else trim name)
                 in insert_workspace h name None
                      (Some \<lparr>rt_host = destination, rt_path = path, rt_session = session_name name\<rparr>) a))"

definition submit_open_workspace :: "host \<Rightarrow> configured_project list \<Rightarrow> app \<Rightarrow> app" where
  "submit_open_workspace h projects a =
     (case prompt_of a of
        Some (OpenWorkspace p) \<Rightarrow>
          let raw_input = trim (pi_text (ow_input p)) in
          if ow_mode p = ConfiguredProjects then
            let matches = open_workspace_matches_for h raw_input projects in
            (case nth_option (min (ow_selected p) (length matches - 1)) matches of
               Some project \<Rightarrow>
                 (case om_remote project of
                    Some destination \<Rightarrow> import_remote_workspace h (om_name project) destination (om_path project) a
                  | None \<Rightarrow> import_workspace_path h (expand_path h (om_path project)) (Some (om_name project)) a)
             | None \<Rightarrow>
                 if raw_input = [] then set_open_workspace_error (ascii ''select a configured project'') a
                 else if \<not> looks_like_path raw_input then set_open_workspace_error (ascii ''no matching configured project'') a
                 else import_workspace_path h (expand_tilde h raw_input) None a)
          else if raw_input = [] then set_open_workspace_error (ascii ''enter a directory path'') a
          else import_workspace_path h (expand_tilde h raw_input) None a
      | _ \<Rightarrow> a)"

end
