(* ===== verification/App_Save.thy ===== *)
theory App_Save
  imports App_Open_Workspace
begin

text \<open>
  The save schedule (\<open>src/runtime/save.rs\<close>). A saver answers with an error message or with none; the last
  argument and result is the project in the state file, which a saver that succeeds replaces.
\<close>

definition MIN_CONTENT_SAVE_INTERVAL :: nat where "MIN_CONTENT_SAVE_INTERVAL = 10 ^ 9"

record save_schedule =
  ss_last_save :: "nat option"

definition is_due :: "nat \<Rightarrow> save_schedule \<Rightarrow> bool" where
  "is_due now s =
     (case ss_last_save s of None \<Rightarrow> True | Some t \<Rightarrow> MIN_CONTENT_SAVE_INTERVAL \<le> now - t)"

definition record_save :: "nat \<Rightarrow> save_schedule \<Rightarrow> save_schedule" where
  "record_save now s = s\<lparr>ss_last_save := Some now\<rparr>"

definition save_if_dirty_with ::
    "bool \<Rightarrow> ustring option \<Rightarrow> app \<times> project_state \<Rightarrow> bool \<times> app \<times> project_state" where
  "save_if_dirty_with force_retry answer st =
     (case st of (a, saved) \<Rightarrow>
        if \<not> ap_dirty a \<or> \<not> force_retry \<and> ap_save_error a \<noteq> None then (False, a, saved)
        else case answer of
          None \<Rightarrow> (True, mark_saved a, ap_project a)
        | Some error \<Rightarrow> (True, cancel_quit (record_save_failure error a), saved))"

definition save_content_if_due ::
    "nat \<Rightarrow> ustring option \<Rightarrow> save_schedule \<Rightarrow> app \<times> project_state \<Rightarrow> (bool \<times> app \<times> project_state) \<times> save_schedule" where
  "save_content_if_due now answer schedule st =
     (case st of (a, saved) \<Rightarrow>
        if \<not> ap_dirty a \<or> \<not> ap_structural_dirty a \<and> \<not> is_due now schedule then ((False, a, saved), schedule)
        else (save_if_dirty_with False answer (a, saved), record_save now schedule))"

end
