(* ===== verification/App_Steps.thy ===== *)
theory App_Steps
  imports App_Save Project_Invariant
begin

text \<open>
  What every operation of the application keeps: a valid project and a selection that names an item
  of the sidebar. The operations together are one step relation.
\<close>

definition selection_ok :: "app \<Rightarrow> bool" where
  "selection_ok a =
     (case ap_selected a of None \<Rightarrow> nav_items a = [] | Some item \<Rightarrow> item \<in> set (nav_items a))"

definition app_ok :: "app \<Rightarrow> bool" where
  "app_ok a \<longleftrightarrow> project_ok (ap_project a) \<and> selection_ok a"

text \<open>What has to be written at once when it changes: which workspaces, chats and terminals there are.\<close>

definition project_shape :: "project_state \<Rightarrow> workspace_id list \<times> chat_id list \<times> terminal_id list" where
  "project_shape p = (workspace_ids p, chat_ids p, terminal_ids p)"

section \<open>The sidebar\<close>

definition project_items :: "project_state \<Rightarrow> nav_item list" where
  "project_items p = concat (map workspace_items (pj_workspaces p))"

lemma map_filter_concat: "List.map_filter f (concat xss) = concat (map (List.map_filter f) xss)"
  by (induction xss) (simp_all add: List.map_filter_def)

lemma nav_items_project: "nav_items a = project_items (ap_project a)"
proof -
  let ?f = "\<lambda>row. case row of RowNav item \<Rightarrow> Some item | _ \<Rightarrow> None"
  have one: "List.map_filter ?f (workspace_rows i w) = workspace_items w" for i w
    by (simp add: workspace_rows_def List.map_filter_def comp_def)
  have "map (\<lambda>x. List.map_filter ?f (case x of (i, w) \<Rightarrow> workspace_rows i w)) (enumerate n ws) = map workspace_items ws" for n ws
    by (induction ws arbitrary: n) (simp_all add: one)
  then show ?thesis by (simp add: nav_items_def sidebar_rows_def project_items_def map_filter_concat comp_def)
qed

lemma position_None [simp]: "position P xs = None \<longleftrightarrow> (\<forall>x \<in> set xs. \<not> P x)"
  by (induction xs) auto

lemma position_eq: "position (\<lambda>x. x = y) xs = Some i \<longleftrightarrow> i < length xs \<and> xs ! i = y \<and> (\<forall>j<i. xs ! j \<noteq> y)"
proof (induction xs arbitrary: i)
  case (Cons x xs)
  show ?case by (cases i) (auto simp: Cons.IH nth_Cons split: nat.splits)
qed simp

lemma nth_option_Some: "nth_option i xs = Some x \<longleftrightarrow> i < length xs \<and> xs ! i = x"
  by (simp add: nth_option_def)

lemma nth_option_None: "nth_option i xs = None \<longleftrightarrow> length xs \<le> i"
  by (simp add: nth_option_def)

lemma nav_position: "nav_item_position item a \<noteq> None \<longleftrightarrow> item \<in> set (nav_items a)"
  by (auto simp: nav_item_position_def)

section \<open>Operations that touch only the surface\<close>

definition same_project :: "app \<Rightarrow> app \<Rightarrow> bool" where
  "same_project a b \<longleftrightarrow> ap_project b = ap_project a \<and> ap_selected b = ap_selected a \<and>
     (ap_dirty a \<longrightarrow> ap_dirty b) \<and> (ap_structural_dirty a \<longrightarrow> ap_structural_dirty b) \<and>
     ap_should_quit b = ap_should_quit a"

lemma same_project_refl [simp, intro]: "same_project a a"
  by (simp add: same_project_def)

lemma same_project_trans: "same_project a b \<Longrightarrow> same_project b c \<Longrightarrow> same_project a c"
  by (simp add: same_project_def)

lemma app_ok_same: "same_project a b \<Longrightarrow> app_ok b = app_ok a"
  by (simp add: app_ok_def selection_ok_def same_project_def nav_items_project split: option.split)

lemma fields_update_prompt [simp]:
  "ap_project (update_prompt f a) = ap_project a" "ap_selected (update_prompt f a) = ap_selected a"
  "ap_dirty (update_prompt f a) = ap_dirty a" "ap_structural_dirty (update_prompt f a) = ap_structural_dirty a"
  "ap_should_quit (update_prompt f a) = ap_should_quit a"
  by (simp_all add: update_prompt_def)

lemma fields_set_prompt [simp]:
  "ap_project (set_prompt p a) = ap_project a" "ap_selected (set_prompt p a) = ap_selected a"
  "ap_dirty (set_prompt p a) = ap_dirty a" "ap_structural_dirty (set_prompt p a) = ap_structural_dirty a"
  "ap_should_quit (set_prompt p a) = ap_should_quit a"
  by (simp_all add: set_prompt_def)

lemma fields_clear_prompt [simp]:
  "ap_project (clear_prompt a) = ap_project a" "ap_selected (clear_prompt a) = ap_selected a"
  "ap_dirty (clear_prompt a) = ap_dirty a" "ap_structural_dirty (clear_prompt a) = ap_structural_dirty a"
  "ap_should_quit (clear_prompt a) = ap_should_quit a"
  by (simp_all add: clear_prompt_def)

lemma fields_browse_focus [simp]:
  "ap_project (set_browse_focus f a) = ap_project a" "ap_selected (set_browse_focus f a) = ap_selected a"
  "ap_dirty (set_browse_focus f a) = ap_dirty a" "ap_structural_dirty (set_browse_focus f a) = ap_structural_dirty a"
  "ap_should_quit (set_browse_focus f a) = ap_should_quit a"
  by (simp_all add: set_browse_focus_def)

lemma fields_clear_operation_error [simp]:
  "ap_project (clear_operation_error a) = ap_project a" "ap_selected (clear_operation_error a) = ap_selected a"
  "ap_dirty (clear_operation_error a) = ap_dirty a" "ap_structural_dirty (clear_operation_error a) = ap_structural_dirty a"
  "ap_should_quit (clear_operation_error a) = ap_should_quit a"
  by (simp_all add: clear_operation_error_def)

lemma fields_push_notice [simp]:
  "ap_project (snd (push_notice h l s t a)) = ap_project a" "ap_selected (snd (push_notice h l s t a)) = ap_selected a"
  "ap_dirty (snd (push_notice h l s t a)) = ap_dirty a"
  "ap_structural_dirty (snd (push_notice h l s t a)) = ap_structural_dirty a"
  "ap_should_quit (snd (push_notice h l s t a)) = ap_should_quit a"
  by (simp_all add: push_notice_def push_notice_at_def split: prod.split)

lemma fields_push_sticky_notice [simp]:
  "ap_project (snd (push_sticky_notice l s t a)) = ap_project a"
  "ap_selected (snd (push_sticky_notice l s t a)) = ap_selected a"
  "ap_dirty (snd (push_sticky_notice l s t a)) = ap_dirty a"
  "ap_structural_dirty (snd (push_sticky_notice l s t a)) = ap_structural_dirty a"
  "ap_should_quit (snd (push_sticky_notice l s t a)) = ap_should_quit a"
  by (simp_all add: push_sticky_notice_def split: prod.split)

lemma fields_operation_failure [simp]:
  "ap_project (record_operation_failure h m a) = ap_project a" "ap_selected (record_operation_failure h m a) = ap_selected a"
  "ap_dirty (record_operation_failure h m a) = ap_dirty a"
  "ap_structural_dirty (record_operation_failure h m a) = ap_structural_dirty a"
  "ap_should_quit (record_operation_failure h m a) = ap_should_quit a"
  by (simp_all add: record_operation_failure_def)

lemma fields_buffer_append [simp]:
  "ap_project (buffer_append c r s a) = ap_project a" "ap_selected (buffer_append c r s a) = ap_selected a"
  "ap_dirty (buffer_append c r s a) = ap_dirty a" "ap_structural_dirty (buffer_append c r s a) = ap_structural_dirty a"
  "ap_should_quit (buffer_append c r s a) = ap_should_quit a"
  by (simp_all add: buffer_append_def)

lemma fields_set_errors [simp]:
  "ap_project (set_terminal_command_error m a) = ap_project a" "ap_project (set_open_workspace_error m a) = ap_project a"
  "ap_selected (set_terminal_command_error m a) = ap_selected a" "ap_selected (set_open_workspace_error m a) = ap_selected a"
  "ap_dirty (set_terminal_command_error m a) = ap_dirty a" "ap_dirty (set_open_workspace_error m a) = ap_dirty a"
  "ap_structural_dirty (set_terminal_command_error m a) = ap_structural_dirty a"
  "ap_should_quit (set_terminal_command_error m a) = ap_should_quit a"
  "ap_structural_dirty (set_open_workspace_error m a) = ap_structural_dirty a"
  "ap_should_quit (set_open_workspace_error m a) = ap_should_quit a"
  by (simp_all add: set_terminal_command_error_def set_open_workspace_error_def)

lemma fields_mark_structural_change [simp]:
  "ap_project (mark_structural_change a) = ap_project a" "ap_selected (mark_structural_change a) = ap_selected a"
  "ap_dirty (mark_structural_change a)" "ap_structural_dirty (mark_structural_change a)"
  "ap_should_quit (mark_structural_change a) = ap_should_quit a"
  by (simp_all add: mark_structural_change_def)


section \<open>What a step keeps\<close>

text \<open>
  Validity of the project, that a project that changed is marked for saving and one whose shape changed
  for saving at once, that no mark is lost and nobody quits; then also the selection.
\<close>

definition project_keeps :: "app \<Rightarrow> app \<Rightarrow> bool" where
  "project_keeps a b \<longleftrightarrow> (project_ok (ap_project a) \<longrightarrow> project_ok (ap_project b)) \<and>
     (ap_project b = ap_project a \<or> ap_dirty b) \<and>
     (project_shape (ap_project b) = project_shape (ap_project a) \<or> ap_structural_dirty b) \<and>
     (ap_dirty a \<longrightarrow> ap_dirty b) \<and> (ap_structural_dirty a \<longrightarrow> ap_structural_dirty b) \<and>
     ap_should_quit b = ap_should_quit a"

definition keeps :: "app \<Rightarrow> app \<Rightarrow> bool" where
  "keeps a b \<longleftrightarrow> project_keeps a b \<and> (selection_ok a \<longrightarrow> selection_ok b)"

lemma project_keeps_trans: "project_keeps a b \<Longrightarrow> project_keeps b c \<Longrightarrow> project_keeps a c"
  unfolding project_keeps_def by (elim conjE) (intro conjI; metis)

lemma project_keeps_same: "same_project a b \<Longrightarrow> project_keeps a b"
  by (simp add: same_project_def project_keeps_def)

lemma keeps_same: "same_project a b \<Longrightarrow> keeps a b"
  using app_ok_same unfolding keeps_def same_project_def selection_ok_def
  by (auto simp: project_keeps_def nav_items_project split: option.split)

lemma keeps_trans: "keeps a b \<Longrightarrow> keeps b c \<Longrightarrow> keeps a c"
  unfolding keeps_def using project_keeps_trans by blast

lemma keeps_app_ok: "keeps a b \<Longrightarrow> app_ok a \<Longrightarrow> app_ok b"
  by (auto simp: keeps_def project_keeps_def app_ok_def)

lemma project_keeps_structural:
  assumes "project_ok (ap_project a) \<Longrightarrow> project_ok (ap_project b)" and "ap_should_quit b = ap_should_quit a"
  shows "project_keeps a (mark_structural_change b)"
  using assms by (simp add: project_keeps_def)

lemma selection_ok_mark [simp]: "selection_ok (mark_structural_change a) = selection_ok a"
  "selection_ok (clear_operation_error a) = selection_ok a"
  "selection_ok (set_browse_focus f a) = selection_ok a" "selection_ok (clear_prompt a) = selection_ok a"
  by (simp_all add: selection_ok_def nav_items_project split: option.split)

section \<open>Moving the selection\<close>

lemma map_update_first_same: "(\<And>x. x \<in> set xs \<Longrightarrow> P x \<Longrightarrow> g (f x) = g x) \<Longrightarrow> map g (update_first P f xs) = map g xs"
  by (induction xs) auto

lemma project_items_update_chat:
  assumes "\<And>c. ct_id (f c) = ct_id c"
  shows "project_items (update_chat wid cid f p) = project_items p"
proof -
  have "map workspace_items (pj_workspaces (update_chat wid cid f p)) = map workspace_items (pj_workspaces p)"
    by (auto simp: update_chat_def update_workspace_def workspace_items_def assms
        map_update_first_same [where f = f and g = "\<lambda>c. NavChat _ (ct_id c)"] intro!: map_update_first_same)
  then show ?thesis by (simp add: project_items_def)
qed

lemma project_shape_update_chat:
  assumes "\<And>c. ct_id (f c) = ct_id c"
  shows "project_shape (update_chat wid cid f p) = project_shape p"
  by (simp add: project_shape_def update_chat_same [OF assms])

lemma keeps_mark_done_seen: "keeps a (mark_selected_done_seen a)"
proof -
  have "project_keeps a (a\<lparr>ap_project := update_chat w c (\<lambda>s. s\<lparr>ct_status := DoneSeen\<rparr>) (ap_project a), ap_dirty := True\<rparr>)" for w c
    by (simp add: project_keeps_def project_shape_update_chat update_chat_ok)
  moreover have "selection_ok a \<Longrightarrow>
      selection_ok (a\<lparr>ap_project := update_chat w c (\<lambda>s. s\<lparr>ct_status := DoneSeen\<rparr>) (ap_project a), ap_dirty := True\<rparr>)" for w c
    by (simp add: selection_ok_def nav_items_project project_items_update_chat split: option.splits)
  ultimately show ?thesis
    by (auto simp: mark_selected_done_seen_def keeps_def intro: project_keeps_same split: option.splits)
qed

lemma keeps_sync_focus: "keeps a (sync_focus_to_selection a)"
  unfolding sync_focus_to_selection_def
  by (rule keeps_trans [OF keeps_same keeps_mark_done_seen]) (simp add: same_project_def)

lemma reconcile_project [simp]:
  "ap_project (reconcile_selection i a) = ap_project a" "ap_dirty (reconcile_selection i a) = ap_dirty a"
  "ap_structural_dirty (reconcile_selection i a) = ap_structural_dirty a"
  "ap_should_quit (reconcile_selection i a) = ap_should_quit a"
  by (simp_all add: reconcile_selection_def split: option.split)

lemma selection_ok_nth:
  "i < nav_len a \<Longrightarrow> selection_ok (a\<lparr>ap_selected := nav_item_at i a\<rparr>)"
  by (auto simp: selection_ok_def nav_item_at_def nth_option_def nav_items_project nav_len_def)

lemma selection_ok_reconcile: "selection_ok (reconcile_selection i a)"
proof (cases "nav_len a = 0")
  case True
  then show ?thesis by (simp add: reconcile_selection_def selection_ok_def nav_len_def nav_items_project)
next
  case False
  have "selection_ok (a\<lparr>ap_selected := nav_item_at (min k (nav_len a - 1)) a\<rparr>)" for k
    using False by (intro selection_ok_nth) auto
  moreover have "nav_item_position item a \<noteq> None \<Longrightarrow> ap_selected a = Some item \<Longrightarrow> selection_ok a" for item
    using nav_position [of item a] by (auto simp: selection_ok_def)
  ultimately show ?thesis using False
    by (simp add: reconcile_selection_def split: option.split)
qed

lemma project_keeps_reconcile: "project_keeps a (reconcile_selection i a)"
  by (simp add: project_keeps_def)

lemma project_keeps_keeps: "keeps a b \<Longrightarrow> project_keeps a b"
  by (simp add: keeps_def)

lemma selected_exists: "nav_item_position t b \<noteq> None \<Longrightarrow> selection_ok (b\<lparr>ap_selected := Some t\<rparr>)"
  unfolding nav_position by (simp add: selection_ok_def nav_items_project)

lemma select_item_keeps: "project_keeps a (select_item t a)" "selection_ok (select_item t a)"
proof -
  let ?b = "if nav_item_position t a \<noteq> None then a\<lparr>ap_selected := Some t\<rparr> else reconcile_selection (selected_index a) a"
  have b: "project_keeps a ?b" "selection_ok ?b"
    using selected_exists selection_ok_reconcile by (auto simp: project_keeps_def)
  then show "project_keeps a (select_item t a)" "selection_ok (select_item t a)"
    unfolding select_item_def using keeps_sync_focus [of ?b] project_keeps_trans unfolding keeps_def by blast+
qed

lemma keeps_select_item: "keeps a (select_item t a)"
  using select_item_keeps by (simp add: keeps_def)

lemma keeps_select_at: "i < nav_len a \<Longrightarrow> keeps a (sync_focus_to_selection (a\<lparr>ap_selected := nav_item_at i a\<rparr>))"
  by (rule keeps_trans [OF _ keeps_sync_focus]) (simp add: keeps_def project_keeps_def selection_ok_nth)

lemma keeps_select_next: "keeps a (select_next a)"
  unfolding select_next_def Let_def
  by (cases "selected_index a") (auto intro: keeps_select_at keeps_same)

lemma selected_index_less: "selected_index a = Some i \<Longrightarrow> i < nav_len a"
  by (auto simp: selected_index_def nav_item_position_def nav_len_def position_eq bind_eq_Some_conv)

lemma keeps_select_previous: "keeps a (select_previous a)"
proof (cases "0 < nav_len a")
  case True
  have "(case selected_index a of None \<Rightarrow> nav_len a - 1 | Some i \<Rightarrow> if i = 0 then nav_len a - 1 else i - 1) < nav_len a"
    using True selected_index_less by (fastforce split: option.split)
  then show ?thesis using keeps_select_at True by (simp add: select_previous_def Let_def)
qed (auto simp: select_previous_def intro: keeps_same)

lemma keeps_select_nav_index: "keeps a (select_nav_index i a)"
  by (auto simp: select_nav_index_def keeps_select_item intro: keeps_same split: option.split)

lemma keeps_reconcile_sync: "keeps a (sync_focus_to_selection (reconcile_selection i a))"
  by (rule keeps_trans [OF _ keeps_sync_focus])
    (simp add: keeps_def project_keeps_reconcile selection_ok_reconcile)

lemma keeps_select_first: "keeps a (snd (select_first_item_in_workspace w a))"
  by (auto simp: select_first_item_in_workspace_def keeps_select_item keeps_reconcile_sync split: option.split)


section \<open>Adding and deleting\<close>

lemma allocation_failed:
  "allocate_workspace_id p = (Inl e, p') \<Longrightarrow> p' = p" "allocate_chat_id p = (Inl e, p') \<Longrightarrow> p' = p"
  "allocate_terminal_id p = (Inl e, p') \<Longrightarrow> p' = p"
  by (auto simp: allocate_workspace_id_def allocate_chat_id_def allocate_terminal_id_def split: option.splits)

lemma add_chat_outcome:
  assumes "add_chat u w name status agent p = (r, p')"
  shows "(\<exists>c. r = Inr (Some c)) \<or> p' = p" and "r = Inr (Some c) \<Longrightarrow> project_ok p \<Longrightarrow> project_ok p'"
proof -
  have "p'' = p" if "add_chat_with_source w name status agent source p = (r, p'')" "\<forall>c. r \<noteq> Inr (Some c)" for source p''
    using that allocation_failed(2)
    by (fastforce simp: add_chat_with_source_def Let_def split: option.splits sum.splits prod.splits)
  then show "(\<exists>c. r = Inr (Some c)) \<or> p' = p"
    using assms by (auto simp: add_chat_def split: sum.splits)
  show "r = Inr (Some c) \<Longrightarrow> project_ok p \<Longrightarrow> project_ok p'"
    using assms add_chat_ok by (auto simp: add_chat_def split: sum.splits)
qed

lemma add_launch_outcome:
  assumes "add_terminal_with_launch u w name launch p = (r, p')"
  shows "(\<exists>c. r = Inr (Some c)) \<or> p' = p" and "r = Inr (Some c) \<Longrightarrow> project_ok p \<Longrightarrow> project_ok p'"
proof -
  have "p'' = p" if "add_terminal_with_source w name launch source p = (r, p'', source')" "\<forall>c. r \<noteq> Inr (Some c)"
    for source p'' source'
    using that allocation_failed(3)
    by (fastforce simp: add_terminal_with_source_def Let_def split: option.splits sum.splits prod.splits)
  then show "(\<exists>c. r = Inr (Some c)) \<or> p' = p"
    using assms by (auto simp: add_terminal_with_launch_def split: sum.splits prod.splits) blast
  show "r = Inr (Some c) \<Longrightarrow> project_ok p \<Longrightarrow> project_ok p'"
    using assms add_terminal_ok by (auto simp: add_terminal_with_launch_def split: sum.splits prod.splits)
qed

text \<open>An item chosen after a structural change, whatever the project became.\<close>

lemma keeps_structural_select:
  assumes "project_ok (ap_project a) \<Longrightarrow> project_ok (ap_project b)" and "ap_should_quit b = ap_should_quit a"
  shows "keeps a (mark_structural_change (clear_operation_error (select_item t b)))"
proof -
  have "project_ok (ap_project b) \<longrightarrow> project_ok (ap_project (select_item t b))"
      "ap_should_quit (select_item t b) = ap_should_quit b"
    using select_item_keeps(1) [of b t] by (simp_all add: project_keeps_def)
  then show ?thesis
    using assms select_item_keeps(2) by (simp add: keeps_def project_keeps_structural)
qed

lemma keeps_select_clear: "keeps a (clear_operation_error (select_item t a))"
  by (rule keeps_trans [OF keeps_select_item [of a t] keeps_same]) (simp add: same_project_def)

lemma keeps_failure: "keeps a (record_operation_failure h m a)"
  by (rule keeps_same) (simp add: same_project_def)

lemma update_project_same [simp]: "a\<lparr>ap_project := ap_project a\<rparr> = a"
  by simp

lemma keeps_add_chat: "keeps a (snd (add_chat_to_selected_workspace_and_return h agent a))"
proof (cases "selected_workspace_id a")
  case (Some w)
  show ?thesis
  proof (cases "only_remote_chat w a")
    case None
    obtain r p where add: "add_chat (h_urandom h) w DEFAULT_AGENT_CHAT_TITLE Idle agent (ap_project a) = (r, p)" by fastforce
    have "(\<exists>c. r = Inr (Some c)) \<or> p = ap_project a" by (rule add_chat_outcome(1) [OF add])
    moreover have "project_ok (ap_project a) \<Longrightarrow> project_ok p" if "r = Inr (Some c)" for c
      using add_chat_outcome(2) [OF add that] .
    ultimately show ?thesis
      by (cases r) (auto simp: add_chat_to_selected_workspace_and_return_def Some None add keeps_failure
          intro: keeps_structural_select split: option.split)
  qed (simp add: add_chat_to_selected_workspace_and_return_def Some keeps_select_clear)
qed (simp add: add_chat_to_selected_workspace_and_return_def keeps_same)

lemma keeps_select_added:
  "keeps a (snd (select_added_terminal h w a (add_terminal_with_launch u w' name launch (ap_project a))))"
proof -
  obtain r p where add: "add_terminal_with_launch u w' name launch (ap_project a) = (r, p)" by fastforce
  have "(\<exists>c. r = Inr (Some c)) \<or> p = ap_project a" by (rule add_launch_outcome(1) [OF add])
  moreover have "project_ok (ap_project a) \<Longrightarrow> project_ok p" if "r = Inr (Some c)" for c
    using add_launch_outcome(2) [OF add that] .
  ultimately show ?thesis
    by (cases r) (auto simp: select_added_terminal_def add keeps_failure intro: keeps_structural_select split: option.split)
qed

lemma keeps_add_terminal: "keeps a (add_terminal_to_selected_workspace h a)"
  by (simp add: add_terminal_to_selected_workspace_def add_terminal_def keeps_select_added keeps_same split: option.split)

lemma keeps_open_tool: "keeps a (snd (open_tool_in_selected_workspace h command missing a))"
  by (simp add: open_tool_in_selected_workspace_def add_command_terminal_def keeps_select_added keeps_same keeps_failure
      keeps_select_clear Let_def split: option.split)

lemma keeps_open_sftp: "keeps a (snd (open_sftp_in_selected_workspace h target a))"
  by (simp add: open_sftp_in_selected_workspace_def add_command_terminal_def keeps_select_added keeps_same keeps_failure
      keeps_select_clear Let_def split: option.split)

lemma remove_ok:
  "remove_workspace w p = (Some x, p') \<Longrightarrow> project_ok p \<Longrightarrow> project_ok p'"
  "remove_chat w c p = (Some y, p') \<Longrightarrow> project_ok p \<Longrightarrow> project_ok p'"
  "remove_terminal w t p = (Some z, p') \<Longrightarrow> project_ok p \<Longrightarrow> project_ok p'"
  "remove_workspace w p = (None, p') \<Longrightarrow> p' = p" "remove_chat w c p = (None, p') \<Longrightarrow> p' = p"
  "remove_terminal w t p = (None, p') \<Longrightarrow> p' = p"
  using remove_workspace_ok remove_chat_ok remove_terminal_ok
  by (blast, blast, blast) (auto simp: remove_workspace_def remove_chat_def remove_terminal_def split: option.splits)

lemma project_keeps_removed:
  assumes "project_ok (ap_project a) \<Longrightarrow> project_ok p"
  shows "project_keeps a (mark_structural_change (a\<lparr>ap_project := p, ap_branches := bs\<rparr>))"
    "project_keeps a (mark_structural_change (a\<lparr>ap_project := p, ap_chat_buffers := cs\<rparr>))"
    "project_keeps a (mark_structural_change (a\<lparr>ap_project := p, ap_recoverable := ts\<rparr>))"
  using assms by (simp_all add: project_keeps_structural)

lemma project_keeps_remove_workspace: "project_keeps a (remove_workspace_if_empty w a)"
proof -
  obtain r p where r: "remove_workspace w (ap_project a) = (r, p)" by fastforce
  show ?thesis
  proof (cases r)
    case None
    then show ?thesis using remove_ok(4) r
      by (fastforce simp: remove_workspace_if_empty_def intro: project_keeps_same split: option.split)
  next
    case (Some x)
    then have "project_ok (ap_project a) \<Longrightarrow> project_ok p" using remove_ok(1) r by blast
    then show ?thesis
      by (simp add: remove_workspace_if_empty_def r Some project_keeps_removed project_keeps_same split: option.split)
  qed
qed

lemma project_keeps_delete_item: "project_keeps a (snd (delete_item target a))"
proof (cases target)
  case (DeleteChat w c)
  obtain r p where r: "remove_chat w c (ap_project a) = (r, p)" by fastforce
  show ?thesis
  proof (cases r)
    case None
    then have "p = ap_project a" using remove_ok(5) r by blast
    then show ?thesis using None r by (simp add: delete_item_def DeleteChat project_keeps_same)
  next
    case (Some x)
    then have "project_ok (ap_project a) \<Longrightarrow> project_ok p" using remove_ok(2) r by blast
    from project_keeps_trans [OF project_keeps_removed(2) [OF this] project_keeps_remove_workspace]
    show ?thesis by (simp add: delete_item_def DeleteChat r Some)
  qed
next
  case (DeleteTerminal w t)
  obtain r p where r: "remove_terminal w t (ap_project a) = (r, p)" by fastforce
  show ?thesis
  proof (cases r)
    case None
    then have "p = ap_project a" using remove_ok(6) r by blast
    then show ?thesis using None r by (simp add: delete_item_def DeleteTerminal project_keeps_same)
  next
    case (Some x)
    then have "project_ok (ap_project a) \<Longrightarrow> project_ok p" using remove_ok(3) r by blast
    from project_keeps_trans [OF project_keeps_removed(3) [OF this] project_keeps_remove_workspace]
    show ?thesis by (simp add: delete_item_def DeleteTerminal r Some)
  qed
qed (simp add: delete_item_def project_keeps_remove_workspace)

lemma keeps_delete_target: "keeps a (snd (delete_target target a))"
proof -
  obtain keys b where d: "delete_item target a = (keys, b)" by fastforce
  have "project_keeps a (reconcile_selection (selected_index a) b)"
    using project_keeps_trans [OF project_keeps_delete_item [of a target] project_keeps_reconcile] by (simp add: d)
  then have "keeps a (reconcile_selection (selected_index a) b)"
    by (simp add: keeps_def selection_ok_reconcile)
  then show ?thesis
    using keeps_trans [OF _ keeps_sync_focus] by (simp add: delete_target_def d)
qed

lemma keeps_remove_finished: "keeps a (snd (remove_finished_terminal t a))"
  by (simp add: remove_finished_terminal_def keeps_delete_target keeps_same split: option.split)


section \<open>Sessions edited in place\<close>

text \<open>A project whose workspaces changed but not their numbers.\<close>

lemma keeps_edit:
  assumes "project_shape p = project_shape (ap_project a)" and "project_items p = project_items (ap_project a)"
    and "pj_identities p = pj_identities (ap_project a)" "pj_namespace p = pj_namespace (ap_project a)"
    and "pj_generations p = pj_generations (ap_project a)"
    and b: "ap_project b = p" "ap_selected b = ap_selected a" "ap_dirty b"
      "ap_structural_dirty a \<Longrightarrow> ap_structural_dirty b" "ap_should_quit b = ap_should_quit a"
  shows "keeps a b"
proof -
  have ids: "workspace_ids p = workspace_ids (ap_project a)" "chat_ids p = chat_ids (ap_project a)"
      "terminal_ids p = terminal_ids (ap_project a)" using assms(1) by (simp_all add: project_shape_def)
  have "project_ok p" if "project_ok (ap_project a)"
  proof (rule ok_cong [OF that])
    show "generations_ok p" using that ids assms(5) by (simp add: project_ok_iff generations_ok_def)
    show "session_identity_of k p = session_identity_of k (ap_project a)" for k
      using assms(3,4) by (simp add: session_identity_of_def split: pty_key.split)
  qed (use ids in simp_all)
  then show ?thesis
    using assms by (simp add: keeps_def project_keeps_def selection_ok_def nav_items_project split: option.split)
qed

lemma project_views:
  "workspace_ids p = map ws_id (pj_workspaces p)"
  "chat_ids p = concat (map (\<lambda>w. map ct_id (ws_chats w)) (pj_workspaces p))"
  "terminal_ids p = concat (map (\<lambda>w. map tm_id (ws_terminals w)) (pj_workspaces p))"
  by (simp_all add: workspace_ids_def chat_ids_def terminal_ids_def)

lemma update_first_chat_same:
  assumes "\<And>c. ct_id (f c) = ct_id c"
  shows "map (\<lambda>w. (ws_id w, map ct_id (ws_chats w), map tm_id (ws_terminals w))) (update_first_chat c f ws) =
    map (\<lambda>w. (ws_id w, map ct_id (ws_chats w), map tm_id (ws_terminals w))) ws"
  by (induction ws) (simp_all add: map_update_first_same assms)

lemma update_first_terminal_same:
  assumes "\<And>t. tm_id (f t) = tm_id t"
  shows "map (\<lambda>w. (ws_id w, map ct_id (ws_chats w), map tm_id (ws_terminals w))) (update_first_terminal t f ws) =
    map (\<lambda>w. (ws_id w, map ct_id (ws_chats w), map tm_id (ws_terminals w))) ws"
  by (induction ws) (simp_all add: map_update_first_same assms)

lemma same_ids_views:
  assumes "map (\<lambda>w. (ws_id w, map ct_id (ws_chats w), map tm_id (ws_terminals w))) ws =
    map (\<lambda>w. (ws_id w, map ct_id (ws_chats w), map tm_id (ws_terminals w))) (pj_workspaces p)"
  shows "project_shape (p\<lparr>pj_workspaces := ws\<rparr>) = project_shape p"
    "project_items (p\<lparr>pj_workspaces := ws\<rparr>) = project_items p"
proof -
  let ?v = "\<lambda>w. (ws_id w, map ct_id (ws_chats w), map tm_id (ws_terminals w))"
  have via: "map g ws = map g (pj_workspaces p)" if "\<And>w. g w = h (?v w)" for g :: "workspace \<Rightarrow> 'b" and h
  proof -
    have g: "g = h \<circ> ?v" by (simp add: fun_eq_iff that)
    show ?thesis using arg_cong [OF assms, of "map h"] by (simp add: g)
  qed
  have "map workspace_items ws = map workspace_items (pj_workspaces p)"
    by (rule via [of _ "\<lambda>(w, cs, ts). map (NavChat w) cs @ map (NavTerminal w) ts"]) (simp add: workspace_items_def comp_def)
  then show "project_items (p\<lparr>pj_workspaces := ws\<rparr>) = project_items p" by (simp add: project_items_def)
  have "map ws_id ws = map ws_id (pj_workspaces p)" by (rule via [of _ fst]) simp
  moreover have "map (\<lambda>w. map ct_id (ws_chats w)) ws = map (\<lambda>w. map ct_id (ws_chats w)) (pj_workspaces p)"
    by (rule via [of _ "fst \<circ> snd"]) simp
  moreover have "map (\<lambda>w. map tm_id (ws_terminals w)) ws = map (\<lambda>w. map tm_id (ws_terminals w)) (pj_workspaces p)"
    by (rule via [of _ "snd \<circ> snd"]) simp
  ultimately show "project_shape (p\<lparr>pj_workspaces := ws\<rparr>) = project_shape p"
    unfolding project_shape_def project_views by simp
qed

lemma keeps_chat_status: "keeps a (snd (mark_chat_status_by_id c status a))"
proof -
  have "keeps a (a\<lparr>ap_project := (ap_project a)\<lparr>pj_workspaces :=
      update_first_chat c (\<lambda>c. c\<lparr>ct_status := st\<rparr>) (pj_workspaces (ap_project a))\<rparr>, ap_dirty := True\<rparr>)" for st
    by (rule keeps_edit) (simp_all add: same_ids_views update_first_chat_same)
  then show ?thesis by (simp add: mark_chat_status_by_id_def Let_def keeps_same split: option.split)
qed

lemma keeps_restore_intent: "keeps a (set_terminal_restore_intent t restore a)"
proof -
  have "keeps a (a\<lparr>ap_project := update_terminal_by_id t (\<lambda>t. t\<lparr>tm_restore_on_launch := restore\<rparr>) (ap_project a), ap_dirty := True\<rparr>)"
    by (rule keeps_edit) (simp_all add: update_terminal_by_id_def same_ids_views update_first_terminal_same)
  then show ?thesis by (simp add: set_terminal_restore_intent_def keeps_same split: option.split)
qed

lemma keeps_terminal_started: "keeps a (record_terminal_started t a)"
  unfolding record_terminal_started_def
  by (rule keeps_trans [OF keeps_same keeps_restore_intent]) (simp add: same_project_def)

lemma keeps_terminal_stopped: "keeps a (record_terminal_stopped t a)"
  by (simp add: record_terminal_stopped_def keeps_restore_intent)

lemma keeps_recoverable: "keeps a (mark_terminal_recoverable t a)"
  by (rule keeps_same) (simp add: mark_terminal_recoverable_def same_project_def split: option.split)

lemma update_first_found: "find P xs = Some x \<Longrightarrow> f x = x \<Longrightarrow> update_first P f xs = xs"
  by (induction xs) (auto split: if_splits)

lemma update_chat_found:
  assumes "find_chat w c p = Some s" and "f s = s"
  shows "update_chat w c f p = p"
proof -
  obtain ws where ws: "find (\<lambda>x. ws_id x = w) (pj_workspaces p) = Some ws" "find (\<lambda>x. ct_id x = c) (ws_chats ws) = Some s"
    using assms(1) by (auto simp: find_chat_def find_workspace_def bind_eq_Some_conv split: option.splits)
  show ?thesis
    using update_first_found [OF ws(2), of f] assms(2)
    by (simp add: update_chat_def update_workspace_def update_first_found [OF ws(1)])
qed

lemma push_unchanged: "push_capped_message_text s t = (False, s') \<Longrightarrow> s' = s"
  by (auto simp: push_capped_message_text_def Let_def split: if_splits)

text \<open>A message that arrives either changes nothing or edits one chat.\<close>

lemma message_edits:
  assumes "append_chat_message w c role s p = (changed, p') \<or> append_chat_delta w c role s p = (changed, p')"
  shows "\<not> changed \<and> p' = p \<or> (\<exists>f. changed \<and> p' = update_chat w c f p \<and> (\<forall>c. ct_id (f c) = ct_id c))"
  using assms
proof
  assume "append_chat_message w c role s p = (changed, p')"
  then show ?thesis
    by (auto simp: append_chat_message_def split: if_splits intro!: exI [of _ "\<lambda>c. c\<lparr>ct_messages := ct_messages c @ _\<rparr>"])
next
  assume d: "append_chat_delta w c role s p = (changed, p')"
  show ?thesis
  proof (cases "s = [] \<or> find_chat w c p = None")
    case False
    then obtain x where x: "find_chat w c p = Some x" "s \<noteq> []" by auto
    show ?thesis
    proof (cases "ct_messages x \<noteq> [] \<and> cm_role (last (ct_messages x)) = role")
      case True
      obtain ch t where t: "push_capped_message_text (cm_text (last (ct_messages x))) s = (ch, t)" by fastforce
      let ?f = "\<lambda>c. c\<lparr>ct_messages := butlast (ct_messages c) @ [(last (ct_messages c))\<lparr>cm_text := t\<rparr>]\<rparr>"
      have r: "changed = ch" "p' = update_chat w c ?f p"
        using d x True t by (simp_all add: append_chat_delta_def)
      have "?f x = x" if "\<not> ch"
      proof -
        have "t = cm_text (last (ct_messages x))" using t that push_unchanged by (cases ch) auto
        then show ?thesis using True by simp
      qed
      then show ?thesis using r update_chat_found [OF x(1), of ?f] by (cases ch) (auto intro: exI [of _ ?f])
    next
      case no: False
      then show ?thesis using d x
        by (auto simp: append_chat_delta_def split: if_splits intro!: exI [of _ "\<lambda>c. c\<lparr>ct_messages := ct_messages c @ _\<rparr>"])
    qed
  qed (use d in \<open>auto simp: append_chat_delta_def split: option.splits\<close>)
qed

lemma keeps_message:
  assumes "append_chat_message w c role s (ap_project a) = (changed, p) \<or> append_chat_delta w c role s (ap_project a) = (changed, p)"
  shows "keeps a (a\<lparr>ap_project := p, ap_dirty := ap_dirty a \<or> changed\<rparr>)"
  using message_edits [OF assms]
proof
  assume "\<not> changed \<and> p = ap_project a"
  then show ?thesis by (simp add: keeps_same)
next
  assume "\<exists>f. changed \<and> p = update_chat w c f (ap_project a) \<and> (\<forall>c. ct_id (f c) = ct_id c)"
  then obtain f where f: "changed" "p = update_chat w c f (ap_project a)" "\<And>c. ct_id (f c) = ct_id c" by blast
  show ?thesis
    by (rule keeps_edit) (simp_all add: f project_shape_update_chat project_items_update_chat update_chat_same(4),
        simp_all add: update_chat_def update_workspace_def)
qed

lemma keeps_append_message: "keeps a (app_append_chat_message target role s a)"
proof -
  let ?b = "buffer_append (at_chat target) role (s @ [10]) a"
  obtain changed p where m: "append_chat_message (at_workspace target) (at_chat target) role s (ap_project ?b) = (changed, p)"
    by fastforce
  show ?thesis
    unfolding app_append_chat_message_def Let_def m prod.case
    using keeps_trans [OF keeps_same keeps_message [OF disjI1 [OF m]]] by (simp add: same_project_def)
qed

lemma keeps_agent_event: "keeps a (apply_agent_event e a)"
proof (cases e)
  case (MessageDelta target role s)
  let ?b = "buffer_append (at_chat target) (chat_role_from_agent role) s a"
  obtain changed p where m: "append_chat_delta (at_workspace target) (at_chat target) (chat_role_from_agent role) s (ap_project ?b) = (changed, p)"
    by fastforce
  show ?thesis
    unfolding MessageDelta apply_agent_event.simps Let_def m prod.case
    using keeps_trans [OF keeps_same keeps_message [OF disjI2 [OF m]]] by (simp add: same_project_def)
next
  case (AgentError target message)
  then show ?thesis using keeps_trans [OF keeps_chat_status keeps_append_message] by simp
qed (simp_all add: keeps_append_message keeps_chat_status)

section \<open>Generations\<close>

lemma begin_generation_outcome:
  assumes "begin_agent_generation u c p = (r, p')"
  shows "(\<exists>g. r = Inr (Some g)) \<or> p' = p" and "r = Inr (Some g) \<Longrightarrow> project_ok p \<Longrightarrow> project_ok p'"
    and "pj_workspaces p' = pj_workspaces p"
proof -
  show "(\<exists>g. r = Inr (Some g)) \<or> p' = p" "pj_workspaces p' = pj_workspaces p"
    using assms by (auto simp: begin_agent_generation_def begin_agent_generation_with_source_def
        split: sum.splits if_splits prod.splits)
  show "r = Inr (Some g) \<Longrightarrow> project_ok p \<Longrightarrow> project_ok p'"
    using assms begin_generation_ok by (auto simp: begin_agent_generation_def split: sum.splits)
qed

lemma same_workspaces_views:
  assumes "pj_workspaces p = pj_workspaces q"
  shows "project_shape p = project_shape q" "project_items p = project_items q"
  using assms by (simp_all add: project_shape_def project_views project_items_def)

lemma keeps_same_workspaces:
  assumes "project_ok (ap_project a) \<Longrightarrow> project_ok p" and "pj_workspaces p = pj_workspaces (ap_project a)"
    and "p = ap_project a \<or> d" "ap_dirty a \<Longrightarrow> d"
  shows "keeps a (a\<lparr>ap_project := p, ap_dirty := d\<rparr>)"
  using assms same_workspaces_views [OF assms(2)]
  by (simp add: keeps_def project_keeps_def selection_ok_def nav_items_project split: option.split)

lemma keeps_begin_generation: "keeps a (snd (app_begin_agent_generation h c a))"
proof -
  obtain r p where r: "begin_agent_generation (h_urandom h) c (ap_project a) = (r, p)" by fastforce
  note o = begin_generation_outcome [OF r]
  show ?thesis
  proof (cases "\<exists>g. r = Inr (Some g)")
    case True
    then show ?thesis using o(2,3) by (auto simp: app_begin_agent_generation_def r intro!: keeps_same_workspaces)
  next
    case False
    then have "p = ap_project a" using o(1) by blast
    then show ?thesis using False
      by (cases r) (auto simp: app_begin_agent_generation_def r keeps_same split: option.split)
  qed
qed

lemma keeps_clear_generation: "keeps a (snd (app_clear_agent_generation c g a))"
proof -
  obtain changed p where r: "clear_agent_generation c g (ap_project a) = (changed, p)" by fastforce
  have "pj_workspaces p = pj_workspaces (ap_project a)" "p = ap_project a \<or> changed"
    using r by (auto simp: clear_agent_generation_def split: if_splits)
  moreover have "project_ok (ap_project a) \<Longrightarrow> project_ok p"
    using r calculation clear_generation_ok by (cases changed) auto
  ultimately show ?thesis
    by (simp add: app_clear_agent_generation_def r) (rule keeps_same_workspaces, auto)
qed

section \<open>Prompts\<close>

lemma keeps_submit_terminal_command: "keeps a (submit_new_terminal_command h a)"
proof -
  have err: "keeps a (set_terminal_command_error m a)" for m by (rule keeps_same) (simp add: same_project_def)
  have add: "keeps a (case add_terminal_with_launch u w name launch (ap_project a) of
      (Inr (Some t), p) \<Rightarrow> mark_structural_change (clear_operation_error (select_item (NavTerminal w t) (clear_prompt (a\<lparr>ap_project := p\<rparr>))))
    | (Inr None, p) \<Rightarrow> set_terminal_command_error m (a\<lparr>ap_project := p\<rparr>)
    | (Inl e, p) \<Rightarrow> set_terminal_command_error (allocation_message e) (a\<lparr>ap_project := p\<rparr>))" for u w name launch m
  proof -
    obtain r p where r: "add_terminal_with_launch u w name launch (ap_project a) = (r, p)" by fastforce
    show ?thesis
      using add_launch_outcome [OF r]
      by (cases r) (auto simp: r err intro: keeps_structural_select split: option.split)
  qed
  show ?thesis
    by (simp add: submit_new_terminal_command_def add_command_terminal_def Let_def err add keeps_same
        split: option.split prompt.split)
qed

lemma keeps_open_error: "keeps a (set_open_workspace_error m a)"
  by (rule keeps_same) (simp add: same_project_def)

lemma keeps_insert_workspace: "keeps a (insert_workspace h name cwd remote a)"
proof -
  obtain rem where added: "(case remote of Some target \<Rightarrow> add_remote_workspace name target (ap_project a)
      | None \<Rightarrow> add_workspace name cwd (ap_project a)) = push_workspace name (if remote = None then cwd else None) rem (ap_project a)"
    by (cases remote) (auto simp: add_remote_workspace_def add_workspace_def)
  obtain r p where r: "push_workspace name (if remote = None then cwd else None) rem (ap_project a) = (r, p)" by fastforce
  show ?thesis
  proof (cases r)
    case (Inr w)
    have p: "project_ok (ap_project a) \<Longrightarrow> project_ok p" using push_workspace_ok r Inr by blast
    obtain r' p' where r': "add_terminal_with_launch (h_urandom h) w (ascii ''shell'') TLShell p = (r', p')" by fastforce
    let ?b = "clear_prompt (a\<lparr>ap_project := p'\<rparr>)"
    have "keeps a (mark_structural_change (clear_operation_error (snd (select_first_item_in_workspace w ?b))))" if "r' = Inr (Some t)" for t
    proof -
      have ok: "project_ok (ap_project a) \<Longrightarrow> project_ok (ap_project ?b)" using add_launch_outcome(2) [OF r' that] p by simp
      have b: "keeps ?b (snd (select_first_item_in_workspace w ?b))" by (rule keeps_select_first)
      have "selection_ok (snd (select_first_item_in_workspace w ?b))"
        using selection_ok_reconcile select_item_keeps(2) keeps_sync_focus
        by (auto simp: select_first_item_in_workspace_def keeps_def split: option.split)
      then show ?thesis
        using ok b by (simp add: keeps_def project_keeps_structural project_keeps_def [of ?b])
    qed
    then show ?thesis
      by (cases r') (auto simp: insert_workspace_def added r Inr add_terminal_def r' keeps_open_error simp del: ascii_simps split: option.split)
  qed (simp add: insert_workspace_def added r keeps_open_error)
qed

lemma keeps_select_first_cleared: "keeps a (snd (select_first_item_in_workspace w (clear_prompt a)))"
  by (rule keeps_trans [OF keeps_same [of a "clear_prompt a"] keeps_select_first]) (simp add: same_project_def)

lemma keeps_import_path: "keeps a (import_workspace_path h path name a)"
  by (simp add: import_workspace_path_def keeps_open_error keeps_insert_workspace keeps_select_first_cleared split: option.split)

lemma keeps_import_remote: "keeps a (import_remote_workspace h name destination path a)"
  by (simp add: import_remote_workspace_def Let_def keeps_open_error keeps_insert_workspace keeps_select_first_cleared
      split: option.split sum.split)

lemma keeps_submit_open_workspace: "keeps a (submit_open_workspace h projects a)"
  by (simp add: submit_open_workspace_def Let_def keeps_open_error keeps_import_path keeps_import_remote keeps_same
      split: option.split prompt.split)


section \<open>A new application\<close>

lemma normalize_titles:
  assumes "normalize_agent_chat_titles p = (changed, p')"
  shows "project_shape p' = project_shape p" "project_items p' = project_items p"
    "pj_identities p' = pj_identities p" "pj_namespace p' = pj_namespace p" "pj_generations p' = pj_generations p"
    "\<not> changed \<Longrightarrow> p' = p"
proof -
  let ?f = "\<lambda>w. w\<lparr>ws_chats := map (\<lambda>c. c\<lparr>ct_name := DEFAULT_AGENT_CHAT_TITLE\<rparr>) (ws_chats w)\<rparr>"
  have p': "p' = p\<lparr>pj_workspaces := map ?f (pj_workspaces p)\<rparr>"
    using assms by (auto simp: normalize_agent_chat_titles_def)
  have same: "map (\<lambda>w. (ws_id w, map ct_id (ws_chats w), map tm_id (ws_terminals w))) (map ?f (pj_workspaces p)) =
      map (\<lambda>w. (ws_id w, map ct_id (ws_chats w), map tm_id (ws_terminals w))) (pj_workspaces p)"
    by (simp add: comp_def)
  show "project_shape p' = project_shape p" "project_items p' = project_items p"
    unfolding p' by (rule same_ids_views [OF same])+
  show "pj_identities p' = pj_identities p" "pj_namespace p' = pj_namespace p" "pj_generations p' = pj_generations p"
    by (simp_all add: p')
  assume "\<not> changed"
  then have t: "ct_name c = DEFAULT_AGENT_CHAT_TITLE" if "w \<in> set (pj_workspaces p)" "c \<in> set (ws_chats w)" for w c
    using assms that by (auto simp: normalize_agent_chat_titles_def)
  have "?f w = w" if "w \<in> set (pj_workspaces p)" for w
  proof -
    have "map (\<lambda>c. c\<lparr>ct_name := DEFAULT_AGENT_CHAT_TITLE\<rparr>) (ws_chats w) = ws_chats w"
    proof (rule map_idI)
      fix c assume "c \<in> set (ws_chats w)"
      from t [OF that this] show "c\<lparr>ct_name := DEFAULT_AGENT_CHAT_TITLE\<rparr> = c" by simp
    qed
    then show ?thesis by simp
  qed
  then have "map ?f (pj_workspaces p) = pj_workspaces p" by (intro map_idI) blast
  then show "p' = p" by (simp add: p')
qed

lemma app_new_ok:
  assumes "project_ok p"
  shows "app_ok (app_new p)" and "\<not> ap_dirty (app_new p) \<Longrightarrow> ap_project (app_new p) = p"
proof -
  obtain changed p' where n: "normalize_agent_chat_titles p = (changed, p')" by fastforce
  obtain a where new: "app_new p = sync_focus_to_selection (reconcile_selection None a)"
      and a: "ap_project a = p'" "ap_dirty a = changed"
    by (auto simp: app_new_def n Let_def)
  have ids: "workspace_ids p' = workspace_ids p" "chat_ids p' = chat_ids p" "terminal_ids p' = terminal_ids p"
    using normalize_titles(1) [OF n] by (simp_all add: project_shape_def)
  have "project_ok p'"
    using assms ids normalize_titles(3-5) [OF n]
    by (intro ok_cong [OF assms]) (auto simp: project_ok_iff generations_ok_def session_identity_of_def split: pty_key.split)
  then have "app_ok (reconcile_selection None a)" by (simp add: app_ok_def a selection_ok_reconcile)
  then show "app_ok (app_new p)" using keeps_app_ok [OF keeps_sync_focus] by (simp add: new)
  assume clean: "\<not> ap_dirty (app_new p)"
  have k: "project_keeps (reconcile_selection None a) (app_new p)" using keeps_sync_focus by (simp add: new keeps_def)
  then have "ap_project (app_new p) = p'" "\<not> changed" using clean a by (auto simp: project_keeps_def)
  then show "ap_project (app_new p) = p" using normalize_titles(6) [OF n] by simp
qed

end
