(* ===== verification/App_Runs.thy ===== *)
theory App_Runs
  imports App_Steps
begin

text \<open>
  The operations of the application as one step relation, and the turns of the client's loop
  (\<open>run\<close> in \<open>src/runtime/mod.rs\<close>) as sequences of them with the saves in between.
\<close>

inductive app_step :: "app \<Rightarrow> app \<Rightarrow> bool" where
  step_select_next: "app_step a (select_next a)"
| step_select_previous: "app_step a (select_previous a)"
| step_select_item: "app_step a (select_item item a)"
| step_select_nav_index: "app_step a (select_nav_index i a)"
| step_select_first_item: "app_step a (snd (select_first_item_in_workspace w a))"
| step_end_pty_input: "app_step a (end_pty_input a)"
| step_focus_sidebar: "app_step a (focus_sidebar a)"
| step_focus_selected_main: "app_step a (snd (focus_selected_main a))"
| step_begin_terminal_input: "app_step a (snd (begin_terminal_input a))"
| step_begin_chat_agent_input: "app_step a (snd (begin_chat_agent_input a))"
| step_delete_target: "app_step a (snd (delete_target target a))"
| step_remove_finished: "app_step a (snd (remove_finished_terminal t a))"
| step_terminal_started: "app_step a (record_terminal_started t a)"
| step_terminal_stopped: "app_step a (record_terminal_stopped t a)"
| step_recoverable: "app_step a (mark_terminal_recoverable t a)"
| step_begin_generation: "app_step a (snd (app_begin_agent_generation h c a))"
| step_clear_generation: "app_step a (snd (app_clear_agent_generation c g a))"
| step_chat_status: "app_step a (snd (mark_chat_status_by_id c status a))"
| step_add_chat: "app_step a (snd (add_chat_to_selected_workspace_and_return h agent a))"
| step_add_terminal: "app_step a (add_terminal_to_selected_workspace h a)"
| step_open_file_manager: "app_step a (snd (open_file_manager_in_selected_workspace h command a))"
| step_open_editor: "app_step a (snd (open_editor_in_selected_workspace h command a))"
| step_open_sftp: "app_step a (snd (open_sftp_in_selected_workspace h sftp a))"
| step_begin_open_workspace: "app_step a (begin_open_workspace h projects a)"
| step_move_open_workspace: "app_step a (move_open_workspace_selection h delta projects a)"
| step_submit_open_workspace: "app_step a (submit_open_workspace h projects a)"
| step_begin_palette: "app_step a (begin_command_palette a)"
| step_move_palette: "app_step a (move_command_palette_selection delta a)"
| step_submit_palette: "app_step a (snd (submit_command_palette a))"
| step_prompt_edit: "apply_prompt_edit edit a = Some (changed, b) \<Longrightarrow> app_step a b"
| step_cancel_prompt: "app_step a (cancel_prompt a)"
| step_begin_terminal_command: "app_step a (snd (begin_new_terminal_command a))"
| step_submit_terminal_command: "app_step a (submit_new_terminal_command h a)"
| step_begin_search: "app_step a (snd (begin_search a))"
| step_submit_search: "app_step a (submit_search a)"
| step_clear_search: "app_step a (clear_search a)"
| step_agent_event: "app_step a (apply_agent_event event a)"
| step_push_notice: "app_step a (snd (push_notice h level source s a))"
| step_clear_operation_error: "app_step a (clear_operation_error a)"
| step_operation_failure: "app_step a (record_operation_failure h s a)"
| step_expire_notices: "app_step a (snd (expire_notices now a))"
| step_dismiss_notices: "app_step a (snd (dismiss_notices a))"
| step_show_help: "app_step a (show_help a)"
| step_hide_help: "app_step a (snd (hide_help a))"
| step_request_reload: "app_step a (request_config_reload a)"
| step_take_reload: "app_step a (snd (take_config_reload_request a))"
| step_host_focused: "app_step a (snd (set_host_focused focused a))"
| step_branches: "app_step a (snd (replace_workspace_git_branches branches a))"
| step_begin_selection: "app_step a (begin_text_selection key cell a)"
| step_update_selection: "app_step a (snd (update_text_selection key cell a))"
| step_end_selection: "app_step a (snd (end_text_selection key cell a))"
| step_clear_selection: "app_step a (clear_text_selection a)"
| step_shift_selection: "app_step a (snd (shift_text_selection_rows key rows a))"
| step_hold_click: "app_step a (hold_pane_click held a)"
| step_take_click: "app_step a (snd (take_held_pane_click key a))"
| step_take_any_click: "app_step a (snd (take_any_held_pane_click a))"

section \<open>Every operation keeps what it must\<close>

lemmas surface_defs = focus_sidebar_def focus_selected_main_def begin_terminal_input_def begin_chat_agent_input_def
  begin_open_workspace_def begin_command_palette_def cancel_prompt_def begin_new_terminal_command_def begin_search_def
  clear_search_def expire_notices_def dismiss_notices_def show_help_def hide_help_def request_config_reload_def
  take_config_reload_request_def set_host_focused_def replace_workspace_git_branches_def begin_text_selection_def
  clear_text_selection_def hold_pane_click_def take_any_held_pane_click_def

lemma surface_palette: "same_project a (update_palette f a)"
  by (simp add: update_palette_def same_project_def Let_def split: option.split prompt.split)

lemma surface_move: "same_project a (move_command_palette_selection delta a)"
  by (simp add: move_command_palette_selection_def surface_palette)

lemma surface_prompts:
  "same_project a (move_open_workspace_selection h delta projects a)"
  "same_project a (snd (submit_command_palette a))" "same_project a (submit_search a)"
  by (simp_all add: move_open_workspace_selection_def submit_command_palette_def submit_search_def same_project_def Let_def split: option.split prompt.split)

lemma surface_edit:
  assumes "apply_prompt_edit edit a = Some (changed, b)"
  shows "same_project a b"
proof -
  have "same_project a (update_prompt f a)" for f by (simp add: same_project_def)
  then have "same_project a (clamp_command_palette_selection (update_prompt f a))" for f
    unfolding clamp_command_palette_selection_def by (rule same_project_trans) (rule surface_palette)
  then show ?thesis
    using assms surface_palette
    by (auto simp: apply_prompt_edit_def clamp_command_palette_selection_def split: option.splits prod.splits)
qed

lemma surface_selection:
  "same_project a (snd (update_text_selection key cell a))" "same_project a (snd (end_text_selection key cell a))"
  "same_project a (snd (shift_text_selection_rows key rows a))" "same_project a (snd (take_held_pane_click key a))"
proof -
  show u: "same_project a (snd (update_text_selection key cell a))"
    by (simp add: update_text_selection_def same_project_def split: option.split)
  show "same_project a (snd (end_text_selection key cell a))"
    using u by (auto simp: end_text_selection_def same_project_def Let_def split: option.split prod.split bool.split)
  show "same_project a (snd (shift_text_selection_rows key rows a))" "same_project a (snd (take_held_pane_click key a))"
    by (simp_all add: shift_text_selection_rows_def take_held_pane_click_def same_project_def Let_def split: option.split)
qed

lemma app_step_keeps: "app_step a b \<Longrightarrow> keeps a b"
proof (induction rule: app_step.induct)
  case (step_prompt_edit edit a changed b)
  then show ?case by (rule keeps_same [OF surface_edit])
qed (simp_all add: keeps_select_next keeps_select_previous keeps_select_item keeps_select_nav_index keeps_select_first
    end_pty_input_def keeps_sync_focus keeps_delete_target keeps_remove_finished keeps_terminal_started
    keeps_terminal_stopped keeps_recoverable keeps_begin_generation keeps_clear_generation keeps_chat_status
    keeps_add_chat keeps_add_terminal open_file_manager_in_selected_workspace_def open_editor_in_selected_workspace_def
    keeps_open_tool keeps_open_sftp keeps_submit_open_workspace keeps_submit_terminal_command keeps_agent_event
    keeps_same surface_prompts surface_move surface_selection, simp_all add: surface_defs keeps_same same_project_def Let_def split: option.split)

lemma app_steps_keep: "app_step\<^sup>*\<^sup>* a b \<Longrightarrow> keeps a b"
proof (induction rule: rtranclp_induct)
  case (step b c)
  then show ?case using keeps_trans app_step_keeps by blast
qed (simp add: keeps_same)

section \<open>The loop\<close>

text \<open>An event of the terminal is handled by operations of the application; one of them quits.\<close>

inductive event_step :: "app \<Rightarrow> app \<Rightarrow> bool" where
  event_app: "app_step a b \<Longrightarrow> event_step a b"
| event_quit: "event_step a (quit a)"

text \<open>
  One turn: what the drains and the starts of agents do, the rate-limited save, and, when the
  terminal had events, these and the save that follows them. The project in the state file goes along.
\<close>

type_synonym client = "app \<times> save_schedule \<times> project_state"

inductive client_turn :: "client \<Rightarrow> client \<Rightarrow> bool" where
  quiet_turn: "\<not> ap_should_quit a \<Longrightarrow> app_step\<^sup>*\<^sup>* a b \<Longrightarrow>
    save_content_if_due now answer sched (b, saved) = ((redraw, c, saved'), sched') \<Longrightarrow> app_step\<^sup>*\<^sup>* c d \<Longrightarrow>
    client_turn (a, sched, saved) (d, sched', saved')"
| event_turn: "\<not> ap_should_quit a \<Longrightarrow> app_step\<^sup>*\<^sup>* a b \<Longrightarrow>
    save_content_if_due now answer sched (b, saved) = ((redraw, c, saved'), sched') \<Longrightarrow> app_step\<^sup>*\<^sup>* c d \<Longrightarrow>
    event_step\<^sup>*\<^sup>* d e \<Longrightarrow> save_if_dirty_with True answer' (e, saved') = (redraw', f, saved'') \<Longrightarrow>
    client_turn (a, sched, saved) (f, record_save now sched', saved'')"

definition save_inv :: "app \<Rightarrow> project_state \<Rightarrow> bool" where
  "save_inv a saved \<longleftrightarrow> app_ok a \<and> (\<not> ap_dirty a \<longrightarrow> ap_project a = saved)"

lemma save_inv_keeps: "keeps a b \<Longrightarrow> save_inv a saved \<Longrightarrow> save_inv b saved"
  using keeps_app_ok by (auto simp: save_inv_def keeps_def project_keeps_def)

lemma save_fields [simp]:
  "ap_project (mark_saved a) = ap_project a" "ap_selected (mark_saved a) = ap_selected a" "\<not> ap_dirty (mark_saved a)"
  "ap_should_quit (mark_saved a) = ap_should_quit a"
  "ap_project (record_save_failure e a) = ap_project a" "ap_selected (record_save_failure e a) = ap_selected a"
  "ap_dirty (record_save_failure e a) = ap_dirty a"
  "ap_project (cancel_quit a) = ap_project a" "ap_selected (cancel_quit a) = ap_selected a"
  "ap_dirty (cancel_quit a) = ap_dirty a" "\<not> ap_should_quit (cancel_quit a)"
  by (simp_all add: mark_saved_def record_save_failure_def cancel_quit_def)

lemma app_ok_fields: "ap_project b = ap_project a \<Longrightarrow> ap_selected b = ap_selected a \<Longrightarrow> app_ok b = app_ok a"
  by (simp add: app_ok_def selection_ok_def nav_items_project split: option.split)

lemma save_inv_save:
  assumes "save_if_dirty_with force answer (a, saved) = (redraw, b, saved')" and "save_inv a saved"
  shows "save_inv b saved'" "ap_should_quit b \<Longrightarrow> ap_should_quit a"
    "force \<Longrightarrow> ap_should_quit b \<Longrightarrow> \<not> ap_dirty b"
proof -
  have "app_ok (mark_saved a) = app_ok a" "app_ok (cancel_quit (record_save_failure e a)) = app_ok a" for e
    by (rule app_ok_fields; simp)+
  then show "save_inv b saved'" "ap_should_quit b \<Longrightarrow> ap_should_quit a" "force \<Longrightarrow> ap_should_quit b \<Longrightarrow> \<not> ap_dirty b"
    using assms by (auto simp: save_if_dirty_with_def save_inv_def split: if_splits option.splits)
qed

lemma save_inv_content:
  assumes "save_content_if_due now answer sched (a, saved) = ((redraw, b, saved'), sched')" and "save_inv a saved"
  shows "save_inv b saved'" "ap_should_quit b \<Longrightarrow> ap_should_quit a"
  using assms save_inv_save by (auto simp: save_content_if_due_def split: if_splits)

lemma event_keeps: "event_step\<^sup>*\<^sup>* a b \<Longrightarrow> save_inv a saved \<Longrightarrow> save_inv b saved"
proof (induction rule: rtranclp_induct)
  case (step b c)
  have "save_inv (quit b) saved = save_inv b saved"
    using app_ok_fields [of "quit b" b] by (simp add: save_inv_def quit_def)
  then show ?case using step by (auto elim!: event_step.cases intro: save_inv_keeps [OF app_step_keeps])
qed simp

text \<open>The turn's invariant: an application that is to quit has nothing left to save.\<close>

lemma client_turn_inv:
  assumes "client_turn (a, sched, saved) (b, sched', saved')" and "save_inv a saved"
  shows "save_inv b saved' \<and> (ap_should_quit b \<longrightarrow> \<not> ap_dirty b)"
  using assms
proof (cases rule: client_turn.cases)
  case (quiet_turn b' now answer redraw c)
  have c: "save_inv c saved'" "\<not> ap_should_quit c"
    using save_inv_content [OF quiet_turn(3) save_inv_keeps [OF app_steps_keep [OF quiet_turn(2)] assms(2)]]
      quiet_turn(1) app_steps_keep [OF quiet_turn(2)] by (auto simp: keeps_def project_keeps_def)
  then show ?thesis
    using save_inv_keeps [OF app_steps_keep [OF quiet_turn(4)]] app_steps_keep [OF quiet_turn(4)]
    by (auto simp: keeps_def project_keeps_def)
next
  case (event_turn b' now answer redraw c saved1 sched1 d e answer' redraw')
  have "save_inv c saved1" using save_inv_content(1) event_turn(4) save_inv_keeps [OF app_steps_keep] event_turn(3) assms(2) by blast
  then have "save_inv e saved1" using event_keeps event_turn(6) save_inv_keeps [OF app_steps_keep] event_turn(5) by blast
  then show ?thesis using save_inv_save(1,3) [OF event_turn(7)] by auto
qed

lemma client_turns_inv:
  assumes "client_turn\<^sup>*\<^sup>* x y" and "save_inv (fst x) (snd (snd x))" and "ap_should_quit (fst x) \<longrightarrow> \<not> ap_dirty (fst x)"
  shows "save_inv (fst y) (snd (snd y)) \<and> (ap_should_quit (fst y) \<longrightarrow> \<not> ap_dirty (fst y))"
  using assms
proof (induction rule: rtranclp_induct)
  case (step y z)
  then show ?case using client_turn_inv [of "fst y" "fst (snd y)" "snd (snd y)" "fst z" "fst (snd z)" "snd (snd z)"] by simp
qed simp

end
