(* ===== verification/App_Deletion.thy ===== *)
theory App_Deletion
  imports App_Runs
begin

text \<open>What a deletion makes of the sidebar: exactly the deleted item goes, and nothing moves but into its place.\<close>

section \<open>Items are distinct\<close>

fun item_key :: "nav_item \<Rightarrow> chat_id + terminal_id" where
  "item_key (NavChat _ c) = Inl c"
| "item_key (NavTerminal _ t) = Inr t"

lemma mset_item_keys:
  "mset (map item_key (concat (map workspace_items ws))) =
   mset (map Inl (concat (map (\<lambda>w. map ct_id (ws_chats w)) ws)) @ map Inr (concat (map (\<lambda>w. map tm_id (ws_terminals w)) ws)))"
proof (induction ws)
  case (Cons w ws)
  have "map item_key (workspace_items w) = map Inl (map ct_id (ws_chats w)) @ map Inr (map tm_id (ws_terminals w))"
    by (simp add: workspace_items_def comp_def)
  then show ?case using Cons.IH by simp
qed simp

lemma distinct_project_items:
  assumes "project_ok p"
  shows "distinct (project_items p)"
proof -
  have ids: "distinct (chat_ids p)" "distinct (terminal_ids p)"
    using assms by (simp_all add: project_ok_iff ids_ok_def)
  then have "distinct (map Inl (chat_ids p) @ map Inr (terminal_ids p) :: (chat_id + terminal_id) list)"
    by (auto simp: distinct_map)
  then have "distinct (map item_key (project_items p))"
    unfolding project_items_def project_views using mset_eq_imp_distinct_iff [OF mset_item_keys] by blast
  then show ?thesis by (simp add: distinct_map)
qed

section \<open>Removing one\<close>

lemma remove_first_map:
  assumes "inj g"
  shows "find (\<lambda>x. f x = k) xs \<noteq> None \<Longrightarrow> map (\<lambda>x. g (f x)) (remove_first (\<lambda>x. f x = k) xs) = remove1 (g k) (map (\<lambda>x. g (f x)) xs)"
  using assms by (induction xs) (auto simp: inj_eq)

lemma inj_nav: "inj (NavChat w)" "inj (NavTerminal w)"
  by (simp_all add: inj_def)

lemma find_some_in: "find P xs = Some x \<Longrightarrow> P x \<and> x \<in> set xs"
  by (metis find_Some_iff nth_mem)

lemma items_remove_first:
  assumes "find (\<lambda>w. ws_id w = wid) ws = Some w" and "item \<in> set (workspace_items w)"
    and "\<And>v. item \<in> set (workspace_items v) \<Longrightarrow> ws_id v = wid"
    and "workspace_items (f w) = remove1 item (workspace_items w)"
  shows "concat (map workspace_items (update_first (\<lambda>w. ws_id w = wid) f ws)) = remove1 item (concat (map workspace_items ws))"
  using assms(1)
proof (induction ws)
  case (Cons v ws)
  show ?case
  proof (cases "ws_id v = wid")
    case True
    then show ?thesis using Cons.prems assms(2,4) by (simp add: remove1_append)
  next
    case False
    then have "item \<notin> set (workspace_items v)" using assms(3) by blast
    then show ?thesis using Cons False by (simp add: remove1_append)
  qed
qed simp

lemma items_of_workspace: "NavChat w c \<in> set (workspace_items v) \<longleftrightarrow> w = ws_id v \<and> c \<in> ct_id ` set (ws_chats v)"
  "NavTerminal w t \<in> set (workspace_items v) \<longleftrightarrow> w = ws_id v \<and> t \<in> tm_id ` set (ws_terminals v)"
  by (auto simp: workspace_items_def)

lemma items_forget [simp]:
  "project_items (forget_chat c p) = project_items p" "project_items (forget_terminal t p) = project_items p"
  by (simp_all add: project_items_def forget_chat_def forget_terminal_def)

lemma items_remove_chat:
  assumes "remove_chat w c p = (Some x, p')"
  shows "project_items p' = remove1 (NavChat w c) (project_items p)"
proof -
  obtain v where v: "find (\<lambda>v. ws_id v = w) (pj_workspaces p) = Some v" "find (\<lambda>x. ct_id x = c) (ws_chats v) = Some x"
    and p': "p' = forget_chat c (update_workspace w (\<lambda>w. w\<lparr>ws_chats := remove_first (\<lambda>x. ct_id x = c) (ws_chats w)\<rparr>) p)"
    using assms by (auto simp: remove_chat_def find_chat_def find_workspace_def bind_eq_Some_conv split: option.splits)
  have w: "ws_id v = w" "c \<in> ct_id ` set (ws_chats v)" using find_some_in [OF v(1)] find_some_in [OF v(2)] by auto
  have one: "workspace_items (v\<lparr>ws_chats := remove_first (\<lambda>x. ct_id x = c) (ws_chats v)\<rparr>) = remove1 (NavChat w c) (workspace_items v)"
    using remove_first_map [OF inj_nav(1), of ct_id c "ws_chats v" "ws_id v"] v(2) w
    by (auto simp: workspace_items_def remove1_append)
  show ?thesis
    using items_remove_first [where item = "NavChat w c" and f = "\<lambda>w. w\<lparr>ws_chats := remove_first (\<lambda>x. ct_id x = c) (ws_chats w)\<rparr>", OF v(1) _ _ one] w
    by (auto simp: p' project_items_def update_workspace_def items_of_workspace forget_chat_def)
qed

lemma items_remove_terminal:
  assumes "remove_terminal w t p = (Some x, p')"
  shows "project_items p' = remove1 (NavTerminal w t) (project_items p)"
proof -
  obtain v where v: "find (\<lambda>v. ws_id v = w) (pj_workspaces p) = Some v" "find (\<lambda>x. tm_id x = t) (ws_terminals v) = Some x"
    and p': "p' = forget_terminal t (update_workspace w (\<lambda>w. w\<lparr>ws_terminals := remove_first (\<lambda>x. tm_id x = t) (ws_terminals w)\<rparr>) p)"
    using assms by (auto simp: remove_terminal_def find_terminal_def find_workspace_def bind_eq_Some_conv split: option.splits)
  have w: "ws_id v = w" "t \<in> tm_id ` set (ws_terminals v)" using find_some_in [OF v(1)] find_some_in [OF v(2)] by auto
  have "NavTerminal w t \<notin> set (map (\<lambda>x. NavChat (ws_id v) (ct_id x)) (ws_chats v))" by auto
  then have one: "workspace_items (v\<lparr>ws_terminals := remove_first (\<lambda>x. tm_id x = t) (ws_terminals v)\<rparr>) = remove1 (NavTerminal w t) (workspace_items v)"
    using remove_first_map [OF inj_nav(2), of tm_id t "ws_terminals v" "ws_id v"] v(2) w
    by (simp add: workspace_items_def remove1_append)
  show ?thesis
    using items_remove_first [where item = "NavTerminal w t" and f = "\<lambda>w. w\<lparr>ws_terminals := remove_first (\<lambda>x. tm_id x = t) (ws_terminals w)\<rparr>", OF v(1) _ _ one] w
    by (auto simp: p' project_items_def update_workspace_def items_of_workspace forget_terminal_def)
qed

lemma forget_folds:
  "pj_workspaces (fold (\<lambda>t. forget_terminal (tm_id t)) ts p) = pj_workspaces p"
  "pj_workspaces (fold (\<lambda>c. forget_chat (ct_id c)) cs p) = pj_workspaces p"
proof -
  show "pj_workspaces (fold (\<lambda>t. forget_terminal (tm_id t)) ts p) = pj_workspaces p"
    by (induction ts arbitrary: p) (simp_all add: forget_terminal_def)
  show "pj_workspaces (fold (\<lambda>c. forget_chat (ct_id c)) cs p) = pj_workspaces p"
    by (induction cs arbitrary: p) (simp_all add: forget_chat_def)
qed

lemma items_remove_workspace:
  assumes "remove_workspace w p = (Some x, p')" and "workspace_items x = []"
  shows "project_items p' = project_items p"
proof -
  have f: "find (\<lambda>v. ws_id v = w) (pj_workspaces p) = Some x"
    and p': "pj_workspaces p' = remove_first (\<lambda>v. ws_id v = w) (pj_workspaces p)"
    using assms(1) by (auto simp: remove_workspace_def find_workspace_def forget_folds split: option.splits)
  have "concat (map workspace_items (remove_first P ws)) = concat (map workspace_items ws)" if "find P ws = Some x" for P ws
    using that assms(2) by (induction ws) (auto split: if_splits)
  then show ?thesis using f p' by (simp add: project_items_def)
qed

lemma remove_if_empty_items:
  "project_items (ap_project (remove_workspace_if_empty w a)) = project_items (ap_project a)"
  "ap_selected (remove_workspace_if_empty w a) = ap_selected a"
proof -
  show "ap_selected (remove_workspace_if_empty w a) = ap_selected a"
    by (simp add: remove_workspace_if_empty_def split: option.split prod.split)
  show "project_items (ap_project (remove_workspace_if_empty w a)) = project_items (ap_project a)"
  proof (cases "find_workspace w (ap_project a)")
    case (Some x)
    obtain p where "remove_workspace w (ap_project a) = (Some x, p)" using Some by (simp add: remove_workspace_def)
    then show ?thesis
      using items_remove_workspace [of w "ap_project a" x p] Some
      by (simp add: remove_workspace_if_empty_def workspace_is_empty_def workspace_items_def)
  qed (simp add: remove_workspace_if_empty_def)
qed

section \<open>Deleting the selected item\<close>

text \<open>The item of a deletion, and that an item of the sidebar can be found to be deleted.\<close>

fun target_item :: "delete_target \<Rightarrow> nav_item option" where
  "target_item (DeleteWorkspace _) = None"
| "target_item (DeleteChat w c) = Some (NavChat w c)"
| "target_item (DeleteTerminal w t) = Some (NavTerminal w t)"

lemma find_first_id: "distinct (map g xs) \<Longrightarrow> x \<in> set xs \<Longrightarrow> find (\<lambda>y. g y = g x) xs = Some x"
  by (induction xs) (auto simp: image_iff)

lemma found_chat:
  assumes "project_ok p" and "NavChat w c \<in> set (project_items p)"
  shows "find_chat w c p \<noteq> None"
proof -
  obtain v x where v: "v \<in> set (pj_workspaces p)" "w = ws_id v" "x \<in> set (ws_chats v)" "c = ct_id x"
    using assms(2) by (auto simp: project_items_def items_of_workspace)
  have "distinct (map ws_id (pj_workspaces p))" using assms(1) by (simp add: project_ok_iff ids_ok_def workspace_ids_def)
  then have "find_workspace w p = Some v" using find_first_id v by (simp add: find_workspace_def)
  then show ?thesis using v by (auto simp: find_chat_def find_None_iff)
qed

lemma found_terminal:
  assumes "project_ok p" and "NavTerminal w t \<in> set (project_items p)"
  shows "find_terminal w t p \<noteq> None"
proof -
  obtain v x where v: "v \<in> set (pj_workspaces p)" "w = ws_id v" "x \<in> set (ws_terminals v)" "t = tm_id x"
    using assms(2) by (auto simp: project_items_def items_of_workspace)
  have "distinct (map ws_id (pj_workspaces p))" using assms(1) by (simp add: project_ok_iff ids_ok_def workspace_ids_def)
  then have "find_workspace w p = Some v" using find_first_id v by (simp add: find_workspace_def)
  then show ?thesis using v by (auto simp: find_terminal_def find_None_iff)
qed

lemma delete_item_items:
  assumes "project_ok (ap_project a)" and "target_item target = Some item" and "item \<in> set (nav_items a)"
    and "delete_item target a = (keys, b)"
  shows "nav_items b = remove1 item (nav_items a)" "ap_selected b = ap_selected a" "Some keys = map_option (\<lambda>k. [k]) (delete_target_pty target)"
proof -
  have "project_items (ap_project b) = remove1 item (project_items (ap_project a)) \<and> ap_selected b = ap_selected a \<and>
      Some keys = map_option (\<lambda>k. [k]) (delete_target_pty target)"
  proof (cases target)
    case (DeleteChat w c)
    then have "find_chat w c (ap_project a) \<noteq> None" using assms(1-3) found_chat by (simp add: nav_items_project)
    then obtain x p where r: "remove_chat w c (ap_project a) = (Some x, p)" by (auto simp: remove_chat_def)
    show ?thesis using assms(2,4) DeleteChat items_remove_chat [OF r] r
      by (auto simp: delete_item_def remove_if_empty_items)
  next
    case (DeleteTerminal w t)
    then have "find_terminal w t (ap_project a) \<noteq> None" using assms(1-3) found_terminal by (simp add: nav_items_project)
    then obtain x p where r: "remove_terminal w t (ap_project a) = (Some x, p)" by (auto simp: remove_terminal_def)
    show ?thesis using assms(2,4) DeleteTerminal items_remove_terminal [OF r] r
      by (auto simp: delete_item_def remove_if_empty_items)
  qed (use assms(2) in simp)
  then show "nav_items b = remove1 item (nav_items a)" "ap_selected b = ap_selected a" "Some keys = map_option (\<lambda>k. [k]) (delete_target_pty target)"
    by (simp_all add: nav_items_project)
qed

lemma nav_items_sync [simp]: "nav_items (sync_focus_to_selection a) = nav_items a"
  by (simp add: sync_focus_to_selection_def mark_selected_done_seen_def nav_items_project project_items_update_chat split: option.split)

lemma selected_sync [simp]: "ap_selected (sync_focus_to_selection a) = ap_selected a"
  by (simp add: sync_focus_to_selection_def mark_selected_done_seen_def split: option.split)

lemma nav_items_reconcile [simp]: "nav_items (reconcile_selection i a) = nav_items a"
  by (simp add: nav_items_project)

lemma remove1_nth: "k < length xs \<Longrightarrow> \<forall>j<k. xs ! j \<noteq> xs ! k \<Longrightarrow> remove1 (xs ! k) xs = take k xs @ drop (Suc k) xs"
proof (induction xs arbitrary: k)
  case (Cons x xs)
  show ?case
  proof (cases k)
    case (Suc n)
    then have "x \<noteq> xs ! n" "\<forall>j<n. xs ! j \<noteq> xs ! n" using Cons.prems(2) by (force, force)
    then show ?thesis using Cons.IH [of n] Cons.prems(1) Suc by auto
  qed simp
qed simp

end
