(* ===== verification/App_Properties.thy ===== *)
theory App_Properties
  imports App_Deletion Project_Properties
begin

text \<open>The properties of the client's application, with a sample project they hold of.\<close>

definition sample_pair :: project_state where
  "sample_pair = sample_empty\<lparr>pj_next_workspace_id := 2, pj_next_chat_id := 3,
     pj_workspaces := [sample_workspace 1 [sample_chat 1 ''agent'', sample_chat 2 ''agent'']],
     pj_identities := \<lparr>si_chats = btm_insert (ChatId 2) (SessionToken 2) (btm_insert (ChatId 1) (SessionToken 1) btm_empty),
       si_terminals = btm_empty\<rparr>\<rparr>"

lemma sample_pair_ok: "project_ok sample_pair"
  by code_simp

lemma sample_pair_items:
  "nav_items (app_new sample_pair) = [NavChat (WorkspaceId 1) (ChatId 1), NavChat (WorkspaceId 1) (ChatId 2)]"
  "selected_item (app_new sample_pair) = Some (NavChat (WorkspaceId 1) (ChatId 1))"
  by code_simp+



text \<open>
  C35. Every operation of the application keeps a valid project and a selection that names an item of
  the sidebar (none only when there is none), marks a project it changed for saving, and marks it for
  saving at once when it added or removed a workspace, chat or terminal.
\<close>

theorem app_operations_keep_invariant:
  assumes "app_step a b" and "app_ok a"
  shows "app_ok b \<and> (ap_project b = ap_project a \<or> ap_dirty b) \<and>
    (project_shape (ap_project b) = project_shape (ap_project a) \<or> ap_structural_dirty b)"
  using app_step_keeps [OF assms(1)] keeps_app_ok assms(2) by (simp add: keeps_def project_keeps_def)

theorem app_operations_keep_invariant_witness:
  "app_ok (snd (delete_target (DeleteChat (WorkspaceId 1) (ChatId 1)) (app_new sample_pair)))"
  using app_operations_keep_invariant [OF step_delete_target app_new_ok(1) [OF sample_pair_ok]] by blast

text \<open>
  C36. Deleting the selected chat or terminal removes exactly its row of the sidebar, reports its
  session, and selects the row that moves into its place, or the last one when it was the last.
\<close>

theorem deleting_selected_item_selects_neighbour:
  assumes "app_ok a" and "selected_item a = Some item" and "selected_delete_target a = Some target"
    and "delete_target target a = (keys, b)"
  shows "\<exists>k. selected_index a = Some k \<and> nav_items b = take k (nav_items a) @ drop (Suc k) (nav_items a) \<and>
    Some keys = map_option (\<lambda>key. [key]) (delete_target_pty target) \<and>
    ap_selected b = (if nav_items b = [] then None else Some (nav_items b ! min k (length (nav_items b) - 1)))"
proof -
  have item: "ap_selected a = Some item" "nav_item_position item a \<noteq> None"
    using assms(2) by (auto simp: selected_item_def split: option.splits if_splits)
  then obtain k where k: "nav_item_position item a = Some k" by blast
  have at: "k < length (nav_items a)" "nav_items a ! k = item" "\<forall>j<k. nav_items a ! j \<noteq> nav_items a ! k"
    using k by (auto simp: nav_item_position_def position_eq)
  have sel: "selected_index a = Some k" by (simp add: selected_index_def item k)
  have target: "target_item target = Some item"
    using assms(2,3) by (cases item) (auto simp: selected_delete_target_def)
  obtain keys' c where d: "delete_item target a = (keys', c)" by fastforce
  have ok: "project_ok (ap_project a)" using assms(1) by (simp add: app_ok_def)
  have "item \<in> set (nav_items a)" using at by auto
  note c = delete_item_items [OF ok target this d]
  have b: "keys = keys'" "b = sync_focus_to_selection (reconcile_selection (Some k) c)"
    using assms(4) by (simp_all add: delete_target_def d sel)
  have "item \<notin> set (nav_items c)"
    using distinct_project_items [OF ok] c(1) nav_items_project [of a] by simp
  then have gone: "nav_item_position item c = None" using nav_position [of item c] by blast
  have "ap_selected b = (if nav_items c = [] then None else Some (nav_items c ! min k (length (nav_items c) - 1)))"
    using gone c(2) item(1)
    by (auto simp: b reconcile_selection_def nav_len_def nav_item_at_def nth_option_def min_less_iff_disj)
  moreover have "nav_items b = nav_items c" by (simp add: b)
  moreover have "nav_items c = take k (nav_items a) @ drop (Suc k) (nav_items a)"
    using remove1_nth [OF at(1,3)] at(2) by (simp add: c(1))
  ultimately show ?thesis using sel c(3) b(1) by simp
qed

theorem deleting_selected_item_selects_neighbour_witness:
  "\<exists>b. delete_target (DeleteChat (WorkspaceId 1) (ChatId 1)) (app_new sample_pair) = ([PtyChatAgent (ChatId 1)], b) \<and>
     ap_selected b = Some (NavChat (WorkspaceId 1) (ChatId 2))"
proof -
  obtain keys b where d: "delete_target (DeleteChat (WorkspaceId 1) (ChatId 1)) (app_new sample_pair) = (keys, b)" by fastforce
  have "selected_delete_target (app_new sample_pair) = Some (DeleteChat (WorkspaceId 1) (ChatId 1))"
    by (simp add: selected_delete_target_def sample_pair_items)
  note r = deleting_selected_item_selects_neighbour [OF app_new_ok(1) [OF sample_pair_ok] sample_pair_items(2) this d]
  have "selected_index (app_new sample_pair) = Some 0" by code_simp
  then show ?thesis using r d by (auto simp: sample_pair_items)
qed

end
