(* ===== verification/State_Migration.thy ===== *)
theory State_Migration
  imports Project_Capacity
begin

text \<open>
  The shapes the state file had in earlier versions and the hops that bring them to the current one
  (\<open>src/storage.rs\<close>). One hop per version: 1 to 2 mints what version 2 needs, 2 to 3 turns liveness
  into intent, 3 to 4 makes every workspace local and repairs, 4 to 5 is the number alone.
\<close>

section \<open>The old shapes\<close>

datatype terminal_status_v2 = StoppedV2 | RunningV2

fun into_restore_intent :: "terminal_status_v2 \<Rightarrow> bool" where
  "into_restore_intent RunningV2 = True"
| "into_restore_intent StoppedV2 = False"

record chat_v1 =
  c1_id :: chat_id
  c1_name :: ustring
  c1_status :: chat_status
  c1_agent :: agent_kind
  c1_messages :: "chat_message list"

record terminal_v1 =
  t1_id :: terminal_id
  t1_name :: ustring
  t1_status :: terminal_status_v2
  t1_launch :: terminal_launch

record workspace_v1 =
  w1_id :: workspace_id
  w1_name :: ustring
  w1_cwd :: "ustring option"
  w1_environment :: "(ustring \<times> ustring) list"
  w1_chats :: "chat_v1 list"
  w1_terminals :: "terminal_v1 list"

record state_v1 =
  s1_next_workspace_id :: u64
  s1_next_chat_id :: u64
  s1_next_terminal_id :: u64
  s1_workspaces :: "workspace_v1 list"

record terminal_v2 =
  t2_id :: terminal_id
  t2_name :: ustring
  t2_status :: terminal_status_v2
  t2_launch :: terminal_launch

record workspace_v2 =
  w2_id :: workspace_id
  w2_name :: ustring
  w2_cwd :: "ustring option"
  w2_environment :: "(ustring \<times> ustring) list"
  w2_chats :: "chat_session list"
  w2_terminals :: "terminal_v2 list"

record state_v2 =
  s2_namespace :: state_namespace
  s2_identities :: session_identities
  s2_generations :: "(chat_id, agent_generation) btmap"
  s2_next_workspace_id :: u64
  s2_next_chat_id :: u64
  s2_next_terminal_id :: u64
  s2_workspaces :: "workspace_v2 list"

record workspace_v3 =
  w3_id :: workspace_id
  w3_name :: ustring
  w3_cwd :: "ustring option"
  w3_environment :: "(ustring \<times> ustring) list"
  w3_chats :: "chat_session list"
  w3_terminals :: "terminal_session list"

record state_v3 =
  s3_namespace :: state_namespace
  s3_identities :: session_identities
  s3_generations :: "(chat_id, agent_generation) btmap"
  s3_next_workspace_id :: u64
  s3_next_chat_id :: u64
  s3_next_terminal_id :: u64
  s3_workspaces :: "workspace_v3 list"

section \<open>The hops\<close>

definition migrate_v1_to_v2 :: "state_v1 \<Rightarrow> workspace_v2 list" where
  "migrate_v1_to_v2 old =
     map (\<lambda>w. \<lparr>w2_id = w1_id w, w2_name = w1_name w, w2_cwd = w1_cwd w, w2_environment = w1_environment w,
        w2_chats = map (\<lambda>c. \<lparr>ct_id = c1_id c, ct_name = c1_name c, ct_status = c1_status c, ct_agent = c1_agent c,
                              ct_messages = c1_messages c\<rparr>) (w1_chats w),
        w2_terminals = map (\<lambda>t. \<lparr>t2_id = t1_id t, t2_name = t1_name t, t2_status = t1_status t,
                              t2_launch = t1_launch t\<rparr>) (w1_terminals w)\<rparr>) (s1_workspaces old)"

definition migrate_v2_to_v3 :: "state_v2 \<Rightarrow> state_v3" where
  "migrate_v2_to_v3 old =
     \<lparr>s3_namespace = s2_namespace old, s3_identities = s2_identities old, s3_generations = s2_generations old,
      s3_next_workspace_id = s2_next_workspace_id old, s3_next_chat_id = s2_next_chat_id old,
      s3_next_terminal_id = s2_next_terminal_id old,
      s3_workspaces = map (\<lambda>w. \<lparr>w3_id = w2_id w, w3_name = w2_name w, w3_cwd = w2_cwd w,
        w3_environment = w2_environment w, w3_chats = w2_chats w,
        w3_terminals = map (\<lambda>t. \<lparr>tm_id = t2_id t, tm_name = t2_name t,
          tm_restore_on_launch = into_restore_intent (t2_status t), tm_launch = t2_launch t\<rparr>) (w2_terminals w)\<rparr>)
        (s2_workspaces old)\<rparr>"

definition migrate_v4_to_v5 :: "project_state \<Rightarrow> project_state" where
  "migrate_v4_to_v5 p = p\<lparr>pj_version := STATE_VERSION\<rparr>"

text \<open>A chat that is busy without a live generation is idle.\<close>

definition unowned_busy :: "project_state \<Rightarrow> chat_session \<Rightarrow> bool" where
  "unowned_busy p c \<longleftrightarrow> \<not> btm_contains (pj_generations p) (ct_id c) \<and> (ct_status c = Thinking \<or> ct_status c = Waiting)"

definition normalize_unowned_agent_statuses :: "project_state \<Rightarrow> bool \<times> project_state" where
  "normalize_unowned_agent_statuses p =
     (\<exists>w \<in> set (pj_workspaces p). \<exists>c \<in> set (ws_chats w). unowned_busy p c,
      p\<lparr>pj_workspaces := map (\<lambda>w. w\<lparr>ws_chats :=
           map (\<lambda>c. if unowned_busy p c then c\<lparr>ct_status := Idle\<rparr> else c) (ws_chats w)\<rparr>) (pj_workspaces p)\<rparr>)"

definition number_error :: "id_allocation_error \<Rightarrow> io_error" where
  "number_error error = invalid_data (id_allocation_message error)"

definition migrate_v3_to_v4 :: "state_v3 \<Rightarrow> entropy \<Rightarrow> io_error + project_state" where
  "migrate_v3_to_v4 old source =
     (let p = \<lparr>pj_version = 4, pj_namespace = s3_namespace old, pj_identities = s3_identities old,
           pj_generations = s3_generations old, pj_next_workspace_id = s3_next_workspace_id old,
           pj_next_chat_id = s3_next_chat_id old, pj_next_terminal_id = s3_next_terminal_id old,
           pj_workspaces = map (\<lambda>w. \<lparr>ws_id = w3_id w, ws_name = w3_name w, ws_cwd = w3_cwd w, ws_remote = None,
             ws_environment = w3_environment w, ws_chats = w3_chats w, ws_terminals = w3_terminals w\<rparr>)
             (s3_workspaces old)\<rparr> in
      bind_sum (map_err number_error (normalize_next_ids p)) (\<lambda>(_, p).
      bind_sum (normalize_session_identities source p) (\<lambda>(_, p, _).
        Inr (snd (normalize_unowned_agent_statuses p)))))"

section \<open>Errors of the store\<close>

datatype state_error =
    Locked ustring
  | UnsupportedVersionError ustring u32
  | Invalid string
  | Corrupt ustring ustring
  | StateIo io_error

definition state_error_message :: "(io_error \<Rightarrow> ustring) \<Rightarrow> state_error \<Rightarrow> ustring" where
  "state_error_message show_io error =
     (case error of
        Locked path \<Rightarrow> ascii ''another mult process owns state path '' @ path
      | UnsupportedVersionError path version \<Rightarrow>
          ascii ''state file version '' @ decimal (unat version) @ ascii '' is unsupported (current version is '' @
          decimal (unat STATE_VERSION) @ ascii ''); not modifying '' @ path
      | Invalid message \<Rightarrow> ascii message
      | Corrupt path backup \<Rightarrow>
          ascii ''state file '' @ path @ ascii '' could not be decoded; it was moved to '' @ backup
      | StateIo error \<Rightarrow> show_io error)"

definition state_error_to_io :: "(ustring \<Rightarrow> string) \<Rightarrow> (io_error \<Rightarrow> ustring) \<Rightarrow> state_error \<Rightarrow> io_error" where
  "state_error_to_io lossy show_io error =
     (case error of
        StateIo e \<Rightarrow> e
      | Locked _ \<Rightarrow> io_error_new WouldBlock (lossy (state_error_message show_io error))
      | _ \<Rightarrow> io_error_new InvalidData (lossy (state_error_message show_io error)))"

definition validate_current_state :: "project_state \<Rightarrow> state_error + unit" where
  "validate_current_state p =
     (if pj_version p \<noteq> STATE_VERSION
      then Inl (Invalid (''refusing to save state version '' @ show_nat (unat (pj_version p)) @ ''; expected '' @
                         show_nat (unat STATE_VERSION)))
      else map_err Invalid (validate_session_identities p))"

definition migrate_v3_to_current :: "(state_error \<Rightarrow> io_error) \<Rightarrow> state_v3 \<Rightarrow> entropy \<Rightarrow> io_error + project_state" where
  "migrate_v3_to_current to_io old source =
     bind_sum (migrate_v3_to_v4 old source) (\<lambda>p. let p = migrate_v4_to_v5 p in
     bind_sum (map_err to_io (validate_current_state p)) (\<lambda>_. Inr p))"

definition migrate_v2_to_current :: "(state_error \<Rightarrow> io_error) \<Rightarrow> state_v2 \<Rightarrow> entropy \<Rightarrow> io_error + project_state" where
  "migrate_v2_to_current to_io old source = migrate_v3_to_current to_io (migrate_v2_to_v3 old) source"

primrec next_namespace_tries :: "nat \<Rightarrow> entropy \<Rightarrow> io_error + (state_namespace \<times> entropy)" where
  "next_namespace_tries 0 source =
     Inl (invalid_data ''secure entropy repeatedly produced an all-zero state namespace'')"
| "next_namespace_tries (Suc tries) source =
     bind_sum (source 0) (\<lambda>raw.
       case nonzero_from_bytes StateNamespace raw of
         Some namespace \<Rightarrow> Inr (namespace, rest_of source)
       | None \<Rightarrow> next_namespace_tries tries (rest_of source))"

definition next_namespace :: "entropy \<Rightarrow> io_error + (state_namespace \<times> entropy)" where
  "next_namespace = next_namespace_tries 64"

definition migrate_v1_to_current :: "(state_error \<Rightarrow> io_error) \<Rightarrow> state_v1 \<Rightarrow> entropy \<Rightarrow> io_error + project_state" where
  "migrate_v1_to_current to_io old source =
     bind_sum (next_namespace source) (\<lambda>(namespace, source).
       migrate_v2_to_current to_io
         \<lparr>s2_namespace = namespace, s2_identities = \<lparr>si_chats = btm_empty, si_terminals = btm_empty\<rparr>,
          s2_generations = btm_empty, s2_next_workspace_id = s1_next_workspace_id old,
          s2_next_chat_id = s1_next_chat_id old, s2_next_terminal_id = s1_next_terminal_id old,
          s2_workspaces = migrate_v1_to_v2 old\<rparr> source)"

section \<open>A migrated state is valid\<close>

lemma validate_current_state_Inr: "validate_current_state p = Inr () \<longleftrightarrow> pj_version p = STATE_VERSION \<and> project_ok p"
  by (simp add: validate_current_state_def project_ok_def map_err_Inr_iff)

lemma normalize_statuses_keeps:
  "normalize_unowned_agent_statuses p = (changed, q) \<Longrightarrow> project_ok p \<Longrightarrow> project_ok q"
  "normalize_unowned_agent_statuses p = (changed, q) \<Longrightarrow> pj_version q = pj_version p"
proof -
  assume n: "normalize_unowned_agent_statuses p = (changed, q)"
  let ?f = "\<lambda>w. w\<lparr>ws_chats := map (\<lambda>c. if unowned_busy p c then c\<lparr>ct_status := Idle\<rparr> else c) (ws_chats w)\<rparr>"
  have q: "q = p\<lparr>pj_workspaces := map ?f (pj_workspaces p)\<rparr>"
    using n by (simp add: normalize_unowned_agent_statuses_def)
  then show "pj_version q = pj_version p" by simp
  assume ok: "project_ok p"
  have ct: "ct_id (if unowned_busy p c then c\<lparr>ct_status := Idle\<rparr> else c) = ct_id c" for c by simp
  have ids: "workspace_ids q = workspace_ids p" "chat_ids q = chat_ids p" "terminal_ids q = terminal_ids p"
    by (simp_all add: q workspace_ids_def chat_ids_def terminal_ids_def comp_def ct cong: if_cong)
  show "project_ok q"
  proof (rule ok_cong [OF ok _ ids])
    show "generations_ok q" using ok ids by (simp add: project_ok_iff generations_ok_def q)
  qed (simp add: q session_identity_of_def split: pty_key.split)
qed

lemma migrate_v3_valid:
  assumes "migrate_v3_to_current to_io old source = Inr p"
  shows "pj_version p = STATE_VERSION \<and> project_ok p"
  using assms validate_current_state_Inr
  by (auto simp: migrate_v3_to_current_def Let_def bind_sum_Inr_iff map_err_Inr_iff)

lemma migrations_valid:
  "migrate_v1_to_current to_io old1 source = Inr p \<Longrightarrow> pj_version p = STATE_VERSION \<and> project_ok p"
  "migrate_v2_to_current to_io old2 source = Inr p \<Longrightarrow> pj_version p = STATE_VERSION \<and> project_ok p"
  using migrate_v3_valid by (auto simp: migrate_v1_to_current_def migrate_v2_to_current_def bind_sum_Inr_iff)

end
