(* ===== verification/Store_Files.thy ===== *)
theory Store_Files
  imports Framing Rust_Text Id_Allocator "HOL-Library.List_Lexorder"
begin

text \<open>
  One directory of a POSIX file system as the state store sees it through the descriptor it keeps
  (\<open>SecureDirectory\<close> in \<open>src/storage.rs\<close>): entries, inodes, what a crash may leave of them, and
  the system calls on them. Any call may fail: \<open>fr_faults\<close> says which do, and with what. The trace
  records the directory after every call. Names are text.
\<close>

unbundle bit_operations_syntax

section \<open>The directory\<close>

datatype file_kind = RegularFile | SymbolicLink | OtherFile

record inode =
  in_kind :: file_kind
  in_uid :: u32
  in_nlink :: nat
  in_mode :: u32
  in_bytes :: bytes
  in_synced :: bytes

type_synonym entries = "(ustring, nat) btmap"

text \<open>
  \<open>fs_possible\<close> are the entries a crash may bring back: those there were since the directory was last
  synced.
\<close>

record fs_state =
  fs_entries :: entries
  fs_possible :: "entries list"
  fs_inodes :: "nat \<Rightarrow> inode"
  fs_next :: nat
  fs_euid :: u32

record fs_run =
  fr_state :: fs_state
  fr_faults :: "(io_error \<times> nat) option list"
  fr_trace :: "fs_state list"

text \<open>A call: what it does, and what it leaves when it fails, for a write how far it got.\<close>

definition fs_call ::
    "(fs_state \<Rightarrow> (io_error + 'a) \<times> fs_state) \<Rightarrow> (nat \<Rightarrow> fs_state \<Rightarrow> fs_state) \<Rightarrow> fs_run \<Rightarrow> (io_error + 'a) \<times> fs_run" where
  "fs_call act damage r =
     (let (answer, s) = (case fr_faults r of
            Some (error, n) # _ \<Rightarrow> (Inl error, damage n (fr_state r))
          | _ \<Rightarrow> act (fr_state r))
      in (answer, \<lparr>fr_state = s, fr_faults = drop 1 (fr_faults r), fr_trace = fr_trace r @ [s]\<rparr>))"

definition no_damage :: "nat \<Rightarrow> fs_state \<Rightarrow> fs_state" where
  "no_damage n s = s"

definition set_entries :: "entries \<Rightarrow> fs_state \<Rightarrow> fs_state" where
  "set_entries e s = s\<lparr>fs_entries := e, fs_possible := fs_entries s # fs_possible s\<rparr>"

definition update_inode :: "nat \<Rightarrow> (inode \<Rightarrow> inode) \<Rightarrow> fs_state \<Rightarrow> fs_state" where
  "update_inode i f s = s\<lparr>fs_inodes := (fs_inodes s)(i := f (fs_inodes s i))\<rparr>"

text \<open>\<open>openat\<close> with \<open>O_CREAT | O_EXCL\<close>, and of an existing file with \<open>O_NOFOLLOW\<close>.\<close>

definition create_exclusive :: "ustring \<Rightarrow> u32 \<Rightarrow> fs_run \<Rightarrow> (io_error + nat) \<times> fs_run" where
  "create_exclusive name mode =
     fs_call (\<lambda>s. if btm_contains (fs_entries s) name then (Inl (io_error_new AlreadyExists ''File exists''), s)
                  else (Inr (fs_next s),
                        (set_entries (btm_insert name (fs_next s) (fs_entries s)) s)
                          \<lparr>fs_inodes := (fs_inodes s)(fs_next s := \<lparr>in_kind = RegularFile, in_uid = fs_euid s, in_nlink = 1,
                             in_mode = mode, in_bytes = [], in_synced = []\<rparr>),
                           fs_next := Suc (fs_next s)\<rparr>)) no_damage"

definition open_existing :: "ustring \<Rightarrow> fs_run \<Rightarrow> (io_error + nat) \<times> fs_run" where
  "open_existing name =
     fs_call (\<lambda>s. case btm_get (fs_entries s) name of
         None \<Rightarrow> (Inl (io_error_new NotFound ''No such file or directory''), s)
       | Some i \<Rightarrow> if in_kind (fs_inodes s i) = SymbolicLink
                   then (Inl (io_other ''Too many levels of symbolic links''), s)
                   else (Inr i, s)) no_damage"

text \<open>\<open>O_CREAT\<close> alone: the file there is, or a new one.\<close>

definition open_or_create :: "ustring \<Rightarrow> u32 \<Rightarrow> fs_run \<Rightarrow> (io_error + nat) \<times> fs_run" where
  "open_or_create name mode r =
     (if btm_contains (fs_entries (fr_state r)) name then open_existing name r else create_exclusive name mode r)"

definition file_metadata :: "nat \<Rightarrow> fs_run \<Rightarrow> (io_error + inode) \<times> fs_run" where
  "file_metadata i = fs_call (\<lambda>s. (Inr (fs_inodes s i), s)) no_damage"

definition set_file_mode :: "nat \<Rightarrow> u32 \<Rightarrow> fs_run \<Rightarrow> (io_error + unit) \<times> fs_run" where
  "set_file_mode i mode = fs_call (\<lambda>s. (Inr (), update_inode i (\<lambda>f. f\<lparr>in_mode := mode\<rparr>) s)) no_damage"

definition file_write_all :: "nat \<Rightarrow> bytes \<Rightarrow> fs_run \<Rightarrow> (io_error + unit) \<times> fs_run" where
  "file_write_all i bs =
     fs_call (\<lambda>s. (Inr (), update_inode i (\<lambda>f. f\<lparr>in_bytes := in_bytes f @ bs\<rparr>) s))
       (\<lambda>n. update_inode i (\<lambda>f. f\<lparr>in_bytes := in_bytes f @ take n bs\<rparr>))"

definition file_sync_all :: "nat \<Rightarrow> fs_run \<Rightarrow> (io_error + unit) \<times> fs_run" where
  "file_sync_all i = fs_call (\<lambda>s. (Inr (), update_inode i (\<lambda>f. f\<lparr>in_synced := in_bytes f\<rparr>) s)) no_damage"

definition file_read :: "nat \<Rightarrow> nat \<Rightarrow> fs_run \<Rightarrow> (io_error + bytes) \<times> fs_run" where
  "file_read i limit = fs_call (\<lambda>s. (Inr (take limit (in_bytes (fs_inodes s i))), s)) no_damage"

definition dir_rename :: "ustring \<Rightarrow> ustring \<Rightarrow> fs_run \<Rightarrow> (io_error + unit) \<times> fs_run" where
  "dir_rename old new =
     fs_call (\<lambda>s. case btm_get (fs_entries s) old of
         None \<Rightarrow> (Inl (io_error_new NotFound ''No such file or directory''), s)
       | Some i \<Rightarrow> (Inr (), set_entries (btm_insert new i (btm_remove old (fs_entries s))) s)) no_damage"

definition dir_unlink :: "ustring \<Rightarrow> fs_run \<Rightarrow> (io_error + unit) \<times> fs_run" where
  "dir_unlink name =
     fs_call (\<lambda>s. if btm_contains (fs_entries s) name then (Inr (), set_entries (btm_remove name (fs_entries s)) s)
                  else (Inl (io_error_new NotFound ''No such file or directory''), s)) no_damage"

definition dir_sync :: "fs_run \<Rightarrow> (io_error + unit) \<times> fs_run" where
  "dir_sync = fs_call (\<lambda>s. (Inr (), s\<lparr>fs_possible := []\<rparr>)) no_damage"

definition entry_names :: "fs_run \<Rightarrow> (io_error + ustring list) \<times> fs_run" where
  "entry_names = fs_call (\<lambda>s. (Inr (btm_keys (fs_entries s)), s)) no_damage"

definition exists_no_follow :: "ustring \<Rightarrow> fs_run \<Rightarrow> (io_error + bool) \<times> fs_run" where
  "exists_no_follow name r =
     (case open_existing name r of
        (Inr _, r) \<Rightarrow> (Inr True, r)
      | (Inl error, r) \<Rightarrow> if io_kind error = NotFound then (Inr False, r) else (Inl error, r))"

section \<open>One call after another\<close>

definition fs_bind :: "(fs_run \<Rightarrow> (io_error + 'a) \<times> fs_run) \<Rightarrow> ('a \<Rightarrow> fs_run \<Rightarrow> (io_error + 'b) \<times> fs_run) \<Rightarrow>
    fs_run \<Rightarrow> (io_error + 'b) \<times> fs_run" where
  "fs_bind m k r = (case m r of (Inl error, r) \<Rightarrow> (Inl error, r) | (Inr x, r) \<Rightarrow> k x r)"

definition fs_return :: "'a \<Rightarrow> fs_run \<Rightarrow> (io_error + 'a) \<times> fs_run" where
  "fs_return x r = (Inr x, r)"

definition fs_fail :: "io_error \<Rightarrow> fs_run \<Rightarrow> (io_error + 'a) \<times> fs_run" where
  "fs_fail error r = (Inl error, r)"

section \<open>Private files\<close>

definition validate_private_regular_file :: "nat \<Rightarrow> string \<Rightarrow> fs_run \<Rightarrow> (io_error + unit) \<times> fs_run" where
  "validate_private_regular_file i description =
     fs_bind (file_metadata i) (\<lambda>m r.
       if in_kind m \<noteq> RegularFile then fs_fail (invalid_data (description @ '' is not a regular file'')) r
       else if in_uid m \<noteq> fs_euid (fr_state r)
         then fs_fail (io_error_new PermissionDenied (description @ '' is not owned by the effective user'')) r
       else if in_nlink m \<noteq> 1
         then fs_fail (io_error_new PermissionDenied (description @ '' has multiple hard links'')) r
       else fs_return () r)"

definition secure_private_regular_file :: "nat \<Rightarrow> string \<Rightarrow> fs_run \<Rightarrow> (io_error + unit) \<times> fs_run" where
  "secure_private_regular_file i description =
     fs_bind (validate_private_regular_file i description) (\<lambda>_.
     fs_bind (set_file_mode i 0x180) (\<lambda>_.
     fs_bind (file_metadata i) (\<lambda>m.
       if in_mode m AND 0x3F \<noteq> 0
       then fs_fail (io_error_new PermissionDenied (description @ '' could not be restricted to owner-only access''))
       else fs_return ())))"

definition read_private_file :: "ustring \<Rightarrow> string \<Rightarrow> nat \<Rightarrow> fs_run \<Rightarrow> (io_error + bytes option) \<times> fs_run" where
  "read_private_file name description max_bytes r =
     (case open_existing name r of
        (Inl error, r) \<Rightarrow> if io_kind error = NotFound then (Inr None, r) else (Inl error, r)
      | (Inr i, r) \<Rightarrow>
          fs_bind (secure_private_regular_file i description) (\<lambda>_.
          fs_bind (file_read i (max_bytes + 1)) (\<lambda>bs.
            if max_bytes < length bs
            then fs_fail (invalid_data (description @ '' exceeds '' @ show_nat max_bytes @ '' bytes''))
            else fs_return (Some bs))) r)"

section \<open>Directories that may hold them\<close>

record dir_metadata =
  dm_is_dir :: bool
  dm_uid :: u32
  dm_mode :: u32

record directory_purpose =
  dp_noun :: string
  dp_at_risk :: string

definition STATE_DIRECTORY :: directory_purpose where
  "STATE_DIRECTORY = \<lparr>dp_noun = ''state'', dp_at_risk = ''its lock inode is replaceable''\<rparr>"

definition CONFIG_DIRECTORY :: directory_purpose where
  "CONFIG_DIRECTORY = \<lparr>dp_noun = ''config'',
     dp_at_risk = ''the config it holds is replaceable, and its commands are shell-evaluated''\<rparr>"

definition validate_directory :: "io_error + dir_metadata \<Rightarrow> string \<Rightarrow> directory_purpose \<Rightarrow> io_error + unit" where
  "validate_directory metadata path purpose =
     bind_sum metadata (\<lambda>m.
       if \<not> dm_is_dir m then Inl (invalid_data (dp_noun purpose @ '' parent is not a directory: '' @ path)) else Inr ())"

definition validate_owned_directory ::
    "u32 \<Rightarrow> io_error + dir_metadata \<Rightarrow> string \<Rightarrow> directory_purpose \<Rightarrow> io_error + unit" where
  "validate_owned_directory euid metadata path purpose =
     bind_sum metadata (\<lambda>m.
       if dm_uid m \<noteq> euid
       then Inl (io_error_new PermissionDenied (''private '' @ dp_noun purpose @
              '' directory is not owned by the effective user: '' @ path))
       else Inr ())"

definition validate_authority_directory ::
    "u32 \<Rightarrow> io_error + dir_metadata \<Rightarrow> string \<Rightarrow> directory_purpose \<Rightarrow> io_error + unit" where
  "validate_authority_directory euid metadata path purpose =
     bind_sum (validate_owned_directory euid metadata path purpose) (\<lambda>_.
     bind_sum metadata (\<lambda>m.
       if dm_mode m AND 0x12 \<noteq> 0
       then Inl (io_error_new PermissionDenied (dp_noun purpose @ '' parent is writable by group or others, so '' @
              dp_at_risk purpose @ '': '' @ path))
       else Inr ()))"

text \<open>
  The walk from the root or the working directory, one component at a time, never through a link:
  \<open>open_at\<close>, \<open>mkdirat\<close> and \<open>metadata_of\<close> are the system's, on its own type of descriptors.
\<close>

datatype path_component = RootDir | CurDir | ParentDir | NormalComponent ustring

definition mkdir_at :: "('d \<Rightarrow> ustring \<Rightarrow> io_error + unit) \<Rightarrow> 'd \<Rightarrow> ustring \<Rightarrow> io_error + unit" where
  "mkdir_at sys parent name =
     (case sys parent name of
        Inl error \<Rightarrow> if io_kind error = AlreadyExists then Inr () else Inl error
      | Inr _ \<Rightarrow> Inr ())"

primrec walk_components ::
    "('d \<Rightarrow> ustring \<Rightarrow> io_error + 'd) \<Rightarrow> ('d \<Rightarrow> ustring \<Rightarrow> io_error + unit) \<Rightarrow> bool \<Rightarrow> path_component list \<Rightarrow> 'd \<Rightarrow>
     io_error + 'd" where
  "walk_components open_at mkdirat create [] current = Inr current"
| "walk_components open_at mkdirat create (c # cs) current =
     (case (case c of RootDir \<Rightarrow> None | CurDir \<Rightarrow> None | ParentDir \<Rightarrow> Some (ascii ''..'') | NormalComponent name \<Rightarrow> Some name) of
        None \<Rightarrow> walk_components open_at mkdirat create cs current
      | Some name \<Rightarrow>
          bind_sum (case open_at current name of
                      Inr d \<Rightarrow> Inr d
                    | Inl error \<Rightarrow>
                        if create \<and> io_kind error = NotFound
                        then bind_sum (mkdir_at mkdirat current name) (\<lambda>_. open_at current name)
                        else Inl error)
            (walk_components open_at mkdirat create cs))"

definition open_parent_for ::
    "('d \<Rightarrow> ustring \<Rightarrow> io_error + 'd) \<Rightarrow> ('d \<Rightarrow> ustring \<Rightarrow> io_error + unit) \<Rightarrow> (ustring \<Rightarrow> io_error + 'd) \<Rightarrow>
     ('d \<Rightarrow> io_error + dir_metadata) \<Rightarrow> ('d \<Rightarrow> u32 \<Rightarrow> io_error + unit) \<Rightarrow> u32 \<Rightarrow> path_component list \<Rightarrow> string \<Rightarrow>
     bool \<Rightarrow> bool \<Rightarrow> directory_purpose \<Rightarrow> io_error + 'd" where
  "open_parent_for open_at mkdirat open_start metadata_of set_mode euid parent path create normalize_parent purpose =
     bind_sum (open_start (if RootDir \<in> set parent then ascii ''/'' else ascii ''.'')) (\<lambda>start.
     bind_sum (walk_components open_at mkdirat create parent start) (\<lambda>current.
     bind_sum (validate_directory (metadata_of current) path purpose) (\<lambda>_.
     bind_sum (validate_authority_directory euid (metadata_of current) path purpose) (\<lambda>_.
     bind_sum (if normalize_parent then set_mode current 0x1C0 else Inr ()) (\<lambda>_. Inr current)))))"

text \<open>A directory that was accepted is the user's own, and nobody else may write to it.\<close>

lemma open_parent_for_trusted:
  assumes "open_parent_for open_at mkdirat open_start metadata_of set_mode euid parent path create norm purpose = Inr d"
  shows "\<exists>m. metadata_of d = Inr m \<and> dm_is_dir m \<and> dm_uid m = euid \<and> dm_mode m AND 0x12 = 0"
  using assms
  by (auto simp: open_parent_for_def validate_directory_def validate_owned_directory_def validate_authority_directory_def
      bind_sum_Inr_iff split: if_splits)

end
