(* ===== verification/State_Store.thy ===== *)
theory State_Store
  imports State_Migration Store_Files Rust_Paths
begin

text \<open>
  The state store (\<open>StateStore\<close> in \<open>src/storage.rs\<close>): acquiring it, loading, and saving through a
  temporary file. JSON coding, \<open>flock\<close>, the clock and entropy are parameters; the messages of I/O errors leave out the paths.
\<close>

definition LOCK_SUFFIX :: ustring where "LOCK_SUFFIX = ascii ''.lock''"
definition CORRUPT_SUFFIX :: ustring where "CORRUPT_SUFFIX = ascii ''.corrupt-''"
definition MAX_TEMP_ATTEMPTS :: nat where "MAX_TEMP_ATTEMPTS = 64"
definition MAX_STATE_FILE_BYTES :: nat where "MAX_STATE_FILE_BYTES = 16 * 1024 * 1024"

section \<open>Where the state is\<close>

record state_paths =
  sp_state :: ustring
  sp_normalize_parent :: bool

definition state_paths_new :: "ustring \<Rightarrow> bool \<Rightarrow> io_error + state_paths" where
  "state_paths_new state normalize_parent =
     (if path_file_name state = None then Inl (io_error_new InvalidInput ''state path must name a file'')
      else Inr \<lparr>sp_state = state, sp_normalize_parent = normalize_parent\<rparr>)"

definition resolve_state_paths :: "(ustring \<Rightarrow> ustring option) \<Rightarrow> io_error + ustring \<Rightarrow> ustring option \<Rightarrow> io_error + state_paths" where
  "resolve_state_paths env data_home flag =
     (case flag of
        Some path \<Rightarrow> state_paths_new path False
      | None \<Rightarrow>
          (case env (ascii ''MULT_STATE_PATH'') of
             Some path \<Rightarrow> state_paths_new path False
           | None \<Rightarrow> bind_sum data_home (\<lambda>home.
               state_paths_new (path_join (path_join home (ascii ''mult'')) (ascii ''state.json'')) True)))"

definition state_name :: "state_paths \<Rightarrow> ustring" where
  "state_name p = (case path_file_name (sp_state p) of Some name \<Rightarrow> name | None \<Rightarrow> [])"

text \<open>\<open>with_file_name\<close>: the last component replaced.\<close>

definition with_file_name :: "ustring \<Rightarrow> ustring \<Rightarrow> ustring" where
  "with_file_name path name =
     (let trimmed = rev (dropWhile (\<lambda>c. c = SLASH) (rev path))
      in rev (dropWhile (\<lambda>c. c \<noteq> SLASH) (rev trimmed)) @ name)"

definition lock_name :: "state_paths \<Rightarrow> ustring" where
  "lock_name p = state_name p @ LOCK_SUFFIX"

section \<open>Names with a random part\<close>

text \<open>What \<open>random_u64\<close> reads, one answer after another.\<close>

type_synonym suffixes = "nat \<Rightarrow> io_error + u64"

definition next_suffixes :: "suffixes \<Rightarrow> suffixes" where
  "next_suffixes source = (\<lambda>i. source (Suc i))"

definition hex_digit :: "nat \<Rightarrow> uchar" where
  "hex_digit d = (if d < 10 then of_nat (48 + d) else of_nat (87 + d))"

definition hex16 :: "u64 \<Rightarrow> ustring" where
  "hex16 w = map (\<lambda>i. hex_digit (unat (drop_bit (4 * i) w AND 0xF))) (rev [0..<16])"

definition temp_name :: "ustring \<Rightarrow> nat \<Rightarrow> u64 \<Rightarrow> ustring" where
  "temp_name name pid random = name @ ascii ''.tmp-'' @ decimal pid @ ascii ''-'' @ hex16 random"

definition backup_name :: "ustring \<Rightarrow> nat \<Rightarrow> u64 \<Rightarrow> ustring" where
  "backup_name name timestamp random = name @ CORRUPT_SUFFIX @ decimal timestamp @ ascii ''-'' @ hex16 random"

section \<open>Saving\<close>

definition write_temp :: "nat \<Rightarrow> ustring \<Rightarrow> ustring \<Rightarrow> bytes \<Rightarrow> fs_run \<Rightarrow> (io_error + unit) \<times> fs_run" where
  "write_temp i temp name contents =
     fs_bind (secure_private_regular_file i ''temporary state file'') (\<lambda>_.
     fs_bind (file_write_all i contents) (\<lambda>_.
     fs_bind (file_sync_all i) (\<lambda>_.
     fs_bind (dir_rename temp name) (\<lambda>_. dir_sync))))"

primrec save_attempts :: "nat \<Rightarrow> ustring \<Rightarrow> nat \<Rightarrow> bytes \<Rightarrow> suffixes \<Rightarrow> fs_run \<Rightarrow> (io_error + unit) \<times> fs_run" where
  "save_attempts 0 name pid contents source r =
     (Inl (io_error_new AlreadyExists ''could not create a unique temporary state file''), r)"
| "save_attempts (Suc attempts) name pid contents source r =
     (case source 0 of
        Inl error \<Rightarrow> (Inl error, r)
      | Inr random \<Rightarrow>
          let temp = temp_name name pid random in
          (case create_exclusive temp 0x180 r of
             (Inl error, r) \<Rightarrow>
               if io_kind error = AlreadyExists then save_attempts attempts name pid contents (next_suffixes source) r
               else (Inl error, r)
           | (Inr i, r) \<Rightarrow>
               (case write_temp i temp name contents r of
                  (Inl error, r) \<Rightarrow> (Inl error, snd (dir_unlink temp r))
                | (Inr _, r) \<Rightarrow> (Inr (), r))))"

definition save_to_directory ::
    "(project_state \<Rightarrow> string + bytes) \<Rightarrow> io_error + suffixes \<Rightarrow> nat \<Rightarrow> ustring \<Rightarrow> project_state \<Rightarrow> fs_run \<Rightarrow>
     (io_error + unit) \<times> fs_run" where
  "save_to_directory encode urandom pid name p r =
     (case encode p of
        Inl message \<Rightarrow> (Inl (invalid_data message), r)
      | Inr json \<Rightarrow>
          (case urandom of
             Inl error \<Rightarrow> (Inl error, r)
           | Inr source \<Rightarrow> save_attempts MAX_TEMP_ATTEMPTS name pid (json @ [10]) source r))"

definition store_save ::
    "(project_state \<Rightarrow> string + bytes) \<Rightarrow> io_error + suffixes \<Rightarrow> nat \<Rightarrow> state_paths \<Rightarrow> project_state \<Rightarrow> fs_run \<Rightarrow>
     (state_error + unit) \<times> fs_run" where
  "store_save encode urandom pid paths p r =
     (case validate_current_state p of
        Inl error \<Rightarrow> (Inl error, r)
      | Inr _ \<Rightarrow>
          (case save_to_directory encode urandom pid (state_name paths) p r of
             (res, r) \<Rightarrow> (map_err StateIo res, r)))"

section \<open>Acquiring\<close>

definition normalize_backup :: "ustring \<Rightarrow> fs_run \<Rightarrow> (io_error + unit) \<times> fs_run" where
  "normalize_backup name r =
     (case open_existing name r of
        (Inl _, r) \<Rightarrow> (Inr (), r)
      | (Inr i, r) \<Rightarrow>
          (case validate_private_regular_file i ''corrupt state backup'' r of
             (Inl _, r) \<Rightarrow> (Inr (), r)
           | (Inr _, r) \<Rightarrow> set_file_mode i 0x180 r))"

primrec normalize_backups :: "ustring list \<Rightarrow> fs_run \<Rightarrow> (io_error + unit) \<times> fs_run" where
  "normalize_backups [] r = (Inr (), r)"
| "normalize_backups (name # names) r = fs_bind (normalize_backup name) (\<lambda>_. normalize_backups names) r"

definition normalize_corrupt_backups :: "state_paths \<Rightarrow> fs_run \<Rightarrow> (io_error + unit) \<times> fs_run" where
  "normalize_corrupt_backups paths =
     fs_bind entry_names (\<lambda>names.
       normalize_backups (filter (starts_with (state_name paths @ CORRUPT_SUFFIX)) names))"

datatype flock_answer = LockTaken | LockHeld | LockFailed io_error

definition store_acquire :: "(nat \<Rightarrow> flock_answer) \<Rightarrow> io_error + unit \<Rightarrow> state_paths \<Rightarrow> fs_run \<Rightarrow> (state_error + unit) \<times> fs_run" where
  "store_acquire flock directory paths r =
     (case directory of
        Inl error \<Rightarrow> (Inl (StateIo error), r)
      | Inr _ \<Rightarrow>
          (case fs_bind (open_or_create (lock_name paths) 0x180) (\<lambda>i.
                  fs_bind (secure_private_regular_file i ''state lock'') (\<lambda>_. fs_return i)) r of
             (Inl error, r) \<Rightarrow> (Inl (StateIo error), r)
           | (Inr i, r) \<Rightarrow>
               (case flock i of
                  LockHeld \<Rightarrow> (Inl (Locked (sp_state paths)), r)
                | LockFailed error \<Rightarrow> (Inl (StateIo error), r)
                | LockTaken \<Rightarrow>
                    (case normalize_corrupt_backups paths r of (res, r) \<Rightarrow> (map_err StateIo res, r)))))"

section \<open>Loading\<close>

datatype decoded_state =
    DecodedV1 state_v1 | DecodedV2 state_v2 | DecodedV3 state_v3 | DecodedV4 project_state | DecodedV5 project_state

datatype decode_error = InvalidJson string | UnsupportedVersion u32

record state_decoder =
  sd_version :: "bytes \<Rightarrow> string + u32"
  sd_v1 :: "bytes \<Rightarrow> string + state_v1"
  sd_v2 :: "bytes \<Rightarrow> string + state_v2"
  sd_v3 :: "bytes \<Rightarrow> string + state_v3"
  sd_current :: "bytes \<Rightarrow> string + project_state"

definition decode_state :: "state_decoder \<Rightarrow> bytes \<Rightarrow> decode_error + decoded_state" where
  "decode_state d bs =
     bind_sum (map_err InvalidJson (sd_version d bs)) (\<lambda>version.
       if version = 1 then bind_sum (map_err InvalidJson (sd_v1 d bs)) (\<lambda>s. Inr (DecodedV1 s))
       else if version = 2 then bind_sum (map_err InvalidJson (sd_v2 d bs)) (\<lambda>s. Inr (DecodedV2 s))
       else if version = 3 then bind_sum (map_err InvalidJson (sd_v3 d bs)) (\<lambda>s. Inr (DecodedV3 s))
       else if version = 4 then bind_sum (map_err InvalidJson (sd_current d bs)) (\<lambda>s. Inr (DecodedV4 s))
       else if version = STATE_VERSION then bind_sum (map_err InvalidJson (sd_current d bs)) (\<lambda>s. Inr (DecodedV5 s))
       else Inl (UnsupportedVersion version))"

record loaded_state =
  ld_state :: project_state
  ld_needs_save :: bool
  ld_notice :: "ustring option"

primrec backup_attempts :: "nat \<Rightarrow> ustring \<Rightarrow> nat \<Rightarrow> suffixes \<Rightarrow> fs_run \<Rightarrow> (io_error + ustring) \<times> fs_run" where
  "backup_attempts 0 name timestamp source r =
     (Inl (io_error_new AlreadyExists ''could not choose a unique corrupt-state backup name''), r)"
| "backup_attempts (Suc attempts) name timestamp source r =
     (case source 0 of
        Inl error \<Rightarrow> (Inl error, r)
      | Inr random \<Rightarrow>
          let backup = backup_name name timestamp random in
          (case exists_no_follow backup r of
             (Inl error, r) \<Rightarrow> (Inl error, r)
           | (Inr True, r) \<Rightarrow> backup_attempts attempts name timestamp (next_suffixes source) r
           | (Inr False, r) \<Rightarrow>
               (case dir_rename name backup r of
                  (Inl error, r) \<Rightarrow> (Inl (invalid_data (''state JSON is invalid; failed to move it: '' @ io_message error)), r)
                | (Inr _, r) \<Rightarrow>
                    fs_bind (open_existing backup) (\<lambda>i.
                    fs_bind (secure_private_regular_file i ''corrupt state backup'') (\<lambda>_.
                    fs_bind dir_sync (\<lambda>_. fs_return backup))) r)))"

definition backup_invalid_state :: "io_error + suffixes \<Rightarrow> nat \<Rightarrow> ustring \<Rightarrow> fs_run \<Rightarrow> (io_error + ustring) \<times> fs_run" where
  "backup_invalid_state urandom timestamp name r =
     (case urandom of
        Inl error \<Rightarrow> (Inl error, r)
      | Inr source \<Rightarrow> backup_attempts MAX_TEMP_ATTEMPTS name timestamp source r)"

definition loaded :: "bool \<Rightarrow> project_state \<Rightarrow> loaded_state" where
  "loaded needs_save p = \<lparr>ld_state = p, ld_needs_save = needs_save, ld_notice = None\<rparr>"

text \<open>A file of this or the previous version: repaired first, then validated.\<close>

definition load_current :: "bool \<Rightarrow> project_state \<Rightarrow> entropy \<Rightarrow> state_error + loaded_state" where
  "load_current migrated p source =
     bind_sum (map_err (\<lambda>e. StateIo (number_error e)) (normalize_next_ids (if migrated then migrate_v4_to_v5 p else p)))
       (\<lambda>(ids_normalized, p).
     bind_sum (map_err StateIo (normalize_session_identities source p)) (\<lambda>(identities_normalized, p, _).
       let (statuses_normalized, p) = normalize_unowned_agent_statuses p in
       bind_sum (validate_current_state p) (\<lambda>_.
         Inr (loaded (migrated \<or> ids_normalized \<or> identities_normalized \<or> statuses_normalized) p))))"

record load_host =
  lh_decoder :: state_decoder
  lh_entropy :: entropy
  lh_suffixes :: "io_error + suffixes"
  lh_timestamp :: nat
  lh_current_dir :: "ustring option"
  lh_to_io :: "state_error \<Rightarrow> io_error"
  lh_text :: "string \<Rightarrow> ustring"

definition load_with_identity_source ::
    "load_host \<Rightarrow> state_paths \<Rightarrow> fs_run \<Rightarrow> (state_error + loaded_state) \<times> fs_run" where
  "load_with_identity_source h paths r =
     (case read_private_file (state_name paths) ''state file'' MAX_STATE_FILE_BYTES r of
        (Inl error, r) \<Rightarrow> (Inl (StateIo error), r)
      | (Inr None, r) \<Rightarrow>
          (map_err StateIo (bind_sum (try_first_run_with (lh_current_dir h) (lh_entropy h)) (\<lambda>p. Inr (loaded True p))), r)
      | (Inr (Some bs), r) \<Rightarrow>
          (case decode_state (lh_decoder h) bs of
             Inr (DecodedV1 old) \<Rightarrow>
               (bind_sum (map_err StateIo (migrate_v1_to_current (lh_to_io h) old (lh_entropy h))) (\<lambda>p. Inr (loaded True p)), r)
           | Inr (DecodedV2 old) \<Rightarrow>
               (bind_sum (map_err StateIo (migrate_v2_to_current (lh_to_io h) old (lh_entropy h))) (\<lambda>p. Inr (loaded True p)), r)
           | Inr (DecodedV3 old) \<Rightarrow>
               (bind_sum (map_err StateIo (migrate_v3_to_current (lh_to_io h) old (lh_entropy h))) (\<lambda>p. Inr (loaded True p)), r)
           | Inr (DecodedV4 p) \<Rightarrow> (load_current (pj_version p = 4) p (lh_entropy h), r)
           | Inr (DecodedV5 p) \<Rightarrow> (load_current (pj_version p = 4) p (lh_entropy h), r)
           | Inl (UnsupportedVersion version) \<Rightarrow> (Inl (UnsupportedVersionError (sp_state paths) version), r)
           | Inl (InvalidJson message) \<Rightarrow>
               (case fst (try_default_with (lh_entropy h)) of
                  Inl error \<Rightarrow> (Inl (StateIo error), r)
                | Inr p \<Rightarrow>
                    (case backup_invalid_state (lh_suffixes h) (lh_timestamp h) (state_name paths) r of
                       (Inl error, r) \<Rightarrow> (Inl (StateIo error), r)
                     | (Inr backup, r) \<Rightarrow>
                         (Inr \<lparr>ld_state = p, ld_needs_save = True,
                               ld_notice = Some (ascii ''state file '' @ sp_state paths @ ascii '' could not be decoded ('' @
                                 lh_text h message @ ascii ''); it was moved to '' @ with_file_name (sp_state paths) backup @
                                 ascii '' and this session started from defaults'')\<rparr>, r)))))"

end
