(* ===== verification/Store_Logic.thy ===== *)
theory Store_Logic
  imports State_Store
begin

text \<open>
  A small Hoare logic for the calls on the directory: from a state with the precondition, every
  directory a program goes through has the invariant, so has the last one when it fails, and when it
  returns the postcondition holds of what it returns.
\<close>

definition fs_triple :: "(fs_state \<Rightarrow> bool) \<Rightarrow> (fs_state \<Rightarrow> bool) \<Rightarrow> (fs_run \<Rightarrow> (io_error + 'a) \<times> fs_run) \<Rightarrow>
    ('a \<Rightarrow> fs_state \<Rightarrow> bool) \<Rightarrow> bool" where
  "fs_triple A P m Q \<longleftrightarrow> (\<forall>r res r'. P (fr_state r) \<longrightarrow> m r = (res, r') \<longrightarrow>
     (\<exists>tr. fr_trace r' = fr_trace r @ tr \<and> (\<forall>s \<in> set tr. A s)) \<and>
     (case res of Inr x \<Rightarrow> Q x (fr_state r') | Inl _ \<Rightarrow> A (fr_state r')))"

lemma fs_tripleI:
  assumes "\<And>r res r'. P (fr_state r) \<Longrightarrow> m r = (res, r') \<Longrightarrow>
    (\<exists>tr. fr_trace r' = fr_trace r @ tr \<and> (\<forall>s \<in> set tr. A s)) \<and>
    (case res of Inr x \<Rightarrow> Q x (fr_state r') | Inl _ \<Rightarrow> A (fr_state r'))"
  shows "fs_triple A P m Q"
  using assms by (simp add: fs_triple_def)

lemma fs_triple_use:
  assumes "fs_triple A P m Q" and "P (fr_state r)" and "m r = (res, r')"
  shows "(\<exists>tr. fr_trace r' = fr_trace r @ tr \<and> (\<forall>s \<in> set tr. A s)) \<and>
     (case res of Inr x \<Rightarrow> Q x (fr_state r') | Inl _ \<Rightarrow> A (fr_state r'))"
  using assms unfolding fs_triple_def by blast

lemma fs_tripleD:
  assumes "fs_triple A P m Q" and "P (fr_state r)" and "m r = (res, r')"
  obtains tr where "fr_trace r' = fr_trace r @ tr" "\<forall>s \<in> set tr. A s"
    "\<And>x. res = Inr x \<Longrightarrow> Q x (fr_state r')" "\<And>e. res = Inl e \<Longrightarrow> A (fr_state r')"
  using fs_triple_use [OF assms] that by (cases res) auto

lemma trace_trans:
  assumes "\<exists>tr. fr_trace r1 = fr_trace r @ tr \<and> (\<forall>s \<in> set tr. A s)"
    and "\<exists>tr. fr_trace r2 = fr_trace r1 @ tr \<and> (\<forall>s \<in> set tr. A s)"
  shows "\<exists>tr. fr_trace r2 = fr_trace r @ tr \<and> (\<forall>s \<in> set tr. A s)"
proof -
  obtain tr1 tr2 where "fr_trace r1 = fr_trace r @ tr1" "\<forall>s \<in> set tr1. A s"
      "fr_trace r2 = fr_trace r1 @ tr2" "\<forall>s \<in> set tr2. A s"
    using assms by blast
  then show ?thesis by (intro exI [of _ "tr1 @ tr2"]) auto
qed

lemma triple_call:
  assumes "\<And>s. P s \<Longrightarrow> A (snd (act s))" and "\<And>s n. P s \<Longrightarrow> A (damage n s)"
    and "\<And>s x s'. P s \<Longrightarrow> act s = (Inr x, s') \<Longrightarrow> Q x s'"
  shows "fs_triple A P (fs_call act damage) Q"
proof (rule fs_tripleI)
  fix r res r' assume p: "P (fr_state r)" and c: "fs_call act damage r = (res, r')"
  obtain a s where as: "(case fr_faults r of Some (error, n) # _ \<Rightarrow> (Inl error, damage n (fr_state r)) | _ \<Rightarrow> act (fr_state r)) = (a, s)"
    by fastforce
  have r': "res = a" "fr_state r' = s" "fr_trace r' = fr_trace r @ [s]" using c as by (auto simp: fs_call_def)
  have "act (fr_state r) = (a, s) \<or> (\<exists>e n. a = Inl e \<and> s = damage n (fr_state r))"
    using as by (auto split: list.splits option.splits prod.splits)
  then have "A s \<and> (case a of Inr x \<Rightarrow> Q x s | Inl _ \<Rightarrow> A s)"
    using assms(1) [OF p] assms(2) [OF p] assms(3) [OF p] by (auto split: sum.split)
  then show "(\<exists>tr. fr_trace r' = fr_trace r @ tr \<and> (\<forall>s \<in> set tr. A s)) \<and>
      (case res of Inr x \<Rightarrow> Q x (fr_state r') | Inl _ \<Rightarrow> A (fr_state r'))"
    using r' by (cases a) auto
qed

lemma triple_bind:
  assumes m: "fs_triple A P m Q" and k: "\<And>x. fs_triple A (Q x) (k x) R"
  shows "fs_triple A P (fs_bind m k) R"
proof (rule fs_tripleI)
  fix r res r' assume p: "P (fr_state r)" and b: "fs_bind m k r = (res, r')"
  obtain res1 r1 where m1: "m r = (res1, r1)" by fastforce
  obtain tr where tr: "fr_trace r1 = fr_trace r @ tr" "\<forall>s \<in> set tr. A s" "\<And>x. res1 = Inr x \<Longrightarrow> Q x (fr_state r1)"
      "\<And>e. res1 = Inl e \<Longrightarrow> A (fr_state r1)"
    using fs_tripleD [OF m p m1] by blast
  show "(\<exists>tr. fr_trace r' = fr_trace r @ tr \<and> (\<forall>s \<in> set tr. A s)) \<and>
      (case res of Inr x \<Rightarrow> R x (fr_state r') | Inl _ \<Rightarrow> A (fr_state r'))"
  proof (cases res1)
    case (Inl e)
    then show ?thesis using b m1 tr by (auto simp: fs_bind_def)
  next
    case (Inr x)
    have kx: "k x r1 = (res, r')" using b m1 Inr by (simp add: fs_bind_def)
    obtain tr' where tr': "fr_trace r' = fr_trace r1 @ tr'" "\<forall>s \<in> set tr'. A s" "\<And>x. res = Inr x \<Longrightarrow> R x (fr_state r')"
        "\<And>e. res = Inl e \<Longrightarrow> A (fr_state r')"
      using fs_tripleD [OF k tr(3) [OF Inr] kx] by blast
    have "fr_trace r' = fr_trace r @ (tr @ tr')" "\<forall>s \<in> set (tr @ tr'). A s" using tr(1,2) tr'(1,2) by auto
    then show ?thesis using tr'(3,4) by (cases res) auto
  qed
qed

lemma triple_return: "(\<And>s. P s \<Longrightarrow> Q x s) \<Longrightarrow> fs_triple A P (fs_return x) Q"
  by (rule fs_tripleI) (auto simp: fs_return_def)

lemma triple_fail: "(\<And>s. P s \<Longrightarrow> A s) \<Longrightarrow> fs_triple A P (fs_fail e) Q"
  by (rule fs_tripleI) (auto simp: fs_fail_def)

lemma triple_if: "(c \<Longrightarrow> fs_triple A P m Q) \<Longrightarrow> (\<not> c \<Longrightarrow> fs_triple A P m' Q) \<Longrightarrow> fs_triple A P (if c then m else m') Q"
  by simp

lemma triple_weaken:
  assumes "fs_triple A P m Q" and "\<And>s. P' s \<Longrightarrow> P s" and "\<And>x s. Q x s \<Longrightarrow> Q' x s"
  shows "fs_triple A P' m Q'"
proof (rule fs_tripleI, goal_cases)
  case (1 r res r')
  obtain tr where tr: "fr_trace r' = fr_trace r @ tr" "\<forall>s \<in> set tr. A s"
      "\<And>x. res = Inr x \<Longrightarrow> Q x (fr_state r')" "\<And>e. res = Inl e \<Longrightarrow> A (fr_state r')"
    using fs_tripleD [OF assms(1) assms(2) [OF 1(1)] 1(2)] by blast
  then show ?case using assms(3) by (cases res) auto
qed

section \<open>Calls that only look or change modes\<close>

text \<open>A property that does not depend on the mode of files survives making one private.\<close>

definition mode_free :: "(fs_state \<Rightarrow> bool) \<Rightarrow> bool" where
  "mode_free P \<longleftrightarrow> (\<forall>s i m. P s \<longrightarrow> P (update_inode i (\<lambda>f. f\<lparr>in_mode := m\<rparr>) s))"

lemma triple_metadata: "(\<And>s. P s \<Longrightarrow> A s) \<Longrightarrow> fs_triple A P (file_metadata i) (\<lambda>m s. P s \<and> m = fs_inodes s i)"
  unfolding file_metadata_def by (rule triple_call) (auto simp: no_damage_def)

lemma triple_set_mode: "(\<And>s. P s \<Longrightarrow> A s) \<Longrightarrow> mode_free P \<Longrightarrow> fs_triple A P (set_file_mode i m) (\<lambda>_. P)"
  unfolding set_file_mode_def by (rule triple_call) (auto simp: no_damage_def mode_free_def)

lemma triple_read: "(\<And>s. P s \<Longrightarrow> A s) \<Longrightarrow> fs_triple A P (file_read i n) (\<lambda>bs s. P s \<and> bs = take n (in_bytes (fs_inodes s i)))"
  unfolding file_read_def by (rule triple_call) (auto simp: no_damage_def)

lemma triple_open: "(\<And>s. P s \<Longrightarrow> A s) \<Longrightarrow> fs_triple A P (open_existing name) (\<lambda>i s. P s \<and> btm_get (fs_entries s) name = Some i)"
  unfolding open_existing_def by (rule triple_call) (auto simp: no_damage_def split: option.splits if_splits)

lemma triple_validate:
  assumes "\<And>s. P s \<Longrightarrow> A s"
  shows "fs_triple A P (validate_private_regular_file i d) (\<lambda>_. P)"
  unfolding validate_private_regular_file_def
proof (rule triple_bind [OF triple_metadata [OF assms]])
  fix m
  show "fs_triple A (\<lambda>s. P s \<and> m = fs_inodes s i) (\<lambda>r.
      if in_kind m \<noteq> RegularFile then fs_fail (invalid_data (d @ '' is not a regular file'')) r
      else if in_uid m \<noteq> fs_euid (fr_state r) then fs_fail (io_error_new PermissionDenied (d @ '' is not owned by the effective user'')) r
      else if in_nlink m \<noteq> 1 then fs_fail (io_error_new PermissionDenied (d @ '' has multiple hard links'')) r
      else fs_return () r) (\<lambda>_. P)"
    using assms by (intro fs_tripleI) (auto simp: fs_fail_def fs_return_def split: if_splits)
qed

lemma triple_secure:
  assumes "\<And>s. P s \<Longrightarrow> A s" and "mode_free P"
  shows "fs_triple A P (secure_private_regular_file i d) (\<lambda>_. P)"
proof -
  have check: "fs_triple A (\<lambda>s. P s \<and> m = fs_inodes s i)
      (if in_mode m AND 0x3F \<noteq> 0 then fs_fail (io_error_new PermissionDenied (d @ '' could not be restricted to owner-only access''))
       else fs_return ()) (\<lambda>_. P)" for m
    using assms(1) by (auto intro: triple_if triple_fail triple_return)
  note step = triple_bind [OF triple_metadata check]
  note step = triple_bind [OF triple_set_mode [where P = P] step]
  show ?thesis
    unfolding secure_private_regular_file_def
    by (rule triple_bind [OF triple_validate [where P = P] step]) (use assms in auto)
qed

end
