(* ===== verification/Store_Save.thy ===== *)
theory Store_Save
  imports Store_Logic
begin

text \<open>
  Saving is atomic: at every moment of it, and after a crash at any of them, the state file holds
  one of two contents entirely. What a file holds after a crash is only known when it was synced.
\<close>

definition all_entries :: "fs_state \<Rightarrow> entries set" where
  "all_entries s = insert (fs_entries s) (set (fs_possible s))"

text \<open>What a crash leaves under a name is one of the given contents, entire (\<open>None\<close>: no file).\<close>

definition crash_safe :: "bytes option set \<Rightarrow> ustring \<Rightarrow> fs_state \<Rightarrow> bool" where
  "crash_safe C name s \<longleftrightarrow> (\<forall>e \<in> all_entries s.
     case btm_get e name of
       None \<Rightarrow> None \<in> C
     | Some i \<Rightarrow> in_synced (fs_inodes s i) = in_bytes (fs_inodes s i) \<and> Some (in_bytes (fs_inodes s i)) \<in> C)"

definition fs_wf :: "fs_state \<Rightarrow> bool" where
  "fs_wf s \<longleftrightarrow> (\<forall>e \<in> all_entries s. \<forall>k i. btm_get e k = Some i \<longrightarrow> i < fs_next s)"

abbreviation file_inv :: "bytes option set \<Rightarrow> ustring \<Rightarrow> fs_state \<Rightarrow> bool" where
  "file_inv C name s \<equiv> fs_wf s \<and> crash_safe C name s"

text \<open>The temporary file while it is written: only its own name leads to it.\<close>

definition temp_file :: "nat \<Rightarrow> ustring \<Rightarrow> ustring \<Rightarrow> (inode \<Rightarrow> bool) \<Rightarrow> fs_state \<Rightarrow> bool" where
  "temp_file i temp name P s \<longleftrightarrow> btm_get (fs_entries s) temp = Some i \<and> temp \<noteq> name \<and> i < fs_next s \<and>
     (\<forall>e \<in> all_entries s. btm_get e name \<noteq> Some i) \<and> P (fs_inodes s i)"

lemma all_entries_update [simp]:
  "all_entries (update_inode i f s) = all_entries s" "fs_next (update_inode i f s) = fs_next s"
  "fs_entries (update_inode i f s) = fs_entries s"
  "fs_inodes (update_inode i f s) j = (if j = i then f (fs_inodes s i) else fs_inodes s j)"
  by (simp_all add: all_entries_def update_inode_def)

lemma all_entries_set: "all_entries (set_entries e s) = insert e (all_entries s)"
  by (auto simp: all_entries_def set_entries_def)

lemma crash_safe_mono: "crash_safe C name s \<Longrightarrow> C \<subseteq> D \<Longrightarrow> crash_safe D name s"
  unfolding crash_safe_def by (auto split: option.splits)

lemma update_unnamed:
  assumes "file_inv C name s" and "\<forall>e \<in> all_entries s. btm_get e name \<noteq> Some i"
  shows "file_inv C name (update_inode i f s)"
proof -
  have "fs_wf (update_inode i f s)" using assms(1) by (simp add: fs_wf_def)
  moreover have "crash_safe C name (update_inode i f s)"
    unfolding crash_safe_def
  proof
    fix e assume e: "e \<in> all_entries (update_inode i f s)"
    then have "case btm_get e name of None \<Rightarrow> None \<in> C
        | Some i \<Rightarrow> in_synced (fs_inodes s i) = in_bytes (fs_inodes s i) \<and> Some (in_bytes (fs_inodes s i)) \<in> C"
      using assms(1) by (simp add: crash_safe_def)
    then show "case btm_get e name of None \<Rightarrow> None \<in> C
        | Some j \<Rightarrow> in_synced (fs_inodes (update_inode i f s) j) = in_bytes (fs_inodes (update_inode i f s) j) \<and>
            Some (in_bytes (fs_inodes (update_inode i f s) j)) \<in> C"
      using assms(2) e by (cases "btm_get e name") auto
  qed
  ultimately show ?thesis by blast
qed

lemma crash_safe_same:
  assumes "all_entries s' = all_entries s"
    and "\<And>i. in_synced (fs_inodes s' i) = in_synced (fs_inodes s i)" "\<And>i. in_bytes (fs_inodes s' i) = in_bytes (fs_inodes s i)"
  shows "crash_safe C name s' = crash_safe C name s"
  by (simp add: crash_safe_def assms cong: option.case_cong)

lemma mode_free_inv: "mode_free (\<lambda>s. file_inv C name s)"
  unfolding mode_free_def
proof (intro allI impI)
  fix s i m assume "file_inv C name s"
  then show "file_inv C name (update_inode i (\<lambda>f. f\<lparr>in_mode := m\<rparr>) s)"
    using crash_safe_same [of "update_inode i (\<lambda>f. f\<lparr>in_mode := m\<rparr>) s" s C name] by (simp add: fs_wf_def)
qed

lemma mode_free_temp:
  assumes "\<And>f m. P f \<Longrightarrow> P (f\<lparr>in_mode := m\<rparr>)"
  shows "mode_free (\<lambda>s. file_inv C name s \<and> temp_file i temp name P s)"
  unfolding mode_free_def
proof (intro allI impI)
  fix s j m assume s: "file_inv C name s \<and> temp_file i temp name P s"
  then have "file_inv C name (update_inode j (\<lambda>f. f\<lparr>in_mode := m\<rparr>) s)"
    using mode_free_inv unfolding mode_free_def by blast
  with s show "file_inv C name (update_inode j (\<lambda>f. f\<lparr>in_mode := m\<rparr>) s) \<and>
      temp_file i temp name P (update_inode j (\<lambda>f. f\<lparr>in_mode := m\<rparr>) s)"
    using assms by (auto simp: temp_file_def)
qed

section \<open>Each call of a save\<close>

lemma temp_name_other: "temp_name name pid random \<noteq> name"
proof
  assume "temp_name name pid random = name"
  then have "length (temp_name name pid random) = length name" by simp
  then show False by (simp add: temp_name_def)
qed

definition with_new_file :: "ustring \<Rightarrow> inode \<Rightarrow> fs_state \<Rightarrow> fs_state" where
  "with_new_file temp f s = (set_entries (btm_insert temp (fs_next s) (fs_entries s)) s)
     \<lparr>fs_inodes := (fs_inodes s)(fs_next s := f), fs_next := Suc (fs_next s)\<rparr>"

lemma with_new_file_simps [simp]:
  "all_entries (with_new_file temp f s) = insert (btm_insert temp (fs_next s) (fs_entries s)) (all_entries s)"
  "fs_inodes (with_new_file temp f s) = (fs_inodes s)(fs_next s := f)" "fs_next (with_new_file temp f s) = Suc (fs_next s)"
  "fs_entries (with_new_file temp f s) = btm_insert temp (fs_next s) (fs_entries s)"
  by (auto simp: with_new_file_def all_entries_def set_entries_def)

lemma create_inv:
  assumes "file_inv C name s" and "temp \<noteq> name" and "P f"
  shows "file_inv C name (with_new_file temp f s) \<and> temp_file (fs_next s) temp name P (with_new_file temp f s)"
proof -
  have old: "btm_get e k = Some i \<Longrightarrow> i < fs_next s" if "e \<in> all_entries s" for e k i
    using assms(1) that by (auto simp: fs_wf_def)
  have cur: "fs_entries s \<in> all_entries s" by (simp add: all_entries_def)
  have same: "btm_get (btm_insert temp (fs_next s) (fs_entries s)) name = btm_get (fs_entries s) name"
    using assms(2) by simp
  have "fs_wf (with_new_file temp f s)"
    unfolding fs_wf_def
  proof (intro ballI allI impI)
    fix e k i assume "e \<in> all_entries (with_new_file temp f s)" "btm_get e k = Some i"
    then have "i = fs_next s \<or> i < fs_next s" using old cur by (auto split: if_splits)
    then show "i < fs_next (with_new_file temp f s)" by auto
  qed
  moreover have "crash_safe C name (with_new_file temp f s)"
    unfolding crash_safe_def
  proof
    fix e assume "e \<in> all_entries (with_new_file temp f s)"
    then obtain e' where e': "e' \<in> all_entries s" "btm_get e name = btm_get e' name" using cur same by auto
    have "case btm_get e' name of None \<Rightarrow> None \<in> C
        | Some i \<Rightarrow> in_synced (fs_inodes s i) = in_bytes (fs_inodes s i) \<and> Some (in_bytes (fs_inodes s i)) \<in> C"
      using assms(1) e'(1) by (simp add: crash_safe_def)
    then show "case btm_get e name of None \<Rightarrow> None \<in> C
        | Some i \<Rightarrow> in_synced (fs_inodes (with_new_file temp f s) i) = in_bytes (fs_inodes (with_new_file temp f s) i) \<and>
            Some (in_bytes (fs_inodes (with_new_file temp f s) i)) \<in> C"
      using old [OF e'(1), of name] e'(2) by (cases "btm_get e' name") auto
  qed
  moreover have "temp_file (fs_next s) temp name P (with_new_file temp f s)"
  proof -
    have "btm_get e' name \<noteq> Some (fs_next s)" if "e' \<in> all_entries (with_new_file temp f s)" for e'
      using that old [of _ name "fs_next s"] cur same by auto
    then show ?thesis using assms(2,3) by (simp add: temp_file_def)
  qed
  ultimately show ?thesis by blast
qed

lemma triple_create:
  assumes "temp \<noteq> name"
  shows "fs_triple (file_inv C name) (file_inv C name) (create_exclusive temp mode)
    (\<lambda>i s. file_inv C name s \<and> temp_file i temp name (\<lambda>f. in_bytes f = []) s)"
proof -
  let ?f = "\<lambda>s. \<lparr>in_kind = RegularFile, in_uid = fs_euid s, in_nlink = 1, in_mode = mode, in_bytes = [], in_synced = []\<rparr>"
  have c: "file_inv C name s \<Longrightarrow> file_inv C name (with_new_file temp (?f s) s) \<and>
     temp_file (fs_next s) temp name (\<lambda>f. in_bytes f = []) (with_new_file temp (?f s) s)" for s
    by (rule create_inv) (use assms in simp_all)
  show ?thesis
    unfolding create_exclusive_def
    by (intro triple_call) (use c in \<open>auto simp: no_damage_def with_new_file_def split: if_splits\<close>)
qed

lemma temp_update:
  assumes "file_inv C name s" and "temp_file i temp name P s" and "\<And>f. P f \<Longrightarrow> Q (g f)"
  shows "file_inv C name (update_inode i g s)" "temp_file i temp name Q (update_inode i g s)"
proof -
  have u: "\<forall>e \<in> all_entries s. btm_get e name \<noteq> Some i" using assms(2) by (simp add: temp_file_def)
  show "file_inv C name (update_inode i g s)" by (rule update_unnamed [OF assms(1) u])
  show "temp_file i temp name Q (update_inode i g s)" using assms(2,3) by (simp add: temp_file_def)
qed

lemma triple_write:
  "fs_triple (file_inv C name) (\<lambda>s. file_inv C name s \<and> temp_file i temp name (\<lambda>f. in_bytes f = []) s) (file_write_all i bs)
    (\<lambda>_ s. file_inv C name s \<and> temp_file i temp name (\<lambda>f. in_bytes f = bs) s)"
  unfolding file_write_all_def
proof (rule triple_call)
  fix s x s'
  assume "file_inv C name s \<and> temp_file i temp name (\<lambda>f. in_bytes f = []) s"
  then have s: "file_inv C name s" "temp_file i temp name (\<lambda>f. in_bytes f = []) s" by auto
  show "file_inv C name (snd (Inr (), update_inode i (\<lambda>f. f\<lparr>in_bytes := in_bytes f @ bs\<rparr>) s))"
    using temp_update(1) [OF s, where Q = "\<lambda>_. True"] by simp
  show "file_inv C name (update_inode i (\<lambda>f. f\<lparr>in_bytes := in_bytes f @ take n bs\<rparr>) s)" for n
    using temp_update(1) [OF s, where Q = "\<lambda>_. True"] by simp
  assume "(Inr (), update_inode i (\<lambda>f. f\<lparr>in_bytes := in_bytes f @ bs\<rparr>) s) = (Inr x, s')"
  then show "file_inv C name s' \<and> temp_file i temp name (\<lambda>f. in_bytes f = bs) s'"
    using temp_update [OF s, where Q = "\<lambda>f. in_bytes f = bs" and g = "\<lambda>f. f\<lparr>in_bytes := in_bytes f @ bs\<rparr>"] by auto
qed

lemma triple_sync:
  "fs_triple (file_inv C name) (\<lambda>s. file_inv C name s \<and> temp_file i temp name (\<lambda>f. in_bytes f = bs) s) (file_sync_all i)
    (\<lambda>_ s. file_inv C name s \<and> temp_file i temp name (\<lambda>f. in_bytes f = bs \<and> in_synced f = bs) s)"
  unfolding file_sync_all_def
proof (rule triple_call)
  fix s x s'
  assume "file_inv C name s \<and> temp_file i temp name (\<lambda>f. in_bytes f = bs) s"
  then have s: "file_inv C name s" "temp_file i temp name (\<lambda>f. in_bytes f = bs) s" by auto
  note u = temp_update [OF s, where Q = "\<lambda>f. in_bytes f = bs \<and> in_synced f = bs" and g = "\<lambda>f. f\<lparr>in_synced := in_bytes f\<rparr>"]
  show "file_inv C name (snd (Inr (), update_inode i (\<lambda>f. f\<lparr>in_synced := in_bytes f\<rparr>) s))" using u by simp
  assume "(Inr (), update_inode i (\<lambda>f. f\<lparr>in_synced := in_bytes f\<rparr>) s) = (Inr x, s')"
  then show "file_inv C name s' \<and> temp_file i temp name (\<lambda>f. in_bytes f = bs \<and> in_synced f = bs) s'" using u by auto
qed (simp add: no_damage_def)

definition current_is :: "bytes option \<Rightarrow> ustring \<Rightarrow> fs_state \<Rightarrow> bool" where
  "current_is c name s \<longleftrightarrow> map_option (\<lambda>i. in_bytes (fs_inodes s i)) (btm_get (fs_entries s) name) = c"

lemma rename_inv:
  assumes "file_inv C name s" and "temp_file i temp name (\<lambda>f. in_bytes f = bs \<and> in_synced f = bs) s" and "Some bs \<in> C"
  shows "file_inv C name (set_entries (btm_insert name i (btm_remove temp (fs_entries s))) s) \<and>
    current_is (Some bs) name (set_entries (btm_insert name i (btm_remove temp (fs_entries s))) s)"
proof -
  have cur: "fs_entries s \<in> all_entries s" by (simp add: all_entries_def)
  let ?s = "set_entries (btm_insert name i (btm_remove temp (fs_entries s))) s"
  have same: "fs_next ?s = fs_next s" "fs_inodes ?s = fs_inodes s" "fs_entries ?s = btm_insert name i (btm_remove temp (fs_entries s))"
    by (simp_all add: set_entries_def)
  have "fs_wf ?s"
    using assms(1,2) cur unfolding fs_wf_def all_entries_set same temp_file_def by (auto split: if_splits)
  moreover have "crash_safe C name ?s"
    using assms unfolding crash_safe_def all_entries_set same temp_file_def by auto
  moreover have "current_is (Some bs) name ?s" using assms(2) by (simp add: current_is_def same temp_file_def)
  ultimately show ?thesis by blast
qed

lemma triple_rename:
  assumes "Some bs \<in> C"
  shows "fs_triple (file_inv C name) (\<lambda>s. file_inv C name s \<and> temp_file i temp name (\<lambda>f. in_bytes f = bs \<and> in_synced f = bs) s)
    (dir_rename temp name) (\<lambda>_ s. file_inv C name s \<and> current_is (Some bs) name s)"
  unfolding dir_rename_def
proof (rule triple_call)
  fix s assume s: "file_inv C name s \<and> temp_file i temp name (\<lambda>f. in_bytes f = bs \<and> in_synced f = bs) s"
  then have "btm_get (fs_entries s) temp = Some i" by (simp add: temp_file_def)
  moreover note rename_inv [where C = C and name = name and s = s and i = i and temp = temp and bs = bs, OF _ _ assms]
  ultimately show "file_inv C name (snd (case btm_get (fs_entries s) temp of
       None \<Rightarrow> (Inl (io_error_new NotFound ''No such file or directory''), s)
     | Some i \<Rightarrow> (Inr (), set_entries (btm_insert name i (btm_remove temp (fs_entries s))) s)))"
    and "\<And>x s'. (case btm_get (fs_entries s) temp of
       None \<Rightarrow> (Inl (io_error_new NotFound ''No such file or directory''), s)
     | Some i \<Rightarrow> (Inr (), set_entries (btm_insert name i (btm_remove temp (fs_entries s))) s)) = (Inr x, s') \<Longrightarrow>
     file_inv C name s' \<and> current_is (Some bs) name s'"
    using s by auto
qed (simp add: no_damage_def)

lemma triple_dir_sync:
  "fs_triple (file_inv C name) (\<lambda>s. file_inv C name s \<and> current_is c name s) dir_sync
    (\<lambda>_ s. file_inv C name s \<and> crash_safe {c} name s)"
  unfolding dir_sync_def
  by (rule triple_call) (auto simp: no_damage_def fs_wf_def crash_safe_def all_entries_def current_is_def split: option.splits)

lemma triple_unlink:
  assumes "temp \<noteq> name"
  shows "fs_triple (file_inv C name) (file_inv C name) (dir_unlink temp) (\<lambda>_. file_inv C name)"
proof -
  have "file_inv C name (set_entries (btm_remove temp (fs_entries s)) s)" if "file_inv C name s" for s
  proof -
    have cur: "fs_entries s \<in> all_entries s" by (simp add: all_entries_def)
    have same: "fs_next (set_entries e s) = fs_next s" "fs_inodes (set_entries e s) = fs_inodes s" for e
      by (simp_all add: set_entries_def)
    show ?thesis using that cur assms unfolding fs_wf_def crash_safe_def all_entries_set same
      by (auto split: if_splits)
  qed
  note u = this
  show ?thesis
    unfolding dir_unlink_def by (intro triple_call) (use u in \<open>auto simp: no_damage_def split: if_splits\<close>)
qed

section \<open>The whole\<close>

lemma triple_write_temp:
  assumes "Some bs \<in> C"
  shows "fs_triple (file_inv C name) (\<lambda>s. file_inv C name s \<and> temp_file i temp name (\<lambda>f. in_bytes f = []) s)
    (write_temp i temp name bs) (\<lambda>_ s. file_inv C name s \<and> crash_safe {Some bs} name s)"
proof -
  note step = triple_bind [OF triple_rename [OF assms] triple_dir_sync]
  note step = triple_bind [OF triple_sync step]
  note step = triple_bind [OF triple_write step]
  have secure: "fs_triple (file_inv C name) (\<lambda>s. file_inv C name s \<and> temp_file i temp name (\<lambda>f. in_bytes f = []) s)
      (secure_private_regular_file i d) (\<lambda>_ s. file_inv C name s \<and> temp_file i temp name (\<lambda>f. in_bytes f = []) s)" for d
    by (rule triple_secure, blast, rule mode_free_temp, simp)
  show ?thesis unfolding write_temp_def by (rule triple_bind [OF secure step])
qed

lemma triple_save_attempts:
  assumes "Some bs \<in> C"
  shows "fs_triple (file_inv C name) (file_inv C name) (save_attempts attempts name pid bs source)
    (\<lambda>_ s. file_inv C name s \<and> crash_safe {Some bs} name s)"
proof (induction attempts arbitrary: source)
  case 0
  show ?case by (rule fs_tripleI) auto
next
  case (Suc attempts)
  show ?case
  proof (rule fs_tripleI, goal_cases)
    case (1 r res r')
    show ?case
    proof (cases "source 0")
      case (Inl e)
      then show ?thesis using 1 by auto
    next
      case (Inr random)
      let ?temp = "temp_name name pid random"
      obtain a r1 where c: "create_exclusive ?temp 0x180 r = (a, r1)" by fastforce
      obtain tr1 where tr1: "fr_trace r1 = fr_trace r @ tr1" "\<forall>s \<in> set tr1. file_inv C name s"
          "\<And>i. a = Inr i \<Longrightarrow> file_inv C name (fr_state r1) \<and> temp_file i ?temp name (\<lambda>f. in_bytes f = []) (fr_state r1)"
          "\<And>e. a = Inl e \<Longrightarrow> file_inv C name (fr_state r1)"
        using fs_tripleD [OF triple_create [OF temp_name_other] 1(1) c] by blast
      show ?thesis
      proof (cases a)
        case (Inl e)
        show ?thesis
        proof (cases "io_kind e = AlreadyExists")
          case True
          then have "save_attempts attempts name pid bs (next_suffixes source) r1 = (res, r')"
            using 1(2) Inr c Inl by (simp add: Let_def)
          from fs_triple_use [OF Suc.IH tr1(4) [OF Inl] this]
          obtain tr2 where tr2: "fr_trace r' = fr_trace r1 @ tr2" "\<forall>s \<in> set tr2. file_inv C name s"
            and res: "case res of Inr x \<Rightarrow> file_inv C name (fr_state r') \<and> crash_safe {Some bs} name (fr_state r')
              | Inl _ \<Rightarrow> file_inv C name (fr_state r')" by blast
          have "fr_trace r' = fr_trace r @ (tr1 @ tr2)" "\<forall>s \<in> set (tr1 @ tr2). file_inv C name s"
            using tr1(1,2) tr2 by auto
          then show ?thesis using res by blast
        next
          case False
          then show ?thesis using 1(2) \<open>source 0 = Inr random\<close> c Inl tr1 by (auto simp: Let_def)
        qed
      next
        case (Inr i)
        obtain b r2 where w: "write_temp i ?temp name bs r1 = (b, r2)" by fastforce
        obtain tr2 where tr2: "fr_trace r2 = fr_trace r1 @ tr2" "\<forall>s \<in> set tr2. file_inv C name s"
            "\<And>x. b = Inr x \<Longrightarrow> file_inv C name (fr_state r2) \<and> crash_safe {Some bs} name (fr_state r2)"
            "\<And>e. b = Inl e \<Longrightarrow> file_inv C name (fr_state r2)"
          using fs_tripleD [OF triple_write_temp [OF assms] tr1(3) [OF Inr] w] by blast
        show ?thesis
        proof (cases b)
          case (Inl e)
          obtain u r3 where u: "dir_unlink ?temp r2 = (u, r3)" by fastforce
          obtain tr3 where tr3: "fr_trace r3 = fr_trace r2 @ tr3" "\<forall>s \<in> set tr3. file_inv C name s"
              "\<And>x. u = Inr x \<Longrightarrow> file_inv C name (fr_state r3)" "\<And>e. u = Inl e \<Longrightarrow> file_inv C name (fr_state r3)"
            using fs_tripleD [OF triple_unlink [OF temp_name_other] tr2(4) [OF Inl] u] by blast
          have "file_inv C name (fr_state r3)" using tr3(3,4) by (cases u) auto
          then show ?thesis using 1(2) \<open>source 0 = Inr random\<close> c Inr w Inl u tr1(1,2) tr2(1,2) tr3(1,2)
            by (auto simp: Let_def)
        next
          case fin: (Inr x)
          then show ?thesis using 1(2) \<open>source 0 = Inr random\<close> c Inr w tr1(1,2) tr2 by (auto simp: Let_def)
        qed
      qed
    qed
  qed
qed

end
