(* ===== verification/Store_Load.thy ===== *)
theory Store_Load
  imports Store_Save
begin

text \<open>
  Loading: whatever the file holds, what it held stays in the directory, in place or under the name of a
  backup, and a state that is loaded is valid and of the current version.
\<close>

section \<open>The bytes stay\<close>

definition holds_at :: "bytes \<Rightarrow> ustring \<Rightarrow> fs_state \<Rightarrow> bool" where
  "holds_at bs k s \<longleftrightarrow> (\<exists>i. btm_get (fs_entries s) k = Some i \<and> in_bytes (fs_inodes s i) = bs)"

definition kept_somewhere :: "bytes \<Rightarrow> ustring \<Rightarrow> fs_state \<Rightarrow> bool" where
  "kept_somewhere bs name s \<longleftrightarrow> (\<exists>k. (k = name \<or> starts_with (name @ CORRUPT_SUFFIX) k) \<and> holds_at bs k s)"

lemma holds_kept: "holds_at bs name s \<Longrightarrow> kept_somewhere bs name s"
  by (auto simp: kept_somewhere_def)

lemma mode_free_holds: "mode_free (holds_at bs k)"
  by (auto simp: mode_free_def holds_at_def)

lemma mode_free_kept: "mode_free (kept_somewhere bs name)"
  using mode_free_holds unfolding mode_free_def kept_somewhere_def by blast

lemma backup_name_starts: "starts_with (name @ CORRUPT_SUFFIX) (backup_name name t random)"
  by (simp add: starts_with_iff backup_name_def prefix_def)

lemma triple_read_private:
  assumes "\<And>s. P s \<Longrightarrow> A s" and "mode_free P"
  shows "fs_triple A P (read_private_file name d n) (\<lambda>_. P)"
proof (rule fs_tripleI, goal_cases)
  case (1 r res r')
  obtain a r1 where o: "open_existing name r = (a, r1)" by fastforce
  have t: "(\<exists>tr. fr_trace r1 = fr_trace r @ tr \<and> (\<forall>s \<in> set tr. A s))"
    using fs_triple_use [OF triple_open [where P = P and A = A, OF assms(1)] 1(1) o] by blast
  have keep: "P (fr_state r1)"
    using 1(1) o by (auto simp: open_existing_def fs_call_def no_damage_def split: list.splits option.splits prod.splits if_splits)
  show ?case
  proof (cases a)
    case (Inl e)
    then show ?thesis using 1(2) o t keep assms(1) by (auto simp: read_private_file_def split: if_splits)
  next
    case (Inr i)
    have check: "fs_triple A (\<lambda>s. P s \<and> bs = take m (in_bytes (fs_inodes s i)))
        (if n < length bs then fs_fail (invalid_data (d @ '' exceeds '' @ show_nat n @ '' bytes'')) else fs_return (Some bs)) (\<lambda>_. P)" for bs m
      using assms(1) by (auto intro: triple_if triple_fail triple_return)
    note step = triple_bind [OF triple_read [where P = P, OF assms(1)] check]
    note step = triple_bind [OF triple_secure [where P = P, OF assms(1) assms(2)] step]
    have "fs_bind (secure_private_regular_file i d) (\<lambda>_. fs_bind (file_read i (n + 1)) (\<lambda>bs.
        if n < length bs then fs_fail (invalid_data (d @ '' exceeds '' @ show_nat n @ '' bytes'')) else fs_return (Some bs))) r1 = (res, r')"
      using 1(2) o Inr by (simp add: read_private_file_def)
    from fs_triple_use [OF step keep this] show ?thesis using trace_trans [OF t] by blast
  qed
qed

lemma rename_keeps:
  assumes "holds_at bs name s" and "btm_get (fs_entries s) name = Some i"
  shows "kept_somewhere bs name (set_entries (btm_insert (backup_name name t random) i (btm_remove name (fs_entries s))) s)"
proof -
  have "holds_at bs (backup_name name t random)
      (set_entries (btm_insert (backup_name name t random) i (btm_remove name (fs_entries s))) s)"
    using assms by (auto simp: holds_at_def set_entries_def)
  then show ?thesis using backup_name_starts unfolding kept_somewhere_def by blast
qed

lemma triple_rename_backup:
  "fs_triple (kept_somewhere bs name) (holds_at bs name) (dir_rename name (backup_name name t random)) (\<lambda>_. kept_somewhere bs name)"
  unfolding dir_rename_def
  by (rule triple_call) (auto simp: no_damage_def holds_kept rename_keeps split: option.splits)

lemma triple_exists:
  "fs_triple (kept_somewhere bs name) (holds_at bs name) (exists_no_follow k) (\<lambda>_. holds_at bs name)"
proof (rule fs_tripleI, goal_cases)
  case (1 r res r')
  obtain a r1 where o: "open_existing k r = (a, r1)" by fastforce
  have t: "(\<exists>tr. fr_trace r1 = fr_trace r @ tr \<and> (\<forall>s \<in> set tr. kept_somewhere bs name s))"
    using fs_triple_use [OF triple_open [where P = "holds_at bs name" and A = "kept_somewhere bs name", OF holds_kept] 1(1) o] by blast
  have "holds_at bs name (fr_state r1)"
    using 1(1) o by (auto simp: open_existing_def fs_call_def no_damage_def split: list.splits option.splits prod.splits if_splits)
  then show ?case using 1(2) o t holds_kept
    by (auto simp: exists_no_follow_def split: sum.splits if_splits)
qed

lemma triple_backup_attempts:
  "fs_triple (kept_somewhere bs name) (holds_at bs name) (backup_attempts attempts name t source) (\<lambda>_. kept_somewhere bs name)"
proof (induction attempts arbitrary: source)
  case 0
  show ?case by (rule fs_tripleI) (auto simp: holds_kept)
next
  case (Suc attempts)
  show ?case
  proof (rule fs_tripleI, goal_cases)
    case (1 r res r')
    show ?case
    proof (cases "source 0")
      case (Inl e)
      then show ?thesis using 1 holds_kept by auto
    next
      case random: (Inr random)
      let ?backup = "backup_name name t random"
      obtain a r1 where e: "exists_no_follow ?backup r = (a, r1)" by fastforce
      obtain tr1 where tr1: "fr_trace r1 = fr_trace r @ tr1" "\<forall>s \<in> set tr1. kept_somewhere bs name s"
        and a: "case a of Inr x \<Rightarrow> holds_at bs name (fr_state r1) | Inl _ \<Rightarrow> kept_somewhere bs name (fr_state r1)"
        using fs_triple_use [OF triple_exists 1(1) e] by blast
      have extend: ?thesis if "\<exists>tr. fr_trace r' = fr_trace r1 @ tr \<and> (\<forall>s \<in> set tr. kept_somewhere bs name s)"
          "case res of Inr x \<Rightarrow> kept_somewhere bs name (fr_state r') | Inl _ \<Rightarrow> kept_somewhere bs name (fr_state r')"
        using trace_trans [OF _ that(1)] tr1 that(2) by blast
      show ?thesis
      proof (cases a)
        case (Inl error)
        then show ?thesis using 1(2) random e a tr1 by (auto simp: Let_def)
      next
        case (Inr there)
        then have here: "holds_at bs name (fr_state r1)" using a by simp
        show ?thesis
        proof (cases there)
          case True
          then have again: "backup_attempts attempts name t (next_suffixes source) r1 = (res, r')"
            using 1(2) random e Inr by (simp add: Let_def)
          show ?thesis using fs_triple_use [OF Suc.IH here again] by (intro extend) blast+
        next
          case False
          obtain b r2 where m: "dir_rename name ?backup r1 = (b, r2)" by fastforce
          obtain tr2 where tr2: "fr_trace r2 = fr_trace r1 @ tr2" "\<forall>s \<in> set tr2. kept_somewhere bs name s"
            and b: "case b of Inr x \<Rightarrow> kept_somewhere bs name (fr_state r2) | Inl _ \<Rightarrow> kept_somewhere bs name (fr_state r2)"
            using fs_triple_use [OF triple_rename_backup here m] by blast
          then have moved: "kept_somewhere bs name (fr_state r2)" by (cases b) auto
          show ?thesis
          proof (cases b)
            case (Inl error)
            then have "res = Inl (invalid_data (''state JSON is invalid; failed to move it: '' @ io_message error))" "r' = r2"
              using 1(2) random e Inr False m \<open>a = Inr there\<close> by (auto simp: Let_def)
            then show ?thesis using tr2 moved by (intro extend) auto
          next
            case fin: (Inr u)
            let ?A = "kept_somewhere bs name"
            have sync: "fs_triple ?A ?A dir_sync (\<lambda>_. ?A)"
              unfolding dir_sync_def by (rule triple_call) (auto simp: no_damage_def kept_somewhere_def holds_at_def)
            have ret: "fs_triple ?A ?A (fs_return ?backup) (\<lambda>_. ?A)" by (rule triple_return)
            note step = triple_bind [OF sync ret]
            note step = triple_bind [OF triple_secure [where A = ?A and P = ?A, OF _ mode_free_kept] step]
            have opened: "fs_triple ?A ?A (open_existing ?backup) (\<lambda>_. ?A)"
              by (rule triple_weaken [OF triple_open [where P = ?A]]) auto
            have "fs_triple ?A ?A (fs_bind (open_existing ?backup) (\<lambda>i. fs_bind (secure_private_regular_file i ''corrupt state backup'')
                (\<lambda>_. fs_bind dir_sync (\<lambda>_. fs_return ?backup)))) (\<lambda>_. ?A)"
              by (rule triple_bind [OF opened step]) simp
            moreover have "fs_bind (open_existing ?backup) (\<lambda>i. fs_bind (secure_private_regular_file i ''corrupt state backup'')
                (\<lambda>_. fs_bind dir_sync (\<lambda>_. fs_return ?backup))) r2 = (res, r')"
              using 1(2) random e Inr False m fin \<open>a = Inr there\<close> by (simp add: Let_def)
            ultimately have last: "(\<exists>tr. fr_trace r' = fr_trace r2 @ tr \<and> (\<forall>s \<in> set tr. ?A s)) \<and>
                (case res of Inr x \<Rightarrow> ?A (fr_state r') | Inl _ \<Rightarrow> ?A (fr_state r'))"
              using fs_triple_use moved by blast
            then obtain tr3 where tr3: "fr_trace r' = fr_trace r2 @ tr3" "\<forall>s \<in> set tr3. ?A s" by blast
            have "fr_trace r' = fr_trace r1 @ (tr2 @ tr3)" "\<forall>s \<in> set (tr2 @ tr3). ?A s" using tr2 tr3 by auto
            then show ?thesis using last by (intro extend) blast+
          qed
        qed
      qed
    qed
  qed
qed

end
