(* ===== verification/Store_Properties.thy ===== *)
theory Store_Properties
  imports Store_Load Project_Properties
begin

text \<open>The properties of the state store.\<close>

section \<open>What is loaded is valid\<close>

lemma versions_kept:
  "push_workspace name cwd remote p = (r, p') \<Longrightarrow> pj_version p' = pj_version p"
  "add_terminal_with_source w name launch source p = (r', p', source') \<Longrightarrow> pj_version p' = pj_version p"
proof -
  have a: "allocate_workspace_id p = (x, q) \<Longrightarrow> pj_version q = pj_version p" for x q
    by (auto simp: allocate_workspace_id_def split: option.splits)
  have t: "allocate_terminal_id p = (y, q) \<Longrightarrow> pj_version q = pj_version p" for y q
    by (auto simp: allocate_terminal_id_def split: option.splits)
  show "push_workspace name cwd remote p = (r, p') \<Longrightarrow> pj_version p' = pj_version p"
    by (auto simp: push_workspace_def split: prod.splits sum.splits dest: a)
  show "add_terminal_with_source w name launch source p = (r', p', source') \<Longrightarrow> pj_version p' = pj_version p"
    by (auto simp: add_terminal_with_source_def Let_def update_workspace_def split: option.splits prod.splits sum.splits dest: t)
qed

lemma add_terminal_keeps_ok:
  assumes "add_terminal_with_source w name launch source p = (Inr r, p', source')" and "project_ok p"
  shows "project_ok p'"
proof (cases r)
  case None
  then have "p' = p"
    using assms(1) by (auto simp: add_terminal_with_source_def Let_def split: option.splits prod.splits sum.splits)
  then show ?thesis using assms(2) by simp
next
  case (Some t)
  then show ?thesis using add_terminal_ok assms by blast
qed

lemma try_default_valid:
  assumes "try_default_with source = (Inr p, source')"
  shows "pj_version p = STATE_VERSION \<and> project_ok p"
proof -
  obtain namespace where "p = \<lparr>pj_version = STATE_VERSION, pj_namespace = namespace,
      pj_identities = \<lparr>si_chats = btm_empty, si_terminals = btm_empty\<rparr>, pj_generations = btm_empty,
      pj_next_workspace_id = 1, pj_next_chat_id = 1, pj_next_terminal_id = 1, pj_workspaces = []\<rparr>"
    using assms by (auto simp: try_default_with_def split: prod.splits sum.splits)
  then show ?thesis
    by (simp add: project_ok_iff ids_ok_def table_ok_iff generations_ok_def workspace_ids_def chat_ids_def terminal_ids_def
        project_tokens_def btm_values_def)
qed

lemma first_run_valid:
  assumes "try_first_run_with dir source = Inr p"
  shows "pj_version p = STATE_VERSION \<and> project_ok p"
proof -
  obtain p1 s1 w1 p2 r3 p3 s3 w2 p4 r5 s5 where
    1: "try_default_with source = (Inr p1, s1)" and 2: "push_workspace (ascii ''mult'') dir None p1 = (Inr w1, p2)" and
    3: "add_terminal_with_source w1 (ascii ''dev server'') TLShell s1 p2 = (Inr r3, p3, s3)" and
    4: "push_workspace (ascii ''website'') None None p3 = (Inr w2, p4)" and
    5: "add_terminal_with_source w2 (ascii ''shell'') TLShell s3 p4 = (Inr r5, p, s5)"
    using assms unfolding try_first_run_with_def add_workspace_def
    by (auto simp del: ascii_simps split: prod.splits sum.splits)
  have "project_ok p2" using push_workspace_ok [OF _ 2] try_default_valid [OF 1] by blast
  then have "project_ok p4" using push_workspace_ok [OF _ 4] add_terminal_keeps_ok [OF 3] by blast
  then have "project_ok p" using add_terminal_keeps_ok [OF 5] by blast
  moreover have "pj_version p = STATE_VERSION"
    using try_default_valid [OF 1] versions_kept(1) [OF 2] versions_kept(2) [OF 3] versions_kept(1) [OF 4] versions_kept(2) [OF 5]
    by simp
  ultimately show ?thesis by blast
qed

lemma load_current_valid:
  assumes "load_current migrated p source = Inr l"
  shows "validate_current_state (ld_state l) = Inr ()"
proof -
  obtain q x u where "validate_current_state q = Inr u" "Inr (loaded x q) = (Inr l :: state_error + loaded_state)"
    using assms unfolding load_current_def Let_def case_prod_beta bind_sum_Inr_iff by blast
  then show ?thesis by (auto simp: loaded_def)
qed

text \<open>The cases of a load that succeeds.\<close>

lemma load_cases:
  assumes "load_with_identity_source h paths r = (Inr l, r')"
  obtains (first_run) "try_first_run_with (lh_current_dir h) (lh_entropy h) = Inr (ld_state l)"
  | (v1) old where "migrate_v1_to_current (lh_to_io h) old (lh_entropy h) = Inr (ld_state l)"
  | (v2) old where "migrate_v2_to_current (lh_to_io h) old (lh_entropy h) = Inr (ld_state l)"
  | (v3) old where "migrate_v3_to_current (lh_to_io h) old (lh_entropy h) = Inr (ld_state l)"
  | (current) migrated p where "load_current migrated p (lh_entropy h) = Inr l"
  | (replaced) "fst (try_default_with (lh_entropy h)) = Inr (ld_state l)"
proof -
  obtain a r1 where a: "read_private_file (state_name paths) ''state file'' MAX_STATE_FILE_BYTES r = (a, r1)" by fastforce
  then obtain c where "a = Inr c" using assms by (cases a) (auto simp: load_with_identity_source_def)
  note a = a [unfolded this]
  show thesis
  proof (cases c)
    case None
    then show thesis using assms a first_run
      by (auto simp: load_with_identity_source_def loaded_def bind_sum_Inr_iff map_err_Inr_iff)
  next
    case (Some bs)
    show thesis
    proof (cases "decode_state (lh_decoder h) bs")
      case (Inl e)
      then show thesis using assms a Some replaced
        by (cases e) (auto simp: load_with_identity_source_def split: sum.splits prod.splits)
    next
      case (Inr d)
      then show thesis using assms a Some v1 v2 v3 current
        by (cases d) (auto simp: load_with_identity_source_def loaded_def bind_sum_Inr_iff map_err_Inr_iff)
    qed
  qed
qed

text \<open>
  C37. Every state that loads is valid: whether it is a first run, a file of any version from 1 on,
  repaired or migrated, or the empty replacement of a file that cannot be read, it has the current version and passes
  the validation that saving requires.
\<close>

theorem loaded_state_is_valid:
  assumes "load_with_identity_source h paths r = (Inr l, r')"
  shows "validate_current_state (ld_state l) = Inr ()"
  using assms
proof (cases rule: load_cases)
  case (current migrated p)
  then show ?thesis by (rule load_current_valid)
next
  case replaced
  then show ?thesis using try_default_valid validate_current_state_Inr by (metis prod.collapse)
qed (use first_run_valid migrations_valid migrate_v3_valid validate_current_state_Inr in blast)+

definition sample_paths :: state_paths where
  "sample_paths = \<lparr>sp_state = ascii ''/d/s'', sp_normalize_parent = True\<rparr>"

definition sample_fs :: "bytes \<Rightarrow> fs_run" where
  "sample_fs bs = \<lparr>fr_state = \<lparr>fs_entries = btm_insert (ascii ''s'') 0 btm_empty, fs_possible = [],
     fs_inodes = (\<lambda>_. \<lparr>in_kind = RegularFile, in_uid = 7, in_nlink = 1, in_mode = 0x1A4, in_bytes = bs, in_synced = bs\<rparr>),
     fs_next = 1, fs_euid = 7\<rparr>, fr_faults = [], fr_trace = []\<rparr>"

text \<open>A host on which the one byte 3 is a version-3 file with an empty project and everything else is not JSON.\<close>

definition sample_load :: load_host where
  "sample_load = \<lparr>lh_decoder = \<lparr>sd_version = (\<lambda>bs. if bs = [3] then Inr 3 else Inl ''no JSON''),
     sd_v1 = (\<lambda>_. Inl ''''), sd_v2 = (\<lambda>_. Inl ''''),
     sd_v3 = (\<lambda>_. Inr \<lparr>s3_namespace = StateNamespace 1, s3_identities = \<lparr>si_chats = btm_empty, si_terminals = btm_empty\<rparr>,
        s3_generations = btm_empty, s3_next_workspace_id = 1, s3_next_chat_id = 1, s3_next_terminal_id = 1,
        s3_workspaces = []\<rparr>),
     sd_current = (\<lambda>_. Inl '''')\<rparr>,
     lh_entropy = sample_entropy, lh_suffixes = Inr (\<lambda>_. Inr 5), lh_timestamp = 9, lh_current_dir = None,
     lh_to_io = (\<lambda>_. io_other ''''), lh_text = ascii\<rparr>"

lemma sample_first_run:
  "\<exists>p. try_first_run_with None sample_entropy = Inr p"
proof -
  have "case try_first_run_with None sample_entropy of Inr _ \<Rightarrow> True | Inl _ \<Rightarrow> False" by code_simp
  then show ?thesis by (simp split: sum.splits)
qed

definition sample_no_file :: fs_run where
  "sample_no_file = (sample_fs [])\<lparr>fr_state := (fr_state (sample_fs []))\<lparr>fs_entries := btm_empty\<rparr>\<rparr>"

theorem loaded_state_is_valid_witness:
  "\<exists>l r'. load_with_identity_source sample_load sample_paths sample_no_file = (Inr l, r') \<and>
     validate_current_state (ld_state l) = Inr ()"
proof -
  obtain p where "try_first_run_with None sample_entropy = Inr p" using sample_first_run by blast
  then have "\<exists>r'. load_with_identity_source sample_load sample_paths sample_no_file = (Inr (loaded True p), r')"
    by (simp add: load_with_identity_source_def read_private_file_def open_existing_def fs_call_def sample_no_file_def
        sample_fs_def io_error_new_def sample_load_def)
  then show ?thesis using loaded_state_is_valid by blast
qed

text \<open>
  C38. Loading destroys nothing: throughout, and whichever call fails, the bytes of the state file are in the
  directory, under its name or under the name of a backup; a file of an unknown version stays in place.
\<close>

theorem loading_destroys_nothing:
  assumes "holds_at bs (state_name paths) (fr_state r)" and "load_with_identity_source h paths r = (res, r')"
  shows "(\<exists>tr. fr_trace r' = fr_trace r @ tr \<and> (\<forall>s \<in> set tr. kept_somewhere bs (state_name paths) s)) \<and>
    kept_somewhere bs (state_name paths) (fr_state r') \<and>
    (\<forall>path version. res = Inl (UnsupportedVersionError path version) \<longrightarrow> holds_at bs (state_name paths) (fr_state r'))"
proof -
  let ?name = "state_name paths"
  let ?H = "holds_at bs ?name" and ?K = "kept_somewhere bs ?name"
  obtain a r1 where a: "read_private_file ?name ''state file'' MAX_STATE_FILE_BYTES r = (a, r1)" by fastforce
  obtain tr where tr: "fr_trace r1 = fr_trace r @ tr" "\<forall>s \<in> set tr. ?K s"
    and ca: "case a of Inr x \<Rightarrow> ?H (fr_state r1) | Inl _ \<Rightarrow> ?K (fr_state r1)"
    using fs_triple_use [OF triple_read_private [where A = ?K, OF holds_kept mode_free_holds] assms(1) a] by blast
  then have k1: "?K (fr_state r1)" using holds_kept by (cases a) auto
  have still: ?thesis if "r' = r1" "\<And>path version. res = Inl (UnsupportedVersionError path version) \<Longrightarrow> ?H (fr_state r1)"
    using that tr k1 by auto
  show ?thesis
  proof (cases "\<exists>c message p. a = Inr (Some c) \<and> decode_state (lh_decoder h) c = Inl (InvalidJson message) \<and>
      fst (try_default_with (lh_entropy h)) = Inr p")
    case False
    have "r' = r1"
      using assms(2) a False
      by (auto simp: load_with_identity_source_def split: sum.splits option.splits decoded_state.splits decode_error.splits)
    moreover have "?H (fr_state r1)" if "res = Inl (UnsupportedVersionError path version)" for path version
      using that assms(2) a ca
      by (auto simp: load_with_identity_source_def split: sum.splits)
    ultimately show ?thesis by (rule still)
  next
    case True
    then obtain c message p where c: "a = Inr (Some c)" "decode_state (lh_decoder h) c = Inl (InvalidJson message)"
        "fst (try_default_with (lh_entropy h)) = Inr p" by blast
    obtain b r2 where b: "backup_invalid_state (lh_suffixes h) (lh_timestamp h) ?name r1 = (b, r2)" by fastforce
    have h1: "?H (fr_state r1)" using ca c by simp
    have "(\<exists>tr. fr_trace r2 = fr_trace r1 @ tr \<and> (\<forall>s \<in> set tr. ?K s)) \<and> ?K (fr_state r2)"
    proof (cases "lh_suffixes h")
      case (Inl e)
      then show ?thesis using b k1 by (simp add: backup_invalid_state_def)
    next
      case (Inr source)
      then have "backup_attempts MAX_TEMP_ATTEMPTS ?name (lh_timestamp h) source r1 = (b, r2)"
        using b by (simp add: backup_invalid_state_def)
      from fs_triple_use [OF triple_backup_attempts h1 this] show ?thesis by (cases b) auto
    qed
    moreover have "r' = r2" "res \<noteq> Inl (UnsupportedVersionError path version)" for path version
      using assms(2) a b c by (auto simp: load_with_identity_source_def split: sum.splits)
    ultimately show ?thesis using trace_trans [OF exI [of _ tr]] tr by auto
  qed
qed

theorem loading_destroys_nothing_witness:
  "\<exists>res r'. load_with_identity_source sample_load sample_paths (sample_fs [1, 2]) = (res, r') \<and>
     kept_somewhere [1, 2] (ascii ''s'') (fr_state r')"
proof -
  obtain res r' where l: "load_with_identity_source sample_load sample_paths (sample_fs [1, 2]) = (res, r')" by fastforce
  have name: "state_name sample_paths = ascii ''s''" by code_simp
  have "holds_at [1, 2] (state_name sample_paths) (fr_state (sample_fs [1, 2]))"
    unfolding name by (simp add: holds_at_def sample_fs_def)
  from loading_destroys_nothing [OF this l] show ?thesis using l by (simp add: name del: ascii_simps)
qed

text \<open>
  C39. Saving is atomic: at every moment of a save, also when a call of it fails, a crash leaves under the
  state file's name either what was there before or the whole new state, and when the save reports success, the
  new state.
\<close>

theorem saving_is_atomic:
  assumes "fs_wf (fr_state r)" and "crash_safe {old} (state_name paths) (fr_state r)"
    and "store_save encode urandom pid paths p r = (res, r')"
  shows "\<exists>tr. fr_trace r' = fr_trace r @ tr \<and>
    (\<forall>s \<in> set tr. crash_safe (insert old {Some (json @ [10]) | json. encode p = Inr json}) (state_name paths) s) \<and>
    (res = Inr () \<longrightarrow> crash_safe {Some (json @ [10]) | json. encode p = Inr json} (state_name paths) (fr_state r'))"
proof (cases "\<exists>json source. validate_current_state p = Inr () \<and> encode p = Inr json \<and> urandom = Inr source")
  case True
  then obtain json source where j: "validate_current_state p = Inr ()" "encode p = Inr json" "urandom = Inr source" by blast
  let ?C = "insert old {Some (json @ [10]) | json. encode p = Inr json}"
  have new: "{Some (json @ [10]) | json. encode p = Inr json} = {Some (json @ [10])}" using j by auto
  obtain a r1 where a: "save_attempts MAX_TEMP_ATTEMPTS (state_name paths) pid (json @ [10]) source r = (a, r1)" by fastforce
  have r: "res = map_err StateIo a" "r' = r1" using assms(3) j a by (auto simp: store_save_def save_to_directory_def)
  have inv: "file_inv ?C (state_name paths) (fr_state r)"
    using assms(1,2) crash_safe_mono by blast
  have mem: "Some (json @ [10]) \<in> ?C" using j by blast
  have t: "(\<exists>tr. fr_trace r1 = fr_trace r @ tr \<and> (\<forall>s \<in> set tr. file_inv ?C (state_name paths) s)) \<and>
      (case a of Inr x \<Rightarrow> file_inv ?C (state_name paths) (fr_state r1) \<and> crash_safe {Some (json @ [10])} (state_name paths) (fr_state r1)
       | Inl _ \<Rightarrow> file_inv ?C (state_name paths) (fr_state r1))"
    by (rule fs_triple_use [OF triple_save_attempts [OF mem] inv a])
  have "res = Inr () \<Longrightarrow> crash_safe {Some (json @ [10])} (state_name paths) (fr_state r')"
    using t r by (cases a) auto
  then show ?thesis using t r unfolding new by blast
next
  case False
  have "r' = r \<and> res \<noteq> Inr ()"
  proof (cases "validate_current_state p")
    case (Inl e)
    then show ?thesis using assms(3) by (auto simp: store_save_def)
  next
    case (Inr u)
    then show ?thesis using assms(3) False
      by (cases "encode p"; cases urandom) (auto simp: store_save_def save_to_directory_def)
  qed
  then show ?thesis by auto
qed

theorem saving_is_atomic_witness:
  "\<exists>r'. store_save (\<lambda>_. Inr [4]) (Inr (\<lambda>_. Inr 5)) 1 sample_paths sample_empty (sample_fs [3]) = (Inr (), r') \<and>
     length (fr_trace r') = 8 \<and> crash_safe {Some [4, 10]} (ascii ''s'') (fr_state r')"
proof -
  have name: "state_name sample_paths = ascii ''s''" by code_simp
  let ?save = "store_save (\<lambda>_. Inr [4]) (Inr (\<lambda>_. Inr 5)) 1 sample_paths sample_empty (sample_fs [3])"
  obtain res r' where s: "?save = (res, r')" by fastforce
  have valid: "validate_current_state sample_empty = Inr ()"
    using sample_empty_ok by (simp add: validate_current_state_Inr sample_empty_def)
  have attempts: "MAX_TEMP_ATTEMPTS = Suc 63" by (simp add: MAX_TEMP_ATTEMPTS_def)
  have "fst (save_attempts (Suc n) (ascii ''s'') 1 [4, 10] (\<lambda>_. Inr 5) (sample_fs [3])) = Inr () \<and>
      length (fr_trace (snd (save_attempts (Suc n) (ascii ''s'') 1 [4, 10] (\<lambda>_. Inr 5) (sample_fs [3])))) = 8" for n
    using temp_name_other [of "ascii ''s''" 1 5]
    by (simp add: sample_fs_def Let_def create_exclusive_def fs_call_def
        write_temp_def fs_bind_def secure_private_regular_file_def validate_private_regular_file_def file_metadata_def
        set_file_mode_def file_write_all_def file_sync_all_def dir_rename_def dir_sync_def fs_return_def set_entries_def
        update_inode_def btm_contains_def del: ascii_simps)
  from this [of 63] have "fst ?save = Inr () \<and> length (fr_trace (snd ?save)) = 8"
    unfolding store_save_def save_to_directory_def name valid attempts by (simp add: case_prod_beta del: save_attempts.simps ascii_simps)
  then have res: "res = Inr ()" "length (fr_trace r') = 8" using s by auto
  have "fs_wf (fr_state (sample_fs [3]))" by (auto simp: fs_wf_def all_entries_def sample_fs_def split: if_splits)
  moreover have "crash_safe {Some [3]} (state_name sample_paths) (fr_state (sample_fs [3]))"
    unfolding name by (simp add: crash_safe_def all_entries_def sample_fs_def)
  ultimately have "crash_safe {Some (json @ [10]) | json. (Inr [4] :: string + bytes) = Inr json} (state_name sample_paths) (fr_state r')"
    using saving_is_atomic [OF _ _ s] res by blast
  moreover have "{Some (json @ [10]) | json. (Inr [4] :: string + bytes) = Inr json} = {Some [4, 10]}" by auto
  ultimately show ?thesis using s res unfolding name by auto
qed

end
