(* ===== verification/Terminal_Input.thy ===== *)
theory Terminal_Input
  imports Rust_Text
begin

text \<open>
  What the client writes to a pane besides the keys themselves (\<open>src/pty.rs\<close>): mouse reports in the
  three encodings a program can ask for, bracketed pastes, and the tracker that follows the line being
  typed at a shell. The modes come from the terminal emulator.
\<close>

unbundle bit_operations_syntax

section \<open>Mouse reports\<close>

datatype mouse_mode = MouseOff | MousePress | MousePressRelease | MouseButtonMotion | MouseAnyMotion
datatype mouse_encoding = EncodingDefault | EncodingUtf8 | EncodingSgr

datatype mouse_button =
    LeftButton | MiddleButton | RightButton | WheelUp | WheelDown | WheelLeft | WheelRight

datatype mouse_action =
    MousePressed mouse_button | MouseReleased mouse_button | MouseDragged mouse_button | MouseMoved

record mouse_report =
  mr_action :: mouse_action
  mr_col :: u16
  mr_row :: u16
  mr_shift :: bool
  mr_alt :: bool
  mr_ctrl :: bool

definition mouse_button_none :: u8 where "mouse_button_none = 3"
definition mouse_motion_bit :: u8 where "mouse_motion_bit = 32"

fun button_code :: "mouse_button \<Rightarrow> u8" where
  "button_code LeftButton = 0"
| "button_code MiddleButton = 1"
| "button_code RightButton = 2"
| "button_code WheelUp = 64"
| "button_code WheelDown = 65"
| "button_code WheelLeft = 66"
| "button_code WheelRight = 67"

fun is_wheel :: "mouse_button \<Rightarrow> bool" where
  "is_wheel WheelUp = True"
| "is_wheel WheelDown = True"
| "is_wheel WheelLeft = True"
| "is_wheel WheelRight = True"
| "is_wheel _ = False"

fun report_button :: "mouse_action \<Rightarrow> mouse_button option" where
  "report_button (MousePressed b) = Some b"
| "report_button (MouseReleased b) = Some b"
| "report_button (MouseDragged b) = Some b"
| "report_button MouseMoved = None"

definition modifier_bits :: "mouse_report \<Rightarrow> u8" where
  "modifier_bits r = (if mr_shift r then 4 else 0) OR (if mr_alt r then 8 else 0) OR (if mr_ctrl r then 16 else 0)"

fun is_wanted_in :: "mouse_action \<Rightarrow> mouse_mode \<Rightarrow> bool" where
  "is_wanted_in (MousePressed _) mode = (mode \<noteq> MouseOff)"
| "is_wanted_in (MouseReleased b) mode =
     (\<not> is_wheel b \<and> mode \<in> {MousePressRelease, MouseButtonMotion, MouseAnyMotion})"
| "is_wanted_in (MouseDragged b) mode = (\<not> is_wheel b \<and> mode \<in> {MouseButtonMotion, MouseAnyMotion})"
| "is_wanted_in MouseMoved mode = (mode = MouseAnyMotion)"

record mouse_event_code =
  mc_button :: u8
  mc_legacy_button :: u8
  mc_release :: bool

text \<open>ASCII text as bytes, and one character as UTF-8; a surrogate is not a character.\<close>

definition ascii_bytes :: "string \<Rightarrow> bytes" where
  "ascii_bytes s = map of_char s"

definition text_bytes :: "ustring \<Rightarrow> bytes" where
  "text_bytes s = map ucast s"

definition char_from_u32 :: "u32 \<Rightarrow> uchar option" where
  "char_from_u32 c = (if 0xD800 \<le> c \<and> c \<le> 0xDFFF \<or> 0x10FFFF < c then None else Some c)"

definition encode_utf8 :: "uchar \<Rightarrow> bytes" where
  "encode_utf8 c =
     (if c < 0x80 then [ucast c]
      else if c < 0x800 then [0xC0 OR ucast (drop_bit 6 c), 0x80 OR ucast (c AND 0x3F)]
      else if c < 0x10000 then
        [0xE0 OR ucast (drop_bit 12 c), 0x80 OR ucast (drop_bit 6 c AND 0x3F), 0x80 OR ucast (c AND 0x3F)]
      else
        [0xF0 OR ucast (drop_bit 18 c), 0x80 OR ucast (drop_bit 12 c AND 0x3F),
         0x80 OR ucast (drop_bit 6 c AND 0x3F), 0x80 OR ucast (c AND 0x3F)])"

definition default_mouse_coord :: "u16 \<Rightarrow> u8" where
  "default_mouse_coord coord = ucast (min coord 223) + 32"

definition utf8_mouse_coord :: "u16 \<Rightarrow> bytes" where
  "utf8_mouse_coord coord =
     (case char_from_u32 (ucast coord + 32) of Some c \<Rightarrow> encode_utf8 c | None \<Rightarrow> [32])"

fun encode_mouse_event :: "mouse_encoding \<Rightarrow> mouse_event_code \<Rightarrow> u16 \<Rightarrow> u16 \<Rightarrow> bytes" where
  "encode_mouse_event EncodingSgr code col row =
     0x1b # ascii_bytes ''[<'' @ text_bytes (decimal (unat (mc_button code))) @ ascii_bytes '';'' @
     text_bytes (decimal (unat col)) @ ascii_bytes '';'' @ text_bytes (decimal (unat row)) @
     ascii_bytes (if mc_release code then ''m'' else ''M'')"
| "encode_mouse_event EncodingUtf8 code col row =
     0x1b # ascii_bytes ''[M'' @ [mc_legacy_button code + 32] @ utf8_mouse_coord col @ utf8_mouse_coord row"
| "encode_mouse_event EncodingDefault code col row =
     0x1b # ascii_bytes ''[M'' @
     [mc_legacy_button code + 32, default_mouse_coord col, default_mouse_coord row]"

definition mouse_code :: "mouse_mode \<Rightarrow> mouse_report \<Rightarrow> mouse_event_code" where
  "mouse_code mode report =
     (let motion = (case mr_action report of MouseDragged _ \<Rightarrow> mouse_motion_bit | MouseMoved \<Rightarrow> mouse_motion_bit
                      | _ \<Rightarrow> 0);
          modifiers = (if mode = MousePress then 0 else modifier_bits report);
          button = (case report_button (mr_action report) of Some b \<Rightarrow> button_code b | None \<Rightarrow> mouse_button_none)
                     OR motion OR modifiers;
          release = (case mr_action report of MouseReleased _ \<Rightarrow> True | _ \<Rightarrow> False) in
      \<lparr>mc_button = button,
       mc_legacy_button = (if release then mouse_button_none OR modifiers else button),
       mc_release = release\<rparr>)"

definition mouse_report_bytes :: "mouse_mode \<Rightarrow> mouse_encoding \<Rightarrow> mouse_report \<Rightarrow> bytes option" where
  "mouse_report_bytes mode encoding report =
     (if \<not> is_wanted_in (mr_action report) mode then None
      else Some (encode_mouse_event encoding (mouse_code mode report) (max (mr_col report) 1) (max (mr_row report) 1)))"

section \<open>Pastes and text shown to the user\<close>

definition bracketed_paste_start :: bytes where "bracketed_paste_start = 0x1b # ascii_bytes ''[200~''"
definition bracketed_paste_end :: bytes where "bracketed_paste_end = 0x1b # ascii_bytes ''[201~''"

definition str_bytes :: "ustring \<Rightarrow> bytes" where
  "str_bytes s = concat (map encode_utf8 s)"

definition terminal_paste_bytes :: "ustring \<Rightarrow> bool \<Rightarrow> bytes" where
  "terminal_paste_bytes s bracketed =
     (if bracketed then bracketed_paste_start @ str_bytes s @ bracketed_paste_end else str_bytes s)"

definition sanitize_system_line :: "ustring \<Rightarrow> ustring" where
  "sanitize_system_line = map (\<lambda>c. if is_control c then 0xFFFD else c)"

definition max_pane_title_chars :: nat where "max_pane_title_chars = 128"

definition sanitize_pane_title :: "ustring \<Rightarrow> ustring" where
  "sanitize_pane_title title = trim (take max_pane_title_chars (filter (\<lambda>c. \<not> is_control c) title))"

section \<open>The line being typed\<close>

datatype input_track_state = TrackGround | TrackEscape | TrackCsi

record command_tracker =
  ct_input :: ustring
  ct_last :: "ustring option"
  ct_state :: input_track_state

definition command_tracker_default :: command_tracker where
  "command_tracker_default = \<lparr>ct_input = [], ct_last = None, ct_state = TrackGround\<rparr>"

definition max_tracked_command_bytes :: nat where "max_tracked_command_bytes = 512"

definition discard_input :: "command_tracker \<Rightarrow> command_tracker" where
  "discard_input t = t\<lparr>ct_input := []\<rparr>"

definition commit_input :: "bool \<Rightarrow> command_tracker \<Rightarrow> command_tracker" where
  "commit_input at_prompt t =
     (let command = trim (ct_input t) in
      discard_input (if at_prompt \<and> command \<noteq> [] then t\<lparr>ct_last := Some command\<rparr> else t))"

definition record_process_command :: "ustring \<Rightarrow> command_tracker \<Rightarrow> command_tracker" where
  "record_process_command command t =
     discard_input (if trim command \<noteq> [] then t\<lparr>ct_last := Some (trim command)\<rparr> else t)"

definition record_byte :: "bool \<Rightarrow> u8 \<Rightarrow> command_tracker \<Rightarrow> command_tracker" where
  "record_byte at_prompt byte t =
     (case ct_state t of
        TrackGround \<Rightarrow>
          if byte = 13 \<or> byte = 10 then commit_input at_prompt t
          else if byte = 0x03 \<or> byte = 0x15 then t\<lparr>ct_input := []\<rparr>
          else if byte = 0x08 \<or> byte = 0x7f then t\<lparr>ct_input := butlast (ct_input t)\<rparr>
          else if byte = 0x1b then t\<lparr>ct_state := TrackEscape\<rparr>
          else if 0x20 \<le> byte \<and> byte \<le> 0x7e then
            (if length (ct_input t) < max_tracked_command_bytes
             then t\<lparr>ct_input := ct_input t @ [ucast byte]\<rparr> else t)
          else t
      | TrackEscape \<Rightarrow> t\<lparr>ct_state := (if byte = 0x5b then TrackCsi else TrackGround)\<rparr>
      | TrackCsi \<Rightarrow> t\<lparr>ct_state := (if 0x40 \<le> byte \<and> byte \<le> 0x7e then TrackGround else TrackCsi)\<rparr>)"

definition record_input :: "bytes \<Rightarrow> bool \<Rightarrow> command_tracker \<Rightarrow> command_tracker" where
  "record_input bs at_prompt t = fold (record_byte at_prompt) bs t"


section \<open>Facts about reports and labels\<close>

lemma default_mouse_coord_no_wrap: "unat (default_mouse_coord coord) = min (unat coord) 223 + 32"
proof -
  have "unat (min coord 223) \<le> 223" by (simp add: min_def word_le_nat_alt)
  moreover have "unat (ucast (min coord 223) :: u8) = unat (min coord 223)"
    using calculation by (simp add: unsigned_ucast_eq take_bit_nat_eq_self)
  moreover have "unat (min coord 223) = min (unat coord) 223" by (simp add: min_def word_le_nat_alt)
  ultimately show ?thesis by (simp add: default_mouse_coord_def unat_word_ariths)
qed

lemma unwanted_reports_not_sent:
  "mouse_report_bytes MouseOff encoding report = None"
  "is_wheel b \<Longrightarrow> mr_action report = MouseReleased b \<Longrightarrow> mouse_report_bytes mode encoding report = None"
  by (cases "mr_action report", auto simp: mouse_report_bytes_def)+

lemma sanitized_line_inert: "length (sanitize_system_line s) = length s" "c \<in> set (sanitize_system_line s) \<Longrightarrow> \<not> is_control c"
  by (auto simp: sanitize_system_line_def is_control_def)

lemma set_trim: "set (trim s) \<subseteq> set s"
  unfolding trim_def by (auto dest!: set_dropWhileD)

lemma length_trim: "length (trim s) \<le> length s"
  unfolding trim_def by (metis length_dropWhile_le length_rev order_trans)

lemma sanitized_title_bounded: "length (sanitize_pane_title s) \<le> max_pane_title_chars"
  unfolding sanitize_pane_title_def by (rule order_trans[OF length_trim]) simp

lemma sanitized_title_inert: "c \<in> set (sanitize_pane_title s) \<Longrightarrow> \<not> is_control c"
  unfolding sanitize_pane_title_def using set_trim by (fastforce dest: in_set_takeD)

section \<open>Facts about the tracker\<close>

definition tracker_ok :: "command_tracker \<Rightarrow> bool" where
  "tracker_ok t \<longleftrightarrow> length (ct_input t) \<le> max_tracked_command_bytes
     \<and> (\<forall>c \<in> set (ct_input t). 0x20 \<le> c \<and> c \<le> 0x7e)
     \<and> ct_last t \<noteq> Some []"

lemma unat_ucast_char: "unat (ucast (b :: u8) :: uchar) = unat b"
  using unsigned_less[of b, where ?'a = nat] by (simp add: unsigned_ucast_eq take_bit_nat_eq_self)

lemma ucast_printable:
  "0x20 \<le> b \<Longrightarrow> b \<le> 0x7e \<Longrightarrow> (0x20 :: uchar) \<le> ucast (b :: u8) \<and> (ucast b :: uchar) \<le> 0x7e"
  by (simp add: word_le_nat_alt unat_ucast_char)

lemma record_byte_ok: "tracker_ok t \<Longrightarrow> tracker_ok (record_byte at_prompt b t)"
  by (auto simp: tracker_ok_def record_byte_def commit_input_def discard_input_def Let_def ucast_printable
      dest: in_set_butlastD split: input_track_state.split)

lemma record_input_ok: "tracker_ok t \<Longrightarrow> tracker_ok (record_input bs at_prompt t)"
  unfolding record_input_def by (induction bs arbitrary: t) (auto simp: record_byte_ok)

text \<open>A typed line followed by \<open>Enter\<close> is the last command, whatever was typed before it was ended.\<close>

lemma record_printable:
  assumes "ct_state t = TrackGround" "length (ct_input t) + length bs \<le> max_tracked_command_bytes"
    "\<And>b. b \<in> set bs \<Longrightarrow> 0x20 \<le> b \<and> b \<le> 0x7e"
  shows "record_input bs at_prompt t = t\<lparr>ct_input := ct_input t @ map ucast bs\<rparr>"
  using assms
proof (induction bs arbitrary: t)
  case Nil then show ?case by (simp add: record_input_def)
next
  case (Cons b bs)
  have b: "0x20 \<le> b" "b \<le> 0x7e" using Cons.prems(3)[of b] by auto
  have "b \<noteq> 13" "b \<noteq> 10" "b \<noteq> 0x03" "b \<noteq> 0x15" "b \<noteq> 0x08" "b \<noteq> 0x7f" "b \<noteq> 0x1b"
    using b by (auto simp: word_le_nat_alt)
  then have "record_byte at_prompt b t = t\<lparr>ct_input := ct_input t @ [ucast b]\<rparr>"
    using b Cons.prems(1,2) by (simp add: record_byte_def)
  then show ?case
    using Cons.IH[of "t\<lparr>ct_input := ct_input t @ [ucast b]\<rparr>"] Cons.prems by (simp add: record_input_def)
qed

lemma record_line:
  assumes "ct_state t = TrackGround" "ct_input t = []" "length bs \<le> max_tracked_command_bytes"
    "\<And>b. b \<in> set bs \<Longrightarrow> 0x20 \<le> b \<and> b \<le> 0x7e"
  shows "record_input (bs @ [13]) at_prompt t =
    (let command = trim (map ucast bs) in
     if at_prompt \<and> command \<noteq> [] then t\<lparr>ct_last := Some command\<rparr> else t)"
proof -
  have "record_input (bs @ [13]) at_prompt t = record_byte at_prompt 13 (record_input bs at_prompt t)"
    by (simp add: record_input_def)
  moreover have "record_input bs at_prompt t = t\<lparr>ct_input := map ucast bs\<rparr>"
    using record_printable[of t bs at_prompt] assms by simp
  moreover have "t\<lparr>ct_input := []\<rparr> = t" "\<And>l. t\<lparr>ct_last := l, ct_input := []\<rparr> = t\<lparr>ct_last := l\<rparr>"
    using assms(2) by (cases t; simp)+
  ultimately show ?thesis
    using assms(1) by (simp add: record_byte_def commit_input_def discard_input_def Let_def)
qed

end
