(* ===== verification/Wire_Text.thy ===== *)
theory Wire_Text
  imports Terminal_Input
begin

text \<open>
  Text between the client and the protocol. A string of the protocol model is the sequence of the UTF-8
  bytes a Rust \<open>String\<close> holds; the client's text is a list of characters.
\<close>

unbundle bit_operations_syntax

definition wire_of :: "ustring \<Rightarrow> string" where
  "wire_of s = map (\<lambda>b. char_of (unat b)) (str_bytes s)"

text \<open>Decoding; the bytes of a \<open>String\<close> are valid, what remains of a cut sequence is dropped.\<close>

definition low6 :: "u8 \<Rightarrow> uchar" where
  "low6 b = ucast (b AND 0x3F)"

fun decode_utf8 :: "bytes \<Rightarrow> ustring" where
  "decode_utf8 [] = []"
| "decode_utf8 (a # bs) =
     (if a < 0x80 then ucast a # decode_utf8 bs
      else if a < 0xE0 then
        (case bs of b # bs \<Rightarrow> (push_bit 6 (ucast (a AND 0x1F)) OR low6 b) # decode_utf8 bs | [] \<Rightarrow> [])
      else if a < 0xF0 then
        (case bs of
           b # c # bs \<Rightarrow>
             (push_bit 12 (ucast (a AND 0x0F)) OR push_bit 6 (low6 b) OR low6 c) # decode_utf8 bs
         | _ \<Rightarrow> [])
      else
        (case bs of
           b # c # d # bs \<Rightarrow>
             (push_bit 18 (ucast (a AND 0x07)) OR push_bit 12 (low6 b) OR push_bit 6 (low6 c) OR low6 d)
             # decode_utf8 bs
         | _ \<Rightarrow> []))"

definition text_of :: "string \<Rightarrow> ustring" where
  "text_of s = decode_utf8 (map of_char s)"

section \<open>Decoding undoes encoding\<close>

lemma below_32: "n < 32 \<Longrightarrow> n \<in> {0,1,2,3,4,5,6,7,8,9,10,11,12,13,14,15,16,17,18,19,20,21,22,23,24,25,26,27,28,29,30,31}"
  for n :: nat
  by simp presburger

lemma decode_two:
  fixes c :: uchar
  assumes "take_bit 11 c = c"
  shows "push_bit 6 (ucast ((0xC0 OR ucast (drop_bit 6 c) :: u8) AND 0x1F)) OR low6 (0x80 OR ucast (c AND 0x3F)) = c"
proof (rule bit_word_eqI)
  fix n assume "n < LENGTH(32)"
  then have n: "n < 32" by simp
  have c: "bit c n = (n < 11 \<and> bit c n)" for n by (metis assms bit_take_bit_iff)
  show "bit (push_bit 6 (ucast ((0xC0 OR ucast (drop_bit 6 c) :: u8) AND 0x1F)) OR low6 (0x80 OR ucast (c AND 0x3F))) n
      = bit c n"
    using below_32[OF n] c[of n] c[of "n - 6"] unfolding low6_def
    by (elim insertE emptyE) (simp_all add: bit_simps)
qed

lemma decode_three:
  fixes c :: uchar
  assumes "take_bit 16 c = c"
  shows "push_bit 12 (ucast ((0xE0 OR ucast (drop_bit 12 c) :: u8) AND 0x0F))
    OR push_bit 6 (low6 (0x80 OR ucast (drop_bit 6 c AND 0x3F))) OR low6 (0x80 OR ucast (c AND 0x3F)) = c"
  (is "?d = c")
proof (rule bit_word_eqI)
  fix n assume "n < LENGTH(32)"
  then have n: "n < 32" by simp
  have c: "bit c n = (n < 16 \<and> bit c n)" for n by (metis assms bit_take_bit_iff)
  show "bit ?d n = bit c n"
    using below_32[OF n] c[of n] c[of "n - 12"] unfolding low6_def
    by (elim insertE emptyE) (simp_all add: bit_simps)
qed

lemma decode_four:
  fixes c :: uchar
  assumes "take_bit 21 c = c"
  shows "push_bit 18 (ucast ((0xF0 OR ucast (drop_bit 18 c) :: u8) AND 0x07))
    OR push_bit 12 (low6 (0x80 OR ucast (drop_bit 12 c AND 0x3F)))
    OR push_bit 6 (low6 (0x80 OR ucast (drop_bit 6 c AND 0x3F))) OR low6 (0x80 OR ucast (c AND 0x3F)) = c"
  (is "?d = c")
proof (rule bit_word_eqI)
  fix n assume "n < LENGTH(32)"
  then have n: "n < 32" by simp
  have c: "bit c n = (n < 21 \<and> bit c n)" for n by (metis assms bit_take_bit_iff)
  show "bit ?d n = bit c n"
    using below_32[OF n] c[of n] c[of "n - 18"] unfolding low6_def
    by (elim insertE emptyE) (simp_all add: bit_simps)
qed

text \<open>The top bits of a byte decide its place in a sequence.\<close>

lemma first_byte:
  fixes a :: u8
  shows "a < 0x80 \<longleftrightarrow> drop_bit 7 a = 0" "a < 0xE0 \<longleftrightarrow> drop_bit 5 a \<noteq> 7" "a < 0xF0 \<longleftrightarrow> drop_bit 4 a \<noteq> 15"
proof -
  have "unat a < 256" using unsigned_less[of a] by simp
  moreover from this have "take_bit 8 (unat a) = unat a" by (simp add: take_bit_nat_eq_self)
  ultimately show "a < 0x80 \<longleftrightarrow> drop_bit 7 a = 0" "a < 0xE0 \<longleftrightarrow> drop_bit 5 a \<noteq> 7" "a < 0xF0 \<longleftrightarrow> drop_bit 4 a \<noteq> 15"
    by (auto simp: word_less_nat_alt word_unat_eq_iff unsigned_drop_bit_eq drop_bit_nat_def)
qed

lemma below_8: "n < 8 \<Longrightarrow> n \<in> {0,1,2,3,4,5,6,7}" for n :: nat
  by simp presburger

lemma first_of_two:
  fixes c :: uchar
  assumes "take_bit 11 c = c"
  shows "drop_bit 5 (0xC0 OR ucast (drop_bit 6 c) :: u8) = 6"
proof (rule bit_word_eqI)
  fix n assume "n < LENGTH(8)"
  then have n: "n < 8" by simp
  have c: "bit c n = (n < 11 \<and> bit c n)" for n by (metis assms bit_take_bit_iff)
  show "bit (drop_bit 5 (0xC0 OR ucast (drop_bit 6 c) :: u8)) n = bit (6 :: u8) n"
    using below_8[OF n] c[of "n + 11"] by (elim insertE emptyE) (simp_all add: bit_simps)
qed

lemma first_of_three:
  fixes c :: uchar
  assumes "take_bit 16 c = c"
  shows "drop_bit 4 (0xE0 OR ucast (drop_bit 12 c) :: u8) = 14"
proof (rule bit_word_eqI)
  fix n assume "n < LENGTH(8)"
  then have n: "n < 8" by simp
  have c: "bit c n = (n < 16 \<and> bit c n)" for n by (metis assms bit_take_bit_iff)
  show "bit (drop_bit 4 (0xE0 OR ucast (drop_bit 12 c) :: u8)) n = bit (14 :: u8) n"
    using below_8[OF n] c[of "n + 16"] by (elim insertE emptyE) (simp_all add: bit_simps)
qed

lemma first_of_four: "drop_bit 4 (0xF0 OR x :: u8) = 15"
proof (rule bit_word_eqI)
  fix n assume "n < LENGTH(8)"
  then have n: "n < 8" by simp
  show "bit (drop_bit 4 (0xF0 OR x :: u8)) n = bit (15 :: u8) n"
    using below_8[OF n] bit_imp_le_length[of x] by (elim insertE emptyE) (force simp: bit_simps)+
qed

lemma drop_bit_more: "drop_bit 7 a = drop_bit 2 (drop_bit 5 a)" "drop_bit 5 a = drop_bit 1 (drop_bit 4 a)" for a :: u8
  by (simp_all add: drop_bit_drop_bit)

lemma below_bits: "c < 2 ^ n \<Longrightarrow> take_bit n c = c" for c :: uchar
  using less_mask_eq[of c n] by (simp add: take_bit_eq_mask)

lemma decode_encode_char:
  assumes "c \<le> 0x10FFFF"
  shows "decode_utf8 (encode_utf8 c @ bs) = c # decode_utf8 bs"
proof -
  consider (one) "c < 0x80" | (two) "\<not> c < 0x80" "c < 0x800" | (three) "\<not> c < 0x800" "c < 0x10000"
    | (four) "\<not> c < 0x10000" by blast
  then show ?thesis
  proof cases
    case one
    have u: "unat (ucast c :: u8) = unat c"
      using one by (simp add: unsigned_ucast_eq take_bit_nat_eq_self word_less_nat_alt)
    then have "ucast (ucast c :: u8) = c"
      unfolding word_unat_eq_iff by (subst unat_ucast_char) (rule u)
    moreover have "(ucast c :: u8) < 0x80" using one u by (simp add: word_less_nat_alt)
    ultimately show ?thesis using one by (simp add: encode_utf8_def)
  next
    case two
    have t: "take_bit 11 c = c" using two(2) below_bits[of c 11] by simp
    have "\<not> (0xC0 OR ucast (drop_bit 6 c) :: u8) < 0x80" "(0xC0 OR ucast (drop_bit 6 c) :: u8) < 0xE0"
      unfolding first_byte drop_bit_more(1) first_of_two[OF t] by simp_all
    moreover have "c < 0x10000" using two(2) by (simp add: word_less_nat_alt)
    ultimately show ?thesis using two decode_two[OF t] by (simp add: encode_utf8_def)
  next
    case three
    have t: "take_bit 16 c = c" using three(2) below_bits[of c 16] by simp
    have "\<not> (0xE0 OR ucast (drop_bit 12 c) :: u8) < 0x80" "\<not> (0xE0 OR ucast (drop_bit 12 c) :: u8) < 0xE0"
      "(0xE0 OR ucast (drop_bit 12 c) :: u8) < 0xF0"
      unfolding first_byte drop_bit_more first_of_three[OF t] by simp_all
    moreover have "\<not> c < 0x80" using three(1) by (simp add: word_less_nat_alt)
    ultimately show ?thesis using three decode_three[OF t] by (simp add: encode_utf8_def)
  next
    case four
    have "c < 2 ^ 21" using assms by (simp add: word_less_nat_alt word_le_nat_alt)
    then have t: "take_bit 21 c = c" by (rule below_bits)
    have "\<not> (0xF0 OR ucast (drop_bit 18 c) :: u8) < 0x80" "\<not> (0xF0 OR ucast (drop_bit 18 c) :: u8) < 0xE0"
      "\<not> (0xF0 OR ucast (drop_bit 18 c) :: u8) < 0xF0"
      unfolding first_byte drop_bit_more first_of_four by simp_all
    moreover have "\<not> c < 0x80" "\<not> c < 0x800" using four by (simp_all add: word_less_nat_alt)
    ultimately show ?thesis using four decode_four[OF t] by (simp add: encode_utf8_def)
  qed
qed

lemma decode_str_bytes: "(\<And>c. c \<in> set s \<Longrightarrow> c \<le> 0x10FFFF) \<Longrightarrow> decode_utf8 (str_bytes s) = s"
  by (induction s) (simp_all add: str_bytes_def decode_encode_char)

lemma text_of_wire_of:
  assumes "\<And>c. c \<in> set s \<Longrightarrow> c \<le> 0x10FFFF"
  shows "text_of (wire_of s) = s"
proof -
  have "(of_char (char_of (unat x) :: char) :: u8) = x" for x :: u8
  proof -
    have "(of_char (char_of (unat x) :: char) :: u8) = of_nat (of_char (char_of (unat x) :: char) :: nat)"
      by (simp only: of_nat_of_char)
    also have "(of_char (char_of (unat x) :: char) :: nat) = unat x mod 256" by (rule of_char_of)
    also have "unat x mod 256 = unat x" using unsigned_less[of x, where ?'a = nat] by simp
    finally show ?thesis by simp
  qed
  then have "map of_char (wire_of s) = str_bytes s" by (simp add: wire_of_def o_def)
  then show ?thesis using decode_str_bytes assms by (simp add: text_of_def)
qed

end
