(* ===== verification/Pty_Errors.thy ===== *)
theory Pty_Errors
  imports Project Wire_Text Protocol_Types
begin

text \<open>
  How the client's pane operations fail (\<open>src/pty.rs\<close>): \<open>PtyError\<close> with its classifications, the daemon's
  refusals turned into it, and the check of the daemon's \<open>Hello\<close>. The derived debug forms of a server
  message and of an agent status error only reach diagnostics and are parameters; those of plain enums
  are written out.
\<close>

datatype delivery_operation = DeliverInput | DeliverPaste | DeliverResize | DeliverDetach

record delivery_error =
  de_operation :: delivery_operation
  de_pane :: pane_id

datatype pty_error =
    Rejected reject_code ustring
  | Offline ustring
  | Disconnected ustring
  | Timeout ustring
  | DeliveryUncertain delivery_error
  | ProtocolViolation ustring
  | InvalidRequest ustring
  | PtyIo io_error

fun pty_error_code :: "pty_error \<Rightarrow> reject_code option" where
  "pty_error_code (Rejected code _) = Some code"
| "pty_error_code _ = None"

definition is_disconnected_kind :: "io_kind \<Rightarrow> bool" where
  "is_disconnected_kind k \<longleftrightarrow> k \<in> {BrokenPipe, ConnectionReset, ConnectionAborted, NotConnected}"

fun is_disconnected :: "pty_error \<Rightarrow> bool" where
  "is_disconnected (Offline _) = True"
| "is_disconnected (Disconnected _) = True"
| "is_disconnected (PtyIo e) = is_disconnected_kind (io_kind e)"
| "is_disconnected _ = False"

fun is_reconciliation_uncertain :: "pty_error \<Rightarrow> bool" where
  "is_reconciliation_uncertain (Rejected _ _) = False"
| "is_reconciliation_uncertain (InvalidRequest _) = False"
| "is_reconciliation_uncertain (PtyIo e) = (io_kind e = IoTimedOut \<or> is_disconnected_kind (io_kind e))"
| "is_reconciliation_uncertain _ = True"

fun delivery_of :: "pty_error \<Rightarrow> delivery_error option" where
  "delivery_of (DeliveryUncertain e) = Some e"
| "delivery_of _ = None"

section \<open>How errors are shown\<close>

fun debug_delivery :: "delivery_operation \<Rightarrow> string" where
  "debug_delivery DeliverInput = ''Input''"
| "debug_delivery DeliverPaste = ''Paste''"
| "debug_delivery DeliverResize = ''Resize''"
| "debug_delivery DeliverDetach = ''Detach''"

definition number :: "u64 \<Rightarrow> ustring" where
  "number n = decimal (unat n)"

definition delivery_error_message :: "delivery_error \<Rightarrow> ustring" where
  "delivery_error_message e =
     ascii (debug_delivery (de_operation e)) @ ascii '' delivery to pane '' @ number (pane_id_raw (de_pane e)) @
     ascii '' is uncertain; it was not replayed''"

fun pty_error_message :: "pty_error \<Rightarrow> ustring" where
  "pty_error_message (Rejected code detail) =
     (if detail = [] then ascii (reject_description code)
      else ascii (reject_description code) @ ascii '': '' @ detail)"
| "pty_error_message (Offline message) = message"
| "pty_error_message (Disconnected message) = message"
| "pty_error_message (Timeout message) = message"
| "pty_error_message (ProtocolViolation message) = message"
| "pty_error_message (InvalidRequest message) = message"
| "pty_error_message (DeliveryUncertain e) = delivery_error_message e"
| "pty_error_message (PtyIo e) = ascii (io_message e)"

record pty_exit =
  px_code :: u32
  px_signal :: "ustring option"

definition finished_cleanly :: "pty_exit \<Rightarrow> bool" where
  "finished_cleanly e \<longleftrightarrow> px_code e = 0 \<and> px_signal e = None"

definition exit_label :: "pty_exit \<Rightarrow> ustring" where
  "exit_label e =
     (case px_signal e of
        Some signal \<Rightarrow> ascii ''terminated by '' @ signal
      | None \<Rightarrow> ascii ''exit '' @ decimal (unat (px_code e)))"

section \<open>The daemon's refusals\<close>

record debug_forms =
  dbg_status_error :: "agent_status_error \<Rightarrow> ustring"
  dbg_message :: "server_message \<Rightarrow> ustring"

fun debug_mismatch :: "identity_mismatch \<Rightarrow> string" where
  "debug_mismatch MismatchNamespace = ''Namespace''"
| "debug_mismatch MismatchToken = ''SessionToken''"

fun debug_lease_rejection :: "lease_rejection_reason \<Rightarrow> string" where
  "debug_lease_rejection LRPaneMissing = ''PaneMissing''"
| "debug_lease_rejection LRNotOwner = ''NotOwner''"
| "debug_lease_rejection LRStaleLease = ''StaleLease''"
| "debug_lease_rejection LRWriteRefused = ''WriteRefused''"

fun debug_lease_operation :: "lease_operation \<Rightarrow> string" where
  "debug_lease_operation OpInput = ''Input''"
| "debug_lease_operation OpPaste = ''Paste''"
| "debug_lease_operation OpResize = ''Resize''"
| "debug_lease_operation OpDetach = ''Detach''"

definition protocol_order_error :: "string \<Rightarrow> pty_error" where
  "protocol_order_error message = ProtocolViolation (ascii message)"

definition session_exists_detail :: "session_info \<Rightarrow> ustring" where
  "session_exists_detail session =
     ascii ''session '' @ number (session_id_raw (si_id session)) @ ascii '' already exists''"

fun create_error_detail :: "debug_forms \<Rightarrow> create_error \<Rightarrow> ustring" where
  "create_error_detail dbg (CESessionAlreadyExists session) = session_exists_detail session"
| "create_error_detail dbg (CEIdentityAlreadyExists session) = session_exists_detail session"
| "create_error_detail dbg (CEIdentityMismatch session mismatch) =
     ascii ''session '' @ number (session_id_raw session) @ ascii '' identity mismatch: '' @
     ascii (debug_mismatch mismatch)"
| "create_error_detail dbg (CEInvalidAgentMetadata e) = ascii ''agent metadata rejected: '' @ dbg_status_error dbg e"
| "create_error_detail dbg CERequestCollision = ascii ''create request ID collision''"
| "create_error_detail dbg CERetryExpired = ascii ''create request retry expired''"
| "create_error_detail dbg (CEFailed _ message) = text_of message"

definition pty_create_error :: "debug_forms \<Rightarrow> create_error \<Rightarrow> pty_error" where
  "pty_create_error dbg e = Rejected (create_error_code e) (create_error_detail dbg e)"

fun attach_error_detail :: "attach_error \<Rightarrow> ustring" where
  "attach_error_detail (AESessionNotFound session) =
     ascii ''server session '' @ number (session_id_raw session) @ ascii '' is unavailable''"
| "attach_error_detail (AEIdentityMismatch session mismatch) =
     ascii ''server session '' @ number (session_id_raw session) @ ascii '' identity mismatch: '' @
     ascii (debug_mismatch mismatch)"
| "attach_error_detail AESuperseded = ascii ''attachment request was superseded by a takeover''"
| "attach_error_detail AERequestCollision = ascii ''attach request ID collision''"
| "attach_error_detail AERetryExpired = ascii ''attach request retry expired''"
| "attach_error_detail (AEFailed _ message) = text_of message"

definition pty_attach_error :: "attach_error \<Rightarrow> pty_error" where
  "pty_attach_error e = Rejected (attach_error_code e) (attach_error_detail e)"

fun stop_error_detail :: "stop_error \<Rightarrow> ustring" where
  "stop_error_detail SERequestCollision = ascii ''stop request ID collision''"
| "stop_error_detail SERetryExpired = ascii ''stop request retry expired''"
| "stop_error_detail (SEIdentityMismatch pane mismatch) =
     ascii ''pane '' @ number (pane_id_raw pane) @ ascii '' identity mismatch: '' @ ascii (debug_mismatch mismatch)"
| "stop_error_detail (SELeaseRejected reason) =
     ascii ''stop lease rejected: '' @ ascii (debug_lease_rejection reason)"
| "stop_error_detail (SEFailed _ message) = text_of message"

definition pty_stop_error :: "stop_error \<Rightarrow> pty_error" where
  "pty_stop_error e = Rejected (stop_error_code e) (stop_error_detail e)"

definition pty_agent_status_error :: "debug_forms \<Rightarrow> agent_status_error \<Rightarrow> pty_error" where
  "pty_agent_status_error dbg e =
     Rejected (agent_status_error_code e) (ascii ''agent status rejected: '' @ dbg_status_error dbg e)"

section \<open>The daemon's greeting\<close>

record server_hello =
  sh_server_instance :: server_instance_id
  sh_client_scope :: client_scope_id
  sh_resumed :: bool

definition check_server_hello :: "debug_forms \<Rightarrow> server_message \<Rightarrow> pty_error + server_hello" where
  "check_server_hello dbg m =
     (case m of
        SHello version server scope resumed \<Rightarrow>
          if version = PROTOCOL_VERSION
          then Inr \<lparr>sh_server_instance = server, sh_client_scope = scope, sh_resumed = resumed\<rparr>
          else Inl (Rejected ProtocolMismatch
            (ascii ''mult-server protocol version '' @ decimal (unat version) @
             ascii '' is incompatible with client version '' @ decimal (unat PROTOCOL_VERSION) @
             ascii ''; restart mult-server''))
      | SError code message \<Rightarrow> Inl (Rejected code (text_of message))
      | _ \<Rightarrow> Inl (ProtocolViolation (ascii ''unexpected mult-server hello response: '' @ dbg_message dbg m)))"

definition validate_server_hello :: "debug_forms \<Rightarrow> io_error + server_message \<Rightarrow> pty_error + server_hello" where
  "validate_server_hello dbg read = (case read of Inl e \<Rightarrow> Inl (PtyIo e) | Inr m \<Rightarrow> check_server_hello dbg m)"

text \<open>The only timeout it is called with is the greeting's two seconds.\<close>

fun map_server_hello_error :: "pty_error \<Rightarrow> pty_error" where
  "map_server_hello_error (PtyIo e) =
     (if io_kind e = IoTimedOut \<or> io_kind e = WouldBlock
      then Timeout (ascii ''timed out after 2s waiting for mult-server hello'') else PtyIo e)"
| "map_server_hello_error e = e"

definition validate_server_hello_with_timeout ::
    "debug_forms \<Rightarrow> io_error option \<Rightarrow> io_error + server_message \<Rightarrow> io_error option \<Rightarrow> pty_error + server_hello" where
  "validate_server_hello_with_timeout dbg set_timeout read reset_timeout =
     (case set_timeout of
        Some e \<Rightarrow> Inl (PtyIo e)
      | None \<Rightarrow>
          (case validate_server_hello dbg read of
             Inr hello \<Rightarrow> (case reset_timeout of Some e \<Rightarrow> Inl (PtyIo e) | None \<Rightarrow> Inr hello)
           | Inl e \<Rightarrow> Inl (map_server_hello_error e)))"

fun message_request_id :: "server_message \<Rightarrow> request_id option" where
  "message_request_id (SCreateResult r _) = Some r"
| "message_request_id (SAttachResult r _) = Some r"
| "message_request_id (SReplayBegin r _ _ _ _ _) = Some r"
| "message_request_id (SReplayChunk r _ _ _ _) = Some r"
| "message_request_id (SReplayEnd r _ _ _) = Some r"
| "message_request_id (SStopResult r _) = Some r"
| "message_request_id (SAgentStatusResult r _) = Some r"
| "message_request_id _ = None"

section \<open>Facts\<close>

text \<open>An answer the daemon gave is never a reason to resend or to keep the attachment.\<close>

lemma refusals_are_definite:
  "pty_error_code e \<noteq> None \<Longrightarrow> \<not> is_disconnected e \<and> \<not> is_reconciliation_uncertain e"
  by (cases e) auto

lemma disconnected_is_uncertain: "is_disconnected e \<Longrightarrow> is_reconciliation_uncertain e"
  by (cases e) auto

lemma uncertain_delivery_not_resent: "delivery_of e \<noteq> None \<Longrightarrow> \<not> is_disconnected e \<and> is_reconciliation_uncertain e"
  by (cases e) auto

lemma hello_accepted_iff:
  "check_server_hello dbg m = Inr h \<longleftrightarrow>
     m = SHello PROTOCOL_VERSION (sh_server_instance h) (sh_client_scope h) (sh_resumed h)"
  by (cases h) (auto simp: check_server_hello_def split: server_message.split)

end
