(* ===== verification/Terminal_Responder.thy ===== *)
theory Terminal_Responder
  imports Terminal_Input
begin

text \<open>
  The answers the client gives a program that queries its terminal (\<open>src/pty.rs\<close>): the detector that scans
  escape sequences for queries and for the two private modes the client implements itself, and the loop
  that feeds a chunk of output to the terminal emulator while answering. The emulator is the vendored
  \<open>vt100\<close>, a parameter: \<open>process\<close> hands it bytes, \<open>cursor\<close> reads the cursor position.
\<close>

section \<open>The detector\<close>

datatype response_state =
    ResponseGround | ResponseEscape | ResponseCsi | ResponseCsiIgnored | ResponseString bool | ResponseIgnoreOne

text \<open>The buffer of the sequence being scanned holds the first \<open>csi_len\<close> bytes of the array.\<close>

record response_detector =
  rd_state :: response_state
  rd_focus_reporting :: bool
  rd_alternate_scroll :: bool
  rd_csi :: bytes

definition response_detector_default :: response_detector where
  "response_detector_default =
     \<lparr>rd_state = ResponseGround, rd_focus_reporting = False, rd_alternate_scroll = False, rd_csi = []\<rparr>"

definition max_csi_sequence_bytes :: nat where "max_csi_sequence_bytes = 128"

datatype terminal_query = QueryDevice bytes | QueryCursor bool

definition primary_device_attributes :: bytes where
  "primary_device_attributes = 0x1b # ascii_bytes ''[?1;2c''"

definition device_status_ok :: bytes where
  "device_status_ok = 0x1b # ascii_bytes ''[0n''"

text \<open>
  Parameters are the runs of ASCII digits; no other byte decodes to a digit, in valid UTF-8 or not, so the
  runs are those of the bytes. A number that does not fit a \<open>usize\<close> is dropped.
\<close>

definition is_digit_byte :: "u8 \<Rightarrow> bool" where
  "is_digit_byte b \<longleftrightarrow> 48 \<le> b \<and> b \<le> 57"

primrec digit_runs_from :: "bytes \<Rightarrow> bytes \<Rightarrow> bytes list" where
  "digit_runs_from part [] = [part]"
| "digit_runs_from part (b # bs) =
     (if is_digit_byte b then digit_runs_from (part @ [b]) bs else part # digit_runs_from [] bs)"

definition digits_value :: "bytes \<Rightarrow> nat" where
  "digits_value bs = fold (\<lambda>b n. 10 * n + unat (b - 48)) bs 0"

definition parse_csi_params :: "bytes \<Rightarrow> nat list" where
  "parse_csi_params bs =
     filter (\<lambda>n. n \<le> usize_max) (map digits_value (filter (\<lambda>part. part \<noteq> []) (digit_runs_from [] bs)))"

definition param_or_default :: "nat list \<Rightarrow> nat \<Rightarrow> nat \<Rightarrow> nat" where
  "param_or_default params i d = (if i < length params \<and> 0 < params ! i then params ! i else d)"

definition csi_terminal_query :: "bytes \<Rightarrow> u8 \<Rightarrow> terminal_query option" where
  "csi_terminal_query sq final =
     (let private = 0x3f \<in> set sq; param = param_or_default (parse_csi_params sq) 0 0 in
      if final = 0x63 \<and> \<not> private \<and> param = 0 then Some (QueryDevice primary_device_attributes)
      else if final = 0x6e \<and> \<not> private then
        (if param = 5 then Some (QueryDevice device_status_ok)
         else if param = 6 then Some (QueryCursor False) else None)
      else if final = 0x6e \<and> private \<and> param = 6 then Some (QueryCursor True)
      else None)"

definition observe_mode :: "bool \<Rightarrow> nat \<Rightarrow> response_detector \<Rightarrow> response_detector" where
  "observe_mode on mode d =
     (if mode = 1004 then d\<lparr>rd_focus_reporting := on\<rparr>
      else if mode = 1007 then d\<lparr>rd_alternate_scroll := on\<rparr> else d)"

definition observe_mode_change :: "u8 \<Rightarrow> response_detector \<Rightarrow> response_detector" where
  "observe_mode_change final d =
     (if final \<noteq> 0x68 \<and> final \<noteq> 0x6c then d
      else if 0x3f \<notin> set (rd_csi d) then d
      else fold (observe_mode (final = 0x68)) (parse_csi_params (rd_csi d)) d)"

definition is_csi_final :: "u8 \<Rightarrow> bool" where
  "is_csi_final b \<longleftrightarrow> 0x40 \<le> b \<and> b \<le> 0x7e"

definition advance :: "u8 \<Rightarrow> response_detector \<Rightarrow> terminal_query option \<times> response_detector" where
  "advance byte d =
     (case rd_state d of
        ResponseGround \<Rightarrow> (None, d\<lparr>rd_state := if byte = 0x1b then ResponseEscape else ResponseGround\<rparr>)
      | ResponseEscape \<Rightarrow>
          if byte = 0x63 then
            (None, d\<lparr>rd_focus_reporting := False, rd_alternate_scroll := False, rd_state := ResponseGround\<rparr>)
          else if byte = 0x5b then (None, d\<lparr>rd_csi := [], rd_state := ResponseCsi\<rparr>)
          else if byte \<in> {0x5d, 0x50, 0x5f, 0x5e, 0x58} then (None, d\<lparr>rd_state := ResponseString False\<rparr>)
          else if byte \<in> {0x28, 0x29, 0x2a, 0x2b} then (None, d\<lparr>rd_state := ResponseIgnoreOne\<rparr>)
          else if byte = 0x5a then (Some (QueryDevice primary_device_attributes), d\<lparr>rd_state := ResponseGround\<rparr>)
          else (None, d\<lparr>rd_state := ResponseGround\<rparr>)
      | ResponseCsi \<Rightarrow>
          if is_csi_final byte then
            (csi_terminal_query (rd_csi d) byte, (observe_mode_change byte d)\<lparr>rd_state := ResponseGround\<rparr>)
          else if max_csi_sequence_bytes \<le> length (rd_csi d) then (None, d\<lparr>rd_state := ResponseCsiIgnored\<rparr>)
          else (None, d\<lparr>rd_csi := rd_csi d @ [byte]\<rparr>)
      | ResponseCsiIgnored \<Rightarrow>
          (None, d\<lparr>rd_state := if is_csi_final byte then ResponseGround else ResponseCsiIgnored\<rparr>)
      | ResponseString esc_seen \<Rightarrow>
          (None, d\<lparr>rd_state := if byte = 0x07 \<or> (esc_seen \<and> byte = 0x5c) then ResponseGround
                              else ResponseString (byte = 0x1b)\<rparr>)
      | ResponseIgnoreOne \<Rightarrow> (None, d\<lparr>rd_state := ResponseGround\<rparr>))"

definition is_ground :: "response_detector \<Rightarrow> bool" where
  "is_ground d \<longleftrightarrow> rd_state d = ResponseGround"

section \<open>Answers\<close>

datatype query_kind = KindCursorPosition | KindDevice

text \<open>Cursor coordinates count from zero in 16 bits.\<close>

definition cursor_position_report :: "u16 \<times> u16 \<Rightarrow> bool \<Rightarrow> bytes" where
  "cursor_position_report position private =
     (case position of (row, col) \<Rightarrow>
        0x1b # ascii_bytes (if private then ''[?'' else ''['') @ text_bytes (decimal (unat (row + 1))) @
        ascii_bytes '';'' @ text_bytes (decimal (unat (col + 1))) @ ascii_bytes ''R'')"

fun resolve_query :: "terminal_query \<Rightarrow> u16 \<times> u16 \<Rightarrow> query_kind \<times> bytes" where
  "resolve_query (QueryDevice bs) position = (KindDevice, bs)"
| "resolve_query (QueryCursor private) position = (KindCursorPosition, cursor_position_report position private)"

definition max_query_responses_per_chunk :: nat where "max_query_responses_per_chunk = 8"
definition max_query_response_bytes :: nat where "max_query_response_bytes = 256"

record answers =
  an_payload :: bytes
  an_answered :: nat
  an_cursor_reported :: bool

definition no_answers :: answers where
  "no_answers = \<lparr>an_payload = [], an_answered = 0, an_cursor_reported = False\<rparr>"

definition answer_query :: "terminal_query \<Rightarrow> u16 \<times> u16 \<Rightarrow> answers \<Rightarrow> answers" where
  "answer_query query position a =
     (case resolve_query query position of (kind, bs) \<Rightarrow>
        let repeated_cursor = an_cursor_reported a \<and> kind = KindCursorPosition;
            over_budget = max_query_responses_per_chunk \<le> an_answered a
              \<or> max_query_response_bytes < length (an_payload a) + length bs in
        if \<not> repeated_cursor \<and> \<not> over_budget then
          \<lparr>an_payload = an_payload a @ bs, an_answered = an_answered a + 1,
           an_cursor_reported = (an_cursor_reported a \<or> kind = KindCursorPosition)\<rparr>
        else a)"

text \<open>
  Scanning one sequence: the bytes consumed, the query recognised last and the detector, at the first
  byte that returns the detector to its ground state or at the end of the chunk.
\<close>

fun scan_sequence :: "bytes \<Rightarrow> terminal_query option \<Rightarrow> response_detector
    \<Rightarrow> bytes \<times> terminal_query option \<times> response_detector \<times> bytes" where
  "scan_sequence [] query d = ([], query, d, [])"
| "scan_sequence (b # bs) query d =
     (case advance b d of (recognised, d') \<Rightarrow>
        let query' = (if recognised \<noteq> None then recognised else query) in
        if is_ground d' then ([b], query', d', bs)
        else (case scan_sequence bs query' d' of (used, q, d'', rest) \<Rightarrow> (b # used, q, d'', rest)))"

lemma scan_sequence_bytes: "scan_sequence bs query d = (used, q, d', rest) \<Longrightarrow> bs = used @ rest"
  by (induction bs arbitrary: query d used) (auto split: prod.splits if_splits simp del: not_None_eq)

lemma scan_sequence_progress: "scan_sequence (b # bs) query d = (used, q, d', rest) \<Longrightarrow> used \<noteq> []"
  by (auto split: prod.splits if_splits simp del: not_None_eq)

lemma scan_sequence_shorter:
  assumes "scan_sequence bs query d = (used, q, d', rest)" "bs \<noteq> []"
  shows "length rest < length bs"
proof -
  obtain b bs' where "bs = b # bs'" using assms(2) by (cases bs) auto
  then have "used \<noteq> []" using scan_sequence_progress assms(1) by blast
  then show ?thesis using scan_sequence_bytes[OF assms(1)] by simp
qed

definition answer_at :: "terminal_query option \<Rightarrow> u16 \<times> u16 \<Rightarrow> answers \<Rightarrow> answers" where
  "answer_at query position a = (case query of Some q \<Rightarrow> answer_query q position a | None \<Rightarrow> a)"

function feed_from :: "('p \<Rightarrow> bytes \<Rightarrow> 'p) \<Rightarrow> ('p \<Rightarrow> u16 \<times> u16) \<Rightarrow> bytes \<Rightarrow> 'p \<times> response_detector \<times> answers
    \<Rightarrow> 'p \<times> response_detector \<times> answers" where
  "feed_from process cursor bs (p, d, a) =
     (if bs = [] then (p, d, a)
      else
        let run = takeWhile (\<lambda>b. b \<noteq> 0x1b) bs in
        if is_ground d \<and> run \<noteq> [] then
          feed_from process cursor (drop (length run) bs) (process p run, d, a)
        else
          (case scan_sequence bs None d of (used, query, d', rest) \<Rightarrow>
             let p' = process p used in
             feed_from process cursor rest (p', d', answer_at query (cursor p') a)))"
  by pat_completeness auto
termination
  by (relation "measure (\<lambda>(_, _, bs, _). length bs)")
     (simp, auto intro: scan_sequence_shorter[OF sym])

declare feed_from.simps [simp del]

definition feed_parser_with_responder ::
  "('p \<Rightarrow> bytes \<Rightarrow> 'p) \<Rightarrow> ('p \<Rightarrow> u16 \<times> u16) \<Rightarrow> 'p \<Rightarrow> response_detector \<Rightarrow> bytes
    \<Rightarrow> bytes \<times> 'p \<times> response_detector" where
  "feed_parser_with_responder process cursor p d bs =
     (case feed_from process cursor bs (p, d, no_answers) of (p', d', a) \<Rightarrow> (an_payload a, p', d'))"

text \<open>The reference of the source's tests: one byte at a time.\<close>

definition feed_byte :: "('p \<Rightarrow> bytes \<Rightarrow> 'p) \<Rightarrow> ('p \<Rightarrow> u16 \<times> u16) \<Rightarrow> u8 \<Rightarrow> 'p \<times> response_detector \<times> answers
    \<Rightarrow> 'p \<times> response_detector \<times> answers" where
  "feed_byte process cursor b s =
     (case s of (p, d, a) \<Rightarrow>
        let p' = process p [b]; (query, d') = advance b d in
        (p', d', answer_at query (cursor p') a))"

definition feed_parser_byte_at_a_time ::
  "('p \<Rightarrow> bytes \<Rightarrow> 'p) \<Rightarrow> ('p \<Rightarrow> u16 \<times> u16) \<Rightarrow> 'p \<Rightarrow> response_detector \<Rightarrow> bytes
    \<Rightarrow> bytes \<times> 'p \<times> response_detector" where
  "feed_parser_byte_at_a_time process cursor p d bs =
     (case fold (feed_byte process cursor) bs (p, d, no_answers) of (p', d', a) \<Rightarrow> (an_payload a, p', d'))"


section \<open>Batches against single bytes\<close>

lemma advance_query_ground: "advance b d = (Some q, d') \<Longrightarrow> is_ground d'"
  by (auto simp: advance_def is_ground_def split: response_state.splits if_splits)

lemma advance_ground_other: "is_ground d \<Longrightarrow> b \<noteq> 0x1b \<Longrightarrow> advance b d = (None, d)"
  by (cases d) (auto simp: advance_def is_ground_def)

lemma advance_ground_escape: "is_ground d \<Longrightarrow> \<not> is_ground (snd (advance 0x1b d))"
  by (auto simp: advance_def is_ground_def)

text \<open>What is asked of the emulator: the bytes may arrive in any pieces.\<close>

definition streams :: "('p \<Rightarrow> bytes \<Rightarrow> 'p) \<Rightarrow> bool" where
  "streams process \<longleftrightarrow> (\<forall>p xs ys. process p (xs @ ys) = process (process p xs) ys)"

lemma streams_append: "streams process \<Longrightarrow> process p (xs @ ys) = process (process p xs) ys"
  by (simp add: streams_def)

lemma feed_byte_none:
  "advance b d = (None, d') \<Longrightarrow> feed_byte process cursor b (p, d, a) = (process p [b], d', a)"
  by (simp add: feed_byte_def answer_at_def)

lemma feed_ground_run:
  assumes "streams process" "is_ground d" "\<And>b. b \<in> set bs \<Longrightarrow> b \<noteq> 0x1b" "bs \<noteq> []"
  shows "fold (feed_byte process cursor) bs (p, d, a) = (process p bs, d, a)"
  using assms(3,4)
proof (induction bs arbitrary: p)
  case (Cons b bs)
  have step: "feed_byte process cursor b (p, d, a) = (process p [b], d, a)"
    using Cons.prems(1)[of b] by (simp add: feed_byte_none advance_ground_other assms(2))
  show ?case
  proof (cases "bs = []")
    case False
    then have "fold (feed_byte process cursor) bs (process p [b], d, a) = (process (process p [b]) bs, d, a)"
      using Cons.prems(1) by (intro Cons.IH) auto
    then show ?thesis using streams_append[OF assms(1), of p "[b]" bs] step by simp
  qed (simp add: step)
qed simp

text \<open>A query ends its sequence, so the emulator has consumed the same bytes in both runs.\<close>

lemma feed_sequence:
  assumes "streams process" "scan_sequence bs None d = (used, query, d', rest)" "bs \<noteq> []"
  shows "fold (feed_byte process cursor) used (p, d, a)
           = (process p used, d', answer_at query (cursor (process p used)) a)"
  using assms(2,3)
proof (induction bs arbitrary: p d used)
  case (Cons b bs)
  obtain recognised d1 where adv: "advance b d = (recognised, d1)" by fastforce
  show ?case
  proof (cases "is_ground d1 \<or> bs = []")
    case True
    then have "used = [b]" "d' = d1" "query = recognised"
      using Cons.prems adv by (auto simp: Let_def split: if_splits)
    then show ?thesis by (simp add: feed_byte_def adv Let_def)
  next
    case False
    then have none: "recognised = None" using advance_query_ground adv by (cases recognised) auto
    obtain used' where used: "used = b # used'" "scan_sequence bs None d1 = (used', query, d', rest)"
      using Cons.prems(1) False adv none by (auto split: prod.splits)
    have "fold (feed_byte process cursor) used' (process p [b], d1, a)
            = (process (process p [b]) used', d', answer_at query (cursor (process (process p [b]) used')) a)"
      using Cons.IH[OF used(2)] False by blast
    moreover have "process p (b # used') = process (process p [b]) used'"
      using streams_append[OF assms(1), of p "[b]" used'] by simp
    ultimately show ?thesis using adv none used(1) by (simp add: feed_byte_none)
  qed
qed simp

lemma feed_from_is_fold:
  assumes "streams process"
  shows "feed_from process cursor bs s = fold (feed_byte process cursor) bs s"
  using assms
proof (induction process cursor bs s rule: feed_from.induct)
  case (1 process cursor bs p d a)
  define run where "run = takeWhile (\<lambda>b. b \<noteq> 0x1b) bs"
  consider (none) "bs = []" | (run) "bs \<noteq> []" "is_ground d" "run \<noteq> []"
    | (sequence) "bs \<noteq> []" "\<not> (is_ground d \<and> run \<noteq> [])" by blast
  then show ?case
  proof cases
    case run
    have bs: "bs = run @ drop (length run) bs" by (metis append_eq_conv_conj run_def takeWhile_dropWhile_id)
    have "fold (feed_byte process cursor) run (p, d, a) = (process p run, d, a)"
      by (rule feed_ground_run[OF 1(3) run(2)]) (use run(3) in \<open>auto simp: run_def dest: set_takeWhileD\<close>)
    then have "fold (feed_byte process cursor) bs (p, d, a)
        = fold (feed_byte process cursor) (drop (length run) bs) (process p run, d, a)"
      by (subst bs) simp
    moreover have "feed_from process cursor bs (p, d, a)
        = feed_from process cursor (drop (length run) bs) (process p run, d, a)"
      using run by (subst feed_from.simps) (simp add: run_def Let_def)
    ultimately show ?thesis using 1(1)[OF run(1) run_def] run 1(3) by simp
  next
    case sequence
    obtain used query d' rest where scan: "scan_sequence bs None d = (used, query, d', rest)"
      by (cases "scan_sequence bs None d") auto
    have "feed_from process cursor bs (p, d, a)
        = feed_from process cursor rest (process p used, d', answer_at query (cursor (process p used)) a)"
      using sequence scan by (subst feed_from.simps) (auto simp: run_def Let_def)
    also have "\<dots> = fold (feed_byte process cursor) rest (process p used, d', answer_at query (cursor (process p used)) a)"
      using 1(2)[OF sequence(1) run_def sequence(2)] scan 1(3) by simp
    also have "\<dots> = fold (feed_byte process cursor) bs (p, d, a)"
      using feed_sequence[OF 1(3) scan sequence(1)] scan_sequence_bytes[OF scan] by simp
    finally show ?thesis .
  qed (simp add: feed_from.simps)
qed


section \<open>Bounds\<close>

definition detector_ok :: "response_detector \<Rightarrow> bool" where
  "detector_ok d \<longleftrightarrow> length (rd_csi d) \<le> max_csi_sequence_bytes"

lemma observe_mode_csi: "rd_csi (fold (observe_mode on) modes d) = rd_csi d"
  by (induction modes arbitrary: d) (auto simp: observe_mode_def)

lemma advance_ok: "detector_ok d \<Longrightarrow> detector_ok (snd (advance b d))"
  by (cases "rd_state d")
     (auto simp: detector_ok_def advance_def observe_mode_change_def observe_mode_csi not_le)

definition answers_ok :: "answers \<Rightarrow> bool" where
  "answers_ok a \<longleftrightarrow> length (an_payload a) \<le> max_query_response_bytes
     \<and> an_answered a \<le> max_query_responses_per_chunk"

lemma answer_at_ok: "answers_ok a \<Longrightarrow> answers_ok (answer_at q position a)"
  by (auto simp: answers_ok_def answer_at_def answer_query_def Let_def split: option.split prod.split)

lemma feed_byte_ok:
  assumes "feed_byte process cursor b (p, d, a) = (p', d', a')" "answers_ok a" "detector_ok d"
  shows "answers_ok a' \<and> detector_ok d'"
proof -
  have "d' = snd (advance b d)" "a' = answer_at (fst (advance b d)) (cursor (process p [b])) a"
    using assms(1) by (auto simp: feed_byte_def Let_def split: prod.splits)
  then show ?thesis using advance_ok assms(2,3) answer_at_ok by auto
qed

lemma feed_fold_ok:
  assumes "fold (feed_byte process cursor) bs (p, d, a) = (p', d', a')" "answers_ok a" "detector_ok d"
  shows "answers_ok a' \<and> detector_ok d'"
  using assms
proof (induction bs arbitrary: p d a)
  case (Cons b bs)
  obtain p1 d1 a1 where step: "feed_byte process cursor b (p, d, a) = (p1, d1, a1)"
    by (cases "feed_byte process cursor b (p, d, a)") auto
  then show ?case using Cons.IH[of p1 d1 a1] Cons.prems feed_byte_ok[OF step] by simp
qed simp

end
