(* ===== verification/Pty_Client.thy ===== *)
theory Pty_Client
  imports Pty_Errors Terminal_Responder Shell_Quoting "HOL-Library.AList"
begin

text \<open>
  The client's side of the panes (\<open>PtyRuntime\<close> in \<open>src/pty.rs\<close>): its state and the operations that do not
  wait for the daemon.

  What surrounds it is data. The terminal emulator is a record of functions. Time is a clock in
  nanoseconds that only waiting advances. A connection carries what its socket will deliver, each message
  with the time it arrives, and what its writes will answer; past the end of a list nothing arrives and
  writes succeed. The attempts to connect that lie ahead are a list of how long each takes and how it ends.
  \<open>cl_sent\<close> collects the frames written, \<open>cl_attempts\<close> the attempts made. The map of panes is a list of
  pairs, in the order its iteration yields them.
\<close>

section \<open>The surroundings\<close>

record screen =
  sc_rows :: u16
  sc_cols :: u16
  sc_cursor :: "u16 \<times> u16"
  sc_title :: ustring
  sc_alternate :: bool
  sc_mouse_mode :: mouse_mode
  sc_mouse_encoding :: mouse_encoding
  sc_bracketed_paste :: bool
  sc_application_cursor :: bool
  sc_application_keypad :: bool
  sc_scrollback :: nat
  sc_scrollback_len :: nat
  sc_lines :: "ustring list"

record 'p emulator =
  em_new :: "u16 \<Rightarrow> u16 \<Rightarrow> nat \<Rightarrow> 'p"
  em_process :: "'p \<Rightarrow> bytes \<Rightarrow> 'p"
  em_set_size :: "u16 \<Rightarrow> u16 \<Rightarrow> 'p \<Rightarrow> 'p"
  em_set_scrollback :: "nat \<Rightarrow> 'p \<Rightarrow> 'p"
  em_screen :: "'p \<Rightarrow> screen"
  em_is_wide :: "'p \<Rightarrow> u16 \<Rightarrow> u16 \<Rightarrow> bool option"
  em_contents_between :: "'p \<Rightarrow> u16 \<Rightarrow> u16 \<Rightarrow> u16 \<Rightarrow> u16 \<Rightarrow> ustring"
  em_row_wrapped :: "'p \<Rightarrow> u16 \<Rightarrow> bool"

datatype spawn_policy = Autospawn | ConnectOnly

datatype net_event = NetMessage server_message | NetClosed

datatype write_result = Written | NotAttempted io_error | Attempted io_error

record connection =
  cn_incoming :: "(nat \<times> net_event) list"
  cn_writes :: "write_result list"

record established =
  es_hello :: server_hello
  es_connection :: connection

datatype connect_outcome = ConnectFailed pty_error | ConnectPanicked | Connected established

section \<open>State\<close>

record pty_dimensions =
  dim_rows :: u16
  dim_cols :: u16

record pty_spawn =
  sp_terminal :: pty_key
  sp_program :: ustring
  sp_args :: "ustring list"
  sp_cwd :: "ustring option"
  sp_env :: "(ustring \<times> ustring) list"
  sp_size :: pty_dimensions

datatype pty_event =
    Scrollback pty_key nat
  | ReplayTruncated pty_key u64
  | OutputArrived pty_key nat
  | PaneTakenOver pty_key
  | PaneExited pty_key pty_exit
  | PaneError pty_key ustring
  | StopFailed ustring
  | ConnectionError ustring

record 'p pty_pane =
  pp_attachment :: "pane_id option"
  pp_lease :: "attachment_lease option"
  pp_expected_output :: "output_sequence option"
  pp_identity :: "session_identity option"
  pp_agent :: "agent_metadata option"
  pp_parser :: "'p option"
  pp_responder :: "response_detector option"
  pp_saw_output :: bool
  pp_exit_status :: "pty_exit option"
  pp_foreground :: "foreground_info option"
  pp_tracker :: "command_tracker option"

definition pty_pane_default :: "'p pty_pane" where
  "pty_pane_default =
     \<lparr>pp_attachment = None, pp_lease = None, pp_expected_output = None, pp_identity = None, pp_agent = None,
      pp_parser = None, pp_responder = None, pp_saw_output = False, pp_exit_status = None,
      pp_foreground = None, pp_tracker = None\<rparr>"

record pending_stop =
  st_request_id :: request_id
  st_session :: session_id
  st_label :: ustring
  st_deadline :: nat

record pending_connect =
  pc_ready_at :: nat
  pc_outcome :: connect_outcome
  pc_resume :: "client_scope_id option"

record 'p client =
  cl_now :: nat
  cl_network :: "(nat \<times> connect_outcome) list"
  cl_attempts :: "spawn_policy list"
  cl_sent :: "client_message list"
  cl_connection :: "connection option"
  cl_panes :: "(pty_key \<times> 'p pty_pane) list"
  cl_pane_index :: "pane_id \<Rightarrow> pty_key option"
  cl_pending_events :: "pty_event list"
  cl_client_scope :: "client_scope_id option"
  cl_server_instance :: "server_instance_id option"
  cl_next_request_id :: "request_id option"
  cl_pending_requests :: "request_id list"
  cl_pending_stops :: "pending_stop list"
  cl_deferred :: "server_message list"
  cl_host_writes :: bytes
  cl_starting :: "pty_key option"
  cl_pending_reattach :: "pty_key list"
  cl_pending_connect :: "pending_connect option"
  cl_retry_not_before :: "nat option"
  cl_retry_backoff :: nat
  cl_disconnect_reported :: bool
  cl_work_remaining :: bool
  cl_focused :: "pty_key option"

definition milliseconds :: "nat \<Rightarrow> nat" where "milliseconds n = n * 1000000"

definition ATTACH_ACK_TIMEOUT :: nat where "ATTACH_ACK_TIMEOUT = milliseconds 2000"
definition STOP_ACK_TIMEOUT :: nat where "STOP_ACK_TIMEOUT = milliseconds 5000"
definition MAX_SERVER_MESSAGES_PER_DRAIN :: nat where "MAX_SERVER_MESSAGES_PER_DRAIN = 128"
definition MAX_SERVER_OUTPUT_BYTES_PER_DRAIN :: nat where "MAX_SERVER_OUTPUT_BYTES_PER_DRAIN = 256 * 1024"
definition REATTACH_FRAME_BUDGET :: nat where "REATTACH_FRAME_BUDGET = milliseconds 100"
definition RECONNECT_BACKOFF_MIN :: nat where "RECONNECT_BACKOFF_MIN = milliseconds 250"
definition RECONNECT_BACKOFF_MAX :: nat where "RECONNECT_BACKOFF_MAX = milliseconds 5000"
definition TERMINAL_SCROLLBACK_LINES :: nat where "TERMINAL_SCROLLBACK_LINES = 5000"
definition MAX_HOST_TERMINAL_WRITE_BYTES :: nat where "MAX_HOST_TERMINAL_WRITE_BYTES = 1024 * 1024"

definition client_disconnected :: "(nat \<times> connect_outcome) list \<Rightarrow> pty_event list \<Rightarrow> 'p client" where
  "client_disconnected network events =
     \<lparr>cl_now = 0, cl_network = network, cl_attempts = [], cl_sent = [], cl_connection = None, cl_panes = [],
      cl_pane_index = (\<lambda>_. None), cl_pending_events = events, cl_client_scope = None, cl_server_instance = None,
      cl_next_request_id = Some (RequestId 1), cl_pending_requests = [], cl_pending_stops = [], cl_deferred = [],
      cl_host_writes = [], cl_starting = None, cl_pending_reattach = [], cl_pending_connect = None,
      cl_retry_not_before = None, cl_retry_backoff = RECONNECT_BACKOFF_MIN, cl_disconnect_reported = False,
      cl_work_remaining = False, cl_focused = None\<rparr>"

section \<open>Sizes and identifiers\<close>

definition pty_dimensions_default :: pty_dimensions where
  "pty_dimensions_default = \<lparr>dim_rows = 24, dim_cols = 80\<rparr>"

definition dim_clamped :: "pty_dimensions \<Rightarrow> pty_dimensions" where
  "dim_clamped d =
     (case bounded_screen_dimensions (dim_rows d) (dim_cols d) of (rows, cols) \<Rightarrow> \<lparr>dim_rows = rows, dim_cols = cols\<rparr>)"

definition fits_a_screen :: "pty_dimensions \<Rightarrow> bool" where
  "fits_a_screen d \<longleftrightarrow> MIN_SCREEN_ROWS \<le> dim_rows d \<and> MIN_SCREEN_COLS \<le> dim_cols d"

fun wire_id :: "pty_key \<Rightarrow> u64" where
  "wire_id (PtyTerminal t) = terminal_id_raw t"
| "wire_id (PtyChatAgent c) = or (chat_id_raw c) RUNTIME_TERMINAL_ID_FLAG"

definition session_for_key :: "pty_key \<Rightarrow> session_id" where "session_for_key key = SessionId (wire_id key)"
definition pane_for_key :: "pty_key \<Rightarrow> pane_id" where "pane_for_key key = PaneId (wire_id key)"

definition key_for_pane_id :: "pane_id \<Rightarrow> pty_key" where
  "key_for_pane_id pane =
     (if and (pane_id_raw pane) RUNTIME_TERMINAL_ID_FLAG \<noteq> 0
      then PtyChatAgent (ChatId (and (pane_id_raw pane) (not RUNTIME_TERMINAL_ID_FLAG)))
      else PtyTerminal (TerminalId (pane_id_raw pane)))"

definition client_launch_spec :: "pty_spawn \<Rightarrow> launch_spec" where
  "client_launch_spec spawn =
     (if sp_args spawn = [] then LaunchShell else LaunchCommand (wire_of (last (sp_args spawn))))"

definition client_session_name :: "pty_spawn \<Rightarrow> launch_spec \<Rightarrow> string" where
  "client_session_name spawn launch =
     (case launch of
        LaunchShell \<Rightarrow> wire_of (ascii ''shell '' @ number (wire_id (sp_terminal spawn)))
      | LaunchCommand command \<Rightarrow> command)"

end
