(* ===== verification/Pty_Panes.thy ===== *)
theory Pty_Panes
  imports Pty_Client
begin

text \<open>
  The table of panes, the identifiers of requests, the connection and the emulators of the client's
  runtime (\<open>PtyRuntime\<close> in \<open>src/pty.rs\<close>): every operation that does not wait for the daemon.
\<close>

section \<open>The table of panes\<close>

definition cl_pane :: "pty_key \<Rightarrow> 'p client \<Rightarrow> 'p pty_pane option" where
  "cl_pane k c = map_of (cl_panes c) k"

definition put_pane :: "pty_key \<Rightarrow> 'p pty_pane \<Rightarrow> 'p client \<Rightarrow> 'p client" where
  "put_pane k e c = c\<lparr>cl_panes := AList.update k e (cl_panes c)\<rparr>"

definition pane_entry :: "pty_key \<Rightarrow> 'p client \<Rightarrow> 'p pty_pane" where
  "pane_entry k c = (case cl_pane k c of Some e \<Rightarrow> e | None \<Rightarrow> pty_pane_default)"

definition update_entry :: "pty_key \<Rightarrow> ('p pty_pane \<Rightarrow> 'p pty_pane) \<Rightarrow> 'p client \<Rightarrow> 'p client" where
  "update_entry k f c = put_pane k (f (pane_entry k c)) c"

definition attached_pane :: "pty_key \<Rightarrow> 'p client \<Rightarrow> pane_id option" where
  "attached_pane k c = Option.bind (cl_pane k c) pp_attachment"

definition bind_pane :: "pty_key \<Rightarrow> pane_id \<Rightarrow> 'p client \<Rightarrow> 'p client" where
  "bind_pane k pane c =
     (let c = update_entry k (\<lambda>e. e\<lparr>pp_attachment := Some pane\<rparr>) c in
      c\<lparr>cl_pane_index := (cl_pane_index c)(pane \<mapsto> k)\<rparr>)"

definition key_for_pane :: "pane_id \<Rightarrow> 'p client \<Rightarrow> pty_key option" where
  "key_for_pane pane c = cl_pane_index c pane"

definition lease_of :: "pane_id \<Rightarrow> 'p client \<Rightarrow> attachment_lease option" where
  "lease_of pane c = Option.bind (Option.bind (key_for_pane pane c) (\<lambda>k. cl_pane k c)) pp_lease"

definition is_running :: "pty_key \<Rightarrow> 'p client \<Rightarrow> bool" where
  "is_running k c =
     (case cl_pane k c of
        None \<Rightarrow> False
      | Some e \<Rightarrow> pp_attachment e \<noteq> None \<and> pp_lease e \<noteq> None \<and> pp_expected_output e \<noteq> None)"

definition clear_attachment :: "pane_id \<Rightarrow> 'p client \<Rightarrow> pty_key option \<times> 'p client" where
  "clear_attachment pane c =
     (case cl_pane_index c pane of
        None \<Rightarrow> (None, c)
      | Some k \<Rightarrow>
          let c = c\<lparr>cl_pane_index := (cl_pane_index c)(pane := None)\<rparr> in
          (Some k,
           case cl_pane k c of
             None \<Rightarrow> c
           | Some e \<Rightarrow> put_pane k (e\<lparr>pp_attachment := None, pp_lease := None, pp_expected_output := None\<rparr>) c))"

definition cl_remove_terminal :: "pty_key \<Rightarrow> 'p client \<Rightarrow> 'p client" where
  "cl_remove_terminal k c =
     (let attachment = Option.bind (cl_pane k c) pp_attachment;
          c = c\<lparr>cl_panes := AList.delete k (cl_panes c)\<rparr> in
      case attachment of
        None \<Rightarrow> c
      | Some pane \<Rightarrow> c\<lparr>cl_pane_index := (cl_pane_index c)(pane := None)\<rparr>)"

definition registered_identity :: "pty_key \<Rightarrow> 'p client \<Rightarrow> session_identity option" where
  "registered_identity k c = Option.bind (cl_pane k c) pp_identity"

definition register_session_identity ::
    "pty_key \<Rightarrow> session_identity \<Rightarrow> 'p client \<Rightarrow> (pty_error + unit) \<times> 'p client" where
  "register_session_identity k identity c =
     (if registered_identity k c \<noteq> None \<and> registered_identity k c \<noteq> Some identity
      then (Inl (InvalidRequest (ascii ''cannot replace an immutable PTY session identity'')), c)
      else (Inr (), update_entry k (\<lambda>e. e\<lparr>pp_identity := Some identity\<rparr>) c))"

definition register_agent_session :: "pty_key \<Rightarrow> agent_metadata \<Rightarrow> 'p client \<Rightarrow> (pty_error + unit) \<times> 'p client" where
  "register_agent_session k metadata c =
     (if (case k of PtyChatAgent _ \<Rightarrow> False | PtyTerminal _ \<Rightarrow> True)
      then (Inl (InvalidRequest (ascii ''agent metadata may only be registered for a chat PTY'')), c)
      else if registered_identity k c = None
      then (Inl (InvalidRequest (ascii ''register the durable session identity before agent metadata'')), c)
      else if is_running k c \<and> Option.bind (cl_pane k c) pp_agent \<notin> {None, Some metadata}
      then (Inl (InvalidRequest (ascii ''cannot replace agent generation while its PTY is running'')), c)
      else (Inr (), update_entry k (\<lambda>e. e\<lparr>pp_agent := Some metadata\<rparr>) c))"

fun debug_key :: "pty_key \<Rightarrow> ustring" where
  "debug_key (PtyTerminal t) = ascii ''Terminal(TerminalId('' @ number (terminal_id_raw t) @ ascii ''))''"
| "debug_key (PtyChatAgent c) = ascii ''ChatAgent(ChatId('' @ number (chat_id_raw c) @ ascii ''))''"

definition identity_for_key :: "pty_key \<Rightarrow> 'p client \<Rightarrow> pty_error + session_identity" where
  "identity_for_key k c =
     (case registered_identity k c of
        Some identity \<Rightarrow> Inr identity
      | None \<Rightarrow> Inl (InvalidRequest (ascii ''PTY session '' @ debug_key k @ ascii '' has no registered durable identity'')))"

definition lease_for_pane :: "pane_id \<Rightarrow> 'p client \<Rightarrow> pty_error + attachment_lease" where
  "lease_for_pane pane c =
     (case lease_of pane c of
        Some lease \<Rightarrow> Inr lease
      | None \<Rightarrow> Inl (Disconnected (ascii ''pane '' @ number (pane_id_raw pane) @ ascii '' attachment has not been reconciled'')))"

section \<open>Requests\<close>

definition next_request :: "'p client \<Rightarrow> (pty_error + request_id) \<times> 'p client" where
  "next_request c =
     (case cl_next_request_id c of
        None \<Rightarrow> (Inl (PtyIo (io_error_new OtherKind ''PTY request ID space exhausted'')), c)
      | Some r \<Rightarrow> (Inr r, c\<lparr>cl_next_request_id := request_id_checked_next r\<rparr>))"

definition allocate_request :: "'p client \<Rightarrow> (pty_error + request_id) \<times> 'p client" where
  "allocate_request c =
     (if MAX_PENDING_REQUESTS_PER_CLIENT \<le> length (cl_pending_requests c)
      then (Inl (InvalidRequest (ascii ''too many pending PTY requests'')), c)
      else case next_request c of
             (Inl e, c) \<Rightarrow> (Inl e, c)
           | (Inr r, c) \<Rightarrow> (Inr r, c\<lparr>cl_pending_requests := List.insert r (cl_pending_requests c)\<rparr>))"

definition drop_deferred :: "request_id \<Rightarrow> 'p client \<Rightarrow> 'p client" where
  "drop_deferred r c = c\<lparr>cl_deferred := filter (\<lambda>m. message_request_id m \<noteq> Some r) (cl_deferred c)\<rparr>"

definition finish_request :: "request_id \<Rightarrow> 'p client \<Rightarrow> 'p client" where
  "finish_request r c = drop_deferred r (c\<lparr>cl_pending_requests := removeAll r (cl_pending_requests c)\<rparr>)"

definition allocate_stop_request :: "'p client \<Rightarrow> (pty_error + request_id) \<times> 'p client" where
  "allocate_stop_request c =
     (if MAX_PENDING_REQUESTS_PER_CLIENT \<le> length (cl_pending_stops c)
      then (Inl (InvalidRequest (ascii ''too many PTY stops are still awaiting confirmation'')), c)
      else next_request c)"

text \<open>The first deferred message of a request leaves the queue.\<close>

fun take_answer :: "request_id \<Rightarrow> server_message list \<Rightarrow> (server_message \<times> server_message list) option" where
  "take_answer r [] = None"
| "take_answer r (m # ms) =
     (if message_request_id m = Some r then Some (m, ms)
      else map_option (\<lambda>(answer, rest). (answer, m # rest)) (take_answer r ms))"

definition stop_failed_message :: "pending_stop \<Rightarrow> stop_error \<Rightarrow> ustring" where
  "stop_failed_message stop e =
     st_label stop @ ascii '' was deleted, but stopping it failed: '' @ pty_error_message (pty_stop_error e)"

definition stop_unconfirmed_message :: "pending_stop \<Rightarrow> ustring" where
  "stop_unconfirmed_message stop =
     st_label stop @ ascii '' was deleted, but mult-server never confirmed it stopped; it may still be running''"

fun reap_stops :: "nat \<Rightarrow> pending_stop list \<Rightarrow> server_message list
    \<Rightarrow> pending_stop list \<times> server_message list \<times> pty_event list" where
  "reap_stops now [] deferred = ([], deferred, [])"
| "reap_stops now (stop # stops) deferred =
     (case take_answer (st_request_id stop) deferred of
        Some (answer, deferred) \<Rightarrow>
          (case reap_stops now stops deferred of (unanswered, deferred, events) \<Rightarrow>
             (unanswered, deferred,
              (case answer of SStopResult _ (SOError e) \<Rightarrow> [StopFailed (stop_failed_message stop e)] | _ \<Rightarrow> []) @ events))
      | None \<Rightarrow>
          (case reap_stops now stops deferred of (unanswered, deferred, events) \<Rightarrow>
             if st_deadline stop \<le> now then (unanswered, deferred, StopFailed (stop_unconfirmed_message stop) # events)
             else (stop # unanswered, deferred, events)))"

definition reap_pending_stops :: "'p client \<Rightarrow> pty_event list \<times> 'p client" where
  "reap_pending_stops c =
     (case reap_stops (cl_now c) (cl_pending_stops c) (cl_deferred c) of (unanswered, deferred, events) \<Rightarrow>
        (events, c\<lparr>cl_pending_stops := unanswered, cl_deferred := deferred\<rparr>))"

section \<open>Events\<close>

definition push_event :: "pty_event \<Rightarrow> 'p client \<Rightarrow> 'p client" where
  "push_event e c = c\<lparr>cl_pending_events := cl_pending_events c @ [e]\<rparr>"

definition push_output_event :: "pty_key \<Rightarrow> nat \<Rightarrow> pty_event list \<Rightarrow> pty_event list" where
  "push_output_event k byte_count events =
     (if events \<noteq> [] then
        case last events of
          OutputArrived previous count \<Rightarrow>
            if previous = k then butlast events @ [OutputArrived k (min (count + byte_count) usize_max)]
            else events @ [OutputArrived k byte_count]
        | _ \<Rightarrow> events @ [OutputArrived k byte_count]
      else [OutputArrived k byte_count])"

definition report_disconnect :: "ustring \<Rightarrow> 'p client \<Rightarrow> 'p client" where
  "report_disconnect reason c =
     (if cl_disconnect_reported c then c
      else push_event
        (ConnectionError
           (ascii ''mult-server connection lost; attachment state is retained pending reconciliation: '' @ reason))
        (c\<lparr>cl_disconnect_reported := True\<rparr>))"

definition queue_host_terminal_write :: "bytes \<Rightarrow> 'p client \<Rightarrow> 'p client" where
  "queue_host_terminal_write bs c =
     (if length (cl_host_writes c) + length bs \<le> MAX_HOST_TERMINAL_WRITE_BYTES
      then c\<lparr>cl_host_writes := cl_host_writes c @ bs\<rparr> else c)"

definition take_host_terminal_writes :: "'p client \<Rightarrow> bytes \<times> 'p client" where
  "take_host_terminal_writes c = (cl_host_writes c, c\<lparr>cl_host_writes := []\<rparr>)"

end
