(* ===== verification/Pty_Connection.thy ===== *)
theory Pty_Connection
  imports Pty_Panes
begin

text \<open>
  The client's connection (\<open>src/pty.rs\<close>): attempts to connect in the background and at once, what a new
  connection means for the attachments held, the retry schedule, and writing frames.
\<close>

section \<open>Retries\<close>

definition reset_retry_backoff :: "'p client \<Rightarrow> 'p client" where
  "reset_retry_backoff c = c\<lparr>cl_retry_not_before := None, cl_retry_backoff := RECONNECT_BACKOFF_MIN\<rparr>"

definition advance_retry_backoff :: "'p client \<Rightarrow> 'p client" where
  "advance_retry_backoff c =
     c\<lparr>cl_retry_not_before := Some (cl_now c + cl_retry_backoff c),
       cl_retry_backoff := min (cl_retry_backoff c * 2) RECONNECT_BACKOFF_MAX\<rparr>"

definition retry_is_early :: "'p client \<Rightarrow> bool" where
  "retry_is_early c = (case cl_retry_not_before c of Some t \<Rightarrow> cl_now c < t | None \<Rightarrow> False)"

section \<open>Connecting\<close>

text \<open>An attempt past those listed finds no daemon.\<close>

definition no_daemon :: connect_outcome where
  "no_daemon = ConnectFailed (PtyIo (io_error_new NotFound ''No such file or directory (os error 2)''))"

definition take_attempt :: "spawn_policy \<Rightarrow> 'p client \<Rightarrow> (nat \<times> connect_outcome) \<times> 'p client" where
  "take_attempt spawn c =
     (let c = c\<lparr>cl_attempts := cl_attempts c @ [spawn]\<rparr> in
      case cl_network c of
        [] \<Rightarrow> ((0, no_daemon), c)
      | a # as \<Rightarrow> (a, c\<lparr>cl_network := as\<rparr>))"

definition start_connector :: "spawn_policy \<Rightarrow> 'p client \<Rightarrow> 'p client" where
  "start_connector spawn c =
     (if cl_pending_connect c \<noteq> None \<or> cl_connection c \<noteq> None then c
      else case take_attempt spawn c of
        ((delay, outcome), c) \<Rightarrow>
          c\<lparr>cl_pending_connect :=
              Some \<lparr>pc_ready_at = cl_now c + delay, pc_outcome = outcome, pc_resume = cl_client_scope c\<rparr>\<rparr>)"

definition enqueue_reattachments :: "'p client \<Rightarrow> 'p client" where
  "enqueue_reattachments c =
     (let terminals = map fst (filter (\<lambda>(k, e). pp_attachment e \<noteq> None \<and> Some k \<noteq> cl_starting c) (cl_panes c)) in
      c\<lparr>cl_pending_reattach :=
          fold (\<lambda>k queue. if k \<in> set queue then queue else queue @ [k]) terminals (cl_pending_reattach c)\<rparr>)"

definition forget_attachments :: "'p client \<Rightarrow> 'p client" where
  "forget_attachments c =
     c\<lparr>cl_pending_requests := [], cl_pending_stops := [], cl_deferred := [], cl_next_request_id := Some (RequestId 1),
       cl_panes := map (\<lambda>(k, e). (k, e\<lparr>pp_lease := None, pp_expected_output := None\<rparr>)) (cl_panes c)\<rparr>"

definition install_connection :: "established \<Rightarrow> client_scope_id option \<Rightarrow> 'p client \<Rightarrow> bool \<times> 'p client" where
  "install_connection established requested_resume c =
     (let hello = es_hello established;
          resumed_same = (sh_resumed hello \<and> requested_resume = Some (sh_client_scope hello)
            \<and> cl_server_instance c = Some (sh_server_instance hello));
          c = (if cl_client_scope c \<noteq> None \<and> \<not> resumed_same then forget_attachments c else c);
          c = c\<lparr>cl_client_scope := Some (sh_client_scope hello),
                cl_server_instance := Some (sh_server_instance hello),
                cl_connection := Some (es_connection established), cl_disconnect_reported := False\<rparr> in
      (resumed_same, enqueue_reattachments c))"

definition poll_connector :: "'p client \<Rightarrow> 'p client" where
  "poll_connector c =
     (case cl_pending_connect c of
        None \<Rightarrow> c
      | Some pending \<Rightarrow>
          if cl_now c < pc_ready_at pending then c
          else
            let c = c\<lparr>cl_pending_connect := None\<rparr> in
            case pc_outcome pending of
              Connected established \<Rightarrow>
                if cl_connection c \<noteq> None then c
                else reset_retry_backoff (snd (install_connection established (pc_resume pending) c))
            | ConnectFailed e \<Rightarrow> advance_retry_backoff (report_disconnect (pty_error_message e) c)
            | ConnectPanicked \<Rightarrow>
                advance_retry_backoff (report_disconnect (ascii ''the connection attempt panicked'') c))"

text \<open>
  Connecting at once waits for the attempt. A panic there would end the program; the outcome stands for a
  failure.
\<close>

definition connect_inner :: "spawn_policy \<Rightarrow> 'p client \<Rightarrow> (pty_error + bool) \<times> 'p client" where
  "connect_inner spawn c =
     (let resume = cl_client_scope c in
      case take_attempt spawn c of
        ((delay, outcome), c) \<Rightarrow>
          let c = c\<lparr>cl_now := cl_now c + delay\<rparr> in
          case outcome of
            Connected established \<Rightarrow>
              (case install_connection established resume c of (resumed, c) \<Rightarrow> (Inr resumed, c))
          | ConnectFailed e \<Rightarrow> (Inl e, c)
          | ConnectPanicked \<Rightarrow> (Inl (PtyIo (io_error_new OtherKind ''the connection attempt panicked'')), c))"

definition with_socket_path :: "(nat \<times> connect_outcome) list \<Rightarrow> spawn_policy \<Rightarrow> 'p client" where
  "with_socket_path network spawn =
     (case connect_inner spawn (client_disconnected network []) of
        (Inr _, c) \<Rightarrow> c
      | (Inl e, c) \<Rightarrow>
          c\<lparr>cl_pending_events := cl_pending_events c @
              [ConnectionError (ascii ''failed to connect to mult-server: '' @ pty_error_message e)]\<rparr>)"

definition disconnect_client :: "'p client \<Rightarrow> 'p client" where
  "disconnect_client c =
     (let c = fold (\<lambda>stop. drop_deferred (st_request_id stop)) (cl_pending_stops c) (c\<lparr>cl_pending_stops := []\<rparr>) in
      c\<lparr>cl_connection := None\<rparr>)"

definition reconnect_or_report :: "'p client \<Rightarrow> 'p client" where
  "reconnect_or_report c =
     report_disconnect (ascii ''a background reconnect is in progress'') (start_connector ConnectOnly c)"

definition retry_connection_if_due :: "'p client \<Rightarrow> 'p client" where
  "retry_connection_if_due c =
     (if cl_connection c \<noteq> None \<or> cl_pending_connect c \<noteq> None
         \<or> (\<forall>(k, e) \<in> set (cl_panes c). pp_attachment e = None) then c
      else if retry_is_early c then c
      else start_connector ConnectOnly c)"

section \<open>Writing\<close>

definition offline_error :: pty_error where
  "offline_error = Offline (ascii ''not connected to mult-server'')"

definition take_write :: "connection \<Rightarrow> write_result \<times> connection" where
  "take_write cn = (case cn_writes cn of [] \<Rightarrow> (Written, cn) | w # ws \<Rightarrow> (w, cn\<lparr>cn_writes := ws\<rparr>))"

definition write_frame :: "client_message \<Rightarrow> 'p client \<Rightarrow> (pty_error + unit) \<times> 'p client" where
  "write_frame m c =
     (case cl_connection c of
        None \<Rightarrow> (Inl offline_error, c)
      | Some cn \<Rightarrow>
          (case take_write cn of (w, cn) \<Rightarrow>
             let c = c\<lparr>cl_connection := Some cn\<rparr> in
             case w of
               Written \<Rightarrow> (Inr (), c\<lparr>cl_sent := cl_sent c @ [m]\<rparr>)
             | NotAttempted e \<Rightarrow> (Inl (PtyIo e), c)
             | Attempted e \<Rightarrow> (Inl (PtyIo e), c)))"

definition write_non_replayable_frame :: "write_result \<Rightarrow> delivery_operation \<Rightarrow> pane_id \<Rightarrow> pty_error + unit" where
  "write_non_replayable_frame w operation pane =
     (case w of
        Written \<Rightarrow> Inr ()
      | NotAttempted e \<Rightarrow> Inl (PtyIo e)
      | Attempted e \<Rightarrow> Inl (DeliveryUncertain \<lparr>de_operation = operation, de_pane = pane\<rparr>))"

definition write_non_replayable ::
    "client_message \<Rightarrow> delivery_operation \<Rightarrow> pane_id \<Rightarrow> 'p client \<Rightarrow> (pty_error + unit) \<times> 'p client" where
  "write_non_replayable m operation pane c =
     (case cl_connection c of
        None \<Rightarrow> (Inl offline_error, c)
      | Some cn \<Rightarrow>
          (case take_write cn of (w, cn) \<Rightarrow>
             let c = c\<lparr>cl_connection := Some cn\<rparr> in
             case write_non_replayable_frame w operation pane of
               Inr _ \<Rightarrow> (Inr (), c\<lparr>cl_sent := cl_sent c @ [m]\<rparr>)
             | Inl e \<Rightarrow> (Inl e, if delivery_of e \<noteq> None then disconnect_client c else c)))"

definition resume_and_resend :: "client_message \<Rightarrow> 'p client \<Rightarrow> (pty_error + unit) \<times> 'p client" where
  "resume_and_resend m c =
     (let previous_scope = cl_client_scope c; previous_instance = cl_server_instance c in
      case connect_inner Autospawn (disconnect_client c) of
        (Inl e, c) \<Rightarrow> (Inl e, c)
      | (Inr resumed_same, c) \<Rightarrow>
          if \<not> resumed_same \<or> cl_client_scope c \<noteq> previous_scope \<or> cl_server_instance c \<noteq> previous_instance
          then (Inl (ProtocolViolation
                  (ascii ''mult-server identity changed; refusing to replay an unresolved request'')), c)
          else write_frame m c)"

section \<open>Reading\<close>

datatype received = ReceivedMessage server_message | ReceivedNothing | ReceivedClosed

text \<open>Waiting ends at the first event that arrives by the deadline, or at the deadline. A closed channel stays closed.\<close>

definition recv_deadline :: "nat \<Rightarrow> connection \<Rightarrow> 'p client \<Rightarrow> received \<times> 'p client" where
  "recv_deadline deadline cn c =
     (case cn_incoming cn of
        (t, event) # rest \<Rightarrow>
          if t \<le> deadline then
            let c = c\<lparr>cl_now := max (cl_now c) t\<rparr> in
            (case event of
               NetMessage m \<Rightarrow> (ReceivedMessage m, c\<lparr>cl_connection := Some (cn\<lparr>cn_incoming := rest\<rparr>)\<rparr>)
             | NetClosed \<Rightarrow> (ReceivedClosed, c))
          else (ReceivedNothing, c\<lparr>cl_now := max (cl_now c) deadline\<rparr>)
      | [] \<Rightarrow> (ReceivedNothing, c\<lparr>cl_now := max (cl_now c) deadline\<rparr>))"

definition try_recv :: "connection \<Rightarrow> 'p client \<Rightarrow> received \<times> 'p client" where
  "try_recv cn c =
     (case cn_incoming cn of
        (t, event) # rest \<Rightarrow>
          if t \<le> cl_now c then
            (case event of
               NetMessage m \<Rightarrow> (ReceivedMessage m, c\<lparr>cl_connection := Some (cn\<lparr>cn_incoming := rest\<rparr>)\<rparr>)
             | NetClosed \<Rightarrow> (ReceivedClosed, c))
          else (ReceivedNothing, c)
      | [] \<Rightarrow> (ReceivedNothing, c))"

text \<open>What the reader thread makes of the frames it reads.\<close>

fun reader_events :: "(io_error + server_message) list \<Rightarrow> net_event list" where
  "reader_events [] = []"
| "reader_events (Inr m # reads) = NetMessage m # reader_events reads"
| "reader_events (Inl e # reads) =
     (if io_kind e \<in> {UnexpectedEof, ConnectionReset, BrokenPipe} then [NetClosed]
      else [NetMessage (SError DaemonInternal (''failed to read from mult-server: '' @ io_message e)), NetClosed])"

text \<open>A request waits for its own answers and for what belongs to no request; other answers are kept.\<close>

definition incoming_count :: "'p client \<Rightarrow> nat" where
  "incoming_count c = (case cl_connection c of None \<Rightarrow> 0 | Some cn \<Rightarrow> length (cn_incoming cn))"

lemma recv_deadline_takes:
  "recv_deadline deadline cn c = (ReceivedMessage m, c') \<Longrightarrow> incoming_count c' < length (cn_incoming cn)"
  by (auto simp: recv_deadline_def incoming_count_def Let_def split: list.splits net_event.splits if_splits)

definition response_timeout :: pty_error where
  "response_timeout = Timeout (ascii ''timed out waiting for correlated mult-server response'')"

function receive_loop :: "request_id \<Rightarrow> nat \<Rightarrow> 'p client \<Rightarrow> (pty_error + server_message) \<times> 'p client" where
  "receive_loop r deadline c =
     (if deadline \<le> cl_now c then (Inl response_timeout, c)
      else
        case cl_connection c of
          None \<Rightarrow> (Inl offline_error, c)
        | Some cn \<Rightarrow>
            (case recv_deadline deadline cn c of
               (ReceivedMessage m, c) \<Rightarrow>
                 if message_request_id m \<noteq> None \<and> message_request_id m \<noteq> Some r
                 then receive_loop r deadline (c\<lparr>cl_deferred := cl_deferred c @ [m]\<rparr>)
                 else (Inr m, c)
             | (ReceivedNothing, c) \<Rightarrow> (Inl response_timeout, c)
             | (ReceivedClosed, c) \<Rightarrow>
                 (Inl (Disconnected (ascii ''mult-server disconnected before correlated response'')),
                  disconnect_client c)))"
  by pat_completeness auto
termination
proof (relation "measure (\<lambda>(_, _, c). incoming_count c)", simp, goal_cases)
  case (1 r deadline c cn x y m)
  then have "incoming_count y < length (cn_incoming cn)" using recv_deadline_takes by metis
  then show ?case using 1 by (simp add: incoming_count_def)
qed

declare receive_loop.simps [simp del]

definition receive_for_request :: "request_id \<Rightarrow> nat \<Rightarrow> 'p client \<Rightarrow> (pty_error + server_message) \<times> 'p client" where
  "receive_for_request r deadline c =
     (case take_answer r (cl_deferred c) of
        Some (m, rest) \<Rightarrow> (Inr m, c\<lparr>cl_deferred := rest\<rparr>)
      | None \<Rightarrow> receive_loop r deadline c)"

end
