(* ===== verification/Pty_Requests.thy ===== *)
theory Pty_Requests
  imports Pty_Connection "HOL-Library.Monad_Syntax"
begin

text \<open>
  Feeding output to the emulators, sending to panes, and what the client does with each message of the
  daemon (\<open>src/pty.rs\<close>). Answering a program's query sends input, which first looks after the connection
  and the panes waiting for a new attachment; that service is an argument here, since it in turn handles
  messages. An operation that may wait returns an option: \<open>None\<close> is one that has not returned within the
  fuel it was given.
\<close>

record 'p client_env =
  ce_emulator :: "'p emulator"
  ce_debug :: debug_forms
  ce_round_trips :: nat
  ce_var :: "ustring \<Rightarrow> ustring option"

type_synonym 'p service = "'p client \<Rightarrow> 'p client option"

section \<open>Emulators\<close>

definition new_parser :: "'p client_env \<Rightarrow> u16 \<Rightarrow> u16 \<Rightarrow> 'p" where
  "new_parser env rows cols = em_new (ce_emulator env) rows cols TERMINAL_SCROLLBACK_LINES"

definition parser_screen :: "'p client_env \<Rightarrow> 'p \<Rightarrow> screen" where
  "parser_screen env p = em_screen (ce_emulator env) p"

definition cl_parser :: "pty_key \<Rightarrow> 'p client \<Rightarrow> 'p option" where
  "cl_parser k c = Option.bind (cl_pane k c) pp_parser"

definition screen_of :: "'p client_env \<Rightarrow> pty_key \<Rightarrow> 'p client \<Rightarrow> screen option" where
  "screen_of env k c = map_option (parser_screen env) (cl_parser k c)"

definition clamp_parser_scrollback :: "'p client_env \<Rightarrow> 'p \<Rightarrow> 'p" where
  "clamp_parser_scrollback env p = em_set_scrollback (ce_emulator env) (sc_scrollback (parser_screen env p)) p"

definition escape :: "string \<Rightarrow> bytes" where
  "escape s = 0x1b # ascii_bytes s"

definition repair_sequence :: "u16 list \<Rightarrow> u16 \<Rightarrow> bytes" where
  "repair_sequence split last_col =
     escape ''7'' @ escape ''[?6l'' @
     concat (map (\<lambda>row. escape ''['' @ text_bytes (decimal (unat (row + 1))) @ ascii_bytes '';'' @
                        text_bytes (decimal (unat (last_col + 1))) @ ascii_bytes ''H'' @ escape ''[K'') split) @
     escape ''8''"

definition repair_wide_cells :: "'p client_env \<Rightarrow> pty_dimensions \<Rightarrow> 'p \<Rightarrow> 'p" where
  "repair_wide_cells env dims p =
     (let s = parser_screen env p in
      if sc_cols s \<le> dim_cols dims then p
      else
        let last_col = (if dim_cols dims = 0 then 0 else dim_cols dims - 1);
            p = em_set_scrollback (ce_emulator env) 0 p;
            split = filter (\<lambda>row. em_is_wide (ce_emulator env) p row last_col = Some True)
                      (map of_nat [0..<unat (sc_rows s)]);
            p = (if split \<noteq> [] then em_process (ce_emulator env) p (repair_sequence split last_col) else p) in
        em_set_scrollback (ce_emulator env) (sc_scrollback s) p)"

definition resize_parser :: "'p client_env \<Rightarrow> pty_key \<Rightarrow> pty_dimensions \<Rightarrow> 'p client \<Rightarrow> 'p client" where
  "resize_parser env k dims c =
     (let dims = dim_clamped dims in
      update_entry k (\<lambda>e.
        let p = (case pp_parser e of Some p \<Rightarrow> p | None \<Rightarrow> new_parser env 24 80);
            p = repair_wide_cells env dims p;
            p = em_set_size (ce_emulator env) (dim_rows dims) (dim_cols dims) p in
        e\<lparr>pp_parser := Some (clamp_parser_scrollback env p)\<rparr>) c)"

definition reset_parser :: "'p client_env \<Rightarrow> pty_key \<Rightarrow> pty_dimensions \<Rightarrow> 'p client \<Rightarrow> 'p client" where
  "reset_parser env k dims c =
     (let dims = dim_clamped dims in
      update_entry k (\<lambda>e. e\<lparr>pp_parser := Some (new_parser env (dim_rows dims) (dim_cols dims)),
        pp_responder := None, pp_saw_output := False, pp_exit_status := None\<rparr>) c)"

definition parser_dimensions :: "'p client_env \<Rightarrow> pty_key \<Rightarrow> 'p client \<Rightarrow> pty_dimensions" where
  "parser_dimensions env k c =
     (case screen_of env k c of
        Some s \<Rightarrow> \<lparr>dim_rows = sc_rows s, dim_cols = sc_cols s\<rparr>
      | None \<Rightarrow> pty_dimensions_default)"

definition scroll_parser :: "'p client_env \<Rightarrow> pty_key \<Rightarrow> int \<Rightarrow> 'p client \<Rightarrow> bool \<times> 'p client" where
  "scroll_parser env k rows c =
     (if rows = 0 then (False, c)
      else case cl_parser k c of
        None \<Rightarrow> (False, c)
      | Some p \<Rightarrow>
          let old = sc_scrollback (parser_screen env p);
              next = (if 0 < rows then min (old + nat rows) usize_max else old - nat (- rows));
              p = em_set_scrollback (ce_emulator env) (min next TERMINAL_SCROLLBACK_LINES) p;
              p = clamp_parser_scrollback env p in
          (sc_scrollback (parser_screen env p) \<noteq> old, update_entry k (\<lambda>e. e\<lparr>pp_parser := Some p\<rparr>) c))"

definition feed_entry :: "'p client_env \<Rightarrow> bytes \<Rightarrow> 'p pty_pane \<Rightarrow> bytes \<times> 'p pty_pane" where
  "feed_entry env bs e =
     (let p = (case pp_parser e of Some p \<Rightarrow> p | None \<Rightarrow> new_parser env 24 80);
          d = (case pp_responder e of Some d \<Rightarrow> d | None \<Rightarrow> response_detector_default) in
      case feed_parser_with_responder (em_process (ce_emulator env)) (\<lambda>p. sc_cursor (parser_screen env p)) p d bs of
        (response, p, d) \<Rightarrow>
          (response, e\<lparr>pp_parser := Some (clamp_parser_scrollback env p), pp_responder := Some d, pp_saw_output := True\<rparr>))"

text \<open>Feeding without answering.\<close>

definition process_terminal_output :: "'p client_env \<Rightarrow> pty_key \<Rightarrow> bytes \<Rightarrow> 'p client \<Rightarrow> 'p client" where
  "process_terminal_output env k bs c =
     (if bs = [] then c else update_entry k (\<lambda>e. snd (feed_entry env bs e)) c)"

definition append_terminal_system_line :: "'p client_env \<Rightarrow> pty_key \<Rightarrow> ustring \<Rightarrow> 'p client \<Rightarrow> 'p client" where
  "append_terminal_system_line env k message c =
     process_terminal_output env k
       (str_bytes (ascii ''[mult] '' @ sanitize_system_line message @ [13, 10])) c"

definition terminal_title :: "'p client_env \<Rightarrow> pty_key \<Rightarrow> 'p client \<Rightarrow> ustring option" where
  "terminal_title env k c =
     (case screen_of env k c of
        None \<Rightarrow> None
      | Some s \<Rightarrow> let title = sanitize_pane_title (sc_title s) in if title = [] then None else Some title)"

definition terminal_output_is_blank :: "'p client_env \<Rightarrow> pty_key \<Rightarrow> 'p client \<Rightarrow> bool" where
  "terminal_output_is_blank env k c =
     (if (case cl_pane k c of Some e \<Rightarrow> pp_saw_output e | None \<Rightarrow> False) then False
      else case screen_of env k c of
        Some s \<Rightarrow> (\<forall>line \<in> set (sc_lines s). rev (dropWhile is_whitespace (rev line)) = [])
      | None \<Rightarrow> True)"

section \<open>The commands typed\<close>

definition foreground_is_child :: "foreground_info \<Rightarrow> bool" where
  "foreground_is_child process =
     (case (fg_root_pid process, fg_foreground_pid process) of
        (Some root, Some foreground) \<Rightarrow> root \<noteq> foreground
      | _ \<Rightarrow> False)"

definition terminal_runs_child_command :: "pty_key \<Rightarrow> 'p client \<Rightarrow> bool" where
  "terminal_runs_child_command k c =
     (case Option.bind (cl_pane k c) pp_foreground of Some process \<Rightarrow> foreground_is_child process | None \<Rightarrow> False)"

definition update_tracker :: "pty_key \<Rightarrow> (command_tracker \<Rightarrow> command_tracker) \<Rightarrow> 'p client \<Rightarrow> 'p client" where
  "update_tracker k f c =
     update_entry k (\<lambda>e. e\<lparr>pp_tracker :=
       Some (f (case pp_tracker e of Some t \<Rightarrow> t | None \<Rightarrow> command_tracker_default))\<rparr>) c"

definition track_shell_input :: "pty_key \<Rightarrow> bytes \<Rightarrow> bool \<Rightarrow> 'p client \<Rightarrow> 'p client" where
  "track_shell_input k bs alternate_screen c =
     (if alternate_screen then update_tracker k discard_input c
      else update_tracker k (record_input bs (\<not> terminal_runs_child_command k c)) c)"

definition record_foreground_process :: "pty_key \<Rightarrow> foreground_info \<Rightarrow> 'p client \<Rightarrow> 'p client" where
  "record_foreground_process k process c =
     (let c = (if foreground_is_child process then
                 (case fg_command process of
                    Some command \<Rightarrow> update_tracker k (record_process_command (text_of command)) c
                  | None \<Rightarrow> update_tracker k discard_input c)
               else c) in
      update_entry k (\<lambda>e. e\<lparr>pp_foreground := Some process\<rparr>) c)"

definition terminal_last_command :: "pty_key \<Rightarrow> 'p client \<Rightarrow> ustring option" where
  "terminal_last_command k c = Option.bind (Option.bind (cl_pane k c) pp_tracker) ct_last"

section \<open>Sending\<close>

definition connecting_error :: pty_error where
  "connecting_error = Offline (ascii ''not connected to mult-server; a connection attempt is in progress'')"

definition ensure_connected :: "'p service \<Rightarrow> 'p client \<Rightarrow> ((pty_error + unit) \<times> 'p client) option" where
  "ensure_connected svc c =
     (let c = poll_connector c in
      if cl_connection c = None then Some (Inl connecting_error, start_connector Autospawn c)
      else do { c \<leftarrow> svc c; Some (Inr (), c) })"

datatype input_origin = UserInput | SyntheticInput

definition note_user_input :: "'p client_env \<Rightarrow> pty_key \<Rightarrow> bytes \<Rightarrow> 'p client \<Rightarrow> 'p client" where
  "note_user_input env k bs c =
     (let alternate = (case screen_of env k c of Some s \<Rightarrow> sc_alternate s | None \<Rightarrow> False);
          c = (case cl_parser k c of
                 Some p \<Rightarrow> update_entry k (\<lambda>e. e\<lparr>pp_parser := Some (em_set_scrollback (ce_emulator env) 0 p)\<rparr>) c
               | None \<Rightarrow> c) in
      track_shell_input k bs alternate c)"

text \<open>A frame that names a pane goes out under the lease the pane has once connected.\<close>

definition send_leased :: "'p service \<Rightarrow> pane_id \<Rightarrow> (attachment_lease \<Rightarrow> client_message) \<Rightarrow> delivery_operation
    \<Rightarrow> 'p client \<Rightarrow> ((pty_error + unit) \<times> 'p client) option" where
  "send_leased svc pane frame operation c = do {
     (connected, c) \<leftarrow> ensure_connected svc c;
     Some (case connected of
       Inl e \<Rightarrow> (Inl e, c)
     | Inr _ \<Rightarrow>
         (case lease_for_pane pane c of
            Inl e \<Rightarrow> (Inl e, c)
          | Inr lease \<Rightarrow> write_non_replayable (frame lease) operation pane c)) }"

definition send_input_inner :: "'p client_env \<Rightarrow> 'p service \<Rightarrow> pty_key \<Rightarrow> pane_id \<Rightarrow> bytes \<Rightarrow> input_origin
    \<Rightarrow> 'p client \<Rightarrow> ((pty_error + unit) \<times> 'p client) option" where
  "send_input_inner env svc k pane bs origin c =
     send_leased svc pane (\<lambda>lease. CInput pane lease bs) DeliverInput
       (if bs \<noteq> [] \<and> origin = UserInput then note_user_input env k bs c else c)"

definition feed_terminal_output :: "'p client_env \<Rightarrow> 'p service \<Rightarrow> pty_key \<Rightarrow> bytes \<Rightarrow> 'p client \<Rightarrow> 'p client option" where
  "feed_terminal_output env svc k bs c =
     (if bs = [] then Some c
      else
        let response = fst (feed_entry env bs (pane_entry k c));
            c = process_terminal_output env k bs c in
        if response = [] then Some c
        else case attached_pane k c of
          None \<Rightarrow> Some c
        | Some pane \<Rightarrow> map_option snd (send_input_inner env svc k pane response SyntheticInput c))"

section \<open>Messages of the daemon\<close>

definition mark_attachment_unreconciled ::
    "pane_id \<Rightarrow> ustring \<Rightarrow> pty_event list \<times> 'p client \<Rightarrow> pty_event list \<times> 'p client" where
  "mark_attachment_unreconciled pane message s =
     (case s of (events, c) \<Rightarrow>
        case key_for_pane pane c of
          None \<Rightarrow> (events, c)
        | Some k \<Rightarrow>
            (events @ [PaneError k message],
             update_entry k (\<lambda>e. e\<lparr>pp_lease := None, pp_expected_output := None\<rparr>) c))"

definition expected_output_of :: "pane_id \<Rightarrow> 'p client \<Rightarrow> output_sequence option" where
  "expected_output_of pane c =
     Option.bind (Option.bind (key_for_pane pane c) (\<lambda>k. cl_pane k c)) pp_expected_output"

definition sequence_gap_message :: "output_sequence \<Rightarrow> output_sequence \<Rightarrow> ustring" where
  "sequence_gap_message expected received =
     ascii ''PTY output sequence gap: expected '' @ number (sequence_get expected) @ ascii '', received '' @
     number (sequence_get received) @ ascii ''; a fresh attach replay is required''"

definition handle_pty_output :: "'p client_env \<Rightarrow> 'p service \<Rightarrow> pane_id \<Rightarrow> attachment_lease \<Rightarrow> output_sequence \<Rightarrow> bytes
    \<Rightarrow> pty_event list \<times> 'p client \<Rightarrow> (pty_event list \<times> 'p client) option" where
  "handle_pty_output env svc pane lease sq bs s =
     (case s of (events, c) \<Rightarrow>
        if lease_of pane c \<noteq> Some lease then Some (events, c)
        else case expected_output_of pane c of
          None \<Rightarrow>
            Some (case key_for_pane pane c of
                    Some k \<Rightarrow> (events @ [PaneError k (ascii ''live PTY output arrived before replay completion'')], c)
                  | None \<Rightarrow> (events, c))
        | Some expected \<Rightarrow>
            if sq \<noteq> expected
            then Some (mark_attachment_unreconciled pane (sequence_gap_message expected sq) s)
            else case checked_add_bytes sq (length bs) of
              None \<Rightarrow>
                Some (mark_attachment_unreconciled pane
                  (ascii ''PTY output sequence overflow; a fresh attach replay is required'') s)
            | Some following \<Rightarrow>
                (case key_for_pane pane c of
                   None \<Rightarrow> Some (events, c)
                 | Some k \<Rightarrow> do {
                     c \<leftarrow> feed_terminal_output env svc k bs
                           (update_entry k (\<lambda>e. e\<lparr>pp_expected_output := Some following\<rparr>) c);
                     Some (push_output_event k (length bs) events, c) }))"

definition client_exit :: "exit_info \<Rightarrow> pty_exit" where
  "client_exit x = \<lparr>px_code = ex_code x, px_signal = map_option text_of (ex_signal x)\<rparr>"

definition lease_rejected_message :: "lease_operation \<Rightarrow> pane_id \<Rightarrow> lease_rejection_reason \<Rightarrow> ustring" where
  "lease_rejected_message operation pane reason =
     ascii (debug_lease_operation operation) @ ascii '' rejected for pane '' @ number (pane_id_raw pane) @
     ascii '': '' @ ascii (reject_description (lease_rejection_code reason))"

definition defer_message :: "server_message \<Rightarrow> 'p client \<Rightarrow> 'p client" where
  "defer_message m c = c\<lparr>cl_deferred := cl_deferred c @ [m]\<rparr>"

fun handle_server_message :: "'p client_env \<Rightarrow> 'p service \<Rightarrow> server_message
    \<Rightarrow> pty_event list \<times> 'p client \<Rightarrow> (pty_event list \<times> 'p client) option" where
  "handle_server_message env svc (SHello _ _ _ _) s = Some s"
| "handle_server_message env svc (SSessions _ _) s = Some s"
| "handle_server_message env svc (SForegroundProcess pane lease process) (events, c) =
     Some (if lease_of pane c = Some lease then
             (case key_for_pane pane c of
                Some k \<Rightarrow> (events, record_foreground_process k process c)
              | None \<Rightarrow> (events, c))
           else (events, c))"
| "handle_server_message env svc (SPtyOutput pane lease sq bs) s = handle_pty_output env svc pane lease sq bs s"
| "handle_server_message env svc (SPaneExited pane lease exit) (events, c) =
     Some (if lease_of pane c \<noteq> Some lease then (events, c)
           else case clear_attachment pane c of
             (None, c) \<Rightarrow> (events, c)
           | (Some k, c) \<Rightarrow>
               (events @ [PaneExited k (client_exit exit)],
                update_entry k (\<lambda>e. e\<lparr>pp_exit_status := Some (client_exit exit)\<rparr>) c))"
| "handle_server_message env svc (STakenOver pane lease) (events, c) =
     Some (if lease_of pane c \<noteq> Some lease then (events, c)
           else case clear_attachment pane c of
             (None, c) \<Rightarrow> (events, c)
           | (Some k, c) \<Rightarrow> (events @ [PaneTakenOver k], c))"
| "handle_server_message env svc (SLeaseRejected pane lease operation reason) (events, c) =
     Some (if lease_of pane c \<noteq> Some lease then (events, c)
           else
             let (k, c) = (if reason = LRWriteRefused then (key_for_pane pane c, c) else clear_attachment pane c);
                 k = (case k of Some k \<Rightarrow> k | None \<Rightarrow> key_for_pane_id pane) in
             (events @ [PaneError k (lease_rejected_message operation pane reason)], c))"
| "handle_server_message env svc (SError code message) (events, c) =
     Some (events @ [ConnectionError (ascii (reject_description code) @ ascii '': '' @ text_of message)], c)"
| "handle_server_message env svc m (events, c) = Some (events, defer_message m c)"

definition route_during_request :: "'p client_env \<Rightarrow> 'p service \<Rightarrow> server_message \<Rightarrow> 'p client \<Rightarrow> 'p client option" where
  "route_during_request env svc m c = do {
     (events, c) \<leftarrow> handle_server_message env svc m ([], c);
     Some (c\<lparr>cl_pending_events := cl_pending_events c @ events\<rparr>) }"

fun server_message_output_bytes :: "server_message \<Rightarrow> nat" where
  "server_message_output_bytes (SPtyOutput _ _ _ bs) = length bs"
| "server_message_output_bytes (SReplayChunk _ _ _ _ bs) = length bs"
| "server_message_output_bytes _ = 0"

end
