(* ===== verification/Pty_Attach.thy ===== *)
theory Pty_Attach
  imports Pty_Requests
begin

text \<open>
  The requests of the client that wait for the daemon's answer (\<open>src/pty.rs\<close>): creating a session,
  attaching with its replay, the agent status, and the service that restores attachments after a
  reconnect. Each is a loop over what is received. The loops are not bounded by the code: an answer of
  another kind under the request's own number is put back among the deferred messages and taken from
  there again. They take fuel, one unit for each turn, and \<open>None\<close> says the fuel did not suffice.
\<close>

definition write_idempotent_request :: "'p service \<Rightarrow> client_message \<Rightarrow> 'p client \<Rightarrow> ((pty_error + unit) \<times> 'p client) option" where
  "write_idempotent_request svc m c = do {
     (connected, c) \<leftarrow> ensure_connected svc c;
     Some (case connected of
       Inl e \<Rightarrow> (Inl e, c)
     | Inr _ \<Rightarrow>
         (case write_frame m c of
            (Inr _, c) \<Rightarrow> (Inr (), c)
          | (Inl e, c) \<Rightarrow> if is_disconnected e then resume_and_resend m c else (Inl e, c))) }"

section \<open>Creating a session\<close>

definition create_answer :: "debug_forms \<Rightarrow> create_request \<Rightarrow> create_outcome \<Rightarrow> pty_error + unit" where
  "create_answer dbg request outcome =
     (case outcome of
        COCreated session \<Rightarrow>
          if si_identity session = cr_identity request
             \<and> (case cr_requested_id request of None \<Rightarrow> True | Some i \<Rightarrow> i = si_id session)
          then Inr ()
          else Inl (protocol_order_error ''create result identifies the wrong logical session'')
      | COError e \<Rightarrow> Inl (pty_create_error dbg e))"

text \<open>A turn of a loop ends it with a result or leaves a message to handle like any other.\<close>

definition create_turn :: "debug_forms \<Rightarrow> create_request \<Rightarrow> server_message \<Rightarrow> (pty_error + unit) option" where
  "create_turn dbg request m =
     (case m of
        SCreateResult r outcome \<Rightarrow>
          if r = cr_request_id request then Some (create_answer dbg request outcome) else None
      | SError code message \<Rightarrow> Some (Inl (Rejected code (text_of message)))
      | _ \<Rightarrow> None)"

fun await_answer :: "'p client_env \<Rightarrow> 'p service \<Rightarrow> (server_message \<Rightarrow> (pty_error + 'a) option) \<Rightarrow> request_id
    \<Rightarrow> client_message \<Rightarrow> nat \<Rightarrow> nat \<Rightarrow> 'p client \<Rightarrow> ((pty_error + 'a) \<times> 'p client) option" where
  "await_answer env svc turn r request deadline 0 c = None"
| "await_answer env svc turn r request deadline (Suc n) c =
     (case receive_for_request r deadline c of
        (Inl e, c) \<Rightarrow>
          if is_disconnected e then
            (case resume_and_resend request c of
               (Inl e, c) \<Rightarrow> Some (Inl e, c)
             | (Inr _, c) \<Rightarrow> await_answer env svc turn r request deadline n c)
          else Some (Inl e, c)
      | (Inr m, c) \<Rightarrow>
          (case turn m of
             Some result \<Rightarrow> Some (result, c)
           | None \<Rightarrow> do {
               c \<leftarrow> route_during_request env svc m c;
               await_answer env svc turn r request deadline n c }))"

definition perform_request :: "'p client_env \<Rightarrow> 'p service \<Rightarrow> (server_message \<Rightarrow> (pty_error + 'a) option) \<Rightarrow> request_id
    \<Rightarrow> client_message \<Rightarrow> nat \<Rightarrow> 'p client \<Rightarrow> ((pty_error + 'a) \<times> 'p client) option" where
  "perform_request env svc turn r request n c = do {
     (written, c) \<leftarrow> write_idempotent_request svc request c;
     case written of
       Inl e \<Rightarrow> Some (Inl e, c)
     | Inr _ \<Rightarrow> await_answer env svc turn r request (cl_now c + ATTACH_ACK_TIMEOUT) n c }"

definition perform_create :: "'p client_env \<Rightarrow> 'p service \<Rightarrow> create_request \<Rightarrow> nat \<Rightarrow> 'p client
    \<Rightarrow> ((pty_error + unit) \<times> 'p client) option" where
  "perform_create env svc request n c =
     perform_request env svc (create_turn (ce_debug env) request) (cr_request_id request) (CCreateSession request) n c"

definition agent_status_turn :: "request_id \<Rightarrow> server_message \<Rightarrow> (pty_error + agent_status_outcome) option" where
  "agent_status_turn r m =
     (case m of
        SAgentStatusResult received outcome \<Rightarrow> if received = r then Some (Inr outcome) else None
      | SError code message \<Rightarrow> Some (Inl (Rejected code (text_of message)))
      | _ \<Rightarrow> None)"

definition perform_agent_status :: "'p client_env \<Rightarrow> 'p service \<Rightarrow> request_id \<Rightarrow> client_message \<Rightarrow> nat \<Rightarrow> 'p client
    \<Rightarrow> ((pty_error + agent_status_outcome) \<times> 'p client) option" where
  "perform_agent_status env svc r request n c = perform_request env svc (agent_status_turn r) r request n c"

section \<open>Attaching\<close>

text \<open>What an attach has validated so far.\<close>

record replay =
  rp_lease :: "attachment_lease option"
  rp_next :: "output_sequence option"
  rp_watermark :: "output_sequence option"
  rp_bytes :: bytes
  rp_omitted :: u64

definition no_replay :: replay where
  "no_replay = \<lparr>rp_lease = None, rp_next = None, rp_watermark = None, rp_bytes = [], rp_omitted = 0\<rparr>"

datatype attach_turn =
    AttachFails pty_error
  | AttachAccepted pane_info replay
  | AttachContinues replay
  | AttachCommits attachment_lease output_sequence
  | AttachRoutes

definition sequence_less :: "output_sequence \<Rightarrow> output_sequence \<Rightarrow> bool" where
  "sequence_less a b \<longleftrightarrow> sequence_get a < sequence_get b"

definition attach_fails :: "string \<Rightarrow> attach_turn" where
  "attach_fails message = AttachFails (protocol_order_error message)"

definition attach_result_turn :: "session_id \<Rightarrow> pane_id \<Rightarrow> attach_outcome \<Rightarrow> replay \<Rightarrow> attach_turn" where
  "attach_result_turn session pane_id outcome rp =
     (case outcome of
        AOAttached attached pane lease \<Rightarrow>
          if attached = session \<and> pi_id pane = pane_id then
            (if rp_lease rp \<noteq> None then attach_fails ''duplicate attach acceptance''
             else AttachAccepted pane (rp\<lparr>rp_lease := Some lease\<rparr>))
          else attach_fails ''attach result identifies the wrong pane''
      | AOError e \<Rightarrow> AttachFails (pty_attach_error e))"

definition replay_begin_turn ::
    "pane_id \<Rightarrow> pane_id \<Rightarrow> attachment_lease \<Rightarrow> output_sequence \<Rightarrow> output_sequence \<Rightarrow> u64 \<Rightarrow> replay \<Rightarrow> attach_turn" where
  "replay_begin_turn pane_id pane lease first watermark omitted rp =
     (if pane \<noteq> pane_id \<or> rp_lease rp \<noteq> Some lease \<or> rp_next rp \<noteq> None
      then attach_fails ''replay began before matching attach acceptance''
      else if sequence_less watermark first \<or> omitted \<noteq> sequence_get first
      then attach_fails ''invalid replay watermark or truncation boundary''
      else AttachContinues (rp\<lparr>rp_next := Some first, rp_watermark := Some watermark, rp_omitted := omitted\<rparr>))"

definition replay_chunk_turn ::
    "pane_id \<Rightarrow> pane_id \<Rightarrow> attachment_lease \<Rightarrow> output_sequence \<Rightarrow> bytes \<Rightarrow> replay \<Rightarrow> attach_turn" where
  "replay_chunk_turn pane_id pane lease sq bs rp =
     (case rp_next rp of
        None \<Rightarrow> attach_fails ''replay chunk arrived before replay begin''
      | Some expected \<Rightarrow>
          if pane \<noteq> pane_id \<or> rp_lease rp \<noteq> Some lease \<or> sq \<noteq> expected
          then attach_fails ''replay output has a gap, duplicate, or wrong lease''
          else case checked_add_bytes sq (length bs) of
            None \<Rightarrow> attach_fails ''replay sequence overflow''
          | Some following \<Rightarrow>
              if (case rp_watermark rp of Some watermark \<Rightarrow> sequence_less watermark following | None \<Rightarrow> False)
              then attach_fails ''replay chunk exceeds its watermark''
              else AttachContinues (rp\<lparr>rp_bytes := rp_bytes rp @ bs, rp_next := Some following\<rparr>))"

definition replay_end_turn :: "pane_id \<Rightarrow> pane_id \<Rightarrow> attachment_lease \<Rightarrow> output_sequence \<Rightarrow> replay \<Rightarrow> attach_turn" where
  "replay_end_turn pane_id pane lease watermark rp =
     (if pane \<noteq> pane_id \<or> rp_lease rp \<noteq> Some lease \<or> rp_watermark rp \<noteq> Some watermark \<or> rp_next rp \<noteq> Some watermark
      then attach_fails ''replay ended with a gap or mismatched watermark''
      else AttachCommits lease watermark)"

definition attach_turn :: "session_id \<Rightarrow> pane_id \<Rightarrow> request_id \<Rightarrow> server_message \<Rightarrow> replay \<Rightarrow> attach_turn" where
  "attach_turn session pane_id r m rp =
     (case m of
        SAttachResult received outcome \<Rightarrow>
          if received = r then attach_result_turn session pane_id outcome rp else AttachRoutes
      | SReplayBegin received pane lease first watermark omitted \<Rightarrow>
          if received = r then replay_begin_turn pane_id pane lease first watermark omitted rp else AttachRoutes
      | SReplayChunk received pane lease sq bs \<Rightarrow>
          if received = r then replay_chunk_turn pane_id pane lease sq bs rp else AttachRoutes
      | SReplayEnd received pane lease watermark \<Rightarrow>
          if received = r then replay_end_turn pane_id pane lease watermark rp else AttachRoutes
      | SPtyOutput pane lease sq bs \<Rightarrow>
          if pane = pane_id \<and> rp_lease rp = Some lease
          then attach_fails ''live output arrived before replay end'' else AttachRoutes
      | SError code message \<Rightarrow> AttachFails (Rejected code (text_of message))
      | _ \<Rightarrow> AttachRoutes)"

definition unqueue_reattachment :: "pty_key \<Rightarrow> 'p client \<Rightarrow> 'p client" where
  "unqueue_reattachment k c = c\<lparr>cl_pending_reattach := removeAll k (cl_pending_reattach c)\<rparr>"

text \<open>A complete replay reaches the emulator in one piece, without answering the queries in it.\<close>

definition commit_replay ::
    "'p client_env \<Rightarrow> pty_key \<Rightarrow> attachment_lease \<Rightarrow> output_sequence \<Rightarrow> replay \<Rightarrow> 'p client \<Rightarrow> 'p client" where
  "commit_replay env k lease watermark rp c =
     (let c = process_terminal_output env k (rp_bytes rp) c;
          c = push_event (Scrollback k (length (rp_bytes rp))) c;
          c = (if 0 < rp_omitted rp then push_event (ReplayTruncated k (rp_omitted rp)) c else c);
          c = update_entry k (\<lambda>e. e\<lparr>pp_lease := Some lease, pp_expected_output := Some watermark\<rparr>) c in
      unqueue_reattachment k c)"

definition restart_attach :: "'p client_env \<Rightarrow> pty_key \<Rightarrow> pty_dimensions \<Rightarrow> 'p client \<Rightarrow> 'p client" where
  "restart_attach env k dims c =
     update_entry k (\<lambda>e. e\<lparr>pp_lease := None, pp_expected_output := None\<rparr>) (reset_parser env k dims c)"

fun attach_loop :: "'p client_env \<Rightarrow> 'p service \<Rightarrow> pty_key \<Rightarrow> session_id \<Rightarrow> pty_dimensions \<Rightarrow> request_id \<Rightarrow> client_message
    \<Rightarrow> nat \<Rightarrow> nat \<Rightarrow> replay \<Rightarrow> 'p client \<Rightarrow> ((pty_error + unit) \<times> 'p client) option" where
  "attach_loop env svc k session dims r request 0 deadline rp c = None"
| "attach_loop env svc k session dims r request (Suc n) deadline rp c =
     (case receive_for_request r deadline c of
        (Inl e, c) \<Rightarrow>
          if is_disconnected e then
            (case resume_and_resend request c of
               (Inl e, c) \<Rightarrow> Some (Inl e, c)
             | (Inr _, c) \<Rightarrow> attach_loop env svc k session dims r request n deadline no_replay (restart_attach env k dims c))
          else Some (Inl e, c)
      | (Inr m, c) \<Rightarrow>
          let deadline = cl_now c + ATTACH_ACK_TIMEOUT in
          (case attach_turn session (pane_for_key k) r m rp of
             AttachFails e \<Rightarrow> Some (Inl e, c)
           | AttachAccepted pane rp \<Rightarrow>
               attach_loop env svc k session dims r request n deadline rp
                 (resize_parser env k \<lparr>dim_rows = pi_rows pane, dim_cols = pi_cols pane\<rparr> c)
           | AttachContinues rp \<Rightarrow> attach_loop env svc k session dims r request n deadline rp c
           | AttachCommits lease watermark \<Rightarrow> Some (Inr (), commit_replay env k lease watermark rp c)
           | AttachRoutes \<Rightarrow> do {
               c \<leftarrow> route_during_request env svc m c;
               attach_loop env svc k session dims r request n deadline rp c }))"

definition perform_attach :: "'p client_env \<Rightarrow> 'p service \<Rightarrow> pty_key \<Rightarrow> session_id \<Rightarrow> pty_dimensions \<Rightarrow> request_id
    \<Rightarrow> client_message \<Rightarrow> nat \<Rightarrow> 'p client \<Rightarrow> ((pty_error + unit) \<times> 'p client) option" where
  "perform_attach env svc k session dims r request n c = do {
     (written, c) \<leftarrow> write_idempotent_request svc request (unqueue_reattachment k c);
     case written of
       Inl e \<Rightarrow> Some (Inl e, c)
     | Inr _ \<Rightarrow> attach_loop env svc k session dims r request n (cl_now c + ATTACH_ACK_TIMEOUT) no_replay c }"

section \<open>Restoring attachments\<close>

definition session_unavailable :: pty_exit where
  "session_unavailable = \<lparr>px_code = 1, px_signal = Some (ascii ''server session unavailable'')\<rparr>"

definition reattach_result :: "pty_key \<Rightarrow> pty_error + unit \<Rightarrow> 'p client \<Rightarrow> bool \<times> 'p client" where
  "reattach_result k result c =
     (case result of
        Inr _ \<Rightarrow> (True, c)
      | Inl e \<Rightarrow>
          if pty_error_code e = Some UnknownSession then
            let c = snd (clear_attachment (pane_for_key k) c);
                c = update_entry k (\<lambda>e. e\<lparr>pp_exit_status := Some session_unavailable\<rparr>) c in
            (True, push_event (PaneExited k session_unavailable) c)
          else (False, report_disconnect (pty_error_message e) c))"

definition reattach_terminal :: "'p client_env \<Rightarrow> 'p service \<Rightarrow> nat \<Rightarrow> pty_key \<Rightarrow> 'p client \<Rightarrow> (bool \<times> 'p client) option" where
  "reattach_terminal env svc n k c =
     (let dims = parser_dimensions env k c;
          c = reset_parser env k dims c in
      case identity_for_key k c of
        Inl _ \<Rightarrow> Some (True, c)
      | Inr identity \<Rightarrow>
          (case allocate_request c of
             (Inl _, c) \<Rightarrow> Some (False, c)
           | (Inr r, c) \<Rightarrow> do {
               (result, c) \<leftarrow> perform_attach env svc k (session_for_key k) dims r
                 (CAttach r identity (session_for_key k) (dim_rows dims) (dim_cols dims)) n c;
               Some (reattach_result k result (finish_request r c)) }))"

text \<open>
  Time passes only while waiting, so the budget of a frame is spent by waiting, or by the number of round
  trips the surroundings say fit in it.
\<close>

fun reattach_loop :: "'p client_env \<Rightarrow> 'p service \<Rightarrow> nat \<Rightarrow> nat \<Rightarrow> nat \<Rightarrow> 'p client \<Rightarrow> 'p client option" where
  "reattach_loop env svc n started 0 c = None"
| "reattach_loop env svc n started (Suc turns) c =
     (if cl_connection c = None then Some c
      else case cl_pending_reattach c of
        [] \<Rightarrow> Some c
      | k # queue \<Rightarrow>
          let c = c\<lparr>cl_pending_reattach := queue\<rparr> in
          if attached_pane k c = None \<or> Some k = cl_starting c then reattach_loop env svc n started turns c
          else do {
            (restored, c) \<leftarrow> reattach_terminal env svc n k c;
            if \<not> restored then
              Some (advance_retry_backoff (c\<lparr>cl_pending_reattach := cl_pending_reattach c @ [k]\<rparr>))
            else
              let c = reset_retry_backoff c in
              if started + REATTACH_FRAME_BUDGET \<le> cl_now c \<or> ce_round_trips env = 0 then Some c
              else reattach_loop (env\<lparr>ce_round_trips := ce_round_trips env - 1\<rparr>) svc n started turns c })"

definition service_reattachments :: "'p client_env \<Rightarrow> 'p service \<Rightarrow> nat \<Rightarrow> 'p client \<Rightarrow> 'p client option" where
  "service_reattachments env svc n c =
     (if cl_connection c = None \<or> cl_pending_requests c \<noteq> [] then Some c
      else if retry_is_early c then Some c
      else reattach_loop env svc n (cl_now c) n c)"

text \<open>Serving handles messages, and handling a message serves; the fuel bounds how deep this goes as well.\<close>

fun client_service :: "'p client_env \<Rightarrow> nat \<Rightarrow> 'p service" where
  "client_service env 0 c = None"
| "client_service env (Suc n) c = service_reattachments env (client_service env n) n c"

end
