(* ===== verification/Pty_Operations.thy ===== *)
theory Pty_Operations
  imports Pty_Attach
begin

text \<open>
  What the rest of the client asks of its runtime (\<open>src/pty.rs\<close>): attaching to a session that runs, starting
  and stopping one, input, pastes, mouse and focus reports, sizes, and draining the daemon's messages once
  a frame. An operation that may wait takes the fuel of its waits.
\<close>

section \<open>Attaching and starting\<close>

datatype attach_existing_result = AttachedExisting | MissingSession

definition forget_program :: "pty_key \<Rightarrow> 'p client \<Rightarrow> 'p client" where
  "forget_program k c = update_entry k (\<lambda>e. e\<lparr>pp_foreground := None, pp_tracker := None\<rparr>) c"

text \<open>A definite failure ends the attachment; an uncertain one keeps it for a later attach to settle.\<close>

definition settle_attachment :: "pty_key \<Rightarrow> (pty_error + 'a) \<Rightarrow> 'p client \<Rightarrow> 'p client" where
  "settle_attachment k result c =
     (case result of
        Inr _ \<Rightarrow> c
      | Inl e \<Rightarrow> if is_reconciliation_uncertain e then c else snd (clear_attachment (pane_for_key k) c))"

definition attach_frame :: "pty_key \<Rightarrow> session_identity \<Rightarrow> pty_dimensions \<Rightarrow> request_id \<Rightarrow> client_message" where
  "attach_frame k identity dims r = CAttach r identity (session_for_key k) (dim_rows dims) (dim_cols dims)"

definition attach_existing :: "'p client_env \<Rightarrow> nat \<Rightarrow> pty_key \<Rightarrow> pty_dimensions \<Rightarrow> 'p client
    \<Rightarrow> ((pty_error + attach_existing_result) \<times> 'p client) option" where
  "attach_existing env n k dims c =
     (let dims = dim_clamped dims in
      if is_running k c then Some (Inr AttachedExisting, c)
      else do {
        (connected, c) \<leftarrow> ensure_connected (client_service env n) c;
        case connected of
          Inl e \<Rightarrow> Some (Inl e, c)
        | Inr _ \<Rightarrow>
            (case identity_for_key k c of
               Inl e \<Rightarrow> Some (Inl e, c)
             | Inr identity \<Rightarrow>
                 if is_running k c then Some (Inr AttachedExisting, c)
                 else
                   let c = bind_pane k (pane_for_key k) (forget_program k (reset_parser env k dims c)) in
                   (case allocate_request c of
                      (Inl e, c) \<Rightarrow> Some (Inl e, c)
                    | (Inr r, c) \<Rightarrow> do {
                        (result, c) \<leftarrow> perform_attach env (client_service env n) k (session_for_key k) dims r
                                         (attach_frame k identity dims r) n c;
                        let c = finish_request r c;
                        Some (case result of
                          Inr _ \<Rightarrow> (Inr AttachedExisting, c)
                        | Inl e \<Rightarrow>
                            if pty_error_code e = Some UnknownSession
                            then (Inr MissingSession, snd (clear_attachment (pane_for_key k) c))
                            else (Inl e, settle_attachment k result c)) })) })"

definition PANE_SESSION_ENV :: "ustring list" where
  "PANE_SESSION_ENV = map ascii
     [''DBUS_SESSION_BUS_ADDRESS'', ''DISPLAY'', ''WAYLAND_DISPLAY'', ''XAUTHORITY'', ''XDG_CURRENT_DESKTOP'',
      ''XDG_RUNTIME_DIR'', ''XDG_SESSION_TYPE'']"

text \<open>An ordered map of text, kept sorted by its keys.\<close>

fun env_insert :: "ustring \<Rightarrow> ustring \<Rightarrow> (ustring \<times> ustring) list \<Rightarrow> (ustring \<times> ustring) list" where
  "env_insert k v [] = [(k, v)]"
| "env_insert k v ((k', v') # rest) =
     (if k = k' then (k, v) # rest
      else if lexordp (<) k k' then (k, v) # (k', v') # rest else (k', v') # env_insert k v rest)"

definition pane_environment :: "(ustring \<Rightarrow> ustring option) \<Rightarrow> (ustring \<times> ustring) list \<Rightarrow> (ustring \<times> ustring) list" where
  "pane_environment var explicit =
     (let session = concat (map (\<lambda>key. case var key of
                      Some value \<Rightarrow> if value = [] then [] else [(key, value)] | None \<Rightarrow> []) PANE_SESSION_ENV) in
      fold (\<lambda>(k, v). env_insert k v) (session @ explicit) [])"

definition create_frame :: "'p client_env \<Rightarrow> pty_spawn \<Rightarrow> session_identity \<Rightarrow> agent_metadata option \<Rightarrow> request_id \<Rightarrow> create_request" where
  "create_frame env spawn identity agent r =
     (let launch = client_launch_spec spawn in
      \<lparr>cr_request_id = r, cr_identity = identity, cr_requested_id = Some (session_for_key (sp_terminal spawn)),
       cr_agent = agent, cr_name = client_session_name spawn launch, cr_cwd = map_option wire_of (sp_cwd spawn),
       cr_env = map (\<lambda>(k, v). (wire_of k, wire_of v)) (pane_environment (ce_var env) (sp_env spawn)),
       cr_launch = launch, cr_rows = dim_rows (sp_size spawn), cr_cols = dim_cols (sp_size spawn)\<rparr>)"

text \<open>Waiting for the answer to a stop of the same session, which must be gone before it is created again.\<close>

fun await_stop_for_session :: "'p client_env \<Rightarrow> 'p service \<Rightarrow> session_id \<Rightarrow> nat \<Rightarrow> 'p client \<Rightarrow> 'p client option" where
  "await_stop_for_session env svc session 0 c = None"
| "await_stop_for_session env svc session (Suc n) c =
     (case reap_pending_stops c of
        (events, c) \<Rightarrow>
          let c = c\<lparr>cl_pending_events := cl_pending_events c @ events\<rparr> in
          (case List.find (\<lambda>stop. st_session stop = session) (cl_pending_stops c) of
             None \<Rightarrow> Some c
           | Some stop \<Rightarrow>
               if st_deadline stop \<le> cl_now c then await_stop_for_session env svc session n c
               else case cl_connection c of
                 None \<Rightarrow> Some c
               | Some cn \<Rightarrow>
                   (case recv_deadline (st_deadline stop) cn c of
                      (ReceivedMessage m, c) \<Rightarrow> do {
                        c \<leftarrow> route_during_request env svc m c;
                        await_stop_for_session env svc session n c }
                    | (ReceivedNothing, c) \<Rightarrow> await_stop_for_session env svc session n c
                    | (ReceivedClosed, c) \<Rightarrow> Some (disconnect_client c))))"

definition start_attached :: "'p client_env \<Rightarrow> nat \<Rightarrow> pty_spawn \<Rightarrow> 'p client \<Rightarrow> ((pty_error + unit) \<times> 'p client) option" where
  "start_attached env n spawn c =
     (let svc = client_service env n; k = sp_terminal spawn in do {
        (connected, c) \<leftarrow> ensure_connected svc c;
        case connected of
          Inl e \<Rightarrow> Some (Inl e, c)
        | Inr _ \<Rightarrow>
            let c = forget_program k (reset_parser env k (sp_size spawn) c);
                agent = pp_agent (pane_entry k c) in
            (case identity_for_key k c of
               Inl e \<Rightarrow> Some (Inl e, c)
             | Inr identity \<Rightarrow> do {
                 c \<leftarrow> await_stop_for_session env svc (session_for_key k) n c;
                 let c = bind_pane k (pane_for_key k) c;
                 case allocate_request c of
                   (Inl e, c) \<Rightarrow> Some (Inl e, c)
                 | (Inr create_id, c) \<Rightarrow> do {
                     (created, c) \<leftarrow> perform_create env svc (create_frame env spawn identity agent create_id) n c;
                     let c = finish_request create_id c;
                     case created of
                       Inl e \<Rightarrow> Some (Inl e, settle_attachment k created c)
                     | Inr _ \<Rightarrow>
                         (case allocate_request c of
                            (Inl e, c) \<Rightarrow> Some (Inl e, c)
                          | (Inr attach_id, c) \<Rightarrow> do {
                              (result, c) \<leftarrow> perform_attach env svc k (session_for_key k) (sp_size spawn) attach_id
                                (attach_frame k identity (sp_size spawn) attach_id) n c;
                              Some (result, settle_attachment k result (finish_request attach_id c)) }) } }) })"

definition start :: "'p client_env \<Rightarrow> nat \<Rightarrow> pty_spawn \<Rightarrow> 'p client \<Rightarrow> ((pty_error + unit) \<times> 'p client) option" where
  "start env n spawn c =
     (let spawn = spawn\<lparr>sp_size := dim_clamped (sp_size spawn)\<rparr>; k = sp_terminal spawn;
          create = (\<lambda>c. do {
            (result, c) \<leftarrow> start_attached env n spawn (c\<lparr>cl_starting := Some k\<rparr>);
            Some (result, c\<lparr>cl_starting := None\<rparr>) }) in
      if is_running k c
      then Some (Inl (InvalidRequest (ascii ''terminal already has a server attachment'')), c)
      else if attached_pane k c \<noteq> None then do {
        (attached, c) \<leftarrow> attach_existing env n k (sp_size spawn) c;
        case attached of
          Inl e \<Rightarrow> Some (Inl e, c)
        | Inr AttachedExisting \<Rightarrow> Some (Inr (), c)
        | Inr MissingSession \<Rightarrow> create c }
      else create c)"

section \<open>Stopping\<close>

definition stop_label :: "'p client_env \<Rightarrow> pty_key \<Rightarrow> 'p client \<Rightarrow> ustring" where
  "stop_label env k c =
     (let kind = (case k of PtyChatAgent _ \<Rightarrow> ascii ''agent'' | PtyTerminal _ \<Rightarrow> ascii ''terminal'') in
      case terminal_title env k c of
        Some title \<Rightarrow> kind @ ascii '' '' @ [34] @ title @ [34]
      | None \<Rightarrow> ascii ''the deleted '' @ kind)"

definition stop_async :: "'p client_env \<Rightarrow> nat \<Rightarrow> pty_key \<Rightarrow> 'p client \<Rightarrow> ((pty_error + bool) \<times> 'p client) option" where
  "stop_async env n k c =
     (case attached_pane k c of
        None \<Rightarrow> Some (Inr False, c)
      | Some pane \<Rightarrow> do {
          (connected, c) \<leftarrow> ensure_connected (client_service env n) c;
          case connected of
            Inl e \<Rightarrow> Some (Inl e, c)
          | Inr _ \<Rightarrow>
              (case lease_for_pane pane c of
                 Inl e \<Rightarrow> Some (Inl e, c)
               | Inr lease \<Rightarrow>
                   (case identity_for_key k c of
                      Inl e \<Rightarrow> Some (Inl e, c)
                    | Inr identity \<Rightarrow>
                        (case allocate_stop_request c of
                           (Inl e, c) \<Rightarrow> Some (Inl e, c)
                         | (Inr r, c) \<Rightarrow>
                             let label = stop_label env k c in do {
                             (written, c) \<leftarrow> write_idempotent_request (client_service env n) (CStop r identity pane lease) c;
                             Some (case written of
                               Inl e \<Rightarrow> (Inl e, c)
                             | Inr _ \<Rightarrow>
                                 let c = snd (clear_attachment pane c);
                                     c = update_entry k (\<lambda>e. e\<lparr>pp_exit_status := None\<rparr>) c in
                                 (Inr True, c\<lparr>cl_pending_stops := cl_pending_stops c @
                                   [\<lparr>st_request_id = r, st_session = session_for_key k, st_label = label,
                                     st_deadline = cl_now c + STOP_ACK_TIMEOUT\<rparr>]\<rparr>)) }))) })"

end
