(* ===== verification/Pty_Frames.thy ===== *)
theory Pty_Frames
  imports Pty_Operations
begin

text \<open>
  What the client sends to a pane and asks of the daemon besides starting and stopping, and its turn of a
  frame: draining messages, retiring stops, restoring attachments and retrying the connection
  (\<open>src/pty.rs\<close>).
\<close>

section \<open>Input\<close>

definition send_input :: "'p client_env \<Rightarrow> nat \<Rightarrow> pty_key \<Rightarrow> bytes \<Rightarrow> 'p client \<Rightarrow> ((pty_error + bool) \<times> 'p client) option" where
  "send_input env n k bs c =
     (case attached_pane k c of
        None \<Rightarrow> Some (Inr False, c)
      | Some pane \<Rightarrow> do {
          (sent, c) \<leftarrow> send_input_inner env (client_service env n) k pane bs UserInput c;
          Some (map_sum id (\<lambda>_. True) sent, c) })"

definition send_paste :: "'p client_env \<Rightarrow> nat \<Rightarrow> pty_key \<Rightarrow> ustring \<Rightarrow> 'p client \<Rightarrow> ((pty_error + bool) \<times> 'p client) option" where
  "send_paste env n k text c =
     (case attached_pane k c of
        None \<Rightarrow> Some (Inr False, c)
      | Some pane \<Rightarrow>
          let bracketed = (case screen_of env k c of Some s \<Rightarrow> sc_bracketed_paste s | None \<Rightarrow> False);
              bs = terminal_paste_bytes text bracketed;
              c = (if bs \<noteq> [] then note_user_input env k bs c else c) in do {
          (sent, c) \<leftarrow> send_leased (client_service env n) pane (\<lambda>lease. CPaste pane lease bs) DeliverPaste c;
          Some (map_sum id (\<lambda>_. True) sent, c) })"

text \<open>Bytes the client makes up for the program: a failure is reported in the pane.\<close>

definition send_synthetic :: "'p client_env \<Rightarrow> nat \<Rightarrow> pty_key \<Rightarrow> pane_id \<Rightarrow> bytes \<Rightarrow> 'p client \<Rightarrow> (bool \<times> 'p client) option" where
  "send_synthetic env n k pane bs c = do {
     (sent, c) \<leftarrow> send_input_inner env (client_service env n) k pane bs SyntheticInput c;
     Some (case sent of
       Inr _ \<Rightarrow> (True, c)
     | Inl e \<Rightarrow> (False, push_event (PaneError k (pty_error_message e)) c)) }"

definition terminal_reports_mouse :: "'p client_env \<Rightarrow> pty_key \<Rightarrow> 'p client \<Rightarrow> bool" where
  "terminal_reports_mouse env k c =
     (case screen_of env k c of Some s \<Rightarrow> sc_mouse_mode s \<noteq> MouseOff | None \<Rightarrow> False)"

definition terminal_wants_mouse_action :: "'p client_env \<Rightarrow> pty_key \<Rightarrow> mouse_action \<Rightarrow> 'p client \<Rightarrow> bool" where
  "terminal_wants_mouse_action env k action c =
     (case screen_of env k c of Some s \<Rightarrow> is_wanted_in action (sc_mouse_mode s) | None \<Rightarrow> False)"

definition forward_mouse :: "'p client_env \<Rightarrow> nat \<Rightarrow> pty_key \<Rightarrow> mouse_report \<Rightarrow> 'p client \<Rightarrow> (bool \<times> 'p client) option" where
  "forward_mouse env n k report c =
     (case screen_of env k c of
        None \<Rightarrow> Some (False, c)
      | Some s \<Rightarrow>
          (case mouse_report_bytes (sc_mouse_mode s) (sc_mouse_encoding s) report of
             None \<Rightarrow> Some (False, c)
           | Some bs \<Rightarrow>
               (case attached_pane k c of
                  None \<Rightarrow> Some (False, c)
                | Some pane \<Rightarrow> send_synthetic env n k pane bs c)))"

definition alternate_scroll_key :: "bool \<Rightarrow> bool \<Rightarrow> bytes" where
  "alternate_scroll_key application up =
     0x1b # ascii_bytes (if application then ''O'' else ''['') @ ascii_bytes (if up then ''A'' else ''B'')"

definition forward_alternate_scroll :: "'p client_env \<Rightarrow> nat \<Rightarrow> pty_key \<Rightarrow> bool \<Rightarrow> nat \<Rightarrow> 'p client \<Rightarrow> (bool \<times> 'p client) option" where
  "forward_alternate_scroll env n k up rows c =
     (if rows = 0 \<or> \<not> is_running k c
         \<or> \<not> (case Option.bind (cl_pane k c) pp_responder of Some d \<Rightarrow> rd_alternate_scroll d | None \<Rightarrow> False)
      then Some (False, c)
      else case screen_of env k c of
        None \<Rightarrow> Some (False, c)
      | Some s \<Rightarrow>
          if \<not> sc_alternate s \<or> sc_mouse_mode s \<noteq> MouseOff then Some (False, c)
          else case attached_pane k c of
            None \<Rightarrow> Some (False, c)
          | Some pane \<Rightarrow>
              map_option (\<lambda>(_, c). (True, c))
                (send_synthetic env n k pane
                   (concat (replicate (min rows TERMINAL_SCROLLBACK_LINES)
                      (alternate_scroll_key (sc_application_cursor s) up))) c))"

definition terminal_reports_focus :: "pty_key \<Rightarrow> 'p client \<Rightarrow> bool" where
  "terminal_reports_focus k c =
     (case Option.bind (cl_pane k c) pp_responder of Some d \<Rightarrow> rd_focus_reporting d | None \<Rightarrow> False)"

definition send_focus :: "'p client_env \<Rightarrow> nat \<Rightarrow> pty_key \<Rightarrow> bool \<Rightarrow> 'p client \<Rightarrow> (bool \<times> 'p client) option" where
  "send_focus env n k gained c =
     (if \<not> terminal_reports_focus k c then Some (False, c)
      else case attached_pane k c of
        None \<Rightarrow> Some (False, c)
      | Some pane \<Rightarrow> send_synthetic env n k pane (escape (if gained then ''[I'' else ''[O'')) c)"

definition set_focused_pane :: "'p client_env \<Rightarrow> nat \<Rightarrow> pty_key option \<Rightarrow> 'p client \<Rightarrow> 'p client option" where
  "set_focused_pane env n k c =
     (if cl_focused c = k then Some c
      else do {
        c \<leftarrow> (case cl_focused c of
               Some previous \<Rightarrow> map_option snd (send_focus env n previous False (c\<lparr>cl_focused := None\<rparr>))
             | None \<Rightarrow> Some c);
        let c = c\<lparr>cl_focused := k\<rparr>;
        case k of
          Some k \<Rightarrow> map_option snd (send_focus env n k True c)
        | None \<Rightarrow> Some c })"

definition scroll_up :: "'p client_env \<Rightarrow> pty_key \<Rightarrow> nat \<Rightarrow> 'p client \<Rightarrow> bool \<times> 'p client" where
  "scroll_up env k rows c = scroll_parser env k (sint (of_nat rows :: 32 word)) c"

definition scroll_down :: "'p client_env \<Rightarrow> pty_key \<Rightarrow> nat \<Rightarrow> 'p client \<Rightarrow> bool \<times> 'p client" where
  "scroll_down env k rows c = scroll_parser env k (- int (min rows (2 ^ 31 - 1))) c"

definition resize :: "'p client_env \<Rightarrow> nat \<Rightarrow> pty_key \<Rightarrow> pty_dimensions \<Rightarrow> 'p client \<Rightarrow> ((pty_error + unit) \<times> 'p client) option" where
  "resize env n k dims c =
     (let dims = dim_clamped dims; c = resize_parser env k dims c in
      case attached_pane k c of
        None \<Rightarrow> Some (Inr (), c)
      | Some pane \<Rightarrow> do {
          (connected, c) \<leftarrow> ensure_connected (client_service env n) c;
          case connected of
            Inl e \<Rightarrow> Some (Inl e, c)
          | Inr _ \<Rightarrow>
              (case lease_for_pane pane c of
                 Inl e \<Rightarrow> Some (Inl e, c)
               | Inr lease \<Rightarrow>
                   (case write_non_replayable (CResize pane lease (dim_rows dims) (dim_cols dims)) DeliverResize pane c of
                      (Inr _, c) \<Rightarrow> Some (Inr (), c)
                    | (Inl e, c) \<Rightarrow> Some (Inl e, push_event (PaneError k (pty_error_message e)) c))) })"

section \<open>Sessions and agent status\<close>

definition session_list_timeout :: pty_error where
  "session_list_timeout = Timeout (ascii ''timed out waiting for the namespaced session list'')"

definition session_list_disconnected :: pty_error where
  "session_list_disconnected = Disconnected (ascii ''mult-server disconnected while listing sessions'')"

fun await_sessions :: "'p client_env \<Rightarrow> 'p service \<Rightarrow> state_namespace \<Rightarrow> nat \<Rightarrow> nat \<Rightarrow> 'p client
    \<Rightarrow> ((pty_error + session_info list) \<times> 'p client) option" where
  "await_sessions env svc namespace deadline 0 c = None"
| "await_sessions env svc namespace deadline (Suc n) c =
     (if deadline \<le> cl_now c then Some (Inl session_list_timeout, c)
      else case cl_connection c of
        None \<Rightarrow> Some (Inl session_list_disconnected, c)
      | Some cn \<Rightarrow>
          (case recv_deadline deadline cn c of
             (ReceivedNothing, c) \<Rightarrow> Some (Inl session_list_timeout, c)
           | (ReceivedClosed, c) \<Rightarrow> Some (Inl session_list_disconnected, disconnect_client c)
           | (ReceivedMessage m, c) \<Rightarrow>
               (case m of
                  SSessions received sessions \<Rightarrow>
                    if received = namespace then Some (Inr sessions, c)
                    else await_sessions env svc namespace deadline n c
                | _ \<Rightarrow> do {
                    c \<leftarrow> route_during_request env svc m c;
                    await_sessions env svc namespace deadline n c })))"

definition list_sessions :: "'p client_env \<Rightarrow> nat \<Rightarrow> state_namespace \<Rightarrow> 'p client
    \<Rightarrow> ((pty_error + session_info list) \<times> 'p client) option" where
  "list_sessions env n namespace c = do {
     (connected, c) \<leftarrow> ensure_connected (client_service env n) c;
     case connected of
       Inl e \<Rightarrow> Some (Inl e, c)
     | Inr _ \<Rightarrow>
         (case write_frame (CListSessions namespace) c of
            (Inl e, c) \<Rightarrow> Some (Inl e, c)
          | (Inr _, c) \<Rightarrow>
              await_sessions env (client_service env n) namespace (cl_now c + ATTACH_ACK_TIMEOUT) n c) }"

definition status_request :: "'p client_env \<Rightarrow> nat \<Rightarrow> (request_id \<Rightarrow> client_message) \<Rightarrow> (agent_status_outcome \<Rightarrow> pty_error + 'a)
    \<Rightarrow> 'p client \<Rightarrow> ((pty_error + 'a) \<times> 'p client) option" where
  "status_request env n frame answer c =
     (case allocate_request c of
        (Inl e, c) \<Rightarrow> Some (Inl e, c)
      | (Inr r, c) \<Rightarrow> do {
          (outcome, c) \<leftarrow> perform_agent_status env (client_service env n) r (frame r) n c;
          Some (case outcome of Inl e \<Rightarrow> Inl e | Inr outcome \<Rightarrow> answer outcome, finish_request r c) })"

fun update_answer :: "debug_forms \<Rightarrow> agent_status_outcome \<Rightarrow> pty_error + agent_status_record" where
  "update_answer dbg (ASUpdated record) = Inr record"
| "update_answer dbg (ASError e) = Inl (pty_agent_status_error dbg e)"
| "update_answer dbg (ASCurrent _) = Inl (protocol_order_error ''status update received a query response'')"

fun query_answer :: "debug_forms \<Rightarrow> agent_status_outcome \<Rightarrow> pty_error + agent_status_record option" where
  "query_answer dbg (ASCurrent record) = Inr record"
| "query_answer dbg (ASError e) = Inl (pty_agent_status_error dbg e)"
| "query_answer dbg (ASUpdated _) = Inl (protocol_order_error ''status query received an update response'')"

definition client_update_agent_status :: "'p client_env \<Rightarrow> nat \<Rightarrow> agent_status_record \<Rightarrow> 'p client
    \<Rightarrow> ((pty_error + agent_status_record) \<times> 'p client) option" where
  "client_update_agent_status env n status c =
     status_request env n (\<lambda>r. CUpdateAgentStatus r status) (update_answer (ce_debug env)) c"

definition get_agent_status :: "'p client_env \<Rightarrow> nat \<Rightarrow> agent_status_query \<Rightarrow> 'p client
    \<Rightarrow> ((pty_error + agent_status_record option) \<times> 'p client) option" where
  "get_agent_status env n query c =
     status_request env n (\<lambda>r. CGetAgentStatus r query) (query_answer (ce_debug env)) c"

section \<open>A frame\<close>

text \<open>The loop ends at the latest when its budget of messages is used up, which bounds its turns.\<close>

fun drain_loop :: "'p client_env \<Rightarrow> 'p service \<Rightarrow> nat \<Rightarrow> nat \<Rightarrow> pty_event list \<times> 'p client
    \<Rightarrow> (pty_event list \<times> 'p client) option" where
  "drain_loop env svc left output_bytes (events, c) =
     (case cl_connection c of
        None \<Rightarrow> Some (events, c)
      | Some cn \<Rightarrow>
          (case left of
             0 \<Rightarrow> Some (events, c\<lparr>cl_work_remaining := True\<rparr>)
           | Suc left \<Rightarrow>
               if MAX_SERVER_OUTPUT_BYTES_PER_DRAIN \<le> output_bytes then Some (events, c\<lparr>cl_work_remaining := True\<rparr>)
               else (case try_recv cn c of
                  (ReceivedMessage m, c) \<Rightarrow> do {
                    s \<leftarrow> handle_server_message env svc m (events, c);
                    drain_loop env svc left (output_bytes + server_message_output_bytes m) s }
                | (ReceivedNothing, c) \<Rightarrow> Some (events, c)
                | (ReceivedClosed, c) \<Rightarrow> Some (events, disconnect_client c))))"

definition drain_events :: "'p client_env \<Rightarrow> nat \<Rightarrow> 'p client \<Rightarrow> (pty_event list \<times> 'p client) option" where
  "drain_events env n c =
     (let events = cl_pending_events c;
          c = poll_connector (c\<lparr>cl_pending_events := [], cl_work_remaining := False\<rparr>);
          was_connected = (cl_connection c \<noteq> None) in do {
      (events, c) \<leftarrow> drain_loop env (client_service env n) MAX_SERVER_MESSAGES_PER_DRAIN 0 (events, c);
      let c = (if was_connected \<and> cl_connection c = None then reconnect_or_report c else c);
      let (reaped, c) = reap_pending_stops c;
      c \<leftarrow> client_service env n c;
      let c = retry_connection_if_due c;
      Some (events @ reaped @ cl_pending_events c, c\<lparr>cl_pending_events := []\<rparr>) })"

definition has_pending_work :: "'p client \<Rightarrow> bool" where
  "has_pending_work c \<longleftrightarrow> cl_work_remaining c \<or> cl_pending_reattach c \<noteq> []"

definition has_pending_stops :: "'p client \<Rightarrow> bool" where
  "has_pending_stops c \<longleftrightarrow> cl_pending_stops c \<noteq> []"

section \<open>The end of the runtime\<close>

fun detach_all :: "(pty_key \<times> 'p pty_pane) list \<Rightarrow> 'p client \<Rightarrow> 'p client" where
  "detach_all [] c = c"
| "detach_all ((_, e) # entries) c =
     (case (pp_attachment e, pp_lease e) of
        (Some pane, Some lease) \<Rightarrow> detach_all entries (snd (write_frame (CDetach pane lease) c))
      | _ \<Rightarrow> detach_all entries c)"

definition drop_client :: "'p client \<Rightarrow> 'p client" where
  "drop_client c = disconnect_client (if cl_connection c = None then c else detach_all (cl_panes c) c)"

end
