(* ===== verification/Pty_Invariant.thy ===== *)
theory Pty_Invariant
  imports Pty_Frames
begin

text \<open>
  The invariant of the client's pane table: the reverse index holds exactly the panes attached, each under
  the key its number encodes, so a message of the daemon reaches the pane it is about; a lease and the
  output expected next come and go together; what is kept of a program's output and of a typed line is
  bounded.
\<close>

section \<open>The invariant\<close>

definition durable_key :: "pty_key \<Rightarrow> bool" where
  "durable_key k \<longleftrightarrow> (case k of PtyTerminal t \<Rightarrow> terminal_id_raw t | PtyChatAgent c \<Rightarrow> chat_id_raw c) < RUNTIME_TERMINAL_ID_FLAG"

definition entry_ok :: "pty_key \<Rightarrow> 'p pty_pane \<Rightarrow> bool" where
  "entry_ok k e \<longleftrightarrow>
     (pp_attachment e = None \<or> pp_attachment e = Some (pane_for_key k) \<and> durable_key k) \<and>
     (pp_lease e = None \<longleftrightarrow> pp_expected_output e = None) \<and>
     (\<forall>d. pp_responder e = Some d \<longrightarrow> detector_ok d) \<and>
     (\<forall>t. pp_tracker e = Some t \<longrightarrow> tracker_ok t)"

definition client_ok :: "'p client \<Rightarrow> bool" where
  "client_ok c \<longleftrightarrow>
     (\<forall>k e. cl_pane k c = Some e \<longrightarrow> entry_ok k e) \<and>
     (\<forall>pane k. cl_pane_index c pane = Some k \<longleftrightarrow> attached_pane k c = Some pane)"

lemma wire_id_inject:
  assumes "durable_key a" "durable_key b" "wire_id a = wire_id b"
  shows "a = b"
proof -
  have flag: "bit RUNTIME_TERMINAL_ID_FLAG n \<longleftrightarrow> n = 63" for n
    unfolding RUNTIME_TERMINAL_ID_FLAG_def bit_push_bit_iff bit_1_iff by auto
  have low: "\<not> bit x 63" if "x < RUNTIME_TERMINAL_ID_FLAG" for x :: u64
  proof
    assume "bit x 63"
    then have "bit (unat x) 63" by (simp add: bit_unsigned_iff)
    then have "odd (unat x div 2 ^ 63)" by (simp add: bit_iff_odd)
    then have "2 ^ 63 \<le> unat x" by (metis div_less even_zero not_le)
    then show False using that by (simp add: word_less_nat_alt RUNTIME_TERMINAL_ID_FLAG_def)
  qed
  have chat: "x = y" if "x < RUNTIME_TERMINAL_ID_FLAG" "y < RUNTIME_TERMINAL_ID_FLAG"
    "or x RUNTIME_TERMINAL_ID_FLAG = or y RUNTIME_TERMINAL_ID_FLAG" for x y :: u64
  proof (rule bit_word_eqI)
    fix n
    have "bit (or x RUNTIME_TERMINAL_ID_FLAG) n = bit (or y RUNTIME_TERMINAL_ID_FLAG) n" using that(3) by simp
    then show "bit x n = bit y n" using low[OF that(1)] low[OF that(2)] by (cases "n = 63") (auto simp: bit_or_iff flag)
  qed
  have mixed: "x \<noteq> or y RUNTIME_TERMINAL_ID_FLAG" if "x < RUNTIME_TERMINAL_ID_FLAG" for x y :: u64
    using low[OF that] flag[of 63] by (metis bit_or_iff)
  obtain x where "a = PtyTerminal (TerminalId x) \<or> a = PtyChatAgent (ChatId x)"
    by (cases a; metis terminal_id.exhaust chat_id.exhaust)
  moreover obtain y where "b = PtyTerminal (TerminalId y) \<or> b = PtyChatAgent (ChatId y)"
    by (cases b; metis terminal_id.exhaust chat_id.exhaust)
  ultimately show ?thesis
    using assms chat[of x y] mixed[of x y] mixed[of y x] by (auto simp: durable_key_def)
qed

lemma pane_for_key_inject: "durable_key a \<Longrightarrow> durable_key b \<Longrightarrow> pane_for_key a = pane_for_key b \<Longrightarrow> a = b"
  using wire_id_inject by (simp add: pane_for_key_def)

section \<open>Keeping it\<close>

lemma client_ok_cong:
  "cl_panes c' = cl_panes c \<Longrightarrow> cl_pane_index c' = cl_pane_index c \<Longrightarrow> client_ok c' = client_ok c"
  by (simp add: client_ok_def cl_pane_def attached_pane_def)

lemma cl_pane_put: "cl_pane k' (put_pane k e c) = (if k' = k then Some e else cl_pane k' c)"
  by (simp add: cl_pane_def put_pane_def update_conv')

lemma cl_pane_index_put [simp]: "cl_pane_index (put_pane k e c) = cl_pane_index c"
  by (simp add: put_pane_def)

lemma entry_ok_default: "entry_ok k pty_pane_default"
  by (simp add: entry_ok_def pty_pane_default_def)

lemma pane_entry_ok: "client_ok c \<Longrightarrow> entry_ok k (pane_entry k c)"
  by (auto simp: pane_entry_def client_ok_def entry_ok_default split: option.split)

lemma client_ok_update:
  assumes "client_ok c" "entry_ok k (pane_entry k c) \<Longrightarrow> entry_ok k (f (pane_entry k c))"
    "pp_attachment (f (pane_entry k c)) = pp_attachment (pane_entry k c)"
  shows "client_ok (update_entry k f c)"
proof -
  have "attached_pane k c = pp_attachment (pane_entry k c)"
    by (auto simp: attached_pane_def pane_entry_def pty_pane_default_def split: option.split)
  then have "attached_pane k' (update_entry k f c) = attached_pane k' c" for k'
    using assms(3) by (simp add: attached_pane_def update_entry_def cl_pane_put)
  then show ?thesis
    using assms(1,2) pane_entry_ok[OF assms(1)] by (simp add: client_ok_def update_entry_def cl_pane_put)
qed

lemma clear_attachment_ok:
  assumes "client_ok c" "clear_attachment pane c = (k, c')"
  shows "client_ok c'"
proof (cases "cl_pane_index c pane")
  case None
  then show ?thesis using assms by (simp add: clear_attachment_def)
next
  case (Some k')
  then have a: "attached_pane k' c = Some pane" using assms(1) by (simp add: client_ok_def)
  then obtain e where e: "cl_pane k' c = Some e" "pp_attachment e = Some pane"
    by (auto simp: attached_pane_def bind_eq_Some_conv)
  let ?e = "e\<lparr>pp_attachment := None, pp_lease := None, pp_expected_output := None\<rparr>"
  have c': "c' = put_pane k' ?e (c\<lparr>cl_pane_index := (cl_pane_index c)(pane := None)\<rparr>)"
    using assms(2) Some e by (auto simp: clear_attachment_def cl_pane_def Let_def)
  have "entry_ok k' ?e" using assms(1) e(1) by (auto simp: client_ok_def entry_ok_def)
  moreover have panes: "cl_pane k c' = (if k = k' then Some ?e else cl_pane k c)" for k
    by (simp add: c' cl_pane_put) (simp add: cl_pane_def)
  moreover have "cl_pane_index c' = (cl_pane_index c)(pane := None)" by (simp add: c')
  moreover have "attached_pane k c \<noteq> Some pane" if "k \<noteq> k'" for k
    using assms(1) Some that by (metis client_ok_def option.inject)
  ultimately show ?thesis using assms(1) e by (auto simp: client_ok_def attached_pane_def)
qed

lemma attached_pane_ok:
  assumes "client_ok c" "attached_pane k c = Some pane"
  shows "pane = pane_for_key k \<and> durable_key k"
proof -
  obtain e where e: "cl_pane k c = Some e" "pp_attachment e = Some pane"
    using assms(2) by (auto simp: attached_pane_def bind_eq_Some_conv)
  have "entry_ok k e" using assms(1) e(1) by (simp add: client_ok_def)
  then show ?thesis using e(2) by (auto simp: entry_ok_def)
qed

lemma bind_pane_ok: "client_ok c \<Longrightarrow> durable_key k \<Longrightarrow> client_ok (bind_pane k (pane_for_key k) c)"
proof -
  assume ok: "client_ok c" and k: "durable_key k"
  let ?e = "(pane_entry k c)\<lparr>pp_attachment := Some (pane_for_key k)\<rparr>"
  have entry: "entry_ok k ?e" using pane_entry_ok[OF ok, of k] k by (simp add: entry_ok_def)
  have panes: "cl_pane k' (bind_pane k (pane_for_key k) c) = (if k' = k then Some ?e else cl_pane k' c)" for k'
    by (simp add: bind_pane_def update_entry_def Let_def put_pane_def cl_pane_def update_conv')
  have index: "cl_pane_index (bind_pane k (pane_for_key k) c) = (cl_pane_index c)(pane_for_key k \<mapsto> k)"
    by (simp add: bind_pane_def update_entry_def Let_def)
  have other: "pane \<noteq> pane_for_key k" if att: "attached_pane k' c = Some pane" "k' \<noteq> k" for k' pane
    using attached_pane_ok[OF ok att(1)] att(2) pane_for_key_inject k by blast
  have own: "pane = pane_for_key k" if "attached_pane k c = Some pane" for pane
    using attached_pane_ok[OF ok] that by blast
  show ?thesis
    unfolding client_ok_def
  proof (intro conjI allI impI)
    show "entry_ok k' e" if "cl_pane k' (bind_pane k (pane_for_key k) c) = Some e" for k' e
      using that entry ok by (auto simp: panes client_ok_def split: if_splits)
    show "cl_pane_index (bind_pane k (pane_for_key k) c) pane = Some k'
        \<longleftrightarrow> attached_pane k' (bind_pane k (pane_for_key k) c) = Some pane" for pane k'
      using ok other[of k' pane] own[of pane] unfolding index attached_pane_def panes client_ok_def
      by (auto simp: attached_pane_def)
  qed
qed

lemma client_remove_terminal_ok: "client_ok c \<Longrightarrow> client_ok (cl_remove_terminal k c)"
proof -
  assume ok: "client_ok c"
  have panes: "cl_pane k' (cl_remove_terminal k c) = (if k' = k then None else cl_pane k' c)" for k'
    by (auto simp: cl_remove_terminal_def cl_pane_def delete_conv' Let_def split: option.split)
  have index: "cl_pane_index (cl_remove_terminal k c)
      = (case attached_pane k c of None \<Rightarrow> cl_pane_index c | Some pane \<Rightarrow> (cl_pane_index c)(pane := None))"
    by (auto simp: cl_remove_terminal_def attached_pane_def Let_def split: option.split)
  have index_iff: "cl_pane_index c pane = Some k' \<longleftrightarrow> attached_pane k' c = Some pane" for pane k'
    using ok by (simp add: client_ok_def)
  have "cl_pane_index (cl_remove_terminal k c) pane = Some k' \<longleftrightarrow> attached_pane k' (cl_remove_terminal k c) = Some pane"
    for pane k'
    using index_iff[of pane k'] index_iff[of pane k] by (auto simp: index attached_pane_def panes split: option.splits)
  then show ?thesis using ok by (simp add: client_ok_def panes)
qed


section \<open>Operations that do not wait\<close>

text \<open>A function that leaves the fields of the attachment and the scanners of an entry alone.\<close>

definition entry_keeps :: "('p pty_pane \<Rightarrow> 'p pty_pane) \<Rightarrow> bool" where
  "entry_keeps f \<longleftrightarrow> (\<forall>k e. entry_ok k e \<longrightarrow> entry_ok k (f e) \<and> pp_attachment (f e) = pp_attachment e)"

lemma update_ok: "client_ok c \<Longrightarrow> entry_keeps f \<Longrightarrow> client_ok (update_entry k f c)"
  using pane_entry_ok[of c k] by (intro client_ok_update) (auto simp: entry_keeps_def)

lemma entry_keeps_plain [simp]:
  "entry_keeps (\<lambda>e. e\<lparr>pp_parser := p\<rparr>)" "entry_keeps (\<lambda>e. e\<lparr>pp_identity := i\<rparr>)"
  "entry_keeps (\<lambda>e. e\<lparr>pp_agent := a\<rparr>)" "entry_keeps (\<lambda>e. e\<lparr>pp_exit_status := x\<rparr>)"
  "entry_keeps (\<lambda>e. e\<lparr>pp_foreground := f\<rparr>)"
  "entry_keeps (\<lambda>e. e\<lparr>pp_foreground := f, pp_tracker := None\<rparr>)"
  "entry_keeps (\<lambda>e. e\<lparr>pp_parser := p, pp_responder := None, pp_saw_output := b, pp_exit_status := x\<rparr>)"
  "entry_keeps (\<lambda>e. e\<lparr>pp_lease := None, pp_expected_output := None\<rparr>)"
  "entry_keeps (\<lambda>e. e\<lparr>pp_lease := Some l, pp_expected_output := Some s\<rparr>)"
  "entry_keeps (\<lambda>e. e\<lparr>pp_parser := g e\<rparr>)"
  by (auto simp: entry_keeps_def entry_ok_def)

lemma tracker_ok_default: "tracker_ok command_tracker_default"
  by (simp add: tracker_ok_def command_tracker_default_def)

lemma entry_keeps_tracker:
  assumes "\<And>t. tracker_ok t \<Longrightarrow> tracker_ok (f t)"
  shows "entry_keeps (\<lambda>e. e\<lparr>pp_tracker := Some (f (case pp_tracker e of Some t \<Rightarrow> t | None \<Rightarrow> command_tracker_default))\<rparr>)"
proof -
  have "tracker_ok (f (case t of Some t \<Rightarrow> t | None \<Rightarrow> command_tracker_default))" if "\<forall>t'. t = Some t' \<longrightarrow> tracker_ok t'" for t
    using that assms tracker_ok_default by (cases t) simp_all
  then show ?thesis by (auto simp: entry_keeps_def entry_ok_def)
qed

lemma tracker_ok_steps: "tracker_ok t \<Longrightarrow> tracker_ok (discard_input t)" "tracker_ok t \<Longrightarrow> tracker_ok (record_process_command s t)"
  by (auto simp: tracker_ok_def discard_input_def record_process_command_def)

lemma detector_ok_default: "detector_ok response_detector_default"
  by (simp add: detector_ok_def response_detector_default_def)

lemma scan_sequence_ok: "detector_ok d \<Longrightarrow> scan_sequence bs q d = (used, q', d', rest) \<Longrightarrow> detector_ok d'"
proof (induction bs arbitrary: q d used)
  case (Cons b bs)
  have "detector_ok (snd (advance b d))" by (rule advance_ok) (rule Cons.prems)
  then show ?case using Cons by (auto simp: Let_def split: prod.splits if_splits)
qed simp

lemma feed_from_ok: "detector_ok d \<Longrightarrow> feed_from process cursor bs (p, d, a) = (p', d', a') \<Longrightarrow> detector_ok d'"
proof (induction process cursor bs "(p, d, a)" arbitrary: p d a rule: feed_from.induct)
  case (1 process cursor bs p d a)
  define run where "run = takeWhile (\<lambda>b. b \<noteq> 0x1b) bs"
  obtain used query d1 rest where scan: "scan_sequence bs None d = (used, query, d1, rest)"
    by (cases "scan_sequence bs None d") auto
  show ?case
    using 1 scan scan_sequence_ok[OF 1(3) scan]
    by (simp add: feed_from.simps[of process cursor bs p d a] Let_def split: if_splits)
qed

lemma feed_entry_fields:
  "pp_attachment (snd (feed_entry env bs e)) = pp_attachment e" "pp_lease (snd (feed_entry env bs e)) = pp_lease e"
  "pp_expected_output (snd (feed_entry env bs e)) = pp_expected_output e"
  "pp_tracker (snd (feed_entry env bs e)) = pp_tracker e"
  by (simp_all add: feed_entry_def Let_def split: prod.split)

lemma feed_entry_detector:
  assumes "\<forall>d. pp_responder e = Some d \<longrightarrow> detector_ok d" "pp_responder (snd (feed_entry env bs e)) = Some d"
  shows "detector_ok d"
proof -
  let ?d = "case pp_responder e of Some d \<Rightarrow> d | None \<Rightarrow> response_detector_default"
  have ok: "detector_ok ?d" using assms(1) detector_ok_default by (cases "pp_responder e") simp_all
  define run where "run = feed_from (em_process (ce_emulator env)) (\<lambda>p. sc_cursor (parser_screen env p)) bs
     ((case pp_parser e of Some p \<Rightarrow> p | None \<Rightarrow> new_parser env 24 80), ?d, no_answers)"
  obtain p' d' a' where r: "run = (p', d', a')" by (cases run) auto
  then have "detector_ok d'" unfolding run_def by (rule feed_from_ok[OF ok])
  moreover have "pp_responder (snd (feed_entry env bs e)) = Some d'"
    using r unfolding run_def by (simp add: feed_entry_def feed_parser_with_responder_def Let_def)
  ultimately show ?thesis using assms(2) by simp
qed

lemma entry_keeps_feed: "entry_keeps (\<lambda>e. snd (feed_entry env bs e))"
  unfolding entry_keeps_def entry_ok_def feed_entry_fields using feed_entry_detector by blast

lemma resize_parser_ok: "client_ok c \<Longrightarrow> client_ok (resize_parser env k dims c)"
  by (simp add: resize_parser_def Let_def update_ok)

lemma reset_parser_ok: "client_ok c \<Longrightarrow> client_ok (reset_parser env k dims c)"
  by (simp add: reset_parser_def Let_def update_ok)

lemma process_terminal_output_ok: "client_ok c \<Longrightarrow> client_ok (process_terminal_output env k bs c)"
  by (simp add: process_terminal_output_def update_ok entry_keeps_feed)

lemma update_tracker_ok:
  "client_ok c \<Longrightarrow> (\<And>t. tracker_ok t \<Longrightarrow> tracker_ok (f t)) \<Longrightarrow> client_ok (update_tracker k f c)"
  by (simp add: update_tracker_def update_ok entry_keeps_tracker)


section \<open>Pure operations\<close>

lemma client_ok_fields [simp]:
  "client_ok (c\<lparr>cl_now := t\<rparr>) = client_ok c" "client_ok (c\<lparr>cl_network := n\<rparr>) = client_ok c"
  "client_ok (c\<lparr>cl_attempts := a\<rparr>) = client_ok c" "client_ok (c\<lparr>cl_sent := s\<rparr>) = client_ok c"
  "client_ok (c\<lparr>cl_connection := cn\<rparr>) = client_ok c" "client_ok (c\<lparr>cl_pending_events := e\<rparr>) = client_ok c"
  "client_ok (c\<lparr>cl_client_scope := sc\<rparr>) = client_ok c" "client_ok (c\<lparr>cl_server_instance := si\<rparr>) = client_ok c"
  "client_ok (c\<lparr>cl_next_request_id := r\<rparr>) = client_ok c" "client_ok (c\<lparr>cl_pending_requests := rs\<rparr>) = client_ok c"
  "client_ok (c\<lparr>cl_pending_stops := st\<rparr>) = client_ok c" "client_ok (c\<lparr>cl_deferred := d\<rparr>) = client_ok c"
  "client_ok (c\<lparr>cl_host_writes := w\<rparr>) = client_ok c" "client_ok (c\<lparr>cl_starting := k\<rparr>) = client_ok c"
  "client_ok (c\<lparr>cl_pending_reattach := q\<rparr>) = client_ok c" "client_ok (c\<lparr>cl_pending_connect := p\<rparr>) = client_ok c"
  "client_ok (c\<lparr>cl_retry_not_before := x\<rparr>) = client_ok c" "client_ok (c\<lparr>cl_retry_backoff := y\<rparr>) = client_ok c"
  "client_ok (c\<lparr>cl_disconnect_reported := b\<rparr>) = client_ok c" "client_ok (c\<lparr>cl_work_remaining := b\<rparr>) = client_ok c"
  "client_ok (c\<lparr>cl_focused := k\<rparr>) = client_ok c"
  by (simp_all add: client_ok_def cl_pane_def attached_pane_def)

lemma client_ok_plain [simp]:
  "client_ok (push_event e c) = client_ok c" "client_ok (drop_deferred r c) = client_ok c"
  "client_ok (finish_request r c) = client_ok c" "client_ok (report_disconnect reason c) = client_ok c"
  "client_ok (queue_host_terminal_write bs c) = client_ok c" "client_ok (reset_retry_backoff c) = client_ok c"
  "client_ok (advance_retry_backoff c) = client_ok c" "client_ok (enqueue_reattachments c) = client_ok c"
  "client_ok (unqueue_reattachment k c) = client_ok c" "client_ok (defer_message m c) = client_ok c"
  by (simp_all add: push_event_def drop_deferred_def finish_request_def report_disconnect_def
      queue_host_terminal_write_def reset_retry_backoff_def advance_retry_backoff_def enqueue_reattachments_def
      unqueue_reattachment_def defer_message_def Let_def)

lemma client_ok_fold_deferred: "client_ok (fold (\<lambda>stop. drop_deferred (st_request_id stop)) stops c) = client_ok c"
  by (induction stops arbitrary: c) simp_all

lemma client_ok_connection [simp]:
  "client_ok (disconnect_client c) = client_ok c" "client_ok (start_connector spawn c) = client_ok c"
  "client_ok (reconnect_or_report c) = client_ok c" "client_ok (retry_connection_if_due c) = client_ok c"
  by (simp_all add: disconnect_client_def client_ok_fold_deferred start_connector_def take_attempt_def
      reconnect_or_report_def retry_connection_if_due_def Let_def split: list.split prod.split)

lemma forget_attachments_ok: "client_ok c \<Longrightarrow> client_ok (forget_attachments c)"
proof -
  assume ok: "client_ok c"
  have "map_of (map (\<lambda>(k, e). (k, e\<lparr>pp_lease := None, pp_expected_output := None\<rparr>)) panes) k
      = map_option (\<lambda>e. e\<lparr>pp_lease := None, pp_expected_output := None\<rparr>) (map_of panes k)"
    for panes :: "(pty_key \<times> 'a pty_pane) list" and k
    by (induction panes) auto
  then have panes: "cl_pane k (forget_attachments c)
      = map_option (\<lambda>e. e\<lparr>pp_lease := None, pp_expected_output := None\<rparr>) (cl_pane k c)" for k
    by (simp add: forget_attachments_def cl_pane_def)
  have index: "cl_pane_index (forget_attachments c) = cl_pane_index c" by (simp add: forget_attachments_def)
  have "attached_pane k (forget_attachments c) = attached_pane k c" for k
    by (simp add: attached_pane_def panes) (cases "cl_pane k c"; simp)
  moreover have "entry_ok k (e\<lparr>pp_lease := None, pp_expected_output := None\<rparr>)" if "entry_ok k e" for k and e :: "'a pty_pane"
    using that by (simp add: entry_ok_def)
  ultimately show ?thesis using ok by (auto simp: client_ok_def panes index)
qed

text \<open>The operations that return a result with the client.\<close>

lemma client_ok_results:
  "clear_attachment pane c = (k, c') \<Longrightarrow> client_ok c \<Longrightarrow> client_ok c'"
  "next_request c = (r, c') \<Longrightarrow> client_ok c \<Longrightarrow> client_ok c'"
  "allocate_request c = (r, c') \<Longrightarrow> client_ok c \<Longrightarrow> client_ok c'"
  "allocate_stop_request c = (r, c') \<Longrightarrow> client_ok c \<Longrightarrow> client_ok c'"
  "reap_pending_stops c = (events, c') \<Longrightarrow> client_ok c \<Longrightarrow> client_ok c'"
  "install_connection established resume c = (b, c') \<Longrightarrow> client_ok c \<Longrightarrow> client_ok c'"
  "take_attempt spawn c = (attempt, c') \<Longrightarrow> client_ok c \<Longrightarrow> client_ok c'"
  "write_frame m c = (x, c') \<Longrightarrow> client_ok c \<Longrightarrow> client_ok c'"
  "write_non_replayable m operation pane c = (x, c') \<Longrightarrow> client_ok c \<Longrightarrow> client_ok c'"
  "recv_deadline deadline cn c = (rec, c') \<Longrightarrow> client_ok c \<Longrightarrow> client_ok c'"
  "try_recv cn c = (rec, c') \<Longrightarrow> client_ok c \<Longrightarrow> client_ok c'"
  subgoal by (rule clear_attachment_ok)
  subgoal by (auto simp: next_request_def split: option.splits)
  subgoal by (auto simp: allocate_request_def next_request_def split: option.splits if_splits)
  subgoal by (auto simp: allocate_stop_request_def next_request_def split: option.splits if_splits)
  subgoal by (auto simp: reap_pending_stops_def split: prod.splits)
  subgoal by (auto simp: install_connection_def Let_def forget_attachments_ok split: if_splits)
  subgoal by (auto simp: take_attempt_def Let_def split: list.splits)
  subgoal by (auto simp: write_frame_def Let_def split: option.splits prod.splits write_result.splits)
  subgoal by (auto simp: write_non_replayable_def Let_def split: option.splits prod.splits sum.splits if_splits)
  subgoal by (auto simp: recv_deadline_def Let_def split: list.splits prod.splits net_event.splits if_splits)
  subgoal by (auto simp: try_recv_def Let_def split: list.splits prod.splits net_event.splits if_splits)
  done

lemma clear_attachment_snd: "client_ok c \<Longrightarrow> client_ok (snd (clear_attachment pane c))"
  using clear_attachment_ok by (metis prod.collapse)

lemma connect_inner_ok: "connect_inner spawn c = (r, c') \<Longrightarrow> client_ok c \<Longrightarrow> client_ok c'"
  by (auto simp: connect_inner_def Let_def dest!: client_ok_results split: prod.splits connect_outcome.splits)

lemma resume_and_resend_ok: "resume_and_resend m c = (r, c') \<Longrightarrow> client_ok c \<Longrightarrow> client_ok c'"
  by (auto simp: resume_and_resend_def Let_def split: prod.splits sum.splits if_splits
      dest!: connect_inner_ok dest: client_ok_results)

lemma poll_connector_ok: "client_ok c \<Longrightarrow> client_ok (poll_connector c)"
  by (auto simp: poll_connector_def Let_def split: option.split connect_outcome.split)
    (metis client_ok_results(6) prod.collapse client_ok_fields(16))

lemma receive_loop_ok: "receive_loop r deadline c = (x, c') \<Longrightarrow> client_ok c \<Longrightarrow> client_ok c'"
proof (induction r deadline c arbitrary: x c' rule: receive_loop.induct)
  case (1 r deadline c)
  show ?case
  proof (cases "cl_connection c")
    case None
    then show ?thesis using 1 by (auto simp: receive_loop.simps[of r deadline c] split: if_splits)
  next
    case (Some cn)
    obtain rec c1 where recv: "recv_deadline deadline cn c = (rec, c1)" by (cases "recv_deadline deadline cn c")
    then have "client_ok c1" using 1(3) by (rule client_ok_results(10))
    then show ?thesis
      using 1 Some recv by (auto simp: receive_loop.simps[of r deadline c] split: if_splits received.splits)
  qed
qed

lemma receive_for_request_ok: "receive_for_request r deadline c = (x, c') \<Longrightarrow> client_ok c \<Longrightarrow> client_ok c'"
  by (auto simp: receive_for_request_def split: option.splits prod.splits dest: receive_loop_ok)

section \<open>Operations that wait\<close>

definition service_ok :: "'p service \<Rightarrow> bool" where
  "service_ok svc \<longleftrightarrow> (\<forall>c c'. svc c = Some c' \<longrightarrow> client_ok c \<longrightarrow> client_ok c')"

lemma service_okD: "svc c = Some c' \<Longrightarrow> service_ok svc \<Longrightarrow> client_ok c \<Longrightarrow> client_ok c'"
  by (simp add: service_ok_def)

lemma ensure_connected_ok:
  "ensure_connected svc c = Some (r, c') \<Longrightarrow> service_ok svc \<Longrightarrow> client_ok c \<Longrightarrow> client_ok c'"
  by (auto simp: ensure_connected_def Let_def bind_eq_Some_conv poll_connector_ok split: if_splits dest: service_okD)

lemma note_user_input_ok: "client_ok c \<Longrightarrow> client_ok (note_user_input env k bs c)"
  by (auto simp: note_user_input_def track_shell_input_def Let_def update_ok record_input_ok tracker_ok_steps
      intro!: update_tracker_ok split: option.split)

lemma record_foreground_ok: "client_ok c \<Longrightarrow> client_ok (record_foreground_process k process c)"
  by (auto simp: record_foreground_process_def Let_def tracker_ok_steps
      intro!: update_tracker_ok update_ok split: option.split)

lemma send_leased_ok:
  "send_leased svc pane frame operation c = Some (r, c') \<Longrightarrow> service_ok svc \<Longrightarrow> client_ok c \<Longrightarrow> client_ok c'"
  apply (clarsimp simp: send_leased_def bind_eq_Some_conv)
  subgoal for connected c1
    by (cases connected) (auto split: sum.splits dest: ensure_connected_ok client_ok_results(9))
  done

lemma send_input_inner_ok:
  "send_input_inner env svc k pane bs origin c = Some (r, c') \<Longrightarrow> service_ok svc \<Longrightarrow> client_ok c \<Longrightarrow> client_ok c'"
  by (auto simp: send_input_inner_def note_user_input_ok dest: send_leased_ok split: if_splits)

lemma feed_terminal_output_ok:
  "feed_terminal_output env svc k bs c = Some c' \<Longrightarrow> service_ok svc \<Longrightarrow> client_ok c \<Longrightarrow> client_ok c'"
  by (auto simp: feed_terminal_output_def Let_def process_terminal_output_ok split: if_splits option.splits
      dest: send_input_inner_ok)

lemma unreconciled_ok:
  "mark_attachment_unreconciled pane message (events, c) = (events', c') \<Longrightarrow> client_ok c \<Longrightarrow> client_ok c'"
  by (auto simp: mark_attachment_unreconciled_def update_ok split: option.splits)

lemma handle_pty_output_ok:
  assumes "handle_pty_output env svc pane lease sq bs (events, c) = Some (events', c')" "service_ok svc" "client_ok c"
  shows "client_ok c'"
proof (cases "key_for_pane pane c")
  case None
  then show ?thesis using assms
    by (auto simp: handle_pty_output_def expected_output_of_def split: if_splits option.splits)
next
  case (Some k)
  show ?thesis
  proof (cases "expected_output_of pane c")
    case None
    then show ?thesis using assms Some by (auto simp: handle_pty_output_def split: if_splits)
  next
    case (Some expected)
    then obtain e where e: "cl_pane k c = Some e" "pp_expected_output e = Some expected"
      using \<open>key_for_pane pane c = Some k\<close> by (auto simp: expected_output_of_def bind_eq_Some_conv)
    have "client_ok (update_entry k (\<lambda>e. e\<lparr>pp_expected_output := Some s\<rparr>) c)" for s
      using e assms(3) by (intro client_ok_update) (auto simp: pane_entry_def entry_ok_def)
    then show ?thesis
      using assms Some \<open>key_for_pane pane c = Some k\<close>
      by (auto simp: handle_pty_output_def bind_eq_Some_conv split: if_splits option.splits
          dest: feed_terminal_output_ok unreconciled_ok)
  qed
qed

lemma handle_server_message_ok:
  assumes "handle_server_message env svc m (events, c) = Some (events', c')" "service_ok svc" "client_ok c"
  shows "client_ok c'"
proof (cases m)
  case (SPtyOutput pane lease sq bs)
  then show ?thesis using assms by (auto dest: handle_pty_output_ok)
qed (use assms in \<open>auto simp: record_foreground_ok update_ok Let_def split: if_splits option.splits prod.splits
      dest: clear_attachment_ok\<close>)

lemma route_during_request_ok:
  "route_during_request env svc m c = Some c' \<Longrightarrow> service_ok svc \<Longrightarrow> client_ok c \<Longrightarrow> client_ok c'"
  by (auto simp: route_during_request_def bind_eq_Some_conv dest: handle_server_message_ok)

lemma write_idempotent_request_ok:
  "write_idempotent_request svc m c = Some (r, c') \<Longrightarrow> service_ok svc \<Longrightarrow> client_ok c \<Longrightarrow> client_ok c'"
  apply (clarsimp simp: write_idempotent_request_def bind_eq_Some_conv)
  subgoal for connected c1
    by (cases connected) (auto split: sum.splits prod.splits if_splits
        dest: ensure_connected_ok client_ok_results(8) resume_and_resend_ok)
  done

lemma await_answer_ok:
  "await_answer env svc turn r request deadline n c = Some (x, c') \<Longrightarrow> service_ok svc \<Longrightarrow> client_ok c \<Longrightarrow> client_ok c'"
proof (induction n arbitrary: c)
  case (Suc n)
  obtain y c1 where received: "receive_for_request r deadline c = (y, c1)" by (cases "receive_for_request r deadline c")
  then have ok: "client_ok c1" using Suc.prems(3) by (rule receive_for_request_ok)
  show ?case
  proof (cases y)
    case (Inl e)
    then show ?thesis
      using Suc.prems received ok
      by (auto split: if_splits prod.splits sum.splits dest: resume_and_resend_ok
          intro: Suc.IH[OF _ Suc.prems(2)])
  next
    case (Inr m)
    then show ?thesis
      using Suc.prems received ok
      by (auto simp: bind_eq_Some_conv split: option.splits dest: route_during_request_ok
          intro: Suc.IH[OF _ Suc.prems(2)])
  qed
qed simp

lemma perform_request_ok:
  "perform_request env svc turn r request n c = Some (x, c') \<Longrightarrow> service_ok svc \<Longrightarrow> client_ok c \<Longrightarrow> client_ok c'"
  apply (clarsimp simp: perform_request_def bind_eq_Some_conv)
  subgoal for written c1
    by (cases written) (auto dest: write_idempotent_request_ok await_answer_ok)
  done

lemma restart_attach_ok: "client_ok c \<Longrightarrow> client_ok (restart_attach env k dims c)"
  by (simp add: restart_attach_def update_ok reset_parser_ok)

lemma commit_replay_ok: "client_ok c \<Longrightarrow> client_ok (commit_replay env k lease watermark rp c)"
  by (simp add: commit_replay_def Let_def update_ok process_terminal_output_ok)

lemma attach_loop_ok:
  "attach_loop env svc k session dims r request n deadline rp c = Some (x, c') \<Longrightarrow> service_ok svc \<Longrightarrow> client_ok c
    \<Longrightarrow> client_ok c'"
proof (induction n arbitrary: deadline rp c)
  case (Suc n)
  obtain y c1 where received: "receive_for_request r deadline c = (y, c1)" by (cases "receive_for_request r deadline c")
  then have ok: "client_ok c1" using Suc.prems(3) by (rule receive_for_request_ok)
  note IH = Suc.IH[OF _ Suc.prems(2)]
  show ?case
  proof (cases y)
    case (Inl e)
    then show ?thesis
      using Suc.prems received ok
      by (auto split: if_splits prod.splits sum.splits dest: resume_and_resend_ok intro: IH restart_attach_ok)
  next
    case (Inr m)
    then show ?thesis
      using Suc.prems received ok
      by (auto simp: bind_eq_Some_conv Let_def commit_replay_ok split: attach_turn.splits dest: route_during_request_ok
          intro: IH resize_parser_ok)
  qed
qed simp

lemma perform_attach_ok:
  "perform_attach env svc k session dims r request n c = Some (x, c') \<Longrightarrow> service_ok svc \<Longrightarrow> client_ok c \<Longrightarrow> client_ok c'"
  apply (clarsimp simp: perform_attach_def bind_eq_Some_conv)
  subgoal for written c1
    by (cases written) (auto dest!: write_idempotent_request_ok dest: attach_loop_ok)
  done

lemma reattach_result_ok: "reattach_result k result c = (b, c') \<Longrightarrow> client_ok c \<Longrightarrow> client_ok c'"
  by (auto simp: reattach_result_def Let_def update_ok clear_attachment_snd split: sum.splits if_splits)

lemma reattach_terminal_ok:
  assumes "reattach_terminal env svc n k c = Some (b, c')" "service_ok svc" "client_ok c"
  shows "client_ok c'"
proof -
  obtain a c1 where allocated: "allocate_request (reset_parser env k (parser_dimensions env k c) c) = (a, c1)"
    by (cases "allocate_request (reset_parser env k (parser_dimensions env k c) c)")
  then have "client_ok c1" by (rule client_ok_results(3)) (simp add: assms(3) reset_parser_ok)
  then show ?thesis
    using assms allocated by (auto simp: reattach_terminal_def Let_def bind_eq_Some_conv reset_parser_ok split: sum.splits
        dest!: perform_attach_ok reattach_result_ok)
qed

lemma reattach_loop_ok:
  "reattach_loop env svc n started turns c = Some c' \<Longrightarrow> service_ok svc \<Longrightarrow> client_ok c \<Longrightarrow> client_ok c'"
proof (induction turns arbitrary: env c)
  case (Suc turns)
  note IH = Suc.IH[OF _ Suc.prems(2)]
  show ?case
    using Suc.prems by (auto simp: bind_eq_Some_conv Let_def split: if_splits list.splits
        dest!: reattach_terminal_ok intro: IH)
qed simp

lemma client_service_ok: "service_ok (client_service env n)"
proof (induction n)
  case 0
  show ?case by (simp add: service_ok_def)
next
  case (Suc n)
  have "client_ok c'" if "client_service env (Suc n) c = Some c'" "client_ok c" for c c'
    using that Suc by (auto simp: service_reattachments_def split: if_splits dest: reattach_loop_ok)
  then show ?case unfolding service_ok_def by blast
qed

section \<open>The operations of the runtime\<close>

lemma not_Inr_unit: "x \<noteq> Inr () \<longleftrightarrow> (\<exists>e. x = Inl e)"
  by (cases x) auto

lemmas waits_ok [dest] =
  ensure_connected_ok[OF _ client_service_ok] send_leased_ok[OF _ client_service_ok]
  send_input_inner_ok[OF _ client_service_ok] write_idempotent_request_ok[OF _ client_service_ok]
  route_during_request_ok[OF _ client_service_ok] perform_request_ok[OF _ client_service_ok]
  perform_attach_ok[OF _ client_service_ok] service_okD[OF _ client_service_ok]

lemma settle_attachment_ok: "client_ok c \<Longrightarrow> client_ok (settle_attachment k result c)"
  by (simp add: settle_attachment_def clear_attachment_snd split: sum.split)

lemma forget_program_ok: "client_ok c \<Longrightarrow> client_ok (forget_program k c)"
  by (simp add: forget_program_def update_ok)

lemma attach_existing_ok:
  assumes "attach_existing env n k dims c = Some (r, c')" "durable_key k" "client_ok c"
  shows "client_ok c'"
proof (cases "is_running k c")
  case True
  then show ?thesis using assms by (simp add: attach_existing_def Let_def)
next
  case False
  then obtain connected c1 where c1: "ensure_connected (client_service env n) c = Some (connected, c1)"
    using assms(1) by (auto simp: attach_existing_def Let_def bind_eq_Some_conv)
  then have ok1: "client_ok c1" using assms(3) by blast
  define c2 where "c2 = bind_pane k (pane_for_key k) (forget_program k (reset_parser env k (dim_clamped dims) c1))"
  then have ok2: "client_ok c2" using ok1 assms(2) by (simp add: bind_pane_ok forget_program_ok reset_parser_ok)
  obtain a c3 where a: "allocate_request c2 = (a, c3)" by (cases "allocate_request c2")
  then have ok3: "client_ok c3" using ok2 by (rule client_ok_results(3))
  note run = assms(1)[unfolded attach_existing_def Let_def, simplified False if_False c1 Option.bind.bind_lunit prod.case]
  show ?thesis
  proof (cases connected)
    case (Inl e)
    then show ?thesis using run ok1 by simp
  next
    case connected': (Inr u)
    show ?thesis
    proof (cases "identity_for_key k c1")
      case (Inl e)
      then show ?thesis using run connected' ok1 by simp
    next
      case identity: (Inr identity)
      show ?thesis
      proof (cases a)
        case (Inl e)
        then show ?thesis
          using run connected' identity ok1 ok3 a by (simp add: c2_def[symmetric] split: if_splits)
      next
        case (Inr req)
        show ?thesis
        proof (cases "is_running k c1")
          case True
          then show ?thesis using run connected' identity ok1 by simp
        next
          case False
          then obtain result c4 where "perform_attach env (client_service env n) k (session_for_key k) (dim_clamped dims) req
              (attach_frame k identity (dim_clamped dims) req) n c3 = Some (result, c4)"
            "(r, c') = (case result of Inr _ \<Rightarrow> (Inr AttachedExisting, finish_request req c4)
               | Inl e \<Rightarrow> if pty_error_code e = Some UnknownSession
                   then (Inr MissingSession, snd (clear_attachment (pane_for_key k) (finish_request req c4)))
                   else (Inl e, settle_attachment k result (finish_request req c4)))"
            using run connected' identity Inr a by (auto simp: c2_def[symmetric] bind_eq_Some_conv)
          moreover from this(1) have "client_ok c4" using ok3 by (rule perform_attach_ok[OF _ client_service_ok])
          ultimately show ?thesis
            by (cases result) (auto simp: clear_attachment_snd settle_attachment_ok split: if_splits)
        qed
      qed
    qed
  qed
qed

lemma await_stop_ok:
  "await_stop_for_session env svc session n c = Some c' \<Longrightarrow> service_ok svc \<Longrightarrow> client_ok c \<Longrightarrow> client_ok c'"
proof (induction n arbitrary: c)
  case (Suc n)
  obtain events c1 where reaped: "reap_pending_stops c = (events, c1)" by (cases "reap_pending_stops c")
  then have "client_ok c1" using Suc.prems(3) by (rule client_ok_results(5))
  then show ?case
    using Suc.prems reaped
    by (auto simp: Let_def bind_eq_Some_conv split: option.splits if_splits prod.splits received.splits
        dest!: client_ok_results(10) dest: route_during_request_ok intro: Suc.IH[OF _ Suc.prems(2)])
qed simp

lemma start_attached_ok:
  assumes "start_attached env n spawn c = Some (r, c')" "durable_key (sp_terminal spawn)" "client_ok c"
  shows "client_ok c'"
proof -
  let ?svc = "client_service env n" and ?k = "sp_terminal spawn"
  obtain connected c1 where c1: "ensure_connected ?svc c = Some (connected, c1)"
    using assms(1) by (auto simp: start_attached_def Let_def bind_eq_Some_conv)
  then have ok1: "client_ok c1" using assms(3) by blast
  define c2 where "c2 = forget_program ?k (reset_parser env ?k (sp_size spawn) c1)"
  then have ok2: "client_ok c2" using ok1 by (simp add: forget_program_ok reset_parser_ok)
  have rest: "client_ok c'" if await: "await_stop_for_session env ?svc (session_for_key ?k) n c2 = Some c3"
    and run: "(case allocate_request (bind_pane ?k (pane_for_key ?k) c3) of
        (Inl e, c) \<Rightarrow> Some (Inl e, c)
      | (Inr create_id, c) \<Rightarrow> do {
          (created, c) \<leftarrow> perform_create env ?svc (frame create_id) n c;
          let c = finish_request create_id c;
          case created of
            Inl e \<Rightarrow> Some (Inl e, settle_attachment ?k created c)
          | Inr _ \<Rightarrow>
              (case allocate_request c of
                 (Inl e, c) \<Rightarrow> Some (Inl e, c)
               | (Inr attach_id, c) \<Rightarrow> do {
                   (result, c) \<leftarrow> perform_attach env ?svc ?k (session_for_key ?k) (sp_size spawn) attach_id
                     (attach_frame ?k identity (sp_size spawn) attach_id) n c;
                   Some (result, settle_attachment ?k result (finish_request attach_id c)) }) }) = Some (r, c')"
    for c3 frame identity
  proof -
    have "client_ok (bind_pane ?k (pane_for_key ?k) c3)"
      using await_stop_ok[OF await client_service_ok ok2] assms(2) by (rule bind_pane_ok)
    then have step: "client_ok c4" if "allocate_request (bind_pane ?k (pane_for_key ?k) c3) = (a, c4)" for a c4
      using that client_ok_results(3) by blast
    obtain a c4 where a: "allocate_request (bind_pane ?k (pane_for_key ?k) c3) = (a, c4)"
      by (cases "allocate_request (bind_pane ?k (pane_for_key ?k) c3)")
    show ?thesis
    proof (cases a)
      case (Inl e)
      then show ?thesis using run a step[OF a] by simp
    next
      case (Inr create_id)
      then obtain created c5 where created: "perform_create env ?svc (frame create_id) n c4 = Some (created, c5)"
        using run a by (auto simp: bind_eq_Some_conv)
      then have ok5: "client_ok (finish_request create_id c5)"
        using step[OF a] perform_request_ok[OF _ client_service_ok] by (auto simp: perform_create_def)
      show ?thesis
      proof (cases created)
        case (Inl e)
        then show ?thesis using run a Inr created ok5 by (auto simp: settle_attachment_ok Let_def)
      next
        case created': (Inr u)
        obtain b c6 where b: "allocate_request (finish_request create_id c5) = (b, c6)"
          by (cases "allocate_request (finish_request create_id c5)")
        then have "client_ok c6" using ok5 by (rule client_ok_results(3))
        then show ?thesis
          using run a Inr created created' b
          by (cases b) (auto simp: bind_eq_Some_conv Let_def settle_attachment_ok
              dest!: perform_attach_ok[OF _ client_service_ok])
      qed
    qed
  qed
  show ?thesis
  proof (cases connected)
    case (Inl e)
    then show ?thesis using assms(1) c1 ok1 by (simp add: start_attached_def Let_def)
  next
    case (Inr u)
    show ?thesis
      using assms(1) c1 ok2 rest unfolding start_attached_def Let_def Inr c2_def[symmetric]
      by (auto simp: bind_eq_Some_conv Inr c2_def[symmetric] split: sum.splits)
  qed
qed

lemma start_ok:
  assumes "start env n spawn c = Some (r, c')" "durable_key (sp_terminal spawn)" "client_ok c"
  shows "client_ok c'"
proof -
  have create: "client_ok c''"
    if "start_attached env n (spawn\<lparr>sp_size := size\<rparr>) (c\<lparr>cl_starting := Some k\<rparr>) = Some (x, c'')" "client_ok c" for size k x c c''
    using start_attached_ok[OF that(1)] assms(2) that(2) by simp
  have attach: "client_ok c''"
    if "attach_existing env n (sp_terminal spawn) size c = Some (x, c'')" for size x c''
    using that assms(2,3) by (rule attach_existing_ok)
  show ?thesis
  proof (cases "is_running (sp_terminal spawn) c \<or> attached_pane (sp_terminal spawn) c = None")
    case True
    then show ?thesis using assms(1,3) create by (auto simp: start_def Let_def bind_eq_Some_conv split: if_splits)
  next
    case False
    then obtain attached c1
      where c1: "attach_existing env n (sp_terminal spawn) (dim_clamped (sp_size spawn)) c = Some (attached, c1)"
      using assms(1) by (auto simp: start_def Let_def bind_eq_Some_conv)
    show ?thesis
    proof (cases attached)
      case (Inl e)
      then show ?thesis using assms(1) False c1 attach[OF c1] by (auto simp: start_def Let_def)
    next
      case (Inr existing)
      then show ?thesis using assms(1) False c1 attach[OF c1] create
        by (cases existing) (auto simp: start_def Let_def bind_eq_Some_conv)
    qed
  qed
qed

lemma stop_async_ok:
  assumes "stop_async env n k c = Some (r, c')" "client_ok c"
  shows "client_ok c'"
proof (cases "attached_pane k c")
  case None
  then show ?thesis using assms by (simp add: stop_async_def)
next
  case (Some pane)
  obtain connected c1 where c1: "ensure_connected (client_service env n) c = Some (connected, c1)"
    using assms(1) Some by (auto simp: stop_async_def bind_eq_Some_conv)
  then have ok1: "client_ok c1" using assms(2) by blast
  obtain a c2 where a: "allocate_stop_request c1 = (a, c2)" by (cases "allocate_stop_request c1")
  then have ok2: "client_ok c2" using ok1 by (rule client_ok_results(4))
  show ?thesis
    using assms(1) Some c1 ok1 a ok2 unfolding stop_async_def
    by (cases connected) (auto simp: not_Inr_unit bind_eq_Some_conv Let_def clear_attachment_snd update_ok split: sum.splits
        dest!: write_idempotent_request_ok[OF _ client_service_ok])
qed

lemma client_ok_sent [dest]:
  "send_input env n k bs c = Some (r, c') \<Longrightarrow> client_ok c \<Longrightarrow> client_ok c'"
  "send_paste env n k text c = Some (r, c') \<Longrightarrow> client_ok c \<Longrightarrow> client_ok c'"
  "send_synthetic env n k pane bs c = Some (b, c') \<Longrightarrow> client_ok c \<Longrightarrow> client_ok c'"
  subgoal by (auto simp: send_input_def bind_eq_Some_conv split: option.splits)
  subgoal by (auto simp: send_paste_def Let_def bind_eq_Some_conv note_user_input_ok split: option.splits if_splits)
  subgoal by (auto simp: send_synthetic_def bind_eq_Some_conv not_Inr_unit split: sum.splits
        dest!: send_input_inner_ok[OF _ client_service_ok])
  done

lemma client_ok_forwarded [dest]:
  "forward_mouse env n k report c = Some (b, c') \<Longrightarrow> client_ok c \<Longrightarrow> client_ok c'"
  "forward_alternate_scroll env n k up rows c = Some (b, c') \<Longrightarrow> client_ok c \<Longrightarrow> client_ok c'"
  "send_focus env n k gained c = Some (b, c') \<Longrightarrow> client_ok c \<Longrightarrow> client_ok c'"
  subgoal by (auto simp: forward_mouse_def split: option.splits)
  subgoal by (auto simp: forward_alternate_scroll_def split: option.splits if_splits)
  subgoal by (auto simp: send_focus_def split: option.splits if_splits)
  done

lemma set_focused_pane_ok: "set_focused_pane env n k c = Some c' \<Longrightarrow> client_ok c \<Longrightarrow> client_ok c'"
  by (auto simp: set_focused_pane_def bind_eq_Some_conv Let_def split: option.splits if_splits
      dest!: client_ok_forwarded(3))

lemma scroll_parser_ok: "scroll_parser env k rows c = (b, c') \<Longrightarrow> client_ok c \<Longrightarrow> client_ok c'"
  by (auto simp: scroll_parser_def Let_def update_ok split: option.splits if_splits)

lemma resize_ok:
  assumes "resize env n k dims c = Some (r, c')" "client_ok c"
  shows "client_ok c'"
proof (cases "attached_pane k (resize_parser env k (dim_clamped dims) c)")
  case None
  then show ?thesis using assms by (auto simp: resize_def Let_def resize_parser_ok)
next
  case (Some pane)
  obtain connected c1
    where c1: "ensure_connected (client_service env n) (resize_parser env k (dim_clamped dims) c) = Some (connected, c1)"
    using assms(1) Some by (auto simp: resize_def Let_def bind_eq_Some_conv)
  then have ok1: "client_ok c1" using assms(2) resize_parser_ok by blast
  show ?thesis
    using assms(1) Some c1 ok1 unfolding resize_def
    by (cases connected) (auto simp: Let_def split: sum.splits prod.splits dest!: client_ok_results(9))
qed

lemma await_sessions_ok:
  "await_sessions env svc namespace deadline n c = Some (r, c') \<Longrightarrow> service_ok svc \<Longrightarrow> client_ok c \<Longrightarrow> client_ok c'"
proof (induction n arbitrary: c)
  case (Suc n)
  note IH = Suc.IH[OF _ Suc.prems(2)]
  show ?case
  proof (cases "cl_connection c")
    case None
    then show ?thesis using Suc.prems by (auto split: if_splits)
  next
    case (Some cn)
    obtain got c1 where recv: "recv_deadline deadline cn c = (got, c1)" by (cases "recv_deadline deadline cn c")
    then have ok: "client_ok c1" using Suc.prems(3) by (rule client_ok_results(10))
    show ?thesis
    proof (cases got)
      case (ReceivedMessage m)
      then show ?thesis using Suc.prems Some recv ok
        by (cases m) (auto simp: bind_eq_Some_conv split: if_splits intro: IH dest!: route_during_request_ok)
    qed (use Suc.prems Some recv ok in \<open>auto split: if_splits\<close>)
  qed
qed simp

lemma list_sessions_ok: "list_sessions env n namespace c = Some (r, c') \<Longrightarrow> client_ok c \<Longrightarrow> client_ok c'"
  by (auto simp: list_sessions_def bind_eq_Some_conv not_Inr_unit split: sum.splits prod.splits
      dest!: client_ok_results(8) ensure_connected_ok[OF _ client_service_ok] await_sessions_ok[OF _ client_service_ok])

lemma status_request_ok: "status_request env n frame answer c = Some (r, c') \<Longrightarrow> client_ok c \<Longrightarrow> client_ok c'"
  by (cases "allocate_request c"; cases "fst (allocate_request c)")
    (auto simp: status_request_def perform_agent_status_def bind_eq_Some_conv
      dest!: client_ok_results(3) perform_request_ok[OF _ client_service_ok])

lemma drain_loop_ok:
  "drain_loop env svc left output_bytes (events, c) = Some (events', c') \<Longrightarrow> service_ok svc \<Longrightarrow> client_ok c \<Longrightarrow> client_ok c'"
proof (induction left arbitrary: output_bytes events c)
  case (Suc left)
  note IH = Suc.IH[OF _ Suc.prems(2)]
  show ?case
    using Suc.prems unfolding drain_loop.simps[of env svc "Suc left" output_bytes events c]
    by (auto simp: bind_eq_Some_conv simp del: drain_loop.simps split: option.splits if_splits prod.splits received.splits
        dest!: client_ok_results(11) handle_server_message_ok intro: IH)
qed (auto split: option.splits)

lemma drain_events_ok:
  assumes "drain_events env n c = Some (events, c')" "client_ok c"
  shows "client_ok c'"
proof -
  define c0 where "c0 = poll_connector (c\<lparr>cl_pending_events := [], cl_work_remaining := False\<rparr>)"
  have ok0: "client_ok c0" unfolding c0_def using assms(2) by (simp add: poll_connector_ok)
  obtain es c1 where loop: "drain_loop env (client_service env n) MAX_SERVER_MESSAGES_PER_DRAIN 0 (cl_pending_events c, c0) = Some (es, c1)"
    using assms(1) by (auto simp: drain_events_def Let_def bind_eq_Some_conv c0_def simp del: drain_loop.simps)
  then have ok1: "client_ok c1" using ok0 by (rule drain_loop_ok[OF _ client_service_ok])
  define c2 where "c2 = (if cl_connection c0 \<noteq> None \<and> cl_connection c1 = None then reconnect_or_report c1 else c1)"
  have ok2: "client_ok c2" using ok1 by (simp add: c2_def)
  obtain reaped c3 where reap: "reap_pending_stops c2 = (reaped, c3)" by (cases "reap_pending_stops c2")
  then have ok3: "client_ok c3" using ok2 by (rule client_ok_results(5))
  obtain c4 where "client_service env n c3 = Some c4" "c' = retry_connection_if_due c4\<lparr>cl_pending_events := []\<rparr>"
    using assms(1) loop reap[unfolded c2_def]
    by (auto simp: drain_events_def Let_def bind_eq_Some_conv c0_def[symmetric] simp del: drain_loop.simps)
  then show ?thesis using service_okD[OF _ client_service_ok ok3] by simp
qed

lemma detach_all_ok: "client_ok c \<Longrightarrow> client_ok (detach_all entries c)"
proof (induction entries arbitrary: c)
  case (Cons entry entries)
  have "client_ok (snd (write_frame m c))" for m using client_ok_results(8)[of m c] Cons.prems by (metis prod.collapse)
  then show ?case using Cons by (cases entry) (auto split: option.split)
qed simp

lemma drop_client_ok: "client_ok c \<Longrightarrow> client_ok (drop_client c)"
  by (simp add: drop_client_def detach_all_ok)

section \<open>What the rest of the client may do with the runtime\<close>

inductive client_step :: "'p client_env \<Rightarrow> 'p client \<Rightarrow> 'p client \<Rightarrow> bool" for env where
  step_identity: "register_session_identity k identity c = (r, c') \<Longrightarrow> client_step env c c'"
| step_agent: "register_agent_session k metadata c = (r, c') \<Longrightarrow> client_step env c c'"
| step_start: "start env n spawn c = Some (r, c') \<Longrightarrow> durable_key (sp_terminal spawn) \<Longrightarrow> client_step env c c'"
| step_attach: "attach_existing env n k dims c = Some (x, c') \<Longrightarrow> durable_key k \<Longrightarrow> client_step env c c'"
| step_stop: "stop_async env n k c = Some (b, c') \<Longrightarrow> client_step env c c'"
| step_remove: "client_step env c (cl_remove_terminal k c)"
| step_input: "send_input env n k bs c = Some (b, c') \<Longrightarrow> client_step env c c'"
| step_paste: "send_paste env n k text c = Some (b, c') \<Longrightarrow> client_step env c c'"
| step_mouse: "forward_mouse env n k report c = Some (sent, c') \<Longrightarrow> client_step env c c'"
| step_alternate: "forward_alternate_scroll env n k up rows c = Some (sent, c') \<Longrightarrow> client_step env c c'"
| step_focus: "set_focused_pane env n focus c = Some c' \<Longrightarrow> client_step env c c'"
| step_scroll: "scroll_parser env k amount c = (moved, c') \<Longrightarrow> client_step env c c'"
| step_resize: "resize env n k dims c = Some (r, c') \<Longrightarrow> client_step env c c'"
| step_list: "list_sessions env n namespace c = Some (sessions, c') \<Longrightarrow> client_step env c c'"
| step_update_status: "client_update_agent_status env n status c = Some (updated, c') \<Longrightarrow> client_step env c c'"
| step_get_status: "get_agent_status env n query c = Some (current, c') \<Longrightarrow> client_step env c c'"
| step_line: "client_step env c (append_terminal_system_line env k message c)"
| step_host_write: "client_step env c (queue_host_terminal_write bs c)"
| step_host_taken: "take_host_terminal_writes c = (bs, c') \<Longrightarrow> client_step env c c'"
| step_frame: "drain_events env n c = Some (events, c') \<Longrightarrow> client_step env c c'"
| step_time: "client_step env c (c\<lparr>cl_now := cl_now c + t\<rparr>)"

lemma client_step_ok: "client_step env c c' \<Longrightarrow> client_ok c \<Longrightarrow> client_ok c'"
proof (induction rule: client_step.induct)
  case (step_identity k identity c r c')
  then show ?case by (auto simp: register_session_identity_def update_ok split: if_splits)
next
  case (step_agent k metadata c r c')
  then show ?case by (auto simp: register_agent_session_def update_ok split: if_splits)
next
  case (step_update_status n status c updated c')
  then show ?case by (auto simp: client_update_agent_status_def dest: status_request_ok)
next
  case (step_get_status n query c current c')
  then show ?case by (auto simp: get_agent_status_def dest: status_request_ok)
qed (auto simp: append_terminal_system_line_def process_terminal_output_ok take_host_terminal_writes_def
    intro: client_remove_terminal_ok dest: start_ok attach_existing_ok stop_async_ok set_focused_pane_ok scroll_parser_ok
      resize_ok list_sessions_ok drain_events_ok)

text \<open>A client begins with an attempt to connect and goes on by such steps.\<close>

inductive client_reachable :: "'p client_env \<Rightarrow> 'p client \<Rightarrow> bool" for env where
  client_begins: "client_reachable env (with_socket_path network spawn)"
| client_goes_on: "client_reachable env c \<Longrightarrow> client_step env c c' \<Longrightarrow> client_reachable env c'"

lemma client_begins_ok: "client_ok (with_socket_path network spawn)"
proof -
  have "client_ok (client_disconnected network events)" for events
    by (simp add: client_ok_def client_disconnected_def cl_pane_def attached_pane_def)
  then show ?thesis
    by (auto simp: with_socket_path_def split: prod.split sum.split dest!: connect_inner_ok)
qed

lemma client_reachable_ok: "client_reachable env c \<Longrightarrow> client_ok c"
  by (induction rule: client_reachable.induct) (auto intro: client_begins_ok dest: client_step_ok)

end
