(* ===== verification/Pty_Properties.thy ===== *)
theory Pty_Properties
  imports Pty_Invariant
begin

text \<open>The properties of the client's runtime: its panes in every state it reaches, and its feeding of output.\<close>

text \<open>
  C27. In every state the client's runtime reaches, by whatever operations and messages, the index from the
  daemon's pane numbers holds exactly the panes attached, each under the number of its own key; a pane has
  an output position exactly when it has a lease, and a lease is found only through its own pane; and what
  is kept of a program's escape sequence and of a typed line stays within its bound.
\<close>

theorem runtime_panes_are_indexed:
  assumes "client_reachable env c"
  shows "(key_for_pane pane c = Some k \<longleftrightarrow> attached_pane k c = Some pane)
    \<and> (attached_pane k c = Some pane \<longrightarrow> pane = pane_for_key k \<and> durable_key k)
    \<and> (lease_of pane c = Some lease \<longrightarrow>
         (\<exists>k e. key_for_pane pane c = Some k \<and> cl_pane k c = Some e \<and> pp_attachment e = Some (pane_for_key k)
           \<and> pp_lease e = Some lease \<and> pp_expected_output e \<noteq> None))
    \<and> (cl_pane k c = Some e \<longrightarrow> (pp_lease e = None \<longleftrightarrow> pp_expected_output e = None)
         \<and> (\<forall>d. pp_responder e = Some d \<longrightarrow> length (rd_csi d) \<le> max_csi_sequence_bytes)
         \<and> (\<forall>t. pp_tracker e = Some t \<longrightarrow> length (ct_input t) \<le> max_tracked_command_bytes))"
proof -
  have ok: "client_ok c" using assms by (rule client_reachable_ok)
  have index: "key_for_pane pane c = Some k \<longleftrightarrow> attached_pane k c = Some pane" for k
    using ok by (simp add: client_ok_def key_for_pane_def)
  have entry: "entry_ok k e" if "cl_pane k c = Some e" for k e using ok that by (simp add: client_ok_def)
  have leased: "\<exists>k e. key_for_pane pane c = Some k \<and> cl_pane k c = Some e \<and> pp_attachment e = Some (pane_for_key k)
      \<and> pp_lease e = Some lease \<and> pp_expected_output e \<noteq> None" if lease: "lease_of pane c = Some lease"
  proof -
    obtain k e where e: "key_for_pane pane c = Some k" "cl_pane k c = Some e" "pp_lease e = Some lease"
      using lease by (auto simp: lease_of_def bind_eq_Some_conv)
    moreover have "pp_attachment e = Some pane" using e(1,2) index[of k] by (simp add: attached_pane_def)
    moreover have "pp_attachment e = None \<or> pp_attachment e = Some (pane_for_key k)" "pp_expected_output e \<noteq> None"
      using entry[OF e(2)] e(3) by (auto simp: entry_ok_def)
    ultimately show ?thesis by auto
  qed
  show ?thesis
    using index[of k] attached_pane_ok[OF ok] leased entry[of k e]
    by (auto simp: entry_ok_def detector_ok_def tracker_ok_def)
qed

definition sample_hello :: server_hello where
  "sample_hello = \<lparr>sh_server_instance = ServerInstanceId 1, sh_client_scope = ClientScopeId 1, sh_resumed = False\<rparr>"

definition connected_client :: "unit client" where
  "connected_client = with_socket_path
     [(0, Connected \<lparr>es_hello = sample_hello, es_connection = \<lparr>cn_incoming = [], cn_writes = []\<rparr>\<rparr>)] Autospawn"

definition unit_emulator :: "unit emulator" where
  "unit_emulator =
     \<lparr>em_new = (\<lambda>_ _ _. ()), em_process = (\<lambda>_ _. ()), em_set_size = (\<lambda>_ _ _. ()), em_set_scrollback = (\<lambda>_ _. ()),
      em_screen = (\<lambda>_. \<lparr>sc_rows = 24, sc_cols = 80, sc_cursor = (0, 0), sc_title = [], sc_alternate = False,
        sc_mouse_mode = MouseOff, sc_mouse_encoding = EncodingDefault, sc_bracketed_paste = False,
        sc_application_cursor = False, sc_application_keypad = False, sc_scrollback = 0, sc_scrollback_len = 0, sc_lines = []\<rparr>),
      em_is_wide = (\<lambda>_ _ _. None), em_contents_between = (\<lambda>_ _ _ _ _. []),
      em_row_wrapped = (\<lambda>_ _. False)\<rparr>"

definition unit_env :: "unit client_env" where
  "unit_env = \<lparr>ce_emulator = unit_emulator, ce_debug = \<lparr>dbg_status_error = (\<lambda>_. []), dbg_message = (\<lambda>_. [])\<rparr>,
     ce_round_trips = 0, ce_var = (\<lambda>_. None)\<rparr>"

definition sample_key :: pty_key where "sample_key = PtyTerminal (TerminalId 5)"

definition registered_client :: "unit client" where
  "registered_client = snd (register_session_identity sample_key (SessionIdentity (StateNamespace 1) (SessionToken 2)) connected_client)"

lemma attach_times_out:
  "\<exists>x c. attach_existing unit_env 2 sample_key pty_dimensions_default registered_client = Some (x, c)
     \<and> attached_pane sample_key c = Some (PaneId 5)"
  apply (simp add: registered_client_def connected_client_def with_socket_path_def client_disconnected_def
      connect_inner_def take_attempt_def install_connection_def sample_hello_def enqueue_reattachments_def
      register_session_identity_def registered_identity_def cl_pane_def update_entry_def put_pane_def pane_entry_def
      attach_existing_def Let_def is_running_def ensure_connected_def poll_connector_def sample_key_def identity_for_key_def
      service_reattachments_def numeral_2_eq_2 pty_pane_default_def)
  apply (simp add: bind_pane_def pane_for_key_def forget_program_def reset_parser_def update_entry_def put_pane_def
      pane_entry_def cl_pane_def Let_def allocate_request_def next_request_def MAX_PENDING_REQUESTS_PER_CLIENT_def
      perform_attach_def write_idempotent_request_def ensure_connected_def poll_connector_def service_reattachments_def
      unqueue_reattachment_def write_frame_def take_write_def receive_for_request_def receive_loop.simps
      recv_deadline_def ATTACH_ACK_TIMEOUT_def milliseconds_def response_timeout_def finish_request_def
      drop_deferred_def settle_attachment_def attached_pane_def)
  done

theorem runtime_panes_are_indexed_witness:
  "\<exists>c. client_reachable unit_env c \<and> attached_pane sample_key c = Some (PaneId 5)
     \<and> key_for_pane (PaneId 5) c = Some sample_key"
proof -
  have "client_reachable unit_env registered_client"
    unfolding registered_client_def connected_client_def
    by (rule client_goes_on[OF client_begins step_identity[OF prod.collapse[symmetric]]])
  moreover have "durable_key sample_key" by (simp add: durable_key_def sample_key_def RUNTIME_TERMINAL_ID_FLAG_def)
  moreover obtain x c where "attach_existing unit_env 2 sample_key pty_dimensions_default registered_client = Some (x, c)"
      "attached_pane sample_key c = Some (PaneId 5)"
    using attach_times_out by blast
  ultimately have "client_reachable unit_env c" "attached_pane sample_key c = Some (PaneId 5)"
    by (auto intro: client_goes_on step_attach)
  then show ?thesis using runtime_panes_are_indexed[of unit_env c "PaneId 5" sample_key] by blast
qed

text \<open>
  C31. Output is fed to the emulator in runs between escape sequences, and the result is that of the byte
  at a time: the same state of the emulator, the same answers to the program's queries, in each of which the
  cursor is where it was at the query, and the same state of the scanner. The emulator is any whose
  processing of a text is that of its parts in turn.
\<close>

theorem batched_feed_is_bytewise:
  assumes "\<forall>p xs ys. process p (xs @ ys) = process (process p xs) ys"
  shows "feed_parser_with_responder process cursor p d bs = feed_parser_byte_at_a_time process cursor p d bs"
  using assms by (simp add: feed_parser_with_responder_def feed_parser_byte_at_a_time_def streams_def feed_from_is_fold)

theorem batched_feed_is_bytewise_witness:
  "feed_parser_with_responder (@) (\<lambda>p. (0, of_nat (length p))) [] response_detector_default [65, 0x1b, 0x5b, 0x36, 0x6e, 66]
   = feed_parser_byte_at_a_time (@) (\<lambda>p. (0, of_nat (length p))) [] response_detector_default [65, 0x1b, 0x5b, 0x36, 0x6e, 66]"
  by (rule batched_feed_is_bytewise) simp

end
