(* ===== verification/Pty_Selection.thy ===== *)
theory Pty_Selection
  imports Pty_Frames
begin

text \<open>
  The text of a selection (\<open>contents_between_rows\<close> in \<open>src/pty.rs\<close>). The emulator shows one screenful of
  its history, so a range that leaves the view is read a screenful at a time by moving the scrollback over
  it. Rows are counted from the top of the view and may be negative.
\<close>

definition scroll_to :: "'p emulator \<Rightarrow> int \<Rightarrow> 'p \<Rightarrow> 'p" where
  "scroll_to em wanted p = em_set_scrollback em (nat (max 0 (min wanted (int (sc_scrollback_len (em_screen em p)))))) p"

text \<open>The screenful read once a row is in view.\<close>

definition read_screenful ::
    "'p emulator \<Rightarrow> int \<Rightarrow> int \<Rightarrow> u16 \<Rightarrow> u16 \<Rightarrow> u16 \<Rightarrow> int \<Rightarrow> int \<Rightarrow> int \<Rightarrow> 'p \<Rightarrow> ustring" where
  "read_screenful em first_row last_row start_col end_col cols row chunk_end shift p =
     (let from_col = (if row = first_row then min start_col (cols - 1) else 0);
          to_col = (if chunk_end = last_row then min end_col cols else cols);
          view_end = word_of_int (chunk_end + shift) in
      em_contents_between em p (word_of_int (row + shift)) from_col view_end to_col @
      (if chunk_end < last_row \<and> \<not> em_row_wrapped em p view_end then [10] else []))"

partial_function (option) read_rows ::
    "'p emulator \<Rightarrow> int \<Rightarrow> int \<Rightarrow> int \<Rightarrow> int \<Rightarrow> u16 \<Rightarrow> u16 \<Rightarrow> u16 \<Rightarrow> int \<Rightarrow> ustring \<Rightarrow> 'p \<Rightarrow> (ustring \<times> 'p) option" where
  "read_rows em view last_visible first_row last_row start_col end_col cols row text p =
     (if last_row < row then Some (text, p)
      else
        let p = scroll_to em (view - row) p;
            shift = int (sc_scrollback (em_screen em p)) - view in
        if last_visible < row + shift then Some (text, p)
        else if row + shift < 0
        then read_rows em view last_visible first_row last_row start_col end_col cols (- shift) text p
        else
          let chunk_end = min last_row (last_visible - shift) in
          read_rows em view last_visible first_row last_row start_col end_col cols (chunk_end + 1)
            (text @ read_screenful em first_row last_row start_col end_col cols row chunk_end shift p) p)"

definition contents_between_rows ::
    "'p client_env \<Rightarrow> pty_key \<Rightarrow> int \<Rightarrow> u16 \<Rightarrow> int \<Rightarrow> u16 \<Rightarrow> 'p client \<Rightarrow> (ustring option \<times> 'p client) option" where
  "contents_between_rows env k start_row start_col end_row end_col c =
     (case cl_parser k c of
        None \<Rightarrow> Some (None, c)
      | Some p \<Rightarrow>
          let s = parser_screen env p; em = ce_emulator env in
          if sc_rows s = 0 \<or> sc_cols s = 0 \<or> end_row < start_row then Some (None, c)
          else do {
            (text, p) \<leftarrow> read_rows em (int (sc_scrollback s)) (int (unat (sc_rows s - 1))) start_row end_row start_col
                         end_col (sc_cols s) start_row [] p;
            let p = em_set_scrollback em (sc_scrollback s) p;
            Some (if text = [] then None else Some text, update_entry k (\<lambda>e. e\<lparr>pp_parser := Some p\<rparr>) c) })"

section \<open>What the reading amounts to\<close>

text \<open>
  The emulator keeps a history of rows and shows a view of it: the view is \<open>sc_scrollback\<close> rows above the
  newest screen, at most \<open>sc_scrollback_len\<close>, and moving it changes nothing else. The text of a range of
  rows is that of its parts, with a line break where a row does not wrap into the next.
\<close>

definition keeps_history ::
    "'p emulator \<Rightarrow> ('p \<Rightarrow> 'p \<Rightarrow> bool) \<Rightarrow> ('p \<Rightarrow> int \<Rightarrow> u16 \<Rightarrow> int \<Rightarrow> u16 \<Rightarrow> ustring) \<Rightarrow> ('p \<Rightarrow> int \<Rightarrow> bool) \<Rightarrow> bool" where
  "keeps_history em same between wraps \<longleftrightarrow>
     (\<forall>p. same p p) \<and> (\<forall>p q r. same p q \<longrightarrow> same q r \<longrightarrow> same p r) \<and> (\<forall>n p. same p (em_set_scrollback em n p)) \<and>
     (\<forall>p q. same p q \<longrightarrow> between q = between p \<and> wraps q = wraps p \<and>
        sc_scrollback_len (em_screen em q) = sc_scrollback_len (em_screen em p) \<and>
        sc_rows (em_screen em q) = sc_rows (em_screen em p) \<and> sc_cols (em_screen em q) = sc_cols (em_screen em p)) \<and>
     (\<forall>n p. sc_scrollback (em_screen em (em_set_scrollback em n p)) = min n (sc_scrollback_len (em_screen em p))) \<and>
     (\<forall>p a b c d. a \<le> b \<and> b < sc_rows (em_screen em p) \<longrightarrow>
        em_contents_between em p a c b d = between p (int (unat a) - int (sc_scrollback (em_screen em p))) c
          (int (unat b) - int (sc_scrollback (em_screen em p))) d) \<and>
     (\<forall>p b. b < sc_rows (em_screen em p) \<longrightarrow>
        em_row_wrapped em p b = wraps p (int (unat b) - int (sc_scrollback (em_screen em p)))) \<and>
     (\<forall>p a m b c d. a \<le> m \<and> m < b \<longrightarrow>
        between p a c b d = between p a c m (sc_cols (em_screen em p)) @ (if wraps p m then [] else [10]) @ between p (m + 1) 0 b d)"

text \<open>
  The text of the selected rows the pane has. Rows here are counted from the top of the newest screen: the
  oldest is \<open>- len\<close>, the newest \<open>rows - 1\<close>. A selection that goes on below the newest row ends with that
  row's line break.
\<close>

definition selection_text ::
    "'p emulator \<Rightarrow> ('p \<Rightarrow> int \<Rightarrow> u16 \<Rightarrow> int \<Rightarrow> u16 \<Rightarrow> ustring) \<Rightarrow> ('p \<Rightarrow> int \<Rightarrow> bool) \<Rightarrow> int \<Rightarrow> u16 \<Rightarrow> int \<Rightarrow> u16 \<Rightarrow> 'p \<Rightarrow> ustring" where
  "selection_text em between wraps first start_col final end_col p =
     (let oldest = - int (sc_scrollback_len (em_screen em p)); newest = int (unat (sc_rows (em_screen em p))) - 1;
          cols = sc_cols (em_screen em p); low = max first oldest; high = min final newest in
      if high < low then []
      else between p low (if low = first then min start_col (cols - 1) else 0) high (if high = final then min end_col cols else cols)
        @ (if high < final \<and> \<not> wraps p high then [10] else []))"

lemma uint_in_view:
  assumes "0 \<le> r" "r < uint (n :: u16)"
  shows "uint (word_of_int r :: u16) = r" "(word_of_int r :: u16) < n"
proof -
  have "uint n < 65536" using unsigned_less[of n, where ?'a = int] by simp
  then have "r < 65536" using assms(2) by linarith
  then show *: "uint (word_of_int r :: u16) = r"
    using assms(1) by (simp add: unsigned_of_int take_bit_int_eq_self)
  then show "(word_of_int r :: u16) < n" using assms by (simp add: word_less_def)
qed

lemma history_laws:
  assumes "keeps_history em same between wraps"
  shows "same p p" "same p q \<Longrightarrow> same q r \<Longrightarrow> same p r" "same p (em_set_scrollback em n p)"
    "same p q \<Longrightarrow> between q = between p" "same p q \<Longrightarrow> wraps q = wraps p"
    "same p q \<Longrightarrow> sc_scrollback_len (em_screen em q) = sc_scrollback_len (em_screen em p)"
    "same p q \<Longrightarrow> sc_rows (em_screen em q) = sc_rows (em_screen em p)"
    "same p q \<Longrightarrow> sc_cols (em_screen em q) = sc_cols (em_screen em p)"
    "sc_scrollback (em_screen em (em_set_scrollback em n p)) = min n (sc_scrollback_len (em_screen em p))"
    "a \<le> b \<Longrightarrow> b < sc_rows (em_screen em p) \<Longrightarrow>
      em_contents_between em p a c b d = between p (int (unat a) - int (sc_scrollback (em_screen em p))) c
          (int (unat b) - int (sc_scrollback (em_screen em p))) d"
    "b < sc_rows (em_screen em p) \<Longrightarrow> em_row_wrapped em p b = wraps p (int (unat b) - int (sc_scrollback (em_screen em p)))"
    "x \<le> m \<Longrightarrow> m < y \<Longrightarrow> sc_cols (em_screen em p) = w \<Longrightarrow>
      between p x c m w @ (if wraps p m then [] else [10]) @ between p (m + 1) 0 y d = between p x c y d"
proof -
  have refl: "\<forall>p. same p p"
    using assms unfolding keeps_history_def by (elim conjE) assumption
  have trans: "\<forall>p q r. same p q \<longrightarrow> same q r \<longrightarrow> same p r"
    using assms unfolding keeps_history_def by (elim conjE) assumption
  have moves: "\<forall>n p. same p (em_set_scrollback em n p)"
    using assms unfolding keeps_history_def by (elim conjE) assumption
  have kept: "\<forall>p q. same p q \<longrightarrow> between q = between p \<and> wraps q = wraps p \<and>
        sc_scrollback_len (em_screen em q) = sc_scrollback_len (em_screen em p) \<and>
        sc_rows (em_screen em q) = sc_rows (em_screen em p) \<and> sc_cols (em_screen em q) = sc_cols (em_screen em p)"
    using assms unfolding keeps_history_def by (elim conjE) assumption
  have scrolled: "\<forall>n p. sc_scrollback (em_screen em (em_set_scrollback em n p)) = min n (sc_scrollback_len (em_screen em p))"
    using assms unfolding keeps_history_def by (elim conjE) assumption
  have inview: "\<forall>p a b c d. a \<le> b \<and> b < sc_rows (em_screen em p) \<longrightarrow>
        em_contents_between em p a c b d = between p (int (unat a) - int (sc_scrollback (em_screen em p))) c
          (int (unat b) - int (sc_scrollback (em_screen em p))) d"
    using assms unfolding keeps_history_def by (elim conjE) assumption
  have wrap: "\<forall>p b. b < sc_rows (em_screen em p) \<longrightarrow>
        em_row_wrapped em p b = wraps p (int (unat b) - int (sc_scrollback (em_screen em p)))"
    using assms unfolding keeps_history_def by (elim conjE) assumption
  have join: "\<forall>p a m b c d. a \<le> m \<and> m < b \<longrightarrow>
        between p a c b d = between p a c m (sc_cols (em_screen em p)) @ (if wraps p m then [] else [10]) @ between p (m + 1) 0 b d"
    using assms unfolding keeps_history_def by (elim conjE) assumption
  show "same p p"
    using refl by blast
  show "same p r" if "same p q" "same q r"
    using trans that by blast
  show "same p (em_set_scrollback em n p)"
    using moves by blast
  show "between q = between p" if "same p q"
    using kept that by blast
  show "wraps q = wraps p" if "same p q"
    using kept that by blast
  show "sc_scrollback_len (em_screen em q) = sc_scrollback_len (em_screen em p)" if "same p q"
    using kept that by blast
  show "sc_rows (em_screen em q) = sc_rows (em_screen em p)" if "same p q"
    using kept that by blast
  show "sc_cols (em_screen em q) = sc_cols (em_screen em p)" if "same p q"
    using kept that by blast
  show "sc_scrollback (em_screen em (em_set_scrollback em n p)) = min n (sc_scrollback_len (em_screen em p))"
    using scrolled by simp
  show "em_contents_between em p a c b d = between p (int (unat a) - int (sc_scrollback (em_screen em p))) c
          (int (unat b) - int (sc_scrollback (em_screen em p))) d" if "a \<le> b" "b < sc_rows (em_screen em p)"
    using inview that by simp
  show "em_row_wrapped em p b = wraps p (int (unat b) - int (sc_scrollback (em_screen em p)))" if "b < sc_rows (em_screen em p)"
    using wrap that by simp
  show "between p x c m w @ (if wraps p m then [] else [10]) @ between p (m + 1) 0 y d = between p x c y d" if "x \<le> m" "m < y" "sc_cols (em_screen em p) = w"
    using join that by metis
qed

lemma read_screenful_between:
  assumes "keeps_history em same between wraps" "same p0 p" "int (sc_scrollback (em_screen em p)) = view + shift"
    "0 \<le> row + shift" "row \<le> chunk_end" "chunk_end + shift < int (unat (sc_rows (em_screen em p0)))"
  shows "read_screenful em first_row last_row sc ec cols row chunk_end shift p =
    between p0 (row - view) (if row = first_row then min sc (cols - 1) else 0) (chunk_end - view)
        (if chunk_end = last_row then min ec cols else cols)
      @ (if chunk_end < last_row \<and> \<not> wraps p0 (chunk_end - view) then [10] else [])"
proof -
  have rows: "sc_rows (em_screen em p) = sc_rows (em_screen em p0)" by (rule history_laws(7)[OF assms(1,2)])
  let ?a = "word_of_int (row + shift) :: u16" and ?b = "word_of_int (chunk_end + shift) :: u16"
  have a: "uint ?a = row + shift" and b: "uint ?b = chunk_end + shift" "?b < sc_rows (em_screen em p)"
    using uint_in_view[of "row + shift" "sc_rows (em_screen em p0)"]
      uint_in_view[of "chunk_end + shift" "sc_rows (em_screen em p0)"] assms(4-6) by (simp_all add: rows)
  have ab: "?a \<le> ?b" using a b(1) assms(5) by (simp add: word_le_def del: of_int_add)
  have contents: "em_contents_between em p ?a c ?b d = between p0 (row - view) c (chunk_end - view) d" for c d
    using history_laws(10)[OF assms(1) ab b(2), of c d] a b(1) assms(3) history_laws(4)[OF assms(1,2)] by (simp del: of_int_add)
  have wrapped: "em_row_wrapped em p ?b = wraps p0 (chunk_end - view)"
    using history_laws(11)[OF assms(1) b(2)] b(1) assms(3) history_laws(5)[OF assms(1,2)] by (simp del: of_int_add)
  show ?thesis unfolding read_screenful_def Let_def contents wrapped ..
qed

text \<open>Where reading a row leaves the view.\<close>

lemma scroll_to_view:
  assumes "keeps_history em same between wraps" "same p0 p"
  shows "same p0 (scroll_to em wanted p)"
    "int (sc_scrollback (em_screen em (scroll_to em wanted p))) = max 0 (min wanted (int (sc_scrollback_len (em_screen em p0))))"
proof -
  have len: "sc_scrollback_len (em_screen em p) = sc_scrollback_len (em_screen em p0)" by (rule history_laws(6)[OF assms])
  show "same p0 (scroll_to em wanted p)"
    unfolding scroll_to_def by (rule history_laws(2)[OF assms(1,2) history_laws(3)[OF assms(1)]])
  show "int (sc_scrollback (em_screen em (scroll_to em wanted p))) = max 0 (min wanted (int (sc_scrollback_len (em_screen em p0))))"
    unfolding scroll_to_def history_laws(9)[OF assms(1)] len by simp
qed

lemma read_rows_in_history:
  fixes p0 :: 'p and em :: "'p emulator"
  defines "newest \<equiv> int (unat (sc_rows (em_screen em p0))) - 1" and "len \<equiv> int (sc_scrollback_len (em_screen em p0))"
    and "cols \<equiv> sc_cols (em_screen em p0)"
  assumes laws: "keeps_history em same between wraps" and rows: "sc_rows (em_screen em p0) \<noteq> 0"
  shows "same p0 p \<Longrightarrow> - len \<le> row - view \<Longrightarrow> row - view \<le> newest \<Longrightarrow> row \<le> last_row \<Longrightarrow> first_row \<le> row \<Longrightarrow>
    \<exists>p'. same p0 p' \<and> read_rows em view newest first_row last_row sc ec cols row acc p = Some (acc @
      between p0 (row - view) (if row = first_row then min sc (cols - 1) else 0) (min (last_row - view) newest)
        (if min (last_row - view) newest = last_row - view then min ec cols else cols)
      @ (if min (last_row - view) newest < last_row - view \<and> \<not> wraps p0 (min (last_row - view) newest) then [10] else []), p')"
proof (induction "nat (newest - (row - view))" arbitrary: row acc p rule: less_induct)
  case less
  define q where "q = scroll_to em (view - row) p"
  define s where "s = max 0 (min (view - row) len)"
  have q: "same p0 q" "int (sc_scrollback (em_screen em q)) = s"
    using scroll_to_view[OF laws less.prems(1)] by (simp_all add: q_def s_def len_def)
  have s: "0 \<le> s" "s \<le> len" "0 \<le> row - view + s" "row - view + s \<le> newest"
    using less.prems(2,3) rows unfolding s_def by (auto simp: newest_def len_def uint_0_iff word_neq_0_conv word_less_def)
  define chunk where "chunk = min last_row (newest - (s - view))"
  have chunk: "row \<le> chunk" "chunk \<le> last_row" using less.prems(4) s(4) by (auto simp: chunk_def)
  let ?from = "if row = first_row then min sc (cols - 1) else 0"
  let ?high = "min (last_row - view) newest"
  have read: "read_screenful em first_row last_row sc ec cols row chunk (s - view) q =
      between p0 (row - view) ?from (chunk - view) (if chunk = last_row then min ec cols else cols)
        @ (if chunk < last_row \<and> \<not> wraps p0 (chunk - view) then [10] else [])"
    using read_screenful_between[OF laws q(1), of view "s - view" row chunk first_row last_row sc ec cols] q(2) s chunk
    by (simp add: chunk_def newest_def)
  have step: "read_rows em view newest first_row last_row sc ec cols row acc p =
      read_rows em view newest first_row last_row sc ec cols (chunk + 1)
        (acc @ read_screenful em first_row last_row sc ec cols row chunk (s - view) q) q"
    using less.prems(4) s q(2) by (subst read_rows.simps) (simp add: Let_def chunk_def flip: q_def)
  consider (all) "chunk = last_row" | (below) "chunk < last_row" "s = 0" | (more) "chunk < last_row" "0 < s"
    using chunk(2) s(1) by linarith
  then show ?case
  proof cases
    case all
    then have "?high = chunk - view" using s(1) by (auto simp: chunk_def min_def split: if_splits)
    then show ?thesis using step read all q(1) by (intro exI[of _ q]) (simp add: read_rows.simps)
  next
    case below
    have high: "?high = chunk - view" "chunk - view = newest" using below by (auto simp: chunk_def min_def split: if_splits)
    have "view - (chunk + 1) \<le> 0" using high(2) unfolding newest_def by linarith
    then have "int (sc_scrollback (em_screen em (scroll_to em (view - (chunk + 1)) q))) = 0"
      using scroll_to_view(2)[OF laws q(1), of "view - (chunk + 1)"] by (simp add: max_def min_def)
    then have "read_rows em view newest first_row last_row sc ec cols (chunk + 1) t q = Some (t, scroll_to em (view - (chunk + 1)) q)" for t
      using below(1) high(2) by (subst read_rows.simps) (simp add: Let_def)
    then show ?thesis
      using step read below(1) high scroll_to_view(1)[OF laws q(1)]
      by (intro exI[of _ "scroll_to em (view - (chunk + 1)) q"]) auto
  next
    case more
    have next_row: "chunk = newest - (s - view)" using more(1) by (auto simp: chunk_def min_def split: if_splits)
    let ?d = "if ?high = last_row - view then min ec cols else cols"
    let ?tail = "if ?high < last_row - view \<and> \<not> wraps p0 ?high then [10] else []"
    let ?X = "read_screenful em first_row last_row sc ec cols row chunk (s - view) q"
    have "\<exists>p'. same p0 p' \<and> read_rows em view newest first_row last_row sc ec cols (chunk + 1) (acc @ ?X) q
        = Some ((acc @ ?X) @ between p0 (chunk + 1 - view) 0 ?high ?d @ ?tail, p')"
      using less.hyps[of "chunk + 1" q "acc @ ?X"] more next_row q(1) s less.prems chunk(1) by auto
    then obtain p' where p': "same p0 p'" "read_rows em view newest first_row last_row sc ec cols (chunk + 1) (acc @ ?X) q
        = Some ((acc @ ?X) @ between p0 (chunk + 1 - view) 0 ?high ?d @ ?tail, p')" by blast
    have "between p0 (row - view) ?from (chunk - view) cols @ (if wraps p0 (chunk - view) then [] else [10])
        @ between p0 (chunk - view + 1) 0 ?high ?d = between p0 (row - view) ?from ?high ?d"
      by (rule history_laws(12)[OF laws]) (use chunk(1) more next_row in \<open>auto simp: cols_def\<close>)
    moreover have "chunk - view + 1 = chunk + 1 - view" by simp
    ultimately have joined: "?X @ between p0 (chunk + 1 - view) 0 ?high ?d = between p0 (row - view) ?from ?high ?d"
      using read more(1) by (cases "wraps p0 (chunk - view)"; simp split del: if_split)
    show ?thesis
      using p' by (intro exI[of _ p']) (simp only: step append_assoc joined[symmetric] simp_thms)
  qed
qed

lemma read_rows_total:
  fixes p :: 'p and em :: "'p emulator"
  defines "newest \<equiv> int (unat (sc_rows (em_screen em p))) - 1" and "cols \<equiv> sc_cols (em_screen em p)"
  assumes laws: "keeps_history em same between wraps" and rows: "sc_rows (em_screen em p) \<noteq> 0" and order: "first_row \<le> last_row"
  shows "\<exists>p'. same p p' \<and> read_rows em view newest first_row last_row sc ec cols first_row [] p
    = Some (selection_text em between wraps (first_row - view) sc (last_row - view) ec p, p')"
proof -
  let ?len = "int (sc_scrollback_len (em_screen em p))"
  have pp: "same p p" using history_laws(1)[OF laws] .
  note inside = read_rows_in_history[OF laws rows, folded newest_def cols_def]
  define q where "q = scroll_to em (view - first_row) p"
  have q: "same p q" "int (sc_scrollback (em_screen em q)) = max 0 (min (view - first_row) ?len)"
    using scroll_to_view[OF laws pp] by (simp_all add: q_def)
  have newest: "0 \<le> newest" using rows by (simp add: newest_def word_neq_0_conv word_less_def)
  consider (inside) "- ?len \<le> first_row - view" "first_row - view \<le> newest" | (below) "newest < first_row - view"
    | (above) "first_row - view < - ?len"
    by linarith
  then show ?thesis
  proof cases
    case inside
    then show ?thesis
      using read_rows_in_history[OF laws rows pp, of first_row view last_row first_row sc ec "[]"] order
      by (auto simp: selection_text_def Let_def newest_def cols_def max_def)
  next
    case below
    then show ?thesis
      using q newest order
      by (intro exI[of _ q]) (auto simp: read_rows.simps selection_text_def Let_def newest_def simp flip: q_def)
  next
    case above
    then have s: "int (sc_scrollback (em_screen em q)) = ?len" using q(2) by auto
    have step: "read_rows em view newest first_row last_row sc ec cols first_row [] p
        = read_rows em view newest first_row last_row sc ec cols (view - ?len) [] q"
      using above order s newest by (subst read_rows.simps) (auto simp: Let_def simp flip: q_def)
    show ?thesis
    proof (cases "view - ?len \<le> last_row")
      case True
      then show ?thesis
        using read_rows_in_history[OF laws rows q(1), of "view - ?len" view last_row first_row sc ec "[]"] above newest step
        by (auto simp: selection_text_def Let_def newest_def cols_def max_def)
    next
      case False
      then show ?thesis
        using step q(1) above by (intro exI[of _ q]) (auto simp: read_rows.simps selection_text_def Let_def)
    qed
  qed
qed

text \<open>
  C29. Copying a selection returns, however far it reaches above or below the view, with the text of exactly
  the selected rows the pane still has, joined as the emulator joins the rows of one screen, and leaves the
  emulator and the position of its view as they were. The emulator is any that keeps a history of rows and
  shows a view of it.
\<close>

theorem selected_text_spans_history:
  assumes "keeps_history (ce_emulator env) same between wraps" "cl_parser k c = Some p"
    "sc_rows (parser_screen env p) \<noteq> 0" "sc_cols (parser_screen env p) \<noteq> 0" "start_row \<le> end_row"
  shows "\<exists>c' p'. contents_between_rows env k start_row sc end_row ec c = Some
      (let t = selection_text (ce_emulator env) between wraps (start_row - int (sc_scrollback (parser_screen env p))) sc
                 (end_row - int (sc_scrollback (parser_screen env p))) ec p in
       if t = [] then None else Some t, c')
    \<and> cl_parser k c' = Some p' \<and> same p p'
    \<and> sc_scrollback (parser_screen env p') = min (sc_scrollback (parser_screen env p)) (sc_scrollback_len (parser_screen env p))"
proof -
  let ?em = "ce_emulator env" and ?s = "parser_screen env p"
  let ?t = "selection_text ?em between wraps (start_row - int (sc_scrollback ?s)) sc (end_row - int (sc_scrollback ?s)) ec p"
  have rows: "int (unat (sc_rows ?s - 1)) = int (unat (sc_rows ?s)) - 1"
    using assms(3) by (simp add: unat_minus_one of_nat_diff Suc_leI word_neq_0_conv word_less_nat_alt)
  obtain q where q: "same p q" "read_rows ?em (int (sc_scrollback ?s)) (int (unat (sc_rows ?s - 1))) start_row end_row sc ec
      (sc_cols ?s) start_row [] p = Some (?t, q)"
    using read_rows_total[OF assms(1), of p start_row end_row "int (sc_scrollback ?s)" sc ec] assms(3,5)
    unfolding rows unfolding parser_screen_def by blast
  let ?p = "em_set_scrollback ?em (sc_scrollback ?s) q"
  let ?c = "update_entry k (\<lambda>e. e\<lparr>pp_parser := Some ?p\<rparr>) c"
  have "contents_between_rows env k start_row sc end_row ec c = Some (if ?t = [] then None else Some ?t, ?c)"
    using assms(2-5) q(2) by (simp add: contents_between_rows_def Let_def)
  moreover have "cl_parser k ?c = Some ?p"
    by (simp add: cl_parser_def update_entry_def put_pane_def cl_pane_def update_conv')
  moreover have "same p ?p" using history_laws(2)[OF assms(1) q(1) history_laws(3)[OF assms(1)]] .
  moreover have "sc_scrollback (parser_screen env ?p) = min (sc_scrollback ?s) (sc_scrollback_len ?s)"
    using history_laws(9)[OF assms(1)] history_laws(6)[OF assms(1) q(1)] by (simp add: parser_screen_def)
  ultimately show ?thesis by (intro exI[of _ ?c] exI[of _ ?p]) (simp add: Let_def)
qed

text \<open>A pane of two rows above which three are kept; the row \<open>r\<close> below the top of the newest screen holds the character \<open>r + 68\<close>.\<close>

definition lettered_rows :: "nat \<Rightarrow> int \<Rightarrow> u16 \<Rightarrow> int \<Rightarrow> u16 \<Rightarrow> ustring" where
  "lettered_rows p a c b d = map (\<lambda>r. word_of_int (r + 68)) [a..b]"

definition lettered_emulator :: "nat emulator" where
  "lettered_emulator =
     \<lparr>em_new = (\<lambda>_ _ _. 0), em_process = (\<lambda>p _. p), em_set_size = (\<lambda>_ _ p. p), em_set_scrollback = (\<lambda>n _. min n 3),
      em_screen = (\<lambda>p. \<lparr>sc_rows = 2, sc_cols = 10, sc_cursor = (0, 0), sc_title = [], sc_alternate = False,
        sc_mouse_mode = MouseOff, sc_mouse_encoding = EncodingDefault, sc_bracketed_paste = False,
        sc_application_cursor = False, sc_application_keypad = False, sc_scrollback = p, sc_scrollback_len = 3, sc_lines = []\<rparr>),
      em_is_wide = (\<lambda>_ _ _. None),
      em_contents_between = (\<lambda>p a c b d. lettered_rows p (int (unat a) - int p) c (int (unat b) - int p) d),
      em_row_wrapped = (\<lambda>_ _. True)\<rparr>"

definition lettered_env :: "nat client_env" where
  "lettered_env = \<lparr>ce_emulator = lettered_emulator, ce_debug = \<lparr>dbg_status_error = (\<lambda>_. []), dbg_message = (\<lambda>_. [])\<rparr>,
     ce_round_trips = 0, ce_var = (\<lambda>_. None)\<rparr>"

lemma lettered_keeps_history: "keeps_history lettered_emulator (\<lambda>_ _. True) lettered_rows (\<lambda>_ _. True)"
proof -
  have "lettered_rows p a c b d = lettered_rows p a c m w @ lettered_rows p (m + 1) 0 b d" if "a \<le> m \<and> m < b" for p a m b c d w
    using that upto_split2[of a m b] by (simp add: lettered_rows_def)
  then show ?thesis unfolding keeps_history_def by (auto simp: lettered_emulator_def fun_eq_iff lettered_rows_def)
qed

theorem selected_text_spans_history_witness:
  "\<exists>c'. contents_between_rows lettered_env (PtyTerminal (TerminalId 5)) (-1) 0 2 5
      (update_entry (PtyTerminal (TerminalId 5)) (\<lambda>e. e\<lparr>pp_parser := Some 2\<rparr>) (client_disconnected [] []))
    = Some (Some (ascii ''ABCD''), c')"
proof -
  let ?k = "PtyTerminal (TerminalId 5)"
  let ?c = "update_entry ?k (\<lambda>e. e\<lparr>pp_parser := Some 2\<rparr>) (client_disconnected [] [])"
  have "cl_parser ?k ?c = Some 2" by (simp add: cl_parser_def update_entry_def put_pane_def cl_pane_def update_conv')
  moreover have screen: "sc_scrollback (parser_screen lettered_env 2) = 2" "sc_rows (parser_screen lettered_env 2) \<noteq> 0"
    "sc_cols (parser_screen lettered_env 2) \<noteq> 0" "ce_emulator lettered_env = lettered_emulator"
    by (simp_all add: lettered_env_def parser_screen_def lettered_emulator_def)
  moreover have "selection_text lettered_emulator lettered_rows (\<lambda>_ _. True) (-3) 0 0 5 2 = ascii ''ABCD''"
    by (simp add: selection_text_def lettered_emulator_def lettered_rows_def Let_def ascii_def upto.simps)
  moreover have "ascii ''ABCD'' \<noteq> []" by (simp add: ascii_def)
  ultimately show ?thesis
    using selected_text_spans_history[of lettered_env "\<lambda>_ _. True" lettered_rows "\<lambda>_ _. True" ?k ?c 2 "-1" 2 0 5]
      lettered_keeps_history by (simp add: Let_def) blast
qed

end
