(* ===== verification/Pty_Replay.thy ===== *)
theory Pty_Replay
  imports Pty_Attach
begin

text \<open>
  What an attach makes of a replay that arrives: the messages a complete replay consists of, in the order
  the protocol fixes, and the attachment they end in.
\<close>

section \<open>A complete replay\<close>

fun chunk_messages :: "request_id \<Rightarrow> pane_id \<Rightarrow> attachment_lease \<Rightarrow> nat \<Rightarrow> bytes list \<Rightarrow> server_message list" where
  "chunk_messages r pane lease sq [] = []"
| "chunk_messages r pane lease sq (bs # chunks) =
     SReplayChunk r pane lease (OutputSequence (of_nat sq)) bs # chunk_messages r pane lease (sq + length bs) chunks"

definition replay_messages ::
    "request_id \<Rightarrow> session_id \<Rightarrow> pane_info \<Rightarrow> attachment_lease \<Rightarrow> nat \<Rightarrow> bytes list \<Rightarrow> server_message list" where
  "replay_messages r session info lease first chunks =
     (let watermark = OutputSequence (of_nat (first + length (concat chunks))) in
      SAttachResult r (AOAttached session info lease) #
      SReplayBegin r (pi_id info) lease (OutputSequence (of_nat first)) watermark (of_nat first) #
      chunk_messages r (pi_id info) lease first chunks @ [SReplayEnd r (pi_id info) lease watermark])"

text \<open>Messages at the head of a channel, none later than the silence an attach bears after the one before.\<close>

fun arrive_steadily :: "nat \<Rightarrow> server_message list \<Rightarrow> (nat \<times> net_event) list \<Rightarrow> bool" where
  "arrive_steadily now [] incoming \<longleftrightarrow> True"
| "arrive_steadily now (m # ms) [] \<longleftrightarrow> False"
| "arrive_steadily now (m # ms) ((t, event) # incoming) \<longleftrightarrow>
     event = NetMessage m \<and> t \<le> now + ATTACH_ACK_TIMEOUT \<and> arrive_steadily (max now t) ms incoming"

definition incoming_of :: "'p client \<Rightarrow> (nat \<times> net_event) list" where
  "incoming_of c = (case cl_connection c of Some cn \<Rightarrow> cn_incoming cn | None \<Rightarrow> [])"

section \<open>Receiving it\<close>

lemma sequence_of_nat: "sq < 2 ^ 64 \<Longrightarrow> unat (of_nat sq :: u64) = sq"
  by (simp add: unsigned_of_nat take_bit_nat_eq_self)

lemma checked_add_of_nat:
  assumes "sq + n < 2 ^ 64"
  shows "checked_add_bytes (OutputSequence (of_nat sq)) n = Some (OutputSequence (of_nat (sq + n)))"
proof -
  have "u64_checked_add (of_nat sq) (of_nat n) = Some (of_nat sq + of_nat n)"
    using assms sequence_of_nat[of "sq + n"] by (subst u64_checked_add_Some_iff) (simp add: sequence_of_nat)
  then show ?thesis using assms by (simp add: checked_add_bytes_def)
qed

text \<open>Only the clock and the connection of a client changed.\<close>

definition same_but_net :: "'p client \<Rightarrow> 'p client \<Rightarrow> bool" where
  "same_but_net c c' \<longleftrightarrow> (\<exists>now cn. c' = c\<lparr>cl_now := now, cl_connection := cn\<rparr>)"

lemma same_but_net_trans: "same_but_net a b \<Longrightarrow> same_but_net b c \<Longrightarrow> same_but_net a c"
  unfolding same_but_net_def by (elim exE) (hypsubst, simp, blast)

lemma receive_arrived:
  assumes "take_answer r (cl_deferred c) = None" "arrive_steadily (cl_now c) (m # ms) (incoming_of c)"
    "message_request_id m = Some r"
  obtains c' where "receive_for_request r (cl_now c + ATTACH_ACK_TIMEOUT) c = (Inr m, c')" "same_but_net c c'"
    "arrive_steadily (cl_now c') ms (incoming_of c')"
proof -
  obtain cn where cn: "cl_connection c = Some cn"
    using assms(2) by (cases "cl_connection c") (auto simp: incoming_of_def)
  obtain t rest where head: "cn_incoming cn = (t, NetMessage m) # rest" "t \<le> cl_now c + ATTACH_ACK_TIMEOUT"
    "arrive_steadily (max (cl_now c) t) ms rest"
    using assms(2) cn by (cases "cn_incoming cn") (auto simp: incoming_of_def)
  let ?c = "c\<lparr>cl_now := max (cl_now c) t, cl_connection := Some (cn\<lparr>cn_incoming := rest\<rparr>)\<rparr>"
  have "0 < ATTACH_ACK_TIMEOUT" by (simp add: ATTACH_ACK_TIMEOUT_def milliseconds_def)
  then have "receive_for_request r (cl_now c + ATTACH_ACK_TIMEOUT) c = (Inr m, ?c)"
    using assms(1,3) cn head(1,2)
    by (subst receive_for_request_def) (simp add: receive_loop.simps recv_deadline_def Let_def)
  moreover have "same_but_net c ?c" unfolding same_but_net_def by blast
  moreover have "arrive_steadily (cl_now ?c) ms (incoming_of ?c)" using head(3) by (simp add: incoming_of_def)
  ultimately show ?thesis using that by blast
qed

lemma same_but_net_deferred: "same_but_net c c' \<Longrightarrow> cl_deferred c' = cl_deferred c"
  by (auto simp: same_but_net_def)

lemma attach_chunks:
  assumes "take_answer r (cl_deferred c) = None"
    "arrive_steadily (cl_now c) (chunk_messages r (pane_for_key k) lease sq chunks @ [SReplayEnd r (pane_for_key k) lease w]) (incoming_of c)"
    "rp_lease rp = Some lease" "rp_next rp = Some (OutputSequence (of_nat sq))" "rp_watermark rp = Some w"
    "w = OutputSequence (of_nat (sq + length (concat chunks)))" "sq + length (concat chunks) < 2 ^ 64"
  shows "\<exists>c'. attach_loop env svc k session dims r request (Suc (length chunks + n)) (cl_now c + ATTACH_ACK_TIMEOUT) rp c
      = Some (Inr (), commit_replay env k lease w (rp\<lparr>rp_bytes := rp_bytes rp @ concat chunks, rp_next := Some w\<rparr>) c')
    \<and> same_but_net c c'"
  using assms
proof (induction chunks arbitrary: c sq rp)
  case Nil
  then obtain c' where "receive_for_request r (cl_now c + ATTACH_ACK_TIMEOUT) c
      = (Inr (SReplayEnd r (pane_for_key k) lease w), c')" "same_but_net c c'"
    by (auto elim: receive_arrived)
  moreover have "rp\<lparr>rp_bytes := rp_bytes rp @ concat [], rp_next := Some w\<rparr> = rp"
    using Nil(4,6) by (cases rp) simp
  moreover have "attach_turn session (pane_for_key k) r (SReplayEnd r (pane_for_key k) lease w) rp = AttachCommits lease w"
    using Nil by (simp add: attach_turn_def replay_end_turn_def)
  ultimately show ?case by (intro exI[of _ c'] conjI) (simp_all add: Let_def)
next
  case (Cons bs chunks)
  let ?m = "SReplayChunk r (pane_for_key k) lease (OutputSequence (of_nat sq)) bs"
  obtain c1 where c1: "receive_for_request r (cl_now c + ATTACH_ACK_TIMEOUT) c = (Inr ?m, c1)" "same_but_net c c1"
    "arrive_steadily (cl_now c1) (chunk_messages r (pane_for_key k) lease (sq + length bs) chunks
       @ [SReplayEnd r (pane_for_key k) lease w]) (incoming_of c1)"
    using Cons.prems(1,2) by (auto elim: receive_arrived)
  let ?rp = "rp\<lparr>rp_bytes := rp_bytes rp @ bs, rp_next := Some (OutputSequence (of_nat (sq + length bs)))\<rparr>"
  have add: "checked_add_bytes (OutputSequence (of_nat sq)) (length bs) = Some (OutputSequence (of_nat (sq + length bs)))"
    using Cons.prems(7) by (intro checked_add_of_nat) simp
  have "\<not> sequence_less w (OutputSequence (of_nat (sq + length bs)))"
    using Cons.prems(6,7) sequence_of_nat[of "sq + length (concat (bs # chunks))"] sequence_of_nat[of "sq + length bs"]
    by (simp add: sequence_less_def word_less_nat_alt del: of_nat_add)
  then have turn: "attach_turn session (pane_for_key k) r ?m rp = AttachContinues ?rp"
    using Cons.prems(3-5) add by (simp add: attach_turn_def replay_chunk_turn_def)
  have "\<exists>c'. attach_loop env svc k session dims r request (Suc (length chunks + n)) (cl_now c1 + ATTACH_ACK_TIMEOUT) ?rp c1
      = Some (Inr (), commit_replay env k lease w
          (?rp\<lparr>rp_bytes := rp_bytes ?rp @ concat chunks, rp_next := Some w\<rparr>) c') \<and> same_but_net c1 c'"
    by (rule Cons.IH[where sq = "sq + length bs"])
      (use Cons.prems c1 in \<open>simp_all add: same_but_net_deferred add.assoc\<close>)
  then obtain c' where "attach_loop env svc k session dims r request (Suc (length chunks + n)) (cl_now c1 + ATTACH_ACK_TIMEOUT) ?rp c1
      = Some (Inr (), commit_replay env k lease w
          (?rp\<lparr>rp_bytes := rp_bytes ?rp @ concat chunks, rp_next := Some w\<rparr>) c')" "same_but_net c1 c'"
    by blast
  then show ?case
    using c1(1,2) turn same_but_net_trans[of c c1 c'] by (auto simp: Let_def simp del: attach_loop.simps) (auto simp: Let_def)
qed


lemma attach_replay:
  assumes "take_answer r (cl_deferred c) = None"
    "arrive_steadily (cl_now c) (replay_messages r session info lease first chunks) (incoming_of c)"
    "pi_id info = pane_for_key k" "first + length (concat chunks) < 2 ^ 64"
  shows "\<exists>now cn rp. attach_loop env svc k session dims r request (length chunks + 3 + n) (cl_now c + ATTACH_ACK_TIMEOUT) no_replay c
      = Some (Inr (), commit_replay env k lease (OutputSequence (of_nat (first + length (concat chunks)))) rp
          (resize_parser env k \<lparr>dim_rows = pi_rows info, dim_cols = pi_cols info\<rparr> c\<lparr>cl_now := now, cl_connection := cn\<rparr>))
    \<and> rp_bytes rp = concat chunks \<and> rp_omitted rp = of_nat first"
proof -
  define w where "w = OutputSequence (of_nat (first + length (concat chunks)))"
  define tail where "tail = chunk_messages r (pane_for_key k) lease first chunks @ [SReplayEnd r (pane_for_key k) lease w]"
  let ?opening = "SReplayBegin r (pane_for_key k) lease (OutputSequence (of_nat first)) w (of_nat first)"
  let ?accept = "SAttachResult r (AOAttached session info lease)"
  let ?T = "\<lambda>c. cl_now c + ATTACH_ACK_TIMEOUT"
  let ?loop = "attach_loop env svc k session dims r request"
  have messages: "replay_messages r session info lease first chunks = ?accept # ?opening # tail"
    using assms(3) by (simp add: replay_messages_def tail_def w_def Let_def)
  obtain c1 where c1: "receive_for_request r (?T c) c = (Inr ?accept, c1)" "same_but_net c c1"
    "arrive_steadily (cl_now c1) (?opening # tail) (incoming_of c1)"
    using assms(1,2) messages by (auto elim: receive_arrived)
  let ?c1 = "resize_parser env k \<lparr>dim_rows = pi_rows info, dim_cols = pi_cols info\<rparr> c1"
  have resized: "cl_now ?c1 = cl_now c1" "incoming_of ?c1 = incoming_of c1" "cl_deferred ?c1 = cl_deferred c1"
    by (simp_all add: resize_parser_def update_entry_def put_pane_def incoming_of_def Let_def)
  have d1: "take_answer r (cl_deferred ?c1) = None" using assms(1) c1(2) resized by (simp add: same_but_net_deferred)
  obtain c2 where c2: "receive_for_request r (?T ?c1) ?c1 = (Inr ?opening, c2)" "same_but_net ?c1 c2"
    "arrive_steadily (cl_now c2) tail (incoming_of c2)"
    using receive_arrived[OF d1, of ?opening tail] c1(3) resized by auto
  have d2: "take_answer r (cl_deferred c2) = None" using d1 c2(2) by (simp add: same_but_net_deferred)
  let ?rp1 = "no_replay\<lparr>rp_lease := Some lease\<rparr>"
  let ?rp2 = "?rp1\<lparr>rp_next := Some (OutputSequence (of_nat first)), rp_watermark := Some w, rp_omitted := of_nat first\<rparr>"
  have "\<not> sequence_less w (OutputSequence (of_nat first))"
    using assms(4) sequence_of_nat[of "first + length (concat chunks)"] sequence_of_nat[of first]
    by (simp add: w_def sequence_less_def word_less_nat_alt del: of_nat_add)
  then have turns: "attach_turn session (pane_for_key k) r ?accept no_replay = AttachAccepted info ?rp1"
    "attach_turn session (pane_for_key k) r ?opening ?rp1 = AttachContinues ?rp2"
    using assms(3) by (simp_all add: attach_turn_def attach_result_turn_def replay_begin_turn_def no_replay_def)
  have "\<exists>c3. ?loop (Suc (length chunks + n)) (?T c2) ?rp2 c2
      = Some (Inr (), commit_replay env k lease w (?rp2\<lparr>rp_bytes := rp_bytes ?rp2 @ concat chunks, rp_next := Some w\<rparr>) c3)
      \<and> same_but_net c2 c3"
    by (rule attach_chunks[OF d2 c2(3)[unfolded tail_def]]) (use assms(4) in \<open>simp_all add: w_def\<close>)
  then obtain c3 where c3: "?loop (Suc (length chunks + n)) (?T c2) ?rp2 c2
      = Some (Inr (), commit_replay env k lease w (?rp2\<lparr>rp_bytes := rp_bytes ?rp2 @ concat chunks, rp_next := Some w\<rparr>) c3)"
    "same_but_net c2 c3"
    by blast
  have "?loop (length chunks + 3 + n) (?T c) no_replay c = ?loop (Suc (Suc (length chunks + n))) (?T ?c1) ?rp1 ?c1"
    using c1(1) turns(1) resized by (simp add: numeral_3_eq_3 Let_def)
  also have "\<dots> = ?loop (Suc (length chunks + n)) (?T c2) ?rp2 c2"
    using c2(1) turns(2) by (simp only: attach_loop.simps(2)) (simp add: Let_def)
  finally have run: "?loop (length chunks + 3 + n) (?T c) no_replay c = \<dots>" .
  have "\<exists>now cn. c3 = resize_parser env k \<lparr>dim_rows = pi_rows info, dim_cols = pi_cols info\<rparr> c\<lparr>cl_now := now, cl_connection := cn\<rparr>"
  proof -
    obtain now cn where "c3 = ?c1\<lparr>cl_now := now, cl_connection := cn\<rparr>"
      using same_but_net_trans[OF c2(2) c3(2)] by (auto simp: same_but_net_def)
    moreover obtain now' cn' where "c1 = c\<lparr>cl_now := now', cl_connection := cn'\<rparr>"
      using c1(2) by (auto simp: same_but_net_def)
    ultimately show ?thesis
      by (auto simp: resize_parser_def update_entry_def put_pane_def pane_entry_def cl_pane_def Let_def)
  qed
  then obtain now cn where state:
    "c3 = resize_parser env k \<lparr>dim_rows = pi_rows info, dim_cols = pi_cols info\<rparr> c\<lparr>cl_now := now, cl_connection := cn\<rparr>"
    by blast
  show ?thesis
    using run c3(1) unfolding state w_def[symmetric]
    by (intro exI[of _ now] exI[of _ cn] exI[of _ "?rp2\<lparr>rp_bytes := rp_bytes ?rp2 @ concat chunks, rp_next := Some w\<rparr>"])
      (simp add: no_replay_def)
qed

end
