(* ===== verification/Attach_Delivery.thy ===== *)
theory Attach_Delivery
  imports Daemon_Attach Pty_Replay
begin

text \<open>
  The two ends of an attach together: what the daemon's transaction puts in the client's channel is a
  complete replay, and a client that receives it ends attached, its emulator fed with exactly the output
  the daemon retained.
\<close>

section \<open>What the daemon sends\<close>

definition channel_of :: "client_id \<Rightarrow> daemon \<Rightarrow> client_delivery list" where
  "channel_of cid d = ch_queue (d_channels d cid)"

lemma try_enqueue_channel:
  "try_enqueue cid delivery d = (True, d') \<Longrightarrow> channel_of cid d' = channel_of cid d @ [delivery]"
  by (auto simp: try_enqueue_def ch_try_enqueue_def ch_try_send_def channel_of_def split: prod.splits if_splits)

lemma deliver_chain_channel:
  "deliver_chain cid ms d = (True, d') \<Longrightarrow> channel_of cid d' = channel_of cid d @ map DeliverMessage ms"
  by (induction ms arbitrary: d)
    (auto simp: try_deliver_def dest!: try_enqueue_channel split: prod.splits if_splits)

fun chunk_deliveries :: "request_id \<Rightarrow> pane_id \<Rightarrow> attachment_lease \<Rightarrow> nat \<Rightarrow> bytes list \<Rightarrow> client_delivery list" where
  "chunk_deliveries r pane lease sq [] = []"
| "chunk_deliveries r pane lease sq (bs # chunks) =
     DeliverReplay r pane lease (OutputSequence (of_nat sq)) bs # chunk_deliveries r pane lease (sq + length bs) chunks"

lemma deliver_replay_channel:
  assumes "deliver_replay cid r pane lease chunks True (OutputSequence (of_nat sq)) d = (Some (True, sq'), d')"
    "sq + length (concat chunks) < 2 ^ 64"
  shows "channel_of cid d' = channel_of cid d @ chunk_deliveries r pane lease sq chunks"
  using assms
proof (induction chunks arbitrary: sq d)
  case (Cons bs chunks)
  obtain accepted d1 where first: "try_enqueue cid (DeliverReplay r pane lease (OutputSequence (of_nat sq)) bs) d = (accepted, d1)"
    by fastforce
  have add: "checked_add_bytes (OutputSequence (of_nat sq)) (length bs) = Some (OutputSequence (of_nat (sq + length bs)))"
    using Cons.prems(2) by (intro checked_add_of_nat) simp
  have rest: "deliver_replay cid r pane lease chunks accepted (OutputSequence (of_nat (sq + length bs))) d1 = (Some (True, sq'), d')"
    using Cons.prems(1) first add by simp
  then have accepted by (cases accepted; cases chunks) auto
  then show ?case
    using Cons.IH[of "sq + length bs" d1] rest Cons.prems(2) first try_enqueue_channel[of cid _ d d1] by (simp add: add.assoc)
qed simp

lemma chunk_deliveries_messages:
  "map delivery_message (chunk_deliveries r pane lease sq chunks) = map Some (chunk_messages r pane lease sq chunks)"
  by (induction chunks arbitrary: sq) simp_all

definition sent_messages :: "client_id \<Rightarrow> daemon \<Rightarrow> daemon \<Rightarrow> server_message list" where
  "sent_messages cid d d' =
     map (the \<circ> delivery_message) (drop (length (channel_of cid d)) (channel_of cid d'))"

lemma attach_transaction_sends_replay:
  assumes "retains p stream" "length stream < 2 ^ 64"
    "deliver_attach_transaction cid (SAttachResult r (AOAttached session (pane_info_of p) lease)) r lease p foreground d
       = (True, d')"
  obtains chunks where "concat chunks = drop (unat (sequence_get (ps_history_start p))) stream"
    "sent_messages cid d d' =
       replay_messages r session (pane_info_of p) lease (unat (sequence_get (ps_history_start p))) chunks
       @ [SForegroundProcess (ps_pane p) lease foreground]"
proof -
  define first where "first = unat (sequence_get (ps_history_start p))"
  let ?accept = "SAttachResult r (AOAttached session (pane_info_of p) lease)"
  let ?opening = "SReplayBegin r (ps_pane p) lease (ps_history_start p) (ps_next_output p) (sequence_get (ps_history_start p))"
  let ?closing = "SReplayEnd r (ps_pane p) lease (ps_next_output p)"
  let ?foreground = "SForegroundProcess (ps_pane p) lease foreground"
  obtain accepted d1 where chain: "deliver_chain cid [?accept, ?opening] d = (accepted, d1)"
    by (cases "deliver_chain cid [?accept, ?opening] d")
  obtain chunks where chunks: "replay_chunks (ps_raw_history p) = Some chunks"
    using assms(3) chain by (auto simp: deliver_attach_transaction_def split: option.splits)
  have bytes: "concat chunks = drop first stream"
    using assms(1) chunks by (auto simp: retains_def replay_chunks_eq concat_chunks_of RAW_HISTORY_CHUNK_BYTES_def first_def)
  have fits: "first \<le> length stream" "unat (sequence_get (ps_next_output p)) = length stream"
    using assms(1) by (auto simp: retains_def first_def)
  have start: "ps_history_start p = OutputSequence (of_nat first)" by (simp add: first_def)
  have watermark: "ps_next_output p = OutputSequence (of_nat (first + length (concat chunks)))"
  proof -
    have "of_nat (first + length (concat chunks)) = (of_nat (unat (sequence_get (ps_next_output p))) :: u64)"
      using fits bytes by simp
    then show ?thesis by simp
  qed
  obtain sq' d2 where replay: "deliver_replay cid r (ps_pane p) lease chunks accepted (ps_history_start p) d1 = (Some (True, sq'), d2)"
    and last: "deliver_chain cid [?closing, ?foreground] d2 = (True, d')"
    using assms(3) chain chunks by (auto simp: deliver_attach_transaction_def split: option.splits prod.splits if_splits)
  have accepted using replay by (cases accepted; cases chunks) auto
  then have "deliver_chain cid [?accept, ?opening] d = (True, d1)" using chain by simp
  then have c1: "channel_of cid d1 = channel_of cid d @ map DeliverMessage [?accept, ?opening]"
    by (rule deliver_chain_channel)
  have c2: "channel_of cid d2 = channel_of cid d1 @ chunk_deliveries r (ps_pane p) lease first chunks"
    using deliver_replay_channel[of cid r "ps_pane p" lease chunks first d1 sq' d2] replay \<open>accepted\<close> start fits bytes assms(2)
    by simp
  have "channel_of cid d' = channel_of cid d2 @ map DeliverMessage [?closing, ?foreground]"
    using last by (rule deliver_chain_channel)
  then have sent: "sent_messages cid d d' = [?accept, ?opening]
      @ map (the \<circ> delivery_message) (chunk_deliveries r (ps_pane p) lease first chunks) @ [?closing, ?foreground]"
    using c1 c2 by (simp add: sent_messages_def)
  have "map (the \<circ> delivery_message) (chunk_deliveries r (ps_pane p) lease first chunks)
      = chunk_messages r (ps_pane p) lease first chunks"
    using arg_cong[OF chunk_deliveries_messages, of "map the"] by (simp add: o_def)
  then have "sent_messages cid d d' = replay_messages r session (pane_info_of p) lease first chunks @ [?foreground]"
    using sent start watermark by (simp add: replay_messages_def pane_info_of_def Let_def del: of_nat_add)
  then show ?thesis using that bytes first_def by blast
qed


section \<open>What the client makes of it\<close>

lemma arrive_steadily_append: "arrive_steadily now (xs @ ys) incoming \<Longrightarrow> arrive_steadily now xs incoming"
  by (induction now xs incoming rule: arrive_steadily.induct) auto

lemma client_service_busy: "cl_pending_requests c \<noteq> [] \<Longrightarrow> client_service env (Suc n) c = Some c"
  by (simp add: service_reattachments_def)

lemma write_request_now:
  assumes "cl_connection c = Some cn" "cl_pending_connect c = None" "cl_pending_requests c \<noteq> []"
    "cn_writes cn = [] \<or> hd (cn_writes cn) = Written"
  obtains cn' where "write_idempotent_request (client_service env (Suc n)) m c
      = Some (Inr (), c\<lparr>cl_connection := Some cn', cl_sent := cl_sent c @ [m]\<rparr>)" "cn_incoming cn' = cn_incoming cn"
proof -
  have "ensure_connected (client_service env (Suc n)) c = Some (Inr (), c)"
    using assms(1-3) by (simp add: ensure_connected_def poll_connector_def client_service_busy del: client_service.simps)
  moreover obtain cn' where "take_write cn = (Written, cn')" "cn_incoming cn' = cn_incoming cn"
    using assms(4) by (cases "cn_writes cn") (auto simp: take_write_def)
  ultimately show ?thesis
    using that assms(1) by (simp add: write_idempotent_request_def write_frame_def)
qed

definition entry_shows :: "'p client_env \<Rightarrow> bytes \<Rightarrow> 'p pty_pane \<Rightarrow> 'p pty_pane" where
  "entry_shows env bs e = (if bs = [] then e else snd (feed_entry env bs e))"

lemma commit_replay_pane:
  "cl_pane k (commit_replay env k lease w rp c) =
     Some ((entry_shows env (rp_bytes rp) (pane_entry k c))\<lparr>pp_lease := Some lease, pp_expected_output := Some w\<rparr>)"
  by (auto simp: commit_replay_def unqueue_reattachment_def push_event_def process_terminal_output_def
      update_entry_def put_pane_def cl_pane_def pane_entry_def entry_shows_def Let_def update_conv')

lemma perform_attach_replay:
  assumes net: "cl_connection c = Some cn" "cl_pending_connect c = None" "cl_pending_requests c \<noteq> []"
      "cn_writes cn = [] \<or> hd (cn_writes cn) = Written"
    and replay: "take_answer r (cl_deferred c) = None"
      "arrive_steadily (cl_now c) (replay_messages r session info lease first chunks) (cn_incoming cn)"
      "pi_id info = pane_for_key k" "first + length (concat chunks) < 2 ^ 64"
  shows "\<exists>c'. perform_attach env (client_service env (Suc n)) k session dims r request (length chunks + 3 + m) c = Some (Inr (), c') \<and>
    cl_pane k c' = Some ((entry_shows env (concat chunks)
        (pane_entry k (resize_parser env k \<lparr>dim_rows = pi_rows info, dim_cols = pi_cols info\<rparr> c)))
      \<lparr>pp_lease := Some lease, pp_expected_output := Some (OutputSequence (of_nat (first + length (concat chunks))))\<rparr>)"
proof -
  let ?c = "unqueue_reattachment k c"
  let ?w = "OutputSequence (of_nat (first + length (concat chunks)))"
  let ?dims = "\<lparr>dim_rows = pi_rows info, dim_cols = pi_cols info\<rparr>"
  obtain cn' where written: "write_idempotent_request (client_service env (Suc n)) request ?c
      = Some (Inr (), ?c\<lparr>cl_connection := Some cn', cl_sent := cl_sent ?c @ [request]\<rparr>)" "cn_incoming cn' = cn_incoming cn"
    using write_request_now[of ?c cn env n request] net by (auto simp: unqueue_reattachment_def)
  define c1 where "c1 = ?c\<lparr>cl_connection := Some cn', cl_sent := cl_sent ?c @ [request]\<rparr>"
  have "take_answer r (cl_deferred c1) = None"
    "arrive_steadily (cl_now c1) (replay_messages r session info lease first chunks) (incoming_of c1)"
    using replay(1,2) written(2) by (simp_all add: c1_def unqueue_reattachment_def incoming_of_def)
  from attach_replay[OF this replay(3,4)] obtain now cn2 rp where loop:
    "attach_loop env (client_service env (Suc n)) k session dims r request (length chunks + 3 + m) (cl_now c1 + ATTACH_ACK_TIMEOUT) no_replay c1
      = Some (Inr (), commit_replay env k lease ?w rp (resize_parser env k ?dims c1\<lparr>cl_now := now, cl_connection := cn2\<rparr>))"
    "rp_bytes rp = concat chunks" by blast
  let ?c' = "commit_replay env k lease ?w rp (resize_parser env k ?dims c1\<lparr>cl_now := now, cl_connection := cn2\<rparr>)"
  have "perform_attach env (client_service env (Suc n)) k session dims r request (length chunks + 3 + m) c = Some (Inr (), ?c')"
    using written(1) loop(1) by (simp add: perform_attach_def c1_def del: attach_loop.simps client_service.simps of_nat_add)
  moreover have "pane_entry k (resize_parser env k ?dims c1\<lparr>cl_now := now, cl_connection := cn2\<rparr>)
      = pane_entry k (resize_parser env k ?dims c)"
    by (simp add: c1_def unqueue_reattachment_def resize_parser_def update_entry_def put_pane_def pane_entry_def cl_pane_def Let_def)
  ultimately show ?thesis
    using commit_replay_pane[of k env lease ?w rp "resize_parser env k ?dims c1\<lparr>cl_now := now, cl_connection := cn2\<rparr>"] loop(2)
    by (intro exI[of _ ?c']) (simp del: of_nat_add client_service.simps)
qed



section \<open>An instance\<close>

text \<open>An emulator that keeps the bytes it is fed.\<close>

definition sample_emulator :: "bytes emulator" where
  "sample_emulator =
     \<lparr>em_new = (\<lambda>_ _ _. []), em_process = (@), em_set_size = (\<lambda>_ _ p. p), em_set_scrollback = (\<lambda>_ p. p),
      em_screen = (\<lambda>_. \<lparr>sc_rows = 24, sc_cols = 80, sc_cursor = (0, 0), sc_title = [], sc_alternate = False,
        sc_mouse_mode = MouseOff, sc_mouse_encoding = EncodingDefault, sc_bracketed_paste = False,
        sc_application_cursor = False, sc_application_keypad = False, sc_scrollback = 0, sc_scrollback_len = 0, sc_lines = []\<rparr>),
      em_is_wide = (\<lambda>_ _ _. None), em_contents_between = (\<lambda>_ _ _ _ _. []),
      em_row_wrapped = (\<lambda>_ _. False)\<rparr>"

definition sample_env :: "bytes client_env" where
  "sample_env =
     \<lparr>ce_emulator = sample_emulator, ce_debug = \<lparr>dbg_status_error = (\<lambda>_. []), dbg_message = (\<lambda>_. [])\<rparr>,
      ce_round_trips = 0, ce_var = (\<lambda>_. None)\<rparr>"

definition sample_pane :: pane_state where
  "sample_pane = (pane_new (SessionId 5) sample_identity None [] [] 24 80 100 100)
     \<lparr>ps_raw_history := push_chunk raw_history_default [65], ps_next_output := OutputSequence 1\<rparr>"

definition sample_daemon :: daemon where
  "sample_daemon = (daemon_new (projr (server_new (Inr 5))))\<lparr>d_channels := (\<lambda>_. ch_new)\<rparr>"

definition sample_accept :: server_message where
  "sample_accept = SAttachResult (RequestId 3) (AOAttached (SessionId 5) (pane_info_of sample_pane) lease_MIN)"

definition sample_foreground :: foreground_info where
  "sample_foreground = \<lparr>fg_root_pid = None, fg_foreground_pid = None, fg_command = None\<rparr>"

definition sample_sent :: "server_message list" where
  "sample_sent = sent_messages 1 sample_daemon
     (snd (deliver_attach_transaction 1 sample_accept (RequestId 3) lease_MIN sample_pane sample_foreground sample_daemon))"

definition sample_client :: "bytes client" where
  "sample_client = (client_disconnected [] [])
     \<lparr>cl_connection := Some \<lparr>cn_incoming = map (\<lambda>m. (0, NetMessage m)) sample_sent, cn_writes = []\<rparr>,
      cl_pending_requests := [RequestId 3]\<rparr>"

lemma arrive_at_once: "arrive_steadily 0 ms (map (\<lambda>m. (0, NetMessage m)) ms)"
  by (induction ms) simp_all

lemma sample_retains: "retains sample_pane [65]"
proof -
  have ok: "history_ok raw_history_default" "history_bytes raw_history_default = []"
    using retains_new[of "SessionId 5" sample_identity None "[]" "[]" 24 80 100 100] by (simp_all add: retains_def pane_new_def)
  show ?thesis
    using push_chunk_ok[OF ok(1), of "[65]"] ok(2)
    by (simp add: sample_pane_def retains_def pane_new_def sequence_ZERO_def RAW_HISTORY_CHUNK_BYTES_def)
qed

lemma sample_replay: "replay_chunks (ps_raw_history sample_pane) = Some [[65]]"
proof -
  have "history_ok (ps_raw_history sample_pane)" "history_bytes (ps_raw_history sample_pane) = [65]"
    using sample_retains by (auto simp: retains_def sample_pane_def pane_new_def sequence_ZERO_def)
  then show ?thesis by (simp add: replay_chunks_eq chunks_of.simps[of _ "[65]"] RAW_HISTORY_CHUNK_BYTES_def)
qed

lemma sample_delivered:
  "\<exists>d'. deliver_attach_transaction 1 sample_accept (RequestId 3) lease_MIN sample_pane sample_foreground sample_daemon = (True, d')"
  unfolding deliver_attach_transaction_def sample_replay
  by (simp add: try_deliver_def try_enqueue_def ch_try_enqueue_def ch_try_send_def sample_daemon_def ch_new_def
      CLIENT_QUEUE_CAPACITY_def checked_add_bytes_def u64_checked_add_def sample_pane_def pane_new_def sequence_ZERO_def)


end
