(* ===== verification/Transcript.thy ===== *)
theory Transcript
  imports Project Framing
begin

text \<open>
  The append-only journal of chat messages (\<open>src/transcript.rs\<close>). The JSON codec is a parameter, and the
  file is its bytes: an append either writes all of them, or stops after a prefix, or fails to sync them.
  Opening the file (its directory and permissions) is that of \<open>State_Store\<close>.
\<close>

definition TRANSCRIPT_RECORD_VERSION :: u32 where "TRANSCRIPT_RECORD_VERSION = 1"
definition MAX_TRANSCRIPT_RECORD_BYTES :: nat where "MAX_TRANSCRIPT_RECORD_BYTES = 1024 * 1024"
definition MAX_TRANSCRIPT_FILE_BYTES :: nat where "MAX_TRANSCRIPT_FILE_BYTES = 64 * 1024 * 1024"

record transcript_record =
  tr_version :: u32
  tr_identity :: session_identity
  tr_sequence :: u64
  tr_role :: message_role
  tr_text :: ustring

record transcript_codec =
  co_encode :: "transcript_record \<Rightarrow> io_error + bytes"
  co_decode :: "bytes \<Rightarrow> io_error + transcript_record"

record transcript_journal =
  tj_path :: string
  tj_identity :: session_identity
  tj_file :: bytes
  tj_records :: "transcript_record list"
  tj_next_sequence :: u64
  tj_bytes :: nat

datatype transcript_recovery = Refuse | TruncatePartialTail

datatype append_outcome = AppendWritten | AppendStops nat io_error | AppendNotSynced io_error

definition numeral_text :: "nat \<Rightarrow> string" where
  "numeral_text n = map (\<lambda>c. char_of (unat c)) (decimal n)"

definition sequence_exhausted :: io_error where
  "sequence_exhausted = io_error_new InvalidData ''transcript sequence is exhausted''"

definition checked_next :: "u64 \<Rightarrow> io_error + u64" where
  "checked_next n = (case u64_checked_add n 1 of None \<Rightarrow> Inl sequence_exhausted | Some m \<Rightarrow> Inr m)"

section \<open>Reading\<close>

text \<open>The records of the complete lines, each without its line feed; the rest is the partial tail.\<close>

fun complete_lines :: "bytes \<Rightarrow> bytes \<Rightarrow> bytes list \<times> bytes" where
  "complete_lines line [] = ([], line)"
| "complete_lines line (b # bs) =
     (if b = 10 then (case complete_lines [] bs of (ls, tail) \<Rightarrow> (line # ls, tail)) else complete_lines (line @ [b]) bs)"

fun read_records :: "transcript_codec \<Rightarrow> session_identity \<Rightarrow> u64 \<Rightarrow> bytes list \<Rightarrow> io_error + transcript_record list" where
  "read_records codec identity expected [] = Inr []"
| "read_records codec identity expected (encoded # rest) =
     (if encoded = [] \<or> MAX_TRANSCRIPT_RECORD_BYTES < length encoded + 1
      then Inl (io_error_new InvalidData ''transcript contains an empty or oversized complete record'')
      else case co_decode codec encoded of
        Inl e \<Rightarrow> Inl e
      | Inr r \<Rightarrow>
          if tr_version r \<noteq> TRANSCRIPT_RECORD_VERSION
          then Inl (io_error_new InvalidData (''unsupported transcript record version '' @ numeral_text (unat (tr_version r))))
          else if tr_identity r \<noteq> identity
          then Inl (io_error_new InvalidData ''transcript record belongs to another session identity'')
          else if tr_sequence r \<noteq> expected
          then Inl (io_error_new InvalidData (''transcript sequence gap: expected '' @ numeral_text (unat expected) @
                 '', found '' @ numeral_text (unat (tr_sequence r))))
          else bind_sum (checked_next expected) (\<lambda>following.
               bind_sum (read_records codec identity following rest) (\<lambda>rs. Inr (r # rs))))"

text \<open>The records, the length of what is complete, and the file, cut where recovery was asked to cut it.\<close>

definition read_and_recover ::
    "transcript_codec \<Rightarrow> session_identity \<Rightarrow> transcript_recovery \<Rightarrow> io_error option \<Rightarrow> bytes
      \<Rightarrow> (io_error + transcript_record list \<times> nat) \<times> bytes" where
  "read_and_recover codec identity recovery truncated file =
     (if MAX_TRANSCRIPT_FILE_BYTES < length file
      then (Inl (io_error_new InvalidData (''transcript exceeds '' @ numeral_text MAX_TRANSCRIPT_FILE_BYTES @ '' bytes'')), file)
      else case complete_lines [] file of (ls, tail) \<Rightarrow>
        let last_complete = length file - length tail in
        case read_records codec identity 1 ls of
          Inl e \<Rightarrow> (Inl e, file)
        | Inr records \<Rightarrow>
            if tail = [] then (Inr (records, last_complete), file)
            else case recovery of
              Refuse \<Rightarrow>
                (Inl (io_error_new InvalidData
                   (''transcript has an incomplete final record; reopen with '' @
                    ''TranscriptRecovery::TruncatePartialTail to discard it'')), file)
            | TruncatePartialTail \<Rightarrow>
                (case truncated of
                   Some e \<Rightarrow> (Inl e, file)
                 | None \<Rightarrow> (Inr (records, last_complete), take last_complete file)))"

definition open_with_recovery ::
    "transcript_codec \<Rightarrow> string \<Rightarrow> session_identity \<Rightarrow> transcript_recovery \<Rightarrow> io_error option \<Rightarrow> bytes
      \<Rightarrow> (io_error + transcript_journal) \<times> bytes" where
  "open_with_recovery codec path identity recovery truncated file =
     (case read_and_recover codec identity recovery truncated file of
        (Inl e, file) \<Rightarrow> (Inl e, file)
      | (Inr (records, count), file) \<Rightarrow>
          (bind_sum (if records = [] then Inr 1 else checked_next (tr_sequence (last records))) (\<lambda>following.
             Inr \<lparr>tj_path = path, tj_identity = identity, tj_file = file, tj_records = records,
                  tj_next_sequence = following, tj_bytes = count\<rparr>), file))"

definition open_journal ::
    "transcript_codec \<Rightarrow> string \<Rightarrow> session_identity \<Rightarrow> bytes \<Rightarrow> (io_error + transcript_journal) \<times> bytes" where
  "open_journal codec path identity file = open_with_recovery codec path identity Refuse None file"

section \<open>Appending\<close>

definition journal_append ::
    "transcript_codec \<Rightarrow> append_outcome \<Rightarrow> message_role \<Rightarrow> ustring \<Rightarrow> transcript_journal \<Rightarrow> (io_error + u64) \<times> transcript_journal" where
  "journal_append codec outcome role content j =
     (let sq = tj_next_sequence j;
          r = \<lparr>tr_version = TRANSCRIPT_RECORD_VERSION, tr_identity = tj_identity j, tr_sequence = sq, tr_role = role,
               tr_text = content\<rparr> in
      case co_encode codec r of
        Inl e \<Rightarrow> (Inl e, j)
      | Inr encoded \<Rightarrow>
          let encoded = encoded @ [10]; new_size = tj_bytes j + length encoded in
          if MAX_TRANSCRIPT_RECORD_BYTES < length encoded
          then (Inl (io_error_new InvalidData (''transcript record exceeds '' @ numeral_text MAX_TRANSCRIPT_RECORD_BYTES @
                  '' bytes for '' @ tj_path j)), j)
          else if usize_max < new_size then (Inl (io_error_new InvalidData ''transcript size overflow''), j)
          else if MAX_TRANSCRIPT_FILE_BYTES < new_size
          then (Inl (io_error_new StorageFull (''transcript exceeds '' @ numeral_text MAX_TRANSCRIPT_FILE_BYTES @
                  '' bytes for '' @ tj_path j)), j)
          else case outcome of
            AppendStops n e \<Rightarrow> (Inl e, j\<lparr>tj_file := tj_file j @ take n encoded\<rparr>)
          | AppendNotSynced e \<Rightarrow> (Inl e, j\<lparr>tj_file := tj_file j @ encoded\<rparr>)
          | AppendWritten \<Rightarrow>
              let j = j\<lparr>tj_file := tj_file j @ encoded, tj_records := tj_records j @ [r]\<rparr> in
              (case checked_next sq of
                 Inl e \<Rightarrow> (Inl e, j)
               | Inr following \<Rightarrow> (Inr sq, j\<lparr>tj_next_sequence := following, tj_bytes := new_size\<rparr>)))"

section \<open>What is read back\<close>

text \<open>What the codec does: it decodes what it encodes, and its encodings hold no line feed.\<close>

definition codec_ok :: "transcript_codec \<Rightarrow> bool" where
  "codec_ok codec \<longleftrightarrow>
     (\<forall>r b. co_encode codec r = Inr b \<longrightarrow> b \<noteq> [] \<and> 10 \<notin> set b \<and> co_decode codec b = Inr r)"

definition encoding :: "transcript_codec \<Rightarrow> transcript_record \<Rightarrow> bytes" where
  "encoding codec r = projr (co_encode codec r)"

definition file_of :: "transcript_codec \<Rightarrow> transcript_record list \<Rightarrow> bytes" where
  "file_of codec rs = concat (map (\<lambda>r. encoding codec r @ [10]) rs)"

definition record_ok :: "transcript_codec \<Rightarrow> session_identity \<Rightarrow> nat \<Rightarrow> transcript_record \<Rightarrow> bool" where
  "record_ok codec identity n r \<longleftrightarrow> tr_version r = TRANSCRIPT_RECORD_VERSION \<and> tr_identity r = identity \<and>
     tr_sequence r = of_nat n \<and> co_encode codec r = Inr (encoding codec r) \<and>
     length (encoding codec r) + 1 \<le> MAX_TRANSCRIPT_RECORD_BYTES"

primrec records_ok :: "transcript_codec \<Rightarrow> session_identity \<Rightarrow> nat \<Rightarrow> transcript_record list \<Rightarrow> bool" where
  "records_ok codec identity n [] \<longleftrightarrow> True"
| "records_ok codec identity n (r # rs) \<longleftrightarrow> record_ok codec identity n r \<and> records_ok codec identity (n + 1) rs"

definition journal_ok :: "transcript_codec \<Rightarrow> transcript_journal \<Rightarrow> bool" where
  "journal_ok codec j \<longleftrightarrow>
     records_ok codec (tj_identity j) 1 (tj_records j) \<and> tj_file j = file_of codec (tj_records j) \<and>
     tj_bytes j = length (tj_file j) \<and> length (tj_file j) \<le> MAX_TRANSCRIPT_FILE_BYTES \<and>
     tj_next_sequence j = of_nat (length (tj_records j) + 1) \<and> length (tj_records j) + 1 < 2 ^ 64"

lemma codec_okD: "codec_ok codec \<Longrightarrow> record_ok codec identity n r \<Longrightarrow>
    encoding codec r \<noteq> [] \<and> 10 \<notin> set (encoding codec r) \<and> co_decode codec (encoding codec r) = Inr r"
  unfolding codec_ok_def record_ok_def by blast

lemma records_ok_append:
  "records_ok codec identity n (rs @ rs') \<longleftrightarrow> records_ok codec identity n rs \<and> records_ok codec identity (n + length rs) rs'"
  by (induction rs arbitrary: n) (auto simp: algebra_simps)

lemma complete_lines_line: "10 \<notin> set b \<Longrightarrow> complete_lines line (b @ 10 # bs) =
    (case complete_lines [] bs of (ls, tail) \<Rightarrow> ((line @ b) # ls, tail))"
  by (induction b arbitrary: line) auto

lemma complete_lines_tail: "10 \<notin> set bs \<Longrightarrow> complete_lines line bs = ([], line @ bs)"
  by (induction bs arbitrary: line) auto

lemma complete_lines_prefix:
  assumes "codec_ok codec" "records_ok codec identity n rs"
  shows "complete_lines [] (file_of codec rs @ tail) =
    (map (encoding codec) rs @ fst (complete_lines [] tail), snd (complete_lines [] tail))"
  using assms(2)
proof (induction rs arbitrary: n)
  case (Cons r rs)
  then have "10 \<notin> set (encoding codec r)" using codec_okD[OF assms(1)] by auto
  then show ?case
    using Cons complete_lines_line[of "encoding codec r" "[]" "file_of codec rs @ tail"] by (auto simp: file_of_def)
qed (simp add: file_of_def)

lemma complete_lines_file:
  assumes "codec_ok codec" "records_ok codec identity n rs" "10 \<notin> set tail"
  shows "complete_lines [] (file_of codec rs @ tail) = (map (encoding codec) rs, tail)"
  using complete_lines_prefix[OF assms(1,2)] complete_lines_tail[OF assms(3), of "[]"] by simp

lemma checked_next_of_nat: "n + 1 < 2 ^ 64 \<Longrightarrow> checked_next (of_nat n) = Inr (of_nat (n + 1))"
proof -
  assume n: "n + 1 < 2 ^ 64"
  have "unat (of_nat m :: u64) = m" if "m < 2 ^ 64" for m using that by (simp add: unsigned_of_nat take_bit_nat_eq_self)
  from this[of n] this[of "n + 1"] have "u64_checked_add (of_nat n) 1 = Some (of_nat n + 1)"
    using n by (subst u64_checked_add_Some_iff) (simp add: add.commute)
  then show ?thesis by (simp add: checked_next_def add.commute)
qed

lemma read_records_encoded:
  assumes "codec_ok codec" "records_ok codec identity n rs" "n + length rs < 2 ^ 64"
  shows "read_records codec identity (of_nat n) (map (encoding codec) rs) = Inr rs"
  using assms(2,3)
proof (induction rs arbitrary: n)
  case (Cons r rs)
  have "checked_next (of_nat n) = Inr (of_nat (n + 1))" using Cons.prems(2) by (intro checked_next_of_nat) simp
  then show ?case
    using Cons codec_okD[OF assms(1), of identity n r] by (simp add: record_ok_def not_less del: of_nat_add of_nat_Suc)
qed simp

lemma last_sequence:
  "records_ok codec identity n rs \<Longrightarrow> rs \<noteq> [] \<Longrightarrow> tr_sequence (last rs) = of_nat (n + length rs - 1)"
proof (induction rs arbitrary: n)
  case (Cons r rs)
  then show ?case by (cases "rs = []") (auto simp: record_ok_def)
qed simp

lemma open_recovers:
  assumes "codec_ok codec" "records_ok codec identity 1 rs" "10 \<notin> set tail" "length rs + 1 < 2 ^ 64"
    "length (file_of codec rs @ tail) \<le> MAX_TRANSCRIPT_FILE_BYTES" "tail = [] \<or> recovery = TruncatePartialTail"
  shows "open_with_recovery codec path identity recovery None (file_of codec rs @ tail) =
    (Inr \<lparr>tj_path = path, tj_identity = identity, tj_file = file_of codec rs, tj_records = rs,
       tj_next_sequence = of_nat (length rs + 1), tj_bytes = length (file_of codec rs)\<rparr>, file_of codec rs)"
proof -
  have "read_records codec identity 1 (map (encoding codec) rs) = Inr rs"
    using read_records_encoded[OF assms(1,2)] assms(4) by simp
  then have read: "read_and_recover codec identity recovery None (file_of codec rs @ tail)
      = (Inr (rs, length (file_of codec rs)), file_of codec rs)"
    using assms(5,6) complete_lines_file[OF assms(1-3)]
    by (auto simp: read_and_recover_def Let_def not_less split: transcript_recovery.split)
  have "checked_next (tr_sequence (last rs)) = Inr (of_nat (length rs + 1))" if "rs \<noteq> []"
    using last_sequence[OF assms(2) that] checked_next_of_nat[of "length rs"] assms(4) by simp
  then show ?thesis using read by (auto simp: open_with_recovery_def)
qed

section \<open>Appending and crashing\<close>

lemma journal_append_ok:
  assumes "codec_ok codec" "journal_ok codec j" "journal_append codec AppendWritten role content j = (Inr sq, j')"
  obtains r where "tj_records j' = tj_records j @ [r]" "record_ok codec (tj_identity j) (length (tj_records j) + 1) r"
    "tr_role r = role" "tr_text r = content" "sq = of_nat (length (tj_records j) + 1)" "journal_ok codec j'"
    "tj_identity j' = tj_identity j" "tj_path j' = tj_path j"
proof -
  let ?n = "length (tj_records j) + 1"
  define r where "r = \<lparr>tr_version = TRANSCRIPT_RECORD_VERSION, tr_identity = tj_identity j,
    tr_sequence = tj_next_sequence j, tr_role = role, tr_text = content\<rparr>"
  obtain e where e: "co_encode codec r = Inr e"
    using assms(3) by (cases "co_encode codec r") (auto simp: journal_append_def Let_def r_def)
  then have enc: "encoding codec r = e" by (simp add: encoding_def)
  obtain following where step: "checked_next (tj_next_sequence j) = Inr following"
    and size: "length e + 1 \<le> MAX_TRANSCRIPT_RECORD_BYTES" "tj_bytes j + length e + 1 \<le> MAX_TRANSCRIPT_FILE_BYTES"
    and j': "j' = j\<lparr>tj_file := tj_file j @ e @ [10], tj_records := tj_records j @ [r], tj_next_sequence := following,
          tj_bytes := tj_bytes j + length e + 1\<rparr>" and sq: "sq = tj_next_sequence j"
    using assms(3) e by (auto simp: journal_append_def Let_def r_def[symmetric] not_less split: if_splits sum.splits)
  have n: "tj_next_sequence j = of_nat ?n" "?n < 2 ^ 64" using assms(2) by (simp_all add: journal_ok_def)
  have "unat (tj_next_sequence j) = ?n" using n by (simp add: unsigned_of_nat take_bit_nat_eq_self del: of_nat_Suc of_nat_add)
  moreover have "unat (tj_next_sequence j) + 1 < 2 ^ 64"
    using step by (auto simp: checked_next_def u64_checked_add_def split: if_splits)
  ultimately have "?n + 1 < 2 ^ 64" by simp
  then have following: "following = of_nat (?n + 1)" using step n(1) checked_next_of_nat[of ?n] by simp
  have rec: "record_ok codec (tj_identity j) ?n r" using e enc size(1) n(1) by (simp add: record_ok_def r_def)
  have "journal_ok codec j'"
    using assms(2) rec size following \<open>?n + 1 < 2 ^ 64\<close> enc
    by (simp add: journal_ok_def j' records_ok_append file_of_def del: of_nat_Suc)
  then show ?thesis
    using that[of r] rec n sq by (simp add: j' r_def)
qed

lemma file_of_snoc: "file_of codec (rs @ [r]) = file_of codec rs @ encoding codec r @ [10]"
  by (simp add: file_of_def)

lemma journal_append_file:
  assumes "codec_ok codec" "journal_ok codec j" "journal_append codec AppendWritten role content j = (Inr sq, j')"
  shows "\<exists>r. tj_records j' = tj_records j @ [r] \<and> 10 \<notin> set (encoding codec r) \<and>
      tj_file j' = tj_file j @ encoding codec r @ [10] \<and> journal_ok codec j' \<and> tj_identity j' = tj_identity j"
proof -
  obtain r where r: "tj_records j' = tj_records j @ [r]" "record_ok codec (tj_identity j) (length (tj_records j) + 1) r"
    "journal_ok codec j'" "tj_identity j' = tj_identity j"
    by (rule journal_append_ok[OF assms])
  have "10 \<notin> set (encoding codec r)" using codec_okD[OF assms(1) r(2)] by blast
  moreover have "tj_file j' = file_of codec (tj_records j')" "tj_file j = file_of codec (tj_records j)"
    using r(3) assms(2) unfolding journal_ok_def by blast+
  ultimately show ?thesis using r by (auto simp: file_of_snoc)
qed

text \<open>
  C14. An append survives a crash at any moment: whatever part of its record reached the file, opening the
  journal again for recovery returns, with the messages before the append, or with the new one too when
  all of its record did, and with a journal that goes on from there; a journal that was closed in order opens
  without recovery to the same messages.
\<close>

theorem transcript_survives_crash:
  assumes "codec_ok codec" "journal_ok codec j" "journal_append codec AppendWritten role content j = (Inr sq, j')"
    and crash: "written = take n (drop (length (tj_file j)) (tj_file j'))"
  shows "\<exists>k file. open_with_recovery codec path (tj_identity j) TruncatePartialTail None (tj_file j @ written) = (Inr k, file)
    \<and> journal_ok codec k \<and> tj_file k = file
    \<and> tj_records k = (if tj_file j @ written = tj_file j' then tj_records j' else tj_records j)
    \<and> open_journal codec path (tj_identity j) (tj_file j') = (Inr (j'\<lparr>tj_path := path\<rparr>), tj_file j')"
proof -
  obtain r where j': "tj_records j' = tj_records j @ [r]" "10 \<notin> set (encoding codec r)"
    "tj_file j' = tj_file j @ encoding codec r @ [10]" "journal_ok codec j'" "tj_identity j' = tj_identity j"
    using journal_append_file[OF assms(1-3)] by blast
  have reopen: "open_with_recovery codec path (tj_identity i) recovery None (tj_file i @ tail) = (Inr (i\<lparr>tj_path := path\<rparr>), tj_file i)"
    if "journal_ok codec i" "10 \<notin> set tail" "length (tj_file i @ tail) \<le> MAX_TRANSCRIPT_FILE_BYTES"
      "tail = [] \<or> recovery = TruncatePartialTail" for i recovery tail
    using that open_recovers[OF assms(1), of "tj_identity i" "tj_records i" tail recovery path] by (simp add: journal_ok_def)
  have ok_path: "journal_ok codec (i\<lparr>tj_path := path\<rparr>) = journal_ok codec i" for i by (simp add: journal_ok_def)
  have bound: "length (tj_file j') \<le> MAX_TRANSCRIPT_FILE_BYTES" using j'(4) unfolding journal_ok_def by blast
  have again: "open_journal codec path (tj_identity j) (tj_file j') = (Inr (j'\<lparr>tj_path := path\<rparr>), tj_file j')"
    using reopen[of j' "[]" Refuse] j'(4,5) bound by (simp add: open_journal_def)
  have written: "written = take n (encoding codec r @ [10])" using crash j'(3) by simp
  show ?thesis
  proof (cases "n \<le> length (encoding codec r)")
    case True
    then have "written = take n (encoding codec r)" using written by simp
    then have "10 \<notin> set written" "length written \<le> length (encoding codec r)" using j'(2) by (auto dest: in_set_takeD)
    then have "10 \<notin> set written" "tj_file j @ written \<noteq> tj_file j'" "length (tj_file j @ written) \<le> length (tj_file j')"
      using j'(3) by auto
    then show ?thesis using reopen[of j written TruncatePartialTail] assms(2) bound again ok_path by auto
  next
    case False
    then have "tj_file j @ written = tj_file j'" using written j'(3) by simp
    then show ?thesis using reopen[of j' "[]" TruncatePartialTail] j'(4,5) bound again ok_path by auto
  qed
qed

text \<open>A codec of one message, and the journal it goes into.\<close>

definition sample_record :: transcript_record where
  "sample_record = \<lparr>tr_version = 1, tr_identity = SessionIdentity (StateNamespace 1) (SessionToken 2), tr_sequence = 1,
     tr_role = RoleUser, tr_text = [72, 105]\<rparr>"

definition sample_codec :: transcript_codec where
  "sample_codec =
     \<lparr>co_encode = (\<lambda>r. if r = sample_record then Inr [123, 125] else Inl sequence_exhausted),
      co_decode = (\<lambda>b. if b = [123, 125] then Inr sample_record else Inl sequence_exhausted)\<rparr>"

definition sample_journal :: transcript_journal where
  "sample_journal = \<lparr>tj_path = ''chat'', tj_identity = SessionIdentity (StateNamespace 1) (SessionToken 2), tj_file = [],
     tj_records = [], tj_next_sequence = 1, tj_bytes = 0\<rparr>"

lemma sample_append:
  "journal_append sample_codec AppendWritten RoleUser [72, 105] sample_journal =
    (Inr 1, sample_journal\<lparr>tj_file := [123, 125, 10], tj_records := [sample_record], tj_next_sequence := 2, tj_bytes := 3\<rparr>)"
  by (simp add: journal_append_def sample_codec_def sample_journal_def sample_record_def Let_def TRANSCRIPT_RECORD_VERSION_def
      MAX_TRANSCRIPT_RECORD_BYTES_def MAX_TRANSCRIPT_FILE_BYTES_def usize_max_def checked_next_def u64_checked_add_def)

theorem transcript_survives_crash_witness:
  "\<exists>k file. open_with_recovery sample_codec ''chat'' (tj_identity sample_journal) TruncatePartialTail None [123, 125] = (Inr k, file)
     \<and> tj_records k = []"
proof -
  have "codec_ok sample_codec" by (auto simp: codec_ok_def sample_codec_def split: if_splits)
  moreover have "journal_ok sample_codec sample_journal"
    by (simp add: journal_ok_def sample_journal_def file_of_def)
  ultimately show ?thesis
    using transcript_survives_crash[OF _ _ sample_append, of "[123, 125]" 2 "''chat''"]
    by (auto simp: sample_journal_def)
qed

text \<open>A record whose number is not the one due makes the file unreadable.\<close>

lemma read_records_wrong_number:
  assumes "codec_ok codec" "co_encode codec r = Inr b"
  shows "records_ok codec identity n rs \<Longrightarrow> of_nat (n + length rs) \<noteq> tr_sequence r \<Longrightarrow>
    \<exists>error. read_records codec identity (of_nat n) (map (encoding codec) rs @ [b]) = Inl error"
proof (induction rs arbitrary: n)
  case Nil
  have "co_decode codec b = Inr r" using assms by (auto simp: codec_ok_def)
  then show ?case using Nil by (simp add: not_less)
next
  case (Cons x xs)
  show ?case
  proof (cases "checked_next (of_nat n)")
    case (Inl e)
    then show ?thesis using Cons.prems codec_okD[OF assms(1), of identity n x] by (simp add: record_ok_def not_less)
  next
    case (Inr m)
    then have "m = of_nat (n + 1)" by (auto simp: checked_next_def u64_checked_add_def split: if_splits option.splits)
    then obtain error where "read_records codec identity m (map (encoding codec) xs @ [b]) = Inl error"
      using Cons.IH[of "n + 1"] Cons.prems by auto
    then show ?thesis
      using Inr Cons.prems codec_okD[OF assms(1), of identity n x] by (simp add: record_ok_def not_less)
  qed
qed

text \<open>
  C15. A failed append is not followed up: when the record was written but not synced, the journal goes on
  with the number it has used, and after the next append the file cannot be opened again, whatever recovery
  is asked for.
\<close>

theorem append_after_failed_sync_is_unreadable:
  assumes "codec_ok codec" "journal_ok codec j"
    "journal_append codec (AppendNotSynced e) role content j = (Inl e, j1)" "tj_file j1 \<noteq> tj_file j"
    "journal_append codec AppendWritten role' content' j1 = (Inr sq, j2)"
  shows "\<exists>error. open_with_recovery codec path (tj_identity j) recovery truncated (tj_file j2) = (Inl error, tj_file j2)"
proof -
  let ?n = "length (tj_records j) + 1"
  define r where "r = \<lparr>tr_version = TRANSCRIPT_RECORD_VERSION, tr_identity = tj_identity j,
    tr_sequence = tj_next_sequence j, tr_role = role, tr_text = content\<rparr>"
  define r' where "r' = \<lparr>tr_version = TRANSCRIPT_RECORD_VERSION, tr_identity = tj_identity j,
    tr_sequence = tj_next_sequence j, tr_role = role', tr_text = content'\<rparr>"
  obtain b where b: "co_encode codec r = Inr b" "j1 = j\<lparr>tj_file := tj_file j @ b @ [10]\<rparr>"
      "length b + 1 \<le> MAX_TRANSCRIPT_RECORD_BYTES"
    using assms(3,4) by (auto simp: journal_append_def Let_def r_def[symmetric] not_less split: sum.splits if_splits)
  obtain b' where b': "co_encode codec r' = Inr b'" "tj_file j2 = tj_file j1 @ b' @ [10]"
    using assms(5) b(2) by (auto simp: journal_append_def Let_def r'_def[symmetric] not_less split: sum.splits if_splits)
  have j: "records_ok codec (tj_identity j) 1 (tj_records j)" "tj_file j = file_of codec (tj_records j)"
    "tj_next_sequence j = of_nat ?n" "?n < 2 ^ 64"
    using assms(2) unfolding journal_ok_def by blast+
  let ?rs = "tj_records j @ [r]"
  have rs: "records_ok codec (tj_identity j) 1 ?rs"
    using b j(1,3) by (simp add: records_ok_append record_ok_def encoding_def r_def)
  have contents: "tj_file j2 = file_of codec ?rs @ b' @ [10]" using b b' j(2) by (simp add: file_of_snoc encoding_def)
  have "10 \<notin> set b'" using assms(1) b'(1) by (auto simp: codec_ok_def)
  then have split: "complete_lines [] (tj_file j2) = (map (encoding codec) ?rs @ [b'], [])"
    using complete_lines_prefix[OF assms(1) rs] complete_lines_line[of b' "[]" "[]"] contents by simp
  have "of_nat (1 + length ?rs) \<noteq> tr_sequence r'" using j(3) by (simp add: r'_def)
  then obtain error where "read_records codec (tj_identity j) 1 (map (encoding codec) ?rs @ [b']) = Inl error"
    using read_records_wrong_number[OF assms(1) b'(1) rs] by auto
  then show ?thesis using split by (auto simp: open_with_recovery_def read_and_recover_def Let_def)
qed

theorem append_after_failed_sync_is_unreadable_witness:
  "\<exists>error. open_with_recovery sample_codec ''chat'' (tj_identity sample_journal) TruncatePartialTail None
      [123, 125, 10, 123, 125, 10] = (Inl error, [123, 125, 10, 123, 125, 10])"
proof -
  let ?e = "io_error_new InvalidData ''sync''"
  let ?j = "sample_journal\<lparr>tj_file := [123, 125, 10]\<rparr>"
  have ok: "codec_ok sample_codec" "journal_ok sample_codec sample_journal"
    by (auto simp: codec_ok_def sample_codec_def journal_ok_def sample_journal_def file_of_def split: if_splits)
  have failed: "journal_append sample_codec (AppendNotSynced ?e) RoleUser [72, 105] sample_journal = (Inl ?e, ?j)"
    "tj_file ?j \<noteq> tj_file sample_journal"
    by (simp_all add: journal_append_def sample_codec_def sample_journal_def sample_record_def Let_def
        TRANSCRIPT_RECORD_VERSION_def MAX_TRANSCRIPT_RECORD_BYTES_def MAX_TRANSCRIPT_FILE_BYTES_def usize_max_def)
  have again: "journal_append sample_codec AppendWritten RoleUser [72, 105] ?j =
      (Inr 1, ?j\<lparr>tj_file := [123, 125, 10, 123, 125, 10], tj_records := [sample_record], tj_next_sequence := 2, tj_bytes := 3\<rparr>)"
    by (simp add: journal_append_def sample_codec_def sample_journal_def sample_record_def Let_def TRANSCRIPT_RECORD_VERSION_def
      MAX_TRANSCRIPT_RECORD_BYTES_def MAX_TRANSCRIPT_FILE_BYTES_def usize_max_def checked_next_def u64_checked_add_def)
  show ?thesis
    using append_after_failed_sync_is_unreadable[OF ok failed again, of "''chat''" TruncatePartialTail None] by simp
qed

end
