(* ===== verification/Key_Encoding.thy ===== *)
theory Key_Encoding
  imports Terminal_Input
begin

text \<open>
  From keys to the bytes a terminal sends (\<open>src/runtime/keymap.rs\<close>), and the control keys the client takes
  for itself. A key is what the host terminal reports: a code, modifiers, and whether it came from the
  keypad. The code names the keys the source names; \<open>OtherKey\<close> stands for the rest. The upper case of a
  character is a parameter.
\<close>

section \<open>Keys\<close>

datatype key_code =
    KeyBackspace | KeyEnter | KeyLeft | KeyRight | KeyUp | KeyDown | KeyHome | KeyEnd | KeyPageUp | KeyPageDown
  | KeyTab | KeyBackTab | KeyDelete | KeyInsert | KeyF u8 | KeyChar uchar | KeyEsc | KeyKeypadBegin | OtherKey

record key_event =
  ke_code :: key_code
  ke_shift :: bool
  ke_alt :: bool
  ke_control :: bool
  ke_super :: bool
  ke_keypad :: bool

record pty_key_modes =
  km_application_cursor :: bool
  km_application_keypad :: bool

definition pty_key_modes_default :: pty_key_modes where
  "pty_key_modes_default = \<lparr>km_application_cursor = False, km_application_keypad = False\<rparr>"

definition char_lower :: "uchar \<Rightarrow> uchar" where
  "char_lower c = (if 65 \<le> c \<and> c \<le> 90 then c + 32 else c)"

section \<open>The client's own keys\<close>

definition is_control_key :: "key_event \<Rightarrow> bool" where
  "is_control_key k \<longleftrightarrow> ke_control k \<and> \<not> ke_alt k"

definition is_quit_key :: "key_event \<Rightarrow> bool" where
  "is_quit_key k \<longleftrightarrow> ke_code k = KeyEsc \<and> is_control_key k"

definition is_unshifted_control_char :: "key_event \<Rightarrow> uchar \<Rightarrow> bool" where
  "is_unshifted_control_char k target \<longleftrightarrow>
     (case ke_code k of KeyChar c \<Rightarrow> is_control_key k \<and> \<not> ke_shift k \<and> c = char_lower target | _ \<Rightarrow> False)"

definition is_shifted_control_char :: "key_event \<Rightarrow> uchar \<Rightarrow> bool" where
  "is_shifted_control_char k target \<longleftrightarrow>
     (case ke_code k of KeyChar c \<Rightarrow> is_control_key k \<and> ke_shift k \<and> char_lower c = char_lower target | _ \<Rightarrow> False)"

definition letter :: "string \<Rightarrow> uchar" where
  "letter s = hd (ascii s)"

definition is_control_down_key :: "key_event \<Rightarrow> bool" where
  "is_control_down_key k \<longleftrightarrow> is_unshifted_control_char k (letter ''j'') \<or> ke_code k = KeyEnter \<and> is_control_key k"

definition is_control_up_key :: "key_event \<Rightarrow> bool" where
  "is_control_up_key k \<longleftrightarrow> is_unshifted_control_char k (letter ''k'')"

section \<open>Sequences\<close>

definition xterm_modifier_code :: "key_event \<Rightarrow> u8 option" where
  "xterm_modifier_code k =
     (let bits = (if ke_shift k then 1 else 0) + (if ke_alt k then 2 else 0) + (if ke_control k then 4 else (0 :: u8)) in
      if bits \<noteq> 0 then Some (bits + 1) else None)"

text \<open>A sequence that begins with ESC.\<close>

definition esc :: "string \<Rightarrow> bytes" where
  "esc s = 0x1b # ascii_bytes s"

definition cursor_key_bytes :: "bool \<Rightarrow> string \<Rightarrow> bytes" where
  "cursor_key_bytes application_cursor final = esc (if application_cursor then ''O'' else ''['') @ ascii_bytes final"

fun csi_letter_key :: "key_code \<Rightarrow> string option" where
  "csi_letter_key KeyUp = Some ''A''"
| "csi_letter_key KeyDown = Some ''B''"
| "csi_letter_key KeyRight = Some ''C''"
| "csi_letter_key KeyLeft = Some ''D''"
| "csi_letter_key KeyHome = Some ''H''"
| "csi_letter_key KeyEnd = Some ''F''"
| "csi_letter_key (KeyF n) =
     (if n = 1 then Some ''P'' else if n = 2 then Some ''Q'' else if n = 3 then Some ''R''
      else if n = 4 then Some ''S'' else None)"
| "csi_letter_key _ = None"

definition function_key_number :: "u8 \<Rightarrow> nat option" where
  "function_key_number n = map_of [(5, 15), (6, 17), (7, 18), (8, 19), (9, 20), (10, 21), (11, 23), (12, 24)] n"

fun csi_tilde_key :: "key_code \<Rightarrow> nat option" where
  "csi_tilde_key KeyInsert = Some 2"
| "csi_tilde_key KeyDelete = Some 3"
| "csi_tilde_key KeyPageUp = Some 5"
| "csi_tilde_key KeyPageDown = Some 6"
| "csi_tilde_key (KeyF n) = function_key_number n"
| "csi_tilde_key _ = None"

definition decimal_bytes :: "nat \<Rightarrow> bytes" where
  "decimal_bytes n = text_bytes (decimal n)"

section \<open>Plain keys\<close>

definition char_in :: "uchar \<Rightarrow> string \<Rightarrow> bool" where
  "char_in c s \<longleftrightarrow> c \<in> set (ascii s)"

definition control_byte :: "uchar \<Rightarrow> u8 option" where
  "control_byte c =
     (let c = char_lower c in
      if 97 \<le> c \<and> c \<le> 122 then Some (ucast c - 97 + 1)
      else if char_in c ''@ 2'' then Some 0
      else if char_in c ''[3'' then Some 0x1b
      else if c = 92 \<or> char_in c ''4'' then Some 0x1c
      else if char_in c '']5'' then Some 0x1d
      else if char_in c ''^6'' then Some 0x1e
      else if char_in c ''_7/'' then Some 0x1f
      else if char_in c ''?8'' then Some 0x7f
      else None)"

definition keypad_finals :: "(uchar \<times> string) list" where
  "keypad_finals = map (\<lambda>(k, f). (letter k, f))
     [(''0'', ''p''), (''1'', ''q''), (''2'', ''r''), (''3'', ''s''), (''4'', ''t''), (''5'', ''u''), (''6'', ''v''),
      (''7'', ''w''), (''8'', ''x''), (''9'', ''y''), (''*'', ''j''), (''+'', ''k''), ('','', ''l''), (''-'', ''m''),
      (''.'', ''n''), (''/'', ''o''), (''='', ''X'')]"

definition application_keypad_bytes :: "key_event \<Rightarrow> pty_key_modes \<Rightarrow> bytes option" where
  "application_keypad_bytes k modes =
     (if \<not> km_application_keypad modes \<or> \<not> ke_keypad k \<or> ke_control k \<or> ke_alt k \<or> ke_shift k \<or> ke_super k then None
      else
        map_option (\<lambda>final. esc ''O'' @ ascii_bytes final)
          (case ke_code k of
             KeyChar c \<Rightarrow> map_of keypad_finals c
           | KeyEnter \<Rightarrow> Some ''M''
           | KeyKeypadBegin \<Rightarrow> Some ''E''
           | _ \<Rightarrow> None))"

definition char_key_bytes :: "(uchar \<Rightarrow> ustring) \<Rightarrow> key_event \<Rightarrow> uchar \<Rightarrow> bytes" where
  "char_key_bytes upper k c =
     (if ke_control k then (case control_byte c of Some b \<Rightarrow> [b] | None \<Rightarrow> str_bytes [c])
      else if ke_shift k then str_bytes (upper c)
      else str_bytes [c])"

definition function_key_bytes :: "u8 \<Rightarrow> bytes option" where
  "function_key_bytes n =
     (case csi_letter_key (KeyF n) of
        Some final \<Rightarrow> Some (esc ''O'' @ ascii_bytes final)
      | None \<Rightarrow> map_option (\<lambda>number. esc ''['' @ decimal_bytes number @ ascii_bytes ''~'') (function_key_number n))"

definition base_key_to_pty_bytes :: "(uchar \<Rightarrow> ustring) \<Rightarrow> key_event \<Rightarrow> pty_key_modes \<Rightarrow> bytes option" where
  "base_key_to_pty_bytes upper k modes =
     (case application_keypad_bytes k modes of
        Some bs \<Rightarrow> Some bs
      | None \<Rightarrow>
          let cursor = cursor_key_bytes (km_application_cursor modes) in
          (case ke_code k of
             KeyBackspace \<Rightarrow> Some (if ke_control k then [0x08] else [0x7f])
           | KeyEnter \<Rightarrow> Some [13]
           | KeyEsc \<Rightarrow> Some [0x1b]
           | KeyLeft \<Rightarrow> Some (cursor ''D'')
           | KeyRight \<Rightarrow> Some (cursor ''C'')
           | KeyUp \<Rightarrow> Some (cursor ''A'')
           | KeyDown \<Rightarrow> Some (cursor ''B'')
           | KeyHome \<Rightarrow> Some (cursor ''H'')
           | KeyEnd \<Rightarrow> Some (cursor ''F'')
           | KeyKeypadBegin \<Rightarrow> Some (esc ''[E'')
           | KeyPageUp \<Rightarrow> Some (esc ''[5~'')
           | KeyPageDown \<Rightarrow> Some (esc ''[6~'')
           | KeyTab \<Rightarrow> Some [9]
           | KeyBackTab \<Rightarrow> Some (esc ''[Z'')
           | KeyDelete \<Rightarrow> Some (esc ''[3~'')
           | KeyInsert \<Rightarrow> Some (esc ''[2~'')
           | KeyF n \<Rightarrow> function_key_bytes n
           | KeyChar c \<Rightarrow>
               if is_shifted_control_char k (letter ''c'') then None else Some (char_key_bytes upper k c)
           | OtherKey \<Rightarrow> None))"

definition key_to_pty_bytes_in_mode :: "(uchar \<Rightarrow> ustring) \<Rightarrow> key_event \<Rightarrow> pty_key_modes \<Rightarrow> bytes" where
  "key_to_pty_bytes_in_mode upper k modes =
     (case (xterm_modifier_code k, csi_letter_key (ke_code k), csi_tilde_key (ke_code k)) of
        (Some modifier, Some final, _) \<Rightarrow> esc ''[1;'' @ decimal_bytes (unat modifier) @ ascii_bytes final
      | (Some modifier, None, Some number) \<Rightarrow>
          esc ''['' @ decimal_bytes number @ ascii_bytes '';'' @ decimal_bytes (unat modifier) @ ascii_bytes ''~''
      | _ \<Rightarrow>
          (case base_key_to_pty_bytes upper k modes of
             None \<Rightarrow> []
           | Some bs \<Rightarrow> if ke_alt k then 0x1b # bs else bs))"

end
