(* ===== verification/Client_Layout.thy ===== *)
theory Client_Layout
  imports App_Prompts
begin

text \<open>
  Where each surface goes in a frame (\<open>src/layout.rs\<close>). How ratatui divides a rectangle between a part of
  a fixed length and one of a least length is a parameter.
\<close>

record rect =
  rc_x :: "16 word"
  rc_y :: "16 word"
  rc_width :: "16 word"
  rc_height :: "16 word"

text \<open>The arguments are the constraints: the least length and the fixed one, in the order of the parts.\<close>

record splitter =
  sp_rows :: "u16 \<Rightarrow> u16 \<Rightarrow> rect \<Rightarrow> rect \<times> rect"
  sp_columns :: "u16 \<Rightarrow> u16 \<Rightarrow> rect \<Rightarrow> rect \<times> rect"

record app_layout =
  ly_area :: rect
  ly_sidebar :: rect
  ly_main :: rect
  ly_prompt :: rect

definition SIDEBAR_WIDTH :: u16 where "SIDEBAR_WIDTH = 34"
definition MIN_MAIN_WIDTH :: u16 where "MIN_MAIN_WIDTH = 40"

definition prompt_height :: "app \<Rightarrow> u16" where
  "prompt_height a =
     (let height =
        (case prompt_of a of
           Some (CommandPalette _) \<Rightarrow> 7
         | Some (OpenWorkspace p) \<Rightarrow> if ow_mode p = ConfiguredProjects then 7 else 3
         | Some _ \<Rightarrow> 3
         | None \<Rightarrow> 0) in
      height + (if length (ap_notices a) < 2 ^ 16 then of_nat (length (ap_notices a)) else - 1))"

definition layout_compute :: "splitter \<Rightarrow> app \<Rightarrow> rect \<Rightarrow> app_layout" where
  "layout_compute sp a area =
     (case sp_rows sp 1 (prompt_height a) area of (body, prompt) \<Rightarrow>
        (case sp_columns sp SIDEBAR_WIDTH MIN_MAIN_WIDTH body of (sidebar, main) \<Rightarrow>
           \<lparr>ly_area = area, ly_sidebar = sidebar, ly_main = main, ly_prompt = prompt\<rparr>))"

definition terminal_output :: "app_layout \<Rightarrow> rect" where "terminal_output = ly_main"
definition chat_agent_output :: "app_layout \<Rightarrow> rect" where "chat_agent_output = ly_main"

definition selected_terminal_output :: "app_layout \<Rightarrow> app \<Rightarrow> (terminal_id \<times> rect) option" where
  "selected_terminal_output layout a =
     (case selected_item a of Some (NavTerminal _ t) \<Rightarrow> Some (t, terminal_output layout) | _ \<Rightarrow> None)"

definition selected_chat_agent_output :: "app_layout \<Rightarrow> app \<Rightarrow> (chat_id \<times> rect) option" where
  "selected_chat_agent_output layout a =
     (case selected_item a of Some (NavChat _ c) \<Rightarrow> Some (c, chat_agent_output layout) | _ \<Rightarrow> None)"

end
