(* ===== verification/Git_Branch.thy ===== *)
theory Git_Branch
  imports Rust_Paths Wire_Text Remote Ordered_Map
begin

text \<open>
  The checked-out branch of a workspace: read from the files of its repository (\<open>src/git.rs\<close>), or fetched
  from another machine by a probe in the background (\<open>src/runtime/remote_branch.rs\<close>). The file system, and
  what ssh prints, are parameters.
\<close>

section \<open>Text from bytes that may not be UTF-8\<close>

definition is_continuation :: "u8 \<Rightarrow> bool" where
  "is_continuation b \<longleftrightarrow> 0x80 \<le> b \<and> b \<le> 0xBF"

text \<open>The second byte a leading byte admits.\<close>

definition second_ok :: "u8 \<Rightarrow> u8 \<Rightarrow> bool" where
  "second_ok a b \<longleftrightarrow>
     (if a = 0xE0 then 0xA0 \<le> b \<and> b \<le> 0xBF
      else if a = 0xED then 0x80 \<le> b \<and> b \<le> 0x9F
      else if a = 0xF0 then 0x90 \<le> b \<and> b \<le> 0xBF
      else if a = 0xF4 then 0x80 \<le> b \<and> b \<le> 0x8F
      else is_continuation b)"

definition utf8_width :: "u8 \<Rightarrow> nat" where
  "utf8_width a =
     (if a < 0x80 then 1 else if 0xC2 \<le> a \<and> a \<le> 0xDF then 2 else if 0xE0 \<le> a \<and> a \<le> 0xEF then 3
      else if 0xF0 \<le> a \<and> a \<le> 0xF4 then 4 else 0)"

text \<open>How many of the bytes after the first fit the sequence it begins.\<close>

definition fitting :: "u8 \<Rightarrow> bytes \<Rightarrow> nat" where
  "fitting a bs =
     (let want = utf8_width a - 1; next = take want bs in
      if next = [] \<or> \<not> second_ok a (hd next) then 0 else 1 + length (takeWhile is_continuation (tl next)))"

function utf8_lossy :: "bytes \<Rightarrow> ustring" where
  "utf8_lossy [] = []"
| "utf8_lossy (a # bs) =
     (if fitting a bs + 1 = utf8_width a
      then decode_utf8 (a # take (fitting a bs) bs) @ utf8_lossy (drop (fitting a bs) bs)
      else 0xFFFD # utf8_lossy (drop (fitting a bs) bs))"
  by pat_completeness auto
termination by (relation "measure length") auto

section \<open>Branches on this machine\<close>

definition MAX_GIT_POINTER_BYTES :: nat where "MAX_GIT_POINTER_BYTES = 4 * 1024"
definition MAX_GIT_ANCESTOR_DEPTH :: nat where "MAX_GIT_ANCESTOR_DEPTH = 64"
definition MAX_BRANCH_NAME_CHARS :: nat where "MAX_BRANCH_NAME_CHARS = 255"

datatype entry_kind = EntryDir | EntryFile | EntrySymlink | EntryOther
datatype entry_answer = EntryAbsent | EntryUnreadable | Entry entry_kind

text \<open>\<open>gf_is_dir\<close> follows links; \<open>gf_read\<close> opens without following one and says what kind of file it found.\<close>

record git_files =
  gf_is_dir :: "ustring \<Rightarrow> bool"
  gf_entry :: "ustring \<Rightarrow> entry_answer"
  gf_canonicalize :: "ustring \<Rightarrow> ustring option"
  gf_read :: "ustring \<Rightarrow> (entry_kind \<times> bytes) option"

definition first_nonempty_line :: "bytes \<Rightarrow> ustring option" where
  "first_nonempty_line output = find (\<lambda>line. line \<noteq> []) (map trim (lines (utf8_lossy output)))"

definition is_displayable_branch :: "ustring \<Rightarrow> bool" where
  "is_displayable_branch branch \<longleftrightarrow>
     branch \<noteq> [] \<and> length branch \<le> MAX_BRANCH_NAME_CHARS \<and> \<not> (\<exists>c \<in> set branch. is_control c)"

definition branch_from_head :: "bytes \<Rightarrow> ustring option" where
  "branch_from_head head =
     (case Option.bind (first_nonempty_line head) (strip_prefix (ascii ''ref:'')) of
        None \<Rightarrow> None
      | Some target \<Rightarrow>
          (case strip_prefix (ascii ''refs/heads/'') (trim target) of
             None \<Rightarrow> None
           | Some branch \<Rightarrow> if is_displayable_branch branch then Some branch else None))"

definition read_bounded_regular_file :: "git_files \<Rightarrow> ustring \<Rightarrow> bytes option" where
  "read_bounded_regular_file fs path =
     (case gf_read fs path of
        Some (EntryFile, content) \<Rightarrow> if length content \<le> MAX_GIT_POINTER_BYTES then Some content else None
      | _ \<Rightarrow> None)"

definition git_dir_from_pointer :: "git_files \<Rightarrow> ustring \<Rightarrow> ustring \<Rightarrow> ustring option" where
  "git_dir_from_pointer fs pointer base =
     (case Option.bind (Option.bind (read_bounded_regular_file fs pointer) first_nonempty_line) (strip_prefix (ascii ''gitdir:'')) of
        None \<Rightarrow> None
      | Some target \<Rightarrow>
          let target = trim target in
          if target = [] then None
          else let target = path_join base target in if gf_is_dir fs target then Some target else None)"

text \<open>The path and the directories above it.\<close>

definition path_of_parts :: "bool \<Rightarrow> bool \<Rightarrow> ustring list \<Rightarrow> ustring" where
  "path_of_parts absolute dot parts =
     (let joined = concat (map (\<lambda>part. SLASH # part) parts) in
      if absolute then (if parts = [] then [SLASH] else joined)
      else if dot then ascii ''.'' @ joined
      else drop 1 joined)"

definition path_ancestors :: "ustring \<Rightarrow> ustring list" where
  "path_ancestors p =
     (case path_components p of (absolute, dot, parts) \<Rightarrow>
        p # map (\<lambda>n. path_of_parts absolute dot (take n parts)) (rev [0..<length parts]) @
        (if \<not> absolute \<and> dot then [[]] else []))"

fun git_dir_in :: "git_files \<Rightarrow> ustring list \<Rightarrow> ustring option" where
  "git_dir_in fs [] = None"
| "git_dir_in fs (ancestor # ancestors) =
     (let candidate = path_join ancestor (ascii ''.git'') in
      case gf_entry fs candidate of
        EntryAbsent \<Rightarrow> git_dir_in fs ancestors
      | EntryUnreadable \<Rightarrow> None
      | Entry kind \<Rightarrow>
          (case (if kind = EntrySymlink then gf_canonicalize fs candidate else Some candidate) of
             None \<Rightarrow> None
           | Some entry \<Rightarrow>
               (case gf_entry fs entry of
                  Entry EntryDir \<Rightarrow> Some entry
                | Entry EntryFile \<Rightarrow> git_dir_from_pointer fs entry ancestor
                | _ \<Rightarrow> None)))"

definition resolve_git_dir :: "git_files \<Rightarrow> ustring \<Rightarrow> ustring option" where
  "resolve_git_dir fs start = git_dir_in fs (take MAX_GIT_ANCESTOR_DEPTH (path_ancestors start))"

definition current_branch :: "git_files \<Rightarrow> ustring \<Rightarrow> ustring option" where
  "current_branch fs cwd =
     (if \<not> gf_is_dir fs cwd then None
      else case resolve_git_dir fs cwd of
        None \<Rightarrow> None
      | Some git_dir \<Rightarrow>
          Option.bind (read_bounded_regular_file fs (path_join git_dir (ascii ''HEAD''))) branch_from_head)"

lemma branch_is_displayable: "branch_from_head head = Some branch \<Longrightarrow> is_displayable_branch branch"
  by (auto simp: branch_from_head_def split: option.splits if_splits)

lemma current_branch_is_displayable: "current_branch fs cwd = Some branch \<Longrightarrow> is_displayable_branch branch"
  by (auto simp: current_branch_def bind_eq_Some_conv branch_is_displayable split: if_splits option.splits)

text \<open>The first \<open>.git\<close> found decides: the repositories around it are not asked.\<close>

lemma first_repository_decides:
  "(\<And>a. a \<in> set before \<Longrightarrow> gf_entry fs (path_join a (ascii ''.git'')) = EntryAbsent) \<Longrightarrow>
    gf_entry fs (path_join ancestor (ascii ''.git'')) \<noteq> EntryAbsent \<Longrightarrow>
    git_dir_in fs (before @ ancestor # others) = git_dir_in fs [ancestor]"
  by (induction before) (auto simp: Let_def split: entry_answer.splits)

section \<open>Branches on another machine\<close>

definition REFRESH_INTERVAL :: nat where "REFRESH_INTERVAL = 30 * 10 ^ 9"
definition CONNECT_TIMEOUT_SECONDS :: nat where "CONNECT_TIMEOUT_SECONDS = 5"
definition MAX_HEAD_BYTES :: nat where "MAX_HEAD_BYTES = 4 * 1024"

definition probe_arguments :: "remote_target \<Rightarrow> remote_error + ustring list" where
  "probe_arguments target =
     bind_sum (check_destination (rt_host target)) (\<lambda>destination.
     bind_sum (head_file_token (rt_path target)) (\<lambda>head.
       Inr ([ascii ''-o'', ascii ''BatchMode=yes'', ascii ''-o'', ascii ''ConnectTimeout='' @ decimal CONNECT_TIMEOUT_SECONDS,
             ascii ''-o'', ascii ''ServerAliveInterval=5'', ascii ''-o'', ascii ''ServerAliveCountMax=2'',
             destination, ascii ''cat '' @ head])))"

text \<open>The output of a probe: nothing when it could not be run, at most a byte more than is accepted.\<close>

definition read_remote_head :: "(ustring list \<Rightarrow> bytes option) \<Rightarrow> ustring list \<Rightarrow> bytes option" where
  "read_remote_head ssh arguments =
     (case ssh arguments of
        None \<Rightarrow> None
      | Some output \<Rightarrow> let bs = take (MAX_HEAD_BYTES + 1) output in if length bs \<le> MAX_HEAD_BYTES then Some bs else None)"

record branch_probe =
  bp_known :: "(workspace_id, ustring option) btmap"
  bp_started :: "(workspace_id, nat) btmap"
  bp_in_flight :: "workspace_id btset"
  bp_threads :: "(workspace_id \<times> ustring list) list"

definition branch_probe_default :: branch_probe where
  "branch_probe_default = \<lparr>bp_known = btm_empty, bp_started = btm_empty, bp_in_flight = btm_empty, bp_threads = []\<rparr>"

definition collect_answer :: "workspace_id \<times> ustring option \<Rightarrow> branch_probe \<Rightarrow> branch_probe" where
  "collect_answer = (\<lambda>(w, branch) bp.
     bp\<lparr>bp_in_flight := btm_remove w (bp_in_flight bp), bp_known := btm_insert w branch (bp_known bp)\<rparr>)"

definition collect_answers :: "(workspace_id \<times> ustring option) list \<Rightarrow> branch_probe \<Rightarrow> branch_probe" where
  "collect_answers answers bp = fold collect_answer answers bp"

definition probe_branch :: "workspace_id \<Rightarrow> branch_probe \<Rightarrow> ustring option" where
  "probe_branch w bp = (case btm_get (bp_known bp) w of Some (Some branch) \<Rightarrow> Some branch | _ \<Rightarrow> None)"

text \<open>\<open>spawned\<close> says whether the thread could be started; \<open>bp_threads\<close> collects those that were.\<close>

definition probe_refresh :: "bool \<Rightarrow> workspace_id \<Rightarrow> remote_target \<Rightarrow> nat \<Rightarrow> branch_probe \<Rightarrow> branch_probe" where
  "probe_refresh spawned w target now bp =
     (if btm_contains (bp_in_flight bp) w then bp
      else if (case btm_get (bp_started bp) w of Some started \<Rightarrow> now - started < REFRESH_INTERVAL | None \<Rightarrow> False) then bp
      else case probe_arguments target of
        Inl _ \<Rightarrow> bp\<lparr>bp_known := btm_insert w None (bp_known bp), bp_started := btm_insert w now (bp_started bp)\<rparr>
      | Inr arguments \<Rightarrow>
          let bp = bp\<lparr>bp_started := btm_insert w now (bp_started bp), bp_in_flight := bts_insert w (bp_in_flight bp)\<rparr> in
          if spawned then bp\<lparr>bp_threads := bp_threads bp @ [(w, arguments)]\<rparr>
          else bp\<lparr>bp_in_flight := btm_remove w (bp_in_flight bp)\<rparr>)"

definition probe_thread :: "(ustring list \<Rightarrow> bytes option) \<Rightarrow> workspace_id \<times> ustring list \<Rightarrow> workspace_id \<times> ustring option" where
  "probe_thread ssh = (\<lambda>(w, arguments). (w, Option.bind (read_remote_head ssh arguments) branch_from_head))"

definition probe_retain :: "workspace_id btset \<Rightarrow> branch_probe \<Rightarrow> branch_probe" where
  "probe_retain live bp =
     bp\<lparr>bp_known := btm_filter (\<lambda>(w, _). btm_contains live w) (bp_known bp),
        bp_started := btm_filter (\<lambda>(w, _). btm_contains live w) (bp_started bp),
        bp_in_flight := btm_filter (\<lambda>(w, _). btm_contains live w) (bp_in_flight bp)\<rparr>"

end
