(* ===== verification/Command_Line.thy ===== *)
theory Command_Line
  imports Git_Branch
begin

text \<open>
  The command lines of both programs (\<open>src/cli.rs\<close>). An argument is its bytes, since a path need not be
  UTF-8. The text of the help and the version of the package are parameters.
\<close>

datatype binary = Client | Server

fun binary_name :: "binary \<Rightarrow> ustring" where
  "binary_name Client = ascii ''mult''"
| "binary_name Server = ascii ''mult-server''"

record options =
  op_config :: "bytes option"
  op_state :: "bytes option"
  op_socket :: "bytes option"

definition options_default :: options where
  "options_default = \<lparr>op_config = None, op_state = None, op_socket = None\<rparr>"

datatype invocation = Run options | Print ustring

record usage_error =
  ue_binary :: binary
  ue_message :: ustring

definition usage_error_text :: "usage_error \<Rightarrow> ustring" where
  "usage_error_text e =
     binary_name (ue_binary e) @ ascii '': '' @ ue_message e @ [10] @
     ascii ''Try `'' @ binary_name (ue_binary e) @ ascii '' --help` for the accepted options.''"

definition usage :: "binary \<Rightarrow> ustring \<Rightarrow> usage_error" where
  "usage bin message = \<lparr>ue_binary = bin, ue_message = message\<rparr>"

definition unrecognized :: "binary \<Rightarrow> bytes \<Rightarrow> usage_error" where
  "unrecognized bin argument = usage bin (ascii ''unrecognized option `'' @ utf8_lossy argument @ ascii ''`'')"

definition unexpected_operand :: "binary \<Rightarrow> bytes \<Rightarrow> usage_error" where
  "unexpected_operand bin argument =
     usage bin (ascii ''unexpected argument `'' @ utf8_lossy argument @ ascii ''`; '' @ binary_name bin @
       ascii '' takes options only'')"

definition missing_value :: "binary \<Rightarrow> ustring \<Rightarrow> usage_error" where
  "missing_value bin name = usage bin (ascii ''`'' @ name @ ascii ''` requires a path'')"

definition not_for_the_daemon :: "binary \<Rightarrow> ustring \<Rightarrow> usage_error" where
  "not_for_the_daemon bin name =
     usage bin (ascii ''`'' @ name @
       ascii ''` is a mult option, not a mult-server one: the daemon reads neither the config nor the state file'')"

definition DASHES :: bytes where "DASHES = ascii_bytes ''--''"
definition EQUALS :: u8 where "EQUALS = 0x3D"

definition split_inline_value :: "bytes \<Rightarrow> bytes \<times> bytes option" where
  "split_inline_value argument =
     (if take 2 argument \<noteq> DASHES then (argument, None)
      else let name = takeWhile (\<lambda>b. b \<noteq> EQUALS) argument in
        if length name < length argument \<and> 2 < length name
        then (name, Some (drop (length name + 1) argument)) else (argument, None))"

definition assign :: "binary \<Rightarrow> ustring \<Rightarrow> bytes option \<Rightarrow> bytes \<Rightarrow> usage_error + bytes option" where
  "assign bin name slot value =
     (if slot \<noteq> None then Inl (usage bin (ascii ''`'' @ name @ ascii ''` was given more than once''))
      else if value = [] then Inl (missing_value bin name)
      else Inr (Some value))"

datatype flag = ConfigFlag | StateFlag | SocketFlag

fun flag_name :: "flag \<Rightarrow> string" where
  "flag_name ConfigFlag = ''--config''"
| "flag_name StateFlag = ''--state''"
| "flag_name SocketFlag = ''--socket''"

definition flag_of :: "bytes \<Rightarrow> flag option" where
  "flag_of name = find (\<lambda>f. ascii_bytes (flag_name f) = name) [ConfigFlag, StateFlag, SocketFlag]"

definition assign_flag :: "binary \<Rightarrow> flag \<Rightarrow> bytes \<Rightarrow> options \<Rightarrow> usage_error + options" where
  "assign_flag bin f value os =
     (case f of
        SocketFlag \<Rightarrow> bind_sum (assign bin (ascii (flag_name f)) (op_socket os) value) (\<lambda>v. Inr (os\<lparr>op_socket := v\<rparr>))
      | ConfigFlag \<Rightarrow> bind_sum (assign bin (ascii (flag_name f)) (op_config os) value) (\<lambda>v. Inr (os\<lparr>op_config := v\<rparr>))
      | StateFlag \<Rightarrow> bind_sum (assign bin (ascii (flag_name f)) (op_state os) value) (\<lambda>v. Inr (os\<lparr>op_state := v\<rparr>)))"

text \<open>Whether the bytes are UTF-8: decoding replaced nothing.\<close>

definition is_utf8 :: "bytes \<Rightarrow> bool" where
  "is_utf8 bs \<longleftrightarrow> str_bytes (utf8_lossy bs) = bs"

fun parse_arguments :: "(binary \<Rightarrow> ustring) \<Rightarrow> ustring \<Rightarrow> binary \<Rightarrow> options \<Rightarrow> bytes list \<Rightarrow> usage_error + invocation" where
  "parse_arguments help version bin os [] = Inr (Run os)"
| "parse_arguments help version bin os (argument # rest) =
     (case split_inline_value argument of (name, inline) \<Rightarrow>
        if \<not> is_utf8 name then Inl (unrecognized bin argument)
        else if name \<in> {ascii_bytes ''-h'', ascii_bytes ''--help''} then Inr (Print (help bin))
        else if name \<in> {ascii_bytes ''-V'', ascii_bytes ''--version''}
        then Inr (Print (binary_name bin @ ascii '' '' @ version))
        else if name = DASHES then
          (case rest of [] \<Rightarrow> Inr (Run os) | operand # _ \<Rightarrow> Inl (unexpected_operand bin operand))
        else case flag_of name of
          Some f \<Rightarrow>
            if bin = Server \<and> f \<noteq> SocketFlag then Inl (not_for_the_daemon bin (ascii (flag_name f)))
            else (case inline of
              Some value \<Rightarrow> bind_sum (assign_flag bin f value os) (\<lambda>os. parse_arguments help version bin os rest)
            | None \<Rightarrow>
                (case rest of
                   [] \<Rightarrow> Inl (missing_value bin (ascii (flag_name f)))
                 | value # rest \<Rightarrow>
                     bind_sum (assign_flag bin f value os) (\<lambda>os. parse_arguments help version bin os rest)))
        | None \<Rightarrow>
            if name \<noteq> [] \<and> hd name = 0x2D then Inl (unrecognized bin argument)
            else Inl (unexpected_operand bin argument))"

definition parse :: "(binary \<Rightarrow> ustring) \<Rightarrow> ustring \<Rightarrow> binary \<Rightarrow> bytes list \<Rightarrow> usage_error + invocation" where
  "parse help version bin arguments = parse_arguments help version bin options_default arguments"

end
