(* ===== verification/Spec2Isabelle.thy ===== *)
theory Spec2Isabelle
  imports Daemon_Properties Runtime_Trust Framing Project_Properties Prompt_Input App_Properties Store_Properties Pty_Properties Pty_Selection Attach_Delivery
    Transcript Key_Encoding Client_Layout Command_Line
begin

text \<open>
  A development of mult, a terminal multiplexer for coding agents.
\<close>

end
